(* ===== verification/Sn_Prelude.thy ===== *)
theory Sn_Prelude
  imports Main "HOL-Library.Word"
begin

unbundle bit_operations_syntax

text \<open>
  Shared vocabulary of the development: the widths of C integers that the code truncates to,
  the bit width of a natural number, big-endian byte strings, the index ranges that every
  gRPC handler derives from a request identifier, and the loop that runs a handler over such
  a range while it updates the indexed objects.
\<close>

named_theorems range_facts \<open>index ranges of requests and the loops over them\<close>
named_theorems width_facts \<open>bit widths and truncations\<close>

type_synonym bytes = "8 word list"

subsection \<open>Truncation to the C integer widths\<close>

definition u16 :: "nat \<Rightarrow> nat" where
  "u16 n = n mod 65536"

definition u32 :: "int \<Rightarrow> nat" where
  "u32 i = nat (i mod 4294967296)"

lemma u16_less [width_facts]: "u16 n < 65536"
  by (simp add: u16_def)

lemma u16_id [width_facts]: "n < 65536 \<Longrightarrow> u16 n = n"
  by (simp add: u16_def)

lemma u32_less [width_facts]: "u32 i < 4294967296"
  by (simp add: u32_def nat_less_iff)

lemma u32_id [width_facts]: "n < 4294967296 \<Longrightarrow> u32 (int n) = n"
  by (simp add: u32_def)

subsection \<open>The number of binary digits\<close>

fun bit_width :: "nat \<Rightarrow> nat" where
  "bit_width n = (if n = 0 then 0 else Suc (bit_width (n div 2)))"

declare bit_width.simps [simp del]

lemma bit_width_0 [simp]: "bit_width 0 = 0"
  by (simp add: bit_width.simps)

lemma bit_width_le_iff [width_facts]: "bit_width n \<le> k \<longleftrightarrow> n < 2 ^ k"
proof (induction n arbitrary: k rule: bit_width.induct)
  case (1 n)
  show ?case
  proof (cases "n = 0")
    case False
    show ?thesis
    proof (cases k)
      case 0
      then show ?thesis using False by (subst bit_width.simps) simp
    next
      case (Suc j)
      have "bit_width n \<le> k \<longleftrightarrow> bit_width (n div 2) \<le> j"
        using False Suc by (subst bit_width.simps) simp
      also have "\<dots> \<longleftrightarrow> n div 2 < 2 ^ j" using False by (rule 1)
      also have "\<dots> \<longleftrightarrow> n < 2 ^ k" using Suc by (simp add: less_mult_imp_div_less) linarith
      finally show ?thesis .
    qed
  qed simp
qed

lemma bit_width_mono: "m \<le> n \<Longrightarrow> bit_width m \<le> bit_width n"
  by (meson bit_width_le_iff le_less_trans order_refl)

subsection \<open>Big-endian byte strings\<close>

definition be_value :: "bytes \<Rightarrow> nat" where
  "be_value bs = foldl (\<lambda>a b. a * 256 + unat b) 0 bs"

lemma be_value_foldl: "foldl (\<lambda>a b. a * 256 + unat b) a bs = a * 256 ^ length bs + be_value bs"
proof (induction bs arbitrary: a)
  case Nil
  show ?case by (simp add: be_value_def)
next
  case (Cons b bs)
  have "foldl (\<lambda>a b. a * 256 + unat b) a (b # bs) = (a * 256 + unat b) * 256 ^ length bs + be_value bs"
    using Cons.IH [of "a * 256 + unat b"] by simp
  moreover have "be_value (b # bs) = unat b * 256 ^ length bs + be_value bs"
    using Cons.IH [of "unat b"] by (simp add: be_value_def)
  ultimately show ?case by (simp add: algebra_simps)
qed

lemma be_value_append: "be_value (as @ bs) = be_value as * 256 ^ length bs + be_value bs"
  using be_value_foldl [of "be_value as" bs] by (simp add: be_value_def)

lemma be_value_zeros [simp]: "be_value (replicate n 0) = 0"
  by (induction n) (simp_all add: be_value_def)

lemma be_value_pad [simp]: "be_value (replicate n 0 @ bs) = be_value bs"
  by (simp add: be_value_append)

lemma be_value_Nil [simp]: "be_value [] = 0"
  by (simp add: be_value_def)

subsection \<open>Bounds of the field-by-field extension of a packed integer\<close>

lemma or_abs_bound:
  fixes x y :: int
  assumes "\<bar>x\<bar> < 2 ^ n" and "\<bar>y\<bar> < 2 ^ n"
  shows "\<bar>x OR y\<bar> < 2 ^ n"
proof (cases "0 \<le> x \<and> 0 \<le> y")
  case True
  then have "x OR y < 2 ^ n" using assms by (intro OR_upper) auto
  moreover have "0 \<le> x OR y" using True by simp
  ultimately show ?thesis by simp
next
  case False
  then have neg: "x OR y < 0" by auto
  have "min x y \<le> x OR y"
  proof (cases "0 \<le> x \<or> 0 \<le> y")
    case True
    then show ?thesis
    proof
      assume "0 \<le> x"
      then have "y \<le> y OR x" by (rule or_greater_eq)
      then show ?thesis by (simp add: or.commute)
    next
      assume "0 \<le> y"
      then have "x \<le> x OR y" by (rule or_greater_eq)
      then show ?thesis by simp
    qed
  next
    case both: False
    then have "NOT x AND NOT y \<le> NOT x" by (intro AND_upper1) (simp add: not_int_def)
    then have "x \<le> NOT (NOT x AND NOT y)" by (simp add: not_int_def)
    also have "NOT (NOT x AND NOT y) = x OR y" by simp
    finally show ?thesis by simp
  qed
  then have "- (2 ^ n) < x OR y" using assms by linarith
  then show ?thesis using neg by linarith
qed

lemma push_or_bound:
  fixes x y :: int
  assumes "\<bar>x\<bar> < 2 ^ n" and "\<bar>y\<bar> < 2 ^ b"
  shows "\<bar>push_bit b x OR y\<bar> < 2 ^ (n + b)"
proof (rule or_abs_bound)
  have "\<bar>x\<bar> * 2 ^ b < 2 ^ n * 2 ^ b" using assms(1) by (intro mult_strict_right_mono) auto
  then show "\<bar>push_bit b x\<bar> < 2 ^ (n + b)" by (simp add: push_bit_eq_mult abs_mult power_add)
  have "(2::int) ^ b \<le> 2 ^ (n + b)" by (rule power_increasing) auto
  then show "\<bar>y\<bar> < 2 ^ (n + b)" using assms(2) by linarith
qed

lemma push_or_nonneg:
  fixes x y :: int
  assumes "0 \<le> x" and "0 \<le> y" and "y < 2 ^ b"
  shows "push_bit b x OR y = x * 2 ^ b + y"
proof -
  have "push_bit b x AND y = 0"
  proof (rule bit_eqI)
    fix i
    show "bit (push_bit b x AND y) i = bit (0::int) i"
    proof (cases "b \<le> i")
      case True
      have "take_bit b y = y" using assms by (simp add: take_bit_int_eq_self)
      then have "\<not> bit y i" using True by (metis bit_take_bit_iff not_less)
      then show ?thesis by (simp add: bit_and_iff)
    next
      case False
      then show ?thesis by (simp add: bit_and_iff bit_push_bit_iff)
    qed
  qed
  then have "push_bit b x OR y = push_bit b x + y" by (metis disjunctive_add_eq_or)
  then show ?thesis by (simp add: push_bit_eq_mult)
qed

subsection \<open>Index ranges of requests\<close>

text \<open>
  Every handler turns the identifier of its request into a range of 0-based indexes:
  an identifier past the last index is an error, a negative one means all of them.
\<close>

definition id_range :: "int \<Rightarrow> nat \<Rightarrow> nat list option" where
  "id_range req_id n =
     (if req_id > int n - 1 then None
      else if req_id > -1 then Some [nat req_id]
      else Some [0..<n])"

lemma id_range_None_iff [range_facts]: "id_range i n = None \<longleftrightarrow> int n \<le> i"
  by (auto simp: id_range_def)

lemma id_range_single [range_facts]: "0 \<le> i \<Longrightarrow> i < int n \<Longrightarrow> id_range i n = Some [nat i]"
  by (simp add: id_range_def)

lemma id_range_all [range_facts]: "i < 0 \<Longrightarrow> id_range i n = Some [0..<n]"
  by (simp add: id_range_def)

lemma id_range_bound [range_facts]: "id_range i n = Some is \<Longrightarrow> j \<in> set is \<Longrightarrow> j < n"
  by (auto simp: id_range_def split: if_splits)

lemma id_range_distinct [range_facts]: "id_range i n = Some is \<Longrightarrow> distinct is"
  by (auto simp: id_range_def split: if_splits)

text \<open>
  The loop over such a range: the body gets the index and the state, and returns the next state
  and the responses that it writes, or stops the whole loop with a value of type \<open>'e\<close>.
\<close>

fun for_each_id :: "(nat \<Rightarrow> 's \<Rightarrow> 'e + ('s \<times> 'r list)) \<Rightarrow> nat list \<Rightarrow> 's \<Rightarrow> 'e + ('s \<times> 'r list)" where
  "for_each_id body [] s = Inr (s, [])"
| "for_each_id body (i # is) s =
     (case body i s of Inl e \<Rightarrow> Inl e
      | Inr (s1, rs1) \<Rightarrow>
        (case for_each_id body is s1 of Inl e \<Rightarrow> Inl e
         | Inr (s2, rs2) \<Rightarrow> Inr (s2, rs1 @ rs2)))"

definition for_range :: "int \<Rightarrow> nat \<Rightarrow> 'r \<Rightarrow> (nat \<Rightarrow> 's \<Rightarrow> 'e + ('s \<times> 'r list)) \<Rightarrow> 's \<Rightarrow> 'e + ('s \<times> 'r list)" where
  "for_range req_id n invalid body s =
     (case id_range req_id n of None \<Rightarrow> Inr (s, [invalid]) | Some is \<Rightarrow> for_each_id body is s)"

text \<open>
  The contract of such a body: an invariant of the state is kept, and the responses for index \<open>i\<close>
  have the keys \<open>expect i\<close>.  Then the responses of the loop have the keys of all its indexes,
  in order.
\<close>

locale range_handler =
  fixes body :: "nat \<Rightarrow> 's \<Rightarrow> 'e + ('s \<times> 'r list)"
    and stable :: "'s \<Rightarrow> bool"
    and bound :: nat
    and key :: "'r \<Rightarrow> 'k"
    and expect :: "nat \<Rightarrow> 'k list"
  assumes step: "stable s \<Longrightarrow> i < bound \<Longrightarrow> body i s = Inr (s', rs) \<Longrightarrow> stable s' \<and> map key rs = expect i"
begin

lemma loop:
  "stable s \<Longrightarrow> \<forall>i \<in> set is. i < bound \<Longrightarrow> for_each_id body is s = Inr (s', rs) \<Longrightarrow>
   stable s' \<and> map key rs = concat (map expect is)"
proof (induction "is" arbitrary: s rs)
  case (Cons i "is")
  from Cons.prems(3) obtain s1 rs1 rs2 where
    1: "body i s = Inr (s1, rs1)" "for_each_id body is s1 = Inr (s', rs2)" "rs = rs1 @ rs2"
    by (auto split: sum.splits prod.splits)
  with step [OF Cons.prems(1) _ 1(1)] Cons.IH [of s1 rs2] Cons.prems(2) show ?case by simp
qed simp

lemma range:
  assumes "stable s" and "for_range req_id bound invalid body s = Inr (s', rs)"
  shows "stable s' \<and> map key rs = (case id_range req_id bound of None \<Rightarrow> [key invalid]
                              | Some is \<Rightarrow> concat (map expect is))"
proof (cases "id_range req_id bound")
  case None
  then show ?thesis using assms by (auto simp add: for_range_def)
next
  case (Some "is")
  then have "\<forall>i \<in> set is. i < bound" using id_range_bound by blast
  with Some show ?thesis using assms loop by (simp add: for_range_def)
qed

end

text \<open>The other half of the contract: a body that never stops the loop.\<close>

lemma for_each_id_total:
  assumes "\<And>i s. i \<in> set is \<Longrightarrow> P s \<Longrightarrow> \<exists>s' rs. body i s = Inr (s', rs) \<and> P s'" and "P s"
  shows "\<exists>s' rs. for_each_id body is s = Inr (s', rs) \<and> P s'"
  using assms
proof (induction "is" arbitrary: s)
  case (Cons i "is")
  from Cons.prems(1) [of i s] Cons.prems(2) obtain s1 rs1 where
    1: "body i s = Inr (s1, rs1)" "P s1" by auto
  from Cons.IH [of s1] Cons.prems(1) 1(2) obtain s2 rs2 where
    "for_each_id body is s1 = Inr (s2, rs2)" "P s2" by auto
  with 1 show ?case by simp
qed simp

lemma for_range_total:
  assumes "\<And>i s. i < n \<Longrightarrow> P s \<Longrightarrow> \<exists>s' rs. body i s = Inr (s', rs) \<and> P s'" and "P s"
  shows "\<exists>s' rs. for_range req_id n invalid body s = Inr (s', rs) \<and> P s'"
proof (cases "id_range req_id n")
  case None
  then show ?thesis using assms(2) by (simp add: for_range_def)
next
  case (Some "is")
  then have "\<And>i s. i \<in> set is \<Longrightarrow> P s \<Longrightarrow> \<exists>s' rs. body i s = Inr (s', rs) \<and> P s'"
    using assms(1) id_range_bound by blast
  from for_each_id_total [OF this assms(2)] show ?thesis using Some by (simp add: for_range_def)
qed

subsection \<open>Decimal numbers\<close>

fun dec :: "nat \<Rightarrow> string" where
  "dec n = (if n < 10 then [char_of (48 + n)] else dec (n div 10) @ [char_of (48 + n mod 10)])"

declare dec.simps [simp del]

end
