(* ===== verification/Gmp_Model.thy ===== *)
theory Gmp_Model
  imports Sn_Prelude
begin

text \<open>
  The GNU multiple precision library is not part of the repository.  An \<open>mpz_t\<close> is read as a
  mathematical integer, so that addition, multiplication by a power of two, comparison and the
  two's complement inclusive-or are the operations on \<open>int\<close>; the remaining functions the
  code calls are the fields of a parameter, and \<open>gmp_documented\<close> states what the manual of
  the library documents about them.
\<close>

record gmp =
  mpz_sizeinbase2 :: "int \<Rightarrow> nat"      \<comment> \<open>\<open>mpz_sizeinbase (op, 2)\<close>\<close>
  mpz_scan0 :: "int \<Rightarrow> nat \<Rightarrow> nat"
  mpz_scan1 :: "int \<Rightarrow> nat \<Rightarrow> nat"
  mpz_export_be :: "int \<Rightarrow> bytes"        \<comment> \<open>\<open>mpz_export (.., 1, 1, 1, 0, op)\<close>\<close>
  mpz_init_set_str0 :: "string \<Rightarrow> int option"  \<comment> \<open>base 0; \<open>None\<close> for a result other than 0\<close>

definition BITCNT_MAX :: nat where
  "BITCNT_MAX = 18446744073709551615"

definition gmp_documented :: "gmp \<Rightarrow> bool" where
  "gmp_documented g \<longleftrightarrow>
     (\<forall>x. mpz_sizeinbase2 g x = max 1 (bit_width (nat \<bar>x\<bar>))) \<and>
     (\<forall>x s i. s \<le> i \<and> bit x i \<and> (\<forall>j. s \<le> j \<and> j < i \<longrightarrow> \<not> bit x j) \<longrightarrow> mpz_scan1 g x s = i) \<and>
     (\<forall>x s. (\<forall>i \<ge> s. \<not> bit x i) \<longrightarrow> mpz_scan1 g x s = BITCNT_MAX) \<and>
     (\<forall>x s i. s \<le> i \<and> \<not> bit x i \<and> (\<forall>j. s \<le> j \<and> j < i \<longrightarrow> bit x j) \<longrightarrow> mpz_scan0 g x s = i) \<and>
     (\<forall>x s. (\<forall>i \<ge> s. bit x i) \<longrightarrow> mpz_scan0 g x s = BITCNT_MAX) \<and>
     (\<forall>x. be_value (mpz_export_be g x) = nat \<bar>x\<bar>) \<and>
     (\<forall>x. length (mpz_export_be g x) = (bit_width (nat \<bar>x\<bar>) + 7) div 8)"

lemma gmp_size [width_facts]:
  "gmp_documented g \<Longrightarrow> mpz_sizeinbase2 g x = max 1 (bit_width (nat \<bar>x\<bar>))"
  by (simp add: gmp_documented_def)

lemma gmp_size_le:
  assumes "gmp_documented g"
  shows "mpz_sizeinbase2 g x \<le> b \<longleftrightarrow> 0 < b \<and> \<bar>x\<bar> < 2 ^ b"
proof -
  have "bit_width (nat \<bar>x\<bar>) \<le> b \<longleftrightarrow> nat \<bar>x\<bar> < 2 ^ b" by (rule bit_width_le_iff)
  also have "\<dots> \<longleftrightarrow> \<bar>x\<bar> < 2 ^ b" by (simp add: nat_less_iff)
  finally show ?thesis using assms by (auto simp: gmp_size)
qed

lemma gmp_export_value: "gmp_documented g \<Longrightarrow> be_value (mpz_export_be g x) = nat \<bar>x\<bar>"
  by (simp add: gmp_documented_def)

lemma gmp_export_length:
  "gmp_documented g \<Longrightarrow> length (mpz_export_be g x) = (bit_width (nat \<bar>x\<bar>) + 7) div 8"
  by (simp add: gmp_documented_def)

lemma gmp_export_fits:
  assumes "gmp_documented g"
  shows "length (mpz_export_be g x) \<le> (mpz_sizeinbase2 g x + 7) div 8"
  using assms by (simp add: gmp_export_length gmp_size div_le_mono)

lemma gmp_scan1:
  assumes "gmp_documented g" and "s \<le> i" and "bit x i" and "\<And>j. s \<le> j \<Longrightarrow> j < i \<Longrightarrow> \<not> bit x j"
  shows "mpz_scan1 g x s = i"
  using assms by (auto simp: gmp_documented_def)

lemma gmp_scan0:
  assumes "gmp_documented g" and "s \<le> i" and "\<not> bit x i" and "\<And>j. s \<le> j \<Longrightarrow> j < i \<Longrightarrow> bit x j"
  shows "mpz_scan0 g x s = i"
  using assms by (auto simp: gmp_documented_def)

lemma gmp_scan0_none:
  "gmp_documented g \<Longrightarrow> (\<And>i. s \<le> i \<Longrightarrow> bit x i) \<Longrightarrow> mpz_scan0 g x s = BITCNT_MAX"
  by (auto simp: gmp_documented_def)

subsection \<open>A concrete library that has the documented behaviour\<close>

function ref_scan1 :: "int \<Rightarrow> nat \<Rightarrow> nat" where
  "ref_scan1 x s = (if drop_bit s x = 0 then BITCNT_MAX else if bit x s then s else ref_scan1 x (Suc s))"
  by pat_completeness auto

lemma drop_bit_Suc_div2: "drop_bit (Suc s) (x::int) = drop_bit s x div 2"
  by (simp add: drop_bit_eq_div power_Suc2 zdiv_zmult2_eq del: power_Suc)

lemma bit_odd_drop: "bit (x::int) s \<longleftrightarrow> odd (drop_bit s x)"
  by (simp add: bit_iff_odd_drop_bit)

termination ref_scan1
proof (relation "measure (\<lambda>(x, s). nat \<bar>drop_bit s x\<bar>)", goal_cases)
  case (2 x s)
  then have "even (drop_bit s x)" "drop_bit s x \<noteq> 0" by (simp_all add: bit_odd_drop)
  then show ?case by (auto simp: drop_bit_Suc_div2 elim!: evenE)
qed simp

function ref_scan0 :: "int \<Rightarrow> nat \<Rightarrow> nat" where
  "ref_scan0 x s = (if drop_bit s x = - 1 then BITCNT_MAX else if \<not> bit x s then s else ref_scan0 x (Suc s))"
  by pat_completeness auto

termination ref_scan0
proof (relation "measure (\<lambda>(x, s). nat \<bar>drop_bit s x\<bar>)", goal_cases)
  case (2 x s)
  then have "odd (drop_bit s x)" "drop_bit s x \<noteq> - 1" by (simp_all add: bit_odd_drop)
  then obtain k where "drop_bit s x = 2 * k + 1" "k \<noteq> - 1" by (auto elim!: oddE)
  then show ?case by (auto simp: drop_bit_Suc_div2)
qed simp

declare ref_scan1.simps [simp del] ref_scan0.simps [simp del]

fun ref_export :: "nat \<Rightarrow> bytes" where
  "ref_export n = (if n = 0 then [] else ref_export (n div 256) @ [word_of_nat (n mod 256)])"

declare ref_export.simps [simp del]

fun ref_digit :: "char \<Rightarrow> nat option" where
  "ref_digit c =
     (let n = of_char c :: nat in
      if 48 \<le> n \<and> n \<le> 57 then Some (n - 48)
      else if 97 \<le> n \<and> n \<le> 102 then Some (n - 87)
      else if 65 \<le> n \<and> n \<le> 70 then Some (n - 55)
      else None)"

fun ref_digits :: "nat \<Rightarrow> string \<Rightarrow> nat \<Rightarrow> nat option" where
  "ref_digits b [] a = Some a"
| "ref_digits b (c # cs) a =
     (case ref_digit c of None \<Rightarrow> None
      | Some d \<Rightarrow> if d < b then ref_digits b cs (a * b + d) else None)"

definition ref_unsigned :: "string \<Rightarrow> nat option" where
  "ref_unsigned s =
     (if s = [] then None
      else if take 2 s = ''0x'' \<or> take 2 s = ''0X'' then
        (if length s = 2 then None else ref_digits 16 (drop 2 s) 0)
      else if take 1 s = ''0'' then ref_digits 8 s 0
      else ref_digits 10 s 0)"

definition ref_set_str :: "string \<Rightarrow> int option" where
  "ref_set_str s =
     (if take 1 s = ''-'' then map_option (\<lambda>n. - int n) (ref_unsigned (drop 1 s))
      else map_option int (ref_unsigned s))"

definition gmp_ref :: gmp where
  "gmp_ref = \<lparr>mpz_sizeinbase2 = (\<lambda>x. max 1 (bit_width (nat \<bar>x\<bar>))),
              mpz_scan0 = ref_scan0, mpz_scan1 = ref_scan1,
              mpz_export_be = (\<lambda>x. ref_export (nat \<bar>x\<bar>)),
              mpz_init_set_str0 = ref_set_str\<rparr>"

lemma gmp_ref_sel [simp]:
  "mpz_sizeinbase2 gmp_ref x = max 1 (bit_width (nat \<bar>x\<bar>))"
  "mpz_scan0 gmp_ref = ref_scan0" "mpz_scan1 gmp_ref = ref_scan1"
  "mpz_export_be gmp_ref x = ref_export (nat \<bar>x\<bar>)"
  "mpz_init_set_str0 gmp_ref = ref_set_str"
  by (simp_all add: gmp_ref_def)

lemma ref_export_value: "be_value (ref_export n) = n"
proof (induction n rule: ref_export.induct)
  case (1 n)
  show ?case
  proof (cases "n = 0")
    case False
    have "be_value (ref_export n) = be_value (ref_export (n div 256)) * 256 + n mod 256"
      using False by (subst ref_export.simps) (simp add: be_value_append be_value_def unat_of_nat)
    then show ?thesis using 1 False by simp
  qed (simp add: ref_export.simps)
qed

lemma bit_width_div256: "n \<noteq> 0 \<Longrightarrow> (bit_width n + 7) div 8 = Suc ((bit_width (n div 256) + 7) div 8)"
proof -
  assume n: "n \<noteq> 0"
  have le: "bit_width n \<le> 8 + k \<longleftrightarrow> bit_width (n div 256) \<le> k" for k
    by (simp add: bit_width_le_iff power_add less_mult_imp_div_less div_less_iff_less_mult mult.commute)
  show ?thesis
  proof (cases "bit_width (n div 256) = 0")
    case True
    then have "bit_width n \<le> 8" using le [of 0] by simp
    moreover have "0 < bit_width n" using n by (subst bit_width.simps) simp
    ultimately show ?thesis using True by (simp add: div_eq_dividend_iff)
  next
    case False
    have "bit_width n \<le> 8 + bit_width (n div 256)" using le by blast
    moreover have "\<not> bit_width n \<le> 8 + (bit_width (n div 256) - 1)" using le [of "bit_width (n div 256) - 1"] False by simp
    ultimately have "bit_width n = 8 + bit_width (n div 256)" by linarith
    then show ?thesis by simp
  qed
qed

lemma ref_export_length: "length (ref_export n) = (bit_width n + 7) div 8"
proof (induction n rule: ref_export.induct)
  case (1 n)
  show ?case
    by (cases "n = 0") (simp_all add: ref_export.simps [of n] ref_export.simps [of 0] 1 bit_width_div256)
qed

lemma ref_scan1_found:
  assumes "s \<le> i" and "bit x i" and "\<And>j. s \<le> j \<Longrightarrow> j < i \<Longrightarrow> \<not> bit x j"
  shows "ref_scan1 x s = i"
  using assms
proof (induction x s rule: ref_scan1.induct)
  case (1 x s)
  have nz: "drop_bit s x \<noteq> 0"
  proof
    assume "drop_bit s x = 0"
    moreover have "bit (drop_bit s x) (i - s)" using "1.prems" by (simp add: bit_drop_bit_eq)
    ultimately show False by simp
  qed
  show ?case
  proof (cases "bit x s")
    case True
    then have "i = s" using "1.prems" by (metis le_neq_implies_less order_refl)
    then show ?thesis using True nz by (simp add: ref_scan1.simps [of x s])
  next
    case False
    then have "Suc s \<le> i" using "1.prems" by (metis Suc_leI le_neq_implies_less)
    then have "ref_scan1 x (Suc s) = i" using "1.IH" nz False "1.prems" by auto
    then show ?thesis using False nz by (simp add: ref_scan1.simps [of x s])
  qed
qed

lemma ref_scan1_none: "(\<And>i. s \<le> i \<Longrightarrow> \<not> bit x i) \<Longrightarrow> ref_scan1 x s = BITCNT_MAX"
proof -
  assume "\<And>i. s \<le> i \<Longrightarrow> \<not> bit x i"
  then have "drop_bit s x = 0" by (intro bit_eqI) (simp add: bit_drop_bit_eq)
  then show ?thesis by (simp add: ref_scan1.simps [of x s])
qed

lemma ref_scan0_found:
  assumes "s \<le> i" and "\<not> bit x i" and "\<And>j. s \<le> j \<Longrightarrow> j < i \<Longrightarrow> bit x j"
  shows "ref_scan0 x s = i"
  using assms
proof (induction x s rule: ref_scan0.induct)
  case (1 x s)
  have nz: "drop_bit s x \<noteq> - 1"
  proof
    assume "drop_bit s x = - 1"
    moreover have "\<not> bit (drop_bit s x) (i - s)" using "1.prems" by (simp add: bit_drop_bit_eq)
    ultimately show False by simp
  qed
  show ?case
  proof (cases "bit x s")
    case False
    then have "i = s" using "1.prems" by (metis le_neq_implies_less order_refl)
    then show ?thesis using False nz by (simp add: ref_scan0.simps [of x s])
  next
    case True
    then have "Suc s \<le> i" using "1.prems" by (metis Suc_leI le_neq_implies_less)
    then have "ref_scan0 x (Suc s) = i" using "1.IH" nz True "1.prems" by auto
    then show ?thesis using True nz by (simp add: ref_scan0.simps [of x s])
  qed
qed

lemma ref_scan0_none: "(\<And>i. s \<le> i \<Longrightarrow> bit x i) \<Longrightarrow> ref_scan0 x s = BITCNT_MAX"
proof -
  assume "\<And>i. s \<le> i \<Longrightarrow> bit x i"
  then have "drop_bit s x = - 1" by (intro bit_eqI) (simp add: bit_drop_bit_eq)
  then show ?thesis by (simp add: ref_scan0.simps [of x s])
qed

lemma gmp_ref_documented [simp]: "gmp_documented gmp_ref"
  by (auto simp: gmp_documented_def ref_export_value ref_export_length
      intro: ref_scan1_found ref_scan1_none ref_scan0_found ref_scan0_none)

end
