(* ===== verification/Snp4_Info.thy ===== *)
theory Snp4_Info
  imports Sn_Prelude
begin

text \<open>
  The description of a P4 pipeline: \<^verbatim>\<open>libsnp4/include/snp4.h\<close> (the \<open>snp4_info_*\<close> structures and
  the status codes), \<^verbatim>\<open>snp4_info_util.c\<close> (lookup by name) and \<^verbatim>\<open>snp4_info_hw.c\<close> (loading the
  description from the configuration that the generated Vitis driver carries).

  A C array with a separate count is the list of its used entries.  The configuration records
  hold the fields of the driver's structures that the code reads; an enumeration read from it
  has an extra constructor for a value outside the known ones.
\<close>

named_theorems info_load \<open>the loading functions of the pipeline description\<close>

subsection \<open>Data of snp4.h\<close>

datatype snp4_status =
    SNP4_STATUS_OK
  | SNP4_STATUS_NULL_PIPELINE
  | SNP4_STATUS_NULL_ENTRY
  | SNP4_STATUS_NULL_PACK
  | SNP4_STATUS_MALLOC_FAIL
  | SNP4_STATUS_NULL_RULE
  | SNP4_STATUS_FIELD_SPEC_OVERFLOW
  | SNP4_STATUS_FIELD_SPEC_FORMAT_INVALID
  | SNP4_STATUS_FIELD_SPEC_UNKNOWN_TYPE
  | SNP4_STATUS_FIELD_SPEC_SIZE_MISMATCH
  | SNP4_STATUS_PACK_KEY_TOO_BIG
  | SNP4_STATUS_PACK_MASK_TOO_BIG
  | SNP4_STATUS_PACK_PARAMS_TOO_BIG
  | SNP4_STATUS_MATCH_INVALID_FORMAT
  | SNP4_STATUS_MATCH_MASK_TOO_WIDE
  | SNP4_STATUS_MATCH_INVALID_BITFIELD_MASK
  | SNP4_STATUS_MATCH_INVALID_CONSTANT_MASK
  | SNP4_STATUS_MATCH_INVALID_PREFIX_MASK
  | SNP4_STATUS_MATCH_INVALID_RANGE_MASK
  | SNP4_STATUS_MATCH_INVALID_UNUSED_MASK
  | SNP4_STATUS_MATCH_KEY_TOO_BIG
  | SNP4_STATUS_MATCH_MASK_TOO_BIG
  | SNP4_STATUS_INVALID_TABLE_NAME
  | SNP4_STATUS_INVALID_TABLE_CONFIG
  | SNP4_STATUS_INVALID_ACTION_FOR_TABLE
  | SNP4_STATUS_PARAM_INVALID_FORMAT
  | SNP4_STATUS_PARAM_SPEC_OVERFLOW
  | SNP4_STATUS_PARAM_SPEC_SIZE_MISMATCH
  | SNP4_STATUS_PARAM_TOO_BIG
  | SNP4_STATUS_INFO_TOO_MANY_TABLES
  | SNP4_STATUS_INFO_TOO_MANY_MATCHES
  | SNP4_STATUS_INFO_TOO_MANY_ACTIONS
  | SNP4_STATUS_INFO_TOO_MANY_PARAMS
  | SNP4_STATUS_INFO_INVALID_ENDIAN
  | SNP4_STATUS_INFO_INVALID_MODE
  | SNP4_STATUS_INFO_TOO_MANY_COUNTER_BLOCKS
  | SNP4_STATUS_INFO_INVALID_COUNTER_TYPE

definition SNP4_MAX_PIPELINE_TABLES :: nat where "SNP4_MAX_PIPELINE_TABLES = 64"
definition SNP4_MAX_PIPELINE_COUNTER_BLOCKS :: nat where "SNP4_MAX_PIPELINE_COUNTER_BLOCKS = 64"
definition SNP4_MAX_TABLE_MATCHES :: nat where "SNP4_MAX_TABLE_MATCHES = 64"
definition SNP4_MAX_TABLE_ACTIONS :: nat where "SNP4_MAX_TABLE_ACTIONS = 64"
definition SNP4_MAX_ACTION_PARAMS :: nat where "SNP4_MAX_ACTION_PARAMS = 64"

lemmas snp4_limits =
  SNP4_MAX_PIPELINE_TABLES_def SNP4_MAX_PIPELINE_COUNTER_BLOCKS_def SNP4_MAX_TABLE_MATCHES_def
  SNP4_MAX_TABLE_ACTIONS_def SNP4_MAX_ACTION_PARAMS_def

record snp4_info_param =
  param_name :: string
  param_bits :: nat

record snp4_info_action =
  action_name :: string
  action_param_bits :: nat
  action_params :: "snp4_info_param list"

datatype snp4_info_match_type =
    MATCH_TYPE_INVALID
  | MATCH_TYPE_BITFIELD
  | MATCH_TYPE_CONSTANT
  | MATCH_TYPE_PREFIX
  | MATCH_TYPE_RANGE
  | MATCH_TYPE_TERNARY
  | MATCH_TYPE_UNUSED

record snp4_info_match =
  match_type :: snp4_info_match_type
  match_bits :: nat

datatype snp4_info_table_endian = ENDIAN_LITTLE | ENDIAN_BIG

datatype snp4_info_table_mode =
    MODE_BCAM | MODE_STCAM | MODE_TCAM | MODE_DCAM | MODE_TINY_BCAM | MODE_TINY_TCAM

record snp4_info_table =
  table_name :: string
  table_num_entries :: nat
  table_endian :: snp4_info_table_endian
  table_mode :: snp4_info_table_mode
  table_num_masks :: nat
  table_key_bits :: nat
  table_matches :: "snp4_info_match list"
  table_response_bits :: nat
  table_actionid_bits :: nat
  table_actions :: "snp4_info_action list"
  table_priority_required :: bool
  table_priority_bits :: nat

datatype snp4_info_counter_type =
    COUNTER_PACKETS | COUNTER_BYTES | COUNTER_PACKETS_AND_BYTES | COUNTER_FLAG

record snp4_info_counter_block =
  block_name :: string
  block_type :: snp4_info_counter_type
  block_width :: nat
  block_num_counters :: nat
  block_aliases :: "string option list option"  \<comment> \<open>\<open>None\<close> for a NULL array, and NULL entries in it\<close>

record snp4_info_pipeline =
  pipeline_name :: string
  pipeline_tables :: "snp4_info_table list"
  pipeline_counter_blocks :: "snp4_info_counter_block list"

subsection \<open>Lookup by name (snp4_info_util.c)\<close>

text \<open>Pointers that the functions compare with NULL are options.\<close>

definition snp4_info_get_table_by_name ::
  "snp4_info_pipeline option \<Rightarrow> string option \<Rightarrow> snp4_info_table option" where
  "snp4_info_get_table_by_name pipeline tname =
     (case pipeline of None \<Rightarrow> None
      | Some p \<Rightarrow>
        (case tname of None \<Rightarrow> None
         | Some n \<Rightarrow> find (\<lambda>t. table_name t = n) (pipeline_tables p)))"

definition snp4_info_get_action_by_name ::
  "snp4_info_table option \<Rightarrow> string option \<Rightarrow> snp4_info_action option" where
  "snp4_info_get_action_by_name table aname =
     (case table of None \<Rightarrow> None
      | Some t \<Rightarrow>
        (case aname of None \<Rightarrow> None
         | Some n \<Rightarrow> find (\<lambda>a. action_name a = n) (table_actions t)))"

subsection \<open>The configuration of the generated driver\<close>

record xil_attribute =
  attr_name :: string
  attr_value :: nat

record xil_action =
  xa_name :: string
  xa_params :: "xil_attribute list"

datatype xil_endian = XIL_LITTLE_ENDIAN | XIL_BIG_ENDIAN | XIL_ENDIAN_OTHER

datatype xil_table_mode =
    XIL_MODE_BCAM | XIL_MODE_STCAM | XIL_MODE_TCAM | XIL_MODE_DCAM
  | XIL_MODE_TINY_BCAM | XIL_MODE_TINY_TCAM | XIL_MODE_OTHER

datatype xil_counter_type =
    XIL_COUNTER_PACKETS | XIL_COUNTER_BYTES | XIL_COUNTER_PACKETS_AND_BYTES
  | XIL_COUNTER_FLAG | XIL_COUNTER_OTHER

record xil_table_config =
  xt_name :: string
  xt_endian :: xil_endian
  xt_mode :: xil_table_mode
  xt_key_bits :: nat
  xt_actionid_bits :: nat
  xt_num_entries :: nat
  xt_num_masks :: nat
  xt_response_bits :: nat
  xt_priority_bits :: nat
  xt_format :: string
  xt_actions :: "xil_action list"

record xil_counter_config =
  xc_name :: string
  xc_type :: xil_counter_type
  xc_width :: nat
  xc_num_counters :: nat

record metadata_counter_block =
  mcb_name :: string
  mcb_aliases :: "string option list option"

record drv_config =
  cfg_name :: string
  cfg_offset :: nat
  cfg_tables :: "xil_table_config list"
  cfg_counters :: "xil_counter_config list"
  cfg_metadata :: "metadata_counter_block list option"

subsection \<open>Loading actions and their parameters\<close>

fun load_params :: "xil_attribute list \<Rightarrow> nat \<Rightarrow> snp4_info_param list \<times> nat" where
  "load_params [] acc = ([], acc)"
| "load_params (xp # xps) acc =
     (let (ps, acc') = load_params xps (u16 (acc + attr_value xp))
      in (\<lparr>param_name = attr_name xp, param_bits = u16 (attr_value xp)\<rparr> # ps, acc'))"

definition snp4_info_get_params ::
  "nat \<Rightarrow> xil_attribute list \<Rightarrow> snp4_status + (snp4_info_param list \<times> nat)" where
  "snp4_info_get_params max_params cfg =
     (if length cfg > max_params then Inl SNP4_STATUS_INFO_TOO_MANY_PARAMS
      else Inr (load_params cfg 0))"

fun load_actions :: "xil_action list \<Rightarrow> snp4_status + snp4_info_action list" where
  "load_actions [] = Inr []"
| "load_actions (xa # xas) =
     (case snp4_info_get_params SNP4_MAX_ACTION_PARAMS (xa_params xa) of
        Inl e \<Rightarrow> Inl e
      | Inr (ps, bits) \<Rightarrow>
        (case load_actions xas of
           Inl e \<Rightarrow> Inl e
         | Inr as \<Rightarrow>
           Inr (\<lparr>action_name = xa_name xa, action_param_bits = bits, action_params = ps\<rparr> # as)))"

definition snp4_info_get_actions ::
  "nat \<Rightarrow> xil_action list \<Rightarrow> snp4_status + snp4_info_action list" where
  "snp4_info_get_actions max_actions cfg =
     (if length cfg > max_actions then Inl SNP4_STATUS_INFO_TOO_MANY_ACTIONS else load_actions cfg)"

subsection \<open>The field format string\<close>

text \<open>
  The standard functions on the format string: \<open>strsep\<close> at colons (the cursor is \<open>None\<close>
  once the last field was taken) and \<open>sscanf\<close> with \<^verbatim>\<open>%u%c\<close> (leading white space and a
  sign are accepted, the value is that of \<open>strtoul\<close> cut to 32 bits).
\<close>

definition strsep_colon :: "string option \<Rightarrow> string option \<times> string option" where
  "strsep_colon cursor =
     (case cursor of None \<Rightarrow> (None, None)
      | Some s \<Rightarrow>
        (Some (takeWhile (\<lambda>c. c \<noteq> CHR '':'') s),
         (case dropWhile (\<lambda>c. c \<noteq> CHR '':'') s of [] \<Rightarrow> None | _ # r \<Rightarrow> Some r)))"

definition is_space :: "char \<Rightarrow> bool" where
  "is_space c \<longleftrightarrow> (let n = of_char c :: nat in n = 32 \<or> (9 \<le> n \<and> n \<le> 13))"

definition is_digit :: "char \<Rightarrow> bool" where
  "is_digit c \<longleftrightarrow> (let n = of_char c :: nat in 48 \<le> n \<and> n \<le> 57)"

definition digits_value :: "string \<Rightarrow> nat" where
  "digits_value ds = foldl (\<lambda>a c. a * 10 + (of_char c - 48)) 0 ds"

definition strtoul_cut :: "bool \<Rightarrow> nat \<Rightarrow> nat" where
  "strtoul_cut neg v =
     (if v \<ge> 2 ^ 64 then 2 ^ 32 - 1
      else if neg then u32 (- int v) else u32 (int v))"

definition scanf_uc :: "string \<Rightarrow> (nat \<times> char) option" where
  "scanf_uc s =
     (let s1 = dropWhile is_space s;
          neg = (take 1 s1 = ''-'');
          s2 = (if take 1 s1 = ''-'' \<or> take 1 s1 = ''+'' then drop 1 s1 else s1);
          ds = takeWhile is_digit s2
      in if ds = [] then None
         else (case dropWhile is_digit s2 of
                 [] \<Rightarrow> None
               | c # _ \<Rightarrow> Some (strtoul_cut neg (digits_value ds), c)))"

text \<open>One field of the format: the match and whether it makes a priority necessary.\<close>

definition load_match :: "string option \<Rightarrow> snp4_info_match \<times> bool" where
  "load_match field_fmt =
     (case field_fmt of None \<Rightarrow> (\<lparr>match_type = MATCH_TYPE_INVALID, match_bits = 0\<rparr>, False)
      | Some f \<Rightarrow>
        (case scanf_uc f of
           None \<Rightarrow> (\<lparr>match_type = MATCH_TYPE_INVALID, match_bits = 0\<rparr>, False)
         | Some (field_size, field_type) \<Rightarrow>
           (let bits = u16 field_size in
            if field_type = CHR ''b'' then (\<lparr>match_type = MATCH_TYPE_BITFIELD, match_bits = bits\<rparr>, False)
            else if field_type = CHR ''c'' then (\<lparr>match_type = MATCH_TYPE_CONSTANT, match_bits = bits\<rparr>, False)
            else if field_type = CHR ''p'' then (\<lparr>match_type = MATCH_TYPE_PREFIX, match_bits = bits\<rparr>, True)
            else if field_type = CHR ''r'' then (\<lparr>match_type = MATCH_TYPE_RANGE, match_bits = bits\<rparr>, True)
            else if field_type = CHR ''t'' then (\<lparr>match_type = MATCH_TYPE_TERNARY, match_bits = bits\<rparr>, True)
            else if field_type = CHR ''u'' then (\<lparr>match_type = MATCH_TYPE_UNUSED, match_bits = bits\<rparr>, False)
            else (\<lparr>match_type = MATCH_TYPE_INVALID, match_bits = 0\<rparr>, False))))"

text \<open>The second pass, in the order of the format string (least significant field first).\<close>

fun load_matches :: "nat \<Rightarrow> string option \<Rightarrow> bool \<Rightarrow> snp4_info_match list \<times> bool" where
  "load_matches 0 cursor prio = ([], prio)"
| "load_matches (Suc n) cursor prio =
     (let (field_fmt, cursor') = strsep_colon cursor;
          (m, p) = load_match field_fmt;
          (ms, prio') = load_matches n cursor' (prio \<or> p)
      in (m # ms, prio'))"

definition count_matches :: "string \<Rightarrow> nat" where
  "count_matches fmt = (if fmt = [] then 0 else 1 + count_list fmt (CHR '':''))"

text \<open>Field \<open>i\<close> of the format goes to entry \<open>num_matches - 1 - i\<close>, so the array is reversed.\<close>

definition snp4_info_get_matches ::
  "nat \<Rightarrow> string \<Rightarrow> snp4_status + (snp4_info_match list \<times> bool)" where
  "snp4_info_get_matches max_matches fmt =
     (let num_matches = u16 (count_matches fmt) in
      if num_matches > max_matches then Inl SNP4_STATUS_INFO_TOO_MANY_MATCHES
      else (let (ms, prio) = load_matches num_matches (Some fmt) False
            in Inr (rev ms, prio)))"

subsection \<open>Loading tables, counter blocks and the pipeline\<close>

definition load_endian :: "xil_endian \<Rightarrow> snp4_status + snp4_info_table_endian" where
  "load_endian e =
     (case e of XIL_LITTLE_ENDIAN \<Rightarrow> Inr ENDIAN_LITTLE
      | XIL_BIG_ENDIAN \<Rightarrow> Inr ENDIAN_BIG
      | XIL_ENDIAN_OTHER \<Rightarrow> Inl SNP4_STATUS_INFO_INVALID_ENDIAN)"

definition load_mode :: "xil_table_mode \<Rightarrow> nat \<Rightarrow> snp4_status + (snp4_info_table_mode \<times> nat)" where
  "load_mode m cfg_num_masks =
     (case m of XIL_MODE_BCAM \<Rightarrow> Inr (MODE_BCAM, 0)
      | XIL_MODE_STCAM \<Rightarrow> Inr (MODE_STCAM, cfg_num_masks)
      | XIL_MODE_TCAM \<Rightarrow> Inr (MODE_TCAM, 0)
      | XIL_MODE_DCAM \<Rightarrow> Inr (MODE_DCAM, 0)
      | XIL_MODE_TINY_BCAM \<Rightarrow> Inr (MODE_TINY_BCAM, 0)
      | XIL_MODE_TINY_TCAM \<Rightarrow> Inr (MODE_TINY_TCAM, 0)
      | XIL_MODE_OTHER \<Rightarrow> Inl SNP4_STATUS_INFO_INVALID_MODE)"

definition load_table :: "xil_table_config \<Rightarrow> snp4_status + snp4_info_table" where
  "load_table xt =
     (case load_endian (xt_endian xt) of Inl e \<Rightarrow> Inl e | Inr endian \<Rightarrow>
     (case load_mode (xt_mode xt) (xt_num_masks xt) of Inl e \<Rightarrow> Inl e | Inr (mode, num_masks) \<Rightarrow>
     (case snp4_info_get_matches SNP4_MAX_TABLE_MATCHES (xt_format xt) of Inl e \<Rightarrow> Inl e | Inr (ms, prio) \<Rightarrow>
     (case snp4_info_get_actions SNP4_MAX_TABLE_ACTIONS (xt_actions xt) of Inl e \<Rightarrow> Inl e | Inr as \<Rightarrow>
        Inr \<lparr>table_name = xt_name xt, table_num_entries = xt_num_entries xt,
             table_endian = endian, table_mode = mode, table_num_masks = num_masks,
             table_key_bits = u16 (xt_key_bits xt), table_matches = ms,
             table_response_bits = u16 (xt_response_bits xt),
             table_actionid_bits = u16 (xt_actionid_bits xt), table_actions = as,
             table_priority_required = prio, table_priority_bits = u16 (xt_priority_bits xt)\<rparr>))))"

fun load_tables :: "xil_table_config list \<Rightarrow> snp4_status + snp4_info_table list" where
  "load_tables [] = Inr []"
| "load_tables (xt # xts) =
     (case load_table xt of Inl e \<Rightarrow> Inl e
      | Inr t \<Rightarrow> (case load_tables xts of Inl e \<Rightarrow> Inl e | Inr ts \<Rightarrow> Inr (t # ts)))"

definition snp4_info_get_tables ::
  "nat \<Rightarrow> xil_table_config list \<Rightarrow> snp4_status + snp4_info_table list" where
  "snp4_info_get_tables max_tables cfg =
     (if length cfg > max_tables then Inl SNP4_STATUS_INFO_TOO_MANY_TABLES else load_tables cfg)"

definition load_counter_type :: "xil_counter_type \<Rightarrow> snp4_status + snp4_info_counter_type" where
  "load_counter_type t =
     (case t of XIL_COUNTER_PACKETS \<Rightarrow> Inr COUNTER_PACKETS
      | XIL_COUNTER_BYTES \<Rightarrow> Inr COUNTER_BYTES
      | XIL_COUNTER_PACKETS_AND_BYTES \<Rightarrow> Inr COUNTER_PACKETS_AND_BYTES
      | XIL_COUNTER_FLAG \<Rightarrow> Inr COUNTER_FLAG
      | XIL_COUNTER_OTHER \<Rightarrow> Inl SNP4_STATUS_INFO_INVALID_COUNTER_TYPE)"

definition metadata_aliases ::
  "metadata_counter_block list option \<Rightarrow> string \<Rightarrow> string option list option" where
  "metadata_aliases metadata name =
     (case metadata of None \<Rightarrow> None
      | Some blocks \<Rightarrow>
        (case find (\<lambda>mcb. mcb_name mcb = name) blocks of
           None \<Rightarrow> None | Some mcb \<Rightarrow> mcb_aliases mcb))"

fun load_counter_blocks ::
  "metadata_counter_block list option \<Rightarrow> xil_counter_config list \<Rightarrow>
   snp4_status + snp4_info_counter_block list" where
  "load_counter_blocks md [] = Inr []"
| "load_counter_blocks md (xc # xcs) =
     (case load_counter_type (xc_type xc) of Inl e \<Rightarrow> Inl e
      | Inr ty \<Rightarrow>
        (case load_counter_blocks md xcs of Inl e \<Rightarrow> Inl e
         | Inr bs \<Rightarrow>
           Inr (\<lparr>block_name = xc_name xc, block_type = ty, block_width = xc_width xc,
                 block_num_counters = xc_num_counters xc,
                 block_aliases = metadata_aliases md (xc_name xc)\<rparr> # bs)))"

definition snp4_info_get_counter_blocks ::
  "nat \<Rightarrow> xil_counter_config list \<Rightarrow> metadata_counter_block list option \<Rightarrow>
   snp4_status + snp4_info_counter_block list" where
  "snp4_info_get_counter_blocks max_blocks cfg md =
     (if length cfg > max_blocks then Inl SNP4_STATUS_INFO_TOO_MANY_COUNTER_BLOCKS
      else load_counter_blocks md cfg)"

definition snp4_info_get_pipeline :: "drv_config option \<Rightarrow> snp4_status + snp4_info_pipeline" where
  "snp4_info_get_pipeline intf =
     (case intf of None \<Rightarrow> Inl SNP4_STATUS_NULL_PIPELINE
      | Some cfg \<Rightarrow>
        (case snp4_info_get_tables SNP4_MAX_PIPELINE_TABLES (cfg_tables cfg) of Inl e \<Rightarrow> Inl e
         | Inr ts \<Rightarrow>
           (case snp4_info_get_counter_blocks SNP4_MAX_PIPELINE_COUNTER_BLOCKS
                   (cfg_counters cfg) (cfg_metadata cfg) of Inl e \<Rightarrow> Inl e
            | Inr bs \<Rightarrow>
              Inr \<lparr>pipeline_name = cfg_name cfg, pipeline_tables = ts,
                   pipeline_counter_blocks = bs\<rparr>)))"

end
