(* ===== verification/Snp4_Pack.thy ===== *)
theory Snp4_Pack
  imports Gmp_Model Snp4_Info
begin

text \<open>
  \<^verbatim>\<open>libsnp4/src/snp4_table.c\<close>: a table rule (one match per key field, one value per action
  parameter) is validated and packed into the key, msk and parameter byte arrays that the
  driver takes.  The byte arrays are heap blocks of the C code: a pointer is NULL, live with its
  contents, or already freed, and freeing it again or writing past its end is undefined
  behaviour, which the model returns as a value of its own.
\<close>

named_theorems pack_facts \<open>results of the packing functions\<close>

subsection \<open>Rules\<close>

datatype sn_match =
    FORMAT_UNSET
  | FORMAT_KEY_MASK int int
  | FORMAT_KEY_ONLY int
  | FORMAT_PREFIX int nat
  | FORMAT_RANGE nat nat
  | FORMAT_UNUSED

datatype sn_param = PARAM_UNSET | PARAM_UI nat | PARAM_MPZ int

record sn_rule =
  rule_table_name :: "string option"
  rule_matches :: "sn_match list"
  rule_action_name :: "string option"
  rule_params :: "sn_param list"
  rule_priority :: nat

datatype ub = Double_Free | Heap_Overflow

datatype heap_ptr = Null | Live bytes | Freed

record sn_pack =
  pack_key :: heap_ptr
  pack_key_len :: nat
  pack_mask :: heap_ptr
  pack_mask_len :: nat
  pack_params :: heap_ptr
  pack_params_len :: nat

definition free_ptr :: "heap_ptr \<Rightarrow> ub + heap_ptr" where
  "free_ptr p = (case p of Null \<Rightarrow> Inr Null | Live _ \<Rightarrow> Inr Freed | Freed \<Rightarrow> Inl Double_Free)"

definition calloc :: "nat \<Rightarrow> heap_ptr" where
  "calloc n = Live (replicate n 0)"

definition write_at :: "heap_ptr \<Rightarrow> nat \<Rightarrow> bytes \<Rightarrow> ub + heap_ptr" where
  "write_at p off bs =
     (case p of
        Live buf \<Rightarrow>
          (if bs = [] then Inr p
           else if off + length bs \<le> length buf
           then Inr (Live (take off buf @ bs @ drop (off + length bs) buf))
           else Inl Heap_Overflow)
      | _ \<Rightarrow> (if bs = [] then Inr p else Inl Heap_Overflow))"

definition snp4_rule_init :: sn_rule where
  "snp4_rule_init = \<lparr>rule_table_name = None, rule_matches = [], rule_action_name = None,
                     rule_params = [], rule_priority = 0\<rparr>"

definition snp4_pack_init :: sn_pack where
  "snp4_pack_init = \<lparr>pack_key = Null, pack_key_len = 0, pack_mask = Null, pack_mask_len = 0,
                     pack_params = Null, pack_params_len = 0\<rparr>"

text \<open>The union members of a cleared match or parameter are released; its tag becomes unset.\<close>

definition snp4_rule_match_clear :: "sn_match \<Rightarrow> sn_match" where
  "snp4_rule_match_clear m = FORMAT_UNSET"

definition snp4_rule_param_clear :: "sn_param \<Rightarrow> sn_param" where
  "snp4_rule_param_clear p = PARAM_UNSET"

definition snp4_rule_clear :: "sn_rule \<Rightarrow> sn_rule" where
  "snp4_rule_clear r = r\<lparr>rule_matches := map snp4_rule_match_clear (rule_matches r),
                         rule_params := map snp4_rule_param_clear (rule_params r)\<rparr>"

text \<open>A freed pointer is set to NULL by \<open>snp4_pack_clear\<close>.\<close>

definition clear_ptr :: "heap_ptr \<Rightarrow> ub + heap_ptr" where
  "clear_ptr p = (case free_ptr p of Inl u \<Rightarrow> Inl u | Inr _ \<Rightarrow> Inr Null)"

definition snp4_pack_clear :: "sn_pack \<Rightarrow> ub + sn_pack" where
  "snp4_pack_clear p =
     (case clear_ptr (pack_key p) of Inl u \<Rightarrow> Inl u | Inr k \<Rightarrow>
     (case clear_ptr (pack_mask p) of Inl u \<Rightarrow> Inl u | Inr m \<Rightarrow>
     (case clear_ptr (pack_params p) of Inl u \<Rightarrow> Inl u | Inr q \<Rightarrow>
        Inr (p\<lparr>pack_key := k, pack_mask := m, pack_params := q\<rparr>))))"

subsection \<open>One match field\<close>

definition ones_mask :: "nat \<Rightarrow> int" where
  "ones_mask bits = push_bit bits 1 - 1"

text \<open>The first switch: key and mask as the format of the user's match gives them.\<close>

definition expand_match :: "snp4_info_match \<Rightarrow> sn_match \<Rightarrow> snp4_status + (int \<times> int option)" where
  "expand_match spec m =
     (case m of
        FORMAT_KEY_MASK key msk \<Rightarrow> Inr (key, Some msk)
      | FORMAT_KEY_ONLY key \<Rightarrow> Inr (key, None)
      | FORMAT_PREFIX key prefix_len \<Rightarrow>
          (if prefix_len > match_bits spec then Inl SNP4_STATUS_MATCH_MASK_TOO_WIDE
           else Inr (key, Some (push_bit (match_bits spec - prefix_len) (push_bit prefix_len 1 - 1))))
      | FORMAT_RANGE lower upper \<Rightarrow> Inr (int lower, Some (int upper))
      | FORMAT_UNUSED \<Rightarrow> Inr (0, Some 0)
      | FORMAT_UNSET \<Rightarrow> Inl SNP4_STATUS_MATCH_INVALID_FORMAT)"

text \<open>The second switch: the default mask of the field's type in the P4 program.\<close>

definition default_mask :: "snp4_info_match \<Rightarrow> int \<Rightarrow> snp4_status + int" where
  "default_mask spec key =
     (case match_type spec of
        MATCH_TYPE_BITFIELD \<Rightarrow> Inr (ones_mask (match_bits spec))
      | MATCH_TYPE_CONSTANT \<Rightarrow> Inr (ones_mask (match_bits spec))
      | MATCH_TYPE_PREFIX \<Rightarrow> Inr (ones_mask (match_bits spec))
      | MATCH_TYPE_RANGE \<Rightarrow> Inr key
      | MATCH_TYPE_TERNARY \<Rightarrow> Inr (ones_mask (match_bits spec))
      | MATCH_TYPE_UNUSED \<Rightarrow> Inr 0
      | MATCH_TYPE_INVALID \<Rightarrow> Inl SNP4_STATUS_FIELD_SPEC_UNKNOWN_TYPE)"

text \<open>The third switch: which masks the field's type allows.\<close>

definition validate_mask :: "gmp \<Rightarrow> snp4_info_match \<Rightarrow> int \<Rightarrow> int \<Rightarrow> snp4_status" where
  "validate_mask g spec key msk =
     (case match_type spec of
        MATCH_TYPE_BITFIELD \<Rightarrow>
          (if \<not> (msk = 0 \<or> msk = ones_mask (match_bits spec))
           then SNP4_STATUS_MATCH_INVALID_BITFIELD_MASK else SNP4_STATUS_OK)
      | MATCH_TYPE_CONSTANT \<Rightarrow>
          (if \<not> msk = ones_mask (match_bits spec)
           then SNP4_STATUS_MATCH_INVALID_CONSTANT_MASK else SNP4_STATUS_OK)
      | MATCH_TYPE_PREFIX \<Rightarrow>
          (if \<not> msk = 0 \<and> mpz_scan0 g msk (mpz_scan1 g msk 0) < match_bits spec
           then SNP4_STATUS_MATCH_INVALID_PREFIX_MASK else SNP4_STATUS_OK)
      | MATCH_TYPE_RANGE \<Rightarrow>
          (if msk < key then SNP4_STATUS_MATCH_INVALID_RANGE_MASK else SNP4_STATUS_OK)
      | MATCH_TYPE_TERNARY \<Rightarrow> SNP4_STATUS_OK
      | MATCH_TYPE_UNUSED \<Rightarrow>
          (if \<not> msk = 0 then SNP4_STATUS_MATCH_INVALID_UNUSED_MASK else SNP4_STATUS_OK)
      | MATCH_TYPE_INVALID \<Rightarrow> SNP4_STATUS_FIELD_SPEC_UNKNOWN_TYPE)"

definition pack_partial_key_mask ::
  "gmp \<Rightarrow> snp4_info_match \<Rightarrow> sn_match \<Rightarrow> snp4_status + (int \<times> int)" where
  "pack_partial_key_mask g spec m =
     (case expand_match spec m of Inl e \<Rightarrow> Inl e | Inr (key, given) \<Rightarrow>
     (case default_mask spec key of Inl e \<Rightarrow> Inl e | Inr dflt \<Rightarrow>
       (let msk = (case given of Some x \<Rightarrow> x | None \<Rightarrow> dflt);
            rc = validate_mask g spec key msk
        in if rc \<noteq> SNP4_STATUS_OK then Inl rc
           else if mpz_sizeinbase2 g key > match_bits spec then Inl SNP4_STATUS_MATCH_KEY_TOO_BIG
           else if mpz_sizeinbase2 g msk > match_bits spec then Inl SNP4_STATUS_MATCH_MASK_TOO_BIG
           else Inr (key, msk))))"

subsection \<open>The key and the msk\<close>

text \<open>Entries of the zero-initialised specification array past the used ones.\<close>

definition match_spec_at :: "snp4_info_match list \<Rightarrow> nat \<Rightarrow> snp4_info_match" where
  "match_spec_at specs i =
     (if i < length specs then specs ! i
      else \<lparr>match_type = MATCH_TYPE_INVALID, match_bits = 0\<rparr>)"

fun extend_key_mask ::
  "gmp \<Rightarrow> snp4_info_match list \<Rightarrow> nat \<Rightarrow> sn_match list \<Rightarrow> int \<Rightarrow> int \<Rightarrow> snp4_status + (int \<times> int)" where
  "extend_key_mask g specs i [] key msk = Inr (key, msk)"
| "extend_key_mask g specs i (m # ms) key msk =
     (let spec = match_spec_at specs i in
      case pack_partial_key_mask g spec m of
        Inl e \<Rightarrow> Inl e
      | Inr (key_part, mask_part) \<Rightarrow>
          extend_key_mask g specs (Suc i) ms
            (push_bit (match_bits spec) key OR key_part)
            (push_bit (match_bits spec) msk OR mask_part))"

text \<open>
  Writing an integer right-aligned into a zeroed buffer of \<open>len\<close> bytes; the padding is
  computed in \<open>unsigned int\<close>.
\<close>

definition export_right :: "gmp \<Rightarrow> heap_ptr \<Rightarrow> nat \<Rightarrow> int \<Rightarrow> ub + heap_ptr" where
  "export_right g p len x =
     (let pad_bytes = u32 (int len - int ((mpz_sizeinbase2 g x + 7) div 8))
      in write_at p pad_bytes (mpz_export_be g x))"

definition free_key_mask :: "sn_pack \<Rightarrow> snp4_status \<Rightarrow> ub + (snp4_status \<times> sn_pack)" where
  "free_key_mask p rc =
     (case free_ptr (pack_key p) of Inl u \<Rightarrow> Inl u | Inr k \<Rightarrow>
     (case free_ptr (pack_mask p) of Inl u \<Rightarrow> Inl u | Inr m \<Rightarrow>
        Inr (rc, p\<lparr>pack_key := k, pack_mask := m\<rparr>)))"

definition snp4_rule_pack_matches ::
  "gmp \<Rightarrow> snp4_info_match list \<Rightarrow> nat \<Rightarrow> sn_match list \<Rightarrow> sn_pack \<Rightarrow> ub + (snp4_status \<times> sn_pack)" where
  "snp4_rule_pack_matches g specs key_size_bits ms p =
     (case extend_key_mask g specs 0 ms 0 0 of
        Inl e \<Rightarrow> Inr (e, p)
      | Inr (key, msk) \<Rightarrow>
        (let n = (key_size_bits + 7) div 8;
             p1 = p\<lparr>pack_key := calloc n, pack_key_len := n, pack_mask := calloc n, pack_mask_len := n\<rparr>
         in if mpz_sizeinbase2 g key > key_size_bits
            then free_key_mask p1 SNP4_STATUS_PACK_KEY_TOO_BIG
            else (case export_right g (pack_key p1) n key of Inl u \<Rightarrow> Inl u | Inr k \<Rightarrow>
              (let p2 = p1\<lparr>pack_key := k\<rparr>
               in if mpz_sizeinbase2 g msk > key_size_bits
                  then free_key_mask p2 SNP4_STATUS_PACK_MASK_TOO_BIG
                  else (case export_right g (pack_mask p2) n msk of Inl u \<Rightarrow> Inl u | Inr m \<Rightarrow>
                          Inr (SNP4_STATUS_OK, p2\<lparr>pack_mask := m\<rparr>))))))"

subsection \<open>The action parameters\<close>

definition pack_partial_param :: "gmp \<Rightarrow> snp4_info_param \<Rightarrow> sn_param \<Rightarrow> snp4_status + int" where
  "pack_partial_param g spec p =
     (case (case p of PARAM_UI n \<Rightarrow> Inr (int n) | PARAM_MPZ x \<Rightarrow> Inr x
            | PARAM_UNSET \<Rightarrow> Inl SNP4_STATUS_PARAM_INVALID_FORMAT) of
        Inl e \<Rightarrow> Inl e
      | Inr x \<Rightarrow>
        (if mpz_sizeinbase2 g x > param_bits spec then Inl SNP4_STATUS_PARAM_TOO_BIG else Inr x))"

definition param_spec_at :: "snp4_info_param list \<Rightarrow> nat \<Rightarrow> snp4_info_param" where
  "param_spec_at specs i =
     (if i < length specs then specs ! i else \<lparr>param_name = '''', param_bits = 0\<rparr>)"

fun extend_params ::
  "gmp \<Rightarrow> snp4_info_param list \<Rightarrow> nat \<Rightarrow> sn_param list \<Rightarrow> int \<Rightarrow> snp4_status + int" where
  "extend_params g specs i [] acc = Inr acc"
| "extend_params g specs i (p # ps) acc =
     (let spec = param_spec_at specs i in
      case pack_partial_param g spec p of
        Inl e \<Rightarrow> Inl e
      | Inr x \<Rightarrow> extend_params g specs (Suc i) ps (push_bit (param_bits spec) acc OR x))"

definition snp4_rule_pack_params ::
  "gmp \<Rightarrow> snp4_info_param list \<Rightarrow> nat \<Rightarrow> nat \<Rightarrow> sn_param list \<Rightarrow> sn_pack \<Rightarrow>
   ub + (snp4_status \<times> sn_pack)" where
  "snp4_rule_pack_params g specs table_param_size_bits action_param_size_bits ps p =
     (if action_param_size_bits = 0
      then Inr (SNP4_STATUS_OK, p\<lparr>pack_params := calloc 1, pack_params_len := 0\<rparr>)
      else case extend_params g specs 0 ps 0 of
        Inl e \<Rightarrow> Inr (e, p)
      | Inr x \<Rightarrow>
        (let n = u32 (int table_param_size_bits + 7) div 8;
             p1 = p\<lparr>pack_params := calloc n, pack_params_len := n\<rparr>
         in if mpz_sizeinbase2 g x > action_param_size_bits
            then (case free_ptr (pack_params p1) of Inl u \<Rightarrow> Inl u
                  | Inr q \<Rightarrow> Inr (SNP4_STATUS_PACK_PARAMS_TOO_BIG, p1\<lparr>pack_params := q\<rparr>))
            else (case export_right g (pack_params p1) n x of Inl u \<Rightarrow> Inl u
                  | Inr q \<Rightarrow> Inr (SNP4_STATUS_OK, p1\<lparr>pack_params := q\<rparr>))))"

subsection \<open>The whole rule\<close>

definition pack_fail :: "snp4_status \<Rightarrow> sn_pack \<Rightarrow> ub + (snp4_status \<times> sn_pack)" where
  "pack_fail rc p = (case snp4_pack_clear p of Inl u \<Rightarrow> Inl u | Inr p' \<Rightarrow> Inr (rc, p'))"

text \<open>The response width minus the width of the action id, converted to \<open>unsigned int\<close>.\<close>

definition table_param_bits :: "snp4_info_table \<Rightarrow> nat" where
  "table_param_bits t = u32 (int (table_response_bits t) - int (table_actionid_bits t))"

definition snp4_rule_pack ::
  "gmp \<Rightarrow> snp4_info_pipeline option \<Rightarrow> sn_rule option \<Rightarrow> sn_pack option \<Rightarrow>
   ub + (snp4_status \<times> sn_pack option)" where
  "snp4_rule_pack g pipeline rule pack =
     (case pipeline of None \<Rightarrow> Inr (SNP4_STATUS_NULL_PIPELINE, pack) | Some pl \<Rightarrow>
     (case rule of None \<Rightarrow> Inr (SNP4_STATUS_NULL_RULE, pack) | Some r \<Rightarrow>
     (case pack of None \<Rightarrow> Inr (SNP4_STATUS_NULL_PACK, None) | Some _ \<Rightarrow>
       (let p0 = snp4_pack_init in
        case snp4_info_get_table_by_name (Some pl) (rule_table_name r) of
          None \<Rightarrow> Inr (SNP4_STATUS_INVALID_TABLE_NAME, Some p0)
        | Some ti \<Rightarrow>
        (case snp4_info_get_action_by_name (Some ti) (rule_action_name r) of
          None \<Rightarrow> Inr (SNP4_STATUS_INVALID_ACTION_FOR_TABLE, Some p0)
        | Some ai \<Rightarrow>
          (if length (rule_matches r) \<noteq> length (table_matches ti)
           then Inr (SNP4_STATUS_FIELD_SPEC_SIZE_MISMATCH, Some p0)
           else if length (rule_params r) \<noteq> length (action_params ai)
           then Inr (SNP4_STATUS_PARAM_SPEC_SIZE_MISMATCH, Some p0)
           else
            (case snp4_rule_pack_matches g (table_matches ti) (table_key_bits ti) (rule_matches r) p0 of
               Inl u \<Rightarrow> Inl u
             | Inr (rc, p1) \<Rightarrow>
               (if rc \<noteq> SNP4_STATUS_OK then map_sum id (map_prod id Some) (pack_fail rc p1)
                else
                 (case snp4_rule_pack_params g (action_params ai) (table_param_bits ti)
                         (action_param_bits ai) (rule_params r) p1 of
                    Inl u \<Rightarrow> Inl u
                  | Inr (rc2, p2) \<Rightarrow>
                    (if rc2 \<noteq> SNP4_STATUS_OK then map_sum id (map_prod id Some) (pack_fail rc2 p2)
                     else Inr (SNP4_STATUS_OK, Some p2)))))))))))"

end
