(* ===== verification/Snp4_Pack_Props.thy ===== *)
theory Snp4_Pack_Props
  imports Snp4_Pack
begin

text \<open>
  Correctness of the packing of rules: which matches a field accepts, what the packed mask
  means, that the packed arrays give every field back, and that no table whose description is
  consistent leads to undefined behaviour.
\<close>

subsection \<open>Which masks a field allows\<close>

definition prefix_mask :: "nat \<Rightarrow> nat \<Rightarrow> int" where
  "prefix_mask bits p = (2 ^ p - 1) * 2 ^ (bits - p)"

definition mask_allowed :: "snp4_info_match_type \<Rightarrow> nat \<Rightarrow> int \<Rightarrow> int \<Rightarrow> bool" where
  "mask_allowed ty bits key msk =
     (case ty of
        MATCH_TYPE_INVALID \<Rightarrow> False
      | MATCH_TYPE_BITFIELD \<Rightarrow> msk = 0 \<or> msk = 2 ^ bits - 1
      | MATCH_TYPE_CONSTANT \<Rightarrow> msk = 2 ^ bits - 1
      | MATCH_TYPE_PREFIX \<Rightarrow> (\<exists>p \<le> bits. msk = prefix_mask bits p)
      | MATCH_TYPE_RANGE \<Rightarrow> key \<le> msk
      | MATCH_TYPE_TERNARY \<Rightarrow> True
      | MATCH_TYPE_UNUSED \<Rightarrow> msk = 0)"

text \<open>The key and mask that a match stands for in a field of \<open>bits\<close> bits.\<close>

definition match_denotes :: "snp4_info_match_type \<Rightarrow> nat \<Rightarrow> sn_match \<Rightarrow> (int \<times> int) option" where
  "match_denotes ty bits m =
     (case m of
        FORMAT_UNSET \<Rightarrow> None
      | FORMAT_KEY_MASK key msk \<Rightarrow> Some (key, msk)
      | FORMAT_KEY_ONLY key \<Rightarrow>
          Some (key, if ty = MATCH_TYPE_RANGE then key
                     else if ty = MATCH_TYPE_UNUSED then 0 else 2 ^ bits - 1)
      | FORMAT_PREFIX key p \<Rightarrow> if p \<le> bits then Some (key, prefix_mask bits p) else None
      | FORMAT_RANGE lo hi \<Rightarrow> Some (int lo, int hi)
      | FORMAT_UNUSED \<Rightarrow> Some (0, 0))"

definition match_nonneg :: "sn_match \<Rightarrow> bool" where
  "match_nonneg m =
     (case m of FORMAT_KEY_MASK key msk \<Rightarrow> 0 \<le> key \<and> 0 \<le> msk
      | FORMAT_KEY_ONLY key \<Rightarrow> 0 \<le> key
      | FORMAT_PREFIX key _ \<Rightarrow> 0 \<le> key
      | _ \<Rightarrow> True)"

lemma ones_mask_eq [simp]: "ones_mask b = 2 ^ b - 1"
  by (simp add: ones_mask_def push_bit_eq_mult)

lemma prefix_mask_push: "prefix_mask b p = push_bit (b - p) (mask p)"
  by (simp add: prefix_mask_def push_bit_eq_mult mask_eq_exp_minus_1)

lemma bit_prefix_mask: "p \<le> b \<Longrightarrow> bit (prefix_mask b p) i \<longleftrightarrow> b - p \<le> i \<and> i < b"
  by (auto simp: prefix_mask_push bit_simps possible_bit_def)

lemma prefix_mask_nonneg [simp]: "0 \<le> prefix_mask b p"
  by (simp add: prefix_mask_def)

lemma prefix_mask_0 [simp]: "prefix_mask b 0 = 0"
  by (simp add: prefix_mask_def)

lemma prefix_mask_less: "p \<le> b \<Longrightarrow> prefix_mask b p < 2 ^ b"
  by (simp add: prefix_mask_def left_diff_distrib flip: power_add)

lemma mask_bit_less:
  fixes m :: int
  assumes "0 \<le> m" and "m < 2 ^ b" and "bit m i"
  shows "i < b"
proof -
  have "take_bit b m = m" using assms by (simp add: take_bit_int_eq_self)
  then show ?thesis using assms(3) by (metis bit_take_bit_iff)
qed

text \<open>The two scans recognise exactly the contiguous masks that end at the top bit.\<close>

lemma scan_prefix_iff:
  assumes g: "gmp_documented g" and m: "0 < m" "m < 2 ^ b" and b: "b < BITCNT_MAX"
  shows "b \<le> mpz_scan0 g m (mpz_scan1 g m 0) \<longleftrightarrow> (\<exists>p \<le> b. m = prefix_mask b p)"
proof -
  have "\<exists>i. bit m i" using m by (metis bit_eqI bit_0_eq bot_apply less_irrefl bot_bool_def)
  then obtain l where l: "bit m l" "\<And>j. j < l \<Longrightarrow> \<not> bit m j" using exists_least_iff [of "bit m"] by blast
  then have s1: "mpz_scan1 g m 0 = l" using gmp_scan1 [OF g, of 0 l m] by simp
  have lb: "l < b" using mask_bit_less [of m b l] l(1) m by simp
  have "l \<le> b \<and> \<not> bit m b" using lb mask_bit_less [of m b b] m by auto
  then have "\<exists>z. l \<le> z \<and> \<not> bit m z" by blast
  then obtain z where z: "l \<le> z" "\<not> bit m z" "\<And>j. j < z \<Longrightarrow> l \<le> j \<Longrightarrow> bit m j"
    using exists_least_iff [of "\<lambda>z. l \<le> z \<and> \<not> bit m z"] by blast
  then have s0: "mpz_scan0 g m l = z" using gmp_scan0 [OF g, of l z m] by simp
  have zb: "z \<le> b" using z(3) [of b] lb mask_bit_less [of m b b] m by (meson less_imp_le not_less less_irrefl)
  show ?thesis
  proof
    assume "b \<le> mpz_scan0 g m (mpz_scan1 g m 0)"
    then have eq: "z = b" using zb s0 s1 by simp
    have "m = prefix_mask b (b - l)"
    proof (rule bit_eqI)
      fix i
      have "bit m i \<longleftrightarrow> l \<le> i \<and> i < b"
        using l z eq mask_bit_less [of m b i] m by (meson not_less less_imp_le)
      then show "bit m i = bit (prefix_mask b (b - l)) i"
        using lb by (simp add: bit_prefix_mask)
    qed
    then show "\<exists>p \<le> b. m = prefix_mask b p" using diff_le_self by blast
  next
    assume "\<exists>p \<le> b. m = prefix_mask b p"
    then obtain p where p: "p \<le> b" "m = prefix_mask b p" by blast
    then have "b \<le> z" using z(1,2) l(1) by (auto simp: bit_prefix_mask not_less)
    then show "b \<le> mpz_scan0 g m (mpz_scan1 g m 0)" using s0 s1 by simp
  qed
qed

lemma validate_mask_ok:
  assumes "gmp_documented g" and "0 \<le> msk" and "msk < 2 ^ match_bits spec" and "match_bits spec < BITCNT_MAX"
  shows "validate_mask g spec key msk = SNP4_STATUS_OK \<longleftrightarrow>
         mask_allowed (match_type spec) (match_bits spec) key msk"
proof (cases "match_type spec = MATCH_TYPE_PREFIX")
  case True
  show ?thesis
  proof (cases "msk = 0")
    case msk: True
    have "\<exists>p \<le> match_bits spec. 0 = prefix_mask (match_bits spec) p"
      by (intro exI [of _ 0]) simp
    then show ?thesis using True msk by (simp add: validate_mask_def mask_allowed_def)
  next
    case False
    then have "0 < msk" using assms by simp
    from scan_prefix_iff [OF assms(1) this assms(3,4)] show ?thesis
      using True False by (auto simp: validate_mask_def mask_allowed_def not_less)
  qed
next
  case False
  then show ?thesis
    by (cases "match_type spec") (auto simp: validate_mask_def mask_allowed_def)
qed

subsection \<open>One field\<close>

lemma match_denotes_nonneg:
  "match_nonneg m \<Longrightarrow> match_denotes ty b m = Some (k, msk) \<Longrightarrow> 0 \<le> k \<and> 0 \<le> msk"
  by (auto simp: match_denotes_def match_nonneg_def split: sn_match.splits if_splits)

lemma mask_allowed_invalid [simp]: "\<not> mask_allowed MATCH_TYPE_INVALID b k msk"
  by (simp add: mask_allowed_def)

lemma pack_partial_steps:
  "pack_partial_key_mask g spec m = Inr (k, msk) \<longleftrightarrow>
     match_denotes (match_type spec) (match_bits spec) m = Some (k, msk) \<and>
     match_type spec \<noteq> MATCH_TYPE_INVALID \<and>
     validate_mask g spec k msk = SNP4_STATUS_OK \<and>
     mpz_sizeinbase2 g k \<le> match_bits spec \<and> mpz_sizeinbase2 g msk \<le> match_bits spec"
proof -
  have pm: "push_bit (b - p) (2 ^ p - 1) = prefix_mask b p" for b p
    by (simp add: prefix_mask_def push_bit_eq_mult)
  show ?thesis
    by (cases "match_type spec"; cases m)
       (auto simp: pack_partial_key_mask_def expand_match_def default_mask_def match_denotes_def
          Let_def pm not_less split: if_splits)
qed

text \<open>
  Property C22.  Of the matches without negative numbers, a field accepts exactly those that denote a key and a mask of the width
  of the field whose mask has the shape that the type of the field demands (all zeros or all
  ones for a bit field, all ones for a constant, a contiguous prefix for a prefix field, an
  upper bound not below the lower one for a range, no mask for an unused field), and the
  packed pair is the denoted one.
\<close>
theorem pack_partial_accepts:
  assumes "gmp_documented g" and "match_nonneg m" and "match_bits spec < 65536"
  shows "pack_partial_key_mask g spec m = Inr (k, msk) \<longleftrightarrow>
         match_denotes (match_type spec) (match_bits spec) m = Some (k, msk) \<and>
         0 < match_bits spec \<and> k < 2 ^ match_bits spec \<and> msk < 2 ^ match_bits spec \<and>
         mask_allowed (match_type spec) (match_bits spec) k msk"
proof (cases "match_denotes (match_type spec) (match_bits spec) m = Some (k, msk)")
  case True
  then have nn: "0 \<le> k" "0 \<le> msk" using assms(2) match_denotes_nonneg by blast+
  have b: "match_bits spec < BITCNT_MAX" using assms(3) by (simp add: BITCNT_MAX_def)
  show ?thesis
    using True nn validate_mask_ok [OF assms(1) nn(2) _ b]
    by (cases "match_type spec = MATCH_TYPE_INVALID")
       (auto simp: pack_partial_steps gmp_size_le [OF assms(1)])
qed (simp add: pack_partial_steps)

theorem pack_partial_accepts_witness:
  "pack_partial_key_mask gmp_ref \<lparr>match_type = MATCH_TYPE_PREFIX, match_bits = 8\<rparr> (FORMAT_PREFIX 0xA0 3)
     = Inr (0xA0, 0xE0)"
proof -
  have "\<exists>p \<le> 8. (0xE0::int) = prefix_mask 8 p" by (intro exI [of _ 3]) (simp add: prefix_mask_def)
  then show ?thesis
    using pack_partial_accepts [of gmp_ref "FORMAT_PREFIX 0xA0 3"
        "\<lparr>match_type = MATCH_TYPE_PREFIX, match_bits = 8\<rparr>" "0xA0" "0xE0"]
    by (simp add: match_nonneg_def match_denotes_def mask_allowed_def prefix_mask_def)
qed

lemma pack_partial_bounds:
  assumes "gmp_documented g" and "pack_partial_key_mask g spec m = Inr (k, msk)"
  shows "0 < match_bits spec" and "\<bar>k\<bar> < 2 ^ match_bits spec" and "\<bar>msk\<bar> < 2 ^ match_bits spec"
  using assms by (auto simp: pack_partial_steps gmp_size_le)

lemma pack_partial_nonneg:
  "match_nonneg m \<Longrightarrow> pack_partial_key_mask g spec m = Inr (k, msk) \<Longrightarrow> 0 \<le> k \<and> 0 \<le> msk"
  using match_denotes_nonneg by (auto simp: pack_partial_steps)

text \<open>
  The mask packed for a prefix match of length \<open>p\<close> makes the hardware
  comparison of the masked bits the comparison of the \<open>p\<close> most significant bits.
\<close>
lemma prefix_match_semantics:
  assumes "gmp_documented g"
    and "pack_partial_key_mask g spec (FORMAT_PREFIX key p) = Inr (k, msk)"
    and "0 \<le> pkt" and "pkt < 2 ^ match_bits spec" and "0 \<le> key"
  shows "pkt AND msk = k AND msk \<longleftrightarrow>
         drop_bit (match_bits spec - p) pkt = drop_bit (match_bits spec - p) key"
proof -
  define b where "b = match_bits spec"
  have d: "k = key" "msk = prefix_mask b p" "p \<le> b"
    using assms(2) by (auto simp: pack_partial_steps match_denotes_def b_def split: if_splits)
  have kb: "key < 2 ^ b" using pack_partial_bounds(2) [OF assms(1,2)] d(1) by (simp add: b_def)
  have hi: "b \<le> i \<Longrightarrow> \<not> bit pkt i \<and> \<not> bit key i" for i
    using mask_bit_less [of pkt b i] mask_bit_less [of key b i] assms kb b_def by auto
  have "pkt AND msk = k AND msk \<longleftrightarrow> (\<forall>i. b - p \<le> i \<and> i < b \<longrightarrow> bit pkt i = bit key i)"
    using d by (auto simp: bit_eq_iff bit_and_iff bit_prefix_mask)
  also have "\<dots> \<longleftrightarrow> (\<forall>i. b - p \<le> i \<longrightarrow> bit pkt i = bit key i)"
    using hi by (meson not_less)
  also have "\<dots> \<longleftrightarrow> (\<forall>j. bit pkt (b - p + j) = bit key (b - p + j))"
    by (metis le_add1 le_add_diff_inverse)
  also have "\<dots> \<longleftrightarrow> drop_bit (b - p) pkt = drop_bit (b - p) key"
    by (simp add: bit_eq_iff bit_drop_bit_eq)
  finally show ?thesis by (simp add: b_def)
qed

subsection \<open>The packed byte arrays\<close>

lemma export_right_ok:
  assumes g: "gmp_documented g" and fits: "mpz_sizeinbase2 g x \<le> bits" and b: "bits < 4294967288"
  shows "\<exists>bs. export_right g (calloc ((bits + 7) div 8)) ((bits + 7) div 8) x = Inr (Live bs) \<and>
              length bs = (bits + 7) div 8 \<and> be_value bs = nat \<bar>x\<bar>"
proof (cases "x = 0")
  case True
  then have "mpz_export_be g x = []" using gmp_export_length [OF g, of x] by simp
  then show ?thesis by (simp add: export_right_def calloc_def write_at_def Let_def True)
next
  case False
  define n s where "n = (bits + 7) div 8" and "s = (mpz_sizeinbase2 g x + 7) div 8"
  have "s \<le> n" using fits by (simp add: s_def n_def div_le_mono)
  moreover have "n < 4294967296" using b by (simp add: n_def)
  ultimately have u: "u32 (int n - int s) = n - s"
    using u32_id [of "n - s"] by (simp add: of_nat_diff)
  have "bit_width (nat \<bar>x\<bar>) \<noteq> 0" using bit_width_le_iff [of "nat \<bar>x\<bar>" 0] False by simp
  then have len: "length (mpz_export_be g x) = s"
    by (simp add: gmp_export_length [OF g] s_def gmp_size [OF g] max_def)
  show ?thesis
    unfolding export_right_def n_def [symmetric] s_def [symmetric] Let_def u
    using \<open>s \<le> n\<close> len gmp_export_value [OF g, of x]
    by (cases "mpz_export_be g x = []") (simp_all add: calloc_def write_at_def be_value_append)
qed

text \<open>Reading the fields of a packed integer, the first field in the most significant bits.\<close>

fun unpack_fields :: "nat list \<Rightarrow> nat \<Rightarrow> nat list" where
  "unpack_fields [] v = []"
| "unpack_fields (b # bs) v = v div 2 ^ sum_list bs mod 2 ^ b # unpack_fields bs v"

lemma unpack_fields_mod: "sum_list bs \<le> n \<Longrightarrow> unpack_fields bs (v mod 2 ^ n) = unpack_fields bs v"
proof (induction bs arbitrary: n)
  case (Cons b bs)
  define s where "s = sum_list bs"
  have n: "n = s + (n - s)" "b \<le> n - s" using Cons.prems by (simp_all add: s_def)
  have "v mod 2 ^ n div 2 ^ s = v div 2 ^ s mod 2 ^ (n - s)"
    by (subst n(1)) (simp add: power_add mod_mult2_eq)
  moreover have "v div 2 ^ s mod 2 ^ (n - s) mod 2 ^ b = v div 2 ^ s mod 2 ^ b"
    by (rule mod_mod_cancel) (use n(2) in \<open>simp add: le_imp_power_dvd\<close>)
  ultimately show ?case using Cons by (simp add: s_def)
qed simp

text \<open>The integer that a list of fields, each of its width, is packed into.\<close>

fun pack_fields :: "(nat \<times> nat) list \<Rightarrow> nat" where
  "pack_fields [] = 0"
| "pack_fields ((b, x) # fs) = x * 2 ^ sum_list (map fst fs) + pack_fields fs"

lemma pack_fields_less:
  "\<forall>(b, x) \<in> set fs. x < 2 ^ b \<Longrightarrow> pack_fields fs < 2 ^ sum_list (map fst fs)"
proof (induction fs rule: pack_fields.induct)
  case (2 b x fs)
  define s where "s = sum_list (map fst fs)"
  have "x + 1 \<le> 2 ^ b" using 2 by auto
  then have "(x + 1) * 2 ^ s \<le> 2 ^ b * 2 ^ s" by (rule mult_le_mono1)
  then show ?case using 2 by (simp add: s_def power_add)
qed simp

lemma unpack_pack:
  "\<forall>(b, x) \<in> set fs. x < 2 ^ b \<Longrightarrow> unpack_fields (map fst fs) (pack_fields fs) = map snd fs"
proof (induction fs rule: pack_fields.induct)
  case (2 b x fs)
  define s where "s = sum_list (map fst fs)"
  have less: "pack_fields fs < 2 ^ s" using 2 pack_fields_less [of fs] by (simp add: s_def)
  have "(x * 2 ^ s + pack_fields fs) mod 2 ^ s = pack_fields fs" using less by simp
  then have "unpack_fields (map fst fs) (x * 2 ^ s + pack_fields fs) = unpack_fields (map fst fs) (pack_fields fs)"
    using unpack_fields_mod [of "map fst fs" s "x * 2 ^ s + pack_fields fs"] by (simp add: s_def)
  also have "\<dots> = map snd fs" using 2 by simp
  finally show ?case using 2 less by (simp add: s_def)
qed simp

definition match_widths :: "snp4_info_match list \<Rightarrow> nat list" where
  "match_widths specs = map match_bits specs"

lemma match_widths_simps [simp]:
  "match_widths [] = []" "match_widths (s # ss) = match_bits s # match_widths ss"
  by (simp_all add: match_widths_def)

lemma pack_partial_err [simp]: "pack_partial_key_mask g spec m \<noteq> Inl SNP4_STATUS_OK"
  by (cases "match_type spec"; cases m)
     (auto simp: pack_partial_key_mask_def expand_match_def default_mask_def Let_def)

lemma extend_key_mask_err [simp]: "extend_key_mask g specs i ms k m \<noteq> Inl SNP4_STATUS_OK"
  by (induction g specs i ms k m rule: extend_key_mask.induct) (auto simp: Let_def split: sum.splits)

lemma extend_key_mask_bound:
  assumes g: "gmp_documented g"
  shows "extend_key_mask g (pre @ specs) (length pre) ms k m = Inr (k', m') \<Longrightarrow>
         length ms = length specs \<Longrightarrow> \<bar>k\<bar> < 2 ^ n \<Longrightarrow> \<bar>m\<bar> < 2 ^ n \<Longrightarrow>
         \<bar>k'\<bar> < 2 ^ (n + sum_list (match_widths specs)) \<and> \<bar>m'\<bar> < 2 ^ (n + sum_list (match_widths specs))"
proof (induction ms arbitrary: pre specs k m n)
  case (Cons a ms)
  then obtain s ss where specs: "specs = s # ss" by (cases specs) auto
  have at: "match_spec_at (pre @ s # ss) (length pre) = s" by (simp add: match_spec_at_def)
  obtain kp mp where p: "pack_partial_key_mask g s a = Inr (kp, mp)"
    and rest: "extend_key_mask g ((pre @ [s]) @ ss) (length (pre @ [s])) ms
                 (push_bit (match_bits s) k OR kp) (push_bit (match_bits s) m OR mp) = Inr (k', m')"
    using Cons.prems(1) by (auto simp: at specs Let_def split: sum.splits)
  note b = pack_partial_bounds [OF g p]
  from Cons.IH [OF rest _ push_or_bound [OF Cons.prems(3) b(2)] push_or_bound [OF Cons.prems(4) b(3)]]
  show ?case using Cons.prems(2) by (simp add: specs match_widths_def add.assoc)
qed (simp add: match_widths_def)

lemma extend_key_mask_fields:
  assumes g: "gmp_documented g"
  shows "extend_key_mask g (pre @ specs) (length pre) ms k m = Inr (k', m') \<Longrightarrow>
         length ms = length specs \<Longrightarrow> \<forall>x \<in> set ms. match_nonneg x \<Longrightarrow> 0 \<le> k \<Longrightarrow> 0 \<le> m \<Longrightarrow>
         \<exists>ks mks. map Inr (zip (map int ks) (map int mks)) = map2 (pack_partial_key_mask g) specs ms \<and>
           length ks = length specs \<and> length mks = length specs \<and>
           (\<forall>(b, x) \<in> set (zip (match_widths specs) ks). x < 2 ^ b) \<and>
           (\<forall>(b, x) \<in> set (zip (match_widths specs) mks). x < 2 ^ b) \<and>
           k' = k * 2 ^ sum_list (match_widths specs) + int (pack_fields (zip (match_widths specs) ks)) \<and>
           m' = m * 2 ^ sum_list (match_widths specs) + int (pack_fields (zip (match_widths specs) mks))"
proof (induction ms arbitrary: pre specs k m)
  case Nil
  then show ?case by (intro exI [of _ "[]"]) (simp add: match_widths_def)
next
  case (Cons a ms)
  then obtain s ss where specs: "specs = s # ss" by (cases specs) auto
  have at: "match_spec_at (pre @ s # ss) (length pre) = s" by (simp add: match_spec_at_def)
  obtain kp mp where p: "pack_partial_key_mask g s a = Inr (kp, mp)"
    and rest: "extend_key_mask g ((pre @ [s]) @ ss) (length (pre @ [s])) ms
                 (push_bit (match_bits s) k OR kp) (push_bit (match_bits s) m OR mp) = Inr (k', m')"
    using Cons.prems(1) by (auto simp: at specs Let_def split: sum.splits)
  have nn: "0 \<le> kp" "0 \<le> mp" using pack_partial_nonneg [OF _ p] Cons.prems(3) by auto
  have less: "kp < 2 ^ match_bits s" "mp < 2 ^ match_bits s" using pack_partial_bounds [OF g p] nn by auto
  have pk: "push_bit (match_bits s) k OR kp = k * 2 ^ match_bits s + kp"
    "push_bit (match_bits s) m OR mp = m * 2 ^ match_bits s + mp"
    using push_or_nonneg nn less Cons.prems by auto
  have acc: "0 \<le> k * 2 ^ match_bits s + kp" "0 \<le> m * 2 ^ match_bits s + mp"
    using nn Cons.prems(4,5) by auto
  obtain ks mks where IH:
    "map Inr (zip (map int ks) (map int mks)) = map2 (pack_partial_key_mask g) ss ms"
    "length ks = length ss" "length mks = length ss"
    "\<forall>(b, x) \<in> set (zip (match_widths ss) ks). x < 2 ^ b"
    "\<forall>(b, x) \<in> set (zip (match_widths ss) mks). x < 2 ^ b"
    "k' = (k * 2 ^ match_bits s + kp) * 2 ^ sum_list (match_widths ss) + int (pack_fields (zip (match_widths ss) ks))"
    "m' = (m * 2 ^ match_bits s + mp) * 2 ^ sum_list (match_widths ss) + int (pack_fields (zip (match_widths ss) mks))"
    using Cons.IH [OF rest [unfolded pk] _ _ acc] Cons.prems(2,3) by (auto simp: specs)
  have f: "map fst (zip (match_widths ss) ks) = match_widths ss" "map fst (zip (match_widths ss) mks) = match_widths ss"
    using IH(2,3) by (simp_all add: match_widths_def)
  show ?case
    by (rule exI [of _ "nat kp # ks"], rule exI [of _ "nat mp # mks"])
       (use IH nn less p in \<open>auto simp: f specs nat_less_iff algebra_simps power_add\<close>)
qed

lemmas extend_key_mask_fields0 =
  extend_key_mask_fields [where pre = "[]" and k = 0 and m = 0, simplified]
lemmas extend_key_mask_bound0 =
  extend_key_mask_bound [where pre = "[]" and k = 0 and m = 0 and n = 0, simplified]

lemma pack_matches_okD:
  assumes g: "gmp_documented g" and kb: "key_bits < 65536"
    and ok: "snp4_rule_pack_matches g specs key_bits ms p = Inr (SNP4_STATUS_OK, p')"
  shows "\<exists>key msk kbs mbs. extend_key_mask g specs 0 ms 0 0 = Inr (key, msk) \<and>
           p' = p\<lparr>pack_key := Live kbs, pack_key_len := (key_bits + 7) div 8,
                  pack_mask := Live mbs, pack_mask_len := (key_bits + 7) div 8\<rparr> \<and>
           length kbs = (key_bits + 7) div 8 \<and> length mbs = (key_bits + 7) div 8 \<and>
           be_value kbs = nat \<bar>key\<bar> \<and> be_value mbs = nat \<bar>msk\<bar>"
proof -
  obtain key msk where e: "extend_key_mask g specs 0 ms 0 0 = Inr (key, msk)"
    using ok by (cases "extend_key_mask g specs 0 ms 0 0") (auto simp: snp4_rule_pack_matches_def)
  obtain kbs where k: "mpz_sizeinbase2 g key \<le> key_bits \<Longrightarrow>
      export_right g (calloc ((key_bits + 7) div 8)) ((key_bits + 7) div 8) key = Inr (Live kbs)"
      "mpz_sizeinbase2 g key \<le> key_bits \<Longrightarrow> length kbs = (key_bits + 7) div 8 \<and> be_value kbs = nat \<bar>key\<bar>"
    using export_right_ok [OF g, of key key_bits] kb by fastforce
  obtain mbs where m: "mpz_sizeinbase2 g msk \<le> key_bits \<Longrightarrow>
      export_right g (calloc ((key_bits + 7) div 8)) ((key_bits + 7) div 8) msk = Inr (Live mbs)"
      "mpz_sizeinbase2 g msk \<le> key_bits \<Longrightarrow> length mbs = (key_bits + 7) div 8 \<and> be_value mbs = nat \<bar>msk\<bar>"
    using export_right_ok [OF g, of msk key_bits] kb by fastforce
  have ks: "mpz_sizeinbase2 g key \<le> key_bits" "mpz_sizeinbase2 g msk \<le> key_bits"
    using ok k by (auto simp: e snp4_rule_pack_matches_def free_key_mask_def free_ptr_def calloc_def Let_def split: if_splits sum.splits)
  show ?thesis using ok ks k m by (cases p) (auto simp: e snp4_rule_pack_matches_def Let_def)
qed

end
