(* ===== verification/Snp4_Rule_Props.thy ===== *)
theory Snp4_Rule_Props
  imports Snp4_Pack_Props
begin

text \<open>
  Correctness of the packing of whole rules: the packed arrays give every field and every
  parameter back, packing is free of undefined behaviour on consistent table descriptions,
  succeeds exactly on the rules that fit, and frees its buffers twice when the packed key is
  wider than the table says.
\<close>

lemmas pack_eval =
  snp4_rule_pack_def snp4_rule_pack_matches_def snp4_rule_pack_params_def pack_fail_def snp4_pack_clear_def
  clear_ptr_def free_key_mask_def free_ptr_def match_spec_at_def param_spec_at_def
  pack_partial_key_mask_def pack_partial_param_def
  expand_match_def default_mask_def validate_mask_def Let_def push_bit_eq_mult export_right_def
  write_at_def calloc_def u32_def snp4_pack_init_def table_param_bits_def
  snp4_info_get_table_by_name_def snp4_info_get_action_by_name_def
  bit_width.simps ref_export.simps

lemma matches_unpack:
  assumes "gmp_documented g" and "key_bits < 65536" and "length ms = length specs"
    and "\<forall>m \<in> set ms. match_nonneg m"
    and "snp4_rule_pack_matches g specs key_bits ms p = Inr (SNP4_STATUS_OK, p')"
  shows "\<exists>kbs mbs. pack_key p' = Live kbs \<and> pack_mask p' = Live mbs \<and>
           length kbs = (key_bits + 7) div 8 \<and> length mbs = (key_bits + 7) div 8 \<and>
           map Inr (zip (map int (unpack_fields (match_widths specs) (be_value kbs)))
                        (map int (unpack_fields (match_widths specs) (be_value mbs))))
             = map2 (pack_partial_key_mask g) specs ms"
proof -
  obtain key msk kbs mbs where e: "extend_key_mask g specs 0 ms 0 0 = Inr (key, msk)"
    and p': "pack_key p' = Live kbs" "pack_mask p' = Live mbs"
      "length kbs = (key_bits + 7) div 8" "length mbs = (key_bits + 7) div 8"
    and v: "be_value kbs = nat \<bar>key\<bar>" "be_value mbs = nat \<bar>msk\<bar>"
    using pack_matches_okD [OF assms(1,2,5)] by auto
  obtain ks mks where f:
    "map Inr (zip (map int ks) (map int mks)) = map2 (pack_partial_key_mask g) specs ms"
    "length ks = length specs" "length mks = length specs"
    "\<forall>(b, x) \<in> set (zip (match_widths specs) ks). x < 2 ^ b"
    "\<forall>(b, x) \<in> set (zip (match_widths specs) mks). x < 2 ^ b"
    "key = int (pack_fields (zip (match_widths specs) ks))"
    "msk = int (pack_fields (zip (match_widths specs) mks))"
    using extend_key_mask_fields0 [OF assms(1) e assms(3,4)] by auto
  have len: "length (match_widths specs) = length specs" by (simp add: match_widths_def)
  have "unpack_fields (match_widths specs) (be_value kbs) = ks"
    using unpack_pack [OF f(4)] f len v by simp
  moreover have "unpack_fields (match_widths specs) (be_value mbs) = mks"
    using unpack_pack [OF f(5)] f len v by simp
  ultimately show ?thesis using f(1) p' by blast
qed

text \<open>
  Property C1.  Packing and unpacking are inverse: when the key and mask of a rule without negative numbers are packed,
  both byte arrays have the length of the key rounded up to bytes, and reading the big-endian
  integers they hold field by field, first field in the most significant bits, gives back
  the key and mask of every match.
\<close>
theorem pack_matches_roundtrip:
  assumes "gmp_documented g" and "key_bits < 65536" and "length ms = length specs"
    and "\<forall>m \<in> set ms. match_nonneg m"
    and "snp4_rule_pack_matches g specs key_bits ms p = Inr (SNP4_STATUS_OK, p')"
  shows "\<exists>kbs mbs. pack_key p' = Live kbs \<and> pack_mask p' = Live mbs \<and>
           length kbs = (key_bits + 7) div 8 \<and> length mbs = (key_bits + 7) div 8 \<and>
           map Inr (zip (map int (unpack_fields (match_widths specs) (be_value kbs)))
                        (map int (unpack_fields (match_widths specs) (be_value mbs))))
             = map2 (pack_partial_key_mask g) specs ms"
  using assms by (rule matches_unpack)

theorem pack_matches_roundtrip_witness:
  "unpack_fields [4, 8] (be_value [0x0A, 0x05]) = [0xA, 0x05]"
proof -
  have "snp4_rule_pack_matches gmp_ref
          [\<lparr>match_type = MATCH_TYPE_CONSTANT, match_bits = 4\<rparr>, \<lparr>match_type = MATCH_TYPE_TERNARY, match_bits = 8\<rparr>] 12
          [FORMAT_KEY_ONLY 0xA, FORMAT_KEY_MASK 5 0x80] snp4_pack_init
        = Inr (SNP4_STATUS_OK, snp4_pack_init\<lparr>pack_key := Live [0x0A, 0x05], pack_key_len := 2,
             pack_mask := Live [0x0F, 0x80], pack_mask_len := 2\<rparr>)"
    by (simp add: pack_eval)
  from pack_matches_roundtrip [OF gmp_ref_documented _ _ _ this] show ?thesis
    by (auto simp: match_nonneg_def match_widths_def pack_eval)
qed

definition param_widths :: "snp4_info_param list \<Rightarrow> nat list" where
  "param_widths specs = map param_bits specs"

lemma param_widths_simps [simp]:
  "param_widths [] = []" "param_widths (s # ss) = param_bits s # param_widths ss"
  by (simp_all add: param_widths_def)

definition param_value :: "sn_param \<Rightarrow> int option" where
  "param_value p = (case p of PARAM_UNSET \<Rightarrow> None | PARAM_UI n \<Rightarrow> Some (int n) | PARAM_MPZ x \<Rightarrow> Some x)"

lemma gmp_size_gr:
  "gmp_documented g \<Longrightarrow> b < mpz_sizeinbase2 g x \<longleftrightarrow> \<not> (0 < b \<and> \<bar>x\<bar> < 2 ^ b)"
  using gmp_size_le [of g x b] by (meson not_le)

lemma pack_partial_param_iff:
  "gmp_documented g \<Longrightarrow> pack_partial_param g spec p = Inr x \<longleftrightarrow>
     param_value p = Some x \<and> 0 < param_bits spec \<and> \<bar>x\<bar> < 2 ^ param_bits spec"
proof -
  assume g: "gmp_documented g"
  have "(if param_bits spec < mpz_sizeinbase2 g v then Inl SNP4_STATUS_PARAM_TOO_BIG else Inr v) = Inr x \<longleftrightarrow>
        v = x \<and> 0 < param_bits spec \<and> \<bar>x\<bar> < 2 ^ param_bits spec" for v
    unfolding gmp_size_gr [OF g] by (metis Inl_Inr_False sum.inject(2))
  then show ?thesis by (cases p) (simp_all add: pack_partial_param_def param_value_def)
qed

lemma pack_partial_param_err [simp]: "pack_partial_param g spec p \<noteq> Inl SNP4_STATUS_OK"
  by (cases p) (auto simp: pack_partial_param_def)

lemma extend_params_err [simp]: "extend_params g specs i ps acc \<noteq> Inl SNP4_STATUS_OK"
  by (induction g specs i ps acc rule: extend_params.induct) (auto simp: Let_def split: sum.splits)

lemma extend_params_bound:
  assumes g: "gmp_documented g"
  shows "extend_params g (pre @ specs) (length pre) ps acc = Inr x \<Longrightarrow>
         length ps = length specs \<Longrightarrow> \<bar>acc\<bar> < 2 ^ n \<Longrightarrow> \<bar>x\<bar> < 2 ^ (n + sum_list (param_widths specs))"
proof (induction ps arbitrary: pre specs acc n)
  case (Cons a ps)
  then obtain s ss where specs: "specs = s # ss" by (cases specs) auto
  have at: "param_spec_at (pre @ s # ss) (length pre) = s" by (simp add: param_spec_at_def)
  obtain y where p: "pack_partial_param g s a = Inr y"
    and rest: "extend_params g ((pre @ [s]) @ ss) (length (pre @ [s])) ps (push_bit (param_bits s) acc OR y) = Inr x"
    using Cons.prems(1) by (auto simp: at specs Let_def split: sum.splits)
  have b: "\<bar>y\<bar> < 2 ^ param_bits s" using p by (simp add: pack_partial_param_iff [OF g])
  from Cons.IH [OF rest _ push_or_bound [OF Cons.prems(3) b]]
  show ?case using Cons.prems(2) by (simp add: specs add.assoc)
qed simp

lemma extend_params_fields:
  assumes g: "gmp_documented g"
  shows "extend_params g (pre @ specs) (length pre) ps acc = Inr x \<Longrightarrow>
         length ps = length specs \<Longrightarrow> \<forall>p \<in> set ps. \<forall>y. param_value p = Some y \<longrightarrow> 0 \<le> y \<Longrightarrow> 0 \<le> acc \<Longrightarrow>
         \<exists>ys. map (\<lambda>y. Some (int y)) ys = map param_value ps \<and>
           (\<forall>(b, y) \<in> set (zip (param_widths specs) ys). y < 2 ^ b) \<and>
           x = acc * 2 ^ sum_list (param_widths specs) + int (pack_fields (zip (param_widths specs) ys))"
proof (induction ps arbitrary: pre specs acc)
  case (Cons a ps)
  then obtain s ss where specs: "specs = s # ss" by (cases specs) auto
  have at: "param_spec_at (pre @ s # ss) (length pre) = s" by (simp add: param_spec_at_def)
  obtain y where p: "pack_partial_param g s a = Inr y"
    and rest: "extend_params g ((pre @ [s]) @ ss) (length (pre @ [s])) ps (push_bit (param_bits s) acc OR y) = Inr x"
    using Cons.prems(1) by (auto simp: at specs Let_def split: sum.splits)
  have pv: "param_value a = Some y" and y: "0 \<le> y" "y < 2 ^ param_bits s"
    using p Cons.prems(3) by (auto simp: pack_partial_param_iff [OF g])
  have pk: "push_bit (param_bits s) acc OR y = acc * 2 ^ param_bits s + y"
    using push_or_nonneg y Cons.prems by auto
  have acc: "0 \<le> acc * 2 ^ param_bits s + y" using y Cons.prems(4) by auto
  obtain ys where IH: "map (\<lambda>y. Some (int y)) ys = map param_value ps"
    "\<forall>(b, y) \<in> set (zip (param_widths ss) ys). y < 2 ^ b"
    "x = (acc * 2 ^ param_bits s + y) * 2 ^ sum_list (param_widths ss) + int (pack_fields (zip (param_widths ss) ys))"
    using Cons.IH [OF rest [unfolded pk] _ _ acc] Cons.prems(2,3) by (auto simp: specs)
  have "length ys = length ss" using arg_cong [OF IH(1), of length] Cons.prems(2) by (simp add: specs)
  then have f: "map fst (zip (param_widths ss) ys) = param_widths ss" by (simp add: param_widths_def)
  show ?case
    by (rule exI [of _ "nat y # ys"])
       (use IH y pv in \<open>auto simp: f specs nat_less_iff algebra_simps power_add\<close>)
qed auto

lemmas extend_params_fields0 = extend_params_fields [where pre = "[]" and acc = 0, simplified]
lemmas extend_params_bound0 = extend_params_bound [where pre = "[]" and acc = 0 and n = 0, simplified]


subsection \<open>The whole rule\<close>

text \<open>
  A table description is consistent when its widths are the sums of the widths of its fields
  and the parameters of every action fit the part of the response that the action id leaves.
\<close>

definition table_wf :: "snp4_info_table \<Rightarrow> bool" where
  "table_wf t \<longleftrightarrow>
     table_key_bits t = sum_list (match_widths (table_matches t)) \<and>
     0 < table_key_bits t \<and> table_key_bits t < 65536 \<and>
     table_actionid_bits t \<le> table_response_bits t \<and> table_response_bits t < 65536 \<and>
     (\<forall>a \<in> set (table_actions t).
        action_param_bits a = sum_list (param_widths (action_params a)) \<and>
        action_param_bits a \<le> table_response_bits t - table_actionid_bits t)"

lemma pack_matches_wf:
  assumes g: "gmp_documented g" and len: "length ms = length specs"
    and kb: "key_bits = sum_list (match_widths specs)" "0 < key_bits" "key_bits < 65536"
    and e: "extend_key_mask g specs 0 ms 0 0 = Inr (key, msk)"
  shows "\<exists>kbs mbs. snp4_rule_pack_matches g specs key_bits ms p =
           Inr (SNP4_STATUS_OK, p\<lparr>pack_key := Live kbs, pack_key_len := (key_bits + 7) div 8,
                  pack_mask := Live mbs, pack_mask_len := (key_bits + 7) div 8\<rparr>) \<and>
           length kbs = (key_bits + 7) div 8 \<and> length mbs = (key_bits + 7) div 8"
proof -
  have b: "\<bar>key\<bar> < 2 ^ key_bits" "\<bar>msk\<bar> < 2 ^ key_bits"
    using extend_key_mask_bound0 [OF g e len] kb by auto
  then have s: "mpz_sizeinbase2 g key \<le> key_bits" "mpz_sizeinbase2 g msk \<le> key_bits"
    using kb by (simp_all add: gmp_size_le [OF g])
  obtain kbs mbs where
    "export_right g (calloc ((key_bits + 7) div 8)) ((key_bits + 7) div 8) key = Inr (Live kbs)"
    "export_right g (calloc ((key_bits + 7) div 8)) ((key_bits + 7) div 8) msk = Inr (Live mbs)"
    "length kbs = (key_bits + 7) div 8" "length mbs = (key_bits + 7) div 8"
    using export_right_ok [OF g s(1)] export_right_ok [OF g s(2)] kb by fastforce
  then show ?thesis using s e by (cases p) (simp add: snp4_rule_pack_matches_def Let_def)
qed

lemma pack_params_wf:
  assumes g: "gmp_documented g" and len: "length ps = length specs"
    and ab: "ap_bits = sum_list (param_widths specs)" "0 < ap_bits" "ap_bits \<le> tp_bits" "tp_bits < 65536"
    and e: "extend_params g specs 0 ps 0 = Inr x"
  shows "\<exists>qbs. snp4_rule_pack_params g specs tp_bits ap_bits ps p =
           Inr (SNP4_STATUS_OK, p\<lparr>pack_params := Live qbs, pack_params_len := (tp_bits + 7) div 8\<rparr>) \<and>
           length qbs = (tp_bits + 7) div 8 \<and> be_value qbs = nat \<bar>x\<bar>"
proof -
  have "\<bar>x\<bar> < 2 ^ ap_bits" using extend_params_bound0 [OF g e len] ab by simp
  then have s: "mpz_sizeinbase2 g x \<le> ap_bits" using ab by (simp add: gmp_size_le [OF g])
  have n: "u32 (int tp_bits + 7) div 8 = (tp_bits + 7) div 8"
    using u32_id [of "tp_bits + 7"] ab(4) by (simp add: add.commute)
  obtain qbs where "export_right g (calloc ((tp_bits + 7) div 8)) ((tp_bits + 7) div 8) x = Inr (Live qbs)"
    "length qbs = (tp_bits + 7) div 8" "be_value qbs = nat \<bar>x\<bar>"
    using export_right_ok [OF g, of x tp_bits] s ab(3,4) by fastforce
  then show ?thesis using s ab(2) e by (cases p) (simp add: snp4_rule_pack_params_def Let_def n)
qed


lemma get_table_in:
  "snp4_info_get_table_by_name (Some pl) n = Some t \<Longrightarrow> t \<in> set (pipeline_tables pl)"
  by (auto simp: snp4_info_get_table_by_name_def find_Some_iff in_set_conv_nth split: option.splits)

lemma get_action_in:
  "snp4_info_get_action_by_name (Some t) n = Some a \<Longrightarrow> a \<in> set (table_actions t)"
  by (auto simp: snp4_info_get_action_by_name_def find_Some_iff in_set_conv_nth split: option.splits)

lemma table_param_bits_wf:
  "table_wf t \<Longrightarrow> table_param_bits t = table_response_bits t - table_actionid_bits t"
  using u32_id [of "table_response_bits t - table_actionid_bits t"]
  by (auto simp: table_wf_def table_param_bits_def of_nat_diff)

lemma pack_fail_key_mask [simp]:
  "pack_fail rc (snp4_pack_init\<lparr>pack_key := Live k, pack_key_len := l, pack_mask := Live m, pack_mask_len := n\<rparr>) =
     Inr (rc, snp4_pack_init\<lparr>pack_key_len := l, pack_mask_len := n\<rparr>)"
  by (simp add: pack_fail_def snp4_pack_clear_def clear_ptr_def free_ptr_def snp4_pack_init_def)

lemma pack_fail_init [simp]: "pack_fail rc snp4_pack_init = Inr (rc, snp4_pack_init)"
  by (simp add: pack_fail_def snp4_pack_clear_def clear_ptr_def free_ptr_def snp4_pack_init_def)

definition pack_released :: "sn_pack \<Rightarrow> bool" where
  "pack_released p \<longleftrightarrow> pack_key p = Null \<and> pack_mask p = Null \<and> pack_params p = Null"

lemma pack_released_init [simp]:
  "pack_released snp4_pack_init" "pack_released (snp4_pack_init\<lparr>pack_key_len := l, pack_mask_len := n\<rparr>)"
  by (simp_all add: pack_released_def snp4_pack_init_def)

definition pack_filled :: "snp4_info_table \<Rightarrow> sn_pack \<Rightarrow> bool" where
  "pack_filled t p \<longleftrightarrow>
     (\<exists>k m q. pack_key p = Live k \<and> pack_mask p = Live m \<and> pack_params p = Live q \<and>
       length k = (table_key_bits t + 7) div 8 \<and> length m = (table_key_bits t + 7) div 8 \<and>
       pack_key_len p = length k \<and> pack_mask_len p = length m \<and> pack_params_len p \<le> length q)"

text \<open>The rule a table accepts, field by field and parameter by parameter.\<close>

definition rule_fits :: "gmp \<Rightarrow> snp4_info_table \<Rightarrow> snp4_info_action \<Rightarrow> sn_rule \<Rightarrow> bool" where
  "rule_fits g t a r \<longleftrightarrow>
     list_all2 (\<lambda>spec m. \<exists>km. pack_partial_key_mask g spec m = Inr km) (table_matches t) (rule_matches r) \<and>
     length (rule_params r) = length (action_params a) \<and>
     (action_param_bits a = 0 \<or>
      list_all2 (\<lambda>spec p. \<exists>x. pack_partial_param g spec p = Inr x) (action_params a) (rule_params r))"

lemma extend_key_mask_iff:
  "length ms = length specs \<Longrightarrow>
     (\<exists>k' m'. extend_key_mask g (pre @ specs) (length pre) ms k m = Inr (k', m')) \<longleftrightarrow>
     list_all2 (\<lambda>spec m. \<exists>km. pack_partial_key_mask g spec m = Inr km) specs ms"
proof (induction ms arbitrary: pre specs k m)
  case (Cons a ms)
  then obtain s ss where specs: "specs = s # ss" by (cases specs) auto
  have at: "match_spec_at (pre @ s # ss) (length pre) = s" by (simp add: match_spec_at_def)
  show ?case using Cons.IH [of ss "pre @ [s]"] Cons.prems
    by (cases "pack_partial_key_mask g s a") (auto simp: at specs Let_def)
qed simp

lemma extend_params_iff:
  "length ps = length specs \<Longrightarrow>
     (\<exists>x. extend_params g (pre @ specs) (length pre) ps acc = Inr x) \<longleftrightarrow>
     list_all2 (\<lambda>spec p. \<exists>x. pack_partial_param g spec p = Inr x) specs ps"
proof (induction ps arbitrary: pre specs acc)
  case (Cons a ps)
  then obtain s ss where specs: "specs = s # ss" by (cases specs) auto
  have at: "param_spec_at (pre @ s # ss) (length pre) = s" by (simp add: param_spec_at_def)
  show ?case using Cons.IH [of ss "pre @ [s]"] Cons.prems
    by (cases "pack_partial_param g s a") (auto simp: at specs Let_def)
qed simp

lemmas extend_key_mask_iff0 = extend_key_mask_iff [where pre = "[]", simplified]
lemmas extend_params_iff0 = extend_params_iff [where pre = "[]", simplified]

text \<open>Packing the parameters fails without a change, or leaves the key and the mask as they are.\<close>

lemma pack_params_outcome:
  assumes g: "gmp_documented g" and wf: "table_wf t"
    and a: "snp4_info_get_action_by_name (Some t) (rule_action_name r) = Some a"
    and len: "length (rule_params r) = length (action_params a)"
  defines "fits \<equiv> action_param_bits a = 0 \<or>
    list_all2 (\<lambda>spec p. \<exists>x. pack_partial_param g spec p = Inr x) (action_params a) (rule_params r)"
  shows "(if fits then \<exists>qbs n. snp4_rule_pack_params g (action_params a) (table_param_bits t) (action_param_bits a) (rule_params r) p1 =
             Inr (SNP4_STATUS_OK, p1\<lparr>pack_params := Live qbs, pack_params_len := n\<rparr>) \<and> n \<le> length qbs
          else \<exists>e. snp4_rule_pack_params g (action_params a) (table_param_bits t) (action_param_bits a) (rule_params r) p1 = Inr (e, p1) \<and>
             e \<noteq> SNP4_STATUS_OK)"
proof (cases "action_param_bits a = 0")
  case True
  then show ?thesis by (auto simp: fits_def snp4_rule_pack_params_def calloc_def)
next
  case False
  show ?thesis
  proof (cases "extend_params g (action_params a) 0 (rule_params r) 0")
    case (Inl e)
    then have "\<not> list_all2 (\<lambda>spec p. \<exists>x. pack_partial_param g spec p = Inr x) (action_params a) (rule_params r)"
      using extend_params_iff0 [of "rule_params r" "action_params a" g 0] len by simp
    moreover have "e \<noteq> SNP4_STATUS_OK" using Inl extend_params_err by metis
    ultimately show ?thesis using False Inl by (simp add: fits_def snp4_rule_pack_params_def)
  next
    case (Inr x)
    have ab: "action_param_bits a = sum_list (param_widths (action_params a))"
      "action_param_bits a \<le> table_param_bits t" "table_param_bits t < 65536"
      using wf get_action_in [OF a] by (auto simp: table_param_bits_wf [OF wf] table_wf_def)
    have fits using extend_params_iff0 [of "rule_params r" "action_params a" g 0] len Inr by (auto simp: fits_def)
    obtain qbs where qbs: "snp4_rule_pack_params g (action_params a) (table_param_bits t) (action_param_bits a) (rule_params r) p1
        = Inr (SNP4_STATUS_OK, p1\<lparr>pack_params := Live qbs, pack_params_len := (table_param_bits t + 7) div 8\<rparr>)"
      "length qbs = (table_param_bits t + 7) div 8"
      using pack_params_wf [OF g _ ab(1) _ ab(2,3) Inr, of p1] len False by auto
    show ?thesis
      unfolding if_P [OF \<open>fits\<close>] by (intro exI conjI, rule qbs(1)) (simp only: qbs(2) order_refl)
  qed
qed

lemma rule_pack_outcome:
  assumes g: "gmp_documented g" and wf: "table_wf t"
    and t: "snp4_info_get_table_by_name (Some pl) (rule_table_name r) = Some t"
    and a: "snp4_info_get_action_by_name (Some t) (rule_action_name r) = Some a"
  shows "\<exists>rc p'. snp4_rule_pack g (Some pl) (Some r) (Some p) = Inr (rc, Some p') \<and>
           (rc = SNP4_STATUS_OK \<longleftrightarrow> rule_fits g t a r) \<and>
           (if rc = SNP4_STATUS_OK then pack_filled t p' else pack_released p')"
proof (cases "length (rule_matches r) = length (table_matches t) \<and> length (rule_params r) = length (action_params a)")
  case False
  then show ?thesis
    by (auto simp: snp4_rule_pack_def t a Let_def rule_fits_def dest: list_all2_lengthD)
next
  case len: True
  have w: "table_key_bits t = sum_list (match_widths (table_matches t))" "0 < table_key_bits t"
    "table_key_bits t < 65536" using wf by (simp_all add: table_wf_def)
  show ?thesis
  proof (cases "extend_key_mask g (table_matches t) 0 (rule_matches r) 0 0")
    case (Inl e)
    then have "\<not> list_all2 (\<lambda>spec m. \<exists>km. pack_partial_key_mask g spec m = Inr km) (table_matches t) (rule_matches r)"
      using extend_key_mask_iff0 [of "rule_matches r" "table_matches t" g 0 0] len by simp
    moreover have "e \<noteq> SNP4_STATUS_OK" using Inl extend_key_mask_err by metis
    ultimately show ?thesis using len Inl
      by (simp add: snp4_rule_pack_def t a Let_def rule_fits_def snp4_rule_pack_matches_def)
  next
    case (Inr km)
    obtain key msk where km: "km = (key, msk)" by force
    have fit: "list_all2 (\<lambda>spec m. \<exists>km. pack_partial_key_mask g spec m = Inr km) (table_matches t) (rule_matches r)"
      using extend_key_mask_iff0 [of "rule_matches r" "table_matches t" g 0 0] len Inr km by auto
    obtain kbs mbs where k: "snp4_rule_pack_matches g (table_matches t) (table_key_bits t) (rule_matches r) snp4_pack_init =
        Inr (SNP4_STATUS_OK, snp4_pack_init\<lparr>pack_key := Live kbs, pack_key_len := (table_key_bits t + 7) div 8,
               pack_mask := Live mbs, pack_mask_len := (table_key_bits t + 7) div 8\<rparr>)"
      "length kbs = (table_key_bits t + 7) div 8" "length mbs = (table_key_bits t + 7) div 8"
      using pack_matches_wf [OF g _ w] len Inr km by blast
    define p1 where "p1 = snp4_pack_init\<lparr>pack_key := Live kbs, pack_key_len := (table_key_bits t + 7) div 8,
               pack_mask := Live mbs, pack_mask_len := (table_key_bits t + 7) div 8\<rparr>"
    show ?thesis
    proof (cases "rule_fits g t a r")
      case True
      then obtain qbs n where "snp4_rule_pack_params g (action_params a) (table_param_bits t) (action_param_bits a) (rule_params r) p1 =
             Inr (SNP4_STATUS_OK, p1\<lparr>pack_params := Live qbs, pack_params_len := n\<rparr>)" "n \<le> length qbs"
        using pack_params_outcome [OF g wf a, of p1] by (auto simp: rule_fits_def)
      then show ?thesis using True len k [folded p1_def]
        by (simp add: snp4_rule_pack_def t a Let_def pack_filled_def p1_def)
    next
      case False
      then obtain e where "snp4_rule_pack_params g (action_params a) (table_param_bits t) (action_param_bits a) (rule_params r) p1 =
             Inr (e, p1)" "e \<noteq> SNP4_STATUS_OK"
        using pack_params_outcome [OF g wf a, of p1] len fit by (auto simp: rule_fits_def)
      then show ?thesis using False len k(1) [folded p1_def]
        by (simp add: snp4_rule_pack_def t a Let_def p1_def)
    qed
  qed
qed


lemma rule_pack_lookup_fail:
  "snp4_info_get_table_by_name (Some pl) (rule_table_name r) = None \<Longrightarrow>
     snp4_rule_pack g (Some pl) (Some r) (Some p) = Inr (SNP4_STATUS_INVALID_TABLE_NAME, Some snp4_pack_init)"
  "snp4_info_get_table_by_name (Some pl) (rule_table_name r) = Some t \<Longrightarrow>
   snp4_info_get_action_by_name (Some t) (rule_action_name r) = None \<Longrightarrow>
     snp4_rule_pack g (Some pl) (Some r) (Some p) = Inr (SNP4_STATUS_INVALID_ACTION_FOR_TABLE, Some snp4_pack_init)"
  by (simp_all add: snp4_rule_pack_def Let_def)

text \<open>
  Property C14.  Packing never leaves the defined behaviour of C on a pipeline whose tables are
  described consistently, whatever the user's rule is (negative integers and wrong formats
  included): no byte is written past the end of an array and nothing is freed twice.  On
  success the three arrays are live with the lengths of the table; on an error every pointer
  of the result is NULL, so the caller has nothing to release.
\<close>
theorem rule_pack_safe:
  assumes "gmp_documented g" and "\<forall>t \<in> set (pipeline_tables pl). table_wf t"
  shows "\<exists>rc p'. snp4_rule_pack g (Some pl) (Some r) (Some p) = Inr (rc, Some p') \<and>
           (if rc = SNP4_STATUS_OK
            then \<exists>t \<in> set (pipeline_tables pl). Some (table_name t) = rule_table_name r \<and> pack_filled t p'
            else pack_released p')"
proof (cases "snp4_info_get_table_by_name (Some pl) (rule_table_name r)")
  case None
  then show ?thesis by (simp add: rule_pack_lookup_fail)
next
  case (Some t)
  have n: "Some (table_name t) = rule_table_name r"
    using Some by (auto simp: snp4_info_get_table_by_name_def find_Some_iff split: option.splits)
  show ?thesis
  proof (cases "snp4_info_get_action_by_name (Some t) (rule_action_name r)")
    case None
    then show ?thesis using Some by (simp add: rule_pack_lookup_fail)
  next
    case a: (Some a)
    show ?thesis
      using rule_pack_outcome [OF assms(1) _ Some a, of p] assms(2) get_table_in [OF Some] n by metis
  qed
qed

definition example_table :: snp4_info_table where
  "example_table = \<lparr>table_name = ''t'', table_num_entries = 4, table_endian = ENDIAN_BIG, table_mode = MODE_TCAM,
     table_num_masks = 0, table_key_bits = 12,
     table_matches = [\<lparr>match_type = MATCH_TYPE_CONSTANT, match_bits = 4\<rparr>, \<lparr>match_type = MATCH_TYPE_TERNARY, match_bits = 8\<rparr>],
     table_response_bits = 10, table_actionid_bits = 1,
     table_actions = [\<lparr>action_name = ''a'', action_param_bits = 9, action_params = [\<lparr>param_name = ''x'', param_bits = 9\<rparr>]\<rparr>],
     table_priority_required = False, table_priority_bits = 0\<rparr>"

definition example_pipeline :: snp4_info_pipeline where
  "example_pipeline = \<lparr>pipeline_name = ''p'', pipeline_tables = [example_table], pipeline_counter_blocks = []\<rparr>"

definition example_rule :: sn_rule where
  "example_rule = \<lparr>rule_table_name = Some ''t'', rule_matches = [FORMAT_KEY_ONLY 10, FORMAT_KEY_MASK (- 1) (- 4)],
     rule_action_name = Some ''a'', rule_params = [PARAM_UI 300], rule_priority = 0\<rparr>"

lemma example_table_wf [simp]: "table_wf example_table"
  by (simp add: table_wf_def example_table_def match_widths_def param_widths_def)

theorem rule_pack_safe_witness:
  "\<exists>rc p'. snp4_rule_pack gmp_ref (Some example_pipeline) (Some example_rule) (Some snp4_pack_init) = Inr (rc, Some p')"
  using rule_pack_safe [of gmp_ref example_pipeline example_rule snp4_pack_init]
  by (auto simp: example_pipeline_def)

text \<open>
  Property C4.  A rule is packed successfully exactly when its table and the action in that
  table exist and every match and every parameter fits its field.
\<close>
theorem rule_pack_ok_iff:
  assumes "gmp_documented g" and "\<forall>t \<in> set (pipeline_tables pl). table_wf t"
  shows "(\<exists>p'. snp4_rule_pack g (Some pl) (Some r) (Some p) = Inr (SNP4_STATUS_OK, p')) \<longleftrightarrow>
         (\<exists>t a. snp4_info_get_table_by_name (Some pl) (rule_table_name r) = Some t \<and>
                snp4_info_get_action_by_name (Some t) (rule_action_name r) = Some a \<and> rule_fits g t a r)"
proof (cases "snp4_info_get_table_by_name (Some pl) (rule_table_name r)")
  case None
  then show ?thesis by (simp add: rule_pack_lookup_fail)
next
  case (Some t)
  show ?thesis
  proof (cases "snp4_info_get_action_by_name (Some t) (rule_action_name r)")
    case None
    then show ?thesis using Some by (simp add: rule_pack_lookup_fail)
  next
    case a: (Some a)
    show ?thesis
      using rule_pack_outcome [OF assms(1) _ Some a, of p] assms(2) get_table_in [OF Some] Some a by auto
  qed
qed

theorem rule_pack_ok_iff_witness:
  "\<exists>p'. snp4_rule_pack gmp_ref (Some example_pipeline) (Some (example_rule\<lparr>rule_matches := [FORMAT_KEY_ONLY 10, FORMAT_UNUSED]\<rparr>))
          (Some snp4_pack_init) = Inr (SNP4_STATUS_OK, p')"
  by (subst rule_pack_ok_iff)
     (simp_all add: example_pipeline_def example_rule_def example_table_def rule_fits_def pack_eval
        table_wf_def match_widths_def param_widths_def)

text \<open>
  Property C39.  When the key packed from the fields does not fit the width that the table
  declares, the error path of \<open>snp4_rule_pack_matches\<close> frees the key and the mask without
  resetting the pointers, and \<open>snp4_rule_pack\<close> then releases the same pointers again: the
  error is a double free and is never returned to the caller as a status.
\<close>
theorem rule_pack_key_too_big:
  assumes "snp4_info_get_table_by_name (Some pl) (rule_table_name r) = Some t"
    and "snp4_info_get_action_by_name (Some t) (rule_action_name r) = Some a"
    and "length (rule_matches r) = length (table_matches t)"
    and "length (rule_params r) = length (action_params a)"
    and "extend_key_mask g (table_matches t) 0 (rule_matches r) 0 0 = Inr (key, msk)"
    and "table_key_bits t < mpz_sizeinbase2 g key"
  shows "snp4_rule_pack g (Some pl) (Some r) (Some p) = Inl Double_Free"
  using assms
  by (simp add: snp4_rule_pack_def Let_def snp4_rule_pack_matches_def free_key_mask_def free_ptr_def
      calloc_def pack_fail_def snp4_pack_clear_def clear_ptr_def)

theorem rule_pack_key_too_big_witness:
  "snp4_rule_pack gmp_ref
     (Some (example_pipeline\<lparr>pipeline_tables := [example_table\<lparr>table_key_bits := 0, table_matches := []\<rparr>]\<rparr>))
     (Some (example_rule\<lparr>rule_matches := []\<rparr>)) (Some snp4_pack_init) = Inl Double_Free"
  by (rule rule_pack_key_too_big [where t = "example_table\<lparr>table_key_bits := 0, table_matches := []\<rparr>"
        and a = "hd (table_actions example_table)" and key = 0 and msk = 0])
     (simp_all add: example_pipeline_def example_rule_def example_table_def
        snp4_info_get_table_by_name_def snp4_info_get_action_by_name_def)


lemma params_unpack:
  assumes "gmp_documented g" and "length ps = length specs"
    and "ap_bits = sum_list (param_widths specs)" and "0 < ap_bits" and "ap_bits \<le> tp_bits" and "tp_bits < 65536"
    and "\<forall>p \<in> set ps. \<forall>y. param_value p = Some y \<longrightarrow> 0 \<le> y"
    and "snp4_rule_pack_params g specs tp_bits ap_bits ps pk = Inr (SNP4_STATUS_OK, pk')"
  shows "\<exists>bs. pack_params pk' = Live bs \<and> length bs = (tp_bits + 7) div 8 \<and>
           map (\<lambda>y. Some (int y)) (unpack_fields (param_widths specs) (be_value bs)) = map param_value ps"
proof -
  obtain x where e: "extend_params g specs 0 ps 0 = Inr x"
    using assms(4,8) by (cases "extend_params g specs 0 ps 0") (auto simp: snp4_rule_pack_params_def)
  obtain bs where bs: "pack_params pk' = Live bs" "length bs = (tp_bits + 7) div 8" "be_value bs = nat \<bar>x\<bar>"
    using pack_params_wf [OF assms(1,2,3,4,5,6) e, of pk] assms(8) by auto
  obtain ys where ys: "map (\<lambda>y. Some (int y)) ys = map param_value ps"
    "\<forall>(b, y) \<in> set (zip (param_widths specs) ys). y < 2 ^ b"
    "x = int (pack_fields (zip (param_widths specs) ys))"
    using extend_params_fields0 [OF assms(1) e assms(2,7)] by auto
  have "length ys = length (param_widths specs)"
    using arg_cong [OF ys(1), of length] assms(2) by (simp add: param_widths_def)
  then have "unpack_fields (param_widths specs) (be_value bs) = ys"
    using unpack_pack [OF ys(2)] bs(3) ys(3) by simp
  then show ?thesis using bs ys(1) by blast
qed

lemma export_minus_one:
  assumes "gmp_documented g"
  shows "mpz_export_be g (- 1) = [1]"
proof -
  have "length (mpz_export_be g (- 1)) = 1" using gmp_export_length [OF assms, of "- 1"] by (simp add: bit_width.simps)
  then obtain b where b: "mpz_export_be g (- 1) = [b]" by (auto simp: length_Suc_conv)
  have "unat b = 1" using gmp_export_value [OF assms, of "- 1"] by (simp add: b be_value_def)
  then show ?thesis by (metis b unat_1 word_unat_eq_iff)
qed

text \<open>
  The round trips are for numbers that are not negative.  A client may write a negative one: its size is that of its magnitude,
  so that it is accepted, but the bitwise or of the packing extends its sign over the fields before it, and the magnitude of the
  result is exported.  With \<open>-1\<close> for the second of two ternary fields the key is the same whatever the first one is.
\<close>

lemma negative_key_loses_fields:
  assumes "gmp_documented g" and "0 \<le> k" and "k < 256"
  shows "\<exists>p'. snp4_rule_pack_matches g
       [\<lparr>match_type = MATCH_TYPE_TERNARY, match_bits = 8\<rparr>, \<lparr>match_type = MATCH_TYPE_TERNARY, match_bits = 4\<rparr>] 12
       [FORMAT_KEY_ONLY k, FORMAT_KEY_ONLY (- 1)] p = Inr (SNP4_STATUS_OK, p') \<and> pack_key p' = Live [0, 1]"
proof -
  note size = gmp_size_le [OF assms(1)]
  have k: "mpz_sizeinbase2 g k \<le> 8" "mpz_sizeinbase2 g 255 \<le> 8" "mpz_sizeinbase2 g (- 1) \<le> 4" "mpz_sizeinbase2 g 15 \<le> 4"
    using assms(2,3) by (simp_all add: size)
  have e: "extend_key_mask g [\<lparr>match_type = MATCH_TYPE_TERNARY, match_bits = 8\<rparr>, \<lparr>match_type = MATCH_TYPE_TERNARY, match_bits = 4\<rparr>]
      0 [FORMAT_KEY_ONLY k, FORMAT_KEY_ONLY (- 1)] 0 0 = Inr (- 1, 4095)"
    using k by (simp add: match_spec_at_def pack_partial_key_mask_def expand_match_def default_mask_def validate_mask_def Let_def
      ones_mask_def push_bit_eq_mult not_less)
  have n: "mpz_sizeinbase2 g (- 1) = 1" "mpz_sizeinbase2 g 4095 \<le> 12"
    using assms(1) by (simp_all add: gmp_size bit_width.simps size)
  obtain bs where "export_right g (calloc 2) 2 4095 = Inr (Live bs)"
    using export_right_ok [OF assms(1), of 4095 12] n(2) by auto
  moreover have "export_right g (calloc 2) 2 (- 1) = Inr (Live [0, 1])"
    by (simp add: export_right_def n(1) export_minus_one [OF assms(1)] write_at_def calloc_def u32_def numeral_2_eq_2)
  ultimately show ?thesis using n(2)
    unfolding snp4_rule_pack_matches_def e by (simp add: Let_def n(1) not_less)
qed

text \<open>
  Property C28.  The packed parameters can be read back: when the action has parameters and none of the values is
  negative, the array has the length of the parameter part of the response and holds the parameter values,
  first parameter in the most significant bits.
\<close>
theorem pack_params_roundtrip:
  assumes "gmp_documented g" and "length ps = length specs"
    and "ap_bits = sum_list (param_widths specs)" and "0 < ap_bits" and "ap_bits \<le> tp_bits" and "tp_bits < 65536"
    and "\<forall>p \<in> set ps. \<forall>y. param_value p = Some y \<longrightarrow> 0 \<le> y"
    and "snp4_rule_pack_params g specs tp_bits ap_bits ps pk = Inr (SNP4_STATUS_OK, pk')"
  shows "\<exists>bs. pack_params pk' = Live bs \<and> length bs = (tp_bits + 7) div 8 \<and>
           map (\<lambda>y. Some (int y)) (unpack_fields (param_widths specs) (be_value bs)) = map param_value ps"
  using assms by (rule params_unpack)

theorem pack_params_roundtrip_witness:
  "unpack_fields [9, 3] (be_value [0x09, 0x65]) = [300, 5]"
proof -
  have "snp4_rule_pack_params gmp_ref [\<lparr>param_name = ''x'', param_bits = 9\<rparr>, \<lparr>param_name = ''y'', param_bits = 3\<rparr>] 16 12
          [PARAM_UI 300, PARAM_MPZ 5] snp4_pack_init
        = Inr (SNP4_STATUS_OK, snp4_pack_init\<lparr>pack_params := Live [0x09, 0x65], pack_params_len := 2\<rparr>)"
    by (simp add: pack_eval)
  from pack_params_roundtrip [OF gmp_ref_documented _ _ _ _ _ _ this] show ?thesis
    by (simp add: param_widths_def param_value_def)
qed

end
