(* ===== verification/Snp4_Info_Props.thy ===== *)
theory Snp4_Info_Props
  imports Snp4_Info
begin

text \<open>
  Correctness of the pipeline description: the field format string is parsed back to the
  fields it was printed from, and the loader accepts exactly the configurations within the
  limits of \<^verbatim>\<open>snp4.h\<close> and describes all of their parts, in order.
\<close>

subsection \<open>Printing a field format\<close>

definition type_letter :: "snp4_info_match_type \<Rightarrow> char" where
  "type_letter t =
     (case t of MATCH_TYPE_BITFIELD \<Rightarrow> CHR ''b'' | MATCH_TYPE_CONSTANT \<Rightarrow> CHR ''c''
      | MATCH_TYPE_PREFIX \<Rightarrow> CHR ''p'' | MATCH_TYPE_RANGE \<Rightarrow> CHR ''r''
      | MATCH_TYPE_TERNARY \<Rightarrow> CHR ''t'' | MATCH_TYPE_UNUSED \<Rightarrow> CHR ''u''
      | MATCH_TYPE_INVALID \<Rightarrow> CHR ''?'')"

definition print_match :: "snp4_info_match \<Rightarrow> string" where
  "print_match m = dec (match_bits m) @ [type_letter (match_type m)]"

fun join_colon :: "string list \<Rightarrow> string" where
  "join_colon [] = ''''"
| "join_colon [s] = s"
| "join_colon (s # t # ss) = s @ '':'' @ join_colon (t # ss)"

text \<open>The format names the fields from the least significant one on.\<close>

definition print_format :: "snp4_info_match list \<Rightarrow> string" where
  "print_format ms = join_colon (map print_match (rev ms))"

definition needs_priority :: "snp4_info_match \<Rightarrow> bool" where
  "needs_priority m \<longleftrightarrow> match_type m \<in> {MATCH_TYPE_PREFIX, MATCH_TYPE_RANGE, MATCH_TYPE_TERNARY}"

lemma digit_char [simp]: "(k::nat) < 10 \<Longrightarrow> is_digit (char_of (48 + k))" "(k::nat) < 10 \<Longrightarrow> (of_char (char_of (48 + k) :: char) :: nat) = 48 + k"
  by (simp_all add: is_digit_def Let_def)

lemma dec_digits: "c \<in> set (dec n) \<Longrightarrow> is_digit c"
  by (induction n rule: dec.induct) (subst (asm) (2) dec.simps, auto split: if_splits)

lemma dec_nonempty [simp]: "dec n \<noteq> []"
  by (subst dec.simps) simp

lemma digits_value_snoc: "digits_value (ds @ [c]) = digits_value ds * 10 + (of_char c - 48)"
  by (simp add: digits_value_def)

lemma digits_value_dec: "digits_value (dec n) = n"
proof (induction n rule: dec.induct)
  case (1 n)
  show ?case
  proof (cases "n < 10")
    case True
    then show ?thesis by (simp add: dec.simps [of n] digits_value_def)
  next
    case False
    then show ?thesis using 1 by (simp add: dec.simps [of n] digits_value_snoc)
  qed
qed

lemma digit_not_space: "is_digit c \<Longrightarrow> \<not> is_space c \<and> c \<noteq> CHR ''-'' \<and> c \<noteq> CHR ''+'' \<and> c \<noteq> CHR '':''"
  by (auto simp: is_digit_def is_space_def Let_def)

lemma scanf_dec:
  assumes "n < 65536" and "\<not> is_digit t"
  shows "scanf_uc (dec n @ [t]) = Some (n, t)"
proof -
  obtain c cs where d: "dec n = c # cs" by (cases "dec n") auto
  have c: "is_digit c" using dec_digits [of c n] d by simp
  note [simp] = digit_not_space [OF c]
  have all: "\<forall>x \<in> set (dec n). is_digit x" using dec_digits by blast
  have "dropWhile is_space (dec n @ [t]) = dec n @ [t]" by (simp add: d)
  moreover have "take 1 (dec n @ [t]) \<noteq> ''-''" "take 1 (dec n @ [t]) \<noteq> ''+''" by (simp_all add: d)
  moreover have "takeWhile is_digit (dec n @ [t]) = dec n" "dropWhile is_digit (dec n @ [t]) = [t]"
    using all assms(2) by (simp_all add: takeWhile_append dropWhile_append)
  moreover have "strtoul_cut False n = n" using assms(1) u32_id [of n] by (simp add: strtoul_cut_def)
  ultimately show ?thesis by (simp add: scanf_uc_def Let_def digits_value_dec)
qed

lemma load_match_print:
  assumes "match_bits m < 65536" and "match_type m \<noteq> MATCH_TYPE_INVALID"
  shows "load_match (Some (print_match m)) = (m, needs_priority m)"
proof -
  have "scanf_uc (print_match m) = Some (match_bits m, type_letter (match_type m))"
    unfolding print_match_def
    by (rule scanf_dec [OF assms(1)]) (cases "match_type m"; simp add: type_letter_def is_digit_def Let_def)
  then show ?thesis using assms
    by (cases m; cases "match_type m") (simp_all add: load_match_def Let_def type_letter_def needs_priority_def u16_id)
qed

lemma print_match_no_colon: "CHR '':'' \<notin> set (print_match m)"
  using dec_digits digit_not_space by (auto simp: print_match_def type_letter_def split: snp4_info_match_type.splits)

lemma strsep_join:
  assumes "CHR '':'' \<notin> set s"
  shows "strsep_colon (Some (join_colon (s # ss))) = (Some s, if ss = [] then None else Some (join_colon ss))"
proof -
  have all: "\<forall>c \<in> set s. c \<noteq> CHR '':''" using assms by metis
  then have dw: "dropWhile (\<lambda>c. c \<noteq> CHR '':'') s = []" by (simp add: dropWhile_eq_Nil_conv)
  show ?thesis using all by (cases ss) (simp_all add: strsep_colon_def takeWhile_append dropWhile_append dw)
qed

lemma load_matches_print:
  assumes "\<forall>m \<in> set ms. match_bits m < 65536 \<and> match_type m \<noteq> MATCH_TYPE_INVALID"
  shows "load_matches (length ms) (if ms = [] then c else Some (join_colon (map print_match ms))) prio
           = (ms, prio \<or> (\<exists>m \<in> set ms. needs_priority m))"
  using assms
proof (induction ms arbitrary: prio c)
  case (Cons m ms)
  have "strsep_colon (Some (join_colon (map print_match (m # ms)))) =
        (Some (print_match m), if ms = [] then None else Some (join_colon (map print_match ms)))"
    using strsep_join [OF print_match_no_colon, of m "map print_match ms"] by simp
  then show ?case using Cons.IH [of None] Cons.prems by (simp add: load_match_print)
qed simp

lemma count_list_join:
  "\<forall>s \<in> set ss. CHR '':'' \<notin> set s \<Longrightarrow> ss \<noteq> [] \<Longrightarrow> count_list (join_colon ss) (CHR '':'') = length ss - 1"
  by (induction ss rule: join_colon.induct) (auto simp: count_list_0_iff)

lemma format_parsed:
  assumes "length ms \<le> max_matches" and "length ms < 65536"
    and "\<forall>m \<in> set ms. match_bits m < 65536 \<and> match_type m \<noteq> MATCH_TYPE_INVALID"
  shows "snp4_info_get_matches max_matches (print_format ms) = Inr (ms, \<exists>m \<in> set ms. needs_priority m)"
proof -
  have c: "count_matches (print_format ms) = length ms"
  proof (cases ms rule: rev_cases)
    case (snoc xs x)
    then have "print_format ms \<noteq> []"
      by (cases "rev xs") (simp_all add: print_format_def print_match_def)
    moreover have "count_list (print_format ms) (CHR '':'') = length ms - 1"
      unfolding print_format_def using count_list_join [of "map print_match (rev ms)"] print_match_no_colon snoc by auto
    ultimately show ?thesis using snoc by (simp add: count_matches_def)
  qed (simp add: count_matches_def print_format_def)
  have "load_matches (length ms) (Some (print_format ms)) False = (rev ms, \<exists>m \<in> set ms. needs_priority m)"
    using load_matches_print [of "rev ms" "Some ''''" False] assms(3)
    by (cases "ms = []") (simp_all add: print_format_def)
  then show ?thesis using assms c by (simp add: snp4_info_get_matches_def Let_def u16_id)
qed

text \<open>
  Property C27.  Parsing the field format is the inverse of printing it: from the format of a
  list of fields (decimal width and type letter of each, separated by colons, least
  significant field first) the loader gets the same fields in the order of the key, most
  significant first, and asks for a priority exactly when one of them is a prefix, range or
  ternary field.
\<close>
theorem format_roundtrip:
  assumes "length ms \<le> max_matches" and "length ms < 65536"
    and "\<forall>m \<in> set ms. match_bits m < 65536 \<and> match_type m \<noteq> MATCH_TYPE_INVALID"
  shows "snp4_info_get_matches max_matches (print_format ms) = Inr (ms, \<exists>m \<in> set ms. needs_priority m)"
  using assms by (rule format_parsed)

theorem format_roundtrip_witness:
  "snp4_info_get_matches 64 ''12t:4c''
     = Inr ([\<lparr>match_type = MATCH_TYPE_CONSTANT, match_bits = 4\<rparr>, \<lparr>match_type = MATCH_TYPE_TERNARY, match_bits = 12\<rparr>], True)"
  using format_roundtrip [of "[\<lparr>match_type = MATCH_TYPE_CONSTANT, match_bits = 4\<rparr>, \<lparr>match_type = MATCH_TYPE_TERNARY, match_bits = 12\<rparr>]" 64]
  by (simp add: print_format_def print_match_def type_letter_def dec.simps needs_priority_def char_of_def bit_Suc_0_iff)

subsection \<open>The loaded description\<close>

text \<open>What the loader promises of an action, a table and a pipeline.\<close>

definition action_loaded :: "xil_action \<Rightarrow> snp4_info_action \<Rightarrow> bool" where
  "action_loaded xa a \<longleftrightarrow>
     action_name a = xa_name xa \<and>
     map param_name (action_params a) = map attr_name (xa_params xa) \<and>
     map param_bits (action_params a) = map (\<lambda>p. u16 (attr_value p)) (xa_params xa) \<and>
     action_param_bits a = u16 (sum_list (map attr_value (xa_params xa))) \<and>
     length (action_params a) \<le> SNP4_MAX_ACTION_PARAMS"

text \<open>
  The values of the enumerations of the driver and of \<^verbatim>\<open>snp4.h\<close> that mean the same.
\<close>

definition same_endian :: "(xil_endian \<times> snp4_info_table_endian) set" where
  "same_endian = {(XIL_LITTLE_ENDIAN, ENDIAN_LITTLE), (XIL_BIG_ENDIAN, ENDIAN_BIG)}"

definition same_mode :: "(xil_table_mode \<times> snp4_info_table_mode) set" where
  "same_mode = {(XIL_MODE_BCAM, MODE_BCAM), (XIL_MODE_STCAM, MODE_STCAM), (XIL_MODE_TCAM, MODE_TCAM),
     (XIL_MODE_DCAM, MODE_DCAM), (XIL_MODE_TINY_BCAM, MODE_TINY_BCAM), (XIL_MODE_TINY_TCAM, MODE_TINY_TCAM)}"

definition same_counter_type :: "(xil_counter_type \<times> snp4_info_counter_type) set" where
  "same_counter_type = {(XIL_COUNTER_PACKETS, COUNTER_PACKETS), (XIL_COUNTER_BYTES, COUNTER_BYTES),
     (XIL_COUNTER_PACKETS_AND_BYTES, COUNTER_PACKETS_AND_BYTES), (XIL_COUNTER_FLAG, COUNTER_FLAG)}"

definition table_loaded :: "xil_table_config \<Rightarrow> snp4_info_table \<Rightarrow> bool" where
  "table_loaded xt t \<longleftrightarrow>
     table_name t = xt_name xt \<and> table_num_entries t = xt_num_entries xt \<and>
     (xt_endian xt, table_endian t) \<in> same_endian \<and> (xt_mode xt, table_mode t) \<in> same_mode \<and>
     table_num_masks t = (if xt_mode xt = XIL_MODE_STCAM then xt_num_masks xt else 0) \<and>
     table_key_bits t = u16 (xt_key_bits xt) \<and> table_response_bits t = u16 (xt_response_bits xt) \<and>
     table_actionid_bits t = u16 (xt_actionid_bits xt) \<and> table_priority_bits t = u16 (xt_priority_bits xt) \<and>
     length (table_matches t) = u16 (count_matches (xt_format xt)) \<and>
     length (table_matches t) \<le> SNP4_MAX_TABLE_MATCHES \<and>
     (\<forall>ms. xt_format xt = print_format ms \<and> length ms < 65536 \<and>
        (\<forall>m \<in> set ms. match_bits m < 65536 \<and> match_type m \<noteq> MATCH_TYPE_INVALID) \<longrightarrow> table_matches t = ms) \<and>
     table_priority_required t = (\<exists>m \<in> set (table_matches t). needs_priority m) \<and>
     list_all2 action_loaded (xt_actions xt) (table_actions t) \<and>
     length (table_actions t) \<le> SNP4_MAX_TABLE_ACTIONS"

text \<open>The aliases of a counter block are those of the first description of its name, if there are descriptions.\<close>

definition counter_loaded :: "metadata_counter_block list option \<Rightarrow> xil_counter_config \<Rightarrow> snp4_info_counter_block \<Rightarrow> bool" where
  "counter_loaded md xc b \<longleftrightarrow>
     block_name b = xc_name xc \<and> (xc_type xc, block_type b) \<in> same_counter_type \<and>
     block_width b = xc_width xc \<and> block_num_counters b = xc_num_counters xc \<and>
     block_aliases b = Option.bind md (\<lambda>ds. Option.bind (map_of (map (\<lambda>d. (mcb_name d, mcb_aliases d)) ds) (xc_name xc)) id)"

text \<open>The configurations that the limits and enumerations of \<^verbatim>\<open>snp4.h\<close> cover.\<close>

definition table_supported :: "xil_table_config \<Rightarrow> bool" where
  "table_supported xt \<longleftrightarrow>
     xt_endian xt \<noteq> XIL_ENDIAN_OTHER \<and> xt_mode xt \<noteq> XIL_MODE_OTHER \<and>
     u16 (count_matches (xt_format xt)) \<le> SNP4_MAX_TABLE_MATCHES \<and>
     length (xt_actions xt) \<le> SNP4_MAX_TABLE_ACTIONS \<and>
     (\<forall>xa \<in> set (xt_actions xt). length (xa_params xa) \<le> SNP4_MAX_ACTION_PARAMS)"

definition config_supported :: "drv_config \<Rightarrow> bool" where
  "config_supported cfg \<longleftrightarrow>
     length (cfg_tables cfg) \<le> SNP4_MAX_PIPELINE_TABLES \<and> (\<forall>xt \<in> set (cfg_tables cfg). table_supported xt) \<and>
     length (cfg_counters cfg) \<le> SNP4_MAX_PIPELINE_COUNTER_BLOCKS \<and>
     (\<forall>xc \<in> set (cfg_counters cfg). xc_type xc \<noteq> XIL_COUNTER_OTHER)"

lemma load_params_spec:
  "load_params xps acc = (ps, bits) \<Longrightarrow> acc < 65536 \<Longrightarrow>
     map param_name ps = map attr_name xps \<and> map param_bits ps = map (\<lambda>p. u16 (attr_value p)) xps \<and>
     bits = u16 (acc + sum_list (map attr_value xps))"
proof (induction xps arbitrary: acc ps)
  case (Cons xp xps)
  show ?case using Cons.prems Cons.IH [of "u16 (acc + attr_value xp)"] u16_less
    by (auto simp: Let_def u16_def mod_simps add.assoc split: prod.splits)
qed (simp add: u16_def)

lemma load_actions_spec:
  "load_actions xas = Inr as \<Longrightarrow> list_all2 action_loaded xas as"
proof (induction xas arbitrary: as)
  case (Cons xa xas)
  then obtain ps bits as' where
    p: "snp4_info_get_params SNP4_MAX_ACTION_PARAMS (xa_params xa) = Inr (ps, bits)"
    and r: "load_actions xas = Inr as'"
    and as: "as = \<lparr>action_name = xa_name xa, action_param_bits = bits, action_params = ps\<rparr> # as'"
    by (auto split: sum.splits)
  have l: "load_params (xa_params xa) 0 = (ps, bits)" "length (xa_params xa) \<le> SNP4_MAX_ACTION_PARAMS"
    using p by (auto simp: snp4_info_get_params_def split: if_splits)
  from load_params_spec [OF l(1)] have s: "map param_name ps = map attr_name (xa_params xa)"
    "map param_bits ps = map (\<lambda>p. u16 (attr_value p)) (xa_params xa)"
    "bits = u16 (sum_list (map attr_value (xa_params xa)))" by auto
  have "length ps = length (xa_params xa)" using arg_cong [OF s(1), of length] by simp
  then show ?case using Cons.IH [OF r] s l(2) as by (simp add: action_loaded_def)
qed simp

lemma load_actions_ok_iff:
  "(\<exists>as. load_actions xas = Inr as) \<longleftrightarrow> (\<forall>xa \<in> set xas. length (xa_params xa) \<le> SNP4_MAX_ACTION_PARAMS)"
  by (induction xas) (auto simp: snp4_info_get_params_def split: sum.splits prod.splits)

lemma load_match_priority: "load_match f = (m, p) \<Longrightarrow> p \<longleftrightarrow> needs_priority m"
  by (auto simp: load_match_def needs_priority_def Let_def split: option.splits if_splits)

lemma load_matches_spec:
  "load_matches n c prio = (ms, prio') \<Longrightarrow>
     length ms = n \<and> (prio' \<longleftrightarrow> prio \<or> (\<exists>m \<in> set ms. needs_priority m))"
  by (induction n c prio arbitrary: ms rule: load_matches.induct)
     (auto split: prod.splits dest: load_match_priority)

lemma load_actions_length: "load_actions xas = Inr as \<Longrightarrow> length as = length xas"
  using load_actions_spec list_all2_lengthD by metis

lemma load_endian_spec: "load_endian e = Inr x \<Longrightarrow> (e, x) \<in> same_endian"
  by (cases e) (auto simp: load_endian_def same_endian_def)

lemma load_mode_spec: "load_mode m n = Inr (x, k) \<Longrightarrow> (m, x) \<in> same_mode \<and> k = (if m = XIL_MODE_STCAM then n else 0)"
  by (cases m) (auto simp: load_mode_def same_mode_def)

lemma load_counter_type_spec: "load_counter_type c = Inr x \<Longrightarrow> (c, x) \<in> same_counter_type"
  by (cases c) (auto simp: load_counter_type_def same_counter_type_def)

lemma get_matches_spec:
  assumes "snp4_info_get_matches n fmt = Inr (ms, prio)"
  shows "length ms = u16 (count_matches fmt) \<and> length ms \<le> n \<and> prio = (\<exists>m \<in> set ms. needs_priority m)"
  using assms by (auto simp: snp4_info_get_matches_def Let_def dest!: load_matches_spec split: prod.splits if_splits)

lemma get_matches_printed:
  assumes "snp4_info_get_matches n (print_format ms) = Inr (ms', prio)" and "length ms < 65536"
    and "\<forall>m \<in> set ms. match_bits m < 65536 \<and> match_type m \<noteq> MATCH_TYPE_INVALID"
  shows "ms' = ms"
proof -
  have "u16 (count_matches (print_format ms)) = length ms"
    using get_matches_spec [OF format_parsed [OF order_refl assms(2,3)]] by simp
  then have "length ms \<le> n" using get_matches_spec [OF assms(1)] by simp
  then show ?thesis using format_parsed [OF _ assms(2,3)] assms(1) by simp
qed

lemma load_table_spec:
  assumes "load_table xt = Inr t"
  shows "table_loaded xt t"
proof -
  obtain ms prio where m: "snp4_info_get_matches SNP4_MAX_TABLE_MATCHES (xt_format xt) = Inr (ms, prio)"
    using assms by (auto simp: load_table_def split: sum.splits)
  from assms show ?thesis using get_matches_spec [OF m] get_matches_printed [of _ _ ms prio] m
    by (auto simp: load_table_def table_loaded_def snp4_info_get_actions_def load_actions_length load_actions_spec
        dest: load_endian_spec load_mode_spec split: sum.splits prod.splits if_splits)
qed

lemma load_table_ok_iff: "(\<exists>t. load_table xt = Inr t) \<longleftrightarrow> table_supported xt"
  using load_actions_ok_iff [of "xt_actions xt"]
  by (cases "xt_endian xt"; cases "xt_mode xt"; cases "load_actions (xt_actions xt)")
     (auto simp: load_table_def load_endian_def load_mode_def table_supported_def
       snp4_info_get_matches_def snp4_info_get_actions_def Let_def split: prod.splits)

lemma load_tables_spec: "load_tables xts = Inr ts \<Longrightarrow> list_all2 table_loaded xts ts"
  by (induction xts arbitrary: ts) (auto dest: load_table_spec split: sum.splits)

lemma load_tables_ok_iff: "(\<exists>ts. load_tables xts = Inr ts) \<longleftrightarrow> (\<forall>xt \<in> set xts. table_supported xt)"
  by (induction xts) (auto simp flip: load_table_ok_iff split: sum.splits)

lemma load_tables_length: "load_tables xts = Inr ts \<Longrightarrow> length ts = length xts"
  using load_tables_spec list_all2_lengthD by metis

lemma find_map_of: "map_option a (find (\<lambda>d. k d = n) ds) = map_of (map (\<lambda>d. (k d, a d)) ds) n"
  by (induction ds) auto

lemma metadata_aliases_spec:
  "metadata_aliases md n = Option.bind md (\<lambda>ds. Option.bind (map_of (map (\<lambda>d. (mcb_name d, mcb_aliases d)) ds) n) id)"
  by (auto simp: metadata_aliases_def find_map_of [symmetric] split: option.splits)

lemma load_counter_blocks_spec:
  "load_counter_blocks md xcs = Inr bs \<Longrightarrow> list_all2 (counter_loaded md) xcs bs"
  by (induction xcs arbitrary: bs) (auto simp: counter_loaded_def metadata_aliases_spec dest: load_counter_type_spec split: sum.splits)

lemma load_counter_blocks_length: "load_counter_blocks md xcs = Inr bs \<Longrightarrow> length bs = length xcs"
  using load_counter_blocks_spec list_all2_lengthD by metis

lemma load_counter_blocks_ok_iff:
  "(\<exists>bs. load_counter_blocks md xcs = Inr bs) \<longleftrightarrow> (\<forall>xc \<in> set xcs. xc_type xc \<noteq> XIL_COUNTER_OTHER)"
  by (induction xcs) (auto simp: load_counter_type_def split: sum.splits xil_counter_type.splits)

text \<open>
  Property C25.  The loader accepts exactly the driver configurations with at most 64 tables,
  counter blocks, fields and actions per table and parameters per action and with known
  endianness, mode and counter type.
\<close>
theorem get_pipeline_ok_iff:
  "(\<exists>p. snp4_info_get_pipeline (Some cfg) = Inr p) \<longleftrightarrow> config_supported cfg"
  using load_tables_ok_iff [of "cfg_tables cfg"] load_counter_blocks_ok_iff [of "cfg_metadata cfg" "cfg_counters cfg"]
  by (cases "load_tables (cfg_tables cfg)"; cases "load_counter_blocks (cfg_metadata cfg) (cfg_counters cfg)")
     (auto simp: snp4_info_get_pipeline_def snp4_info_get_tables_def snp4_info_get_counter_blocks_def config_supported_def)

text \<open>
  Property C26.  A loaded pipeline has the name of the driver configuration and describes every table with its actions and every
  counter block of it once and in order, within the limits.  A table keeps its name and number of entries, its endianness
  and mode, the number of masks of a mode that has them, and the widths of its key, response, action id and priority, cut to 16 bits;
  its fields are those that its format was printed from, and it asks for a priority exactly when it has a prefix, range or
  ternary field.  An action keeps its name and its parameters with their widths, whose sum is its width, in 16 bits.  A
  counter block keeps its name, type, width and number of counters, and has the aliases that are given for its name.
\<close>
theorem get_pipeline_loaded:
  assumes "snp4_info_get_pipeline (Some cfg) = Inr p"
  shows "pipeline_name p = cfg_name cfg \<and>
         list_all2 table_loaded (cfg_tables cfg) (pipeline_tables p) \<and>
         list_all2 (counter_loaded (cfg_metadata cfg)) (cfg_counters cfg) (pipeline_counter_blocks p) \<and>
         length (pipeline_tables p) \<le> SNP4_MAX_PIPELINE_TABLES \<and>
         length (pipeline_counter_blocks p) \<le> SNP4_MAX_PIPELINE_COUNTER_BLOCKS"
  using assms
  by (auto simp: snp4_info_get_pipeline_def snp4_info_get_tables_def snp4_info_get_counter_blocks_def
      load_tables_spec load_tables_length load_counter_blocks_spec load_counter_blocks_length split: sum.splits if_splits)

theorem get_pipeline_loaded_witness:
  "\<exists>p. snp4_info_get_pipeline (Some \<lparr>cfg_name = ''sdnet_0'', cfg_offset = 0,
      cfg_tables = [\<lparr>xt_name = ''t'', xt_endian = XIL_BIG_ENDIAN, xt_mode = XIL_MODE_TCAM, xt_key_bits = 12,
        xt_actionid_bits = 1, xt_num_entries = 4, xt_num_masks = 0, xt_response_bits = 10, xt_priority_bits = 8,
        xt_format = ''8t:4c'', xt_actions = [\<lparr>xa_name = ''a'', xa_params = [\<lparr>attr_name = ''x'', attr_value = 9\<rparr>]\<rparr>]\<rparr>],
      cfg_counters = [], cfg_metadata = None\<rparr>) = Inr p \<and>
      map action_param_bits (table_actions (hd (pipeline_tables p))) = [9] \<and>
      map match_bits (table_matches (hd (pipeline_tables p))) = [4, 8] \<and> table_mode (hd (pipeline_tables p)) = MODE_TCAM"
proof -
  obtain p where p: "snp4_info_get_pipeline (Some \<lparr>cfg_name = ''sdnet_0'', cfg_offset = 0,
      cfg_tables = [\<lparr>xt_name = ''t'', xt_endian = XIL_BIG_ENDIAN, xt_mode = XIL_MODE_TCAM, xt_key_bits = 12,
        xt_actionid_bits = 1, xt_num_entries = 4, xt_num_masks = 0, xt_response_bits = 10, xt_priority_bits = 8,
        xt_format = ''8t:4c'', xt_actions = [\<lparr>xa_name = ''a'', xa_params = [\<lparr>attr_name = ''x'', attr_value = 9\<rparr>]\<rparr>]\<rparr>],
      cfg_counters = [], cfg_metadata = None\<rparr>) = Inr p"
    by (simp add: snp4_info_get_pipeline_def snp4_info_get_tables_def snp4_info_get_counter_blocks_def
        load_table_def load_endian_def load_mode_def snp4_info_get_matches_def count_matches_def
        snp4_info_get_actions_def snp4_info_get_params_def snp4_limits u16_def Let_def
        strsep_colon_def load_match_def scanf_uc_def is_space_def is_digit_def digits_value_def strtoul_cut_def u32_def)
  have f: "''8t:4c'' = print_format
      [\<lparr>match_type = MATCH_TYPE_CONSTANT, match_bits = 4\<rparr>, \<lparr>match_type = MATCH_TYPE_TERNARY, match_bits = 8\<rparr>]"
    by (simp add: print_format_def print_match_def type_letter_def dec.simps char_of_def bit_Suc_0_iff)
  obtain t where t: "pipeline_tables p = [t]" "list_all2 action_loaded [\<lparr>xa_name = ''a'', xa_params = [\<lparr>attr_name = ''x'', attr_value = 9\<rparr>]\<rparr>]
      (table_actions t)" "(XIL_MODE_TCAM, table_mode t) \<in> same_mode" "table_matches t =
      [\<lparr>match_type = MATCH_TYPE_CONSTANT, match_bits = 4\<rparr>, \<lparr>match_type = MATCH_TYPE_TERNARY, match_bits = 8\<rparr>]"
    using get_pipeline_loaded [OF p] by (auto simp: list_all2_Cons1 table_loaded_def f)
  then show ?thesis using p by (auto simp: list_all2_Cons1 action_loaded_def same_mode_def u16_def)
qed

end
