(* ===== verification/Snp4_Api.thy ===== *)
theory Snp4_Api
  imports Snp4_Info
begin

text \<open>
  \<^verbatim>\<open>libsnp4/src/snp4_api.c\<close>: the operations on an initialised pipeline (tables, counters, logging)
  over the driver that the vendor's tools generate.  The driver is not part of the sources: its
  interface \<^verbatim>\<open>struct vitis_net_p4_drv_intf\<close> is the record \<open>vitis_intf\<close> of functions over a state
  of type \<open>'d\<close>, a parameter of every definition.  A call returns an error code, or its outputs
  with \<^verbatim>\<open>XIL_VITIS_NET_P4_SUCCESS\<close>, and the next state of the driver.
\<close>

named_theorems api_facts \<open>results of the operations of the API\<close>

subsection \<open>The interface of the driver\<close>

datatype xil_error = CAM_ERR_KEY_NOT_FOUND | TABLE_ERR_FUNCTION_NOT_SUPPORTED | XIL_ERR nat

type_synonym ('d, 'a) drv_call = "'d \<Rightarrow> (xil_error + 'a) \<times> 'd"

text \<open>A table context is the number of the table, a counter context the number of the counter block.\<close>

record 'd vitis_intf =
  intf_config :: drv_config
  stub_env_if :: "('d, unit) drv_call"
  target_init :: "('d, unit) drv_call"
  target_exit :: "('d, unit) drv_call"
  get_table_count :: "('d, nat) drv_call"
  get_table_by_index :: "nat \<Rightarrow> ('d, nat) drv_call"
  get_table_by_name :: "string \<Rightarrow> ('d, nat) drv_call"
  table_reset :: "nat \<Rightarrow> ('d, unit) drv_call"
  table_update :: "nat \<Rightarrow> bytes \<Rightarrow> bytes option \<Rightarrow> nat \<Rightarrow> bytes \<Rightarrow> ('d, unit) drv_call"
  table_insert :: "nat \<Rightarrow> bytes \<Rightarrow> bytes option \<Rightarrow> nat \<Rightarrow> nat \<Rightarrow> bytes \<Rightarrow> ('d, unit) drv_call"
  table_delete :: "nat \<Rightarrow> bytes \<Rightarrow> bytes option \<Rightarrow> ('d, unit) drv_call"
  get_mode :: "nat \<Rightarrow> ('d, xil_table_mode) drv_call"
  get_action_id :: "nat \<Rightarrow> string \<Rightarrow> ('d, nat) drv_call"
  get_action_name :: "nat \<Rightarrow> nat \<Rightarrow> nat \<Rightarrow> ('d, string) drv_call"
  get_num_actions :: "nat \<Rightarrow> ('d, nat) drv_call"
  get_key_size_bits :: "nat \<Rightarrow> ('d, nat) drv_call"
  get_action_params_size_bits :: "nat \<Rightarrow> ('d, nat) drv_call"
  get_by_key :: "nat \<Rightarrow> bytes \<Rightarrow> bytes option \<Rightarrow> bool \<Rightarrow> ('d, nat \<times> nat \<times> bytes) drv_call"
  get_by_response ::
    "nat \<Rightarrow> nat \<Rightarrow> bytes \<Rightarrow> bytes \<Rightarrow> nat \<Rightarrow> bytes \<Rightarrow> bytes option \<Rightarrow> ('d, nat \<times> bytes \<times> bytes option) drv_call"
  get_ecc_counters :: "nat \<Rightarrow> ('d, nat \<times> nat) drv_call"
  counter_init :: "nat \<Rightarrow> ('d, unit) drv_call"
  counter_exit :: "nat \<Rightarrow> ('d, unit) drv_call"
  counter_reset :: "nat \<Rightarrow> ('d, unit) drv_call"
  simple_read :: "nat \<Rightarrow> nat \<Rightarrow> ('d, 64 word) drv_call"
  simple_write :: "nat \<Rightarrow> nat \<Rightarrow> 64 word \<Rightarrow> ('d, unit) drv_call"
  combo_read :: "nat \<Rightarrow> nat \<Rightarrow> ('d, 64 word \<times> 64 word) drv_call"
  combo_write :: "nat \<Rightarrow> nat \<Rightarrow> 64 word \<Rightarrow> 64 word \<Rightarrow> ('d, unit) drv_call"
  collect_simple_read :: "nat \<Rightarrow> nat \<Rightarrow> nat \<Rightarrow> ('d, 64 word list) drv_call"
  collect_combo_read :: "nat \<Rightarrow> nat \<Rightarrow> nat \<Rightarrow> ('d, 64 word list \<times> 64 word list) drv_call"

text \<open>The number of counters of each initialised counter block is kept next to the driver's contexts.\<close>

record 'd snp4_user_context =
  user_intf :: "'d vitis_intf"
  user_drv :: 'd
  log_enabled :: bool
  log_prefix :: string
  user_base_addr :: nat
  user_sdnet_idx :: nat
  counter_blocks :: "nat list"

text \<open>The shape \<open>if (call != SUCCESS) return false;\<close> of all operations.\<close>

definition drv_then ::
  "('d, 'a) drv_call \<Rightarrow> ('a \<Rightarrow> 'd \<Rightarrow> bool \<times> 'd) \<Rightarrow> 'd \<Rightarrow> bool \<times> 'd" where
  "drv_then call k d = (case call d of (Inl e, d') \<Rightarrow> (False, d') | (Inr x, d') \<Rightarrow> k x d')"

definition drv_last :: "('d, 'a) drv_call \<Rightarrow> 'd \<Rightarrow> bool \<times> 'd" where
  "drv_last call d = (case call d of (Inl e, d') \<Rightarrow> (False, d') | (Inr x, d') \<Rightarrow> (True, d'))"

definition run_user :: "('d \<Rightarrow> bool \<times> 'd) \<Rightarrow> 'd snp4_user_context \<Rightarrow> bool \<times> 'd snp4_user_context" where
  "run_user f u = (let (r, d) = f (user_drv u) in (r, u\<lparr>user_drv := d\<rparr>))"

subsection \<open>Initialisation and release\<close>

text \<open>The blocks that were initialised before the failing one are released, in the order of their indexes.\<close>

fun exit_blocks :: "'d vitis_intf \<Rightarrow> nat list \<Rightarrow> 'd \<Rightarrow> 'd" where
  "exit_blocks intf [] d = d"
| "exit_blocks intf (n # ns) d = exit_blocks intf ns (snd (counter_exit intf n d))"

fun init_blocks :: "'d vitis_intf \<Rightarrow> nat \<Rightarrow> xil_counter_config list \<Rightarrow> 'd \<Rightarrow> nat list option \<times> 'd" where
  "init_blocks intf n [] d = (Some [], d)"
| "init_blocks intf n (cnt # cnts) d =
     (case counter_init intf n d of
        (Inl e, d') \<Rightarrow> (None, exit_blocks intf [0..<n] d')
      | (Inr _, d') \<Rightarrow>
        (case init_blocks intf (Suc n) cnts d' of
           (None, d'') \<Rightarrow> (None, d'')
         | (Some bs, d'') \<Rightarrow> (Some (xc_num_counters cnt # bs), d'')))"

definition snp4_init_counter_blocks :: "'d snp4_user_context \<Rightarrow> bool \<times> 'd snp4_user_context" where
  "snp4_init_counter_blocks u =
     (let cfg = cfg_counters (intf_config (user_intf u)) in
      if cfg = [] then (True, u)
      else case init_blocks (user_intf u) 0 cfg (user_drv u) of
        (None, d) \<Rightarrow> (False, u\<lparr>user_drv := d\<rparr>)
      | (Some bs, d) \<Rightarrow> (True, u\<lparr>user_drv := d, counter_blocks := bs\<rparr>))"

definition snp4_deinit_counter_blocks :: "'d snp4_user_context \<Rightarrow> 'd snp4_user_context" where
  "snp4_deinit_counter_blocks u =
     (let cfg = cfg_counters (intf_config (user_intf u)) in
      u\<lparr>user_drv := exit_blocks (user_intf u) [0..<length cfg] (user_drv u), counter_blocks := []\<rparr>)"

definition snp4_log_enable :: "'d snp4_user_context \<Rightarrow> bool \<Rightarrow> string option \<Rightarrow> 'd snp4_user_context" where
  "snp4_log_enable u enable prefix =
     u\<lparr>log_prefix := (if enable then (case prefix of Some p \<Rightarrow> p | None \<Rightarrow> '''') else ''''),
       log_enabled := enable\<rparr>"

text \<open>The result of \<^verbatim>\<open>snp4_init\<close> is the handle, or NULL, and the state of the driver.\<close>

definition snp4_init ::
  "(nat \<Rightarrow> 'd vitis_intf option) \<Rightarrow> nat \<Rightarrow> nat \<Rightarrow> 'd \<Rightarrow> 'd snp4_user_context option \<times> 'd" where
  "snp4_init drv_intf_get sdnet_idx base_addr d =
     (case drv_intf_get sdnet_idx of None \<Rightarrow> (None, d)
      | Some intf \<Rightarrow>
        (case stub_env_if intf d of (Inl e, d1) \<Rightarrow> (None, d1)
         | (Inr _, d1) \<Rightarrow>
           (case target_init intf d1 of (Inl e, d2) \<Rightarrow> (None, d2)
            | (Inr _, d2) \<Rightarrow>
              (let u = \<lparr>user_intf = intf, user_drv = d2, log_enabled = False, log_prefix = '''',
                        user_base_addr = base_addr + cfg_offset (intf_config intf),
                        user_sdnet_idx = sdnet_idx, counter_blocks = []\<rparr>;
                   (ok, u') = snp4_init_counter_blocks (snp4_log_enable u True None)
               in if \<not> ok then (None, snd (target_exit intf (user_drv u')))
                  else (Some (snp4_log_enable u' False None), user_drv u')))))"

text \<open>On failure the user context stays allocated, its counter blocks gone.\<close>

definition snp4_deinit ::
  "'d snp4_user_context \<Rightarrow> bool \<times> 'd snp4_user_context option \<times> 'd" where
  "snp4_deinit u =
     (let u' = snp4_deinit_counter_blocks u in
      case target_exit (user_intf u') (user_drv u') of
        (Inl e, d) \<Rightarrow> (False, Some (u'\<lparr>user_drv := d\<rparr>), d)
      | (Inr _, d) \<Rightarrow> (True, None, d))"

subsection \<open>Tables\<close>

fun reset_tables :: "'d vitis_intf \<Rightarrow> nat list \<Rightarrow> 'd \<Rightarrow> bool \<times> 'd" where
  "reset_tables intf [] d = (True, d)"
| "reset_tables intf (i # is) d =
     drv_then (get_table_by_index intf i) (\<lambda>table.
       drv_then (table_reset intf table) (\<lambda>_. reset_tables intf is)) d"

definition snp4_reset_all_tables :: "'d snp4_user_context \<Rightarrow> bool \<times> 'd snp4_user_context" where
  "snp4_reset_all_tables u =
     run_user (drv_then (get_table_count (user_intf u)) (\<lambda>n. reset_tables (user_intf u) [0..<n])) u"

definition snp4_reset_one_table :: "'d snp4_user_context \<Rightarrow> string \<Rightarrow> bool \<times> 'd snp4_user_context" where
  "snp4_reset_one_table u tname =
     run_user (drv_then (get_table_by_name (user_intf u) tname)
       (\<lambda>table. drv_last (table_reset (user_intf u) table))) u"

text \<open>The modes that insist on a NULL mask.\<close>

definition mode_null_mask :: "xil_table_mode \<Rightarrow> bool" where
  "mode_null_mask m \<longleftrightarrow> (case m of
     XIL_MODE_DCAM \<Rightarrow> True | XIL_MODE_BCAM \<Rightarrow> True | XIL_MODE_TINY_BCAM \<Rightarrow> True | _ \<Rightarrow> False)"

definition snp4_table_insert_kma ::
  "'d snp4_user_context \<Rightarrow> string \<Rightarrow> bytes \<Rightarrow> bytes \<Rightarrow> string \<Rightarrow> bytes \<Rightarrow> nat \<Rightarrow> bool \<Rightarrow>
   bool \<times> 'd snp4_user_context" where
  "snp4_table_insert_kma u tname key msk aname params priority replace =
     (let intf = user_intf u in
      run_user (drv_then (get_table_by_name intf tname) (\<lambda>table.
        drv_then (get_action_id intf table aname) (\<lambda>action_id.
          drv_then (get_mode intf table) (\<lambda>mode.
            let m = (if mode_null_mask mode then None else Some msk) in
            if replace then drv_last (table_update intf table key m action_id params)
            else drv_last (table_insert intf table key m priority action_id params))))) u)"

definition snp4_table_delete_k ::
  "'d snp4_user_context \<Rightarrow> string \<Rightarrow> bytes \<Rightarrow> bytes \<Rightarrow> bool \<times> 'd snp4_user_context" where
  "snp4_table_delete_k u tname key msk =
     (let intf = user_intf u in
      run_user (drv_then (get_table_by_name intf tname) (\<lambda>table.
        drv_then (get_mode intf table) (\<lambda>mode.
          drv_last (table_delete intf table key (if mode_null_mask mode then None else Some msk))))) u)"

definition snp4_table_ecc_counters_read ::
  "'d snp4_user_context \<Rightarrow> string \<Rightarrow> (nat \<times> nat) option \<times> 'd snp4_user_context" where
  "snp4_table_ecc_counters_read u tname =
     (case get_table_by_name (user_intf u) tname (user_drv u) of
        (Inl e, d) \<Rightarrow> (None, u\<lparr>user_drv := d\<rparr>)
      | (Inr table, d) \<Rightarrow>
        (case get_ecc_counters (user_intf u) table d of
           (Inl TABLE_ERR_FUNCTION_NOT_SUPPORTED, d') \<Rightarrow> (Some (0, 0), u\<lparr>user_drv := d'\<rparr>)
         | (Inl e, d') \<Rightarrow> (None, u\<lparr>user_drv := d'\<rparr>)
         | (Inr cnts, d') \<Rightarrow> (Some cnts, u\<lparr>user_drv := d'\<rparr>)))"

subsection \<open>Walking the entries of a table\<close>

record snp4_table_data =
  data_value :: bytes
  data_mask :: "bytes option"
  data_width :: nat
  data_len :: nat

record snp4_table_entry =
  entry_table_name :: string
  entry_priority :: nat
  entry_key :: snp4_table_data
  entry_action_name :: string
  entry_params :: snp4_table_data

record snp4_table_get_response =
  resp_key :: snp4_table_data
  resp_action_id :: nat
  resp_params :: snp4_table_data

text \<open>
  The walk asks for the entries of one action after the other; the driver moves the position.
  It ends when the driver finds no more keys: a driver that always finds one makes it go on for
  ever, so the loop is a partial function.  The state of the callback is of type \<open>'a\<close>.
\<close>

type_synonym ('d, 'a) resp_callback = "snp4_table_get_response \<Rightarrow> 'a \<Rightarrow> 'd \<Rightarrow> bool \<times> 'a \<times> 'd"

datatype walk_result = Walk_Next | Walk_Stop | Walk_Fail

partial_function (option) response_loop ::
  "'d vitis_intf \<Rightarrow> ('d, 'a) resp_callback \<Rightarrow> nat \<Rightarrow> snp4_table_get_response \<Rightarrow> nat \<Rightarrow> 'a \<Rightarrow> 'd \<Rightarrow>
   (walk_result \<times> snp4_table_get_response \<times> 'a \<times> 'd) option" where
  "response_loop intf cb table resp pos a d =
     (case get_by_response intf table (resp_action_id resp) (data_value (resp_params resp))
             (case data_mask (resp_params resp) of Some m \<Rightarrow> m | None \<Rightarrow> [])
             pos (data_value (resp_key resp)) (data_mask (resp_key resp)) d of
        (Inl CAM_ERR_KEY_NOT_FOUND, d') \<Rightarrow> Some (Walk_Next, resp, a, d')
      | (Inl e, d') \<Rightarrow> Some (Walk_Fail, resp, a, d')
      | (Inr (pos', key, m), d') \<Rightarrow>
        (let resp' = resp\<lparr>resp_key := (resp_key resp)\<lparr>data_value := key, data_mask := m\<rparr>\<rparr>;
             (go_on, a', d'') = cb resp' a d'
         in if go_on then response_loop intf cb table resp' pos' a' d''
            else Some (Walk_Stop, resp', a', d'')))"

fun action_loop ::
  "'d vitis_intf \<Rightarrow> ('d, 'a) resp_callback \<Rightarrow> nat \<Rightarrow> snp4_table_get_response \<Rightarrow> nat list \<Rightarrow> 'a \<Rightarrow> 'd \<Rightarrow>
   (bool \<times> 'a \<times> 'd) option" where
  "action_loop intf cb table resp [] a d = Some (True, a, d)"
| "action_loop intf cb table resp (i # is) a d =
     (case response_loop intf cb table (resp\<lparr>resp_action_id := i\<rparr>) 0 a d of
        None \<Rightarrow> None
      | Some (Walk_Fail, resp', a', d') \<Rightarrow> Some (False, a', d')
      | Some (Walk_Stop, resp', a', d') \<Rightarrow> Some (True, a', d')
      | Some (Walk_Next, resp', a', d') \<Rightarrow> action_loop intf cb table resp' is a' d')"

definition zero_data :: "nat \<Rightarrow> bool \<Rightarrow> snp4_table_data" where
  "zero_data width with_mask =
     (let len = u32 (int (width + 7)) div 8 in
      \<lparr>data_value = replicate len 0, data_mask = (if with_mask then Some (replicate len 0) else None),
       data_width = width, data_len = len\<rparr>)"

text \<open>\<open>TINY_BCAM\<close> keeps its mask here, unlike in the insertion and the deletion.\<close>

definition mode_null_mask_get :: "xil_table_mode \<Rightarrow> bool" where
  "mode_null_mask_get m \<longleftrightarrow> (case m of XIL_MODE_DCAM \<Rightarrow> True | XIL_MODE_BCAM \<Rightarrow> True | _ \<Rightarrow> False)"

definition snp4_table_get_by_response ::
  "'d vitis_intf \<Rightarrow> string \<Rightarrow> (nat \<Rightarrow> xil_table_mode \<Rightarrow> ('d, 'a) resp_callback) \<Rightarrow> 'a \<Rightarrow> 'd \<Rightarrow>
   (bool \<times> 'a \<times> 'd) option" where
  "snp4_table_get_by_response intf tname cb a d =
     (case get_table_by_name intf tname d of (Inl e, d1) \<Rightarrow> Some (False, a, d1)
      | (Inr table, d1) \<Rightarrow>
        (case get_key_size_bits intf table d1 of (Inl e, d2) \<Rightarrow> Some (False, a, d2)
         | (Inr kbits, d2) \<Rightarrow>
           (case get_action_params_size_bits intf table d2 of (Inl e, d3) \<Rightarrow> Some (False, a, d3)
            | (Inr pbits, d3) \<Rightarrow>
              (case get_mode intf table d3 of (Inl e, d4) \<Rightarrow> Some (False, a, d4)
               | (Inr mode, d4) \<Rightarrow>
                 (case get_num_actions intf table d4 of (Inl e, d5) \<Rightarrow> Some (False, a, d5)
                  | (Inr nactions, d5) \<Rightarrow>
                    action_loop intf (cb table mode) table
                      \<lparr>resp_key = zero_data kbits (\<not> mode_null_mask_get mode), resp_action_id = 0,
                       resp_params = zero_data pbits True\<rparr> [0..<nactions] a d5)))))"

text \<open>What the walk does with each key: it looks the entry up and hands it to the caller's callback.\<close>

definition snp4_table_entry_callback ::
  "'d vitis_intf \<Rightarrow> string \<Rightarrow> (snp4_table_entry \<Rightarrow> 'a \<Rightarrow> bool \<times> 'a) \<Rightarrow> nat \<Rightarrow> xil_table_mode \<Rightarrow>
   ('d, 'a) resp_callback" where
  "snp4_table_entry_callback intf tname cb table mode resp a d =
     (let key = resp_key resp;
          null_mask = mode_null_mask_get mode;
          msk = (if null_mask then replicate (data_len key) (- 1)
                 else case data_mask key of Some m \<Rightarrow> m | None \<Rightarrow> []) in
      case get_by_key intf table (data_value key) (if null_mask then None else Some msk) (\<not> null_mask) d of
        (Inl e, d1) \<Rightarrow> (False, a, d1)
      | (Inr (prio, action_id, params), d1) \<Rightarrow>
        (let (name, d2) = (case get_action_name intf table action_id 256 d1 of
                             (Inl e, d2) \<Rightarrow> (''<buffer-too-small>'', d2) | (Inr n, d2) \<Rightarrow> (n, d2));
             plen = data_len (resp_params resp);
             (go_on, a') = cb \<lparr>entry_table_name = tname, entry_priority = (if null_mask then 0 else prio),
                              entry_key = key\<lparr>data_mask := Some msk\<rparr>, entry_action_name = name,
                              entry_params = (resp_params resp)\<lparr>data_value := params,
                                data_mask := Some (replicate plen (- 1))\<rparr>\<rparr> a
         in (go_on, a', d2)))"

definition snp4_table_for_each_entry ::
  "'d snp4_user_context \<Rightarrow> string \<Rightarrow> (snp4_table_entry \<Rightarrow> 'a \<Rightarrow> bool \<times> 'a) \<Rightarrow> 'a \<Rightarrow>
   (bool \<times> 'a \<times> 'd snp4_user_context) option" where
  "snp4_table_for_each_entry u tname cb a =
     (case snp4_table_get_by_response (user_intf u) tname
             (snp4_table_entry_callback (user_intf u) tname cb) a (user_drv u) of
        None \<Rightarrow> None
      | Some (ok, a', d) \<Rightarrow> Some (ok, a', u\<lparr>user_drv := d\<rparr>))"

subsection \<open>Counters\<close>

fun block_index :: "nat \<Rightarrow> xil_counter_config list \<Rightarrow> string \<Rightarrow> nat option" where
  "block_index n [] bname = None"
| "block_index n (c # cs) bname = (if bname = xc_name c then Some n else block_index (Suc n) cs bname)"

definition snp4_counter_block_by_name :: "'d snp4_user_context \<Rightarrow> string \<Rightarrow> nat option" where
  "snp4_counter_block_by_name u bname = block_index 0 (cfg_counters (intf_config (user_intf u))) bname"

text \<open>A read returns the outputs, or nothing when it returns \<open>false\<close> (the outputs are then not used).\<close>

definition drv_output ::
  "('d, 'a) drv_call \<Rightarrow> 'd snp4_user_context \<Rightarrow> 'a option \<times> 'd snp4_user_context" where
  "drv_output call u =
     (case call (user_drv u) of (Inl e, d) \<Rightarrow> (None, u\<lparr>user_drv := d\<rparr>)
      | (Inr x, d) \<Rightarrow> (Some x, u\<lparr>user_drv := d\<rparr>))"

definition with_counter ::
  "'d snp4_user_context \<Rightarrow> string \<Rightarrow> nat \<Rightarrow> (nat \<Rightarrow> ('d, 'a) drv_call) \<Rightarrow> 'a option \<times> 'd snp4_user_context" where
  "with_counter u bname index call =
     (case snp4_counter_block_by_name u bname of None \<Rightarrow> (None, u)
      | Some b \<Rightarrow> if index \<ge> counter_blocks u ! b then (None, u) else drv_output (call b) u)"

definition snp4_counter_simple_read ::
  "'d snp4_user_context \<Rightarrow> string \<Rightarrow> nat \<Rightarrow> 64 word option \<times> 'd snp4_user_context" where
  "snp4_counter_simple_read u bname index = with_counter u bname index (\<lambda>b. simple_read (user_intf u) b index)"

definition snp4_counter_simple_write ::
  "'d snp4_user_context \<Rightarrow> string \<Rightarrow> nat \<Rightarrow> 64 word \<Rightarrow> unit option \<times> 'd snp4_user_context" where
  "snp4_counter_simple_write u bname index v =
     with_counter u bname index (\<lambda>b. simple_write (user_intf u) b index v)"

definition snp4_counter_combo_read ::
  "'d snp4_user_context \<Rightarrow> string \<Rightarrow> nat \<Rightarrow> (64 word \<times> 64 word) option \<times> 'd snp4_user_context" where
  "snp4_counter_combo_read u bname index = with_counter u bname index (\<lambda>b. combo_read (user_intf u) b index)"

definition snp4_counter_combo_write ::
  "'d snp4_user_context \<Rightarrow> string \<Rightarrow> nat \<Rightarrow> 64 word \<Rightarrow> 64 word \<Rightarrow> unit option \<times> 'd snp4_user_context" where
  "snp4_counter_combo_write u bname index packets octets =
     with_counter u bname index (\<lambda>b. combo_write (user_intf u) b index packets octets)"

text \<open>Reads of a whole block: the part of the buffer past the last counter is filled with zeros.\<close>

definition snp4_counter_block_simple_read ::
  "'d snp4_user_context \<Rightarrow> string \<Rightarrow> nat \<Rightarrow> 64 word list option \<times> 'd snp4_user_context" where
  "snp4_counter_block_simple_read u bname ncounts =
     (case snp4_counter_block_by_name u bname of None \<Rightarrow> (None, u)
      | Some b \<Rightarrow>
        (let num = counter_blocks u ! b;
             n = (if ncounts > num then num else ncounts);
             (r, u') = drv_output (collect_simple_read (user_intf u) b 0 n) u
         in (map_option (\<lambda>vs. vs @ replicate (ncounts - n) 0) r, u')))"

definition snp4_counter_block_combo_read ::
  "'d snp4_user_context \<Rightarrow> string \<Rightarrow> nat \<Rightarrow> (64 word list \<times> 64 word list) option \<times> 'd snp4_user_context" where
  "snp4_counter_block_combo_read u bname ncounts =
     (case snp4_counter_block_by_name u bname of None \<Rightarrow> (None, u)
      | Some b \<Rightarrow>
        (let num = counter_blocks u ! b;
             n = (if ncounts > num then num else ncounts);
             (r, u') = drv_output (collect_combo_read (user_intf u) b 0 n) u
         in (map_option (\<lambda>(ps, bs). (ps @ replicate (ncounts - n) 0, bs @ replicate (ncounts - n) 0)) r, u')))"

definition snp4_counter_block_reset :: "'d snp4_user_context \<Rightarrow> string \<Rightarrow> bool \<times> 'd snp4_user_context" where
  "snp4_counter_block_reset u bname =
     (case snp4_counter_block_by_name u bname of None \<Rightarrow> (False, u)
      | Some b \<Rightarrow> run_user (drv_last (counter_reset (user_intf u) b)) u)"

fun reset_blocks :: "'d vitis_intf \<Rightarrow> nat list \<Rightarrow> 'd \<Rightarrow> bool \<times> 'd" where
  "reset_blocks intf [] d = (True, d)"
| "reset_blocks intf (n # ns) d = drv_then (counter_reset intf n) (\<lambda>_. reset_blocks intf ns) d"

definition snp4_counter_block_reset_all :: "'d snp4_user_context \<Rightarrow> bool \<times> 'd snp4_user_context" where
  "snp4_counter_block_reset_all u =
     run_user (reset_blocks (user_intf u) [0..<length (cfg_counters (intf_config (user_intf u)))]) u"

end
