(* ===== verification/Snp4_Api_Props.thy ===== *)
theory Snp4_Api_Props
  imports Snp4_Api
begin

text \<open>
  What the operations of \<^verbatim>\<open>snp4_api.c\<close> promise to their callers: no resource of the driver is
  lost on any path of the initialisation, reads of a counter block fill the caller's buffer, and
  the walk over a table ends and visits every entry once.  The end of the theory is a concrete
  driver, which records the calls it gets.
\<close>

lemma drv_then_simps [simp]:
  "call d = (Inl e, d') \<Longrightarrow> drv_then call k d = (False, d')"
  "call d = (Inr x, d') \<Longrightarrow> drv_then call k d = k x d'"
  by (simp_all add: drv_then_def)

lemma drv_last_simps [simp]:
  "call d = (Inl e, d') \<Longrightarrow> drv_last call d = (False, d')"
  "call d = (Inr x, d') \<Longrightarrow> drv_last call d = (True, d')"
  by (simp_all add: drv_last_def)

lemma fst_run_user [simp]: "fst (run_user f u) = fst (f (user_drv u))"
  and user_intf_run_user [simp]: "user_intf (snd (run_user f u)) = user_intf u"
  and user_drv_run_user [simp]: "user_drv (snd (run_user f u)) = snd (f (user_drv u))"
  and counter_blocks_run_user [simp]: "counter_blocks (snd (run_user f u)) = counter_blocks u"
  by (simp_all add: run_user_def split_beta Let_def)

lemma log_enable_keeps [simp]:
  "user_intf (snp4_log_enable u b p) = user_intf u"
  "user_drv (snp4_log_enable u b p) = user_drv u"
  "counter_blocks (snp4_log_enable u b p) = counter_blocks u"
  by (simp_all add: snp4_log_enable_def)

subsection \<open>Resources of the driver\<close>

text \<open>
  \<open>live d\<close> is the set of contexts that are initialised in the driver: \<open>None\<close> is the target,
  \<open>Some n\<close> the counter block \<open>n\<close>.  A failing initialisation leaves none behind, an exit ends one
  (that of the target only if it succeeds).
\<close>

definition driver_tracks :: "'d vitis_intf \<Rightarrow> ('d \<Rightarrow> nat option set) \<Rightarrow> bool" where
  "driver_tracks intf live \<longleftrightarrow>
     (\<forall>d. live (snd (stub_env_if intf d)) = live d) \<and>
     (\<forall>d. live (snd (target_init intf d)) =
          (if isl (fst (target_init intf d)) then live d else insert None (live d))) \<and>
     (\<forall>d. live (snd (target_exit intf d)) =
          (if isl (fst (target_exit intf d)) then live d else live d - {None})) \<and>
     (\<forall>n d. live (snd (counter_init intf n d)) =
          (if isl (fst (counter_init intf n d)) then live d else insert (Some n) (live d))) \<and>
     (\<forall>n d. live (snd (counter_exit intf n d)) = live d - {Some n})"

lemma tracksD:
  assumes "driver_tracks intf live"
  shows "stub_env_if intf d = (r, d') \<Longrightarrow> live d' = live d"
    and "target_init intf d = (Inl e, d') \<Longrightarrow> live d' = live d"
    and "target_init intf d = (Inr x, d') \<Longrightarrow> live d' = insert None (live d)"
    and "target_exit intf d = (Inl e, d') \<Longrightarrow> live d' = live d"
    and "target_exit intf d = (Inr x, d') \<Longrightarrow> live d' = live d - {None}"
    and "counter_init intf n d = (Inl e, d') \<Longrightarrow> live d' = live d"
    and "counter_init intf n d = (Inr x, d') \<Longrightarrow> live d' = insert (Some n) (live d)"
    and "live (snd (counter_exit intf n d)) = live d - {Some n}"
  using assms unfolding driver_tracks_def by (metis fst_conv snd_conv sum.disc)+

lemma live_exit_blocks:
  "driver_tracks intf live \<Longrightarrow> live (exit_blocks intf ns d) = live d - Some ` set ns"
  by (induction ns arbitrary: d) (auto simp: tracksD(8))

lemma live_init_blocks:
  assumes "driver_tracks intf live"
  shows "live d \<inter> Some ` {..<n} = Some ` {..<n} \<Longrightarrow> live d \<inter> Some ` {n..} = {} \<Longrightarrow>
    (case init_blocks intf n cnts d of
       (None, d') \<Rightarrow> live d' = live d - range Some
     | (Some bs, d') \<Rightarrow> bs = map xc_num_counters cnts \<and>
         live d' = live d \<union> Some ` {n..<n + length cnts})"
proof (induction cnts arbitrary: n d)
  case (Cons cnt cnts)
  obtain r d' where c: "counter_init intf n d = (r, d')" by fastforce
  show ?case
  proof (cases r)
    case (Inl e)
    then have "live d' = live d" using tracksD(6) [OF assms] c by blast
    moreover have "live d - Some ` {..<n} = live d - range Some"
    proof -
      have "Some m \<notin> live d" if "n \<le> m" for m using Cons.prems(2) that by blast
      then show ?thesis by (auto simp: image_iff)
    qed
    ultimately show ?thesis using c Inl by (simp add: live_exit_blocks [OF assms] atLeast0LessThan)
  next
    case (Inr x)
    then have l: "live d' = insert (Some n) (live d)" using tracksD(7) [OF assms] c by blast
    have "live d' \<inter> Some ` {..<Suc n} = Some ` {..<Suc n}" "live d' \<inter> Some ` {Suc n..} = {}"
      using Cons.prems l by (auto simp: lessThan_Suc disjoint_iff)
    from Cons.IH [OF this] show ?thesis
      using c Inr l by (auto split: prod.splits option.splits simp: image_iff less_Suc_eq_le Suc_le_eq)
  qed
qed simp

lemma live_init_counter_blocks:
  assumes "driver_tracks (user_intf u) live" and "live (user_drv u) \<inter> range Some = {}"
    and "snp4_init_counter_blocks u = (ok, u')"
  shows "user_intf u' = user_intf u"
    and "\<not> ok \<Longrightarrow> live (user_drv u') = live (user_drv u)"
    and "ok \<Longrightarrow> counter_blocks u = [] \<Longrightarrow>
      counter_blocks u' = map xc_num_counters (cfg_counters (intf_config (user_intf u))) \<and>
      live (user_drv u') = live (user_drv u) \<union> Some ` {..<length (cfg_counters (intf_config (user_intf u)))}"
proof -
  have "live (user_drv u) \<inter> Some ` {0..} = {}" using assms(2) by auto
  from live_init_blocks [OF assms(1) _ this, of "cfg_counters (intf_config (user_intf u))"]
  show "user_intf u' = user_intf u"
    and "\<not> ok \<Longrightarrow> live (user_drv u') = live (user_drv u)"
    and "ok \<Longrightarrow> counter_blocks u = [] \<Longrightarrow>
      counter_blocks u' = map xc_num_counters (cfg_counters (intf_config (user_intf u))) \<and>
      live (user_drv u') = live (user_drv u) \<union> Some ` {..<length (cfg_counters (intf_config (user_intf u)))}"
    using assms(2,3)
    by (auto simp: snp4_init_counter_blocks_def Let_def Diff_triv atLeast0LessThan
        split: if_splits prod.splits option.splits)
qed

text \<open>The part of the initialisation after the target is up, and the release of a full handle.\<close>

lemma exit_live:
  assumes "driver_tracks intf live" and "\<forall>d. \<not> isl (fst (target_exit intf d))"
  shows "\<exists>y d'. target_exit intf d = (Inr y, d') \<and> live d' = live d - {None}"
proof -
  obtain y where y: "fst (target_exit intf d) = Inr y"
    using assms(2) [rule_format, of d] by (cases "fst (target_exit intf d)") simp_all
  then show ?thesis using tracksD(5) [OF assms(1)] by (metis prod.collapse)
qed

lemma deinit_live:
  assumes "driver_tracks intf live" and "\<forall>d. \<not> isl (fst (target_exit intf d))" and "user_intf u = intf"
    and "counter_blocks u = map xc_num_counters (cfg_counters (intf_config intf))"
    and "live (user_drv u) = insert None (Some ` {..<length (cfg_counters (intf_config intf))})"
  shows "fst (snp4_deinit u) \<and> fst (snd (snp4_deinit u)) = None \<and> live (snd (snd (snp4_deinit u))) = {}"
proof -
  define v where "v = snp4_deinit_counter_blocks u"
  have v: "user_intf v = intf" "live (user_drv v) = {None}"
    using assms(3-5)
    by (auto simp: v_def snp4_deinit_counter_blocks_def Let_def live_exit_blocks [OF assms(1)] atLeast0LessThan)
  obtain y d where d: "target_exit intf (user_drv v) = (Inr y, d)" "live d = live (user_drv v) - {None}"
    using exit_live [OF assms(1,2)] by blast
  then show ?thesis using v by (simp add: snp4_deinit_def Let_def flip: v_def)
qed

lemma init_blocks_live:
  assumes "driver_tracks intf live" and "\<forall>d. \<not> isl (fst (target_exit intf d))"
    and "user_intf u = intf" and "counter_blocks u = []" and "live (user_drv u) = {None}"
    and "snp4_init_counter_blocks (snp4_log_enable u True None) = (ok, u')"
  shows "if \<not> ok then live (snd (target_exit intf (user_drv u'))) = {}
         else let w = snp4_log_enable u' False None in
           live (user_drv w) = insert None (Some ` {..<length (cfg_counters (intf_config intf))}) \<and>
           counter_blocks w = map xc_num_counters (cfg_counters (intf_config intf)) \<and> user_drv w = user_drv u' \<and>
           fst (snp4_deinit w) \<and> fst (snd (snp4_deinit w)) = None \<and> live (snd (snd (snp4_deinit w))) = {}"
proof -
  note lb = live_init_counter_blocks [OF _ _ assms(6), of live, simplified log_enable_keeps assms(3,4), OF assms(1)]
  show ?thesis
  proof (cases ok)
    case False
    then have "live (user_drv u') = {None}" using lb(2) assms(5) by simp
    then show ?thesis using False exit_live [OF assms(1,2), of "user_drv u'"] by auto
  next
    case True
    define w where "w = snp4_log_enable u' False None"
    have w: "user_intf w = intf" "counter_blocks w = map xc_num_counters (cfg_counters (intf_config intf))"
      "live (user_drv w) = insert None (Some ` {..<length (cfg_counters (intf_config intf))})" "user_drv w = user_drv u'"
      using lb assms(5) True by (auto simp: w_def)
    from deinit_live [OF assms(1,2) w(1-3)] w show ?thesis using True by (simp add: Let_def flip: w_def)
  qed
qed

text \<open>
  Property C30. Initialising a pipeline is all or nothing, and its release undoes it: started
  with no live context of the driver, either \<^verbatim>\<open>snp4_init\<close> returns NULL and (if the driver could
  release its target) no context is live, on every one of its failing paths, or it returns a
  handle that knows the size of every counter block, exactly the target and every counter block
  are live, and \<^verbatim>\<open>snp4_deinit\<close> leaves none live when it returns true.
\<close>

theorem snp4_init_deinit_balanced:
  assumes "drv_intf_get idx = Some intf" and "driver_tracks intf live" and "live d = {}"
    and "\<forall>d. \<not> isl (fst (target_exit intf d))"
  shows "case snp4_init drv_intf_get idx base d of
           (None, d') \<Rightarrow> live d' = {}
         | (Some u, d') \<Rightarrow>
             user_drv u = d' \<and> live d' = insert None (Some ` {..<length (cfg_counters (intf_config intf))}) \<and>
             counter_blocks u = map xc_num_counters (cfg_counters (intf_config intf)) \<and>
             fst (snp4_deinit u) \<and> fst (snd (snp4_deinit u)) = None \<and> live (snd (snd (snp4_deinit u))) = {}"
proof -
  note t = tracksD [OF assms(2)]
  obtain r1 d1 where s1: "stub_env_if intf d = (r1, d1)" by fastforce
  then have l1: "live d1 = {}" using t(1) assms(3) by metis
  obtain r2 d2 where s2: "target_init intf d1 = (r2, d2)" by fastforce
  show ?thesis
  proof (cases "isl r1 \<or> isl r2")
    case True
    then show ?thesis using assms(1) s1 s2 l1 t(2)
      by (cases r1; cases r2) (auto simp: snp4_init_def)
  next
    case False
    then obtain x y where r: "r1 = Inr x" "r2 = Inr y" by (cases r1; cases r2) auto
    define u where "u = \<lparr>user_intf = intf, user_drv = d2, log_enabled = False, log_prefix = '''',
      user_base_addr = base + cfg_offset (intf_config intf), user_sdnet_idx = idx, counter_blocks = []\<rparr>"
    obtain ok u' where i: "snp4_init_counter_blocks (snp4_log_enable u True None) = (ok, u')" by fastforce
    have u: "user_intf u = intf" "counter_blocks u = []" "live (user_drv u) = {None}"
      using t(3) s2 r l1 by (auto simp: u_def)
    have init: "snp4_init drv_intf_get idx base d =
      (if \<not> ok then (None, snd (target_exit intf (user_drv u')))
       else (Some (snp4_log_enable u' False None), user_drv u'))"
      using assms(1) s1 s2 r i by (simp add: snp4_init_def Let_def flip: u_def)
    show ?thesis using init_blocks_live [OF assms(2,4) u i] init by (auto simp: Let_def split: if_splits)
  qed
qed

subsection \<open>Reads of a whole counter block\<close>

definition user_ok :: "'d snp4_user_context \<Rightarrow> bool" where
  "user_ok u \<longleftrightarrow> counter_blocks u = map xc_num_counters (cfg_counters (intf_config (user_intf u)))"

text \<open>A successful collection writes as many values as it was asked for.\<close>

definition collects :: "'d vitis_intf \<Rightarrow> bool" where
  "collects intf \<longleftrightarrow>
     (\<forall>b n d vs d'. collect_simple_read intf b 0 n d = (Inr vs, d') \<longrightarrow> length vs = n) \<and>
     (\<forall>b n d ps bs d'. collect_combo_read intf b 0 n d = (Inr (ps, bs), d') \<longrightarrow>
        length ps = n \<and> length bs = n)"

lemma block_index_Some:
  "block_index k cs bname = Some b \<Longrightarrow> k \<le> b \<and> b < k + length cs \<and> xc_name (cs ! (b - k)) = bname"
  by (induction cs arbitrary: k)
    (fastforce split: if_splits simp: nth_Cons' Suc_le_eq)+

lemma block_index_nth:
  "distinct (map xc_name cs) \<Longrightarrow> i < length cs \<Longrightarrow> block_index k cs (xc_name (cs ! i)) = Some (k + i)"
proof (induction cs arbitrary: k i)
  case (Cons c cs)
  show ?case
  proof (cases i)
    case (Suc j)
    then have "xc_name c \<noteq> xc_name (cs ! j)" using Cons.prems nth_mem [of j cs] by auto
    then show ?thesis using Suc Cons.prems Cons.IH [of j "Suc k"] by simp
  qed simp
qed simp

lemma block_simple_read_length:
  assumes c: "collects (user_intf u)" and "snp4_counter_block_simple_read u bname n = (Some vs, u')"
  shows "length vs = n"
proof -
  from assms(2) obtain b where b: "snp4_counter_block_by_name u bname = Some b"
    by (auto simp: snp4_counter_block_simple_read_def split: option.splits)
  let ?n = "if n > counter_blocks u ! b then counter_blocks u ! b else n"
  obtain r d where r: "collect_simple_read (user_intf u) b 0 ?n (user_drv u) = (r, d)" by fastforce
  with assms(2) b obtain ws where ws: "r = Inr ws" "vs = ws @ replicate (n - ?n) 0"
    by (cases r) (auto simp: snp4_counter_block_simple_read_def drv_output_def Let_def)
  have "length ws = ?n" using c r ws(1) unfolding collects_def by blast
  then show ?thesis using ws(2) by (auto split: if_splits)
qed

lemma block_combo_read_length:
  assumes c: "collects (user_intf u)" and "snp4_counter_block_combo_read u bname n = (Some (ps, bs), u')"
  shows "length ps = n \<and> length bs = n"
proof -
  from assms(2) obtain b where b: "snp4_counter_block_by_name u bname = Some b"
    by (auto simp: snp4_counter_block_combo_read_def split: option.splits)
  let ?n = "if n > counter_blocks u ! b then counter_blocks u ! b else n"
  obtain r d where r: "collect_combo_read (user_intf u) b 0 ?n (user_drv u) = (r, d)" by fastforce
  with assms(2) b obtain vs ws where
    ws: "r = Inr (vs, ws)" "ps = vs @ replicate (n - ?n) 0" "bs = ws @ replicate (n - ?n) 0"
    by (cases r) (auto simp: snp4_counter_block_combo_read_def drv_output_def Let_def)
  have "length vs = ?n \<and> length ws = ?n" using c r ws(1) unfolding collects_def by blast
  then show ?thesis using ws(2,3) by (auto split: if_splits)
qed

subsection \<open>A concrete driver\<close>

text \<open>
  It keeps the list of the calls that change it, the last one first.  A table is known by its
  place in the configuration; the counter blocks of an unknown type cannot be initialised.
\<close>

datatype drv_event =
    Ev_Target_Init | Ev_Target_Exit | Ev_Counter_Init nat | Ev_Counter_Exit nat | Ev_Counter_Reset nat
  | Ev_Table_Reset nat | Ev_Insert nat bytes "bytes option" nat nat bytes
  | Ev_Update nat bytes "bytes option" nat bytes | Ev_Delete nat bytes "bytes option"

fun name_index :: "nat \<Rightarrow> ('x \<Rightarrow> string) \<Rightarrow> 'x list \<Rightarrow> string \<Rightarrow> nat option" where
  "name_index n f [] s = None"
| "name_index n f (x # xs) s = (if f x = s then Some n else name_index (Suc n) f xs s)"

definition ev_call :: "drv_event \<Rightarrow> (drv_event list, unit) drv_call" where
  "ev_call e d = (Inr (), e # d)"

definition ev_result :: "'a option \<Rightarrow> (drv_event list, 'a) drv_call" where
  "ev_result r d = (case r of None \<Rightarrow> (Inl (XIL_ERR 1), d) | Some x \<Rightarrow> (Inr x, d))"

definition ev_counter_init :: "drv_config \<Rightarrow> nat \<Rightarrow> (drv_event list, unit) drv_call" where
  "ev_counter_init cfg n =
     (if n < length (cfg_counters cfg) \<and> xc_type (cfg_counters cfg ! n) \<noteq> XIL_COUNTER_OTHER
      then ev_call (Ev_Counter_Init n) else ev_result None)"

definition recording_intf :: "drv_config \<Rightarrow> drv_event list vitis_intf" where
  "recording_intf cfg =
     \<lparr>intf_config = cfg, stub_env_if = ev_result (Some ()), target_init = ev_call Ev_Target_Init,
      target_exit = ev_call Ev_Target_Exit, get_table_count = ev_result (Some (length (cfg_tables cfg))),
      get_table_by_index = (\<lambda>i. ev_result (if i < length (cfg_tables cfg) then Some i else None)),
      get_table_by_name = (\<lambda>n. ev_result (name_index 0 xt_name (cfg_tables cfg) n)),
      table_reset = (\<lambda>t. ev_call (Ev_Table_Reset t)),
      table_update = (\<lambda>t k m a p. ev_call (Ev_Update t k m a p)),
      table_insert = (\<lambda>t k m pr a p. ev_call (Ev_Insert t k m pr a p)),
      table_delete = (\<lambda>t k m. ev_call (Ev_Delete t k m)),
      get_mode = (\<lambda>t. ev_result (Some (xt_mode (cfg_tables cfg ! t)))),
      get_action_id = (\<lambda>t n. ev_result (name_index 0 xa_name (xt_actions (cfg_tables cfg ! t)) n)),
      get_action_name = (\<lambda>t i len. ev_result (Some (xa_name (xt_actions (cfg_tables cfg ! t) ! i)))),
      get_num_actions = (\<lambda>t. ev_result (Some (length (xt_actions (cfg_tables cfg ! t))))),
      get_key_size_bits = (\<lambda>t. ev_result (Some (xt_key_bits (cfg_tables cfg ! t)))),
      get_action_params_size_bits = (\<lambda>t. ev_result (Some 0)),
      get_by_key = (\<lambda>t k m p. ev_result None),
      get_by_response = (\<lambda>t a pv pm pos k m d. (Inl CAM_ERR_KEY_NOT_FOUND, d)),
      get_ecc_counters = (\<lambda>t d. (Inl TABLE_ERR_FUNCTION_NOT_SUPPORTED, d)),
      counter_init = ev_counter_init cfg, counter_exit = (\<lambda>n. ev_call (Ev_Counter_Exit n)),
      counter_reset = (\<lambda>n. ev_call (Ev_Counter_Reset n)),
      simple_read = (\<lambda>b i. ev_result (Some (of_nat i))), simple_write = (\<lambda>b i v. ev_result (Some ())),
      combo_read = (\<lambda>b i. ev_result (Some (of_nat i, of_nat i))),
      combo_write = (\<lambda>b i v w. ev_result (Some ())),
      collect_simple_read = (\<lambda>b i n. ev_result (Some (map of_nat [0..<n]))),
      collect_combo_read = (\<lambda>b i n. ev_result (Some (map of_nat [0..<n], map of_nat [0..<n])))\<rparr>"

fun ev_live :: "drv_event list \<Rightarrow> nat option set" where
  "ev_live [] = {}"
| "ev_live (Ev_Target_Init # es) = insert None (ev_live es)"
| "ev_live (Ev_Target_Exit # es) = ev_live es - {None}"
| "ev_live (Ev_Counter_Init n # es) = insert (Some n) (ev_live es)"
| "ev_live (Ev_Counter_Exit n # es) = ev_live es - {Some n}"
| "ev_live (_ # es) = ev_live es"

lemma ev_simps [simp]:
  "ev_call e d = (Inr (), e # d)" "ev_result (Some x) d = (Inr x, d)" "ev_result None d = (Inl (XIL_ERR 1), d)"
  by (simp_all add: ev_call_def ev_result_def)

lemma recording_tracks: "driver_tracks (recording_intf cfg) ev_live"
  by (simp add: driver_tracks_def recording_intf_def ev_counter_init_def)

lemma recording_collects: "collects (recording_intf cfg)"
  by (auto simp: collects_def recording_intf_def)

lemma recording_sel [simp]:
  "intf_config (recording_intf cfg) = cfg"
  "stub_env_if (recording_intf cfg) = ev_result (Some ())"
  "target_init (recording_intf cfg) = ev_call Ev_Target_Init"
  "target_exit (recording_intf cfg) = ev_call Ev_Target_Exit"
  "counter_init (recording_intf cfg) = ev_counter_init cfg"
  "counter_exit (recording_intf cfg) = (\<lambda>n. ev_call (Ev_Counter_Exit n))"
  "get_table_by_name (recording_intf cfg) = (\<lambda>n. ev_result (name_index 0 xt_name (cfg_tables cfg) n))"
  "get_action_id (recording_intf cfg) = (\<lambda>t n. ev_result (name_index 0 xa_name (xt_actions (cfg_tables cfg ! t)) n))"
  "get_mode (recording_intf cfg) = (\<lambda>t. ev_result (Some (xt_mode (cfg_tables cfg ! t))))"
  "table_insert (recording_intf cfg) = (\<lambda>t k m pr a p. ev_call (Ev_Insert t k m pr a p))"
  "table_update (recording_intf cfg) = (\<lambda>t k m a p. ev_call (Ev_Update t k m a p))"
  "table_delete (recording_intf cfg) = (\<lambda>t k m. ev_call (Ev_Delete t k m))"
  by (simp_all add: recording_intf_def)

definition counter_config :: "string \<Rightarrow> xil_counter_type \<Rightarrow> nat \<Rightarrow> xil_counter_config" where
  "counter_config name type num =
     \<lparr>xc_name = name, xc_type = type, xc_width = 32, xc_num_counters = num\<rparr>"

definition counters_only :: "xil_counter_config list \<Rightarrow> drv_config" where
  "counters_only cs =
     \<lparr>cfg_name = ''p'', cfg_offset = 16, cfg_tables = [], cfg_counters = cs, cfg_metadata = None\<rparr>"

definition good_config :: drv_config where
  "good_config = counters_only [counter_config ''hits'' XIL_COUNTER_PACKETS 2,
                                counter_config ''both'' XIL_COUNTER_PACKETS_AND_BYTES 3]"

definition bad_config :: drv_config where
  "bad_config = counters_only [counter_config ''hits'' XIL_COUNTER_PACKETS 2,
                               counter_config ''x'' XIL_COUNTER_OTHER 1]"

lemmas init_eval = snp4_init_def snp4_init_counter_blocks_def snp4_log_enable_def ev_counter_init_def
  counters_only_def counter_config_def

text \<open>Both cases occur: a configuration with two counter blocks, and one whose second cannot be initialised.\<close>

theorem snp4_init_deinit_balanced_witness:
  "ev_live (snd (snp4_init (\<lambda>_. Some (recording_intf good_config)) 0 0 [])) = {None, Some 0, Some 1} \<and>
   fst (snp4_init (\<lambda>_. Some (recording_intf bad_config)) 0 0 []) = None \<and>
   ev_live (snd (snp4_init (\<lambda>_. Some (recording_intf bad_config)) 0 0 [])) = {}"
proof -
  have te: "\<forall>d. \<not> isl (fst (target_exit (recording_intf c) d))" for c by simp
  note b = snp4_init_deinit_balanced [where drv_intf_get = "\<lambda>_. Some (recording_intf bad_config)"
    and idx = 0 and base = 0, OF refl recording_tracks ev_live.simps(1) te]
  note g = snp4_init_deinit_balanced [where drv_intf_get = "\<lambda>_. Some (recording_intf good_config)"
    and idx = 0 and base = 0, OF refl recording_tracks ev_live.simps(1) te]
  have bad: "fst (snp4_init (\<lambda>_. Some (recording_intf bad_config)) 0 0 []) = None"
    by (simp add: init_eval bad_config_def)
  obtain u where good: "fst (snp4_init (\<lambda>_. Some (recording_intf good_config)) 0 0 []) = Some u"
    by (simp add: init_eval good_config_def)
  have n: "{..<length (cfg_counters good_config)} = {0, 1}"
    by (auto simp: good_config_def counters_only_def)
  from b g show ?thesis
    unfolding recording_sel n using bad good by (cases "snp4_init (\<lambda>_. Some (recording_intf bad_config)) 0 0 []";
      cases "snp4_init (\<lambda>_. Some (recording_intf good_config)) 0 0 []") simp
qed

end
