(* ===== verification/Bit_Array.thy ===== *)
theory Bit_Array
  imports Sn_Prelude
begin

text \<open>
  The class \<open>BitArray\<close> of \<^verbatim>\<open>sn-p4/src/agent/stats.cpp\<close> (the one of \<^verbatim>\<open>sn-cfg\<close> is the same text):
  a set of positions kept in 64-bit words, with the mask of the valid bits of the upper word
  computed once by the constructor.  Each operation is shown to be the set operation that its
  name says; the two short-circuit accumulation loops of the filters are a locale over these
  laws, interpreted for union and for intersection.
\<close>

named_theorems ba_sem \<open>what the operations of the bit array mean on positions\<close>

subsection \<open>The class\<close>

record bit_array =
  ba_nbits :: nat
  ba_nwords :: nat
  ba_words :: "64 word list"
  ba_upper_mask :: "64 word"

definition NBITS_PER_WORD :: nat where "NBITS_PER_WORD = 64"

definition FULL_MASK :: "64 word" where "FULL_MASK = NOT 0"

definition ba_clear_all :: "bit_array \<Rightarrow> bit_array" where
  "ba_clear_all b = b\<lparr>ba_words := map (\<lambda>w. 0) (ba_words b)\<rparr>"

definition ba_new :: "nat \<Rightarrow> bit_array" where
  "ba_new nbits =
     (let nwords = (if nbits > NBITS_PER_WORD then (nbits + NBITS_PER_WORD - 1) div NBITS_PER_WORD else 1);
          rem = nbits mod NBITS_PER_WORD
      in ba_clear_all
           \<lparr>ba_nbits = nbits, ba_nwords = nwords, ba_words = replicate nwords 0,
            ba_upper_mask = (if rem > 0 then push_bit rem 1 - 1 else FULL_MASK)\<rparr>)"

definition ba_copy :: "bit_array \<Rightarrow> bit_array" where
  "ba_copy src = (ba_new (ba_nbits src))\<lparr>ba_words := ba_words src\<rparr>"

definition ba_size :: "bit_array \<Rightarrow> nat" where
  "ba_size b = ba_nbits b"

definition ba_is_bit_set :: "bit_array \<Rightarrow> nat \<Rightarrow> bool" where
  "ba_is_bit_set b pos =
     (if pos < ba_nbits b
      then (ba_words b ! (pos div NBITS_PER_WORD)) AND push_bit (pos mod NBITS_PER_WORD) 1 \<noteq> 0
      else False)"

definition ba_is_bit_cleared :: "bit_array \<Rightarrow> nat \<Rightarrow> bool" where
  "ba_is_bit_cleared b pos = (\<not> ba_is_bit_set b pos)"

definition ba_count_all_set :: "bit_array \<Rightarrow> nat" where
  "ba_count_all_set b = foldl (\<lambda>count pos. if ba_is_bit_set b pos then count + 1 else count) 0 [0..<ba_nbits b]"

definition ba_count_all_cleared :: "bit_array \<Rightarrow> nat" where
  "ba_count_all_cleared b = ba_nbits b - ba_count_all_set b"

definition ba_is_all_set :: "bit_array \<Rightarrow> bool" where
  "ba_is_all_set b \<longleftrightarrow>
     list_all (\<lambda>w. ba_words b ! w = FULL_MASK) [0..<ba_nwords b - 1] \<and>
     ba_words b ! (ba_nwords b - 1) = ba_upper_mask b"

definition ba_is_all_cleared :: "bit_array \<Rightarrow> bool" where
  "ba_is_all_cleared b \<longleftrightarrow> list_all (\<lambda>w. ba_words b ! w = 0) [0..<ba_nwords b]"

text \<open>The three operations that update the word of one valid position.\<close>

definition update_word :: "nat \<Rightarrow> (64 word \<Rightarrow> 64 word) \<Rightarrow> bit_array \<Rightarrow> bit_array" where
  "update_word w f b = b\<lparr>ba_words := (ba_words b)[w := f (ba_words b ! w)]\<rparr>"

definition ba_set_bit :: "bit_array \<Rightarrow> nat \<Rightarrow> bit_array" where
  "ba_set_bit b pos =
     (if pos < ba_nbits b
      then update_word (pos div NBITS_PER_WORD) (\<lambda>x. x OR push_bit (pos mod NBITS_PER_WORD) 1) b
      else b)"

definition ba_clear_bit :: "bit_array \<Rightarrow> nat \<Rightarrow> bit_array" where
  "ba_clear_bit b pos =
     (if pos < ba_nbits b
      then update_word (pos div NBITS_PER_WORD) (\<lambda>x. x AND NOT (push_bit (pos mod NBITS_PER_WORD) 1)) b
      else b)"

definition ba_negate_bit :: "bit_array \<Rightarrow> nat \<Rightarrow> bit_array" where
  "ba_negate_bit b pos =
     (if pos < ba_nbits b
      then update_word (pos div NBITS_PER_WORD) (\<lambda>x. x XOR push_bit (pos mod NBITS_PER_WORD) 1) b
      else b)"

text \<open>The loops over the lower words followed by the statement on the upper word.\<close>

definition update_all :: "(64 word \<Rightarrow> 64 word) \<Rightarrow> (64 word \<Rightarrow> 64 word) \<Rightarrow> bit_array \<Rightarrow> bit_array" where
  "update_all f g b =
     (let n = ba_nwords b - 1
      in b\<lparr>ba_words := map f (take n (ba_words b)) @ [g (ba_words b ! n)] @ drop (Suc n) (ba_words b)\<rparr>)"

definition ba_set_all :: "bit_array \<Rightarrow> bit_array" where
  "ba_set_all b = update_all (\<lambda>_. FULL_MASK) (\<lambda>_. ba_upper_mask b) b"

definition ba_negate_all :: "bit_array \<Rightarrow> bit_array" where
  "ba_negate_all b = update_all (\<lambda>x. x XOR FULL_MASK) (\<lambda>x. x XOR ba_upper_mask b) b"

definition ba_assign_bit :: "bit_array \<Rightarrow> nat \<Rightarrow> bool \<Rightarrow> bit_array" where
  "ba_assign_bit b pos v = (if v then ba_set_bit b pos else ba_clear_bit b pos)"

definition ba_assign_all :: "bit_array \<Rightarrow> bool \<Rightarrow> bit_array" where
  "ba_assign_all b v = (if v then ba_set_all b else ba_clear_all b)"

text \<open>A failed assertion aborts the process; it is the result \<open>None\<close>.\<close>

definition ba_and :: "bit_array \<Rightarrow> bit_array \<Rightarrow> bit_array option" where
  "ba_and b rhs =
     (if ba_nwords b = ba_nwords rhs
      then Some (b\<lparr>ba_words := map2 (AND) (ba_words b) (ba_words rhs)\<rparr>) else None)"

definition ba_or :: "bit_array \<Rightarrow> bit_array \<Rightarrow> bit_array option" where
  "ba_or b rhs =
     (if ba_nwords b = ba_nwords rhs
      then Some (b\<lparr>ba_words := map2 (OR) (ba_words b) (ba_words rhs)\<rparr>) else None)"

subsection \<open>The representation\<close>

definition raw_bit :: "64 word list \<Rightarrow> nat \<Rightarrow> bool" where
  "raw_bit ws i \<longleftrightarrow> i div 64 < length ws \<and> bit (ws ! (i div 64)) (i mod 64)"

definition ba_wf :: "bit_array \<Rightarrow> bool" where
  "ba_wf b \<longleftrightarrow>
     0 < ba_nbits b \<and> ba_nwords b = (ba_nbits b + 63) div 64 \<and> length (ba_words b) = ba_nwords b \<and>
     ba_upper_mask b = (if ba_nbits b mod 64 = 0 then - 1 else mask (ba_nbits b mod 64)) \<and>
     (\<forall>i. raw_bit (ba_words b) i \<longrightarrow> i < ba_nbits b)"

lemma and_exp_bit: "(x::64 word) AND 2 ^ k \<noteq> 0 \<longleftrightarrow> bit x k"
  by (simp add: bit_iff_and_push_bit_not_eq_0)

lemma nwords_eq: "ba_wf b \<Longrightarrow> ba_nwords b = Suc ((ba_nbits b - 1) div 64)"
  by (cases "ba_nbits b") (auto simp: ba_wf_def)

lemma ba_is_bit_set_raw: "ba_wf b \<Longrightarrow> ba_is_bit_set b i \<longleftrightarrow> raw_bit (ba_words b) i"
  by (auto simp: ba_is_bit_set_def NBITS_PER_WORD_def and_exp_bit raw_bit_def ba_wf_def)

lemma words_eqI:
  assumes "length as = length bs" and "\<And>i. raw_bit as i = raw_bit bs i"
  shows "as = bs"
proof (rule nth_equalityI [OF assms(1)])
  fix w assume w: "w < length as"
  show "as ! w = bs ! w"
  proof (rule bit_word_eqI)
    fix k assume "k < LENGTH(64)"
    then show "bit (as ! w) k = bit (bs ! w) k"
      using assms(2) [of "w * 64 + k"] w assms(1) by (simp add: raw_bit_def)
  qed
qed

lemma raw_bit_map: "raw_bit (map f ws) i \<longleftrightarrow> i div 64 < length ws \<and> bit (f (ws ! (i div 64))) (i mod 64)"
  by (auto simp: raw_bit_def)

lemma raw_bit_update:
  "raw_bit (ws[w := x]) i \<longleftrightarrow>
     i div 64 < length ws \<and> bit (if i div 64 = w then x else ws ! (i div 64)) (i mod 64)"
  by (auto simp: raw_bit_def nth_list_update)

lemma raw_bit_map2:
  "length as = length bs \<Longrightarrow>
   raw_bit (map2 f as bs) i \<longleftrightarrow> i div 64 < length as \<and> bit (f (as ! (i div 64)) (bs ! (i div 64))) (i mod 64)"
  by (auto simp: raw_bit_def)

text \<open>The words of a well-formed array are the lower ones and the upper one.\<close>

lemma ba_wf_split:
  assumes "ba_wf b"
  shows "ba_words b = take (ba_nwords b - 1) (ba_words b) @ [ba_words b ! (ba_nwords b - 1)]"
    and "drop (Suc (ba_nwords b - 1)) (ba_words b) = []"
proof -
  have l: "length (ba_words b) = ba_nwords b" "0 < ba_nwords b" using assms by (auto simp: ba_wf_def)
  then show "drop (Suc (ba_nwords b - 1)) (ba_words b) = []" by simp
  show "ba_words b = take (ba_nwords b - 1) (ba_words b) @ [ba_words b ! (ba_nwords b - 1)]"
    using l take_Suc_conv_app_nth [of "ba_nwords b - 1" "ba_words b"] by simp
qed

lemma split_mod:
  fixes n :: nat
  assumes "0 < n"
  obtains q r where "n = 64 * q + r" and "r \<le> 64" and "0 < r" and "(n - 1) div 64 = q"
    and "n mod 64 = (if r = 64 then 0 else r)"
proof -
  obtain k where k: "n = Suc k" using assms by (cases n) auto
  have "k = 64 * (k div 64) + k mod 64" by simp
  then have "n = 64 * (k div 64) + Suc (k mod 64)" using k by linarith
  moreover have "Suc (k mod 64) \<le> 64" by (simp add: Suc_le_eq)
  moreover have "n mod 64 = (if Suc (k mod 64) = 64 then 0 else Suc (k mod 64))" by (simp add: k mod_Suc)
  ultimately show ?thesis using that [of "k div 64" "Suc (k mod 64)"] k by simp
qed

lemma upper_mask_bit:
  assumes "ba_wf b" and "i div 64 = ba_nwords b - 1"
  shows "bit (ba_upper_mask b) (i mod 64) \<longleftrightarrow> i < ba_nbits b"
proof -
  have n: "0 < ba_nbits b" and m: "ba_upper_mask b = (if ba_nbits b mod 64 = 0 then - 1 else mask (ba_nbits b mod 64))"
    using assms(1) by (simp_all add: ba_wf_def)
  obtain q r where qr: "ba_nbits b = 64 * q + r" "r \<le> 64" "0 < r" "(ba_nbits b - 1) div 64 = q"
    "ba_nbits b mod 64 = (if r = 64 then 0 else r)" using split_mod [OF n] by blast
  define j where "j = i mod 64"
  have j: "j < 64" by (simp add: j_def)
  have "i div 64 = q" using assms nwords_eq qr(4) by simp
  then have "i = 64 * q + j" using mult_div_mod_eq [of 64 i] by (simp add: j_def)
  then have "i < ba_nbits b \<longleftrightarrow> j < r" using qr(1) by simp
  moreover have "bit (ba_upper_mask b) j \<longleftrightarrow> j < r"
    using j qr(2,3,5) by (auto simp: m bit_mask_iff)
  ultimately show ?thesis by (simp add: j_def)
qed

lemma lower_bit: "ba_wf b \<Longrightarrow> i div 64 < ba_nwords b - 1 \<Longrightarrow> i < ba_nbits b"
  using nwords_eq [of b] by (simp add: div_less_iff_less_mult)

lemma valid_word: "ba_wf b \<Longrightarrow> i < ba_nbits b \<Longrightarrow> i div 64 < ba_nwords b"
  using nwords_eq [of b] div_le_mono [of i "ba_nbits b - 1" 64] by simp

subsection \<open>What the operations mean\<close>

lemma ba_wf_words:
  assumes "ba_wf b" and "length ws = length (ba_words b)" and "\<And>i. raw_bit ws i \<Longrightarrow> i < ba_nbits b"
  shows "ba_wf (b\<lparr>ba_words := ws\<rparr>)"
  using assms by (simp add: ba_wf_def)

lemma same_index: "(i::nat) div 64 = p div 64 \<Longrightarrow> i mod 64 = p mod 64 \<Longrightarrow> i = p"
  by (metis mult_div_mod_eq)

lemma raw_bit_clear [simp]: "\<not> raw_bit (map (\<lambda>w. 0) ws) i" "\<not> raw_bit (replicate n 0) i"
  by (simp_all add: raw_bit_def)

lemma raw_bit_less: "ba_wf b \<Longrightarrow> raw_bit (ba_words b) i \<Longrightarrow> i < ba_nbits b"
  by (simp add: ba_wf_def)

lemma raw_update_word:
  assumes "ba_wf b" and "p < ba_nbits b"
  shows "raw_bit (ba_words (update_word (p div 64) f b)) i \<longleftrightarrow>
         (if i div 64 = p div 64 then bit (f (ba_words b ! (p div 64))) (i mod 64) else raw_bit (ba_words b) i)"
proof -
  have "p div 64 < length (ba_words b)" using valid_word [OF assms] assms(1) by (simp add: ba_wf_def)
  then show ?thesis by (simp add: update_word_def raw_bit_update) (auto simp: raw_bit_def)
qed

lemma raw_bit_same_word:
  assumes "ba_wf b" and "p < ba_nbits b" and "i div 64 = p div 64"
  shows "raw_bit (ba_words b) i \<longleftrightarrow> bit (ba_words b ! (p div 64)) (i mod 64)"
  using valid_word [OF assms(1,2)] assms by (simp add: raw_bit_def ba_wf_def)

lemma raw_bit_ops:
  assumes "ba_wf b" and "p < ba_nbits b"
  shows raw_set_bit: "raw_bit (ba_words (ba_set_bit b p)) i \<longleftrightarrow> i = p \<or> raw_bit (ba_words b) i" (is ?S)
    and raw_clear_bit: "raw_bit (ba_words (ba_clear_bit b p)) i \<longleftrightarrow> i \<noteq> p \<and> raw_bit (ba_words b) i" (is ?C)
    and raw_negate_bit: "raw_bit (ba_words (ba_negate_bit b p)) i \<longleftrightarrow> (raw_bit (ba_words b) i \<noteq> (i = p))" (is ?N)
proof -
  note u = raw_update_word [OF assms]
  have m: "i mod 64 < LENGTH(64)" by simp
  have e: "bit (2 ^ (p mod 64) :: 64 word) (i mod 64) \<longleftrightarrow> i mod 64 = p mod 64"
    using m by (auto simp: bit_exp_iff)
  have "?S \<and> ?C \<and> ?N"
  proof (cases "i div 64 = p div 64")
    case True
    have s: "i = p \<longleftrightarrow> i mod 64 = p mod 64" using same_index [OF True] by blast
    show ?thesis unfolding s raw_bit_same_word [OF assms True]
      by (simp add: ba_set_bit_def ba_clear_bit_def ba_negate_bit_def NBITS_PER_WORD_def assms(2) u True e
          bit_or_iff bit_and_iff bit_not_iff bit_xor_iff) blast
  next
    case False
    then have "i \<noteq> p" by auto
    then show ?thesis using False assms(2)
      by (simp add: ba_set_bit_def ba_clear_bit_def ba_negate_bit_def NBITS_PER_WORD_def u)
  qed
  then show ?S ?C ?N by blast+
qed

lemma length_update_all:
  assumes "ba_wf b"
  shows "length (ba_words (update_all f g b)) = length (ba_words b)"
proof -
  have "length (ba_words b) = ba_nwords b" "0 < ba_nwords b" using assms nwords_eq [OF assms] by (simp_all add: ba_wf_def)
  then show ?thesis by (simp add: update_all_def Let_def)
qed

lemma nth_update_all:
  assumes "ba_wf b" and "w < ba_nwords b"
  shows "ba_words (update_all f g b) ! w = (if w < ba_nwords b - 1 then f (ba_words b ! w) else g (ba_words b ! w))"
proof -
  have l: "length (ba_words b) = ba_nwords b" using assms(1) by (simp add: ba_wf_def)
  show ?thesis
  proof (cases "w < ba_nwords b - 1")
    case True
    then show ?thesis using l assms(2) by (simp add: update_all_def Let_def nth_append)
  next
    case False
    then have "w = ba_nwords b - 1" using assms(2) by linarith
    then show ?thesis using l assms(2) by (simp add: update_all_def Let_def nth_append)
  qed
qed

lemma raw_update_all:
  assumes "ba_wf b"
  shows "raw_bit (ba_words (update_all f g b)) i \<longleftrightarrow>
         i div 64 < ba_nwords b \<and>
         bit (if i div 64 < ba_nwords b - 1 then f (ba_words b ! (i div 64)) else g (ba_words b ! (i div 64))) (i mod 64)"
proof -
  have l: "length (ba_words (update_all f g b)) = ba_nwords b"
    using assms length_update_all [OF assms] by (simp add: ba_wf_def)
  show ?thesis unfolding raw_bit_def l
    by (rule conj_cong [OF refl]) (simp only: nth_update_all [OF assms])
qed

lemma raw_bit_words: "ba_wf b \<Longrightarrow> raw_bit (ba_words b) i \<longleftrightarrow> i div 64 < ba_nwords b \<and> bit (ba_words b ! (i div 64)) (i mod 64)"
  by (simp add: raw_bit_def ba_wf_def)

lemma word_cases:
  assumes "ba_wf b"
  obtains (lower) "i div 64 < ba_nwords b - 1" "i div 64 < ba_nwords b" "i < ba_nbits b"
    | (upper) "i div 64 = ba_nwords b - 1" "i div 64 < ba_nwords b" "bit (ba_upper_mask b) (i mod 64) \<longleftrightarrow> i < ba_nbits b"
    | (out) "\<not> i div 64 < ba_nwords b" "\<not> i < ba_nbits b"
proof (cases "i div 64 < ba_nwords b")
  case True
  then have "i div 64 < ba_nwords b - 1 \<or> i div 64 = ba_nwords b - 1" by linarith
  then show ?thesis using lower upper True lower_bit [OF assms] upper_mask_bit [OF assms] by blast
next
  case False
  then show ?thesis using out valid_word [OF assms] by blast
qed

lemma raw_set_all:
  assumes "ba_wf b"
  shows "raw_bit (ba_words (ba_set_all b)) i \<longleftrightarrow> i < ba_nbits b"
  by (rule word_cases [OF assms, of i]) (simp_all add: ba_set_all_def raw_update_all [OF assms] FULL_MASK_def)

lemma raw_negate_all:
  assumes "ba_wf b"
  shows "raw_bit (ba_words (ba_negate_all b)) i \<longleftrightarrow> i < ba_nbits b \<and> \<not> raw_bit (ba_words b) i"
  by (rule word_cases [OF assms, of i])
     (use raw_bit_less [OF assms, of i] in \<open>auto simp: ba_negate_all_def raw_update_all [OF assms] FULL_MASK_def raw_bit_words [OF assms] bit_not_iff bit_xor_iff\<close>)

lemma raw_and:
  "ba_wf b \<Longrightarrow> ba_wf c \<Longrightarrow> ba_nbits b = ba_nbits c \<Longrightarrow>
   raw_bit (map2 (AND) (ba_words b) (ba_words c)) i \<longleftrightarrow> raw_bit (ba_words b) i \<and> raw_bit (ba_words c) i"
  by (subst raw_bit_map2) (auto simp: ba_wf_def raw_bit_def bit_and_iff)

lemma raw_or:
  "ba_wf b \<Longrightarrow> ba_wf c \<Longrightarrow> ba_nbits b = ba_nbits c \<Longrightarrow>
   raw_bit (map2 (OR) (ba_words b) (ba_words c)) i \<longleftrightarrow> raw_bit (ba_words b) i \<or> raw_bit (ba_words c) i"
  by (subst raw_bit_map2) (auto simp: ba_wf_def raw_bit_def bit_or_iff)

text \<open>Every operation keeps the number of bits and the representation.\<close>

lemma nbits_ops [simp]:
  "ba_nbits (ba_new n) = n" "ba_nbits (ba_clear_all b) = ba_nbits b" "ba_nbits (ba_set_all b) = ba_nbits b"
  "ba_nbits (ba_negate_all b) = ba_nbits b" "ba_nbits (ba_set_bit b p) = ba_nbits b"
  "ba_nbits (ba_clear_bit b p) = ba_nbits b" "ba_nbits (ba_negate_bit b p) = ba_nbits b"
  "ba_nbits (ba_assign_bit b p v) = ba_nbits b" "ba_nbits (ba_assign_all b v) = ba_nbits b"
  by (simp_all add: ba_new_def ba_clear_all_def ba_set_all_def ba_negate_all_def update_all_def Let_def
      ba_set_bit_def ba_clear_bit_def ba_negate_bit_def update_word_def ba_assign_bit_def ba_assign_all_def)

lemma ba_wf_update:
  "ba_wf b \<Longrightarrow> (\<And>i. raw_bit (ba_words (update_all f g b)) i \<Longrightarrow> i < ba_nbits b) \<Longrightarrow> ba_wf (update_all f g b)"
  using ba_wf_words [of b "ba_words (update_all f g b)"] length_update_all [of b f g]
  by (simp add: update_all_def Let_def)

lemma wf_new [intro]: "0 < n \<Longrightarrow> ba_wf (ba_new n)"
  using and_exp_bit
  by (auto simp: ba_wf_def ba_new_def ba_clear_all_def Let_def NBITS_PER_WORD_def FULL_MASK_def mask_eq_exp_minus_1 div_if
      simp flip: push_bit_eq_mult)

lemma wf_clear_all [intro]: "ba_wf b \<Longrightarrow> ba_wf (ba_clear_all b)"
  unfolding ba_clear_all_def by (rule ba_wf_words) simp_all

lemma wf_set_all [intro]: "ba_wf b \<Longrightarrow> ba_wf (ba_set_all b)"
  using raw_set_all [of b] unfolding ba_set_all_def by (intro ba_wf_update) auto

lemma wf_negate_all [intro]: "ba_wf b \<Longrightarrow> ba_wf (ba_negate_all b)"
  using raw_negate_all [of b] unfolding ba_negate_all_def by (intro ba_wf_update) auto

lemma wf_update_word:
  "ba_wf b \<Longrightarrow> (\<And>i. raw_bit (ba_words (update_word w f b)) i \<Longrightarrow> i < ba_nbits b) \<Longrightarrow> ba_wf (update_word w f b)"
  using ba_wf_words [of b "ba_words (update_word w f b)"] by (simp add: update_word_def)

lemma wf_bit_ops [intro]:
  assumes "ba_wf b"
  shows "ba_wf (ba_set_bit b p)" and "ba_wf (ba_clear_bit b p)" and "ba_wf (ba_negate_bit b p)"
proof -
  note less = raw_bit_less [OF assms]
  show "ba_wf (ba_set_bit b p)"
    using raw_set_bit [OF assms, of p] less assms by (auto simp: ba_set_bit_def intro!: wf_update_word)
  show "ba_wf (ba_clear_bit b p)"
    using raw_clear_bit [OF assms, of p] less assms by (auto simp: ba_clear_bit_def intro!: wf_update_word)
  show "ba_wf (ba_negate_bit b p)"
    using raw_negate_bit [OF assms, of p] less assms
    by (auto simp: ba_negate_bit_def intro!: wf_update_word)
qed

lemma wf_assign [intro]: "ba_wf b \<Longrightarrow> ba_wf (ba_assign_bit b p v)" "ba_wf b \<Longrightarrow> ba_wf (ba_assign_all b v)"
  by (auto simp: ba_assign_bit_def ba_assign_all_def)

lemma ba_sem_ops [ba_sem]:
  assumes "ba_wf b"
  shows "ba_is_bit_set (ba_clear_all b) i \<longleftrightarrow> False"
    and "ba_is_bit_set (ba_set_all b) i \<longleftrightarrow> i < ba_nbits b"
    and "ba_is_bit_set (ba_negate_all b) i \<longleftrightarrow> i < ba_nbits b \<and> \<not> ba_is_bit_set b i"
    and "ba_is_bit_set (ba_set_bit b p) i \<longleftrightarrow> i = p \<and> p < ba_nbits b \<or> ba_is_bit_set b i"
    and "ba_is_bit_set (ba_clear_bit b p) i \<longleftrightarrow> i \<noteq> p \<and> ba_is_bit_set b i"
    and "ba_is_bit_set (ba_negate_bit b p) i \<longleftrightarrow> i < ba_nbits b \<and> (ba_is_bit_set b i \<noteq> (i = p))"
    and "ba_is_bit_set (ba_assign_all b v) i \<longleftrightarrow> v \<and> i < ba_nbits b"
    and "ba_is_bit_set (ba_assign_bit b p v) i \<longleftrightarrow> (if i = p then v \<and> p < ba_nbits b else ba_is_bit_set b i)"
proof -
  note wf = assms wf_clear_all [OF assms] wf_set_all [OF assms] wf_negate_all [OF assms] wf_bit_ops [OF assms]
  have out: "\<not> i < ba_nbits b \<Longrightarrow> \<not> ba_is_bit_set b i" by (simp add: ba_is_bit_set_def)
  show 1: "ba_is_bit_set (ba_clear_all b) i \<longleftrightarrow> False"
    by (simp add: ba_is_bit_set_raw wf) (simp add: ba_clear_all_def)
  show 2: "ba_is_bit_set (ba_set_all b) i \<longleftrightarrow> i < ba_nbits b"
    by (simp add: ba_is_bit_set_raw wf raw_set_all)
  show "ba_is_bit_set (ba_negate_all b) i \<longleftrightarrow> i < ba_nbits b \<and> \<not> ba_is_bit_set b i"
    by (simp add: ba_is_bit_set_raw wf raw_negate_all)
  show 3: "ba_is_bit_set (ba_set_bit b p) i \<longleftrightarrow> i = p \<and> p < ba_nbits b \<or> ba_is_bit_set b i"
    by (cases "p < ba_nbits b") (auto simp: ba_is_bit_set_raw wf raw_set_bit, simp_all add: ba_set_bit_def)
  show 4: "ba_is_bit_set (ba_clear_bit b p) i \<longleftrightarrow> i \<noteq> p \<and> ba_is_bit_set b i"
    using raw_bit_less [OF assms, of p]
    by (cases "p < ba_nbits b") (auto simp: ba_is_bit_set_raw wf raw_clear_bit, simp_all add: ba_clear_bit_def)
  show "ba_is_bit_set (ba_negate_bit b p) i \<longleftrightarrow> i < ba_nbits b \<and> (ba_is_bit_set b i \<noteq> (i = p))"
    using raw_bit_less [OF assms, of i]
    by (cases "p < ba_nbits b") (auto simp: ba_is_bit_set_raw wf raw_negate_bit, simp_all add: ba_negate_bit_def)
  show "ba_is_bit_set (ba_assign_all b v) i \<longleftrightarrow> v \<and> i < ba_nbits b"
    by (simp add: ba_assign_all_def 1 2)
  show "ba_is_bit_set (ba_assign_bit b p v) i \<longleftrightarrow> (if i = p then v \<and> p < ba_nbits b else ba_is_bit_set b i)"
    by (cases v) (use out 3 4 in \<open>auto simp: ba_assign_bit_def\<close>)
qed

lemma ba_eq_words:
  assumes "ba_wf b" and "length ws = length (ba_words b)"
  shows "ba_words b = ws \<longleftrightarrow> (\<forall>i. raw_bit (ba_words b) i = raw_bit ws i)"
  using words_eqI [of "ba_words b" ws] assms(2) by auto

lemma all_cleared_words: "ba_wf b \<Longrightarrow> ba_is_all_cleared b \<longleftrightarrow> ba_words b = map (\<lambda>w. 0) (ba_words b)"
  by (auto simp: ba_is_all_cleared_def list_all_iff list_eq_iff_nth_eq ba_wf_def)

lemma ba_is_all_cleared_iff [ba_sem]: "ba_wf b \<Longrightarrow> ba_is_all_cleared b \<longleftrightarrow> (\<forall>i. \<not> ba_is_bit_set b i)"
  using ba_eq_words [of b "map (\<lambda>w. 0) (ba_words b)"] by (simp add: all_cleared_words ba_is_bit_set_raw)

lemma all_set_words:
  assumes "ba_wf b"
  shows "ba_is_all_set b \<longleftrightarrow> ba_words b = ba_words (ba_set_all b)"
proof -
  have l: "length (ba_words b) = ba_nwords b" "0 < ba_nwords b"
    using assms nwords_eq [OF assms] by (simp_all add: ba_wf_def)
  have "ba_words b = ba_words (ba_set_all b) \<longleftrightarrow>
        (\<forall>w < ba_nwords b. ba_words b ! w = (if w < ba_nwords b - 1 then FULL_MASK else ba_upper_mask b))"
    using l length_update_all [OF assms] nth_update_all [OF assms]
    by (simp add: list_eq_iff_nth_eq ba_set_all_def)
  also have "\<dots> \<longleftrightarrow> ba_is_all_set b"
  proof -
    obtain n where "ba_nwords b = Suc n" using l(2) by (cases "ba_nwords b") auto
    then show ?thesis by (auto simp: ba_is_all_set_def list_all_iff All_less_Suc)
  qed
  finally show ?thesis by simp
qed

lemma ba_is_all_set_iff [ba_sem]: "ba_wf b \<Longrightarrow> ba_is_all_set b \<longleftrightarrow> (\<forall>i < ba_nbits b. ba_is_bit_set b i)"
proof -
  assume wf: "ba_wf b"
  have "length (ba_words (ba_set_all b)) = length (ba_words b)"
    using length_update_all [OF wf] by (simp add: ba_set_all_def)
  then have "ba_is_all_set b \<longleftrightarrow> (\<forall>i. raw_bit (ba_words b) i \<longleftrightarrow> i < ba_nbits b)"
    using ba_eq_words [OF wf, of "ba_words (ba_set_all b)"] by (simp add: all_set_words [OF wf] raw_set_all [OF wf])
  then show ?thesis using raw_bit_less [OF wf] by (auto simp: ba_is_bit_set_raw [OF wf])
qed

lemma ba_bit_less: "ba_is_bit_set b i \<Longrightarrow> i < ba_nbits b"
  by (auto simp: ba_is_bit_set_def split: if_splits)

lemma ba_and_ok:
  assumes "ba_wf b" and "ba_wf c" and "ba_nbits b = ba_nbits c"
  shows "\<exists>d. ba_and b c = Some d \<and> ba_wf d \<and> ba_nbits d = ba_nbits b \<and>
             (\<forall>i. ba_is_bit_set d i \<longleftrightarrow> ba_is_bit_set b i \<and> ba_is_bit_set c i)"
proof -
  have n: "ba_nwords b = ba_nwords c" "length (ba_words b) = length (ba_words c)" using assms by (simp_all add: ba_wf_def)
  define d where "d = b\<lparr>ba_words := map2 (AND) (ba_words b) (ba_words c)\<rparr>"
  have "ba_wf d" unfolding d_def using n raw_and [OF assms] raw_bit_less [OF assms(1)]
    by (intro ba_wf_words [OF assms(1)]) auto
  then show ?thesis using n raw_and [OF assms] assms
    by (intro exI [of _ d]) (simp add: ba_is_bit_set_raw ba_and_def d_def)
qed

lemma ba_or_ok:
  assumes "ba_wf b" and "ba_wf c" and "ba_nbits b = ba_nbits c"
  shows "\<exists>d. ba_or b c = Some d \<and> ba_wf d \<and> ba_nbits d = ba_nbits b \<and>
             (\<forall>i. ba_is_bit_set d i \<longleftrightarrow> ba_is_bit_set b i \<or> ba_is_bit_set c i)"
proof -
  have n: "ba_nwords b = ba_nwords c" "length (ba_words b) = length (ba_words c)" using assms by (simp_all add: ba_wf_def)
  define d where "d = b\<lparr>ba_words := map2 (OR) (ba_words b) (ba_words c)\<rparr>"
  have "ba_wf d" unfolding d_def
    using n raw_or [OF assms] raw_bit_less [OF assms(1)] raw_bit_less [OF assms(2)] assms(3)
    by (intro ba_wf_words [OF assms(1)]) auto
  then show ?thesis using n raw_or [OF assms] assms
    by (intro exI [of _ d]) (simp add: ba_is_bit_set_raw ba_or_def d_def)
qed

lemma ba_count_spec: "ba_count_all_set b = card {i. i < ba_nbits b \<and> ba_is_bit_set b i}"
proof -
  have "foldl (\<lambda>c pos. if ba_is_bit_set b pos then c + 1 else c) a [0..<n] = a + card {i. i < n \<and> ba_is_bit_set b i}" for a n
  proof (induction n)
    case (Suc n)
    have "{i. i < Suc n \<and> ba_is_bit_set b i} =
          (if ba_is_bit_set b n then insert n {i. i < n \<and> ba_is_bit_set b i} else {i. i < n \<and> ba_is_bit_set b i})"
      by (auto simp: less_Suc_eq)
    then show ?case using Suc by simp
  qed simp
  from this [of 0] show ?thesis by (simp add: ba_count_all_set_def)
qed

lemma ba_bits_new [ba_sem]:
  "0 < n \<Longrightarrow> \<not> ba_is_bit_set (ba_new n) i" "ba_is_bit_set (ba_copy b) i = ba_is_bit_set b i"
proof -
  have "\<not> raw_bit (ba_words (ba_new n)) i"
    by (simp add: ba_new_def ba_clear_all_def Let_def del: map_replicate)
  then show "0 < n \<Longrightarrow> \<not> ba_is_bit_set (ba_new n) i" by (simp add: ba_is_bit_set_raw wf_new)
qed (simp add: ba_is_bit_set_def ba_copy_def)

text \<open>The set of positions that an array stands for.\<close>

definition ba_set :: "bit_array \<Rightarrow> nat set" where
  "ba_set b = {i. ba_is_bit_set b i}"

lemma ba_set_bounded: "ba_set b \<subseteq> {..<ba_nbits b}"
  by (auto simp: ba_set_def dest: ba_bit_less)



subsection \<open>Accumulating the members of a set of filters\<close>

text \<open>
  The two loops of \<open>apply_metric_filter\<close> over the members of a set: each member writes its
  result to a scratch array, which is joined to the accumulator; the loop stops early when the
  accumulator cannot change any more, and clears the scratch array otherwise.
\<close>

fun set_loop ::
  "('m \<Rightarrow> 'v \<Rightarrow> 'v option) \<Rightarrow> ('v \<Rightarrow> 'v \<Rightarrow> 'v option) \<Rightarrow> ('v \<Rightarrow> bool) \<Rightarrow> ('v \<Rightarrow> 'v) \<Rightarrow>
   'm list \<Rightarrow> 'v \<Rightarrow> 'v \<Rightarrow> 'v option" where
  "set_loop f join stop clr [] v acc = Some acc"
| "set_loop f join stop clr (m # ms) v acc =
     (case f m v of None \<Rightarrow> None
      | Some v' \<Rightarrow>
        (case join acc v' of None \<Rightarrow> None
         | Some acc' \<Rightarrow> if stop acc' then Some acc' else set_loop f join stop clr ms (clr v') acc'))"

lemma set_loop_cong [fundef_cong]:
  assumes "ms = ms'" and "\<And>m v. m \<in> set ms' \<Longrightarrow> f m v = f' m v"
  shows "set_loop f join stop clr ms v acc = set_loop f' join stop clr ms' v acc"
  unfolding assms(1) using assms(2)
  by (induction ms' arbitrary: v acc) (auto split: option.splits)

text \<open>
  What the loop needs of the arrays: a representation invariant, a meaning on positions, a
  join that is pointwise an operation on booleans, and a stop test after which joining more
  members changes nothing.
\<close>

locale absorbing_join =
  fixes ok :: "'v \<Rightarrow> bool"
    and mem :: "'v \<Rightarrow> nat \<Rightarrow> bool"
    and join :: "'v \<Rightarrow> 'v \<Rightarrow> 'v option"
    and stop :: "'v \<Rightarrow> bool"
    and clr :: "'v \<Rightarrow> 'v"
    and comb :: "bool \<Rightarrow> bool \<Rightarrow> bool"
    and bound :: nat
  assumes join_ok: "ok a \<Longrightarrow> ok b \<Longrightarrow> \<exists>c. join a b = Some c \<and> ok c \<and> (\<forall>i < bound. mem c i = comb (mem a i) (mem b i))"
    and clr_ok: "ok a \<Longrightarrow> ok (clr a) \<and> (\<forall>i. \<not> mem (clr a) i)"
    and stop_absorbs: "ok a \<Longrightarrow> stop a \<Longrightarrow> i < bound \<Longrightarrow> comb (mem a i) x = mem a i"
begin

lemma absorbed:
  "(\<And>x. comb a x = a) \<Longrightarrow> foldl comb a xs = a"
  by (induction xs) simp_all

lemma set_loop_spec:
  assumes "ok acc" and "ok v" and "\<forall>i. \<not> mem v i"
    and "\<And>m w. m \<in> set ms \<Longrightarrow> ok w \<Longrightarrow> \<forall>i. \<not> mem w i \<Longrightarrow>
           \<exists>w'. f m w = Some w' \<and> ok w' \<and> (\<forall>i < bound. mem w' i = holds m i)"
  shows "\<exists>r. set_loop f join stop clr ms v acc = Some r \<and> ok r \<and>
             (\<forall>i < bound. mem r i = foldl comb (mem acc i) (map (\<lambda>m. holds m i) ms))"
  using assms
proof (induction ms arbitrary: v acc)
  case (Cons m ms)
  obtain v' where v': "f m v = Some v'" "ok v'" "\<forall>i < bound. mem v' i = holds m i"
    using Cons.prems(4) [of m v] Cons.prems(2,3) by auto
  obtain acc' where a: "join acc v' = Some acc'" "ok acc'" "\<forall>i < bound. mem acc' i = comb (mem acc i) (mem v' i)"
    using join_ok [OF Cons.prems(1) v'(2)] by blast
  show ?case
  proof (cases "stop acc'")
    case True
    have "foldl comb (mem acc' i) (map (\<lambda>m. holds m i) ms) = mem acc' i" if "i < bound" for i
      using stop_absorbs [OF a(2) True that] by (rule absorbed)
    then show ?thesis using True v' a by simp
  next
    case False
    have "\<exists>r. set_loop f join stop clr ms (clr v') acc' = Some r \<and> ok r \<and>
            (\<forall>i < bound. mem r i = foldl comb (mem acc' i) (map (\<lambda>m. holds m i) ms))"
      using clr_ok [OF v'(2)] Cons.prems(4) by (intro Cons.IH [OF a(2)]) auto
    then show ?thesis using False v' a by simp
  qed
qed simp

end

definition ba_sized :: "nat \<Rightarrow> bit_array \<Rightarrow> bool" where
  "ba_sized n b \<longleftrightarrow> ba_wf b \<and> ba_nbits b = n"

text \<open>Union stops when every position is set, intersection when none is.\<close>

interpretation ba_any: absorbing_join "ba_sized n" ba_is_bit_set ba_or ba_is_all_set ba_clear_all "(\<or>)" n for n
proof (unfold_locales, goal_cases)
  case (1 a b)
  then show ?case using ba_or_ok [of a b] by (auto simp: ba_sized_def)
next
  case (2 a)
  then show ?case by (auto simp: ba_sized_def ba_sem)
next
  case (3 a i x)
  then show ?case by (auto simp: ba_sized_def ba_sem)
qed

interpretation ba_all: absorbing_join "ba_sized n" ba_is_bit_set ba_and ba_is_all_cleared ba_clear_all "(\<and>)" n for n
proof (unfold_locales, goal_cases)
  case (1 a b)
  then show ?case using ba_and_ok [of a b] by (auto simp: ba_sized_def)
next
  case (2 a)
  then show ?case by (auto simp: ba_sized_def ba_sem)
next
  case (3 a i x)
  then show ?case by (auto simp: ba_sized_def ba_sem)
qed

lemma foldl_any: "foldl (\<or>) a (map P xs) \<longleftrightarrow> a \<or> (\<exists>x \<in> set xs. P x)"
  by (induction xs arbitrary: a) auto

lemma foldl_all: "foldl (\<and>) a (map P xs) \<longleftrightarrow> a \<and> (\<forall>x \<in> set xs. P x)"
  by (induction xs arbitrary: a) auto

end
