(* ===== verification/Stats_Types.thy ===== *)
theory Stats_Types
  imports Sn_Prelude
begin

text \<open>
  The data of \<^verbatim>\<open>libopennic/include/stats.h\<close>: specifications of metrics, blocks, zones and
  domains, and the values that the code hands to its callbacks.  A double is its 64-bit
  representation, which the code only stores and copies; the conversions to it are
  parameters.  The callbacks of a block are functions on the state of the device (type
  \<open>'h\<close>), which includes the latch buffer they share during an update.
\<close>

type_synonym double_bits = "64 word"

datatype stats_metric_type = METRIC_COUNTER | METRIC_GAUGE | METRIC_FLAG | METRIC_OTHER

datatype stats_metric_flag = CLEAR_ON_READ | NEVER_CLEAR | ARRAY

fun stats_metric_flag_bit :: "stats_metric_flag \<Rightarrow> nat" where
  "stats_metric_flag_bit CLEAR_ON_READ = 0"
| "stats_metric_flag_bit NEVER_CLEAR = 1"
| "stats_metric_flag_bit ARRAY = 2"

definition STATS_METRIC_FLAG_MASK :: "stats_metric_flag \<Rightarrow> 32 word" where
  "STATS_METRIC_FLAG_MASK f = push_bit (stats_metric_flag_bit f) 1"

definition STATS_METRIC_FLAG_TEST :: "32 word \<Rightarrow> stats_metric_flag \<Rightarrow> bool" where
  "STATS_METRIC_FLAG_TEST flags f \<longleftrightarrow> flags AND STATS_METRIC_FLAG_MASK f \<noteq> 0"

record stats_label =
  lbl_key :: string
  lbl_value :: "string option"

record stats_metric_value =
  val_u64 :: "64 word"
  val_f64 :: double_bits
  val_labels :: "stats_label list"

record stats_io =
  io_offset :: nat
  io_size :: nat
  io_width :: nat
  io_shift :: nat
  io_invert :: bool
  io_data :: nat

text \<open>The value of a label is computed from the names around it and the index of the element.\<close>

record stats_label_format =
  fmt_domain :: string
  fmt_zone :: string
  fmt_block :: string
  fmt_metric :: string
  fmt_idx :: nat

record stats_label_spec =
  lspec_key :: string
  lspec_value :: "string option"
  lspec_no_export :: bool
  lspec_value_alloc :: "(stats_label_format \<Rightarrow> string) option"
  lspec_has_value_free :: bool

record stats_metric_spec =
  mspec_name :: string
  mspec_nelements :: nat
  mspec_labels :: "stats_label_spec list"
  mspec_type :: stats_metric_type
  mspec_flags :: "32 word"
  mspec_init_value :: "64 word"
  mspec_io :: stats_io

record stats_domain_spec =
  dspec_name :: string
  dspec_interval_ms :: nat

record 'h stats_block_spec =
  bspec_name :: string
  bspec_metrics :: "stats_metric_spec list"
  bspec_io_base :: nat
  bspec_attach_metrics :: "('h \<Rightarrow> 'h) option"
  bspec_detach_metrics :: "('h \<Rightarrow> 'h) option"
  bspec_latch_metrics :: "('h \<Rightarrow> 'h) option"
  bspec_release_metrics :: "('h \<Rightarrow> 'h) option"
  bspec_read_metric :: "('h \<Rightarrow> stats_metric_spec \<Rightarrow> nat \<Rightarrow> 64 word list) option"
  bspec_convert_metric :: "('h \<Rightarrow> stats_metric_spec \<Rightarrow> 64 word \<Rightarrow> double_bits) option"

record 'h stats_zone_spec =
  zspec_name :: string
  zspec_blocks :: "'h stats_block_spec list"

text \<open>What the callback of a traversal gets (its \<open>arg\<close> is the closure of the callback).\<close>

record stats_for_each_spec =
  fe_domain :: string
  fe_zone :: string
  fe_block :: string
  fe_metric :: stats_metric_spec
  fe_values :: "stats_metric_value list"
  fe_last_update :: nat

text \<open>
  A filter for clearing: its three callbacks share the object \<open>arg\<close>, of type \<open>'c\<close>.  A result
  \<open>None\<close> is a callback that does not return normally.
\<close>

record 'c stats_clear_filter =
  cf_setup :: "(stats_for_each_spec \<Rightarrow> 'c \<Rightarrow> 'c option) option"
  cf_teardown :: "(stats_for_each_spec \<Rightarrow> 'c \<Rightarrow> 'c option) option"
  cf_match :: "(stats_for_each_spec \<Rightarrow> nat \<Rightarrow> 'c \<Rightarrow> bool) option"

lemma flag_test_bit: "STATS_METRIC_FLAG_TEST flags f \<longleftrightarrow> bit flags (stats_metric_flag_bit f)"
  by (simp add: STATS_METRIC_FLAG_TEST_def STATS_METRIC_FLAG_MASK_def bit_iff_and_push_bit_not_eq_0)

end
