(* ===== verification/Stats_Filter.thy ===== *)
theory Stats_Filter
  imports Bit_Array Stats_Types
begin

text \<open>
  The metric filters of \<^verbatim>\<open>sn-p4/src/agent/stats.cpp\<close> (the same text is in \<^verbatim>\<open>sn-cfg\<close>): the
  messages of the protocol as datatypes (an unset \<open>oneof\<close> is a constructor), the string
  matches, the index slices with their 32-bit arithmetic, the label matches, the logical
  expressions over them, and the callbacks that read and clear with a filter.

  \<open>None\<close> is no normal return: a \<open>std::regex_error\<close> thrown for a malformed pattern, a failed
  assertion, or a loop that does not end.
\<close>

subsection \<open>Messages\<close>

datatype StringRegexpGrammar =
    STR_REGEXP_GRAMMAR_UNKNOWN
  | STR_REGEXP_GRAMMAR_ECMA_SCRIPT
  | STR_REGEXP_GRAMMAR_BASIC_POSIX
  | STR_REGEXP_GRAMMAR_EXTENDED_POSIX
  | STR_REGEXP_GRAMMAR_AWK
  | STR_REGEXP_GRAMMAR_GREP
  | STR_REGEXP_GRAMMAR_EGREP
  | STR_REGEXP_GRAMMAR_OTHER nat

datatype regex_syntax = SYN_basic | SYN_extended | SYN_awk | SYN_grep | SYN_egrep | SYN_ECMAScript

record StringRegexp =
  rx_grammar :: StringRegexpGrammar
  rx_pattern :: string

datatype match_string =
    MS_Exact string
  | MS_Prefix string
  | MS_Suffix string
  | MS_Substring string
  | MS_Regexp StringRegexp
  | MS_Split string bool split_part
  | MS_NOT_SET
and split_part = Part bool part_term
and part_term =
    PT_Match part_attr
  | PT_Any_Set "split_part list"
  | PT_All_Set "split_part list"
  | PT_NOT_SET
and part_attr = PA_Value match_string | PA_Index nat | PA_NOT_SET

record index_slice =
  sl_start :: "32 word"
  sl_end :: "32 word"
  sl_step :: "32 word"

record match_label =
  ml_key :: "match_string option"
  ml_value :: "match_string option"

datatype StatsMetricType =
    STATS_METRIC_TYPE_UNKNOWN | STATS_METRIC_TYPE_COUNTER | STATS_METRIC_TYPE_GAUGE | STATS_METRIC_TYPE_FLAG

datatype metric_match =
    MM_Type StatsMetricType
  | MM_Domain match_string
  | MM_Zone match_string
  | MM_Block match_string
  | MM_Name match_string
  | MM_Indices "index_slice list"
  | MM_Label match_label
  | MM_NOT_SET

datatype metric_filter = Filter bool filter_term
and filter_term =
    FT_Match metric_match
  | FT_Any_Set "metric_filter list"
  | FT_All_Set "metric_filter list"
  | FT_NOT_SET

record stats_filters =
  flt_non_zero :: bool
  flt_metric_filter :: "metric_filter option"
  flt_with_labels :: bool

text \<open>The regular expressions of the C++ library, \<open>None\<close> for a pattern it rejects.\<close>

record regex =
  regex_match :: "regex_syntax \<Rightarrow> string \<Rightarrow> string \<Rightarrow> bool option"
  regex_split :: "string \<Rightarrow> string \<Rightarrow> string list option"

subsection \<open>Matching strings\<close>

definition regexp_syntax :: "StringRegexpGrammar \<Rightarrow> regex_syntax" where
  "regexp_syntax g =
     (case g of
        STR_REGEXP_GRAMMAR_BASIC_POSIX \<Rightarrow> SYN_basic
      | STR_REGEXP_GRAMMAR_EXTENDED_POSIX \<Rightarrow> SYN_extended
      | STR_REGEXP_GRAMMAR_AWK \<Rightarrow> SYN_awk
      | STR_REGEXP_GRAMMAR_GREP \<Rightarrow> SYN_grep
      | STR_REGEXP_GRAMMAR_EGREP \<Rightarrow> SYN_egrep
      | _ \<Rightarrow> SYN_ECMAScript)"

definition apply_metric_filter_match_string_regexp :: "regex \<Rightarrow> StringRegexp \<Rightarrow> string \<Rightarrow> bool option" where
  "apply_metric_filter_match_string_regexp R rx str =
     regex_match R (regexp_syntax (rx_grammar rx)) (rx_pattern rx) str"

text \<open>\<open>string::compare\<close> on a range, and \<open>string::find\<close>.\<close>

definition str_range_eq :: "string \<Rightarrow> nat \<Rightarrow> nat \<Rightarrow> string \<Rightarrow> bool" where
  "str_range_eq str pos len other \<longleftrightarrow> take len (drop pos str) = other"

function str_find :: "string \<Rightarrow> string \<Rightarrow> nat \<Rightarrow> nat option" where
  "str_find sub str pos =
     (if length str < pos + length sub then None
      else if str_range_eq str pos (length sub) sub then Some pos
      else str_find sub str (Suc pos))"
  by pat_completeness auto

termination str_find
  by (relation "measure (\<lambda>(sub, str, pos). Suc (length str) - pos)") auto

declare str_find.simps [simp del]

text \<open>The short-circuit loops over the members of a set and over the parts of a split string.\<close>

fun or_loop :: "('m \<Rightarrow> bool option) \<Rightarrow> 'm list \<Rightarrow> bool \<Rightarrow> bool option" where
  "or_loop f [] ok = Some ok"
| "or_loop f (m # ms) ok =
     (case (if ok then Some True else f m) of None \<Rightarrow> None
      | Some ok' \<Rightarrow> if ok' then Some ok' else or_loop f ms ok')"

fun and_loop :: "('m \<Rightarrow> bool option) \<Rightarrow> 'm list \<Rightarrow> bool \<Rightarrow> bool option" where
  "and_loop f [] ok = Some ok"
| "and_loop f (m # ms) ok =
     (case (if ok then f m else Some False) of None \<Rightarrow> None
      | Some ok' \<Rightarrow> if \<not> ok' then Some ok' else and_loop f ms ok')"

fun split_loop :: "(string \<Rightarrow> nat \<Rightarrow> bool option) \<Rightarrow> bool \<Rightarrow> string list \<Rightarrow> nat \<Rightarrow> bool option" where
  "split_loop f any [] index = Some (\<not> any \<and> index > 0)"
| "split_loop f any (s # ss) index =
     (case f s index of None \<Rightarrow> None
      | Some ok \<Rightarrow>
          if any \<and> ok then Some True
          else if \<not> any \<and> \<not> ok then Some False
          else split_loop f any ss (Suc index))"

lemma or_loop_cong [fundef_cong]:
  assumes "ms = ms'" and "\<And>m. m \<in> set ms' \<Longrightarrow> f m = f' m"
  shows "or_loop f ms ok = or_loop f' ms' ok"
  unfolding assms(1) using assms(2) by (induction ms' arbitrary: ok) (auto split: option.splits)

lemma and_loop_cong [fundef_cong]:
  assumes "ms = ms'" and "\<And>m. m \<in> set ms' \<Longrightarrow> f m = f' m"
  shows "and_loop f ms ok = and_loop f' ms' ok"
  unfolding assms(1) using assms(2) by (induction ms' arbitrary: ok) (auto split: option.splits)

fun apply_metric_filter_match_string :: "regex \<Rightarrow> match_string \<Rightarrow> string \<Rightarrow> bool option"
and apply_metric_filter_match_string_split_part :: "regex \<Rightarrow> split_part \<Rightarrow> string \<Rightarrow> nat \<Rightarrow> bool option"
and apply_metric_filter_match_string_split_part_attr :: "regex \<Rightarrow> part_attr \<Rightarrow> string \<Rightarrow> nat \<Rightarrow> bool option"
and split_part_term :: "regex \<Rightarrow> part_term \<Rightarrow> string \<Rightarrow> nat \<Rightarrow> bool option"
where
  "apply_metric_filter_match_string R (MS_Exact e) str = Some (e = str)"
| "apply_metric_filter_match_string R (MS_Prefix p) str =
     Some (length p \<le> length str \<and> str_range_eq str 0 (length p) p)"
| "apply_metric_filter_match_string R (MS_Suffix p) str =
     Some (length p \<le> length str \<and> str_range_eq str (length str - length p) (length p) p)"
| "apply_metric_filter_match_string R (MS_Substring p) str =
     Some (length p \<le> length str \<and> str_find p str 0 \<noteq> None)"
| "apply_metric_filter_match_string R (MS_Regexp rx) str = apply_metric_filter_match_string_regexp R rx str"
| "apply_metric_filter_match_string R (MS_Split pat any part) str =
     (case regex_split R pat str of None \<Rightarrow> None
      | Some parts \<Rightarrow>
          split_loop (\<lambda>s index. apply_metric_filter_match_string_split_part R part s index) any parts 0)"
| "apply_metric_filter_match_string R MS_NOT_SET str = Some True"
| "apply_metric_filter_match_string_split_part R (Part negated term) str index =
     map_option (\<lambda>ok. if negated then \<not> ok else ok) (split_part_term R term str index)"
| "split_part_term R (PT_Match attr) str index =
     apply_metric_filter_match_string_split_part_attr R attr str index"
| "split_part_term R (PT_Any_Set members) str index =
     or_loop (\<lambda>m. apply_metric_filter_match_string_split_part R m str index) members (length members < 1)"
| "split_part_term R (PT_All_Set members) str index =
     and_loop (\<lambda>m. apply_metric_filter_match_string_split_part R m str index) members True"
| "split_part_term R PT_NOT_SET str index = Some True"
| "apply_metric_filter_match_string_split_part_attr R (PA_Value m) str index =
     apply_metric_filter_match_string R m str"
| "apply_metric_filter_match_string_split_part_attr R (PA_Index i) str index = Some (i = index)"
| "apply_metric_filter_match_string_split_part_attr R PA_NOT_SET str index = Some True"

subsection \<open>Matching indices\<close>

text \<open>
  \<open>start\<close> and \<open>end\<close> are \<open>int32_t\<close>, \<open>step\<close> is \<open>uint32_t\<close>; the additions are those of C++
  on these types, so \<open>n += step\<close> wraps modulo \<open>2 ^ 32\<close>.
\<close>

partial_function (option) slice_loop :: "32 word \<Rightarrow> 32 word \<Rightarrow> 32 word \<Rightarrow> bit_array \<Rightarrow> bit_array option" where
  "slice_loop n e step valid =
     (if sint n \<le> sint e then slice_loop (n + step) e step (ba_set_bit valid (unat n)) else Some valid)"

definition slice_start :: "nat \<Rightarrow> 32 word \<Rightarrow> 32 word" where
  "slice_start sz start =
     (if sint start < 0
      then (let s = start + word_of_nat sz in if sint s < 0 then 0 else s)
      else start)"

definition slice_end :: "nat \<Rightarrow> 32 word \<Rightarrow> 32 word option" where
  "slice_end sz e =
     (case (if sint e < 0
            then (let x = e + word_of_nat sz in if sint x < 0 then None else Some x)
            else Some e) of
        None \<Rightarrow> None
      | Some x \<Rightarrow> Some (if unat x \<ge> sz then word_of_nat (sz - 1) else x))"

definition apply_slice :: "index_slice \<Rightarrow> bit_array \<Rightarrow> bit_array option" where
  "apply_slice slc valid =
     (let sz = ba_size valid;
          start = slice_start sz (sl_start slc)
      in if unat start \<ge> sz then Some valid
         else case slice_end sz (sl_end slc) of
           None \<Rightarrow> Some valid
         | Some e \<Rightarrow>
           if sint start > sint e then Some valid
           else (let step = (if sl_step slc < 1 then 1 else sl_step slc)
                 in slice_loop start e step valid))"

fun apply_slices :: "index_slice list \<Rightarrow> bit_array \<Rightarrow> bit_array option" where
  "apply_slices [] valid = Some valid"
| "apply_slices (s # ss) valid =
     (case apply_slice s valid of None \<Rightarrow> None | Some v \<Rightarrow> apply_slices ss v)"

definition apply_metric_filter_match_indices ::
  "index_slice list \<Rightarrow> stats_for_each_spec \<Rightarrow> bit_array \<Rightarrow> bit_array option" where
  "apply_metric_filter_match_indices slices spec valid =
     (if \<not> STATS_METRIC_FLAG_TEST (mspec_flags (fe_metric spec)) ARRAY
      then Some (ba_assign_all valid (length slices < 1))
      else apply_slices slices valid)"

subsection \<open>Matching labels\<close>

text \<open>Whether one of the labels of a value matches; making a string of a NULL value has no result.\<close>

fun labels_match :: "regex \<Rightarrow> match_label \<Rightarrow> stats_label list \<Rightarrow> bool option" where
  "labels_match R label [] = Some False"
| "labels_match R label (vl # vls) =
     (case (case ml_key label of None \<Rightarrow> Some True
             | Some m \<Rightarrow> apply_metric_filter_match_string R m (lbl_key vl)) of None \<Rightarrow> None
      | Some k \<Rightarrow>
        (if \<not> k then labels_match R label vls
         else case (case ml_value label of None \<Rightarrow> Some True
                    | Some m \<Rightarrow> (case lbl_value vl of None \<Rightarrow> None
                                 | Some s \<Rightarrow> apply_metric_filter_match_string R m s)) of
           None \<Rightarrow> None
         | Some v \<Rightarrow> if \<not> v then labels_match R label vls else Some True))"

fun label_loop :: "regex \<Rightarrow> match_label \<Rightarrow> nat \<Rightarrow> stats_metric_value list \<Rightarrow> bit_array \<Rightarrow> bit_array option" where
  "label_loop R label n [] valid = Some valid"
| "label_loop R label n (v # vs) valid =
     (case labels_match R label (val_labels v) of None \<Rightarrow> None
      | Some ok \<Rightarrow> label_loop R label (Suc n) vs (if ok then ba_assign_bit valid n True else valid))"

definition apply_metric_filter_match_label ::
  "regex \<Rightarrow> match_label \<Rightarrow> stats_for_each_spec \<Rightarrow> bit_array \<Rightarrow> bit_array option" where
  "apply_metric_filter_match_label R label spec valid = label_loop R label 0 (fe_values spec) valid"

subsection \<open>Filters\<close>

definition assign_all_of :: "bit_array \<Rightarrow> bool option \<Rightarrow> bit_array option" where
  "assign_all_of valid ok = map_option (ba_assign_all valid) ok"

fun apply_metric_filter_match ::
  "regex \<Rightarrow> stats_for_each_spec \<Rightarrow> metric_match \<Rightarrow> StatsMetricType \<Rightarrow> bit_array \<Rightarrow> bit_array option" where
  "apply_metric_filter_match R spec (MM_Type t) type valid = assign_all_of valid (Some (t = type))"
| "apply_metric_filter_match R spec (MM_Domain m) type valid =
     assign_all_of valid (apply_metric_filter_match_string R m (fe_domain spec))"
| "apply_metric_filter_match R spec (MM_Zone m) type valid =
     assign_all_of valid (apply_metric_filter_match_string R m (fe_zone spec))"
| "apply_metric_filter_match R spec (MM_Block m) type valid =
     assign_all_of valid (apply_metric_filter_match_string R m (fe_block spec))"
| "apply_metric_filter_match R spec (MM_Name m) type valid =
     assign_all_of valid (apply_metric_filter_match_string R m (mspec_name (fe_metric spec)))"
| "apply_metric_filter_match R spec (MM_Indices slices) type valid =
     apply_metric_filter_match_indices slices spec valid"
| "apply_metric_filter_match R spec (MM_Label label) type valid =
     apply_metric_filter_match_label R label spec valid"
| "apply_metric_filter_match R spec MM_NOT_SET type valid = assign_all_of valid (Some True)"

fun apply_metric_filter ::
  "regex \<Rightarrow> stats_for_each_spec \<Rightarrow> StatsMetricType \<Rightarrow> metric_filter \<Rightarrow> bit_array \<Rightarrow> bit_array option"
and apply_filter_term ::
  "regex \<Rightarrow> stats_for_each_spec \<Rightarrow> StatsMetricType \<Rightarrow> filter_term \<Rightarrow> bit_array \<Rightarrow> bit_array option"
where
  "apply_metric_filter R spec type (Filter negated term) valid =
     (case apply_filter_term R spec type term valid of None \<Rightarrow> None
      | Some v \<Rightarrow> Some (if negated then ba_negate_all v else v))"
| "apply_filter_term R spec type (FT_Match m) valid = apply_metric_filter_match R spec m type valid"
| "apply_filter_term R spec type (FT_Any_Set members) valid =
     (if length members < 1 then Some (ba_set_all valid)
      else set_loop (\<lambda>m v. apply_metric_filter R spec type m v) ba_or ba_is_all_set ba_clear_all
             members (ba_new (ba_size valid)) valid)"
| "apply_filter_term R spec type (FT_All_Set members) valid =
     (if length members < 1 then Some (ba_set_all valid)
      else set_loop (\<lambda>m v. apply_metric_filter R spec type m v) ba_and ba_is_all_cleared ba_clear_all
             members (ba_new (ba_size valid)) (ba_set_all valid))"
| "apply_filter_term R spec type FT_NOT_SET valid = Some (ba_set_all valid)"

fun assign_non_zero :: "bool \<Rightarrow> nat \<Rightarrow> stats_metric_value list \<Rightarrow> bit_array \<Rightarrow> bit_array" where
  "assign_non_zero nz n [] valid = valid"
| "assign_non_zero nz n (v # vs) valid =
     assign_non_zero nz (Suc n) vs (ba_assign_bit valid n (\<not> nz \<or> val_u64 v \<noteq> 0))"

definition apply_filters ::
  "regex \<Rightarrow> stats_for_each_spec \<Rightarrow> stats_filters \<Rightarrow> StatsMetricType \<Rightarrow> bit_array \<Rightarrow> bit_array option" where
  "apply_filters R spec filters type valid =
     (let valid1 = assign_non_zero (flt_non_zero filters) 0 (fe_values spec) valid in
      if ba_is_all_cleared valid1 then Some valid1
      else case flt_metric_filter filters of
        None \<Rightarrow> Some valid1
      | Some f \<Rightarrow>
        (case apply_metric_filter R spec type f (ba_new (ba_size valid1)) of None \<Rightarrow> None
         | Some v \<Rightarrow> ba_and valid1 v))"

subsection \<open>Reading and clearing with a filter\<close>

record StatsMetricLabel =
  rl_key :: string
  rl_value :: string

record StatsMetricValue =
  rv_index :: nat
  rv_u64 :: "64 word"
  rv_f64 :: double_bits
  rv_labels :: "StatsMetricLabel list"

record StatsMetric =
  rm_type :: StatsMetricType
  rm_name :: string
  rm_num_elements :: nat
  rm_domain :: string
  rm_zone :: string
  rm_block :: string
  rm_last_update :: nat
  rm_values :: "StatsMetricValue list"

definition label_message :: "stats_label \<Rightarrow> StatsMetricLabel" where
  "label_message l = \<lparr>rl_key = lbl_key l, rl_value = (case lbl_value l of None \<Rightarrow> '''' | Some s \<Rightarrow> s)\<rparr>"

definition value_message :: "bool \<Rightarrow> nat \<Rightarrow> stats_metric_value \<Rightarrow> StatsMetricValue" where
  "value_message with_labels n v =
     \<lparr>rv_index = n, rv_u64 = val_u64 v, rv_f64 = val_f64 v,
      rv_labels = (if with_labels then map label_message (val_labels v) else [])\<rparr>"

fun add_values :: "bool \<Rightarrow> bit_array \<Rightarrow> nat \<Rightarrow> stats_metric_value list \<Rightarrow> StatsMetricValue list" where
  "add_values with_labels valid n [] = []"
| "add_values with_labels valid n (v # vs) =
     (if \<not> ba_is_bit_set valid n then add_values with_labels valid (Suc n) vs
      else value_message with_labels n v # add_values with_labels valid (Suc n) vs)"

definition get_stats_for_each_metric ::
  "regex \<Rightarrow> stats_filters \<Rightarrow> stats_for_each_spec \<Rightarrow> StatsMetric list \<Rightarrow> (int \<times> StatsMetric list) option" where
  "get_stats_for_each_metric R filters spec stats =
     (case (case mspec_type (fe_metric spec) of
              METRIC_COUNTER \<Rightarrow> Some STATS_METRIC_TYPE_COUNTER
            | METRIC_GAUGE \<Rightarrow> Some STATS_METRIC_TYPE_GAUGE
            | METRIC_FLAG \<Rightarrow> Some STATS_METRIC_TYPE_FLAG
            | METRIC_OTHER \<Rightarrow> None) of
        None \<Rightarrow> Some (0, stats)
      | Some type \<Rightarrow>
        (case apply_filters R spec filters type (ba_new (length (fe_values spec))) of None \<Rightarrow> None
         | Some valid \<Rightarrow>
           (if ba_is_all_cleared valid then Some (0, stats)
            else Some (0, stats @
              [\<lparr>rm_type = type, rm_name = mspec_name (fe_metric spec),
                rm_num_elements = mspec_nelements (fe_metric spec),
                rm_domain = fe_domain spec, rm_zone = fe_zone spec, rm_block = fe_block spec,
                rm_last_update = fe_last_update spec,
                rm_values = add_values (flt_with_labels filters) valid 0 (fe_values spec)\<rparr>]))))"

text \<open>
  The filter object of a clear operation; its state is the bit array of the metric being
  cleared (\<open>None\<close> for a NULL pointer).
\<close>

definition clear_stats_filter_setup ::
  "regex \<Rightarrow> metric_filter \<Rightarrow> stats_for_each_spec \<Rightarrow> bit_array option \<Rightarrow> bit_array option option" where
  "clear_stats_filter_setup R f spec ctx =
     (let type = (case mspec_type (fe_metric spec) of
                    METRIC_COUNTER \<Rightarrow> STATS_METRIC_TYPE_COUNTER
                  | METRIC_GAUGE \<Rightarrow> STATS_METRIC_TYPE_GAUGE
                  | METRIC_FLAG \<Rightarrow> STATS_METRIC_TYPE_FLAG
                  | METRIC_OTHER \<Rightarrow> STATS_METRIC_TYPE_UNKNOWN)
      in map_option Some (apply_metric_filter R (spec\<lparr>fe_last_update := 0\<rparr>) type f (ba_new (length (fe_values spec)))))"

definition clear_stats_filter_teardown :: "stats_for_each_spec \<Rightarrow> bit_array option \<Rightarrow> bit_array option option" where
  "clear_stats_filter_teardown spec ctx = Some None"

definition clear_stats_filter_match :: "stats_for_each_spec \<Rightarrow> nat \<Rightarrow> bit_array option \<Rightarrow> bool" where
  "clear_stats_filter_match spec value_idx ctx = (case ctx of None \<Rightarrow> False | Some b \<Rightarrow> ba_is_bit_set b value_idx)"

definition clear_filter_of :: "regex \<Rightarrow> stats_filters \<Rightarrow> bit_array option stats_clear_filter option" where
  "clear_filter_of R filters =
     (case flt_metric_filter filters of None \<Rightarrow> None
      | Some f \<Rightarrow> Some \<lparr>cf_setup = Some (clear_stats_filter_setup R f),
                        cf_teardown = Some clear_stats_filter_teardown,
                        cf_match = Some clear_stats_filter_match\<rparr>)"

end
