(* ===== verification/Stats_Filter_Props.thy ===== *)
theory Stats_Filter_Props
  imports Stats_Filter "HOL-Library.Sublist"
begin

text \<open>
  The meaning of metric filters: a pointwise boolean semantics of filters on the index of a
  value, and the proof that the word-parallel, short-circuiting evaluation of the code computes
  it for every filter whose patterns are accepted and whose steps stay clear of the 32-bit
  wrap-around; with a step that wraps the evaluation may not end.
\<close>

subsection \<open>Strings\<close>

definition split_holds :: "(string \<Rightarrow> nat \<Rightarrow> bool) \<Rightarrow> bool \<Rightarrow> string list \<Rightarrow> bool" where
  "split_holds h any parts =
     (if any then \<exists>i < length parts. h (parts ! i) i
      else parts \<noteq> [] \<and> (\<forall>i < length parts. h (parts ! i) i))"

primrec ms_holds :: "regex \<Rightarrow> match_string \<Rightarrow> string \<Rightarrow> bool"
and part_holds :: "regex \<Rightarrow> split_part \<Rightarrow> string \<Rightarrow> nat \<Rightarrow> bool"
and term_holds :: "regex \<Rightarrow> part_term \<Rightarrow> string \<Rightarrow> nat \<Rightarrow> bool"
and attr_holds :: "regex \<Rightarrow> part_attr \<Rightarrow> string \<Rightarrow> nat \<Rightarrow> bool"
where
  "ms_holds R (MS_Exact e) = (\<lambda>str. str = e)"
| "ms_holds R (MS_Prefix p) = (\<lambda>str. prefix p str)"
| "ms_holds R (MS_Suffix p) = (\<lambda>str. suffix p str)"
| "ms_holds R (MS_Substring p) = (\<lambda>str. sublist p str)"
| "ms_holds R (MS_Regexp rx) = (\<lambda>str. regex_match R (regexp_syntax (rx_grammar rx)) (rx_pattern rx) str = Some True)"
| "ms_holds R (MS_Split pat any part) =
     (\<lambda>str. split_holds (part_holds R part) any (the (regex_split R pat str)))"
| "ms_holds R MS_NOT_SET = (\<lambda>str. True)"
| "part_holds R (Part negated t) = (\<lambda>s i. negated \<noteq> term_holds R t s i)"
| "term_holds R (PT_Match a) = attr_holds R a"
| "term_holds R (PT_Any_Set ms) = (\<lambda>s i. ms = [] \<or> (\<exists>h \<in> set (map (part_holds R) ms). h s i))"
| "term_holds R (PT_All_Set ms) = (\<lambda>s i. \<forall>h \<in> set (map (part_holds R) ms). h s i)"
| "term_holds R PT_NOT_SET = (\<lambda>s i. True)"
| "attr_holds R (PA_Value m) = (\<lambda>s i. ms_holds R m s)"
| "attr_holds R (PA_Index k) = (\<lambda>s i. i = k)"
| "attr_holds R PA_NOT_SET = (\<lambda>s i. True)"

text \<open>The patterns of a match are accepted by the regular expression library.\<close>

primrec ms_valid :: "regex \<Rightarrow> match_string \<Rightarrow> bool"
and part_valid :: "regex \<Rightarrow> split_part \<Rightarrow> bool"
and term_valid :: "regex \<Rightarrow> part_term \<Rightarrow> bool"
and attr_valid :: "regex \<Rightarrow> part_attr \<Rightarrow> bool"
where
  "ms_valid R (MS_Exact e) = True"
| "ms_valid R (MS_Prefix p) = True"
| "ms_valid R (MS_Suffix p) = True"
| "ms_valid R (MS_Substring p) = True"
| "ms_valid R (MS_Regexp rx) = (\<forall>str. regex_match R (regexp_syntax (rx_grammar rx)) (rx_pattern rx) str \<noteq> None)"
| "ms_valid R (MS_Split pat any part) = ((\<forall>str. regex_split R pat str \<noteq> None) \<and> part_valid R part)"
| "ms_valid R MS_NOT_SET = True"
| "part_valid R (Part negated t) = term_valid R t"
| "term_valid R (PT_Match a) = attr_valid R a"
| "term_valid R (PT_Any_Set ms) = list_all id (map (part_valid R) ms)"
| "term_valid R (PT_All_Set ms) = list_all id (map (part_valid R) ms)"
| "term_valid R PT_NOT_SET = True"
| "attr_valid R (PA_Value m) = ms_valid R m"
| "attr_valid R (PA_Index k) = True"
| "attr_valid R PA_NOT_SET = True"

lemma str_prefix: "length p \<le> length s \<and> str_range_eq s 0 (length p) p \<longleftrightarrow> prefix p s"
  by (auto simp: str_range_eq_def prefix_def) (metis append_take_drop_id)

lemma str_suffix:
  "length p \<le> length s \<and> str_range_eq s (length s - length p) (length p) p \<longleftrightarrow> suffix p s"
  by (auto simp: str_range_eq_def suffix_def) (metis append_take_drop_id)

lemma str_find_iff: "str_find sub s pos \<noteq> None \<longleftrightarrow> (\<exists>k. pos \<le> k \<and> k + length sub \<le> length s \<and> str_range_eq s k (length sub) sub)"
proof (induction sub s pos rule: str_find.induct)
  case (1 sub s pos)
  consider "length s < pos + length sub" | "\<not> length s < pos + length sub" "str_range_eq s pos (length sub) sub"
    | "\<not> length s < pos + length sub" "\<not> str_range_eq s pos (length sub) sub" by blast
  then show ?case
  proof cases
    case 3
    have "(\<exists>k \<ge> pos. k + length sub \<le> length s \<and> str_range_eq s k (length sub) sub) \<longleftrightarrow>
          (\<exists>k \<ge> Suc pos. k + length sub \<le> length s \<and> str_range_eq s k (length sub) sub)"
      using 3(2) by (metis Suc_leD le_neq_implies_less Suc_leI)
    then show ?thesis using 1 3 by (simp add: str_find.simps [of sub s pos])
  qed (auto simp: str_find.simps [of sub s pos])
qed

lemma str_substring: "length p \<le> length s \<and> str_find p s 0 \<noteq> None \<longleftrightarrow> sublist p s"
proof
  assume "length p \<le> length s \<and> str_find p s 0 \<noteq> None"
  then obtain k where "take (length p) (drop k s) = p"
    unfolding str_find_iff by (auto simp: str_range_eq_def)
  then have "s = take k s @ p @ drop (length p) (drop k s)" by (metis append_take_drop_id)
  then show "sublist p s" by (auto simp: sublist_def)
next
  assume "sublist p s"
  then obtain a b where s: "s = a @ p @ b" by (auto simp: sublist_def)
  then have "str_range_eq s (length a) (length p) p" by (simp add: str_range_eq_def)
  then show "length p \<le> length s \<and> str_find p s 0 \<noteq> None"
    unfolding str_find_iff using s by (intro conjI exI [of _ "length a"]) simp_all
qed

lemma or_loop_total:
  assumes "\<And>m. m \<in> set ms \<Longrightarrow> f m = Some (h m)"
  shows "or_loop f ms ok = Some (ok \<or> (\<exists>m \<in> set ms. h m))"
  using assms by (induction ms arbitrary: ok) auto

lemma and_loop_total:
  assumes "\<And>m. m \<in> set ms \<Longrightarrow> f m = Some (h m)"
  shows "and_loop f ms ok = Some (ok \<and> (\<forall>m \<in> set ms. h m))"
  using assms by (induction ms arbitrary: ok) auto

lemma split_loop_some:
  "split_loop (\<lambda>s i. Some (h s i)) any ss k =
         Some (if any then \<exists>i < length ss. h (ss ! i) (k + i)
               else 0 < k + length ss \<and> (\<forall>i < length ss. h (ss ! i) (k + i)))"
proof (induction ss arbitrary: k)
  case (Cons s ss)
  have shift: "(\<exists>i < length (s # ss). h ((s # ss) ! i) (k + i)) \<longleftrightarrow> h s k \<or> (\<exists>i < length ss. h (ss ! i) (Suc k + i))"
    "(\<forall>i < length (s # ss). h ((s # ss) ! i) (k + i)) \<longleftrightarrow> h s k \<and> (\<forall>i < length ss. h (ss ! i) (Suc k + i))"
    by (simp_all add: Ex_less_Suc2 All_less_Suc2)
  show ?case unfolding shift using Cons.IH [of "Suc k"] by simp
qed auto

lemma split_loop_total:
  assumes "\<And>s i. f s i = Some (h s i)"
  shows "split_loop f any ss 0 = Some (split_holds h any ss)"
proof -
  have f: "f = (\<lambda>s i. Some (h s i))" using assms by blast
  show ?thesis unfolding f split_loop_some by (simp add: split_holds_def)
qed

lemma match_string_total:
  shows "ms_valid R m \<Longrightarrow> apply_metric_filter_match_string R m str = Some (ms_holds R m str)"
    and "part_valid R p \<Longrightarrow> apply_metric_filter_match_string_split_part R p s i = Some (part_holds R p s i)"
    and "term_valid R t \<Longrightarrow> split_part_term R t s i = Some (term_holds R t s i)"
    and "attr_valid R a \<Longrightarrow> apply_metric_filter_match_string_split_part_attr R a s i = Some (attr_holds R a s i)"
proof (induction m and p and t and a arbitrary: str and s i and s i and s i)
  case (MS_Prefix p)
  then show ?case by (simp add: str_prefix)
next
  case (MS_Suffix p)
  then show ?case by (simp add: str_suffix)
next
  case (MS_Substring p)
  then show ?case using str_substring by simp
next
  case (MS_Regexp rx)
  then obtain b where "regex_match R (regexp_syntax (rx_grammar rx)) (rx_pattern rx) str = Some b" by auto
  then show ?case by (cases b) (simp_all add: apply_metric_filter_match_string_regexp_def)
next
  case (MS_Split pat any part)
  then have "regex_split R pat str \<noteq> None" by simp
  then obtain parts where p: "regex_split R pat str = Some parts" by blast
  have "split_loop (\<lambda>s i. apply_metric_filter_match_string_split_part R part s i) any parts 0
      = Some (split_holds (part_holds R part) any parts)"
    using MS_Split by (intro split_loop_total) auto
  then show ?case using p by simp
next
  case (PT_Any_Set ms)
  have "or_loop (\<lambda>m. apply_metric_filter_match_string_split_part R m s i) ms (length ms < 1)
      = Some (length ms < 1 \<or> (\<exists>m \<in> set ms. part_holds R m s i))"
    using PT_Any_Set by (intro or_loop_total) (auto simp: list_all_iff)
  then show ?case by simp
next
  case (PT_All_Set ms)
  have "and_loop (\<lambda>m. apply_metric_filter_match_string_split_part R m s i) ms True
      = Some (True \<and> (\<forall>m \<in> set ms. part_holds R m s i))"
    using PT_All_Set by (intro and_loop_total) (auto simp: list_all_iff)
  then show ?case by simp
qed auto

lemmas match_string_ok = match_string_total(1)

subsection \<open>Slices\<close>

text \<open>The positions of a slice over mathematical integers; negative bounds count from the end.\<close>

definition slice_holds :: "nat \<Rightarrow> index_slice \<Rightarrow> nat \<Rightarrow> bool" where
  "slice_holds sz slc i \<longleftrightarrow>
     (let s = sint (sl_start slc); e = sint (sl_end slc);
          lo = (if s < 0 then max 0 (s + int sz) else s);
          hi = (if e < 0 then e + int sz else e)
      in i < sz \<and> lo \<le> int i \<and> int i \<le> hi \<and> (int i - lo) mod (max 1 (uint (sl_step slc))) = 0)"

definition slice_ok :: "nat \<Rightarrow> index_slice \<Rightarrow> bool" where
  "slice_ok sz slc \<longleftrightarrow> int sz + max 1 (uint (sl_step slc)) < 2 ^ 31"

lemma uint_from_sint: "uint (x::32 word) = (if 0 \<le> sint x then sint x else sint x + 2 ^ 32)"
proof -
  have r: "- (2 ^ 31) \<le> sint x" "sint x < 2 ^ 31" using sint_ge [of x] sint_lt [of x] by simp_all
  have "uint x = sint x mod 2 ^ 32" using uint_sint [of x] by (simp add: take_bit_eq_mod)
  moreover have "sint x mod 2 ^ 32 = sint x" if "0 \<le> sint x" using that r by simp
  moreover have "sint x mod 2 ^ 32 = sint x + 2 ^ 32" if "sint x < 0"
    using that r mod_pos_pos_trivial [of "sint x + 2 ^ 32" "2 ^ 32"] by simp
  ultimately show ?thesis by (simp add: not_le)
qed

lemma sint_from_uint: "sint (x::32 word) = (if uint x < 2 ^ 31 then uint x else uint x - 2 ^ 32)"
  using uint_from_sint [of x] sint_ge [of x] sint_lt [of x] by (simp split: if_splits)

lemma uint_of_small_nat: "n < 2 ^ 32 \<Longrightarrow> uint (word_of_nat n :: 32 word) = int n"
  by (simp add: unsigned_of_nat take_bit_nat_eq_self)

lemma sint_of_small_nat: "n < 2 ^ 31 \<Longrightarrow> sint (word_of_nat n :: 32 word) = int n"
  by (simp add: sint_from_uint uint_of_small_nat)

lemma sint_add_small:
  assumes "0 \<le> sint (a::32 word) + y" and "sint a + y < 2 ^ 31" and "uint b = y"
  shows "sint (a + b) = sint a + y" and "uint (a + b) = sint a + y"
proof -
  have "uint (a + b) = (uint a + uint b) mod 2 ^ 32" by (simp add: uint_word_arith_bintrs take_bit_eq_mod)
  also have "\<dots> = (sint a + y) mod 2 ^ 32"
    using mod_add_self2 [of "sint a + y" "2 ^ 32"] assms(3) by (simp add: uint_from_sint [of a] algebra_simps)
  also have "\<dots> = sint a + y" using assms(1,2) by simp
  finally show "uint (a + b) = sint a + y" .
  then show "sint (a + b) = sint a + y" using assms(2) by (simp add: sint_from_uint)
qed

lemma slice_loop_spec:
  assumes "0 \<le> sint n" and "0 < uint step" and "sint e < int sz"
    and "int sz + uint step < 2 ^ 31" and "ba_sized sz v"
  shows "\<exists>r. slice_loop n e step v = Some r \<and> ba_sized sz r \<and>
             (\<forall>i. ba_is_bit_set r i \<longleftrightarrow> ba_is_bit_set v i \<or>
                  (sint n \<le> int i \<and> int i \<le> sint e \<and> (int i - sint n) mod uint step = 0))"
  using assms
proof (induction "nat (sint e + 1 - sint n)" arbitrary: n v rule: less_induct)
  case less
  show ?case
  proof (cases "sint n \<le> sint e")
    case False
    then show ?thesis using less.prems by (subst slice_loop.simps) auto
  next
    case True
    define v' where "v' = ba_set_bit v (unat n)"
    have un: "int (unat n) = sint n" using less.prems(1) by (simp add: uint_from_sint)
    have v': "ba_sized sz v'" using less.prems(5) by (auto simp: v'_def ba_sized_def)
    have nsz: "unat n < sz" using un True less.prems(3) by linarith
    have bits: "ba_is_bit_set v' i \<longleftrightarrow> i = unat n \<or> ba_is_bit_set v i" for i
      using less.prems(5) nsz by (auto simp: v'_def ba_sized_def ba_sem)
    have add: "sint (n + step) = sint n + uint step"
      using sint_add_small [of n "uint step" step] less.prems True by simp
    define Q where "Q i \<longleftrightarrow> sint (n + step) \<le> int i \<and> int i \<le> sint e \<and> (int i - sint (n + step)) mod uint step = 0" for i
    have "\<exists>r. slice_loop (n + step) e step v' = Some r \<and> ba_sized sz r \<and>
             (\<forall>i. ba_is_bit_set r i \<longleftrightarrow> ba_is_bit_set v' i \<or> Q i)"
      unfolding Q_def using less.prems True v' by (intro less.hyps) (simp_all add: add)
    moreover have "slice_loop n e step v = slice_loop (n + step) e step v'"
      using True by (subst slice_loop.simps) (simp add: v'_def)
    moreover have "sint n \<le> int i \<and> int i \<le> sint e \<and> (int i - sint n) mod uint step = 0 \<longleftrightarrow> i = unat n \<or> Q i" for i
    proof -
      define d where "d = int i - sint n"
      have "i = unat n \<longleftrightarrow> int i = int (unat n)" by (simp only: of_nat_eq_iff)
      then have i: "i = unat n \<longleftrightarrow> d = 0" unfolding un d_def by simp
      have m: "(d - uint step) mod uint step = d mod uint step" by simp
      have "d mod uint step = d" if "0 \<le> d" "d < uint step" using that by simp
      then have "d = 0 \<or> (uint step \<le> d \<and> d mod uint step = 0) \<longleftrightarrow> 0 \<le> d \<and> d mod uint step = 0"
        using less.prems(2) by (auto dest: zdvd_imp_le simp: dvd_eq_mod_eq_0 [symmetric])
      then show ?thesis using True m unfolding i add d_def Q_def
        by (smt (verit, ccfv_threshold) diff_diff_eq diff_ge_0_iff_ge)
    qed
    ultimately show ?thesis unfolding bits by metis
  qed
qed

lemma sint_shift:
  assumes "sz < 2 ^ 31" and "sint x < 0"
  shows "sint (x + word_of_nat sz :: 32 word) = sint x + int sz"
proof -
  have r: "- (2 ^ 31) \<le> sint x" using sint_ge [of x] by simp
  have u: "uint (x + word_of_nat sz) = (sint x + int sz + 2 ^ 32) mod 2 ^ 32"
    using assms by (simp add: uint_word_arith_bintrs take_bit_eq_mod uint_of_small_nat uint_from_sint [of x] algebra_simps)
  show ?thesis
  proof (cases "0 \<le> sint x + int sz")
    case True
    then have "uint (x + word_of_nat sz) = sint x + int sz" using u assms by simp
    then show ?thesis using assms by (simp add: sint_from_uint)
  next
    case False
    then have "uint (x + word_of_nat sz) = sint x + int sz + 2 ^ 32"
      unfolding u using r by (intro mod_pos_pos_trivial) simp_all
    then show ?thesis using False r by (simp add: sint_from_uint)
  qed
qed

lemma slice_start_spec:
  "sz < 2 ^ 31 \<Longrightarrow> sint (slice_start sz x) = (if sint x < 0 then max 0 (sint x + int sz) else sint x)"
  by (auto simp: slice_start_def Let_def max_def sint_shift)

lemma slice_end_spec:
  assumes "0 < sz" and "sz < 2 ^ 31"
  shows "slice_end sz x = None \<longleftrightarrow> (if sint x < 0 then sint x + int sz else sint x) < 0"
    and "slice_end sz x = Some e \<Longrightarrow>
           sint e = min (int sz - 1) (if sint x < 0 then sint x + int sz else sint x)"
proof -
  have clamp: "sint (if sz \<le> unat y then word_of_nat (sz - 1) else y :: 32 word) = min (int sz - 1) (sint y)"
    if "0 \<le> sint y" for y :: "32 word"
  proof -
    have "int (unat y) = sint y" using that by (simp add: uint_from_sint)
    then have "sz \<le> unat y \<longleftrightarrow> int sz \<le> sint y" by linarith
    moreover have "sint (word_of_nat (sz - 1) :: 32 word) = int sz - 1"
      using sint_of_small_nat [of "sz - 1"] assms by simp
    ultimately show ?thesis by (simp only: if_distrib [of sint] min_def) simp
  qed
  show "slice_end sz x = None \<longleftrightarrow> (if sint x < 0 then sint x + int sz else sint x) < 0"
    using assms(2) by (auto simp: slice_end_def Let_def sint_shift)
  show "slice_end sz x = Some e \<Longrightarrow>
           sint e = min (int sz - 1) (if sint x < 0 then sint x + int sz else sint x)"
    using assms(2) clamp [of x] clamp [of "x + word_of_nat sz"]
    by (auto simp: slice_end_def Let_def sint_shift simp del: word_of_nat_eq_0_iff split: if_splits)
qed

lemma apply_slice_spec:
  assumes sl: "slice_ok sz slc" and v: "ba_sized sz v"
  shows "\<exists>r. apply_slice slc v = Some r \<and> ba_sized sz r \<and>
             (\<forall>i. ba_is_bit_set r i \<longleftrightarrow> ba_is_bit_set v i \<or> slice_holds sz slc i)"
proof -
  have "1 \<le> max 1 (uint (sl_step slc))" by simp
  then have "int sz < 2 ^ 31" using sl unfolding slice_ok_def by linarith
  then have sz: "sz < 2 ^ 31" "0 < sz" using v by (simp_all add: ba_sized_def ba_wf_def)
  have bsz: "ba_size v = sz" using v by (simp add: ba_size_def ba_sized_def)
  define st where "st = slice_start sz (sl_start slc)"
  define lo where "lo = (if sint (sl_start slc) < 0 then max 0 (sint (sl_start slc) + int sz) else sint (sl_start slc))"
  define hi where "hi = (if sint (sl_end slc) < 0 then sint (sl_end slc) + int sz else sint (sl_end slc))"
  have lo: "sint st = lo" "0 \<le> lo" using slice_start_spec [OF sz(1)] by (auto simp: st_def lo_def)
  then have "int (unat st) = lo" using uint_from_sint [of st] by simp
  then have ust: "unat st \<ge> sz \<longleftrightarrow> lo \<ge> int sz" by linarith
  define step where "step = (if sl_step slc < 1 then 1 else sl_step slc)"
  have step: "uint step = max 1 (uint (sl_step slc))"
    by (auto simp: step_def word_less_def max_def)
  have holds: "slice_holds sz slc i \<longleftrightarrow> i < sz \<and> lo \<le> int i \<and> int i \<le> hi \<and> (int i - lo) mod uint step = 0" for i
    by (simp add: slice_holds_def lo_def hi_def step Let_def)
  show ?thesis
  proof (cases "int sz \<le> lo \<or> hi < 0 \<or> hi < lo")
    case True
    then have "\<not> slice_holds sz slc i" for i using lo(2) by (auto simp: holds)
    moreover have "apply_slice slc v = Some v"
    proof (cases "slice_end sz (sl_end slc)")
      case (Some e)
      have "sint e = min (int sz - 1) hi" using slice_end_spec(2) [OF sz(2,1) Some] by (simp add: hi_def)
      moreover have "\<not> hi < 0" using slice_end_spec(1) [OF sz(2,1), of "sl_end slc"] Some by (simp add: hi_def)
      ultimately show ?thesis using True lo(1)
        by (auto simp: apply_slice_def bsz Let_def Some ust simp flip: st_def)
    qed (simp add: apply_slice_def bsz Let_def)
    ultimately show ?thesis using v by auto
  next
    case False
    then obtain e where e: "slice_end sz (sl_end slc) = Some e"
      using slice_end_spec(1) [OF sz(2,1), of "sl_end slc"] by (auto simp: hi_def)
    have se: "sint e = min (int sz - 1) hi" using slice_end_spec(2) [OF sz(2,1) e] by (simp add: hi_def)
    have "apply_slice slc v = slice_loop st e step v"
      using False lo(1) se by (auto simp: apply_slice_def bsz Let_def e ust step_def simp flip: st_def)
    moreover have "\<exists>r. slice_loop st e step v = Some r \<and> ba_sized sz r \<and>
             (\<forall>i. ba_is_bit_set r i \<longleftrightarrow> ba_is_bit_set v i \<or>
                  (sint st \<le> int i \<and> int i \<le> sint e \<and> (int i - sint st) mod uint step = 0))"
      using lo se step sl sz v by (intro slice_loop_spec) (auto simp: slice_ok_def)
    ultimately show ?thesis using lo(1) se by (auto simp: holds)
  qed
qed

lemma apply_slices_spec:
  assumes "\<forall>s \<in> set ss. slice_ok sz s" and "ba_sized sz v"
  shows "\<exists>r. apply_slices ss v = Some r \<and> ba_sized sz r \<and>
             (\<forall>i. ba_is_bit_set r i \<longleftrightarrow> ba_is_bit_set v i \<or> (\<exists>s \<in> set ss. slice_holds sz s i))"
  using assms
proof (induction ss arbitrary: v)
  case (Cons s ss)
  then obtain w where "apply_slice s v = Some w" "ba_sized sz w"
    "\<forall>i. ba_is_bit_set w i \<longleftrightarrow> ba_is_bit_set v i \<or> slice_holds sz s i"
    using apply_slice_spec [of sz s v] by auto
  with Cons.IH [of w] Cons.prems(1) show ?case by fastforce
qed simp

subsection \<open>Labels, matches and filters\<close>

definition label_holds :: "regex \<Rightarrow> match_label \<Rightarrow> stats_label \<Rightarrow> bool" where
  "label_holds R l vl \<longleftrightarrow>
     (case ml_key l of None \<Rightarrow> True | Some m \<Rightarrow> ms_holds R m (lbl_key vl)) \<and>
     (case ml_value l of None \<Rightarrow> True | Some m \<Rightarrow> ms_holds R m (the (lbl_value vl)))"

definition label_valid :: "regex \<Rightarrow> match_label \<Rightarrow> bool" where
  "label_valid R l \<longleftrightarrow> pred_option (ms_valid R) (ml_key l) \<and> pred_option (ms_valid R) (ml_value l)"

text \<open>The values of an attached metric have all their labels filled in.\<close>

definition values_labelled :: "stats_metric_value list \<Rightarrow> bool" where
  "values_labelled vs \<longleftrightarrow> (\<forall>v \<in> set vs. \<forall>vl \<in> set (val_labels v). lbl_value vl \<noteq> None)"

fun mm_holds :: "regex \<Rightarrow> stats_for_each_spec \<Rightarrow> StatsMetricType \<Rightarrow> metric_match \<Rightarrow> nat \<Rightarrow> bool" where
  "mm_holds R spec type (MM_Type t) i = (t = type)"
| "mm_holds R spec type (MM_Domain m) i = ms_holds R m (fe_domain spec)"
| "mm_holds R spec type (MM_Zone m) i = ms_holds R m (fe_zone spec)"
| "mm_holds R spec type (MM_Block m) i = ms_holds R m (fe_block spec)"
| "mm_holds R spec type (MM_Name m) i = ms_holds R m (mspec_name (fe_metric spec))"
| "mm_holds R spec type (MM_Indices ss) i =
     (if STATS_METRIC_FLAG_TEST (mspec_flags (fe_metric spec)) ARRAY
      then \<exists>s \<in> set ss. slice_holds (length (fe_values spec)) s i
      else ss = [])"
| "mm_holds R spec type (MM_Label l) i = (\<exists>vl \<in> set (val_labels (fe_values spec ! i)). label_holds R l vl)"
| "mm_holds R spec type MM_NOT_SET i = True"

primrec mm_valid :: "regex \<Rightarrow> nat \<Rightarrow> metric_match \<Rightarrow> bool" where
  "mm_valid R sz (MM_Type t) = True"
| "mm_valid R sz (MM_Domain m) = ms_valid R m"
| "mm_valid R sz (MM_Zone m) = ms_valid R m"
| "mm_valid R sz (MM_Block m) = ms_valid R m"
| "mm_valid R sz (MM_Name m) = ms_valid R m"
| "mm_valid R sz (MM_Indices ss) = list_all (slice_ok sz) ss"
| "mm_valid R sz (MM_Label l) = label_valid R l"
| "mm_valid R sz MM_NOT_SET = True"

primrec filter_holds :: "regex \<Rightarrow> stats_for_each_spec \<Rightarrow> StatsMetricType \<Rightarrow> metric_filter \<Rightarrow> nat \<Rightarrow> bool"
and filter_term_holds :: "regex \<Rightarrow> stats_for_each_spec \<Rightarrow> StatsMetricType \<Rightarrow> filter_term \<Rightarrow> nat \<Rightarrow> bool"
where
  "filter_holds R spec type (Filter negated t) = (\<lambda>i. negated \<noteq> filter_term_holds R spec type t i)"
| "filter_term_holds R spec type (FT_Match m) = mm_holds R spec type m"
| "filter_term_holds R spec type (FT_Any_Set fs) =
     (\<lambda>i. fs = [] \<or> (\<exists>h \<in> set (map (filter_holds R spec type) fs). h i))"
| "filter_term_holds R spec type (FT_All_Set fs) =
     (\<lambda>i. \<forall>h \<in> set (map (filter_holds R spec type) fs). h i)"
| "filter_term_holds R spec type FT_NOT_SET = (\<lambda>i. True)"

primrec filter_valid :: "regex \<Rightarrow> nat \<Rightarrow> metric_filter \<Rightarrow> bool"
and filter_term_valid :: "regex \<Rightarrow> nat \<Rightarrow> filter_term \<Rightarrow> bool"
where
  "filter_valid R sz (Filter negated t) = filter_term_valid R sz t"
| "filter_term_valid R sz (FT_Match m) = mm_valid R sz m"
| "filter_term_valid R sz (FT_Any_Set fs) = list_all id (map (filter_valid R sz) fs)"
| "filter_term_valid R sz (FT_All_Set fs) = list_all id (map (filter_valid R sz) fs)"
| "filter_term_valid R sz FT_NOT_SET = True"

lemma labels_match_total:
  assumes "label_valid R l" and "\<forall>vl \<in> set vls. lbl_value vl \<noteq> None"
  shows "labels_match R l vls = Some (\<exists>vl \<in> set vls. label_holds R l vl)"
  using assms(2)
proof (induction vls)
  case (Cons vl vls)
  then obtain s where s: "lbl_value vl = Some s" by auto
  show ?case using Cons assms(1) s
    by (auto simp: label_holds_def label_valid_def match_string_ok split: option.splits)
qed simp

lemma label_loop_spec:
  assumes "label_valid R l" and "values_labelled vs" and "ba_sized sz v" and "n + length vs \<le> sz"
  shows "\<exists>r. label_loop R l n vs v = Some r \<and> ba_sized sz r \<and>
             (\<forall>i. ba_is_bit_set r i \<longleftrightarrow> ba_is_bit_set v i \<or>
                  (n \<le> i \<and> i < n + length vs \<and> (\<exists>vl \<in> set (val_labels (vs ! (i - n))). label_holds R l vl)))"
  using assms(2-)
proof (induction vs arbitrary: n v)
  case (Cons x xs)
  define h where "h \<longleftrightarrow> (\<exists>vl \<in> set (val_labels x). label_holds R l vl)"
  define w where "w = (if h then ba_assign_bit v n True else v)"
  have w: "ba_sized sz w" using Cons.prems(2) by (auto simp: w_def ba_sized_def)
  have wb: "ba_is_bit_set w i \<longleftrightarrow> (h \<and> i = n) \<or> ba_is_bit_set v i" for i
    using Cons.prems(2,3) by (auto simp: w_def ba_sized_def ba_sem)
  have step: "label_loop R l n (x # xs) v = label_loop R l (Suc n) xs w"
    using labels_match_total [OF assms(1), of "val_labels x"] Cons.prems(1)
    by (simp add: values_labelled_def h_def w_def)
  obtain r where r: "label_loop R l (Suc n) xs w = Some r" "ba_sized sz r"
    "\<forall>i. ba_is_bit_set r i \<longleftrightarrow> ba_is_bit_set w i \<or>
       (Suc n \<le> i \<and> i < Suc n + length xs \<and> (\<exists>vl \<in> set (val_labels (xs ! (i - Suc n))). label_holds R l vl))"
    using Cons.IH [OF _ w, of "Suc n"] Cons.prems by (auto simp: values_labelled_def)
  have "(n \<le> i \<and> i < n + length (x # xs) \<and> (\<exists>vl \<in> set (val_labels ((x # xs) ! (i - n))). label_holds R l vl)) \<longleftrightarrow>
        (h \<and> i = n) \<or> (Suc n \<le> i \<and> i < Suc n + length xs \<and> (\<exists>vl \<in> set (val_labels (xs ! (i - Suc n))). label_holds R l vl))" for i
    by (cases "i = n") (auto simp: h_def nth_Cons' Suc_diff_le)
  then show ?case using r wb step by auto
qed auto

lemma assign_all_spec:
  "ba_sized sz v \<Longrightarrow> ba_sized sz (ba_assign_all v b) \<and> (\<forall>i < sz. ba_is_bit_set (ba_assign_all v b) i \<longleftrightarrow> b)"
  by (auto simp: ba_sized_def ba_sem)

lemma filter_match_spec:
  assumes "mm_valid R sz m" and "ba_sized sz v" and "\<forall>i. \<not> ba_is_bit_set v i"
    and "length (fe_values spec) = sz" and "values_labelled (fe_values spec)"
  shows "\<exists>r. apply_metric_filter_match R spec m type v = Some r \<and> ba_sized sz r \<and>
             (\<forall>i < sz. ba_is_bit_set r i \<longleftrightarrow> mm_holds R spec type m i)"
proof (cases m)
  case (MM_Indices ss)
  then show ?thesis using assms apply_slices_spec [of ss sz v] assign_all_spec [OF assms(2)]
    by (auto simp: apply_metric_filter_match_indices_def list_all_iff)
next
  case (MM_Label l)
  then show ?thesis using assms label_loop_spec [of R l "fe_values spec" sz v 0]
    by (auto simp: apply_metric_filter_match_label_def)
qed (use assms assign_all_spec [OF assms(2)] in \<open>auto simp: assign_all_of_def match_string_ok\<close>)

lemma set_loop_any:
  assumes v: "ba_sized sz v" "\<forall>i. \<not> ba_is_bit_set v i"
    and f: "\<And>m w. m \<in> set ms \<Longrightarrow> ba_sized sz w \<Longrightarrow> \<forall>i. \<not> ba_is_bit_set w i \<Longrightarrow>
           \<exists>w'. f m w = Some w' \<and> ba_sized sz w' \<and> (\<forall>i < sz. ba_is_bit_set w' i \<longleftrightarrow> h m i)"
  shows "\<exists>r. set_loop f ba_or ba_is_all_set ba_clear_all ms (ba_new sz) v = Some r \<and> ba_sized sz r \<and>
             (\<forall>i < sz. ba_is_bit_set r i \<longleftrightarrow> (\<exists>m \<in> set ms. h m i))"
proof -
  have "0 < sz" using v(1) by (auto simp: ba_sized_def ba_wf_def)
  then have new: "ba_sized sz (ba_new sz)" "\<forall>i. \<not> ba_is_bit_set (ba_new sz) i"
    by (auto simp: ba_sized_def ba_sem)
  have "\<exists>r. set_loop f ba_or ba_is_all_set ba_clear_all ms (ba_new sz) v = Some r \<and> ba_sized sz r \<and>
             (\<forall>i < sz. ba_is_bit_set r i = foldl (\<or>) (ba_is_bit_set v i) (map (\<lambda>m. h m i) ms))"
    by (rule ba_any.set_loop_spec [OF v(1) new f])
  then show ?thesis using v(2) by (simp add: foldl_any)
qed

lemma set_loop_all:
  assumes v: "ba_sized sz v" "\<forall>i < sz. ba_is_bit_set v i"
    and f: "\<And>m w. m \<in> set ms \<Longrightarrow> ba_sized sz w \<Longrightarrow> \<forall>i. \<not> ba_is_bit_set w i \<Longrightarrow>
           \<exists>w'. f m w = Some w' \<and> ba_sized sz w' \<and> (\<forall>i < sz. ba_is_bit_set w' i \<longleftrightarrow> h m i)"
  shows "\<exists>r. set_loop f ba_and ba_is_all_cleared ba_clear_all ms (ba_new sz) v = Some r \<and> ba_sized sz r \<and>
             (\<forall>i < sz. ba_is_bit_set r i \<longleftrightarrow> (\<forall>m \<in> set ms. h m i))"
proof -
  have "0 < sz" using v(1) by (auto simp: ba_sized_def ba_wf_def)
  then have new: "ba_sized sz (ba_new sz)" "\<forall>i. \<not> ba_is_bit_set (ba_new sz) i"
    by (auto simp: ba_sized_def ba_sem)
  have "\<exists>r. set_loop f ba_and ba_is_all_cleared ba_clear_all ms (ba_new sz) v = Some r \<and> ba_sized sz r \<and>
             (\<forall>i < sz. ba_is_bit_set r i = foldl (\<and>) (ba_is_bit_set v i) (map (\<lambda>m. h m i) ms))"
    by (rule ba_all.set_loop_spec [OF v(1) new f])
  then show ?thesis using v(2) by (simp add: foldl_all)
qed

lemma filter_total:
  assumes "length (fe_values spec) = sz" and "values_labelled (fe_values spec)"
  shows "filter_valid R sz f \<Longrightarrow> ba_sized sz v \<Longrightarrow> \<forall>i. \<not> ba_is_bit_set v i \<Longrightarrow>
           \<exists>r. apply_metric_filter R spec type f v = Some r \<and> ba_sized sz r \<and>
               (\<forall>i < sz. ba_is_bit_set r i \<longleftrightarrow> filter_holds R spec type f i)"
    and "filter_term_valid R sz t \<Longrightarrow> ba_sized sz v \<Longrightarrow> \<forall>i. \<not> ba_is_bit_set v i \<Longrightarrow>
           \<exists>r. apply_filter_term R spec type t v = Some r \<and> ba_sized sz r \<and>
               (\<forall>i < sz. ba_is_bit_set r i \<longleftrightarrow> filter_term_holds R spec type t i)"
proof (induction f and t arbitrary: v and v)
  case (Filter negated t)
  obtain r where "apply_filter_term R spec type t v = Some r" "ba_sized sz r"
    "\<forall>i < sz. ba_is_bit_set r i \<longleftrightarrow> filter_term_holds R spec type t i"
    using Filter.IH [of v] Filter.prems by auto
  then show ?case by (auto simp: ba_sized_def ba_sem)
next
  case (FT_Match m)
  then show ?case using filter_match_spec [OF _ _ _ assms] by simp
next
  case (FT_Any_Set fs)
  have sz: "ba_size v = sz" using FT_Any_Set.prems by (simp add: ba_sized_def ba_size_def)
  have all: "ba_sized sz (ba_set_all v)" "\<forall>i < sz. ba_is_bit_set (ba_set_all v) i"
    using FT_Any_Set.prems by (auto simp: ba_sized_def ba_sem)
  have "\<exists>r. set_loop (apply_metric_filter R spec type) ba_or ba_is_all_set ba_clear_all fs (ba_new sz) v = Some r \<and>
          ba_sized sz r \<and> (\<forall>i < sz. ba_is_bit_set r i \<longleftrightarrow> (\<exists>m \<in> set fs. filter_holds R spec type m i))"
    using FT_Any_Set by (intro set_loop_any) (auto simp: list_all_iff)
  then show ?case using all by (cases "fs = []") (auto simp: sz)
next
  case (FT_All_Set fs)
  have sz: "ba_size v = sz" using FT_All_Set.prems by (simp add: ba_sized_def ba_size_def)
  have all: "ba_sized sz (ba_set_all v)" "\<forall>i < sz. ba_is_bit_set (ba_set_all v) i"
    using FT_All_Set.prems by (auto simp: ba_sized_def ba_sem)
  have "\<exists>r. set_loop (apply_metric_filter R spec type) ba_and ba_is_all_cleared ba_clear_all fs (ba_new sz) (ba_set_all v) = Some r \<and>
          ba_sized sz r \<and> (\<forall>i < sz. ba_is_bit_set r i \<longleftrightarrow> (\<forall>m \<in> set fs. filter_holds R spec type m i))"
    using FT_All_Set by (intro set_loop_all all) (auto simp: list_all_iff)
  then show ?case using all by (cases "fs = []") (auto simp: sz)
qed (auto simp: ba_sized_def ba_sem)

text \<open>
  Property C8.  Evaluating a filter word by word, with early exits, gives exactly the positions
  whose value satisfies the filter: for every filter whose patterns the regular expression
  library accepts and whose steps are below \<open>2 ^ 31\<close> minus the number of values, the evaluation
  returns and bit \<open>i\<close> of the result is the truth of the filter for value \<open>i\<close>.
\<close>
theorem metric_filter_semantics:
  assumes "filter_valid R sz f" and "length (fe_values spec) = sz" and "0 < sz"
    and "values_labelled (fe_values spec)"
  shows "\<exists>r. apply_metric_filter R spec type f (ba_new sz) = Some r \<and>
             ba_set r = {i. i < sz \<and> filter_holds R spec type f i}"
proof -
  have new: "ba_sized sz (ba_new sz)" "\<forall>i. \<not> ba_is_bit_set (ba_new sz) i"
    using assms(3) by (auto simp: ba_sized_def ba_sem)
  show ?thesis using filter_total(1) [OF assms(2,4,1) new, of type]
    by (auto simp: ba_set_def ba_sized_def dest: ba_bit_less)
qed

definition regex_none :: regex where
  "regex_none = \<lparr>regex_match = (\<lambda>_ _ _. Some False), regex_split = (\<lambda>_ s. Some [s])\<rparr>"

definition example_array_spec :: stats_for_each_spec where
  "example_array_spec = \<lparr>fe_domain = ''d'', fe_zone = ''z'', fe_block = ''b'',
     fe_metric = \<lparr>mspec_name = ''m'', mspec_nelements = 5, mspec_labels = [], mspec_type = METRIC_COUNTER,
       mspec_flags = 4, mspec_init_value = 0,
       mspec_io = \<lparr>io_offset = 0, io_size = 8, io_width = 0, io_shift = 0, io_invert = False, io_data = 0\<rparr>\<rparr>,
     fe_values = replicate 5 \<lparr>val_u64 = 1, val_f64 = 0, val_labels = []\<rparr>, fe_last_update = 0\<rparr>"

theorem metric_filter_semantics_witness:
  "\<exists>r. apply_metric_filter regex_none example_array_spec STATS_METRIC_TYPE_COUNTER
         (Filter True (FT_Any_Set [Filter False (FT_Match (MM_Indices [\<lparr>sl_start = 1, sl_end = - 1, sl_step = 2\<rparr>])),
                                   Filter False (FT_Match (MM_Name (MS_Exact ''x'')))])) (ba_new 5) = Some r \<and>
       ba_set r = {0, 2, 4}"
proof -
  have holds: "slice_holds 5 \<lparr>sl_start = 1, sl_end = - 1, sl_step = 2\<rparr> i \<longleftrightarrow> i = 1 \<or> i = 3" for i
  proof -
    have "i < 5 \<longleftrightarrow> i = 0 \<or> i = 1 \<or> i = 2 \<or> i = 3 \<or> i = 4" by auto
    then show ?thesis by (auto simp: slice_holds_def Let_def)
  qed
  have less: "{i::nat. i < 5 \<and> i \<noteq> Suc 0 \<and> i \<noteq> 3} = {0, 2, 4}" by auto
  show ?thesis
    using metric_filter_semantics [of regex_none 5
        "Filter True (FT_Any_Set [Filter False (FT_Match (MM_Indices [\<lparr>sl_start = 1, sl_end = - 1, sl_step = 2\<rparr>])),
                                  Filter False (FT_Match (MM_Name (MS_Exact ''x'')))])" example_array_spec
        STATS_METRIC_TYPE_COUNTER]
    by (simp add: slice_ok_def example_array_spec_def values_labelled_def flag_test_bit holds less bit_numeral_rec)
qed

lemma assign_non_zero_spec:
  assumes "ba_sized sz v" and "n + length vs \<le> sz"
  shows "ba_sized sz (assign_non_zero nz n vs v) \<and>
         (\<forall>i. ba_is_bit_set (assign_non_zero nz n vs v) i \<longleftrightarrow>
              (if n \<le> i \<and> i < n + length vs then \<not> nz \<or> val_u64 (vs ! (i - n)) \<noteq> 0 else ba_is_bit_set v i))"
  using assms
proof (induction vs arbitrary: n v)
  case (Cons x xs)
  define w where "w = ba_assign_bit v n (\<not> nz \<or> val_u64 x \<noteq> 0)"
  have w: "ba_sized sz w" "ba_is_bit_set w i \<longleftrightarrow> (if i = n then \<not> nz \<or> val_u64 x \<noteq> 0 else ba_is_bit_set v i)" for i
    using Cons.prems by (auto simp: w_def ba_sized_def ba_sem)
  have IH: "ba_sized sz (assign_non_zero nz (Suc n) xs w)"
    "ba_is_bit_set (assign_non_zero nz (Suc n) xs w) i \<longleftrightarrow>
       (if Suc n \<le> i \<and> i < Suc n + length xs then \<not> nz \<or> val_u64 (xs ! (i - Suc n)) \<noteq> 0 else ba_is_bit_set w i)" for i
    using Cons.IH [OF w(1), of "Suc n"] Cons.prems(2) by auto
  have "ba_is_bit_set (assign_non_zero nz (Suc n) xs w) i \<longleftrightarrow>
      (if n \<le> i \<and> i < n + length (x # xs) then \<not> nz \<or> val_u64 ((x # xs) ! (i - n)) \<noteq> 0 else ba_is_bit_set v i)" for i
  proof (cases "Suc n \<le> i")
    case True
    then have "i - n = Suc (i - Suc n)" by linarith
    then show ?thesis using True IH(2) [of i] w(2) [of i] by simp
  next
    case False
    then show ?thesis using IH(2) [of i] w(2) [of i] by (cases "i = n") simp_all
  qed
  then show ?case using IH(1) by (simp add: w_def)
qed auto

definition value_selected :: "regex \<Rightarrow> stats_for_each_spec \<Rightarrow> stats_filters \<Rightarrow> StatsMetricType \<Rightarrow> nat \<Rightarrow> bool" where
  "value_selected R spec flt type i \<longleftrightarrow>
     i < length (fe_values spec) \<and> (flt_non_zero flt \<longrightarrow> val_u64 (fe_values spec ! i) \<noteq> 0) \<and>
     (case flt_metric_filter flt of None \<Rightarrow> True | Some f \<Rightarrow> filter_holds R spec type f i)"

lemma apply_filters_spec:
  assumes "pred_option (filter_valid R sz) (flt_metric_filter flt)" and "length (fe_values spec) = sz" and "0 < sz"
    and "values_labelled (fe_values spec)"
  shows "\<exists>r. apply_filters R spec flt type (ba_new sz) = Some r \<and> ba_sized sz r \<and>
             (\<forall>i. ba_is_bit_set r i \<longleftrightarrow> value_selected R spec flt type i)"
proof -
  have new: "ba_sized sz (ba_new sz)" "\<forall>i. \<not> ba_is_bit_set (ba_new sz) i"
    using assms(3) by (auto simp: ba_sized_def ba_sem)
  define v where "v = assign_non_zero (flt_non_zero flt) 0 (fe_values spec) (ba_new sz)"
  have v: "ba_sized sz v"
    "\<And>i. ba_is_bit_set v i \<longleftrightarrow> i < sz \<and> (flt_non_zero flt \<longrightarrow> val_u64 (fe_values spec ! i) \<noteq> 0)"
    using assign_non_zero_spec [OF new(1), of 0 "fe_values spec" "flt_non_zero flt"] assms(2) new(2)
    by (auto simp: v_def)
  have sz: "ba_size v = sz" and wf: "ba_wf v" using v(1) by (simp_all add: ba_size_def ba_sized_def)
  have sel: "value_selected R spec flt type i \<longleftrightarrow>
      ba_is_bit_set v i \<and> (case flt_metric_filter flt of None \<Rightarrow> True | Some f \<Rightarrow> filter_holds R spec type f i)" for i
    by (simp add: value_selected_def v(2) assms(2))
  show ?thesis
  proof (cases "ba_is_all_cleared v \<or> flt_metric_filter flt = None")
    case True
    then have "apply_filters R spec flt type (ba_new sz) = Some v"
      by (auto simp: apply_filters_def v_def Let_def)
    moreover have "ba_is_bit_set v i \<longleftrightarrow> value_selected R spec flt type i" for i
      using True unfolding sel ba_is_all_cleared_iff [OF wf] by (cases "flt_metric_filter flt") simp_all
    ultimately show ?thesis using v(1) by blast
  next
    case False
    then obtain f where f: "flt_metric_filter flt = Some f" by blast
    obtain w where w: "apply_metric_filter R spec type f (ba_new sz) = Some w" "ba_sized sz w"
      "\<forall>i < sz. ba_is_bit_set w i \<longleftrightarrow> filter_holds R spec type f i"
      using filter_total(1) [OF assms(2,4) _ new, of R f type] assms(1) f by auto
    have "ba_wf v" "ba_wf w" "ba_nbits v = ba_nbits w" "ba_nbits v = sz" using v(1) w(2) by (simp_all add: ba_sized_def)
    then obtain r where "ba_and v w = Some r" "ba_sized sz r"
      "\<forall>i. ba_is_bit_set r i \<longleftrightarrow> ba_is_bit_set v i \<and> ba_is_bit_set w i"
      using ba_and_ok [of v w] unfolding ba_sized_def by metis
    moreover have "apply_filters R spec flt type (ba_new sz) = ba_and v w"
      using False f w(1) sz by (simp add: apply_filters_def Let_def flip: v_def)
    moreover have "ba_is_bit_set v i \<and> ba_is_bit_set w i \<longleftrightarrow> value_selected R spec flt type i" for i
      using w(3) f v(2) [of i] by (cases "i < sz") (simp_all add: sel)
    ultimately show ?thesis by metis
  qed
qed

lemma add_values_spec:
  "add_values wl valid n vs = map (\<lambda>i. value_message wl i (vs ! (i - n))) (filter (ba_is_bit_set valid) [n..<n + length vs])"
proof (induction vs arbitrary: n)
  case (Cons v vs)
  have u: "[n..<n + length (v # vs)] = n # [Suc n..<Suc n + length vs]"
    by (subst upt_conv_Cons) (simp_all del: upt_Suc)
  have "map (\<lambda>i. value_message wl i ((v # vs) ! (i - n))) (filter (ba_is_bit_set valid) [Suc n..<Suc n + length vs]) =
        map (\<lambda>i. value_message wl i (vs ! (i - Suc n))) (filter (ba_is_bit_set valid) [Suc n..<Suc n + length vs])"
    by (rule map_cong) (auto simp: nth_Cons')
  then show ?case unfolding u using Cons.IH [of "Suc n"] by (simp del: upt_Suc)
qed simp

text \<open>
  Reading a metric reports exactly the selected values: the callback adds one
  metric whose values are those that are non-zero (when asked) and satisfy the filter, in index
  order and with their indexes, and adds nothing when no value is selected.
\<close>
lemma get_stats_reports_selected:
  assumes "pred_option (filter_valid R sz) (flt_metric_filter flt)" and "length (fe_values spec) = sz" and "0 < sz"
    and "values_labelled (fe_values spec)" and "mspec_type (fe_metric spec) = METRIC_COUNTER"
  shows "\<exists>ms. get_stats_for_each_metric R flt spec stats = Some (0, stats @ ms) \<and>
           concat (map rm_values ms) =
             map (\<lambda>i. value_message (flt_with_labels flt) i (fe_values spec ! i))
               (filter (value_selected R spec flt STATS_METRIC_TYPE_COUNTER) [0..<sz]) \<and>
           (ms = [] \<longleftrightarrow> (\<forall>i < sz. \<not> value_selected R spec flt STATS_METRIC_TYPE_COUNTER i))"
proof -
  obtain r where r: "apply_filters R spec flt STATS_METRIC_TYPE_COUNTER (ba_new sz) = Some r" "ba_sized sz r"
    "\<forall>i. ba_is_bit_set r i \<longleftrightarrow> value_selected R spec flt STATS_METRIC_TYPE_COUNTER i"
    using apply_filters_spec [OF assms(1-4)] by blast
  have fi: "ba_is_bit_set r = value_selected R spec flt STATS_METRIC_TYPE_COUNTER" using r(3) by blast
  have cl: "ba_is_all_cleared r \<longleftrightarrow> (\<forall>i < sz. \<not> value_selected R spec flt STATS_METRIC_TYPE_COUNTER i)"
    using r(2,3) assms(2) by (auto simp: ba_sized_def ba_is_all_cleared_iff value_selected_def)
  show ?thesis
  proof (cases "ba_is_all_cleared r")
    case True
    then have "filter (value_selected R spec flt STATS_METRIC_TYPE_COUNTER) [0..<sz] = []" using cl by auto
    then show ?thesis using True cl r(1) assms(2,5) by (simp add: get_stats_for_each_metric_def)
  next
    case False
    then show ?thesis using cl r(1) assms(2,5) by (auto simp: get_stats_for_each_metric_def add_values_spec fi)
  qed
qed

subsection \<open>A step that never ends\<close>

lemma slice_loop_diverges_aux:
  assumes "slice_loop n e step v = Some r"
  shows "step = 2 ^ 31 \<longrightarrow> n = 0 \<or> n = 2 ^ 31 \<longrightarrow> sint e < 0"
proof (rule slice_loop.raw_induct [OF _ assms, of "\<lambda>n e step v r. step = 2 ^ 31 \<longrightarrow> n = 0 \<or> n = 2 ^ 31 \<longrightarrow> sint e < 0"])
  fix f and n e :: "32 word" and step v r
  assume IH: "\<And>n e step v r. f n e step v = Some r \<Longrightarrow> step = 2 ^ 31 \<longrightarrow> n = 0 \<or> n = 2 ^ 31 \<longrightarrow> sint e < 0"
    and eq: "(if sint n \<le> sint e then f (n + step) e step (ba_set_bit v (unat n)) else Some v) = Some r"
  have wrap: "(2 ^ 31 + 2 ^ 31 :: 32 word) = 0" by simp
  have low: "sint (2 ^ 31 :: 32 word) \<le> sint e" using sint_ge [of e] by simp
  show "step = 2 ^ 31 \<longrightarrow> n = 0 \<or> n = 2 ^ 31 \<longrightarrow> sint e < 0"
  proof (intro impI)
    assume s: "step = 2 ^ 31" and n: "n = 0 \<or> n = 2 ^ 31"
    show "sint e < 0"
    proof (cases "sint n \<le> sint e")
      case True
      have "n + step = 0 \<or> n + step = 2 ^ 31" using s n wrap by auto
      then show ?thesis using IH eq True s by metis
    next
      case False
      then show ?thesis using n low by auto
    qed
  qed
qed

text \<open>
  Property C40.  A slice that starts at 0 with a step of \<open>2 ^ 31\<close> makes the server loop forever:
  the 32-bit index alternates between 0 and the most negative integer, both not above the end
  of the range, so that evaluating the filter of such a request on an array metric never
  returns.
\<close>
theorem slice_step_diverges:
  assumes "ba_sized sz v" and "0 < sz" and "sz < 2 ^ 31" and "sl_start slc = 0" and "0 \<le> sint (sl_end slc)"
    and "sl_step slc = 2 ^ 31"
  shows "apply_slice slc v = None"
proof -
  have bsz: "ba_size v = sz" using assms(1) by (simp add: ba_size_def ba_sized_def)
  obtain e where e: "slice_end sz (sl_end slc) = Some e"
    using slice_end_spec(1) [OF assms(2,3), of "sl_end slc"] assms(5) by auto
  have se: "0 \<le> sint e" using slice_end_spec(2) [OF assms(2,3) e] assms(2,5) by auto
  have "slice_loop 0 e (2 ^ 31) v = None"
    using slice_loop_diverges_aux [of 0 e "2 ^ 31" v] se by (cases "slice_loop 0 e (2 ^ 31) v") auto
  moreover have "apply_slice slc v = slice_loop 0 e (2 ^ 31) v"
    using assms e se by (simp add: apply_slice_def bsz Let_def slice_start_def word_less_def)
  ultimately show ?thesis by simp
qed

theorem slice_step_diverges_witness:
  "apply_slice \<lparr>sl_start = 0, sl_end = - 1 + 5, sl_step = 2 ^ 31\<rparr> (ba_new 5) = None"
  by (rule slice_step_diverges [of 5]) (auto simp: ba_sized_def)

end
