(* ===== verification/Opennic_Stats.thy ===== *)
theory Opennic_Stats
  imports Stats_Types
begin

text \<open>
  \<^verbatim>\<open>libopennic/src/stats.c\<close>: metrics, the blocks that own them, the zones that group blocks, and
  the domains that list zones.  The functions run to completion one after the other (each holds
  the locks of what it changes); the memory of zones is a map from addresses, so that a zone
  that is detached or freed is visible.  Allocation and the Prometheus client always succeed.

  An operation that does not return normally has a reason: \<open>Panic\<close> (\<open>log_panic\<close> ends the
  process), \<open>Undefined\<close> (C gives the operation no meaning), \<open>No_Return\<close> (a callback of the
  filter did not return).
\<close>

named_theorems stats_facts \<open>results of the operations on metrics, zones and domains\<close>

datatype stats_stop = Panic | Undefined | No_Return

subsection \<open>State\<close>

record stats_metric_element =
  el_value :: stats_metric_value
  el_last :: "64 word"

record stats_metric =
  met_spec :: stats_metric_spec
  met_elements :: "stats_metric_element list"
  met_mask :: "64 word"

record 'h stats_block =
  blk_spec :: "'h stats_block_spec"
  blk_metrics :: "stats_metric list"
  blk_nvalues :: nat
  blk_last_update :: nat

record 'h stats_zone =
  zone_name :: string
  zone_blocks :: "'h stats_block list"
  zone_nvalues :: nat
  zone_ref_count :: "32 word"
  zone_enabled :: bool
  zone_attached :: bool

record 'h stats_domain =
  dom_spec :: stats_domain_spec
  dom_zones :: "nat list"
  dom_nvalues :: nat
  dom_running :: bool
  dom_heap :: "nat \<Rightarrow> 'h stats_zone option"

subsection \<open>Metrics\<close>

definition default_stats_labels :: "stats_label_spec list" where
  "default_stats_labels =
     [\<lparr>lspec_key = ''domain'', lspec_value = None, lspec_no_export = False,
       lspec_value_alloc = Some fmt_domain, lspec_has_value_free = False\<rparr>,
      \<lparr>lspec_key = ''zone'', lspec_value = None, lspec_no_export = False,
       lspec_value_alloc = Some fmt_zone, lspec_has_value_free = False\<rparr>,
      \<lparr>lspec_key = ''block'', lspec_value = None, lspec_no_export = False,
       lspec_value_alloc = Some fmt_block, lspec_has_value_free = False\<rparr>]"

definition array_stats_labels :: "stats_label_spec list" where
  "array_stats_labels =
     [\<lparr>lspec_key = ''index'', lspec_value = None, lspec_no_export = False,
       lspec_value_alloc = Some (\<lambda>f. dec (fmt_idx f)), lspec_has_value_free = True\<rparr>]"

text \<open>\<open>(1 << width) - 1\<close> is computed in \<open>int\<close>, where the shift and the subtraction must not overflow.\<close>

definition int_mask :: "nat \<Rightarrow> stats_stop + 64 word" where
  "int_mask width = (if width < 31 then Inr (word_of_int (push_bit width 1 - 1)) else Inl Undefined)"

definition stats_metric_alloc :: "stats_metric_spec \<Rightarrow> stats_stop + stats_metric" where
  "stats_metric_alloc spec =
     (let is_array = STATS_METRIC_FLAG_TEST (mspec_flags spec) ARRAY;
          nelements = (if is_array then mspec_nelements spec else 1)
      in if nelements = 0 then Inl Panic
         else case (if io_width (mspec_io spec) > 0 then int_mask (io_width (mspec_io spec)) else Inr 0) of
           Inl e \<Rightarrow> Inl e
         | Inr msk \<Rightarrow>
           (let labels = default_stats_labels @ (if is_array then array_stats_labels else []) @ mspec_labels spec
            in Inr \<lparr>met_spec = spec\<lparr>mspec_labels := labels\<rparr>,
                    met_elements = replicate nelements
                      \<lparr>el_value = \<lparr>val_u64 = mspec_init_value spec, val_f64 = 0,
                                   val_labels = map (\<lambda>_. \<lparr>lbl_key = '''', lbl_value = None\<rparr>) labels\<rparr>,
                       el_last = mspec_init_value spec\<rparr>,
                    met_mask = msk\<rparr>))"

definition label_value :: "stats_label_spec \<Rightarrow> stats_label_format \<Rightarrow> string" where
  "label_value lspec f =
     (case lspec_value_alloc lspec of Some alloc \<Rightarrow> alloc f
      | None \<Rightarrow> (case lspec_value lspec of Some v \<Rightarrow> v | None \<Rightarrow> ''''))"

fun attach_elements ::
  "stats_label_format \<Rightarrow> stats_label_spec list \<Rightarrow> nat \<Rightarrow> stats_metric_element list \<Rightarrow> stats_metric_element list" where
  "attach_elements f lspecs n [] = []"
| "attach_elements f lspecs n (e # es) =
     e\<lparr>el_value := (el_value e)\<lparr>val_labels :=
         map (\<lambda>ls. \<lparr>lbl_key = lspec_key ls, lbl_value = Some (label_value ls (f\<lparr>fmt_idx := n\<rparr>))\<rparr>) lspecs\<rparr>\<rparr>
     # attach_elements f lspecs (Suc n) es"

definition stats_metric_attach :: "string \<Rightarrow> string \<Rightarrow> string \<Rightarrow> stats_metric \<Rightarrow> stats_metric" where
  "stats_metric_attach dname zname bname m =
     m\<lparr>met_elements :=
         attach_elements \<lparr>fmt_domain = dname, fmt_zone = zname, fmt_block = bname,
                          fmt_metric = mspec_name (met_spec m), fmt_idx = 0\<rparr>
           (mspec_labels (met_spec m)) 0 (met_elements m)\<rparr>"

definition stats_metric_detach :: "stats_metric \<Rightarrow> stats_metric" where
  "stats_metric_detach m =
     m\<lparr>met_elements := map (\<lambda>e. e\<lparr>el_value := (el_value e)\<lparr>val_labels :=
         map2 (\<lambda>ls l. if lspec_has_value_free ls then l\<lparr>lbl_value := None\<rparr> else l)
           (mspec_labels (met_spec m)) (val_labels (el_value e))\<rparr>\<rparr>) (met_elements m)\<rparr>"

text \<open>The device memory, read at one of the four widths.\<close>

type_synonym 'h device_memory = "'h \<Rightarrow> nat \<Rightarrow> nat \<Rightarrow> 64 word"

definition extract_value :: "stats_io \<Rightarrow> 64 word \<Rightarrow> 64 word \<Rightarrow> 64 word" where
  "extract_value io msk raw =
     (let v = (if io_invert io then NOT raw else raw)
      in if io_width io > 0 then drop_bit (io_shift io) v AND msk else v)"

definition stats_metric_read ::
  "'h device_memory \<Rightarrow> 'h \<Rightarrow> nat \<Rightarrow> stats_metric \<Rightarrow> stats_stop + 64 word list" where
  "stats_metric_read mem h base m =
     (let io = mspec_io (met_spec m) in
      if io_size io \<in> {1, 2, 4, 8}
      then Inr (map (\<lambda>n. extract_value io (met_mask m) (mem h (base + io_offset io + n * io_size io) (io_size io)))
                  [0..<length (met_elements m)])
      else Inl Panic)"

definition stats_metric_get_values :: "stats_metric \<Rightarrow> nat \<Rightarrow> stats_metric_value list" where
  "stats_metric_get_values m nvalues =
     (let n = (if nvalues > length (met_elements m) then length (met_elements m) else nvalues)
      in map el_value (take n (met_elements m)))"

subsection \<open>Blocks\<close>

fun alloc_all :: "('s \<Rightarrow> stats_stop + 'm) \<Rightarrow> 's list \<Rightarrow> stats_stop + 'm list" where
  "alloc_all f [] = Inr []"
| "alloc_all f (s # ss) =
     (case f s of Inl e \<Rightarrow> Inl e
      | Inr m \<Rightarrow> (case alloc_all f ss of Inl e \<Rightarrow> Inl e | Inr ms \<Rightarrow> Inr (m # ms)))"

definition stats_block_alloc :: "'h stats_block_spec \<Rightarrow> stats_stop + 'h stats_block" where
  "stats_block_alloc spec =
     (case alloc_all stats_metric_alloc (bspec_metrics spec) of Inl e \<Rightarrow> Inl e
      | Inr ms \<Rightarrow> Inr \<lparr>blk_spec = spec\<lparr>bspec_metrics := []\<rparr>, blk_metrics = ms, blk_nvalues = 0, blk_last_update = 0\<rparr>)"

definition metrics_nvalues :: "stats_metric list \<Rightarrow> nat" where
  "metrics_nvalues ms = sum_list (map (\<lambda>m. length (met_elements m)) ms)"

definition call_opt :: "('h \<Rightarrow> 'h) option \<Rightarrow> 'h \<Rightarrow> 'h" where
  "call_opt f h = (case f of None \<Rightarrow> h | Some g \<Rightarrow> g h)"

definition stats_block_attach :: "string \<Rightarrow> string \<Rightarrow> 'h stats_block \<Rightarrow> 'h \<Rightarrow> 'h stats_block \<times> 'h" where
  "stats_block_attach dname zname b h =
     (b\<lparr>blk_metrics := map (stats_metric_attach dname zname (bspec_name (blk_spec b))) (blk_metrics b),
        blk_nvalues := blk_nvalues b + metrics_nvalues (blk_metrics b)\<rparr>,
      call_opt (bspec_attach_metrics (blk_spec b)) h)"

definition stats_block_detach :: "'h stats_block \<Rightarrow> 'h \<Rightarrow> 'h stats_block \<times> 'h" where
  "stats_block_detach b h =
     (b\<lparr>blk_metrics := map stats_metric_detach (blk_metrics b),
        blk_nvalues := blk_nvalues b - metrics_nvalues (blk_metrics b)\<rparr>,
      call_opt (bspec_detach_metrics (blk_spec b)) h)"

fun block_get_values :: "stats_metric list \<Rightarrow> nat \<Rightarrow> stats_metric_value list" where
  "block_get_values [] nvalues = []"
| "block_get_values (m # ms) nvalues =
     (if nvalues = 0 then []
      else (let vs = stats_metric_get_values m nvalues in vs @ block_get_values ms (nvalues - length vs)))"

definition stats_block_get_values :: "'h stats_block \<Rightarrow> nat \<Rightarrow> stats_metric_value list" where
  "stats_block_get_values b nvalues = block_get_values (blk_metrics b) nvalues"

subsection \<open>Updating the metrics of a block\<close>

text \<open>The value of one element after an update that read \<open>value\<close> from the device.\<close>

definition update_u64 ::
  "stats_metric_type \<Rightarrow> bool \<Rightarrow> bool \<Rightarrow> 64 word \<Rightarrow> 64 word \<Rightarrow> 64 word \<times> 64 word \<Rightarrow> 64 word \<times> 64 word" where
  "update_u64 type is_clear_on_read do_clear init value cur =
     (let (u64, prev) = cur in
      case type of
        METRIC_COUNTER \<Rightarrow>
          (let (diff, prev') = (if \<not> is_clear_on_read then (value - prev, value) else (value, prev))
           in (if do_clear then init else u64 + diff, prev'))
      | METRIC_FLAG \<Rightarrow> (if do_clear then init else if value \<noteq> 0 then 1 else 0, prev)
      | _ \<Rightarrow> (if do_clear then init else value, prev))"

definition update_element ::
  "(64 word \<Rightarrow> double_bits) \<Rightarrow> stats_metric_spec \<Rightarrow> bool \<Rightarrow> 64 word \<Rightarrow> stats_metric_element \<Rightarrow> stats_metric_element" where
  "update_element conv mspec do_clear value e =
     (let (u, l) = update_u64 (mspec_type mspec) (STATS_METRIC_FLAG_TEST (mspec_flags mspec) CLEAR_ON_READ)
                     do_clear (mspec_init_value mspec) value (val_u64 (el_value e), el_last e)
      in e\<lparr>el_value := (el_value e)\<lparr>val_u64 := u, val_f64 := conv u\<rparr>, el_last := l\<rparr>)"

text \<open>The driver fills one value per element (the list of values has the length of the elements).\<close>

fun update_elements ::
  "(64 word \<Rightarrow> double_bits) \<Rightarrow> stats_metric_spec \<Rightarrow> (nat \<Rightarrow> bool) \<Rightarrow> nat \<Rightarrow> 64 word list \<Rightarrow>
   stats_metric_element list \<Rightarrow> stats_metric_element list" where
  "update_elements conv mspec clear n (v # vs) (e # es) =
     update_element conv mspec (clear n) v e # update_elements conv mspec clear (Suc n) vs es"
| "update_elements conv mspec clear n vs es = []"

definition run_callback ::
  "(stats_for_each_spec \<Rightarrow> 'c \<Rightarrow> 'c option) option \<Rightarrow> stats_for_each_spec \<Rightarrow> 'c \<Rightarrow> stats_stop + 'c" where
  "run_callback f spec c =
     (case f of None \<Rightarrow> Inr c
      | Some g \<Rightarrow> (case g spec c of None \<Rightarrow> Inl No_Return | Some c' \<Rightarrow> Inr c'))"

definition clear_decision ::
  "'c stats_clear_filter option \<Rightarrow> stats_metric_spec \<Rightarrow> stats_for_each_spec \<Rightarrow> 'c \<Rightarrow> nat \<Rightarrow> bool" where
  "clear_decision flt mspec fspec c n \<longleftrightarrow>
     \<not> STATS_METRIC_FLAG_TEST (mspec_flags mspec) NEVER_CLEAR \<and>
     (case flt of None \<Rightarrow> False
      | Some f \<Rightarrow> (case cf_match f of None \<Rightarrow> True | Some match \<Rightarrow> match fspec n c))"

text \<open>
  The surroundings of a block: the conversion of integers to double, the device memory, the
  monotonic clock, and the names of the domain and the zone.
\<close>

record 'h stats_env =
  env_double :: "64 word \<Rightarrow> double_bits"
  env_mem :: "'h device_memory"
  env_clock :: "'h \<Rightarrow> nat"
  env_domain :: string
  env_zone :: string

definition update_metric ::
  "'h stats_env \<Rightarrow> 'h stats_block_spec \<Rightarrow> 'c stats_clear_filter option \<Rightarrow> 'h \<Rightarrow> 'c \<Rightarrow> stats_metric \<Rightarrow>
   stats_stop + ('c \<times> stats_metric)" where
  "update_metric env bspec flt h c m =
     (let mspec = met_spec m;
          nelements = length (met_elements m) in
      case (case bspec_read_metric bspec of
              Some read \<Rightarrow> Inr (read h mspec nelements)
            | None \<Rightarrow> stats_metric_read (env_mem env) h (bspec_io_base bspec) m) of
        Inl e \<Rightarrow> Inl e
      | Inr values \<Rightarrow>
        (let fspec = \<lparr>fe_domain = env_domain env, fe_zone = env_zone env, fe_block = bspec_name bspec,
                      fe_metric = mspec, fe_values = map el_value (met_elements m), fe_last_update = 0\<rparr>;
             conv = (case bspec_convert_metric bspec of None \<Rightarrow> env_double env | Some f \<Rightarrow> f h mspec) in
         case (case flt of None \<Rightarrow> Inr c | Some f \<Rightarrow> run_callback (cf_setup f) fspec c) of
           Inl e \<Rightarrow> Inl e
         | Inr c1 \<Rightarrow>
           (let es = update_elements conv mspec (clear_decision flt mspec fspec c1) 0 values (met_elements m) in
            case (case flt of None \<Rightarrow> Inr c1 | Some f \<Rightarrow> run_callback (cf_teardown f) fspec c1) of
              Inl e \<Rightarrow> Inl e
            | Inr c2 \<Rightarrow> Inr (c2, m\<lparr>met_elements := es\<rparr>))))"

fun update_metrics ::
  "'h stats_env \<Rightarrow> 'h stats_block_spec \<Rightarrow> 'c stats_clear_filter option \<Rightarrow> 'h \<Rightarrow> 'c \<Rightarrow> stats_metric list \<Rightarrow>
   stats_stop + ('c \<times> stats_metric list)" where
  "update_metrics env bspec flt h c [] = Inr (c, [])"
| "update_metrics env bspec flt h c (m # ms) =
     (case update_metric env bspec flt h c m of Inl e \<Rightarrow> Inl e
      | Inr (c1, m1) \<Rightarrow>
        (case update_metrics env bspec flt h c1 ms of Inl e \<Rightarrow> Inl e
         | Inr (c2, ms1) \<Rightarrow> Inr (c2, m1 # ms1)))"

definition stats_block_update_metrics ::
  "'h stats_env \<Rightarrow> 'c stats_clear_filter option \<Rightarrow> 'c \<Rightarrow> 'h stats_block \<Rightarrow> 'h \<Rightarrow>
   stats_stop + ('c \<times> 'h stats_block \<times> 'h)" where
  "stats_block_update_metrics env flt c b h =
     (let spec = blk_spec b;
          t = env_clock env h;
          h1 = call_opt (bspec_latch_metrics spec) h in
      case update_metrics env spec flt h1 c (blk_metrics b) of Inl e \<Rightarrow> Inl e
      | Inr (c', ms) \<Rightarrow>
          Inr (c', b\<lparr>blk_metrics := ms, blk_last_update := t\<rparr>, call_opt (bspec_release_metrics spec) h1))"

text \<open>A traversal ends at the first callback that returns a value other than 0.\<close>

type_synonym 'a for_each_callback = "stats_for_each_spec \<Rightarrow> 'a \<Rightarrow> (int \<times> 'a) option"

fun block_for_each ::
  "(stats_metric \<Rightarrow> stats_for_each_spec) \<Rightarrow> 'a for_each_callback \<Rightarrow> stats_metric list \<Rightarrow> 'a \<Rightarrow> (int \<times> 'a) option" where
  "block_for_each mk cb [] a = Some (0, a)"
| "block_for_each mk cb (m # ms) a =
     (case cb (mk m) a of None \<Rightarrow> None
      | Some (rv, a') \<Rightarrow> if rv \<noteq> 0 then Some (rv, a') else block_for_each mk cb ms a')"

definition stats_block_for_each_metric ::
  "string \<Rightarrow> string \<Rightarrow> 'a for_each_callback \<Rightarrow> 'h stats_block \<Rightarrow> 'a \<Rightarrow> (int \<times> 'a) option" where
  "stats_block_for_each_metric dname zname cb b a =
     block_for_each
       (\<lambda>m. \<lparr>fe_domain = dname, fe_zone = zname, fe_block = bspec_name (blk_spec b), fe_metric = met_spec m,
             fe_values = stats_metric_get_values m (length (met_elements m)),
             fe_last_update = blk_last_update b\<rparr>)
       cb (blk_metrics b) a"

subsection \<open>Zones\<close>

definition next_zone :: "nat list \<Rightarrow> nat \<Rightarrow> nat option" where
  "next_zone zs z = (case dropWhile (\<lambda>x. x \<noteq> z) zs of _ # y # _ \<Rightarrow> Some y | _ \<Rightarrow> None)"

fun attach_blocks :: "string \<Rightarrow> string \<Rightarrow> 'h stats_block list \<Rightarrow> 'h \<Rightarrow> 'h stats_block list \<times> 'h" where
  "attach_blocks dname zname [] h = ([], h)"
| "attach_blocks dname zname (b # bs) h =
     (let (b1, h1) = stats_block_attach dname zname b h;
          (bs1, h2) = attach_blocks dname zname bs h1
      in (b1 # bs1, h2))"

fun detach_blocks :: "'h stats_block list \<Rightarrow> 'h \<Rightarrow> 'h stats_block list \<times> 'h" where
  "detach_blocks [] h = ([], h)"
| "detach_blocks (b # bs) h =
     (let (b1, h1) = stats_block_detach b h; (bs1, h2) = detach_blocks bs h1 in (b1 # bs1, h2))"

definition blocks_nvalues :: "'h stats_block list \<Rightarrow> nat" where
  "blocks_nvalues bs = sum_list (map blk_nvalues bs)"

definition heap_update :: "nat \<Rightarrow> 'h stats_zone option \<Rightarrow> 'h stats_domain \<Rightarrow> 'h stats_domain" where
  "heap_update z v d = d\<lparr>dom_heap := (dom_heap d)(z := v)\<rparr>"

definition stats_zone_attach :: "nat \<Rightarrow> 'h stats_zone \<Rightarrow> 'h stats_domain \<Rightarrow> 'h \<Rightarrow> 'h stats_domain \<times> 'h" where
  "stats_zone_attach z zone d h =
     (let (bs, h1) = attach_blocks (dspec_name (dom_spec d)) (zone_name zone) (zone_blocks zone) h;
          nvalues = zone_nvalues zone + blocks_nvalues bs
      in (heap_update z (Some (zone\<lparr>zone_blocks := bs, zone_nvalues := nvalues, zone_enabled := True,
                                    zone_attached := True\<rparr>)) d
            \<lparr>dom_zones := dom_zones d @ [z], dom_nvalues := dom_nvalues d + nvalues\<rparr>, h1))"

text \<open>Accessing memory that was freed is undefined.\<close>

definition stats_zone_detach :: "nat \<Rightarrow> 'h stats_domain \<Rightarrow> 'h \<Rightarrow> stats_stop + ('h stats_domain \<times> 'h)" where
  "stats_zone_detach z d h =
     (case dom_heap d z of None \<Rightarrow> Inl Undefined
      | Some zone \<Rightarrow>
        (let nvalues = zone_nvalues zone;
             (bs, h1) = detach_blocks (zone_blocks zone) h in
         if z \<notin> set (dom_zones d) then Inl Panic
         else Inr (heap_update z (Some (zone\<lparr>zone_blocks := bs,
                                            zone_nvalues := nvalues - blocks_nvalues (zone_blocks zone),
                                            zone_attached := False, zone_enabled := False\<rparr>)) d
                     \<lparr>dom_zones := remove1 z (dom_zones d), dom_nvalues := dom_nvalues d - nvalues\<rparr>, h1)))"

definition stats_zone_get :: "nat option \<Rightarrow> 'h stats_domain \<Rightarrow> stats_stop + 'h stats_domain" where
  "stats_zone_get z d =
     (case z of None \<Rightarrow> Inr d
      | Some i \<Rightarrow>
        (case dom_heap d i of None \<Rightarrow> Inl Undefined
         | Some zone \<Rightarrow> Inr (heap_update i (Some (zone\<lparr>zone_ref_count := zone_ref_count zone + 1\<rparr>)) d)))"

text \<open>\<open>atomic_fetch_sub\<close> returns the count before the subtraction.\<close>

definition stats_zone_put :: "nat option \<Rightarrow> 'h stats_domain \<Rightarrow> 'h \<Rightarrow> stats_stop + ('h stats_domain \<times> 'h)" where
  "stats_zone_put z d h =
     (case z of None \<Rightarrow> Inr (d, h)
      | Some i \<Rightarrow>
        (case dom_heap d i of None \<Rightarrow> Inl Undefined
         | Some zone \<Rightarrow>
           (let ref_count = zone_ref_count zone;
                d1 = heap_update i (Some (zone\<lparr>zone_ref_count := ref_count - 1\<rparr>)) d in
            if ref_count = 0
            then (case stats_zone_detach i d1 h of Inl e \<Rightarrow> Inl e
                  | Inr (d2, h2) \<Rightarrow> Inr (heap_update i None d2, h2))
            else Inr (d1, h))))"

definition stats_zone_free :: "nat option \<Rightarrow> 'h stats_domain \<Rightarrow> 'h \<Rightarrow> stats_stop + ('h stats_domain \<times> 'h)" where
  "stats_zone_free z d h = stats_zone_put z d h"

text \<open>The new zone is at the address \<open>z\<close> that the allocator returned.\<close>

definition stats_zone_alloc ::
  "nat \<Rightarrow> 'h stats_zone_spec \<Rightarrow> 'h stats_domain \<Rightarrow> 'h \<Rightarrow> stats_stop + ('h stats_domain \<times> 'h)" where
  "stats_zone_alloc z spec d h =
     (case alloc_all stats_block_alloc (zspec_blocks spec) of Inl e \<Rightarrow> Inl e
      | Inr bs \<Rightarrow>
        (let (d1, h1) = stats_zone_attach z
               \<lparr>zone_name = zspec_name spec, zone_blocks = bs, zone_nvalues = 0, zone_ref_count = 0,
                zone_enabled = False, zone_attached = False\<rparr> d h
         in case stats_zone_get (Some z) d1 of Inl e \<Rightarrow> Inl e | Inr d2 \<Rightarrow> Inr (d2, h1)))"

definition map_zone :: "('h stats_zone \<Rightarrow> 'h stats_zone) \<Rightarrow> nat \<Rightarrow> 'h stats_domain \<Rightarrow> stats_stop + 'h stats_domain" where
  "map_zone f z d =
     (case dom_heap d z of None \<Rightarrow> Inl Undefined
      | Some zone \<Rightarrow> if zone_attached zone then Inr (heap_update z (Some (f zone)) d) else Inl Undefined)"

definition stats_zone_enable :: "nat \<Rightarrow> 'h stats_domain \<Rightarrow> stats_stop + 'h stats_domain" where
  "stats_zone_enable z d = map_zone (\<lambda>zone. zone\<lparr>zone_enabled := True\<rparr>) z d"

definition stats_zone_disable :: "nat \<Rightarrow> 'h stats_domain \<Rightarrow> stats_stop + 'h stats_domain" where
  "stats_zone_disable z d = map_zone (\<lambda>zone. zone\<lparr>zone_enabled := False\<rparr>) z d"

definition stats_zone_number_of_values :: "nat \<Rightarrow> 'h stats_domain \<Rightarrow> stats_stop + nat" where
  "stats_zone_number_of_values z d =
     (case dom_heap d z of None \<Rightarrow> Inl Undefined
      | Some zone \<Rightarrow> if zone_attached zone then Inr (zone_nvalues zone) else Inl Undefined)"

fun zone_get_values :: "'h stats_block list \<Rightarrow> nat \<Rightarrow> stats_metric_value list" where
  "zone_get_values [] nvalues = []"
| "zone_get_values (b # bs) nvalues =
     (if nvalues = 0 then []
      else (let vs = stats_block_get_values b nvalues in vs @ zone_get_values bs (nvalues - length vs)))"

definition stats_zone_get_values :: "'h stats_zone \<Rightarrow> nat \<Rightarrow> stats_metric_value list" where
  "stats_zone_get_values zone nvalues = zone_get_values (zone_blocks zone) nvalues"

fun update_blocks ::
  "'h stats_env \<Rightarrow> 'c stats_clear_filter option \<Rightarrow> 'c \<Rightarrow> 'h stats_block list \<Rightarrow> 'h \<Rightarrow>
   stats_stop + ('c \<times> 'h stats_block list \<times> 'h)" where
  "update_blocks env flt c [] h = Inr (c, [], h)"
| "update_blocks env flt c (b # bs) h =
     (case stats_block_update_metrics env flt c b h of Inl e \<Rightarrow> Inl e
      | Inr (c1, b1, h1) \<Rightarrow>
        (case update_blocks env flt c1 bs h1 of Inl e \<Rightarrow> Inl e
         | Inr (c2, bs2, h2) \<Rightarrow> Inr (c2, b1 # bs2, h2)))"

definition env_of :: "'h stats_env \<Rightarrow> 'h stats_domain \<Rightarrow> 'h stats_zone \<Rightarrow> 'h stats_env" where
  "env_of env d zone = env\<lparr>env_domain := dspec_name (dom_spec d), env_zone := zone_name zone\<rparr>"

definition stats_zone_update_metrics ::
  "'h stats_env \<Rightarrow> nat \<Rightarrow> 'h stats_domain \<Rightarrow> 'h \<Rightarrow> stats_stop + ('h stats_domain \<times> 'h)" where
  "stats_zone_update_metrics env z d h =
     (case dom_heap d z of None \<Rightarrow> Inl Undefined
      | Some zone \<Rightarrow>
        (if \<not> zone_enabled zone then Inr (d, h)
         else case update_blocks (env_of env d zone) (None :: unit stats_clear_filter option) () (zone_blocks zone) h of
           Inl e \<Rightarrow> Inl e
         | Inr (_, bs, h1) \<Rightarrow> Inr (heap_update z (Some (zone\<lparr>zone_blocks := bs\<rparr>)) d, h1)))"

definition clear_all_filter :: "'c stats_clear_filter" where
  "clear_all_filter = \<lparr>cf_setup = None, cf_teardown = None, cf_match = None\<rparr>"

definition stats_zone_clear_metrics ::
  "'h stats_env \<Rightarrow> 'c stats_clear_filter option \<Rightarrow> 'c \<Rightarrow> nat \<Rightarrow> 'h stats_domain \<Rightarrow> 'h \<Rightarrow>
   stats_stop + ('c \<times> 'h stats_domain \<times> 'h)" where
  "stats_zone_clear_metrics env flt c z d h =
     (case dom_heap d z of None \<Rightarrow> Inl Undefined
      | Some zone \<Rightarrow>
        (let flt' = (case flt of None \<Rightarrow> clear_all_filter | Some f \<Rightarrow> f) in
         case update_blocks (env_of env d zone) (Some flt') c (zone_blocks zone) h of Inl e \<Rightarrow> Inl e
         | Inr (c1, bs, h1) \<Rightarrow> Inr (c1, heap_update z (Some (zone\<lparr>zone_blocks := bs\<rparr>)) d, h1)))"

fun zone_for_each ::
  "string \<Rightarrow> string \<Rightarrow> 'a for_each_callback \<Rightarrow> 'h stats_block list \<Rightarrow> 'a \<Rightarrow> (int \<times> 'a) option" where
  "zone_for_each dname zname cb [] a = Some (0, a)"
| "zone_for_each dname zname cb (b # bs) a =
     (case stats_block_for_each_metric dname zname cb b a of None \<Rightarrow> None
      | Some (rv, a') \<Rightarrow> if rv \<noteq> 0 then Some (rv, a') else zone_for_each dname zname cb bs a')"

definition stats_zone_for_each_metric ::
  "string \<Rightarrow> 'a for_each_callback \<Rightarrow> 'h stats_zone \<Rightarrow> 'a \<Rightarrow> (int \<times> 'a) option" where
  "stats_zone_for_each_metric dname cb zone a = zone_for_each dname (zone_name zone) cb (zone_blocks zone) a"

subsection \<open>Domains\<close>

definition stats_domain_alloc :: "stats_domain_spec \<Rightarrow> 'h stats_domain" where
  "stats_domain_alloc spec =
     \<lparr>dom_spec = (if dspec_interval_ms spec = 0 then spec\<lparr>dspec_interval_ms := 1000\<rparr> else spec),
      dom_zones = [], dom_nvalues = 0, dom_running = False, dom_heap = (\<lambda>_. None)\<rparr>"

text \<open>
  The next zone of a traversal, with a reference taken on it; the reference on the current one
  is given back.  A zone that is no longer in the list has a NULL \<open>next\<close> pointer.
\<close>

definition stats_domain_get_next_zone ::
  "'h stats_domain \<Rightarrow> 'h \<Rightarrow> nat option \<Rightarrow> stats_stop + ('h stats_domain \<times> 'h \<times> nat option)" where
  "stats_domain_get_next_zone d h cur =
     (let nxt = (case cur of None \<Rightarrow> (case dom_zones d of [] \<Rightarrow> None | z # _ \<Rightarrow> Some z)
                 | Some z \<Rightarrow> next_zone (dom_zones d) z) in
      case stats_zone_get nxt d of Inl e \<Rightarrow> Inl e
      | Inr d1 \<Rightarrow>
        (case stats_zone_put cur d1 h of Inl e \<Rightarrow> Inl e
         | Inr (d2, h2) \<Rightarrow> Inr (d2, h2, nxt)))"

text \<open>
  The loop over the zones of a domain; the body says whether to leave the loop, in which case
  the reference on the current zone is given back.  \<open>None\<close> is no end within the fuel.
\<close>

fun domain_loop ::
  "nat \<Rightarrow> (nat \<Rightarrow> 'h stats_domain \<Rightarrow> 'h \<Rightarrow> 'a \<Rightarrow> stats_stop + ('h stats_domain \<times> 'h \<times> 'a \<times> bool)) \<Rightarrow>
   nat option \<Rightarrow> 'h stats_domain \<Rightarrow> 'h \<Rightarrow> 'a \<Rightarrow> (stats_stop + ('h stats_domain \<times> 'h \<times> 'a)) option" where
  "domain_loop 0 body cur d h a = None"
| "domain_loop (Suc fuel) body cur d h a =
     (case stats_domain_get_next_zone d h cur of Inl e \<Rightarrow> Some (Inl e)
      | Inr (d1, h1, None) \<Rightarrow> Some (Inr (d1, h1, a))
      | Inr (d1, h1, Some z) \<Rightarrow>
        (case body z d1 h1 a of Inl e \<Rightarrow> Some (Inl e)
         | Inr (d2, h2, a2, leave) \<Rightarrow>
           (if leave
            then (case stats_zone_put (Some z) d2 h2 of Inl e \<Rightarrow> Some (Inl e)
                  | Inr (d3, h3) \<Rightarrow> Some (Inr (d3, h3, a2)))
            else domain_loop fuel body (Some z) d2 h2 a2)))"

definition zones_fuel :: "'h stats_domain \<Rightarrow> nat" where
  "zones_fuel d = Suc (length (dom_zones d))"

definition stats_domain_stop :: "'h stats_domain \<Rightarrow> 'h stats_domain" where
  "stats_domain_stop d = d\<lparr>dom_running := False\<rparr>"

definition stats_domain_start :: "'h stats_domain \<Rightarrow> 'h stats_domain" where
  "stats_domain_start d = d\<lparr>dom_running := True\<rparr>"

text \<open>The state of the zones when the domain itself is released.\<close>

definition stats_domain_free ::
  "'h stats_domain \<Rightarrow> 'h \<Rightarrow> (stats_stop + ('h stats_domain \<times> 'h \<times> unit)) option" where
  "stats_domain_free d h =
     domain_loop (zones_fuel d)
       (\<lambda>z d h a. case stats_zone_put (Some z) d h of Inl e \<Rightarrow> Inl e | Inr (d1, h1) \<Rightarrow> Inr (d1, h1, a, False))
       None (stats_domain_stop d) h ()"

definition stats_domain_number_of_values :: "'h stats_domain \<Rightarrow> nat" where
  "stats_domain_number_of_values d = dom_nvalues d"

definition with_zone ::
  "('h stats_zone \<Rightarrow> 'a \<Rightarrow> stats_stop + ('a \<times> bool)) \<Rightarrow>
   nat \<Rightarrow> 'h stats_domain \<Rightarrow> 'h \<Rightarrow> 'a \<Rightarrow> stats_stop + ('h stats_domain \<times> 'h \<times> 'a \<times> bool)" where
  "with_zone f z d h a =
     (case dom_heap d z of None \<Rightarrow> Inl Undefined
      | Some zone \<Rightarrow> (case f zone a of Inl e \<Rightarrow> Inl e | Inr (a', leave) \<Rightarrow> Inr (d, h, a', leave)))"

definition stats_domain_get_values ::
  "'h stats_domain \<Rightarrow> 'h \<Rightarrow> nat \<Rightarrow> (stats_stop + ('h stats_domain \<times> 'h \<times> stats_metric_value list)) option" where
  "stats_domain_get_values d h nvalues =
     domain_loop (zones_fuel d)
       (with_zone (\<lambda>zone vs. let vs' = vs @ stats_zone_get_values zone (nvalues - length vs)
                             in Inr (vs', length vs' \<ge> nvalues)))
       None d h []"

definition stats_domain_update_metrics ::
  "'h stats_env \<Rightarrow> 'h stats_domain \<Rightarrow> 'h \<Rightarrow> (stats_stop + ('h stats_domain \<times> 'h \<times> unit)) option" where
  "stats_domain_update_metrics env d h =
     domain_loop (zones_fuel d)
       (\<lambda>z d h a. case stats_zone_update_metrics env z d h of Inl e \<Rightarrow> Inl e | Inr (d1, h1) \<Rightarrow> Inr (d1, h1, a, False))
       None d h ()"

definition stats_domain_clear_metrics ::
  "'h stats_env \<Rightarrow> 'c stats_clear_filter option \<Rightarrow> 'c \<Rightarrow> 'h stats_domain \<Rightarrow> 'h \<Rightarrow>
   (stats_stop + ('h stats_domain \<times> 'h \<times> 'c)) option" where
  "stats_domain_clear_metrics env flt c d h =
     domain_loop (zones_fuel d)
       (\<lambda>z d h c. case stats_zone_clear_metrics env flt c z d h of Inl e \<Rightarrow> Inl e
                  | Inr (c1, d1, h1) \<Rightarrow> Inr (d1, h1, c1, False))
       None d h c"

definition stats_domain_for_each_metric ::
  "'a for_each_callback \<Rightarrow> 'h stats_domain \<Rightarrow> 'h \<Rightarrow> 'a \<Rightarrow>
   (stats_stop + ('h stats_domain \<times> 'h \<times> (int \<times> 'a))) option" where
  "stats_domain_for_each_metric cb d h a =
     domain_loop (zones_fuel d)
       (with_zone (\<lambda>zone s. case stats_zone_for_each_metric (dspec_name (dom_spec d)) cb zone (snd s) of
                              None \<Rightarrow> Inl No_Return
                            | Some (rv, a') \<Rightarrow> Inr ((rv, a'), rv \<noteq> 0)))
       None d h (0, a)"

text \<open>One round of the collecting thread, which the domain runs while it is started.\<close>

definition stats_domain_thread_round ::
  "'h stats_env \<Rightarrow> 'h stats_domain \<Rightarrow> 'h \<Rightarrow> (stats_stop + ('h stats_domain \<times> 'h \<times> bool)) option" where
  "stats_domain_thread_round env d h =
     (if \<not> dom_running d then Some (Inr (d, h, False))
      else map_option (map_sum id (\<lambda>(d1, h1, _). (d1, h1, True))) (stats_domain_update_metrics env d h))"

end
