(* ===== verification/Opennic_Stats_Props.thy ===== *)
theory Opennic_Stats_Props
  imports Opennic_Stats
begin

text \<open>
  Correctness of the statistics library: what a counter holds after a sequence of updates and
  clears, that a traversal visits every zone of a domain once and in order and leaves the
  reference counts as they were, the bookkeeping of the number of values, and the life cycle
  of zones under the reference counts.
\<close>

subsection \<open>Counters, flags and gauges\<close>

definition update_sequence ::
  "stats_metric_type \<Rightarrow> bool \<Rightarrow> 64 word \<Rightarrow> (bool \<times> 64 word) list \<Rightarrow> 64 word \<times> 64 word \<Rightarrow> 64 word \<times> 64 word" where
  "update_sequence type cor init upds cur = foldl (\<lambda>c (clear, v). update_u64 type cor clear init v c) cur upds"

lemma counter_running:
  "update_sequence METRIC_COUNTER False init (map (Pair False) vs) (u, l) = (u + (last (l # vs) - l), last (l # vs))"
  by (induction vs arbitrary: u l) (auto simp: update_sequence_def update_u64_def)

lemma counter_clear_on_read:
  "update_sequence METRIC_COUNTER True init (map (Pair False) vs) (u, l) = (u + sum_list vs, l)"
  by (induction vs arbitrary: u l) (auto simp: update_sequence_def update_u64_def algebra_simps)

text \<open>
  Property C11.  After any history of updates, a counter holds its initial value plus what the
  device has counted since the counter was last cleared: for a running register the difference
  between its last value and its value at the clear, modulo \<open>2 ^ 64\<close>, for a register that is
  cleared when read the sum of the values read since.
\<close>
theorem counter_counts_since_clear:
  "fst (update_sequence METRIC_COUNTER cor init (before @ (True, c) # map (Pair False) vs) cur) =
     init + (if cor then sum_list vs else last (c # vs) - c)"
proof -
  obtain u l where cur: "update_sequence METRIC_COUNTER cor init before cur = (u, l)" by force
  have "update_sequence METRIC_COUNTER cor init (before @ (True, c) # map (Pair False) vs) cur =
        update_sequence METRIC_COUNTER cor init (map (Pair False) vs) (update_u64 METRIC_COUNTER cor True init c (u, l))"
    using cur by (simp add: update_sequence_def)
  also have "update_u64 METRIC_COUNTER cor True init c (u, l) = (init, if cor then l else c)"
    by (simp add: update_u64_def)
  finally show ?thesis using counter_running [of init vs init c] counter_clear_on_read [of init vs init l]
    by (cases cor) simp_all
qed

lemma length_update_elements:
  "length vs = length es \<Longrightarrow> length (update_elements conv mspec clear n vs es) = length es"
  by (induction vs es arbitrary: n rule: list_induct2) simp_all

lemma nth_update_elements:
  "length vs = length es \<Longrightarrow> i < length es \<Longrightarrow>
     update_elements conv mspec clear n vs es ! i = update_element conv mspec (clear (n + i)) (vs ! i) (es ! i)"
proof (induction vs es arbitrary: n i rule: list_induct2)
  case (Cons v vs e es)
  then show ?case by (cases i) simp_all
qed simp

text \<open>
  An update of a block without a filter never clears a metric, whatever its type
  and flags: flags become 0 or 1, gauges take the value read, counters accumulate.
\<close>
lemma update_without_filter:
  assumes "update_metric env bspec (None :: unit stats_clear_filter option) h () m = Inr (c', m')"
    and "bspec_read_metric bspec = Some rd" and "length (rd h (met_spec m) (length (met_elements m))) = length (met_elements m)"
    and "i < length (met_elements m)" and "mspec_type (met_spec m) \<noteq> METRIC_COUNTER"
  shows "val_u64 (el_value (met_elements m' ! i)) =
           (let v = rd h (met_spec m) (length (met_elements m)) ! i
            in if mspec_type (met_spec m) = METRIC_FLAG then (if v = 0 then 0 else 1) else v)"
  using assms
  by (cases "mspec_type (met_spec m)")
     (auto simp: update_metric_def Let_def clear_decision_def nth_update_elements update_element_def update_u64_def)

subsection \<open>Traversing the zones of a domain\<close>

definition zones_wf :: "'h stats_domain \<Rightarrow> bool" where
  "zones_wf d \<longleftrightarrow>
     distinct (dom_zones d) \<and>
     (\<forall>z \<in> set (dom_zones d). \<exists>zone. dom_heap d z = Some zone \<and> zone_attached zone \<and> zone_ref_count zone \<noteq> - 1)"

text \<open>A body that works on the blocks of the current zone and leaves everything else alone.\<close>

definition zone_body ::
  "('h stats_zone \<Rightarrow> 'h \<Rightarrow> 'a \<Rightarrow> stats_stop + ('h stats_block list \<times> 'h \<times> 'a \<times> bool)) \<Rightarrow>
   nat \<Rightarrow> 'h stats_domain \<Rightarrow> 'h \<Rightarrow> 'a \<Rightarrow> stats_stop + ('h stats_domain \<times> 'h \<times> 'a \<times> bool)" where
  "zone_body g z d h a =
     (case dom_heap d z of None \<Rightarrow> Inl Undefined
      | Some zone \<Rightarrow>
        (case g zone h a of Inl e \<Rightarrow> Inl e
         | Inr (bs, h', a', leave) \<Rightarrow>
             Inr (heap_update z (Some (zone\<lparr>zone_blocks := bs\<rparr>)) d, h', a', leave)))"

fun run_zones ::
  "(nat \<Rightarrow> 'h stats_domain \<Rightarrow> 'h \<Rightarrow> 'a \<Rightarrow> stats_stop + ('h stats_domain \<times> 'h \<times> 'a \<times> bool)) \<Rightarrow>
   nat list \<Rightarrow> 'h stats_domain \<Rightarrow> 'h \<Rightarrow> 'a \<Rightarrow> stats_stop + ('h stats_domain \<times> 'h \<times> 'a)" where
  "run_zones body [] d h a = Inr (d, h, a)"
| "run_zones body (z # zs) d h a =
     (case body z d h a of Inl e \<Rightarrow> Inl e
      | Inr (d1, h1, a1, leave) \<Rightarrow> if leave then Inr (d1, h1, a1) else run_zones body zs d1 h1 a1)"

text \<open>The domain while the traversal holds a reference on zone \<open>z\<close>.\<close>

definition held :: "nat \<Rightarrow> 'h stats_domain \<Rightarrow> 'h stats_domain" where
  "held z d = heap_update z (map_option (\<lambda>zone. zone\<lparr>zone_ref_count := zone_ref_count zone + 1\<rparr>) (dom_heap d z)) d"

lemma heap_update_sel [simp]:
  "dom_zones (heap_update z v d) = dom_zones d" "dom_spec (heap_update z v d) = dom_spec d"
  "dom_nvalues (heap_update z v d) = dom_nvalues d" "dom_running (heap_update z v d) = dom_running d"
  "dom_heap (heap_update z v d) = (dom_heap d)(z := v)"
  by (simp_all add: heap_update_def)

lemma held_sel [simp]:
  "dom_zones (held z d) = dom_zones d" "dom_spec (held z d) = dom_spec d"
  by (simp_all add: held_def)

lemma domain_eqI:
  fixes d e :: "'h stats_domain"
  assumes "dom_spec d = dom_spec e" "dom_zones d = dom_zones e" "dom_nvalues d = dom_nvalues e"
    "dom_running d = dom_running e" "dom_heap d = dom_heap e"
  shows "d = e"
  using assms by simp

lemma next_zone_mid:
  "z \<notin> set pre \<Longrightarrow> next_zone (pre @ z # zs) z = (case zs of [] \<Rightarrow> None | y # _ \<Rightarrow> Some y)"
proof -
  assume "z \<notin> set pre"
  then have "dropWhile (\<lambda>x. x \<noteq> z) (pre @ z # zs) = z # zs" by (subst dropWhile_append2) auto
  then show ?thesis by (simp add: next_zone_def split: list.splits)
qed

lemma put_held:
  assumes "dom_heap d z = Some zone" and "zone_ref_count zone \<noteq> - 1"
  shows "stats_zone_put (Some z) (held z d) h = Inr (d, h)"
proof -
  have "zone_ref_count zone + 1 \<noteq> 0" using assms(2) by (metis add_eq_0_iff2 minus_unique)
  moreover have "heap_update z (Some (zone\<lparr>zone_ref_count := zone_ref_count zone + 1 - 1\<rparr>)) (held z d) = d"
    using assms(1) by (intro domain_eqI) (auto simp: held_def)
  ultimately show ?thesis using assms(1) by (simp add: stats_zone_put_def held_def Let_def)
qed

lemma get_is_held: "dom_heap d z = Some zone \<Longrightarrow> stats_zone_get (Some z) d = Inr (held z d)"
  by (simp add: stats_zone_get_def held_def)

lemma held_commute:
  assumes "y \<noteq> z"
  shows "held y (held z d) = held z (held y d)"
  using assms by (intro domain_eqI) (auto simp: held_def)

locale zone_traversal =
  fixes body :: "nat \<Rightarrow> 'h stats_domain \<Rightarrow> 'h \<Rightarrow> 'a \<Rightarrow> stats_stop + ('h stats_domain \<times> 'h \<times> 'a \<times> bool)"
    and g :: "'h stats_zone \<Rightarrow> 'h \<Rightarrow> 'a \<Rightarrow> stats_stop + ('h stats_block list \<times> 'h \<times> 'a \<times> bool)"
    and spec :: stats_domain_spec
  assumes body_blocks: "dom_spec d = spec \<Longrightarrow> body z d h a = zone_body g z d h a"
    and ref_irrelevant: "g (zone\<lparr>zone_ref_count := r\<rparr>) h a = g zone h a"
begin

lemma body_held:
  assumes "dom_spec d = spec" and "dom_heap d z = Some zone"
  shows "body z (held z d) h a =
           (case body z d h a of Inl e \<Rightarrow> Inl e | Inr (d1, h1, a1, leave) \<Rightarrow> Inr (held z d1, h1, a1, leave))"
proof -
  have "heap_update z (Some (zone\<lparr>zone_ref_count := zone_ref_count zone + 1, zone_blocks := bs\<rparr>)) (held z d) =
        held z (heap_update z (Some (zone\<lparr>zone_blocks := bs\<rparr>)) d)" for bs
    using assms(2) by (intro domain_eqI) (auto simp: held_def)
  moreover have "body z d h a = zone_body g z d h a" using assms(1) by (rule body_blocks)
  moreover have "body z (held z d) h a = zone_body g z (held z d) h a" using assms(1) by (intro body_blocks) simp
  moreover have "dom_heap (held z d) z = Some (zone\<lparr>zone_ref_count := zone_ref_count zone + 1\<rparr>)"
    using assms(2) by (simp add: held_def)
  ultimately show ?thesis using assms(2)
    by (auto simp: zone_body_def ref_irrelevant split: sum.splits)
qed

lemma body_keeps:
  assumes "dom_spec d = spec" and "zones_wf d" and "z \<in> set (dom_zones d)" and "body z d h a = Inr (d1, h1, a1, leave)"
  shows "dom_zones d1 = dom_zones d \<and> dom_spec d1 = spec \<and> zones_wf d1 \<and> dom_nvalues d1 = dom_nvalues d"
proof -
  obtain zone where zone: "dom_heap d z = Some zone" "zone_attached zone" "zone_ref_count zone \<noteq> - 1"
    using assms(2,3) by (auto simp: zones_wf_def)
  then obtain bs where "d1 = heap_update z (Some (zone\<lparr>zone_blocks := bs\<rparr>)) d"
    using assms(4) body_blocks [OF assms(1), of z h a] by (auto simp: zone_body_def split: sum.splits)
  then show ?thesis using assms(1,2) zone by (auto simp: zones_wf_def)
qed

lemma loop_from:
  assumes "dom_spec d = spec" and "zones_wf d" and "dom_zones d = pre @ z # zs" and "length zs < fuel"
  shows "domain_loop fuel body (Some z) (held z d) h a = Some (run_zones body zs d h a)"
  using assms
proof (induction zs arbitrary: fuel d pre z h a)
  case Nil
  then obtain k where "fuel = Suc k" by (cases fuel) auto
  moreover obtain zone where "dom_heap d z = Some zone" "zone_ref_count zone \<noteq> - 1"
    using Nil.prems by (auto simp: zones_wf_def)
  moreover have "z \<notin> set pre" using Nil.prems by (simp add: zones_wf_def)
  ultimately show ?case using Nil.prems put_held [of d z zone h]
    by (simp add: stats_domain_get_next_zone_def next_zone_mid stats_zone_get_def)
next
  case (Cons y ys)
  then obtain k where k: "fuel = Suc k" by (cases fuel) auto
  have ny: "y \<noteq> z" and nz: "z \<notin> set pre" using Cons.prems by (auto simp: zones_wf_def)
  obtain zone where zone: "dom_heap d z = Some zone" "zone_ref_count zone \<noteq> - 1"
    using Cons.prems by (auto simp: zones_wf_def)
  obtain yone where yone: "dom_heap d y = Some yone" "zone_ref_count yone \<noteq> - 1"
    using Cons.prems by (auto simp: zones_wf_def)
  have "dom_heap (held y d) z = Some zone" using zone ny by (simp add: held_def)
  then have nxt: "stats_domain_get_next_zone (held z d) h (Some z) = Inr (held y d, h, Some y)"
    using Cons.prems(3) nz yone ny get_is_held [of "held z d" y yone] put_held [of "held y d" z zone h] zone
    by (simp add: stats_domain_get_next_zone_def next_zone_mid held_commute [OF ny])
       (simp add: held_def)
  note bh = body_held [OF Cons.prems(1) yone(1), of h a]
  show ?case
  proof (cases "body y d h a")
    case (Inl e)
    then show ?thesis using k nxt bh by simp
  next
    case (Inr r)
    obtain d1 h1 a1 leave where r: "r = (d1, h1, a1, leave)" by (cases r) auto
    have keep: "dom_zones d1 = dom_zones d" "dom_spec d1 = spec" "zones_wf d1"
      using body_keeps [OF Cons.prems(1,2) _ Inr [unfolded r]] Cons.prems(3) by auto
    have d1y: "\<exists>yone1. dom_heap d1 y = Some yone1 \<and> zone_ref_count yone1 \<noteq> - 1"
      using keep(1,3) Cons.prems(3) by (auto simp: zones_wf_def)
    show ?thesis
    proof (cases leave)
      case True
      then show ?thesis using k nxt bh Inr r d1y put_held by fastforce
    next
      case False
      have "domain_loop k body (Some y) (held y d1) h1 a1 = Some (run_zones body ys d1 h1 a1)"
        using Cons.IH [OF keep(2,3), of "pre @ [z]" y k] keep(1) Cons.prems(3,4) k by simp
      then show ?thesis using k nxt bh Inr r False by simp
    qed
  qed
qed

lemma loop_all:
  assumes "dom_spec d = spec" and "zones_wf d" and "length (dom_zones d) < fuel"
  shows "domain_loop fuel body None d h a = Some (run_zones body (dom_zones d) d h a)"
proof (cases "dom_zones d")
  case Nil
  then show ?thesis using assms(3)
    by (cases fuel) (simp_all add: stats_domain_get_next_zone_def stats_zone_get_def stats_zone_put_def)
next
  case (Cons y ys)
  then obtain yone where yone: "dom_heap d y = Some yone" "zone_ref_count yone \<noteq> - 1"
    using assms(2) by (auto simp: zones_wf_def)
  obtain k where k: "fuel = Suc k" using assms(3) by (cases fuel) auto
  have nxt: "stats_domain_get_next_zone d h None = Inr (held y d, h, Some y)"
    using Cons get_is_held [OF yone(1)] by (simp add: stats_domain_get_next_zone_def stats_zone_put_def)
  note bh = body_held [OF assms(1) yone(1), of h a]
  show ?thesis
  proof (cases "body y d h a")
    case (Inl e)
    then show ?thesis using k nxt bh Cons by simp
  next
    case (Inr r)
    obtain d1 h1 a1 leave where r: "r = (d1, h1, a1, leave)" by (cases r) auto
    have keep: "dom_zones d1 = dom_zones d" "dom_spec d1 = spec" "zones_wf d1"
      using body_keeps [OF assms(1,2) _ Inr [unfolded r]] Cons by auto
    have d1y: "\<exists>yone1. dom_heap d1 y = Some yone1 \<and> zone_ref_count yone1 \<noteq> - 1"
      using keep(1,3) Cons by (auto simp: zones_wf_def)
    show ?thesis
    proof (cases leave)
      case True
      then show ?thesis using k nxt bh Inr r d1y Cons put_held by fastforce
    next
      case False
      have "domain_loop k body (Some y) (held y d1) h1 a1 = Some (run_zones body ys d1 h1 a1)"
        using loop_from [OF keep(2,3), of "[]" y ys k] keep(1) Cons assms(3) k by simp
      then show ?thesis using k nxt bh Inr r False Cons by simp
    qed
  qed
qed

end

subsection \<open>The four traversals of a domain\<close>

definition update_body ::
  "'h stats_env \<Rightarrow> nat \<Rightarrow> 'h stats_domain \<Rightarrow> 'h \<Rightarrow> unit \<Rightarrow> stats_stop + ('h stats_domain \<times> 'h \<times> unit \<times> bool)" where
  "update_body env z d h a =
     (case stats_zone_update_metrics env z d h of Inl e \<Rightarrow> Inl e | Inr (d1, h1) \<Rightarrow> Inr (d1, h1, a, False))"

definition clear_body ::
  "'h stats_env \<Rightarrow> 'c stats_clear_filter option \<Rightarrow> nat \<Rightarrow> 'h stats_domain \<Rightarrow> 'h \<Rightarrow> 'c \<Rightarrow>
   stats_stop + ('h stats_domain \<times> 'h \<times> 'c \<times> bool)" where
  "clear_body env flt z d h c =
     (case stats_zone_clear_metrics env flt c z d h of Inl e \<Rightarrow> Inl e | Inr (c1, d1, h1) \<Rightarrow> Inr (d1, h1, c1, False))"

definition get_values_step :: "nat \<Rightarrow> 'h stats_zone \<Rightarrow> stats_metric_value list \<Rightarrow> stats_stop + (stats_metric_value list \<times> bool)" where
  "get_values_step nvalues zone vs =
     (let vs' = vs @ stats_zone_get_values zone (nvalues - length vs) in Inr (vs', length vs' \<ge> nvalues))"

definition for_each_step ::
  "string \<Rightarrow> 'a for_each_callback \<Rightarrow> 'h stats_zone \<Rightarrow> int \<times> 'a \<Rightarrow> stats_stop + ((int \<times> 'a) \<times> bool)" where
  "for_each_step dname cb zone s =
     (case stats_zone_for_each_metric dname cb zone (snd s) of None \<Rightarrow> Inl No_Return
      | Some (rv, a') \<Rightarrow> Inr ((rv, a'), rv \<noteq> 0))"

lemma same_blocks: "zone\<lparr>zone_blocks := zone_blocks zone\<rparr> = zone"
  by simp

lemma heap_same: "dom_heap d z = Some zone \<Longrightarrow> heap_update z (Some zone) d = d"
  by (intro domain_eqI) auto

definition read_step ::
  "('h stats_zone \<Rightarrow> 'a \<Rightarrow> stats_stop + ('a \<times> bool)) \<Rightarrow>
   'h stats_zone \<Rightarrow> 'h \<Rightarrow> 'a \<Rightarrow> stats_stop + ('h stats_block list \<times> 'h \<times> 'a \<times> bool)" where
  "read_step f zone h a = (case f zone a of Inl e \<Rightarrow> Inl e | Inr (a', leave) \<Rightarrow> Inr (zone_blocks zone, h, a', leave))"

lemma with_zone_body: "with_zone f z d h a = zone_body (read_step f) z d h a"
  by (auto simp: with_zone_def zone_body_def read_step_def heap_same split: option.splits sum.splits prod.splits)

interpretation get_values_loop: zone_traversal "with_zone (get_values_step n)" "read_step (get_values_step n)" spec for n spec
  by unfold_locales (auto simp: with_zone_body read_step_def get_values_step_def stats_zone_get_values_def Let_def)

interpretation for_each_loop: zone_traversal "with_zone (for_each_step dname cb)" "read_step (for_each_step dname cb)" spec
  for dname and cb :: "'a for_each_callback" and spec
  by unfold_locales
     (auto simp: with_zone_body read_step_def for_each_step_def stats_zone_for_each_metric_def split: sum.splits option.splits)

definition update_step ::
  "'h stats_env \<Rightarrow> string \<Rightarrow> 'h stats_zone \<Rightarrow> 'h \<Rightarrow> unit \<Rightarrow> stats_stop + ('h stats_block list \<times> 'h \<times> unit \<times> bool)" where
  "update_step env dname zone h a =
     (if \<not> zone_enabled zone then Inr (zone_blocks zone, h, a, False)
      else case update_blocks (env\<lparr>env_domain := dname, env_zone := zone_name zone\<rparr>)
                  (None :: unit stats_clear_filter option) () (zone_blocks zone) h of
        Inl e \<Rightarrow> Inl e | Inr (_, bs, h1) \<Rightarrow> Inr (bs, h1, a, False))"

definition clear_step ::
  "'h stats_env \<Rightarrow> 'c stats_clear_filter option \<Rightarrow> string \<Rightarrow> 'h stats_zone \<Rightarrow> 'h \<Rightarrow> 'c \<Rightarrow>
   stats_stop + ('h stats_block list \<times> 'h \<times> 'c \<times> bool)" where
  "clear_step env flt dname zone h c =
     (case update_blocks (env\<lparr>env_domain := dname, env_zone := zone_name zone\<rparr>)
             (Some (case flt of None \<Rightarrow> clear_all_filter | Some f \<Rightarrow> f)) c (zone_blocks zone) h of
        Inl e \<Rightarrow> Inl e | Inr (c1, bs, h1) \<Rightarrow> Inr (bs, h1, c1, False))"

interpretation update_loop: zone_traversal "update_body env" "update_step env (dspec_name spec)" spec for env spec
  by unfold_locales
     (auto simp: update_body_def zone_body_def update_step_def stats_zone_update_metrics_def env_of_def heap_same
        split: option.splits sum.splits prod.splits)

interpretation clear_loop: zone_traversal "clear_body env flt" "clear_step env flt (dspec_name spec)" spec for env flt spec
  by unfold_locales
     (auto simp: clear_body_def zone_body_def clear_step_def stats_zone_clear_metrics_def env_of_def Let_def
        split: option.splits sum.splits prod.splits)

lemma domain_ops_loops:
  "stats_domain_get_values d h n = domain_loop (zones_fuel d) (with_zone (get_values_step n)) None d h []"
  "stats_domain_for_each_metric cb d h a =
     domain_loop (zones_fuel d) (with_zone (for_each_step (dspec_name (dom_spec d)) cb)) None d h (0, a)"
  "stats_domain_update_metrics env d h = domain_loop (zones_fuel d) (update_body env) None d h ()"
  "stats_domain_clear_metrics env flt c d h = domain_loop (zones_fuel d) (clear_body env flt) None d h c"
  by (simp_all add: stats_domain_get_values_def stats_domain_for_each_metric_def stats_domain_update_metrics_def
      stats_domain_clear_metrics_def get_values_step_def [abs_def] for_each_step_def [abs_def] update_body_def [abs_def]
      clear_body_def [abs_def])

lemma domain_loops_run:
  assumes "zones_wf d"
  shows "stats_domain_get_values d h n = Some (run_zones (with_zone (get_values_step n)) (dom_zones d) d h [])"
    and "stats_domain_for_each_metric cb d h a =
           Some (run_zones (with_zone (for_each_step (dspec_name (dom_spec d)) cb)) (dom_zones d) d h (0, a))"
    and "stats_domain_update_metrics env d h = Some (run_zones (update_body env) (dom_zones d) d h ())"
    and "stats_domain_clear_metrics env flt c d h = Some (run_zones (clear_body env flt) (dom_zones d) d h c)"
proof -
  have fuel: "length (dom_zones d) < zones_fuel d" by (simp add: zones_fuel_def)
  note rules = get_values_loop.loop_all for_each_loop.loop_all update_loop.loop_all clear_loop.loop_all
  show "stats_domain_get_values d h n = Some (run_zones (with_zone (get_values_step n)) (dom_zones d) d h [])"
    "stats_domain_for_each_metric cb d h a =
       Some (run_zones (with_zone (for_each_step (dspec_name (dom_spec d)) cb)) (dom_zones d) d h (0, a))"
    "stats_domain_update_metrics env d h = Some (run_zones (update_body env) (dom_zones d) d h ())"
    "stats_domain_clear_metrics env flt c d h = Some (run_zones (clear_body env flt) (dom_zones d) d h c)"
    unfolding domain_ops_loops by (rule rules [OF refl assms fuel])+
qed

text \<open>The zones of a domain in the order of its list.\<close>

definition domain_zones :: "'h stats_domain \<Rightarrow> 'h stats_zone list" where
  "domain_zones d = map (\<lambda>z. the (dom_heap d z)) (dom_zones d)"

definition zone_values :: "'h stats_zone \<Rightarrow> stats_metric_value list" where
  "zone_values zone = concat (map (\<lambda>b. concat (map (\<lambda>m. map el_value (met_elements m)) (blk_metrics b))) (zone_blocks zone))"

lemma metric_get_values: "stats_metric_get_values m n = take n (map el_value (met_elements m))"
  by (auto simp: stats_metric_get_values_def Let_def take_map)

lemma block_get_values_take: "block_get_values ms n = take n (concat (map (\<lambda>m. map el_value (met_elements m)) ms))"
  by (induction ms arbitrary: n) (auto simp: metric_get_values Let_def min_def)

lemma zone_get_values_take: "stats_zone_get_values zone n = take n (zone_values zone)"
proof -
  have "zone_get_values bs n = take n (concat (map (\<lambda>b. concat (map (\<lambda>m. map el_value (met_elements m)) (blk_metrics b))) bs))" for bs n
    by (induction bs arbitrary: n) (auto simp: stats_block_get_values_def block_get_values_take Let_def min_def)
  then show ?thesis by (simp add: stats_zone_get_values_def zone_values_def)
qed

lemma run_read_zones:
  assumes "\<forall>z \<in> set zs. dom_heap d z \<noteq> None"
  shows "length acc < n \<or> zs = [] \<Longrightarrow> length acc \<le> n \<Longrightarrow>
    run_zones (with_zone (get_values_step n)) zs d h acc =
      Inr (d, h, take n (acc @ concat (map (\<lambda>z. zone_values (the (dom_heap d z))) zs)))"
  using assms
proof (induction zs arbitrary: acc)
  case (Cons z zs)
  then obtain zone where z: "dom_heap d z = Some zone" by auto
  define acc1 where "acc1 = acc @ take (n - length acc) (zone_values zone)"
  have step: "with_zone (get_values_step n) z d h acc = Inr (d, h, acc1, length acc1 \<ge> n)"
    by (simp add: with_zone_def z get_values_step_def Let_def zone_get_values_take acc1_def)
  have le: "length acc1 \<le> n" using Cons.prems(2) by (simp add: acc1_def)
  have eq: "take n (acc1 @ ys) = take n (acc @ zone_values zone @ ys)" if "length acc1 < n" for ys
    using that by (auto simp: acc1_def min_def split: if_splits)
  show ?case
  proof (cases "length acc1 \<ge> n")
    case True
    then have "acc1 = take n (acc @ zone_values zone @ ys)" for ys
      using Cons.prems(2) by (auto simp: acc1_def min_def split: if_splits)
    then show ?thesis using step True z by simp
  next
    case False
    then show ?thesis using step z Cons.IH [of acc1] Cons.prems(3) le eq by simp
  qed
qed simp

text \<open>
  Reading the values of a domain into a buffer of \<open>n\<close> entries returns, whatever the
  number of zones, the first \<open>n\<close> values of all its zones, blocks, metrics and elements in order,
  and leaves the domain as it was: every reference that the traversal takes is given back.
\<close>
lemma domain_get_values_spec:
  assumes "zones_wf d" and "0 < n"
  shows "stats_domain_get_values d h n = Some (Inr (d, h, take n (concat (map zone_values (domain_zones d)))))"
proof -
  have "\<forall>z \<in> set (dom_zones d). dom_heap d z \<noteq> None" using assms(1) by (auto simp: zones_wf_def)
  then show ?thesis using assms(2) run_read_zones [of "dom_zones d" d "[]" n h]
    by (simp add: domain_loops_run(1) [OF assms(1)] domain_zones_def comp_def)
qed

subsection \<open>The number of values\<close>

definition spec_elements :: "stats_metric_spec \<Rightarrow> nat" where
  "spec_elements ms = (if STATS_METRIC_FLAG_TEST (mspec_flags ms) ARRAY then mspec_nelements ms else 1)"

text \<open>
  A callback that reads the metrics of a block gives each of them as many values as it has elements.  Nothing is asked of metrics
  that are not in the block, nor of other numbers of values.
\<close>

definition fills :: "'h stats_block_spec \<Rightarrow> stats_metric_spec \<Rightarrow> nat \<Rightarrow> bool" where
  "fills spec ms n \<longleftrightarrow> (\<forall>rd h. bspec_read_metric spec = Some rd \<longrightarrow> length (rd h ms n) = n)"

definition reads_all :: "'h stats_block_spec \<Rightarrow> bool" where
  "reads_all spec \<longleftrightarrow> (\<forall>ms \<in> set (bspec_metrics spec). \<forall>ls. fills spec (ms\<lparr>mspec_labels := ls\<rparr>) (spec_elements ms))"

definition metric_fills :: "'h stats_block_spec \<Rightarrow> stats_metric \<Rightarrow> bool" where
  "metric_fills spec m \<longleftrightarrow> fills spec (met_spec m) (length (met_elements m))"

definition block_ok :: "'h stats_block \<Rightarrow> bool" where
  "block_ok b \<longleftrightarrow> blk_nvalues b = metrics_nvalues (blk_metrics b) \<and> (\<forall>m \<in> set (blk_metrics b). metric_fills (blk_spec b) m)"

definition zone_ok :: "'h stats_zone \<Rightarrow> bool" where
  "zone_ok zone \<longleftrightarrow> zone_nvalues zone = blocks_nvalues (zone_blocks zone) \<and> (\<forall>b \<in> set (zone_blocks zone). block_ok b)"

definition domain_ok :: "'h stats_domain \<Rightarrow> bool" where
  "domain_ok d \<longleftrightarrow>
     distinct (dom_zones d) \<and>
     (\<forall>z \<in> set (dom_zones d). \<exists>zone. dom_heap d z = Some zone \<and> zone_attached zone \<and> zone_ref_count zone \<in> {0, 1} \<and> zone_ok zone) \<and>
     dom_nvalues d = sum_list (map zone_nvalues (domain_zones d))"

lemma domain_ok_zones_wf: "domain_ok d \<Longrightarrow> zones_wf d"
proof -
  have "(0::32 word) \<noteq> - 1" "(1::32 word) \<noteq> - 1" by simp_all
  then show "domain_ok d \<Longrightarrow> zones_wf d" by (fastforce simp: domain_ok_def zones_wf_def)
qed

lemma update_metric_length:
  assumes "metric_fills spec m" and "update_metric env spec flt h c m = Inr (c', m')"
  shows "length (met_elements m') = length (met_elements m)" and "met_spec m' = met_spec m"
proof -
  obtain vs where v: "(case bspec_read_metric spec of Some rd \<Rightarrow> Inr (rd h (met_spec m) (length (met_elements m)))
      | None \<Rightarrow> stats_metric_read (env_mem env) h (bspec_io_base spec) m) = Inr vs"
    using assms(2) by (auto simp: update_metric_def Let_def split: sum.splits)
  then have "length vs = length (met_elements m)"
    using assms(1) by (auto simp: metric_fills_def fills_def stats_metric_read_def Let_def split: option.splits if_splits)
  then show "length (met_elements m') = length (met_elements m)" and "met_spec m' = met_spec m"
    using assms(2) v by (auto simp: update_metric_def Let_def length_update_elements split: sum.splits)
qed

lemma update_metrics_shape:
  "\<forall>m \<in> set ms. metric_fills spec m \<Longrightarrow> update_metrics env spec flt h c ms = Inr (c', ms') \<Longrightarrow>
     list_all2 (\<lambda>m m'. met_spec m' = met_spec m \<and> length (met_elements m') = length (met_elements m)) ms ms'"
proof (induction ms arbitrary: c c' ms')
  case (Cons m ms)
  then obtain c1 m1 ms1 where "update_metric env spec flt h c m = Inr (c1, m1)"
    "update_metrics env spec flt h c1 ms = Inr (c', ms1)" "ms' = m1 # ms1"
    by (auto split: sum.splits)
  then show ?case using Cons.IH update_metric_length [of spec m] Cons.prems(1) by auto
qed simp

lemma same_shape_fills:
  assumes "list_all2 (\<lambda>m m'. met_spec m' = met_spec m \<and> length (met_elements m') = length (met_elements m)) ms ms'"
    and "\<forall>m \<in> set ms. metric_fills spec m"
  shows "(\<forall>m \<in> set ms'. metric_fills spec m) \<and> metrics_nvalues ms' = metrics_nvalues ms"
  using assms by (induction rule: list_all2_induct) (auto simp: metric_fills_def metrics_nvalues_def)

lemma update_block_ok:
  assumes "block_ok b" and "stats_block_update_metrics env flt c b h = Inr (c', b', h')"
  shows "block_ok b' \<and> blk_nvalues b' = blk_nvalues b"
proof -
  obtain ms h1 where u: "update_metrics env (blk_spec b) flt h1 c (blk_metrics b) = Inr (c', ms)"
    and b': "b' = b\<lparr>blk_metrics := ms, blk_last_update := env_clock env h\<rparr>"
    using assms(2) by (auto simp: stats_block_update_metrics_def Let_def split: sum.splits)
  have f: "\<forall>m \<in> set (blk_metrics b). metric_fills (blk_spec b) m" using assms(1) by (simp add: block_ok_def)
  from same_shape_fills [OF update_metrics_shape [OF f u] f] show ?thesis
    using assms(1) b' by (simp add: block_ok_def)
qed

lemma update_blocks_ok:
  "\<forall>b \<in> set bs. block_ok b \<Longrightarrow> update_blocks env flt c bs h = Inr (c', bs', h') \<Longrightarrow>
     (\<forall>b \<in> set bs'. block_ok b) \<and> blocks_nvalues bs' = blocks_nvalues bs"
proof (induction bs arbitrary: c h bs' c' h')
  case (Cons b bs)
  then obtain c1 b1 h1 bs2 where
    1: "stats_block_update_metrics env flt c b h = Inr (c1, b1, h1)"
    and 2: "update_blocks env flt c1 bs h1 = Inr (c', bs2, h')" and bs': "bs' = b1 # bs2"
    by (auto split: sum.splits)
  then show ?case using update_block_ok [OF _ 1] Cons.IH [OF _ 2] Cons.prems(1) by (simp add: blocks_nvalues_def)
qed simp

lemma attach_elements_length [simp]: "length (attach_elements f ls n es) = length es"
  by (induction es arbitrary: n) simp_all

lemma attach_nvalues [simp]: "metrics_nvalues (map (stats_metric_attach dn zn bn) ms) = metrics_nvalues ms"
  by (simp add: metrics_nvalues_def stats_metric_attach_def comp_def)

lemma attach_fills [simp]: "metric_fills spec (stats_metric_attach dn zn bn m) = metric_fills spec m"
  by (simp add: metric_fills_def stats_metric_attach_def)

lemma attach_blocks_ok:
  "\<forall>b \<in> set bs. blk_nvalues b = 0 \<and> (\<forall>m \<in> set (blk_metrics b). metric_fills (blk_spec b) m) \<Longrightarrow>
     attach_blocks dn zn bs h = (bs', h') \<Longrightarrow> \<forall>b \<in> set bs'. block_ok b"
  by (induction bs arbitrary: h bs') (auto simp: stats_block_attach_def block_ok_def Let_def split: prod.splits)

lemma metric_alloc_fills:
  assumes "stats_metric_alloc ms = Inr m" and "\<forall>ls. fills spec (ms\<lparr>mspec_labels := ls\<rparr>) (spec_elements ms)"
  shows "metric_fills spec m"
  using assms by (auto simp: stats_metric_alloc_def spec_elements_def metric_fills_def Let_def split: if_splits sum.splits)

lemma alloc_all_fills:
  "alloc_all stats_metric_alloc mss = Inr ms \<Longrightarrow>
     \<forall>s \<in> set mss. \<forall>ls. fills spec (s\<lparr>mspec_labels := ls\<rparr>) (spec_elements s) \<Longrightarrow> \<forall>m \<in> set ms. metric_fills spec m"
  by (induction mss arbitrary: ms) (auto intro: metric_alloc_fills split: sum.splits)

lemma fills_spec [simp]: "metric_fills (spec\<lparr>bspec_metrics := xs\<rparr>) m = metric_fills spec m"
  by (simp add: metric_fills_def fills_def)

lemma alloc_blocks_fresh:
  "alloc_all stats_block_alloc specs = Inr bs \<Longrightarrow> \<forall>s \<in> set specs. reads_all s \<Longrightarrow>
     \<forall>b \<in> set bs. blk_nvalues b = 0 \<and> (\<forall>m \<in> set (blk_metrics b). metric_fills (blk_spec b) m)"
proof (induction specs arbitrary: bs)
  case (Cons s specs)
  then obtain b bs1 where 1: "stats_block_alloc s = Inr b" "alloc_all stats_block_alloc specs = Inr bs1" "bs = b # bs1"
    by (auto split: sum.splits)
  then obtain ms where "alloc_all stats_metric_alloc (bspec_metrics s) = Inr ms"
    "b = \<lparr>blk_spec = s\<lparr>bspec_metrics := []\<rparr>, blk_metrics = ms, blk_nvalues = 0, blk_last_update = 0\<rparr>"
    by (auto simp: stats_block_alloc_def split: sum.splits)
  with 1 show ?case using Cons.IH Cons.prems(2) alloc_all_fills [of "bspec_metrics s" ms s] by (simp add: reads_all_def)
qed simp

text \<open>
  What the clients of a domain and its collecting thread do, one operation at a time; a clearing starts from the context \<open>c\<close> of its
  filter.  Between the operations the device and everything else that is not the domain may change.
\<close>

inductive domain_step :: "'h stats_env \<Rightarrow> 'c \<Rightarrow> 'h stats_domain \<times> 'h \<Rightarrow> 'h stats_domain \<times> 'h \<Rightarrow> bool" for env c where
  step_alloc: "z \<notin> set (dom_zones d) \<Longrightarrow> \<forall>b \<in> set (zspec_blocks spec). reads_all b \<Longrightarrow>
     stats_zone_alloc z spec d h = Inr (d', h') \<Longrightarrow> domain_step env c (d, h) (d', h')"
| step_free: "z \<in> set (dom_zones d) \<Longrightarrow> stats_zone_free (Some z) d h = Inr (d', h') \<Longrightarrow> domain_step env c (d, h) (d', h')"
| step_enable: "z \<in> set (dom_zones d) \<Longrightarrow> stats_zone_enable z d = Inr d' \<Longrightarrow> domain_step env c (d, h) (d', h)"
| step_disable: "z \<in> set (dom_zones d) \<Longrightarrow> stats_zone_disable z d = Inr d' \<Longrightarrow> domain_step env c (d, h) (d', h)"
| step_zone_update: "z \<in> set (dom_zones d) \<Longrightarrow> stats_zone_update_metrics env z d h = Inr (d', h') \<Longrightarrow>
     domain_step env c (d, h) (d', h')"
| step_zone_clear: "z \<in> set (dom_zones d) \<Longrightarrow> stats_zone_clear_metrics env flt c z d h = Inr (c', d', h') \<Longrightarrow>
     domain_step env c (d, h) (d', h')"
| step_start: "domain_step env c (d, h) (stats_domain_start d, h)"
| step_stop: "domain_step env c (d, h) (stats_domain_stop d, h)"
| step_update: "stats_domain_update_metrics env d h = Some (Inr (d', h', ())) \<Longrightarrow> domain_step env c (d, h) (d', h')"
| step_clear: "stats_domain_clear_metrics env flt c d h = Some (Inr (d', h', c')) \<Longrightarrow> domain_step env c (d, h) (d', h')"
| step_clear_all: "stats_domain_clear_metrics env (None :: unit stats_clear_filter option) () d h = Some (Inr (d', h', u)) \<Longrightarrow>
     domain_step env c (d, h) (d', h')"
| step_device: "domain_step env c (d, h) (d, h')"

inductive_cases domain_stepE: "domain_step env c (d, h) (d', h')"

inductive domain_reachable :: "'h stats_env \<Rightarrow> 'c \<Rightarrow> stats_domain_spec \<Rightarrow> 'h stats_domain \<times> 'h \<Rightarrow> bool" for env c spec where
  reach_alloc: "domain_reachable env c spec (stats_domain_alloc spec, h)"
| reach_step: "domain_reachable env c spec s \<Longrightarrow> domain_step env c s s' \<Longrightarrow> domain_reachable env c spec s'"

lemma domain_ok_zone:
  "domain_ok d \<Longrightarrow> z \<in> set (dom_zones d) \<Longrightarrow>
     \<exists>zone. dom_heap d z = Some zone \<and> zone_attached zone \<and> zone_ref_count zone \<in> {0, 1} \<and> zone_ok zone"
  by (simp add: domain_ok_def)

lemma domain_ok_replace:
  assumes "domain_ok d" and "dom_heap d z = Some zone" and "z \<in> set (dom_zones d)"
    and "zone_attached zone'" and "zone_ref_count zone' \<in> {0, 1}" and "zone_ok zone'" and "zone_nvalues zone' = zone_nvalues zone"
  shows "domain_ok (heap_update z (Some zone') d)"
proof -
  have "map zone_nvalues (domain_zones (heap_update z (Some zone') d)) = map zone_nvalues (domain_zones d)"
    using assms(2,7) by (simp add: domain_zones_def)
  then show ?thesis using assms unfolding domain_ok_def by simp
qed

lemma run_zones_ok:
  assumes "\<And>z d h a d1 h1 a1 leave. domain_ok d \<Longrightarrow> z \<in> set (dom_zones d) \<Longrightarrow> body z d h a = Inr (d1, h1, a1, leave) \<Longrightarrow>
             domain_ok d1 \<and> dom_zones d1 = dom_zones d"
  shows "domain_ok d \<Longrightarrow> set zs \<subseteq> set (dom_zones d) \<Longrightarrow> run_zones body zs d h a = Inr (d', h', a') \<Longrightarrow> domain_ok d'"
proof (induction zs arbitrary: d h a)
  case (Cons z zs)
  then obtain d1 h1 a1 leave where b: "body z d h a = Inr (d1, h1, a1, leave)" by (auto split: sum.splits)
  have "domain_ok d1 \<and> dom_zones d1 = dom_zones d" using assms [OF Cons.prems(1) _ b] Cons.prems(2) by simp
  then show ?case using Cons.IH [of d1 h1 a1] Cons.prems b by (auto split: if_splits)
qed simp

lemma update_zone_ok:
  assumes "zone_ok zone" and "update_blocks env flt c (zone_blocks zone) h = Inr (c', bs, h')"
  shows "zone_ok (zone\<lparr>zone_blocks := bs\<rparr>)"
  using assms update_blocks_ok [OF _ assms(2)] by (simp add: zone_ok_def)

lemma replace_blocks_ok:
  assumes "domain_ok d" and "z \<in> set (dom_zones d)" and "dom_heap d z = Some zone"
    and "update_blocks env flt c (zone_blocks zone) h = Inr (c', bs, h')"
  shows "domain_ok (heap_update z (Some (zone\<lparr>zone_blocks := bs\<rparr>)) d)"
proof -
  have zone: "zone_attached zone" "zone_ref_count zone \<in> {0, 1}" "zone_ok zone"
    using domain_ok_zone [OF assms(1,2)] assms(3) by auto
  show ?thesis using update_zone_ok [OF zone(3) assms(4)] zone
    by (intro domain_ok_replace [OF assms(1,3,2)]) simp_all
qed

lemma update_body_ok:
  assumes "domain_ok d" and "z \<in> set (dom_zones d)" and "update_body env z d h a = Inr (d1, h1, a1, leave)"
  shows "domain_ok d1 \<and> dom_zones d1 = dom_zones d"
proof -
  obtain zone where "dom_heap d z = Some zone" using domain_ok_zone [OF assms(1,2)] by blast
  then show ?thesis using assms replace_blocks_ok [OF assms(1,2), of zone]
    by (auto simp: update_body_def stats_zone_update_metrics_def split: sum.splits if_splits)
qed

lemma clear_body_ok:
  assumes "domain_ok d" and "z \<in> set (dom_zones d)" and "clear_body env flt z d h a = Inr (d1, h1, a1, leave)"
  shows "domain_ok d1 \<and> dom_zones d1 = dom_zones d"
proof -
  obtain zone where "dom_heap d z = Some zone" using domain_ok_zone [OF assms(1,2)] by blast
  then show ?thesis using assms replace_blocks_ok [OF assms(1,2), of zone]
    by (auto simp: clear_body_def stats_zone_clear_metrics_def Let_def split: sum.splits)
qed

lemma step_alloc_ok:
  assumes "domain_ok d" and "z \<notin> set (dom_zones d)" and "\<forall>b \<in> set (zspec_blocks spec). reads_all b"
    and "stats_zone_alloc z spec d h = Inr (d', h')"
  shows "domain_ok d'"
proof -
  obtain bs where bs: "alloc_all stats_block_alloc (zspec_blocks spec) = Inr bs"
    using assms(4) by (auto simp: stats_zone_alloc_def split: sum.splits)
  obtain bs1 h1 where at: "attach_blocks (dspec_name (dom_spec d)) (zspec_name spec) bs h = (bs1, h1)" by force
  have ok: "\<forall>b \<in> set bs1. block_ok b" using attach_blocks_ok [OF alloc_blocks_fresh [OF bs assms(3)] at] .
  define zone where "zone = \<lparr>zone_name = zspec_name spec, zone_blocks = bs1, zone_nvalues = blocks_nvalues bs1,
    zone_ref_count = 1, zone_enabled = True, zone_attached = True\<rparr>"
  have d': "dom_zones d' = dom_zones d @ [z]" "dom_nvalues d' = dom_nvalues d + zone_nvalues zone"
    "dom_heap d' = (dom_heap d)(z := Some zone)"
    using assms(4) by (auto simp: stats_zone_alloc_def bs stats_zone_attach_def at Let_def stats_zone_get_def zone_def)
  have "domain_zones d' = domain_zones d @ [zone]" using assms(2) by (simp add: domain_zones_def d')
  moreover have "zone_ok zone" using ok by (simp add: zone_ok_def zone_def)
  ultimately show ?thesis using assms(1,2) unfolding domain_ok_def by (auto simp: d' zone_def)
qed

lemma step_free_ok:
  assumes "domain_ok d" and "z \<in> set (dom_zones d)" and "stats_zone_free (Some z) d h = Inr (d', h')"
  shows "domain_ok d'"
proof -
  obtain zone where zone: "dom_heap d z = Some zone" "zone_attached zone" "zone_ref_count zone \<in> {0, 1}" "zone_ok zone"
    using domain_ok_zone [OF assms(1,2)] by blast
  show ?thesis
  proof (cases "zone_ref_count zone = 0")
    case False
    then have "d' = heap_update z (Some (zone\<lparr>zone_ref_count := 0\<rparr>)) d"
      using assms(3) zone by (auto simp: stats_zone_free_def stats_zone_put_def Let_def)
    then show ?thesis using domain_ok_replace [OF assms(1) zone(1) assms(2)] zone by (simp add: zone_ok_def)
  next
    case True
    then have d': "dom_zones d' = remove1 z (dom_zones d)" "dom_nvalues d' = dom_nvalues d - zone_nvalues zone"
      "dom_heap d' = (dom_heap d)(z := None)"
      using assms(2,3) zone
      by (auto simp: stats_zone_free_def stats_zone_put_def stats_zone_detach_def Let_def split: prod.splits)
    have dist: "distinct (dom_zones d)" using assms(1) by (simp add: domain_ok_def)
    define nv where "nv x = zone_nvalues (the (dom_heap d x))" for x
    have "map (\<lambda>x. zone_nvalues (the (dom_heap d' x))) (remove1 z (dom_zones d)) = map nv (remove1 z (dom_zones d))"
      using dist by (auto simp: d'(3) nv_def set_remove1_eq)
    then have e1: "sum_list (map zone_nvalues (domain_zones d')) = sum_list (map nv (remove1 z (dom_zones d)))"
      by (simp only: domain_zones_def map_map comp_def d'(1))
    have e2: "dom_nvalues d = sum_list (map nv (dom_zones d))"
      using assms(1) by (simp add: domain_ok_def domain_zones_def comp_def nv_def [abs_def])
    have "sum_list (map nv (dom_zones d)) = zone_nvalues zone + sum_list (map nv (remove1 z (dom_zones d)))"
      using sum_list_map_remove1 [OF assms(2), of nv] zone(1) by (simp add: nv_def)
    then have "dom_nvalues d' = sum_list (map zone_nvalues (domain_zones d'))" using e1 e2 d'(2) by simp
    then show ?thesis using assms(1) dist unfolding domain_ok_def by (auto simp: d' set_remove1_eq)
  qed
qed

lemma map_zone_ok:
  assumes "domain_ok d" and "z \<in> set (dom_zones d)" and "map_zone f z d = Inr d'"
    and "\<And>zone. zone_attached (f zone) = zone_attached zone \<and> zone_ref_count (f zone) = zone_ref_count zone \<and>
           zone_nvalues (f zone) = zone_nvalues zone \<and> zone_blocks (f zone) = zone_blocks zone"
  shows "domain_ok d'"
proof -
  obtain zone where zone: "dom_heap d z = Some zone" "zone_attached zone" "zone_ref_count zone \<in> {0, 1}" "zone_ok zone"
    using domain_ok_zone [OF assms(1,2)] by blast
  have d': "d' = heap_update z (Some (f zone)) d" using assms(3) zone by (simp add: map_zone_def)
  show ?thesis unfolding d'
    by (rule domain_ok_replace [OF assms(1) zone(1) assms(2)]) (use zone assms(4) [of zone] in \<open>simp_all add: zone_ok_def\<close>)
qed

lemma running_ok [simp]: "domain_ok (d\<lparr>dom_running := r\<rparr>) = domain_ok d"
  by (simp add: domain_ok_def domain_zones_def)

lemma loop_ok:
  assumes "domain_ok d"
  shows "stats_domain_update_metrics env d h = Some (Inr (d', h', ())) \<Longrightarrow> domain_ok d'"
    and "stats_domain_clear_metrics env flt c d h = Some (Inr (d', h', c')) \<Longrightarrow> domain_ok d'"
proof -
  note wf = domain_ok_zones_wf [OF assms]
  show "domain_ok d'" if "stats_domain_update_metrics env d h = Some (Inr (d', h', ()))"
    by (rule run_zones_ok [where body = "update_body env" and h = h and h' = h' and a = "()" and a' = "()",
          OF update_body_ok assms subset_refl]) (use that domain_loops_run(3) [OF wf, of env h] in auto)
  show "domain_ok d'" if "stats_domain_clear_metrics env flt c d h = Some (Inr (d', h', c'))"
    by (rule run_zones_ok [where body = "clear_body env flt" and h = h and h' = h' and a = c and a' = c',
          OF clear_body_ok assms subset_refl]) (use that domain_loops_run(4) [OF wf, of env flt c h] in auto)
qed

lemma domain_step_ok: "domain_step env c s s' \<Longrightarrow> domain_ok (fst s) \<Longrightarrow> domain_ok (fst s')"
proof (induction rule: domain_step.induct)
  case (step_zone_update z d h d' h')
  then show ?case using update_body_ok [of d z env h "()" d' h' "()" False] by (simp add: update_body_def)
next
  case (step_zone_clear z d flt h c' d' h')
  then show ?case using clear_body_ok [of d z env flt h c d' h' c' False] by (simp add: clear_body_def)
qed (use step_alloc_ok step_free_ok map_zone_ok loop_ok in
      \<open>fastforce simp: stats_zone_enable_def stats_zone_disable_def stats_domain_start_def stats_domain_stop_def\<close>)+

lemma domain_reachable_ok: "domain_reachable env c spec s \<Longrightarrow> domain_ok (fst s)"
proof (induction rule: domain_reachable.induct)
  case (reach_alloc h)
  then show ?case by (simp add: domain_ok_def stats_domain_alloc_def domain_zones_def)
next
  case (reach_step s s')
  from domain_step_ok [OF reach_step.hyps(2) reach_step.IH] show ?case .
qed

lemma zone_values_length: "zone_ok zone \<Longrightarrow> length (zone_values zone) = zone_nvalues zone"
proof -
  assume ok: "zone_ok zone"
  have "length (zone_values zone) = sum_list (map (\<lambda>b. metrics_nvalues (blk_metrics b)) (zone_blocks zone))"
    by (simp add: zone_values_def length_concat comp_def metrics_nvalues_def)
  also have "map (\<lambda>b. metrics_nvalues (blk_metrics b)) (zone_blocks zone) = map blk_nvalues (zone_blocks zone)"
    using ok by (auto simp: zone_ok_def block_ok_def)
  finally show ?thesis using ok by (simp add: zone_ok_def blocks_nvalues_def)
qed

text \<open>
  Property C12.  The number of values that a domain reports is always the number of values that
  it holds: in every state reachable by creating, releasing, enabling and disabling zones, starting and stopping the collecting
  thread, and updating and clearing zones or the domain, a buffer of the reported size receives all values.  The callback of each
  block that is created must give each metric of the block as many values as the metric has elements, as all the zones of the agents
  do (\<open>p4_zones_read_all\<close>, \<open>cfg_zones_read_all\<close>).
\<close>
theorem number_of_values_exact:
  assumes "domain_reachable env c spec (d, h)" and "0 < stats_domain_number_of_values d"
  shows "stats_domain_get_values d h (stats_domain_number_of_values d) =
           Some (Inr (d, h, concat (map zone_values (domain_zones d)))) \<and>
         length (concat (map zone_values (domain_zones d))) = stats_domain_number_of_values d"
proof -
  have ok: "domain_ok d" using domain_reachable_ok [OF assms(1)] by simp
  have "length (concat (map zone_values (domain_zones d))) = sum_list (map (\<lambda>x. length (zone_values x)) (domain_zones d))"
    by (simp add: length_concat comp_def)
  also have "map (\<lambda>x. length (zone_values x)) (domain_zones d) = map zone_nvalues (domain_zones d)"
    using domain_ok_zone [OF ok] by (fastforce simp: domain_zones_def zone_values_length)
  finally have "length (concat (map zone_values (domain_zones d))) = dom_nvalues d"
    using ok by (simp add: domain_ok_def)
  moreover have "\<forall>z \<in> set (dom_zones d). dom_heap d z \<noteq> None"
    using domain_ok_zone [OF ok] by fastforce
  ultimately show ?thesis
    using run_read_zones [of "dom_zones d" d "[]" "dom_nvalues d" h] assms(2)
    by (simp add: domain_loops_run(1) [OF domain_ok_zones_wf [OF ok]] stats_domain_number_of_values_def
        domain_zones_def comp_def)
qed

subsection \<open>A concrete domain\<close>

definition example_metric_spec :: stats_metric_spec where
  "example_metric_spec = \<lparr>mspec_name = ''drops'', mspec_nelements = 2, mspec_labels = [], mspec_type = METRIC_FLAG,
     mspec_flags = 4, mspec_init_value = 0,
     mspec_io = \<lparr>io_offset = 0, io_size = 8, io_width = 0, io_shift = 0, io_invert = False, io_data = 0\<rparr>\<rparr>"

definition example_block_spec :: "nat stats_block_spec" where
  "example_block_spec = \<lparr>bspec_name = ''blk'', bspec_metrics = [example_metric_spec], bspec_io_base = 0,
     bspec_attach_metrics = None, bspec_detach_metrics = None, bspec_latch_metrics = Some Suc, bspec_release_metrics = None,
     bspec_read_metric = Some (\<lambda>h m n. replicate (mspec_nelements m) (word_of_nat h)), bspec_convert_metric = None\<rparr>"

definition example_zone_spec :: "nat stats_zone_spec" where
  "example_zone_spec = \<lparr>zspec_name = ''zone0'', zspec_blocks = [example_block_spec]\<rparr>"

definition example_domain_spec :: stats_domain_spec where
  "example_domain_spec = \<lparr>dspec_name = ''dom'', dspec_interval_ms = 0\<rparr>"

definition example_env :: "nat stats_env" where
  "example_env = \<lparr>env_double = id, env_mem = (\<lambda>_ _ _. 0), env_clock = id, env_domain = '''', env_zone = ''''\<rparr>"

lemmas example_specs =
  example_metric_spec_def example_block_spec_def example_zone_spec_def example_domain_spec_def example_env_def

lemma flag_4 [simp]: "STATS_METRIC_FLAG_TEST 4 ARRAY"
  by (simp add: flag_test_bit bit_numeral_rec)

lemmas alloc_eval =
  stats_zone_alloc_def stats_block_alloc_def stats_metric_alloc_def stats_zone_attach_def stats_block_attach_def
  stats_metric_attach_def stats_zone_get_def stats_domain_alloc_def call_opt_def blocks_nvalues_def metrics_nvalues_def
  Let_def

text \<open>Everything but the labels of a domain with one zone that has two values.\<close>

lemma example_alloc:
  "\<exists>d. stats_zone_alloc 7 example_zone_spec (stats_domain_alloc example_domain_spec) (0::nat) = Inr (d, 0) \<and>
       dom_zones d = [7] \<and> dom_nvalues d = 2"
  by (simp add: alloc_eval example_specs default_stats_labels_def array_stats_labels_def numeral_2_eq_2)

lemma example_reachable:
  assumes "stats_zone_alloc 7 example_zone_spec (stats_domain_alloc example_domain_spec) (0::nat) = Inr (d, 0)"
  shows "domain_reachable example_env () example_domain_spec (d, 0)"
proof (rule reach_step)
  show "domain_reachable example_env () example_domain_spec (stats_domain_alloc example_domain_spec, 0)"
    by (rule reach_alloc)
  show "domain_step example_env () (stats_domain_alloc example_domain_spec, 0) (d, 0)"
    by (rule step_alloc [OF _ _ assms])
       (simp_all add: stats_domain_alloc_def example_specs reads_all_def fills_def spec_elements_def)
qed

theorem number_of_values_exact_witness:
  "\<exists>d vs. stats_zone_alloc 7 example_zone_spec (stats_domain_alloc example_domain_spec) (0::nat) = Inr (d, 0) \<and>
          stats_domain_get_values d 0 2 = Some (Inr (d, 0, vs)) \<and> length vs = 2"
proof -
  obtain d where d: "stats_zone_alloc 7 example_zone_spec (stats_domain_alloc example_domain_spec) (0::nat) = Inr (d, 0)"
    "dom_nvalues d = 2" using example_alloc by blast
  show ?thesis using number_of_values_exact [OF example_reachable [OF d(1)]] d
    by (simp add: stats_domain_number_of_values_def)
qed

subsection \<open>The life of a zone\<close>

text \<open>
  Property C38.  Releasing a zone does not take it out of its domain: after
  \<open>stats_zone_alloc\<close> and the matching \<open>stats_zone_free\<close> the zone is still in the list of the
  domain, attached and enabled, and no callback of its blocks was told to let go, because
  \<open>stats_zone_put\<close> compares with 0 the count that \<open>atomic_fetch_sub\<close> returns, which is the one
  before the subtraction.  The collecting thread goes on updating it.
\<close>
theorem zone_free_keeps_zone:
  assumes "stats_zone_alloc z spec d h = Inr (d1, h1)"
  shows "\<exists>d2 zone. stats_zone_free (Some z) d1 h1 = Inr (d2, h1) \<and> dom_zones d2 = dom_zones d @ [z] \<and>
           dom_heap d2 z = Some zone \<and> zone_attached zone \<and> zone_enabled zone \<and> zone_ref_count zone = 0 \<and>
           dom_nvalues d2 = dom_nvalues d1"
  using assms
  by (auto simp: stats_zone_alloc_def stats_zone_attach_def stats_zone_get_def stats_zone_free_def stats_zone_put_def
      Let_def split: sum.splits prod.splits)

theorem zone_free_keeps_zone_witness:
  "\<exists>d1 d2. stats_zone_alloc 7 example_zone_spec (stats_domain_alloc example_domain_spec) (0::nat) = Inr (d1, 0) \<and>
      stats_zone_free (Some 7) d1 0 = Inr (d2, 0) \<and> dom_zones d2 = [7]"
proof -
  obtain d1 where d1: "stats_zone_alloc 7 example_zone_spec (stats_domain_alloc example_domain_spec) (0::nat) = Inr (d1, 0)"
    using example_alloc by blast
  from zone_free_keeps_zone [OF d1] d1 show ?thesis by (auto simp: stats_domain_alloc_def)
qed

text \<open>The loop of \<open>stats_domain_free\<close> once the owners have released their zones.\<close>

definition free_body ::
  "nat \<Rightarrow> 'h stats_domain \<Rightarrow> 'h \<Rightarrow> unit \<Rightarrow> stats_stop + ('h stats_domain \<times> 'h \<times> unit \<times> bool)" where
  "free_body z d h a = (case stats_zone_put (Some z) d h of Inl e \<Rightarrow> Inl e | Inr (d1, h1) \<Rightarrow> Inr (d1, h1, a, False))"

definition released :: "'h stats_domain \<Rightarrow> bool" where
  "released d \<longleftrightarrow> distinct (dom_zones d) \<and>
     (\<forall>z \<in> set (dom_zones d). \<exists>zone. dom_heap d z = Some zone \<and> zone_ref_count zone = 0)"

lemma put_last:
  assumes "dom_heap d z = Some zone" and "zone_ref_count zone = 0" and "dom_zones d = z # zs"
  shows "\<exists>d' h'. stats_zone_put (Some z) d h = Inr (d', h') \<and> dom_zones d' = zs \<and> dom_heap d' = (dom_heap d)(z := None)"
  using assms
  by (auto simp: stats_zone_put_def stats_zone_detach_def Let_def split: prod.splits)

lemma free_loop:
  assumes "released d" and "dom_zones d = z # zs" and "length zs < fuel"
  shows "\<exists>d' h'. domain_loop fuel free_body (Some z) d h () = Some (Inr (d', h', ())) \<and>
           dom_zones d' = [] \<and> (\<forall>x. dom_heap d' x = (if x \<in> set (z # zs) then None else dom_heap d x))"
  using assms
proof (induction zs arbitrary: fuel d z h)
  case Nil
  then obtain k where k: "fuel = Suc k" by (cases fuel) auto
  obtain zone where zone: "dom_heap d z = Some zone" "zone_ref_count zone = 0" using Nil.prems by (auto simp: released_def)
  obtain d' h' where "stats_zone_put (Some z) d h = Inr (d', h')" "dom_zones d' = []" "dom_heap d' = (dom_heap d)(z := None)"
    using put_last [OF zone Nil.prems(2)] by blast
  then show ?case using k Nil.prems next_zone_mid [of z "[]" "[]"]
    by (simp add: stats_domain_get_next_zone_def stats_zone_get_def)
next
  case (Cons y ys)
  then obtain k where k: "fuel = Suc k" by (cases fuel) auto
  have ny: "y \<noteq> z" "z \<notin> set (y # ys)" using Cons.prems by (auto simp: released_def)
  obtain zone yone where zone: "dom_heap d z = Some zone" "zone_ref_count zone = 0"
    and yone: "dom_heap d y = Some yone" "zone_ref_count yone = 0" using Cons.prems by (auto simp: released_def)
  have hz: "dom_heap (held y d) z = Some zone" using zone ny by (simp add: held_def)
  obtain d1 h1 where d1: "stats_zone_put (Some z) (held y d) h = Inr (d1, h1)" "dom_zones d1 = y # ys"
    "dom_heap d1 = (dom_heap (held y d))(z := None)"
    using put_last [OF hz zone(2), of "y # ys" h] Cons.prems(2) by auto
  have nxt: "stats_domain_get_next_zone d h (Some z) = Inr (d1, h1, Some y)"
    using Cons.prems(2) next_zone_mid [of z "[]" "y # ys"] get_is_held [OF yone(1)] d1(1)
    by (simp add: stats_domain_get_next_zone_def)
  define d2 where "d2 = heap_update y (Some (yone\<lparr>zone_ref_count := 0\<rparr>)) d1"
  have body: "free_body y d1 h1 () = Inr (d2, h1, (), False)"
    using d1(3) yone ny by (simp add: free_body_def stats_zone_put_def held_def Let_def d2_def)
  have "released d2" using Cons.prems(1,2) d1(2,3) yone ny by (auto simp: released_def d2_def held_def)
  then obtain d' h' where "domain_loop k free_body (Some y) d2 h1 () = Some (Inr (d', h', ()))" "dom_zones d' = []"
    "\<forall>x. dom_heap d' x = (if x \<in> set (y # ys) then None else dom_heap d2 x)"
    using Cons.IH [of d2 y k h1] d1(2) Cons.prems(3) k by (auto simp: d2_def)
  then show ?case using k nxt body d1(3) ny by (auto simp: d2_def held_def)
qed

text \<open>
  Property C34.  Freeing a domain whose zones have all been released by their owners frees every
  zone exactly once: the loop ends, the list is empty and the memory of all zones is given
  back, without touching memory that was freed before.
\<close>
theorem domain_free_releases:
  assumes "released d"
  shows "\<exists>d' h'. stats_domain_free d h = Some (Inr (d', h', ())) \<and> dom_zones d' = [] \<and>
           (\<forall>z \<in> set (dom_zones d). dom_heap d' z = None)"
proof -
  have f: "stats_domain_free d h = domain_loop (zones_fuel d) free_body None (stats_domain_stop d) h ()"
    by (simp add: stats_domain_free_def free_body_def [abs_def])
  define d0 where "d0 = stats_domain_stop d"
  have d0: "dom_zones d0 = dom_zones d" "dom_heap d0 = dom_heap d" by (simp_all add: d0_def stats_domain_stop_def)
  show ?thesis
  proof (cases "dom_zones d")
    case Nil
    then show ?thesis using d0
      by (simp add: f zones_fuel_def stats_domain_get_next_zone_def stats_zone_get_def stats_zone_put_def flip: d0_def)
  next
    case (Cons y ys)
    then obtain yone where yone: "dom_heap d0 y = Some yone" "zone_ref_count yone = 0"
      using assms d0 by (auto simp: released_def)
    have nxt: "stats_domain_get_next_zone d0 h None = Inr (held y d0, h, Some y)"
      using Cons d0 get_is_held [OF yone(1)] by (simp add: stats_domain_get_next_zone_def stats_zone_put_def)
    have m1: "(0::32 word) \<noteq> - 1" by simp
    have body: "free_body y (held y d0) h () = Inr (d0, h, (), False)"
      using put_held [OF yone(1), of h] yone(2) m1 by (simp add: free_body_def)
    have "released d0" using assms d0 by (simp add: released_def)
    then obtain d' h' where "domain_loop (Suc (length ys)) free_body (Some y) d0 h () = Some (Inr (d', h', ()))" "dom_zones d' = []"
      "\<forall>x. dom_heap d' x = (if x \<in> set (y # ys) then None else dom_heap d0 x)"
      using free_loop [of d0 y ys "Suc (length ys)" h] Cons d0 by auto
    then show ?thesis using nxt body Cons unfolding f zones_fuel_def d0_def [symmetric]
      by (auto simp del: domain_loop.simps simp: domain_loop.simps(2) [of "Suc (length ys)" free_body None d0 h "()"])
  qed
qed

theorem domain_free_releases_witness:
  "\<exists>d d' h'. dom_zones d = [7] \<and> stats_domain_free d (0::nat) = Some (Inr (d', h', ())) \<and> dom_heap d' 7 = None"
proof -
  obtain d1 where d1: "stats_zone_alloc 7 example_zone_spec (stats_domain_alloc example_domain_spec) (0::nat) = Inr (d1, 0)"
    using example_alloc by blast
  have "dom_zones d1 = [7]" "\<exists>zone. dom_heap d1 7 = Some zone \<and> zone_ref_count zone = 1"
    using d1 by (auto simp: alloc_eval example_specs default_stats_labels_def array_stats_labels_def)
  then obtain d :: "nat stats_domain" where "dom_zones d = [7]" "\<exists>zone. dom_heap d 7 = Some zone \<and> zone_ref_count zone = 0"
    by (intro that [of "heap_update 7 (map_option (\<lambda>zone. zone\<lparr>zone_ref_count := 0\<rparr>) (dom_heap d1 7)) d1"]) auto
  then show ?thesis using domain_free_releases [of d 0] by (auto simp: released_def)
qed

end
