(* ===== verification/P4_Types.thy ===== *)
theory P4_Types
  imports Snp4_Api Snp4_Pack Opennic_Stats Stats_Filter
begin

text \<open>
  The state of the P4 agent (\<^verbatim>\<open>sn-p4/src/agent/agent.hpp\<close>, \<^verbatim>\<open>device.hpp\<close>): its devices with
  their pipelines and statistics domain, the debug flags, and the statistics of the server itself.
  An RPC is a function of this state and its request; it returns the next state and the responses
  in the order they are written, or the reason why the handler does not return normally.
\<close>

subsection \<open>Error codes and abnormal ends\<close>

datatype ErrorCode =
    EC_UNKNOWN | EC_OK | EC_UNKNOWN_BATCH_REQUEST | EC_UNKNOWN_BATCH_OP
  | EC_INVALID_DEVICE_ID | EC_INVALID_PIPELINE_ID
  | EC_INVALID_TABLE_NAME | EC_FAILED_CLEAR_ALL_TABLES | EC_FAILED_CLEAR_TABLE | EC_INVALID_ACTION_NAME
  | EC_TABLE_RULE_TOO_FEW_MATCHES | EC_TABLE_RULE_TOO_MANY_MATCHES
  | EC_TABLE_RULE_TOO_FEW_ACTION_PARAMETERS | EC_TABLE_RULE_TOO_MANY_ACTION_PARAMETERS
  | EC_TABLE_RULE_INVALID_ACTION_PARAMETER_FORMAT
  | EC_TABLE_RULE_MATCH_INVALID_KEY_FORMAT | EC_TABLE_RULE_MATCH_INVALID_MASK_FORMAT
  | EC_TABLE_RULE_MATCH_INVALID_PREFIX_LENGTH
  | EC_TABLE_RULE_MATCH_RANGE_LOWER_TOO_BIG | EC_TABLE_RULE_MATCH_RANGE_UPPER_TOO_BIG
  | EC_UNKNOWN_TABLE_RULE_MATCH_TYPE | EC_FAILED_INSERT_TABLE_RULE | EC_FAILED_DELETE_TABLE_RULE
  | EC_TABLE_RULE_FIELD_SPEC_OVERFLOW | EC_TABLE_RULE_FIELD_SPEC_FORMAT_INVALID
  | EC_TABLE_RULE_FIELD_SPEC_UNKNOWN_TYPE | EC_TABLE_RULE_FIELD_SPEC_SIZE_MISMATCH
  | EC_TABLE_RULE_PACK_KEY_TOO_BIG | EC_TABLE_RULE_PACK_MASK_TOO_BIG | EC_TABLE_RULE_PACK_PARAMS_TOO_BIG
  | EC_TABLE_RULE_MATCH_INVALID_FORMAT | EC_TABLE_RULE_MATCH_MASK_TOO_WIDE
  | EC_TABLE_RULE_MATCH_INVALID_BITFIELD_MASK | EC_TABLE_RULE_MATCH_INVALID_CONSTANT_MASK
  | EC_TABLE_RULE_MATCH_INVALID_PREFIX_MASK | EC_TABLE_RULE_MATCH_INVALID_RANGE_MASK
  | EC_TABLE_RULE_MATCH_INVALID_UNUSED_MASK | EC_TABLE_RULE_MATCH_KEY_TOO_BIG
  | EC_TABLE_RULE_MATCH_MASK_TOO_BIG | EC_TABLE_RULE_INVALID_TABLE_NAME
  | EC_TABLE_RULE_INVALID_TABLE_CONFIG | EC_TABLE_RULE_INVALID_ACTION_FOR_TABLE
  | EC_TABLE_RULE_PARAM_INVALID_FORMAT | EC_TABLE_RULE_PARAM_SPEC_OVERFLOW
  | EC_TABLE_RULE_PARAM_SPEC_SIZE_MISMATCH | EC_TABLE_RULE_PARAM_TOO_BIG
  | EC_SERVER_FAILED_GET_TIME | EC_SERVER_INVALID_DEBUG_FLAG

text \<open>
  Undefined behaviour of the memory, a stop of the statistics engine (a panic, undefined behaviour
  or a callback that does not return), a C++ exception, a walk over a table that does not end,
  \<^verbatim>\<open>exit(EXIT_FAILURE)\<close> during the initialisation, and a call through a null pointer.
\<close>

datatype agent_stop = Stop_Memory ub | Stop_Stats stats_stop | Stop_Exception | Stop_Walk | Stop_Exit | Stop_Null_Pointer

type_synonym ('s, 'r) rpc = "'s \<Rightarrow> agent_stop + ('s \<times> 'r list)"

subsection \<open>Devices\<close>

text \<open>
  The buffers into which the callbacks of the statistics engine latch the counters of a block
  (\<^verbatim>\<open>counters.cpp\<close>, \<^verbatim>\<open>table-ecc.cpp\<close>).  A failed read leaves the values unused.
\<close>

record CountersLatchData =
  cl_valid :: bool
  cl_values :: "64 word list"

record TableEccLatchData =
  te_valid :: bool
  te_corrected :: nat
  te_detected :: nat

text \<open>
  What the callbacks of a device share: the handles of its pipelines, and the latches of the blocks
  by the pipeline and the index of the block.
\<close>

record 'd device_hw =
  hw_handles :: "'d snp4_user_context list"
  hw_counters :: "nat \<times> nat \<Rightarrow> CountersLatchData"
  hw_table_ecc :: "nat \<times> nat \<Rightarrow> TableEccLatchData"

record DeviceStats =
  ds_zone_name :: string
  ds_zone :: nat

text \<open>The handle of a pipeline is its place in \<open>hw_handles\<close>, its zone an address of the domain's heap.\<close>

record DevicePipeline =
  dp_id :: nat
  dp_handle :: nat
  dp_info :: snp4_info_pipeline
  dp_counters :: "DeviceStats option"
  dp_table_ecc :: "DeviceStats option"

record syscfg_block =
  sys_usr_access :: nat
  sys_build_status :: nat
  sys_dna :: "nat list"

record 'd Device =
  dev_bus_id :: string
  dev_syscfg :: syscfg_block
  dev_pipelines :: "DevicePipeline list"
  dev_hw :: "'d device_hw"
  dev_domain :: "'d device_hw stats_domain"

definition device_stats_domain_name :: "nat \<Rightarrow> string" where
  "device_stats_domain_name i = (if i = 0 then ''counters_stats'' else ''UNKNOWN'')"

subsection \<open>The server\<close>

record timespec =
  tv_sec :: int
  tv_nsec :: int

text \<open>The clock of the server: when it started, and the monotonic clock now, if it can be read.\<close>

record server_clock =
  start_wall :: timespec
  start_mono :: timespec
  now_mono :: "timespec option"

record 'd SmartnicP4Impl =
  impl_devices :: "'d Device list"
  impl_debug_flags :: "nat set"
  impl_clock :: server_clock
  impl_server_domain :: "server_clock stats_domain"
  impl_server_zone :: "nat option"

text \<open>The surroundings of the agent: libraries, environment variables and files of the kernel.\<close>

record 'd agent_env =
  ae_gmp :: gmp
  ae_regex :: regex
  ae_stats :: "'d device_hw stats_env"
  ae_getenv :: "string \<Rightarrow> string option"
  ae_pci_file :: "string \<Rightarrow> string option"

subsection \<open>Requests for devices and pipelines\<close>

text \<open>
  The devices of a request, by \<^verbatim>\<open>dev_id\<close>: the body runs on one device of the state, which it
  updates in place.
\<close>

definition on_device ::
  "(nat \<Rightarrow> ('d Device, 'r) rpc) \<Rightarrow> nat \<Rightarrow> ('d Device list, 'r) rpc" where
  "on_device body i devs =
     (case body i (devs ! i) of Inl e \<Rightarrow> Inl e | Inr (d, rs) \<Rightarrow> Inr (devs[i := d], rs))"

definition for_devices ::
  "int \<Rightarrow> 'r \<Rightarrow> (nat \<Rightarrow> ('d Device, 'r) rpc) \<Rightarrow> ('d SmartnicP4Impl, 'r) rpc" where
  "for_devices req_dev_id invalid body s =
     (case for_range req_dev_id (length (impl_devices s)) invalid (on_device body) (impl_devices s) of
        Inl e \<Rightarrow> Inl e
      | Inr (devs, rs) \<Rightarrow> Inr (s\<lparr>impl_devices := devs\<rparr>, rs))"

text \<open>The pipelines of a device, by \<^verbatim>\<open>pipeline_id\<close>; the body gets the index of the pipeline.\<close>

definition for_pipelines ::
  "int \<Rightarrow> (nat \<Rightarrow> 'r) \<Rightarrow> (nat \<Rightarrow> nat \<Rightarrow> ('d Device, 'r) rpc) \<Rightarrow> nat \<Rightarrow> ('d Device, 'r) rpc" where
  "for_pipelines req_pipeline_id invalid body dev_id dev =
     for_range req_pipeline_id (length (dev_pipelines dev)) (invalid dev_id) (body dev_id) dev"

definition pipeline_handle :: "'d Device \<Rightarrow> nat \<Rightarrow> 'd snp4_user_context" where
  "pipeline_handle dev i = hw_handles (dev_hw dev) ! dp_handle (dev_pipelines dev ! i)"

definition set_handle :: "nat \<Rightarrow> 'd snp4_user_context \<Rightarrow> 'd Device \<Rightarrow> 'd Device" where
  "set_handle i u dev =
     (let hw = dev_hw dev in
      dev\<lparr>dev_hw := hw\<lparr>hw_handles := (hw_handles hw)[dp_handle (dev_pipelines dev ! i) := u]\<rparr>\<rparr>)"

subsection \<open>Lookups by name (\<^verbatim>\<open>pipeline.cpp\<close>)\<close>

definition pipeline_get_table_info :: "DevicePipeline \<Rightarrow> string \<Rightarrow> snp4_info_table option" where
  "pipeline_get_table_info p tname = find (\<lambda>ti. table_name ti = tname) (pipeline_tables (dp_info p))"

definition pipeline_has_table :: "DevicePipeline \<Rightarrow> string \<Rightarrow> bool" where
  "pipeline_has_table p tname \<longleftrightarrow> pipeline_get_table_info p tname \<noteq> None"

definition pipeline_get_table_action_info :: "snp4_info_table \<Rightarrow> string \<Rightarrow> snp4_info_action option" where
  "pipeline_get_table_action_info ti aname = find (\<lambda>ai. action_name ai = aname) (table_actions ti)"

definition pipeline_has_table_action :: "snp4_info_table \<Rightarrow> string \<Rightarrow> bool" where
  "pipeline_has_table_action ti aname \<longleftrightarrow> pipeline_get_table_action_info ti aname \<noteq> None"

definition pipeline_get_counter_block_info :: "DevicePipeline \<Rightarrow> string \<Rightarrow> snp4_info_counter_block option" where
  "pipeline_get_counter_block_info p bname =
     find (\<lambda>bi. block_name bi = bname) (pipeline_counter_blocks (dp_info p))"

definition pipeline_has_counter_block :: "DevicePipeline \<Rightarrow> string \<Rightarrow> bool" where
  "pipeline_has_counter_block p bname \<longleftrightarrow> pipeline_get_counter_block_info p bname \<noteq> None"

subsection \<open>Which responses a request gets\<close>

text \<open>
  The devices of an agent by their numbers of pipelines; the key of a response is its error code
  for a rejected identifier, and its device and pipeline otherwise.
\<close>

definition shape :: "'d Device list \<Rightarrow> nat list" where
  "shape devs = map (\<lambda>d. length (dev_pipelines d)) devs"

datatype response_key = Key_Invalid_Device | Key_Invalid_Pipeline nat | Key_Device nat | Key_Pipeline nat nat

definition device_keys :: "int \<Rightarrow> nat \<Rightarrow> nat \<Rightarrow> response_key list" where
  "device_keys req_pipeline_id d n =
     (case id_range req_pipeline_id n of None \<Rightarrow> [Key_Invalid_Pipeline d]
      | Some ps \<Rightarrow> map (Key_Pipeline d) ps)"

definition pipeline_request_keys :: "int \<Rightarrow> int \<Rightarrow> nat list \<Rightarrow> response_key list" where
  "pipeline_request_keys req_dev_id req_pipeline_id sh =
     (case id_range req_dev_id (length sh) of None \<Rightarrow> [Key_Invalid_Device]
      | Some ds \<Rightarrow> concat (map (\<lambda>d. device_keys req_pipeline_id d (sh ! d)) ds))"

definition device_request_keys :: "int \<Rightarrow> nat list \<Rightarrow> response_key list" where
  "device_request_keys req_dev_id sh =
     (case id_range req_dev_id (length sh) of None \<Rightarrow> [Key_Invalid_Device] | Some ds \<Rightarrow> map Key_Device ds)"

lemma length_shape [simp]: "length (shape devs) = length devs"
  by (simp add: shape_def)

lemma nth_shape [simp]: "i < length devs \<Longrightarrow> shape devs ! i = length (dev_pipelines (devs ! i))"
  by (simp add: shape_def)

lemma shape_update [simp]:
  "length (dev_pipelines d) = length (dev_pipelines (devs ! i)) \<Longrightarrow> shape (devs[i := d]) = shape devs"
  by (cases "i < length devs") (auto simp: shape_def map_update intro!: nth_equalityI simp: nth_list_update)

lemma set_handle_keeps [simp]:
  "dev_pipelines (set_handle i u dev) = dev_pipelines dev"
  "dev_domain (set_handle i u dev) = dev_domain dev"
  by (simp_all add: set_handle_def Let_def)

text \<open>
  A body for pipelines that writes one response for its pipeline and keeps the pipelines of the
  device; then the handler answers every device and pipeline of the request once, in order.
\<close>

locale pipeline_handler =
  fixes body :: "nat \<Rightarrow> nat \<Rightarrow> ('d Device, 'r) rpc"
    and key :: "'r \<Rightarrow> response_key"
    and invalid_dev :: 'r
    and invalid_pipe :: "nat \<Rightarrow> 'r"
  assumes one_response: "body d p dev = Inr (dev', rs) \<Longrightarrow>
      dev_pipelines dev' = dev_pipelines dev \<and> map key rs = [Key_Pipeline d p]"
    and key_invalid_dev: "key invalid_dev = Key_Invalid_Device"
    and key_invalid_pipe: "key (invalid_pipe d) = Key_Invalid_Pipeline d"
begin

lemma pipelines_body:
  assumes "dev_pipelines dev = ps" and "p < length ps" and "body d p dev = Inr (dev', rs)"
  shows "dev_pipelines dev' = ps \<and> map key rs = [Key_Pipeline d p]"
  using assms one_response by metis

end

sublocale pipeline_handler \<subseteq> pipes: range_handler "body d" "\<lambda>x. dev_pipelines x = ps" "length ps" key
    "\<lambda>p. [Key_Pipeline d p]" for d ps
  by unfold_locales (rule pipelines_body)

context pipeline_handler
begin

lemma device_responses:
  assumes "for_pipelines req_p invalid_pipe body d dev = Inr (dev', rs)"
  shows "dev_pipelines dev' = dev_pipelines dev \<and> map key rs = device_keys req_p d (length (dev_pipelines dev))"
  using pipes.range [OF refl assms [unfolded for_pipelines_def]] key_invalid_pipe
  by (simp add: device_keys_def split: option.splits)

lemma devices_body:
  assumes "shape devs = sh" and "d < length sh"
    and "on_device (for_pipelines req_p invalid_pipe body) d devs = Inr (devs', rs)"
  shows "shape devs' = sh \<and> map key rs = device_keys req_p d (sh ! d)"
proof -
  obtain dev' where dev': "for_pipelines req_p invalid_pipe body d (devs ! d) = Inr (dev', rs)" "devs' = devs[d := dev']"
    using assms(3) by (auto simp: on_device_def split: sum.splits prod.splits)
  from device_responses [OF dev'(1)] show ?thesis
    using dev'(2) assms(1,2) by auto
qed

end

sublocale pipeline_handler \<subseteq> devs: range_handler "on_device (for_pipelines req_p invalid_pipe body)"
    "\<lambda>x. shape x = sh" "length sh" key "\<lambda>d. device_keys req_p d (sh ! d)" for req_p sh
  by unfold_locales (rule devices_body)

context pipeline_handler
begin

lemma responses:
  assumes "for_devices req_d invalid_dev (for_pipelines req_p invalid_pipe body) s = Inr (s', rs)"
  shows "map key rs = pipeline_request_keys req_d req_p (shape (impl_devices s)) \<and>
         shape (impl_devices s') = shape (impl_devices s)"
proof -
  obtain devs where "for_range req_d (length (impl_devices s)) invalid_dev
      (on_device (for_pipelines req_p invalid_pipe body)) (impl_devices s) = Inr (devs, rs)"
    "impl_devices s' = devs"
    using assms by (auto simp: for_devices_def split: sum.splits)
  with devs.range [where sh = "shape (impl_devices s)", OF refl, of req_d invalid_dev req_p devs rs]
  show ?thesis by (simp add: pipeline_request_keys_def key_invalid_dev split: option.splits)
qed

end

text \<open>A body that always returns makes a handler that always returns.\<close>

lemma for_devices_pipelines_total:
  assumes "\<And>dev d i. P dev \<Longrightarrow> i < length (dev_pipelines dev) \<Longrightarrow>
      \<exists>dev' rs. body d i dev = Inr (dev', rs) \<and> P dev' \<and> dev_pipelines dev' = dev_pipelines dev"
    and "\<forall>dev \<in> set (impl_devices s). P dev"
  shows "\<exists>s' rs. for_devices req_d inv_d (for_pipelines req_p inv_p body) s = Inr (s', rs) \<and>
           (\<forall>dev \<in> set (impl_devices s'). P dev)"
proof -
  have dev: "\<exists>dev' rs. for_pipelines req_p inv_p body d dev = Inr (dev', rs) \<and> P dev'" if "P dev" for d dev
  proof -
    have "\<exists>dev' rs. for_range req_p (length (dev_pipelines dev)) (inv_p d) (body d) dev = Inr (dev', rs) \<and>
        (P dev' \<and> dev_pipelines dev' = dev_pipelines dev)"
      by (rule for_range_total) (use assms(1) that in \<open>metis+\<close>)
    then show ?thesis unfolding for_pipelines_def by blast
  qed
  have "\<exists>devs rs. for_range req_d (length (impl_devices s)) inv_d
      (on_device (for_pipelines req_p inv_p body)) (impl_devices s) = Inr (devs, rs) \<and>
      (length devs = length (impl_devices s) \<and> (\<forall>dev \<in> set devs. P dev))"
  proof (rule for_range_total)
    fix i devs
    assume i: "i < length (impl_devices s)" and P: "length devs = length (impl_devices s) \<and> (\<forall>dev \<in> set devs. P dev)"
    from dev [of "devs ! i" i] i P obtain dev' rs where
      "for_pipelines req_p inv_p body i (devs ! i) = Inr (dev', rs)" "P dev'" by auto
    then show "\<exists>devs' rs. on_device (for_pipelines req_p inv_p body) i devs = Inr (devs', rs) \<and>
        (length devs' = length (impl_devices s) \<and> (\<forall>dev \<in> set devs'. P dev))"
      using P by (auto simp: on_device_def dest!: set_update_subset_insert [THEN subsetD])
  qed (use assms(2) in simp)
  then show ?thesis by (auto simp: for_devices_def)
qed

text \<open>The same contract for the requests that name only a device.\<close>

locale device_handler =
  fixes body :: "nat \<Rightarrow> ('d Device, 'r) rpc"
    and key :: "'r \<Rightarrow> response_key"
    and invalid_dev :: 'r
  assumes one_response: "body d dev = Inr (dev', rs) \<Longrightarrow>
      dev_pipelines dev' = dev_pipelines dev \<and> map key rs = [Key_Device d]"
    and key_invalid_dev: "key invalid_dev = Key_Invalid_Device"
begin

lemma devices_body:
  assumes "shape devs = sh" and "d < length sh" and "on_device body d devs = Inr (devs', rs)"
  shows "shape devs' = sh \<and> map key rs = [Key_Device d]"
proof -
  obtain dev' where "body d (devs ! d) = Inr (dev', rs)" "devs' = devs[d := dev']"
    using assms(3) by (auto simp: on_device_def split: sum.splits prod.splits)
  with one_response [of d "devs ! d" dev' rs] show ?thesis using assms(1,2) by auto
qed

end

sublocale device_handler \<subseteq> devs: range_handler "on_device body" "\<lambda>x. shape x = sh" "length sh" key
    "\<lambda>d. [Key_Device d]" for sh
  by unfold_locales (rule devices_body)

context device_handler
begin

lemma responses:
  assumes "for_devices req_d invalid_dev body s = Inr (s', rs)"
  shows "map key rs = device_request_keys req_d (shape (impl_devices s)) \<and>
         shape (impl_devices s') = shape (impl_devices s)"
proof -
  obtain devs where "for_range req_d (length (impl_devices s)) invalid_dev (on_device body) (impl_devices s) =
      Inr (devs, rs)" "impl_devices s' = devs"
    using assms by (auto simp: for_devices_def split: sum.splits)
  with devs.range [where sh = "shape (impl_devices s)", OF refl, of req_d invalid_dev devs rs]
  show ?thesis by (simp add: device_request_keys_def key_invalid_dev split: option.splits)
qed

end

end
