(* ===== verification/P4_Table.thy ===== *)
theory P4_Table
  imports P4_Types
begin

text \<open>
  \<^verbatim>\<open>sn-p4/src/agent/table.cpp\<close>: clearing tables, and inserting and deleting rules.  A rule of a
  request is parsed into a rule of \<^verbatim>\<open>libsnp4\<close>, packed, and handed to the driver API.
\<close>

subsection \<open>Messages\<close>

record TableRequest =
  treq_dev_id :: int
  treq_pipeline_id :: int
  treq_table_name :: string

record TableResponse =
  tresp_error_code :: ErrorCode
  tresp_dev_id :: nat
  tresp_pipeline_id :: nat

datatype Match =
    KeyMask string string
  | KeyOnly string
  | KeyPrefix string nat
  | Match_Range nat nat
  | Match_Unused
  | TYPE_NOT_SET

record TableRule =
  tr_table_name :: string
  tr_priority :: nat
  tr_replace :: bool
  tr_matches :: "Match list"
  tr_action_name :: string
  tr_parameters :: "string list"

record TableRuleRequest =
  rreq_dev_id :: int
  rreq_pipeline_id :: int
  rreq_rules :: "TableRule list"

text \<open>The bit of the debug flag that enables the log of the driver, and its prefix.\<close>

definition DEBUG_FLAG_PIPELINE_DRIVER :: nat where "DEBUG_FLAG_PIPELINE_DRIVER = 11"

definition driver_log_prefix :: string where "driver_log_prefix = ''DEBUG_INFO[PIPELINE_DRIVER]: ''"

subsection \<open>Clearing tables\<close>

definition clear_table_of ::
  "DevicePipeline \<Rightarrow> string \<Rightarrow> 'd snp4_user_context \<Rightarrow> ErrorCode \<times> 'd snp4_user_context" where
  "clear_table_of p tname u =
     (if tname = []
      then (case snp4_reset_all_tables u of (ok, u') \<Rightarrow> (if \<not> ok then EC_FAILED_CLEAR_ALL_TABLES else EC_OK, u'))
      else if \<not> pipeline_has_table p tname then (EC_INVALID_TABLE_NAME, u)
      else (case snp4_reset_one_table u tname of (ok, u') \<Rightarrow> (if \<not> ok then EC_FAILED_CLEAR_TABLE else EC_OK, u')))"

definition clear_table_body ::
  "bool \<Rightarrow> string \<Rightarrow> nat \<Rightarrow> nat \<Rightarrow> ('d Device, TableResponse) rpc" where
  "clear_table_body drv_log_enable tname dev_id pipeline_id dev =
     (let p = dev_pipelines dev ! pipeline_id;
          u = snp4_log_enable (pipeline_handle dev pipeline_id) drv_log_enable (Some driver_log_prefix);
          (err, u') = clear_table_of p tname u
      in Inr (set_handle pipeline_id (snp4_log_enable u' False None) dev,
              [\<lparr>tresp_error_code = err, tresp_dev_id = dev_id, tresp_pipeline_id = pipeline_id\<rparr>]))"

definition table_invalid_device :: TableResponse where
  "table_invalid_device = \<lparr>tresp_error_code = EC_INVALID_DEVICE_ID, tresp_dev_id = 0, tresp_pipeline_id = 0\<rparr>"

definition table_invalid_pipeline :: "nat \<Rightarrow> TableResponse" where
  "table_invalid_pipeline d =
     \<lparr>tresp_error_code = EC_INVALID_PIPELINE_ID, tresp_dev_id = d, tresp_pipeline_id = 0\<rparr>"

definition clear_table :: "TableRequest \<Rightarrow> ('d SmartnicP4Impl, TableResponse) rpc" where
  "clear_table req s =
     for_devices (treq_dev_id req) table_invalid_device
       (for_pipelines (treq_pipeline_id req) table_invalid_pipeline
          (clear_table_body (DEBUG_FLAG_PIPELINE_DRIVER \<in> impl_debug_flags s) (treq_table_name req))) s"

definition ClearTable :: "TableRequest \<Rightarrow> ('d SmartnicP4Impl, TableResponse) rpc" where
  "ClearTable req = clear_table req"

subsection \<open>Parsing rules\<close>

text \<open>The strings of the request are handed to GMP up to their first NUL.\<close>

definition c_str :: "string \<Rightarrow> string" where
  "c_str s = takeWhile (\<lambda>c. of_char c \<noteq> (0 :: nat)) s"

definition table_rule_parse_match :: "gmp \<Rightarrow> Match \<Rightarrow> ErrorCode + sn_match" where
  "table_rule_parse_match g m =
     (case m of
        KeyMask key msk \<Rightarrow>
          (case mpz_init_set_str0 g (c_str key) of None \<Rightarrow> Inl EC_TABLE_RULE_MATCH_INVALID_KEY_FORMAT
           | Some k \<Rightarrow>
             (case mpz_init_set_str0 g (c_str msk) of None \<Rightarrow> Inl EC_TABLE_RULE_MATCH_INVALID_MASK_FORMAT
              | Some v \<Rightarrow> Inr (FORMAT_KEY_MASK k v)))
      | KeyOnly key \<Rightarrow>
          (case mpz_init_set_str0 g (c_str key) of None \<Rightarrow> Inl EC_TABLE_RULE_MATCH_INVALID_KEY_FORMAT
           | Some k \<Rightarrow> Inr (FORMAT_KEY_ONLY k))
      | KeyPrefix key len \<Rightarrow>
          (if len > 65535 then Inl EC_TABLE_RULE_MATCH_INVALID_PREFIX_LENGTH
           else (case mpz_init_set_str0 g (c_str key) of None \<Rightarrow> Inl EC_TABLE_RULE_MATCH_INVALID_KEY_FORMAT
                 | Some k \<Rightarrow> Inr (FORMAT_PREFIX k len)))
      | Match_Range lower upper \<Rightarrow>
          (if lower > 65535 then Inl EC_TABLE_RULE_MATCH_RANGE_LOWER_TOO_BIG
           else if upper > 65535 then Inl EC_TABLE_RULE_MATCH_RANGE_UPPER_TOO_BIG
           else Inr (FORMAT_RANGE lower upper))
      | Match_Unused \<Rightarrow> Inr FORMAT_UNUSED
      | TYPE_NOT_SET \<Rightarrow> Inl EC_UNKNOWN_TABLE_RULE_MATCH_TYPE)"

definition table_rule_parse_action_parameter :: "gmp \<Rightarrow> string \<Rightarrow> ErrorCode + sn_param" where
  "table_rule_parse_action_parameter g v =
     (case mpz_init_set_str0 g (c_str v) of None \<Rightarrow> Inl EC_TABLE_RULE_INVALID_ACTION_PARAMETER_FORMAT
      | Some x \<Rightarrow> Inr (PARAM_MPZ x))"

text \<open>The loops over matches and parameters end at the first one that does not parse.\<close>

fun parse_all :: "('a \<Rightarrow> 'e + 'b) \<Rightarrow> 'a list \<Rightarrow> 'e + 'b list" where
  "parse_all f [] = Inr []"
| "parse_all f (x # xs) =
     (case f x of Inl e \<Rightarrow> Inl e
      | Inr y \<Rightarrow> (case parse_all f xs of Inl e \<Rightarrow> Inl e | Inr ys \<Rightarrow> Inr (y # ys)))"

definition table_rule_status :: "snp4_status \<Rightarrow> ErrorCode" where
  "table_rule_status st =
     (case st of
        SNP4_STATUS_OK \<Rightarrow> EC_OK
      | SNP4_STATUS_FIELD_SPEC_OVERFLOW \<Rightarrow> EC_TABLE_RULE_FIELD_SPEC_OVERFLOW
      | SNP4_STATUS_FIELD_SPEC_FORMAT_INVALID \<Rightarrow> EC_TABLE_RULE_FIELD_SPEC_FORMAT_INVALID
      | SNP4_STATUS_FIELD_SPEC_UNKNOWN_TYPE \<Rightarrow> EC_TABLE_RULE_FIELD_SPEC_UNKNOWN_TYPE
      | SNP4_STATUS_FIELD_SPEC_SIZE_MISMATCH \<Rightarrow> EC_TABLE_RULE_FIELD_SPEC_SIZE_MISMATCH
      | SNP4_STATUS_PACK_KEY_TOO_BIG \<Rightarrow> EC_TABLE_RULE_PACK_KEY_TOO_BIG
      | SNP4_STATUS_PACK_MASK_TOO_BIG \<Rightarrow> EC_TABLE_RULE_PACK_MASK_TOO_BIG
      | SNP4_STATUS_PACK_PARAMS_TOO_BIG \<Rightarrow> EC_TABLE_RULE_PACK_PARAMS_TOO_BIG
      | SNP4_STATUS_MATCH_INVALID_FORMAT \<Rightarrow> EC_TABLE_RULE_MATCH_INVALID_FORMAT
      | SNP4_STATUS_MATCH_MASK_TOO_WIDE \<Rightarrow> EC_TABLE_RULE_MATCH_MASK_TOO_WIDE
      | SNP4_STATUS_MATCH_INVALID_BITFIELD_MASK \<Rightarrow> EC_TABLE_RULE_MATCH_INVALID_BITFIELD_MASK
      | SNP4_STATUS_MATCH_INVALID_CONSTANT_MASK \<Rightarrow> EC_TABLE_RULE_MATCH_INVALID_CONSTANT_MASK
      | SNP4_STATUS_MATCH_INVALID_PREFIX_MASK \<Rightarrow> EC_TABLE_RULE_MATCH_INVALID_PREFIX_MASK
      | SNP4_STATUS_MATCH_INVALID_RANGE_MASK \<Rightarrow> EC_TABLE_RULE_MATCH_INVALID_RANGE_MASK
      | SNP4_STATUS_MATCH_INVALID_UNUSED_MASK \<Rightarrow> EC_TABLE_RULE_MATCH_INVALID_UNUSED_MASK
      | SNP4_STATUS_MATCH_KEY_TOO_BIG \<Rightarrow> EC_TABLE_RULE_MATCH_KEY_TOO_BIG
      | SNP4_STATUS_MATCH_MASK_TOO_BIG \<Rightarrow> EC_TABLE_RULE_MATCH_MASK_TOO_BIG
      | SNP4_STATUS_INVALID_TABLE_NAME \<Rightarrow> EC_TABLE_RULE_INVALID_TABLE_NAME
      | SNP4_STATUS_INVALID_TABLE_CONFIG \<Rightarrow> EC_TABLE_RULE_INVALID_TABLE_CONFIG
      | SNP4_STATUS_INVALID_ACTION_FOR_TABLE \<Rightarrow> EC_TABLE_RULE_INVALID_ACTION_FOR_TABLE
      | SNP4_STATUS_PARAM_INVALID_FORMAT \<Rightarrow> EC_TABLE_RULE_PARAM_INVALID_FORMAT
      | SNP4_STATUS_PARAM_SPEC_OVERFLOW \<Rightarrow> EC_TABLE_RULE_PARAM_SPEC_OVERFLOW
      | SNP4_STATUS_PARAM_SPEC_SIZE_MISMATCH \<Rightarrow> EC_TABLE_RULE_PARAM_SPEC_SIZE_MISMATCH
      | SNP4_STATUS_PARAM_TOO_BIG \<Rightarrow> EC_TABLE_RULE_PARAM_TOO_BIG
      | _ \<Rightarrow> EC_UNKNOWN)"

text \<open>With a table (for a deletion) only the matches are packed.\<close>

definition table_rule_pack ::
  "gmp \<Rightarrow> DevicePipeline \<Rightarrow> snp4_info_table option \<Rightarrow> sn_rule \<Rightarrow> sn_pack \<Rightarrow> ub + (ErrorCode \<times> sn_pack)" where
  "table_rule_pack g p ti rule pack =
     (case (case ti of
              Some t \<Rightarrow> snp4_rule_pack_matches g (table_matches t) (table_key_bits t) (rule_matches rule) pack
            | None \<Rightarrow>
              (case snp4_rule_pack g (Some (dp_info p)) (Some rule) (Some pack) of
                 Inl u \<Rightarrow> Inl u
               | Inr (st, q) \<Rightarrow> Inr (st, case q of Some pack' \<Rightarrow> pack' | None \<Rightarrow> pack))) of
        Inl u \<Rightarrow> Inl u
      | Inr (st, pack') \<Rightarrow> Inr (table_rule_status st, pack'))"

subsection \<open>Inserting and deleting rules\<close>

text \<open>The packed arrays; a successful packing has allocated them.\<close>

definition ptr_bytes :: "heap_ptr \<Rightarrow> bytes" where
  "ptr_bytes p = (case p of Live bs \<Rightarrow> bs | _ \<Rightarrow> [])"

text \<open>The matches, then (for an insertion) the action and its parameters, as a rule of the library.\<close>

definition parse_rule_matches :: "gmp \<Rightarrow> snp4_info_table \<Rightarrow> TableRule \<Rightarrow> ErrorCode + sn_rule" where
  "parse_rule_matches g ti rule =
     (if length (tr_matches rule) < length (table_matches ti) then Inl EC_TABLE_RULE_TOO_FEW_MATCHES
      else if length (tr_matches rule) > length (table_matches ti) then Inl EC_TABLE_RULE_TOO_MANY_MATCHES
      else case parse_all (table_rule_parse_match g) (tr_matches rule) of Inl e \<Rightarrow> Inl e
      | Inr ms \<Rightarrow> Inr (snp4_rule_init\<lparr>rule_table_name := Some (table_name ti), rule_priority := tr_priority rule,
                                      rule_matches := ms\<rparr>))"

definition parse_rule_action :: "gmp \<Rightarrow> snp4_info_table \<Rightarrow> TableRule \<Rightarrow> sn_rule \<Rightarrow> ErrorCode + sn_rule" where
  "parse_rule_action g ti rule sr =
     (case pipeline_get_table_action_info ti (tr_action_name rule) of None \<Rightarrow> Inl EC_INVALID_ACTION_NAME
      | Some ai \<Rightarrow>
        (if length (tr_parameters rule) < length (action_params ai) then Inl EC_TABLE_RULE_TOO_FEW_ACTION_PARAMETERS
         else if length (tr_parameters rule) > length (action_params ai)
         then Inl EC_TABLE_RULE_TOO_MANY_ACTION_PARAMETERS
         else case parse_all (table_rule_parse_action_parameter g) (tr_parameters rule) of Inl e \<Rightarrow> Inl e
         | Inr ps \<Rightarrow> Inr (sr\<lparr>rule_action_name := Some (action_name ai), rule_params := ps\<rparr>)))"

definition parse_rule :: "gmp \<Rightarrow> bool \<Rightarrow> snp4_info_table \<Rightarrow> TableRule \<Rightarrow> ErrorCode + sn_rule" where
  "parse_rule g do_insert ti rule =
     (case parse_rule_matches g ti rule of Inl e \<Rightarrow> Inl e
      | Inr sr \<Rightarrow> if do_insert then parse_rule_action g ti rule sr else Inr sr)"

definition issue_rule ::
  "bool \<Rightarrow> TableRule \<Rightarrow> sn_rule \<Rightarrow> sn_pack \<Rightarrow> 'd snp4_user_context \<Rightarrow> ErrorCode \<times> 'd snp4_user_context" where
  "issue_rule do_insert rule sr pack u =
     (let tname = (case rule_table_name sr of Some n \<Rightarrow> n | None \<Rightarrow> '''');
          aname = (case rule_action_name sr of Some n \<Rightarrow> n | None \<Rightarrow> '''') in
      if do_insert
      then (case snp4_table_insert_kma u tname (ptr_bytes (pack_key pack)) (ptr_bytes (pack_mask pack)) aname
                   (ptr_bytes (pack_params pack)) (rule_priority sr) (tr_replace rule) of
              (ok, u') \<Rightarrow> (if \<not> ok then EC_FAILED_INSERT_TABLE_RULE else EC_OK, u'))
      else (case snp4_table_delete_k u tname (ptr_bytes (pack_key pack)) (ptr_bytes (pack_mask pack)) of
              (ok, u') \<Rightarrow> (if \<not> ok then EC_FAILED_DELETE_TABLE_RULE else EC_OK, u')))"

definition apply_table_rule ::
  "gmp \<Rightarrow> bool \<Rightarrow> DevicePipeline \<Rightarrow> TableRule \<Rightarrow> 'd snp4_user_context \<Rightarrow>
   agent_stop + (ErrorCode \<times> 'd snp4_user_context)" where
  "apply_table_rule g do_insert p rule u =
     (case pipeline_get_table_info p (tr_table_name rule) of None \<Rightarrow> Inr (EC_INVALID_TABLE_NAME, u)
      | Some ti \<Rightarrow>
        (case parse_rule g do_insert ti rule of Inl e \<Rightarrow> Inr (e, u)
         | Inr sr \<Rightarrow>
           (case table_rule_pack g p (if do_insert then None else Some ti) sr snp4_pack_init of
              Inl ub \<Rightarrow> Inl (Stop_Memory ub)
            | Inr (err, pack) \<Rightarrow>
              (if err \<noteq> EC_OK then Inr (err, u)
               else let (err', u') = issue_rule do_insert rule sr pack u in
                 (case snp4_pack_clear pack of Inl ub \<Rightarrow> Inl (Stop_Memory ub)
                  | Inr _ \<Rightarrow> Inr (err', u'))))))"

text \<open>The rules in their order, up to the first one that fails.\<close>

fun apply_table_rules ::
  "gmp \<Rightarrow> bool \<Rightarrow> DevicePipeline \<Rightarrow> TableRule list \<Rightarrow> 'd snp4_user_context \<Rightarrow>
   agent_stop + (ErrorCode \<times> 'd snp4_user_context)" where
  "apply_table_rules g do_insert p [] u = Inr (EC_OK, u)"
| "apply_table_rules g do_insert p (rule # rules) u =
     (case apply_table_rule g do_insert p rule u of Inl e \<Rightarrow> Inl e
      | Inr (err, u') \<Rightarrow>
        if err \<noteq> EC_OK then Inr (err, u') else apply_table_rules g do_insert p rules u')"

definition table_rule_body ::
  "gmp \<Rightarrow> bool \<Rightarrow> bool \<Rightarrow> TableRule list \<Rightarrow> nat \<Rightarrow> nat \<Rightarrow> ('d Device, TableResponse) rpc" where
  "table_rule_body g drv_log_enable do_insert rules dev_id pipeline_id dev =
     (let p = dev_pipelines dev ! pipeline_id;
          u = snp4_log_enable (pipeline_handle dev pipeline_id) drv_log_enable (Some driver_log_prefix)
      in case apply_table_rules g do_insert p rules u of Inl e \<Rightarrow> Inl e
         | Inr (err, u') \<Rightarrow>
             Inr (set_handle pipeline_id (snp4_log_enable u' False None) dev,
                  [\<lparr>tresp_error_code = err, tresp_dev_id = dev_id, tresp_pipeline_id = pipeline_id\<rparr>]))"

definition insert_or_delete_table_rule ::
  "gmp \<Rightarrow> TableRuleRequest \<Rightarrow> bool \<Rightarrow> ('d SmartnicP4Impl, TableResponse) rpc" where
  "insert_or_delete_table_rule g req do_insert s =
     for_devices (rreq_dev_id req) table_invalid_device
       (for_pipelines (rreq_pipeline_id req) table_invalid_pipeline
          (table_rule_body g (DEBUG_FLAG_PIPELINE_DRIVER \<in> impl_debug_flags s) do_insert (rreq_rules req))) s"

definition InsertTableRule :: "gmp \<Rightarrow> TableRuleRequest \<Rightarrow> ('d SmartnicP4Impl, TableResponse) rpc" where
  "InsertTableRule g req = insert_or_delete_table_rule g req True"

definition DeleteTableRule :: "gmp \<Rightarrow> TableRuleRequest \<Rightarrow> ('d SmartnicP4Impl, TableResponse) rpc" where
  "DeleteTableRule g req = insert_or_delete_table_rule g req False"

end
