(* ===== verification/P4_Table_Props.thy ===== *)
theory P4_Table_Props
  imports P4_Table Snp4_Rule_Props Snp4_Api_Props
begin

text \<open>
  What the table requests of the agent guarantee: every device and pipeline of a request gets
  one response, a batch of rules is applied up to its first failing rule, no rule makes the
  agent touch freed memory on consistent tables, and an accepted rule reaches the driver as
  the bytes that its fields pack to, which are those they denote if no number is negative.
\<close>

subsection \<open>One response for each pipeline\<close>

definition table_key :: "TableResponse \<Rightarrow> response_key" where
  "table_key r =
     (if tresp_error_code r = EC_INVALID_DEVICE_ID then Key_Invalid_Device
      else if tresp_error_code r = EC_INVALID_PIPELINE_ID then Key_Invalid_Pipeline (tresp_dev_id r)
      else Key_Pipeline (tresp_dev_id r) (tresp_pipeline_id r))"

lemma invalid_keys [simp]:
  "table_key table_invalid_device = Key_Invalid_Device"
  "table_key (table_invalid_pipeline d) = Key_Invalid_Pipeline d"
  by (simp_all add: table_key_def table_invalid_device_def table_invalid_pipeline_def)

text \<open>The error codes of the table operations are not those of the identifiers.\<close>

definition range_error :: "ErrorCode \<Rightarrow> bool" where
  "range_error e \<longleftrightarrow> e = EC_INVALID_DEVICE_ID \<or> e = EC_INVALID_PIPELINE_ID"

lemma clear_table_of_error: "clear_table_of p t u = (e, u') \<Longrightarrow> \<not> range_error e"
  by (auto simp: clear_table_of_def range_error_def split: if_splits prod.splits)

lemma status_not_range [simp]: "\<not> range_error (table_rule_status st)"
  by (cases st) (simp_all add: table_rule_status_def range_error_def)

lemma table_rule_status_OK [simp]: "table_rule_status st = EC_OK \<longleftrightarrow> st = SNP4_STATUS_OK"
  by (cases st) (simp_all add: table_rule_status_def)

lemma parse_all_Inl: "parse_all f xs = Inl e \<Longrightarrow> \<exists>x \<in> set xs. f x = Inl e"
  by (induction xs) (auto split: sum.splits)

lemma parse_all_Inr: "parse_all f xs = Inr ys \<longleftrightarrow> list_all2 (\<lambda>x y. f x = Inr y) xs ys"
proof (induction xs arbitrary: ys)
  case (Cons x xs)
  then show ?case by (cases ys) (auto split: sum.splits simp flip: Cons.IH)
qed (cases ys, auto)

lemma parse_match_error: "table_rule_parse_match g m = Inl e \<Longrightarrow> \<not> range_error e \<and> e \<noteq> EC_OK"
  by (cases m) (auto simp: table_rule_parse_match_def range_error_def split: option.splits if_splits)

lemma parse_parameter_error: "table_rule_parse_action_parameter g v = Inl e \<Longrightarrow> \<not> range_error e \<and> e \<noteq> EC_OK"
  by (auto simp: table_rule_parse_action_parameter_def range_error_def split: option.splits)

lemma parse_rule_error:
  assumes "parse_rule g ins ti rule = Inl e"
  shows "\<not> range_error e \<and> e \<noteq> EC_OK"
proof -
  have 1: "\<not> range_error e \<and> e \<noteq> EC_OK" if "parse_rule_matches g ti rule = Inl e"
    using that parse_match_error parse_all_Inl
    by (fastforce simp: parse_rule_matches_def range_error_def split: if_splits sum.splits)
  have 2: "\<not> range_error e \<and> e \<noteq> EC_OK" if "parse_rule_action g ti rule sr = Inl e" for sr
    using that parse_parameter_error parse_all_Inl
    by (fastforce simp: parse_rule_action_def range_error_def split: if_splits sum.splits option.splits)
  show ?thesis using assms 1 2 by (auto simp: parse_rule_def split: sum.splits if_splits)
qed

lemma issue_rule_error: "issue_rule ins rule sr pack u = (e, u') \<Longrightarrow> \<not> range_error e"
  by (auto simp: issue_rule_def Let_def range_error_def split: if_splits prod.splits)

lemma pack_error: "table_rule_pack g p ti sr pack = Inr (e, pack') \<Longrightarrow> \<not> range_error e"
  by (auto simp: table_rule_pack_def split: sum.splits)

lemma apply_rule_error: "apply_table_rule g ins p rule u = Inr (e, u') \<Longrightarrow> \<not> range_error e"
  using parse_rule_error issue_rule_error pack_error
  by (fastforce simp: apply_table_rule_def range_error_def split: option.splits sum.splits if_splits prod.splits)

lemma apply_rules_error: "apply_table_rules g ins p rules u = Inr (e, u') \<Longrightarrow> \<not> range_error e"
proof (induction rules arbitrary: u)
  case (Cons rule rules)
  then obtain e1 u1 where 1: "apply_table_rule g ins p rule u = Inr (e1, u1)"
    by (auto split: sum.splits)
  then show ?case using Cons apply_rule_error [OF 1] by (auto split: if_splits)
qed (simp add: range_error_def)

interpretation clear_table_handler: pipeline_handler "clear_table_body log tname" table_key
    table_invalid_device table_invalid_pipeline for log tname
proof
  show "dev_pipelines dev' = dev_pipelines dev \<and> map table_key rs = [Key_Pipeline d p]"
    if "clear_table_body log tname d p dev = Inr (dev', rs)" for d p dev dev' rs
    using that clear_table_of_error
    by (fastforce simp: clear_table_body_def table_key_def range_error_def Let_def split: prod.splits)
qed simp_all

interpretation table_rule_handler: pipeline_handler "table_rule_body g log ins rules" table_key
    table_invalid_device table_invalid_pipeline for g log ins rules
proof
  show "dev_pipelines dev' = dev_pipelines dev \<and> map table_key rs = [Key_Pipeline d p]"
    if "table_rule_body g log ins rules d p dev = Inr (dev', rs)" for d p dev dev' rs
    using that apply_rules_error
    by (fastforce simp: table_rule_body_def table_key_def range_error_def Let_def split: sum.splits prod.splits)
qed simp_all

subsection \<open>Rules on consistent tables\<close>

definition tables_wf :: "DevicePipeline \<Rightarrow> bool" where
  "tables_wf p \<longleftrightarrow> (\<forall>t \<in> set (pipeline_tables (dp_info p)). table_wf t)"

lemma get_table_info_by_name:
  "snp4_info_get_table_by_name (Some (dp_info p)) (Some n) = pipeline_get_table_info p n"
  by (simp add: snp4_info_get_table_by_name_def pipeline_get_table_info_def)

lemma get_action_info_by_name:
  "snp4_info_get_action_by_name (Some t) (Some n) = pipeline_get_table_action_info t n"
  by (simp add: snp4_info_get_action_by_name_def pipeline_get_table_action_info_def)

lemma find_name: "find (\<lambda>x. f x = n) xs = Some y \<Longrightarrow> f y = n \<and> y \<in> set xs"
  by (metis (mono_tags, lifting) find_Some_iff nth_mem)

lemma table_info_found:
  "pipeline_get_table_info p n = Some t \<Longrightarrow> table_name t = n \<and> t \<in> set (pipeline_tables (dp_info p))"
  unfolding pipeline_get_table_info_def by (rule find_name)

lemma action_info_found:
  "pipeline_get_table_action_info t n = Some a \<Longrightarrow> action_name a = n \<and> a \<in> set (table_actions t)"
  unfolding pipeline_get_table_action_info_def by (rule find_name)

text \<open>What a parsed rule holds.\<close>

definition rule_parsed ::
  "gmp \<Rightarrow> bool \<Rightarrow> snp4_info_table \<Rightarrow> TableRule \<Rightarrow> sn_rule \<Rightarrow> bool" where
  "rule_parsed g ins ti rule sr \<longleftrightarrow>
     list_all2 (\<lambda>m x. table_rule_parse_match g m = Inr x) (tr_matches rule) (rule_matches sr) \<and>
     length (rule_matches sr) = length (table_matches ti) \<and>
     rule_table_name sr = Some (table_name ti) \<and> rule_priority sr = tr_priority rule \<and>
     (if ins then \<exists>ai. pipeline_get_table_action_info ti (tr_action_name rule) = Some ai \<and>
          rule_action_name sr = Some (action_name ai) \<and>
          list_all2 (\<lambda>v x. table_rule_parse_action_parameter g v = Inr x) (tr_parameters rule) (rule_params sr) \<and>
          length (rule_params sr) = length (action_params ai)
      else rule_action_name sr = None \<and> rule_params sr = [])"

lemma parse_rule_Inr: "parse_rule g ins ti rule = Inr sr \<Longrightarrow> rule_parsed g ins ti rule sr"
  by (auto simp: parse_rule_def parse_rule_matches_def parse_rule_action_def rule_parsed_def snp4_rule_init_def
      parse_all_Inr dest: list_all2_lengthD split: if_splits sum.splits option.splits)

text \<open>Packing a parsed rule has a status, and live arrays when that is OK.\<close>

lemma pack_parsed:
  assumes g: "gmp_documented g" and wf: "tables_wf p"
    and t: "pipeline_get_table_info p (tr_table_name rule) = Some ti" and r: "rule_parsed g ins ti rule sr"
  shows "\<exists>st pack. table_rule_pack g p (if ins then None else Some ti) sr snp4_pack_init = Inr (table_rule_status st, pack) \<and>
           (st = SNP4_STATUS_OK \<longrightarrow> (\<exists>k m. pack_key pack = Live k \<and> pack_mask pack = Live m \<and>
              (if ins then \<exists>q. pack_params pack = Live q else pack_params pack = Null)))"
proof -
  have ti: "table_wf ti" "snp4_info_get_table_by_name (Some (dp_info p)) (rule_table_name sr) = Some ti"
    using table_info_found [OF t] wf r t by (auto simp: tables_wf_def rule_parsed_def get_table_info_by_name)
  show ?thesis
  proof (cases ins)
    case True
    then obtain ai where "snp4_info_get_action_by_name (Some ti) (rule_action_name sr) = Some ai"
      using r action_info_found by (fastforce simp: rule_parsed_def get_action_info_by_name)
    from rule_pack_outcome [OF g ti this, of snp4_pack_init] show ?thesis
      using True by (auto simp: table_rule_pack_def pack_filled_def split: if_splits)
  next
    case False
    have len: "length (rule_matches sr) = length (table_matches ti)" using r by (simp add: rule_parsed_def)
    show ?thesis
    proof (cases "extend_key_mask g (table_matches ti) 0 (rule_matches sr) 0 0")
      case (Inl e)
      moreover have "e \<noteq> SNP4_STATUS_OK" using Inl extend_key_mask_err by metis
      ultimately show ?thesis using False by (force simp: table_rule_pack_def snp4_rule_pack_matches_def)
    next
      case (Inr km)
      then obtain key msk where "extend_key_mask g (table_matches ti) 0 (rule_matches sr) 0 0 = Inr (key, msk)"
        by (cases km) simp
      from pack_matches_wf [OF g len _ _ _ this, of "table_key_bits ti" snp4_pack_init] show ?thesis
        using False ti(1) by (auto simp: table_rule_pack_def table_wf_def snp4_pack_init_def)
    qed
  qed
qed

lemma clear_live: "pack_key p = Live k \<Longrightarrow> pack_mask p = Live m \<Longrightarrow> pack_params p = Null \<or> pack_params p = Live q \<Longrightarrow>
    \<exists>p'. snp4_pack_clear p = Inr p'"
  by (auto simp: snp4_pack_clear_def clear_ptr_def free_ptr_def)

lemma apply_rule_total:
  assumes g: "gmp_documented g" and wf: "tables_wf p"
  shows "\<exists>e u'. apply_table_rule g ins p rule u = Inr (e, u')"
proof (cases "pipeline_get_table_info p (tr_table_name rule)")
  case (Some ti)
  show ?thesis
  proof (cases "parse_rule g ins ti rule")
    case (Inr sr)
    obtain st pack where pk: "table_rule_pack g p (if ins then None else Some ti) sr snp4_pack_init = Inr (table_rule_status st, pack)"
      "st = SNP4_STATUS_OK \<longrightarrow> (\<exists>k m. pack_key pack = Live k \<and> pack_mask pack = Live m \<and>
        (if ins then \<exists>q. pack_params pack = Live q else pack_params pack = Null))"
      using pack_parsed [OF g wf Some parse_rule_Inr [OF Inr]] by auto
    have "st = SNP4_STATUS_OK \<Longrightarrow> \<exists>p'. snp4_pack_clear pack = Inr p'"
      using pk(2) clear_live by (metis (full_types))
    then show ?thesis using Some Inr pk(1)
      by (auto simp: apply_table_rule_def split: prod.splits)
  qed (use Some in \<open>simp add: apply_table_rule_def\<close>)
qed (simp add: apply_table_rule_def)

lemma apply_rules_total:
  assumes "gmp_documented g" and "tables_wf p"
  shows "\<exists>e u'. apply_table_rules g ins p rules u = Inr (e, u')"
proof (induction rules arbitrary: u)
  case (Cons rule rules)
  obtain e u1 where "apply_table_rule g ins p rule u = Inr (e, u1)"
    using apply_rule_total [OF assms] by blast
  then show ?case using Cons.IH [of u1] by auto
qed simp

definition device_tables_wf :: "'d Device \<Rightarrow> bool" where
  "device_tables_wf dev \<longleftrightarrow> (\<forall>p \<in> set (dev_pipelines dev). tables_wf p)"

lemma device_tables_wf_cong: "dev_pipelines d' = dev_pipelines d \<Longrightarrow> device_tables_wf d' = device_tables_wf d"
  by (simp add: device_tables_wf_def)

lemma table_rule_body_total:
  assumes "gmp_documented g" and "device_tables_wf dev" and "i < length (dev_pipelines dev)"
  shows "\<exists>dev' rs. table_rule_body g log ins rules d i dev = Inr (dev', rs) \<and> device_tables_wf dev'
           \<and> dev_pipelines dev' = dev_pipelines dev"
proof -
  have "tables_wf (dev_pipelines dev ! i)" using assms(2,3) by (simp add: device_tables_wf_def)
  from apply_rules_total [OF assms(1) this] obtain e u' where
    "apply_table_rules g ins (dev_pipelines dev ! i) rules
       (snp4_log_enable (pipeline_handle dev i) log (Some driver_log_prefix)) = Inr (e, u')" by blast
  then show ?thesis using assms(2) by (simp add: table_rule_body_def Let_def device_tables_wf_def)
qed

text \<open>
  Property C21.  A request to insert or delete rules is always answered: if the tables of the agent's
  pipelines are described consistently, then whatever the rules are, the handler returns, and
  it writes exactly one response for each pipeline of the request, devices and pipelines in
  increasing order, with one response for each device that has no such pipeline and one for a
  device that does not exist.
\<close>
theorem table_rule_request_answered:
  assumes "gmp_documented g" and "\<forall>dev \<in> set (impl_devices s). device_tables_wf dev"
  shows "\<exists>s' rs. insert_or_delete_table_rule g req ins s = Inr (s', rs) \<and>
           map table_key rs =
             pipeline_request_keys (rreq_dev_id req) (rreq_pipeline_id req) (shape (impl_devices s)) \<and>
           shape (impl_devices s') = shape (impl_devices s)"
proof -
  have "\<exists>s' rs. insert_or_delete_table_rule g req ins s = Inr (s', rs)"
    using for_devices_pipelines_total [where P = device_tables_wf and
        body = "table_rule_body g (DEBUG_FLAG_PIPELINE_DRIVER \<in> impl_debug_flags s) ins (rreq_rules req)",
        OF table_rule_body_total [OF assms(1)] assms(2)]
    unfolding insert_or_delete_table_rule_def by blast
  then obtain s' rs where r: "insert_or_delete_table_rule g req ins s = Inr (s', rs)" by blast
  then show ?thesis
    using table_rule_handler.responses [OF r [unfolded insert_or_delete_table_rule_def]] by blast
qed

subsection \<open>A batch of rules stops at its first error\<close>

definition rules_outcome ::
  "gmp \<Rightarrow> bool \<Rightarrow> DevicePipeline \<Rightarrow> TableRule list \<Rightarrow> 'd snp4_user_context \<Rightarrow> ErrorCode \<Rightarrow>
   'd snp4_user_context \<Rightarrow> nat \<Rightarrow> 'd snp4_user_context list \<Rightarrow> bool" where
  "rules_outcome g ins p rules u err u' k us \<longleftrightarrow>
     length us = Suc k \<and> us ! 0 = u \<and> k \<le> length rules \<and>
     (\<forall>i < k. apply_table_rule g ins p (rules ! i) (us ! i) = Inr (EC_OK, us ! Suc i)) \<and>
     (if k = length rules then err = EC_OK \<and> u' = us ! k
      else err \<noteq> EC_OK \<and> apply_table_rule g ins p (rules ! k) (us ! k) = Inr (err, u'))"

lemma outcome_Suc:
  assumes "apply_table_rule g ins p rule u = Inr (EC_OK, u1)" and "rules_outcome g ins p rules u1 err u' k us"
  shows "rules_outcome g ins p (rule # rules) u err u' (Suc k) (u # us)"
  using assms unfolding rules_outcome_def by (auto simp: less_Suc_eq_0_disj split: if_splits)

lemma outcome_tl:
  assumes "rules_outcome g ins p (rule # rules) u err u' (Suc k) us"
  shows "apply_table_rule g ins p rule u = Inr (EC_OK, us ! 1) \<and> rules_outcome g ins p rules (us ! 1) err u' k (tl us)"
proof -
  have step: "apply_table_rule g ins p ((rule # rules) ! i) (us ! i) = Inr (EC_OK, us ! Suc i)" if "i < Suc k" for i
    using assms that by (simp add: rules_outcome_def)
  show ?thesis
    using assms step [of 0] step [of "Suc _"] unfolding rules_outcome_def by (auto simp: nth_tl split: if_splits)
qed

lemma rules_outcome_iff:
  "apply_table_rules g ins p rules u = Inr (err, u') \<longleftrightarrow> (\<exists>k us. rules_outcome g ins p rules u err u' k us)"
proof (induction rules arbitrary: u)
  case Nil
  have "\<exists>us. rules_outcome g ins p [] u EC_OK u 0 us" by (intro exI [of _ "[u]"]) (simp add: rules_outcome_def)
  then show ?case by (auto simp: rules_outcome_def)
next
  case (Cons rule rules)
  have stop: "rules_outcome g ins p (rule # rules) u err u' 0 us \<longleftrightarrow>
      us = [u] \<and> err \<noteq> EC_OK \<and> apply_table_rule g ins p rule u = Inr (err, u')" for us
    by (auto simp: rules_outcome_def length_Suc_conv)
  show ?case
  proof
    assume l: "apply_table_rules g ins p (rule # rules) u = Inr (err, u')"
    then obtain e u1 where 1: "apply_table_rule g ins p rule u = Inr (e, u1)" by (auto split: sum.splits)
    show "\<exists>k us. rules_outcome g ins p (rule # rules) u err u' k us"
    proof (cases "e = EC_OK")
      case True
      with l 1 Cons.IH [of u1] show ?thesis using outcome_Suc by fastforce
    qed (use l 1 stop in auto)
  next
    assume "\<exists>k us. rules_outcome g ins p (rule # rules) u err u' k us"
    then obtain k us where run: "rules_outcome g ins p (rule # rules) u err u' k us" by blast
    show "apply_table_rules g ins p (rule # rules) u = Inr (err, u')"
    proof (cases k)
      case (Suc j)
      from outcome_tl [OF run [unfolded Suc]] Cons.IH [of "us ! 1"] show ?thesis by auto
    qed (use run stop in auto)
  qed
qed

text \<open>
  Property C31.  The rules of a request are applied to a pipeline in their order up to the first
  one that fails: the response carries \<open>EC_OK\<close> exactly if all were applied, otherwise the error
  of the failing rule; the rules before it have taken effect, and those after it are not even
  looked at.
\<close>
theorem table_rules_prefix:
  "apply_table_rules g ins p rules u = Inr (err, u') \<longleftrightarrow>
     (\<exists>k us. length us = Suc k \<and> us ! 0 = u \<and> k \<le> length rules \<and>
        (\<forall>i < k. apply_table_rule g ins p (rules ! i) (us ! i) = Inr (EC_OK, us ! Suc i)) \<and>
        (if k = length rules then err = EC_OK \<and> u' = us ! k
         else err \<noteq> EC_OK \<and> apply_table_rule g ins p (rules ! k) (us ! k) = Inr (err, u')))"
  using rules_outcome_iff [of g ins p rules u err u'] by (simp add: rules_outcome_def)

subsection \<open>An inserted rule reaches the driver\<close>

lemma rule_pack_parts:
  assumes "snp4_rule_pack g (Some pl) (Some r) (Some p) = Inr (SNP4_STATUS_OK, Some q)"
    and "snp4_info_get_table_by_name (Some pl) (rule_table_name r) = Some t"
    and "snp4_info_get_action_by_name (Some t) (rule_action_name r) = Some a"
  shows "\<exists>p1. snp4_rule_pack_matches g (table_matches t) (table_key_bits t) (rule_matches r) snp4_pack_init =
             Inr (SNP4_STATUS_OK, p1) \<and>
           snp4_rule_pack_params g (action_params a) (table_param_bits t) (action_param_bits a) (rule_params r) p1 =
             Inr (SNP4_STATUS_OK, q)"
  using assms
  by (auto simp: snp4_rule_pack_def Let_def pack_fail_def split: if_splits sum.splits)

lemma pack_params_keep:
  "snp4_rule_pack_params g specs tp ap ps p = Inr (rc, p') \<Longrightarrow> pack_key p' = pack_key p \<and> pack_mask p' = pack_mask p"
  by (auto simp: snp4_rule_pack_params_def Let_def split: if_splits sum.splits)

definition key_denotes :: "gmp \<Rightarrow> snp4_info_table \<Rightarrow> sn_match list \<Rightarrow> bytes \<Rightarrow> bytes \<Rightarrow> bool" where
  "key_denotes g ti ms key msk \<longleftrightarrow>
     length key = (table_key_bits ti + 7) div 8 \<and> length msk = (table_key_bits ti + 7) div 8 \<and>
     map Inr (zip (map int (unpack_fields (match_widths (table_matches ti)) (be_value key)))
                  (map int (unpack_fields (match_widths (table_matches ti)) (be_value msk))))
       = map2 (pack_partial_key_mask g) (table_matches ti) ms"

text \<open>The key and the mask of any accepted rule are the magnitudes of the packed integers.\<close>

definition key_packed :: "gmp \<Rightarrow> snp4_info_table \<Rightarrow> sn_match list \<Rightarrow> bytes \<Rightarrow> bytes \<Rightarrow> bool" where
  "key_packed g ti ms key msk \<longleftrightarrow>
     length key = (table_key_bits ti + 7) div 8 \<and> length msk = (table_key_bits ti + 7) div 8 \<and>
     (\<exists>k m. extend_key_mask g (table_matches ti) 0 ms 0 0 = Inr (k, m) \<and>
        be_value key = nat \<bar>k\<bar> \<and> be_value msk = nat \<bar>m\<bar>)"

definition params_denote :: "snp4_info_action \<Rightarrow> sn_param list \<Rightarrow> bytes \<Rightarrow> bool" where
  "params_denote ai ps params \<longleftrightarrow>
     action_param_bits ai = 0 \<or>
     map (\<lambda>y. Some (int y)) (unpack_fields (param_widths (action_params ai)) (be_value params)) = map param_value ps"

lemma insert_kma_ok:
  assumes "snp4_table_insert_kma u tname key msk aname params prio replace = (True, u')"
  shows "\<exists>tb aid mode d1 d2 d3.
     get_table_by_name (user_intf u) tname (user_drv u) = (Inr tb, d1) \<and>
     get_action_id (user_intf u) tb aname d1 = (Inr aid, d2) \<and>
     get_mode (user_intf u) tb d2 = (Inr mode, d3) \<and>
     (let m = (if mode_null_mask mode then None else Some msk) in
      if replace then table_update (user_intf u) tb key m aid params d3
      else table_insert (user_intf u) tb key m prio aid params d3) = (Inr (), user_drv u')"
  using assms
  by (fastforce simp: snp4_table_insert_kma_def run_user_def drv_then_def drv_last_def Let_def
      split: prod.splits sum.splits if_splits)

lemma list_all2_right: "list_all2 P xs ys \<Longrightarrow> y \<in> set ys \<Longrightarrow> \<exists>x \<in> set xs. P x y"
  by (metis in_set_conv_nth list_all2_conv_all_nth)

text \<open>What an accepted insertion has parsed, packed and issued.\<close>

lemma accepted_rule_packed:
  assumes "gmp_documented g" and "tables_wf p" and "apply_table_rule g True p rule u = Inr (EC_OK, u')"
  obtains ti ai sr p1 pack where
    "pipeline_get_table_info p (tr_table_name rule) = Some ti" "table_wf ti"
    "pipeline_get_table_action_info ti (tr_action_name rule) = Some ai" "ai \<in> set (table_actions ti)"
    "rule_parsed g True ti rule sr" "rule_action_name sr = Some (tr_action_name rule)"
    "rule_table_name sr = Some (tr_table_name rule)"
    "snp4_rule_pack_matches g (table_matches ti) (table_key_bits ti) (rule_matches sr) snp4_pack_init = Inr (SNP4_STATUS_OK, p1)"
    "snp4_rule_pack_params g (action_params ai) (table_param_bits ti) (action_param_bits ai) (rule_params sr) p1 =
       Inr (SNP4_STATUS_OK, pack)"
    "pack_filled ti pack" "issue_rule True rule sr pack u = (EC_OK, u')"
proof -
  obtain ti where ti: "pipeline_get_table_info p (tr_table_name rule) = Some ti"
    using assms(3) by (auto simp: apply_table_rule_def split: option.splits)
  obtain sr where sr: "parse_rule g True ti rule = Inr sr"
    using assms(3) ti parse_rule_error by (fastforce simp: apply_table_rule_def split: sum.splits)
  from parse_rule_Inr [OF sr] obtain ai where p: "rule_parsed g True ti rule sr"
    and ai: "pipeline_get_table_action_info ti (tr_action_name rule) = Some ai" "rule_action_name sr = Some (action_name ai)"
    by (auto simp: rule_parsed_def)
  note names = table_info_found [OF ti] action_info_found [OF ai(1)]
  have wf: "table_wf ti" using names assms(2) by (auto simp: tables_wf_def)
  have found: "snp4_info_get_table_by_name (Some (dp_info p)) (rule_table_name sr) = Some ti"
    "snp4_info_get_action_by_name (Some ti) (rule_action_name sr) = Some ai"
    using p ti ai names by (simp_all add: rule_parsed_def get_table_info_by_name get_action_info_by_name)
  obtain st pack where pk: "snp4_rule_pack g (Some (dp_info p)) (Some sr) (Some snp4_pack_init) = Inr (st, Some pack)"
    "st = SNP4_STATUS_OK \<Longrightarrow> pack_filled ti pack"
    using rule_pack_outcome [OF assms(1) wf found, of snp4_pack_init] by auto
  have st: "st = SNP4_STATUS_OK" and iss: "issue_rule True rule sr pack u = (EC_OK, u')"
    using assms(3) ti sr pk(1)
    by (auto simp: apply_table_rule_def table_rule_pack_def split: if_splits prod.splits sum.splits)
  show thesis
    using that [OF ti wf ai(1) _ p] rule_pack_parts [OF pk(1) [unfolded st] found] pk(2) [OF st] iss p ai names
    by (auto simp: rule_parsed_def)
qed

text \<open>
  Property C3.  An insertion that the agent reports as done, for a pipeline with consistent tables, has reached the driver: the driver's
  \<open>insert\<close> (or \<open>update\<close>, when the rule replaces one) succeeded on the table and the action of the rule,
  with its priority and with the bytes packed from the rule (the mask is NULL for the modes that insist on it).  The key
  and the mask are the big-endian magnitudes of the integers that the fields of the rule's matches pack to.  If no number
  of the matches is negative, the fields of the key and the mask are those of the matches, in the order of the P4 program; if no
  parameter is negative, the parameters read back as the rule's.  A negative number is packed and accepted too, but may destroy
  the fields before it (\<open>negative_key_loses_fields\<close>), so that nothing is said of the fields then.
\<close>
theorem inserted_rule_reaches_driver:
  assumes "gmp_documented g" and "tables_wf p" and "apply_table_rule g True p rule u = Inr (EC_OK, u')"
  shows "\<exists>ti ai ms ps key msk params tb aid mode d1 d2 d3.
     pipeline_get_table_info p (tr_table_name rule) = Some ti \<and>
     pipeline_get_table_action_info ti (tr_action_name rule) = Some ai \<and>
     list_all2 (\<lambda>m x. table_rule_parse_match g m = Inr x) (tr_matches rule) ms \<and>
     list_all2 (\<lambda>v x. table_rule_parse_action_parameter g v = Inr x) (tr_parameters rule) ps \<and>
     key_packed g ti ms key msk \<and>
     ((\<forall>x \<in> set ms. match_nonneg x) \<longrightarrow> key_denotes g ti ms key msk) \<and>
     ((\<forall>x \<in> set ps. \<forall>y. param_value x = Some y \<longrightarrow> 0 \<le> y) \<longrightarrow> params_denote ai ps params) \<and>
     get_table_by_name (user_intf u) (tr_table_name rule) (user_drv u) = (Inr tb, d1) \<and>
     get_action_id (user_intf u) tb (tr_action_name rule) d1 = (Inr aid, d2) \<and>
     get_mode (user_intf u) tb d2 = (Inr mode, d3) \<and>
     (let m = (if mode_null_mask mode then None else Some msk) in
      if tr_replace rule then table_update (user_intf u) tb key m aid params d3
      else table_insert (user_intf u) tb key m (tr_priority rule) aid params d3) = (Inr (), user_drv u')"
proof -
  from accepted_rule_packed [OF assms(1-3)] obtain ti ai sr p1 pack where
    ti: "pipeline_get_table_info p (tr_table_name rule) = Some ti" "table_wf ti"
    and ai: "pipeline_get_table_action_info ti (tr_action_name rule) = Some ai" "ai \<in> set (table_actions ti)"
    and p: "rule_parsed g True ti rule sr"
    and sn: "rule_action_name sr = Some (tr_action_name rule)" "rule_table_name sr = Some (tr_table_name rule)"
    and p1: "snp4_rule_pack_matches g (table_matches ti) (table_key_bits ti) (rule_matches sr) snp4_pack_init = Inr (SNP4_STATUS_OK, p1)"
      "snp4_rule_pack_params g (action_params ai) (table_param_bits ti) (action_param_bits ai) (rule_params sr) p1 =
       Inr (SNP4_STATUS_OK, pack)"
    and pk: "pack_filled ti pack" and iss: "issue_rule True rule sr pack u = (EC_OK, u')" .
  obtain k m q where live: "pack_key pack = Live k" "pack_mask pack = Live m" "pack_params pack = Live q"
    using pk by (auto simp: pack_filled_def)
  have kb: "table_key_bits ti < 65536" "length (rule_matches sr) = length (table_matches ti)"
    using ti(2) p by (auto simp: table_wf_def rule_parsed_def)
  have packed: "key_packed g ti (rule_matches sr) k m"
    using pack_matches_okD [OF assms(1) kb(1) p1(1)] live pack_params_keep [OF p1(2)] by (auto simp: key_packed_def)
  have key: "key_denotes g ti (rule_matches sr) k m" if "\<forall>x \<in> set (rule_matches sr). match_nonneg x"
    using matches_unpack [OF assms(1) kb that p1(1)] live pack_params_keep [OF p1(2)] by (auto simp: key_denotes_def)
  have act: "action_param_bits ai = sum_list (param_widths (action_params ai))" "action_param_bits ai \<le> table_param_bits ti"
    and lens: "length (rule_params sr) = length (action_params ai)" "table_param_bits ti < 65536"
    using ti(2) ai p by (auto simp: table_wf_def table_param_bits_wf [OF ti(2)] rule_parsed_def)
  have params: "params_denote ai (rule_params sr) q"
    if "\<forall>x \<in> set (rule_params sr). \<forall>y. param_value x = Some y \<longrightarrow> 0 \<le> y"
    unfolding params_denote_def
    using params_unpack [OF assms(1) lens(1) act(1) _ act(2) lens(2) that p1(2)]
      live(3) by fastforce
  have "snp4_table_insert_kma u (tr_table_name rule) k m (tr_action_name rule) q
      (tr_priority rule) (tr_replace rule) = (True, u')"
    using iss p by (auto simp: issue_rule_def ptr_bytes_def live sn rule_parsed_def split: prod.splits if_splits)
  note ins = insert_kma_ok [OF this]
  have parsed: "list_all2 (\<lambda>m x. table_rule_parse_match g m = Inr x) (tr_matches rule) (rule_matches sr)"
    "list_all2 (\<lambda>v x. table_rule_parse_action_parameter g v = Inr x) (tr_parameters rule) (rule_params sr)"
    using p by (auto simp: rule_parsed_def)
  show ?thesis using ins ti(1) ai(1) packed key params parsed by blast
qed

subsection \<open>An example\<close>

definition example_drv_config :: drv_config where
  "example_drv_config =
     \<lparr>cfg_name = ''p'', cfg_offset = 0,
      cfg_tables = [\<lparr>xt_name = ''t'', xt_endian = XIL_BIG_ENDIAN, xt_mode = XIL_MODE_TCAM, xt_key_bits = 12,
        xt_actionid_bits = 1, xt_num_entries = 4, xt_num_masks = 0, xt_response_bits = 10, xt_priority_bits = 0,
        xt_format = ''8t:4c'', xt_actions = [\<lparr>xa_name = ''a'', xa_params = []\<rparr>]\<rparr>],
      cfg_counters = [], cfg_metadata = None\<rparr>"

definition example_handle :: "drv_event list snp4_user_context" where
  "example_handle =
     \<lparr>user_intf = recording_intf example_drv_config, user_drv = [], log_enabled = False, log_prefix = [],
      user_base_addr = 0, user_sdnet_idx = 0, counter_blocks = []\<rparr>"

definition example_device_pipeline :: DevicePipeline where
  "example_device_pipeline =
     \<lparr>dp_id = 0, dp_handle = 0, dp_info = example_pipeline, dp_counters = None, dp_table_ecc = None\<rparr>"

definition example_table_rule :: TableRule where
  "example_table_rule =
     \<lparr>tr_table_name = ''t'', tr_priority = 7, tr_replace = False, tr_matches = [KeyOnly ''10'', Match_Unused],
      tr_action_name = ''a'', tr_parameters = [''300'']\<rparr>"

lemmas example_table_defs = example_device_pipeline_def example_pipeline_def example_table_def example_table_rule_def
  example_handle_def example_drv_config_def

lemma ref_numbers: "ref_set_str ''10'' = Some 10" "ref_set_str ''300'' = Some 300"
  "c_str ''10'' = ''10''" "c_str ''300'' = ''300''"
  by code_simp+

lemma example_applied:
  "apply_table_rule gmp_ref True example_device_pipeline example_table_rule example_handle =
     Inr (EC_OK, example_handle\<lparr>user_drv := [Ev_Insert 0 [10, 0] (Some [15, 0]) 7 0 [1, 44]]\<rparr>)"
  by (simp add: apply_table_rule_def example_table_defs pipeline_get_table_info_def parse_rule_def parse_rule_matches_def
      parse_rule_action_def pipeline_get_table_action_info_def table_rule_parse_match_def
      table_rule_parse_action_parameter_def ref_numbers snp4_rule_init_def table_rule_pack_def pack_eval
      table_rule_status_def issue_rule_def ptr_bytes_def snp4_table_insert_kma_def run_user_def drv_then_def
      drv_last_def ev_result_def ev_call_def mode_null_mask_def)

theorem table_rules_prefix_witness:
  "apply_table_rules gmp_ref True example_device_pipeline
     [example_table_rule, example_table_rule\<lparr>tr_table_name := ''none''\<rparr>, example_table_rule] example_handle =
     Inr (EC_INVALID_TABLE_NAME, example_handle\<lparr>user_drv := [Ev_Insert 0 [10, 0] (Some [15, 0]) 7 0 [1, 44]]\<rparr>)"
proof -
  have bad: "apply_table_rule gmp_ref True example_device_pipeline (example_table_rule\<lparr>tr_table_name := ''none''\<rparr>) u =
      Inr (EC_INVALID_TABLE_NAME, u)" for u :: "drv_event list snp4_user_context"
    by (simp add: apply_table_rule_def example_table_defs pipeline_get_table_info_def)
  show ?thesis
    by (rule table_rules_prefix [THEN iffD2], rule exI [of _ 1],
        rule exI [of _ "[example_handle, example_handle\<lparr>user_drv := [Ev_Insert 0 [10, 0] (Some [15, 0]) 7 0 [1, 44]]\<rparr>]"])
      (simp add: example_applied bad)
qed

theorem inserted_rule_reaches_driver_witness:
  "\<exists>ms key msk params.
     list_all2 (\<lambda>m x. table_rule_parse_match gmp_ref m = Inr x) [KeyOnly ''10'', Match_Unused] ms \<and>
     key_denotes gmp_ref example_table ms key msk \<and> params_denote (hd (table_actions example_table)) [PARAM_MPZ 300] params \<and>
     [Ev_Insert 0 key (Some msk) 7 0 params] = [Ev_Insert 0 [10, 0] (Some [15, 0]) 7 0 [1, 44]]"
proof -
  have wf: "tables_wf example_device_pipeline"
    by (simp add: tables_wf_def example_device_pipeline_def example_pipeline_def)
  show ?thesis
    using inserted_rule_reaches_driver [OF gmp_ref_documented wf example_applied]
    by (auto simp: example_table_defs pipeline_get_table_info_def pipeline_get_table_action_info_def table_rule_parse_match_def
        table_rule_parse_action_parameter_def ref_numbers match_nonneg_def param_value_def
        list_all2_Cons1 ev_result_def ev_call_def mode_null_mask_def)
qed

definition example_device :: "drv_event list Device" where
  "example_device =
     \<lparr>dev_bus_id = ''0000:d8:00.0'', dev_syscfg = \<lparr>sys_usr_access = 0, sys_build_status = 0, sys_dna = []\<rparr>,
      dev_pipelines = [example_device_pipeline],
      dev_hw = \<lparr>hw_handles = [example_handle], hw_counters = (\<lambda>_. \<lparr>cl_valid = False, cl_values = []\<rparr>),
                hw_table_ecc = (\<lambda>_. \<lparr>te_valid = False, te_corrected = 0, te_detected = 0\<rparr>)\<rparr>,
      dev_domain = stats_domain_alloc \<lparr>dspec_name = ''d'', dspec_interval_ms = 1000\<rparr>\<rparr>"

definition zero_time :: timespec where "zero_time = \<lparr>tv_sec = 0, tv_nsec = 0\<rparr>"

definition example_agent :: "drv_event list SmartnicP4Impl" where
  "example_agent =
     \<lparr>impl_devices = [example_device], impl_debug_flags = {},
      impl_clock = \<lparr>start_wall = zero_time, start_mono = zero_time, now_mono = Some zero_time\<rparr>,
      impl_server_domain = stats_domain_alloc \<lparr>dspec_name = ''s'', dspec_interval_ms = 1000\<rparr>,
      impl_server_zone = None\<rparr>"

lemma example_agent_devices [simp]: "impl_devices example_agent = [example_device]"
  "dev_pipelines example_device = [example_device_pipeline]" "shape [example_device] = [1]"
  by (simp_all add: example_agent_def example_device_def shape_def)

lemma example_tables_wf [simp]: "device_tables_wf example_device"
  by (simp add: device_tables_wf_def tables_wf_def example_device_pipeline_def example_pipeline_def)

theorem table_rule_request_answered_witness:
  "\<exists>s' rs. insert_or_delete_table_rule gmp_ref \<lparr>rreq_dev_id = - 1, rreq_pipeline_id = - 1, rreq_rules = [example_table_rule]\<rparr>
      True example_agent = Inr (s', rs) \<and> map table_key rs = [Key_Pipeline 0 0]"
  using table_rule_request_answered [OF gmp_ref_documented, of example_agent
      "\<lparr>rreq_dev_id = - 1, rreq_pipeline_id = - 1, rreq_rules = [example_table_rule]\<rparr>" True]
  by (auto simp: pipeline_request_keys_def device_keys_def id_range_def)

end
