(* ===== verification/P4_Stats.thy ===== *)
theory P4_Stats
  imports P4_Types
begin

text \<open>
  The requests of \<^verbatim>\<open>sn-p4/src/agent/stats.cpp\<close> (lines 721 to 865): reading and clearing the
  statistics of the devices.  The filters are those of \<^verbatim>\<open>Stats_Filter\<close>, the traversals those
  of the statistics engine.
\<close>

record StatsRequest =
  sreq_dev_id :: int
  sreq_filters :: stats_filters

record StatsResponse =
  sresp_error_code :: ErrorCode
  sresp_dev_id :: nat
  sresp_stats :: "StatsMetric list"

text \<open>A traversal that does not end within the fuel of the engine does not return.\<close>

definition stats_result :: "(stats_stop + 'x) option \<Rightarrow> agent_stop + 'x" where
  "stats_result r =
     (case r of None \<Rightarrow> Inl (Stop_Stats No_Return) | Some (Inl e) \<Rightarrow> Inl (Stop_Stats e) | Some (Inr x) \<Rightarrow> Inr x)"

definition clear_stats_domain :: "'d agent_env \<Rightarrow> stats_filters \<Rightarrow> 'd Device \<Rightarrow> agent_stop + 'd Device" where
  "clear_stats_domain env filters dev =
     (case stats_result (stats_domain_clear_metrics (ae_stats env) (clear_filter_of (ae_regex env) filters) None
             (dev_domain dev) (dev_hw dev)) of Inl e \<Rightarrow> Inl e
      | Inr (d, hw, _) \<Rightarrow> Inr (dev\<lparr>dev_domain := d, dev_hw := hw\<rparr>))"

definition clear_stats_zone :: "'d agent_env \<Rightarrow> stats_filters \<Rightarrow> nat \<Rightarrow> 'd Device \<Rightarrow> agent_stop + 'd Device" where
  "clear_stats_zone env filters z dev =
     (case stats_zone_clear_metrics (ae_stats env) (clear_filter_of (ae_regex env) filters) None z
             (dev_domain dev) (dev_hw dev) of Inl e \<Rightarrow> Inl (Stop_Stats e)
      | Inr (_, d, hw) \<Rightarrow> Inr (dev\<lparr>dev_domain := d, dev_hw := hw\<rparr>))"

definition get_stats_domain ::
  "'d agent_env \<Rightarrow> stats_filters \<Rightarrow> 'd Device \<Rightarrow> agent_stop + ('d Device \<times> StatsMetric list)" where
  "get_stats_domain env filters dev =
     (case stats_result (stats_domain_for_each_metric (get_stats_for_each_metric (ae_regex env) filters)
             (dev_domain dev) (dev_hw dev) []) of Inl e \<Rightarrow> Inl e
      | Inr (d, hw, (_, ms)) \<Rightarrow> Inr (dev\<lparr>dev_domain := d, dev_hw := hw\<rparr>, ms))"

definition stats_body ::
  "'d agent_env \<Rightarrow> stats_filters \<Rightarrow> bool \<Rightarrow> nat \<Rightarrow> ('d Device, StatsResponse) rpc" where
  "stats_body env filters do_clear dev_id dev =
     (case (if do_clear
            then (case clear_stats_domain env filters dev of Inl e \<Rightarrow> Inl e | Inr dev' \<Rightarrow> Inr (dev', []))
            else get_stats_domain env filters dev) of Inl e \<Rightarrow> Inl e
      | Inr (dev', ms) \<Rightarrow>
          Inr (dev', [\<lparr>sresp_error_code = EC_OK, sresp_dev_id = dev_id, sresp_stats = ms\<rparr>]))"

definition stats_invalid_device :: StatsResponse where
  "stats_invalid_device = \<lparr>sresp_error_code = EC_INVALID_DEVICE_ID, sresp_dev_id = 0, sresp_stats = []\<rparr>"

definition get_or_clear_stats ::
  "'d agent_env \<Rightarrow> StatsRequest \<Rightarrow> bool \<Rightarrow> ('d SmartnicP4Impl, StatsResponse) rpc" where
  "get_or_clear_stats env req do_clear =
     for_devices (sreq_dev_id req) stats_invalid_device (stats_body env (sreq_filters req) do_clear)"

definition GetStats :: "'d agent_env \<Rightarrow> StatsRequest \<Rightarrow> ('d SmartnicP4Impl, StatsResponse) rpc" where
  "GetStats env req = get_or_clear_stats env req False"

definition ClearStats :: "'d agent_env \<Rightarrow> StatsRequest \<Rightarrow> ('d SmartnicP4Impl, StatsResponse) rpc" where
  "ClearStats env req = get_or_clear_stats env req True"

definition stats_key :: "StatsResponse \<Rightarrow> response_key" where
  "stats_key r = (if sresp_error_code r = EC_OK then Key_Device (sresp_dev_id r) else Key_Invalid_Device)"

lemma stats_body_pipelines:
  "clear_stats_domain env flt dev = Inr dev' \<Longrightarrow> dev_pipelines dev' = dev_pipelines dev"
  "get_stats_domain env flt dev = Inr (dev', ms) \<Longrightarrow> dev_pipelines dev' = dev_pipelines dev"
  "clear_stats_zone env flt z dev = Inr dev' \<Longrightarrow> dev_pipelines dev' = dev_pipelines dev"
  by (auto simp: clear_stats_domain_def get_stats_domain_def clear_stats_zone_def split: sum.splits)

interpretation stats_handler: device_handler "stats_body env flt do_clear" stats_key stats_invalid_device
  for env flt do_clear
proof
  show "dev_pipelines dev' = dev_pipelines dev \<and> map stats_key rs = [Key_Device d]"
    if "stats_body env flt do_clear d dev = Inr (dev', rs)" for d dev dev' rs
    using that stats_body_pipelines
    by (auto simp: stats_body_def stats_key_def split: sum.splits if_splits)
qed (simp add: stats_key_def stats_invalid_device_def)

end
