(* ===== verification/P4_Stats_Props.thy ===== *)
theory P4_Stats_Props
  imports P4_Stats Stats_Filter_Props Opennic_Stats_Props
begin

text \<open>
  The requests for statistics as a whole: the invariant of a domain under which reading and
  clearing always return, the list of metrics that reading returns, and what clearing leaves.
\<close>

subsection \<open>What reading a metric reports\<close>

definition metric_type_message :: "stats_metric_type \<Rightarrow> StatsMetricType option" where
  "metric_type_message t =
     (case t of METRIC_COUNTER \<Rightarrow> Some STATS_METRIC_TYPE_COUNTER | METRIC_GAUGE \<Rightarrow> Some STATS_METRIC_TYPE_GAUGE
      | METRIC_FLAG \<Rightarrow> Some STATS_METRIC_TYPE_FLAG | METRIC_OTHER \<Rightarrow> None)"

definition metric_report :: "regex \<Rightarrow> stats_filters \<Rightarrow> stats_for_each_spec \<Rightarrow> StatsMetric list" where
  "metric_report R flt spec =
     (case metric_type_message (mspec_type (fe_metric spec)) of None \<Rightarrow> []
      | Some t \<Rightarrow>
        (let is = filter (value_selected R spec flt t) [0..<length (fe_values spec)] in
         if is = [] then []
         else [\<lparr>rm_type = t, rm_name = mspec_name (fe_metric spec), rm_num_elements = mspec_nelements (fe_metric spec),
                rm_domain = fe_domain spec, rm_zone = fe_zone spec, rm_block = fe_block spec,
                rm_last_update = fe_last_update spec,
                rm_values = map (\<lambda>i. value_message (flt_with_labels flt) i (fe_values spec ! i)) is\<rparr>]))"

lemma get_stats_report:
  assumes "pred_option (filter_valid R (length (fe_values spec))) (flt_metric_filter flt)" and "fe_values spec \<noteq> []"
    and "values_labelled (fe_values spec)"
  shows "get_stats_for_each_metric R flt spec stats = Some (0, stats @ metric_report R flt spec)"
proof (cases "metric_type_message (mspec_type (fe_metric spec))")
  case None
  then show ?thesis
    by (simp add: get_stats_for_each_metric_def metric_report_def metric_type_message_def split: stats_metric_type.splits)
next
  case (Some t)
  obtain r where r: "apply_filters R spec flt t (ba_new (length (fe_values spec))) = Some r"
    "ba_sized (length (fe_values spec)) r" "\<forall>i. ba_is_bit_set r i \<longleftrightarrow> value_selected R spec flt t i"
    using apply_filters_spec [OF assms(1) refl _ assms(3), of t] assms(2) by auto
  have fi: "ba_is_bit_set r = value_selected R spec flt t" using r(3) by blast
  have cl: "ba_is_all_cleared r \<longleftrightarrow> filter (value_selected R spec flt t) [0..<length (fe_values spec)] = []"
    using r(2,3) by (auto simp: ba_sized_def ba_is_all_cleared_iff value_selected_def filter_empty_conv)
  have "(case mspec_type (fe_metric spec) of METRIC_COUNTER \<Rightarrow> Some STATS_METRIC_TYPE_COUNTER
         | METRIC_GAUGE \<Rightarrow> Some STATS_METRIC_TYPE_GAUGE | METRIC_FLAG \<Rightarrow> Some STATS_METRIC_TYPE_FLAG
         | METRIC_OTHER \<Rightarrow> None) = Some t"
    using Some by (simp add: metric_type_message_def)
  then show ?thesis
    using Some cl r(1) by (simp add: get_stats_for_each_metric_def metric_report_def Let_def add_values_spec fi)
qed

subsection \<open>Metrics that are read and cleared without a stop\<close>

text \<open>
  A metric of a device: it has elements (fewer than \<open>2 ^ 30\<close>, so that slices do not wrap), its
  labels are filled in, and the callback of its block fills the buffer.  A block without a callback reads its metrics
  from the memory of the device, at one of the widths that it can be read at.
\<close>

definition metric_shape :: "stats_metric \<Rightarrow> bool" where
  "metric_shape m \<longleftrightarrow>
     0 < length (met_elements m) \<and> length (met_elements m) < 2 ^ 30 \<and> values_labelled (map el_value (met_elements m))"

definition metric_good :: "('h \<Rightarrow> stats_metric_spec \<Rightarrow> nat \<Rightarrow> 64 word list) \<Rightarrow> stats_metric \<Rightarrow> bool" where
  "metric_good rd m \<longleftrightarrow>
     0 < length (met_elements m) \<and> length (met_elements m) < 2 ^ 30 \<and>
     values_labelled (map el_value (met_elements m)) \<and>
     (\<forall>h. length (rd h (met_spec m) (length (met_elements m))) = length (met_elements m))"

definition metric_readable :: "'h stats_block_spec \<Rightarrow> stats_metric \<Rightarrow> bool" where
  "metric_readable bspec m \<longleftrightarrow>
     (case bspec_read_metric bspec of
        Some rd \<Rightarrow> metric_good rd m
      | None \<Rightarrow> metric_shape m \<and> io_size (mspec_io (met_spec m)) \<in> {1, 2, 4, 8})"

definition block_good :: "'h stats_block \<Rightarrow> bool" where
  "block_good b \<longleftrightarrow> (\<forall>m \<in> set (blk_metrics b). metric_readable (blk_spec b) m)"

definition zone_good :: "'h stats_zone \<Rightarrow> bool" where
  "zone_good zone \<longleftrightarrow> (\<forall>b \<in> set (zone_blocks zone). block_good b)"

definition domain_good :: "'h stats_domain \<Rightarrow> bool" where
  "domain_good d \<longleftrightarrow> zones_wf d \<and> (\<forall>zone \<in> set (domain_zones d). zone_good zone)"

text \<open>A filter with regular expressions that compile and slices whose steps are below \<open>2 ^ 30\<close>.\<close>

definition filters_good :: "regex \<Rightarrow> stats_filters \<Rightarrow> bool" where
  "filters_good R flt \<longleftrightarrow> (\<forall>sz. 0 < sz \<longrightarrow> sz < 2 ^ 30 \<longrightarrow> pred_option (filter_valid R sz) (flt_metric_filter flt))"

lemma values_labelled_update:
  "length vs = length es \<Longrightarrow> values_labelled (map el_value es) \<Longrightarrow>
   values_labelled (map el_value (update_elements conv mspec clear n vs es))"
  by (induction vs es arbitrary: n rule: list_induct2)
     (auto simp: values_labelled_def update_element_def Let_def split: prod.splits)

text \<open>A filter of a clear operation whose callbacks return.\<close>

definition clearing :: "'c stats_clear_filter \<Rightarrow> bool" where
  "clearing f \<longleftrightarrow>
     (\<forall>g. cf_setup f = Some g \<longrightarrow>
        (\<forall>spec c. fe_values spec \<noteq> [] \<longrightarrow> length (fe_values spec) < 2 ^ 30 \<longrightarrow> values_labelled (fe_values spec) \<longrightarrow> g spec c \<noteq> None)) \<and>
     (\<forall>g. cf_teardown f = Some g \<longrightarrow> (\<forall>spec c. g spec c \<noteq> None))"

lemma clearing_all: "clearing clear_all_filter"
  by (simp add: clearing_def clear_all_filter_def)

lemma clearing_filter:
  assumes "filters_good R flt" and "clear_filter_of R flt = Some f"
  shows "clearing f"
proof -
  obtain mf where mf: "flt_metric_filter flt = Some mf"
    "f = \<lparr>cf_setup = Some (clear_stats_filter_setup R mf), cf_teardown = Some clear_stats_filter_teardown,
          cf_match = Some clear_stats_filter_match\<rparr>"
    using assms(2) by (auto simp: clear_filter_of_def split: option.splits)
  have "clear_stats_filter_setup R mf spec c \<noteq> None"
    if vs: "fe_values spec \<noteq> []" "length (fe_values spec) < 2 ^ 30" "values_labelled (fe_values spec)" for spec c
  proof -
    have new: "ba_sized (length (fe_values spec)) (ba_new (length (fe_values spec)))"
      "\<forall>i. \<not> ba_is_bit_set (ba_new (length (fe_values spec))) i"
      using vs by (auto simp: ba_sized_def ba_sem)
    have "filter_valid R (length (fe_values spec)) mf"
      using assms(1) vs mf(1) by (force simp: filters_good_def)
    from filter_total(1) [of "spec\<lparr>fe_last_update := 0\<rparr>", OF _ _ this new] vs
    show ?thesis by (auto simp: clear_stats_filter_setup_def Let_def)
  qed
  then show ?thesis by (simp add: clearing_def mf(2) clear_stats_filter_teardown_def)
qed

lemma metric_good_shape: "metric_good rd m \<Longrightarrow> metric_shape m"
  by (simp add: metric_good_def metric_shape_def)

lemma readable_good [simp]: "bspec_read_metric bspec = Some rd \<Longrightarrow> metric_readable bspec m \<longleftrightarrow> metric_good rd m"
  by (simp add: metric_readable_def)

lemma readable_shape: "metric_readable bspec m \<Longrightarrow> metric_shape m"
  by (auto simp: metric_readable_def metric_good_shape split: option.splits)

text \<open>The values of a round are as many as the metric has elements.\<close>

lemma readable_values:
  assumes "metric_readable bspec m"
  shows "\<exists>vs. (case bspec_read_metric bspec of Some rd \<Rightarrow> Inr (rd h (met_spec m) (length (met_elements m)))
           | None \<Rightarrow> stats_metric_read mem h (bspec_io_base bspec) m) = Inr vs \<and> length vs = length (met_elements m)"
  using assms by (auto simp: metric_readable_def metric_good_def stats_metric_read_def Let_def split: option.splits)

lemma good_update:
  assumes "metric_readable bspec m" and "length vs = length (met_elements m)"
  shows "metric_readable bspec (m\<lparr>met_elements := update_elements conv mspec clear n vs (met_elements m)\<rparr>)"
  using assms length_update_elements [OF assms(2)] values_labelled_update [OF assms(2)]
  by (auto simp: metric_readable_def metric_good_def metric_shape_def simp del: length_greater_0_conv split: option.splits)

lemma clearing_runs:
  assumes "clearing f" and "metric_shape m" and "fe_values spec = map el_value (met_elements m)"
  shows "\<exists>c'. run_callback (cf_setup f) spec c = Inr c'" and "\<exists>c'. run_callback (cf_teardown f) spec c = Inr c'"
proof -
  have v: "fe_values spec \<noteq> []" "length (fe_values spec) < 2 ^ 30" "values_labelled (fe_values spec)"
    using assms(2,3) by (simp_all add: metric_shape_def)
  show "\<exists>c'. run_callback (cf_setup f) spec c = Inr c'"
  proof (cases "cf_setup f")
    case (Some g)
    then have "g spec c \<noteq> None" using assms(1) v unfolding clearing_def by blast
    then show ?thesis using Some by (auto simp: run_callback_def)
  qed (simp add: run_callback_def)
  show "\<exists>c'. run_callback (cf_teardown f) spec c = Inr c'"
  proof (cases "cf_teardown f")
    case (Some g)
    then have "g spec c \<noteq> None" using assms(1) unfolding clearing_def by blast
    then show ?thesis using Some by (auto simp: run_callback_def)
  qed (simp add: run_callback_def)
qed

lemma update_metric_good:
  assumes "metric_readable bspec m" and "\<forall>f. flt = Some f \<longrightarrow> clearing f"
  shows "\<exists>c' m'. update_metric env bspec flt h c m = Inr (c', m') \<and> metric_readable bspec m' \<and> met_spec m' = met_spec m"
proof -
  let ?fs = "\<lparr>fe_domain = env_domain env, fe_zone = env_zone env, fe_block = bspec_name bspec, fe_metric = met_spec m,
    fe_values = map el_value (met_elements m), fe_last_update = 0\<rparr>"
  obtain vs where vs: "(case bspec_read_metric bspec of Some rd \<Rightarrow> Inr (rd h (met_spec m) (length (met_elements m)))
      | None \<Rightarrow> stats_metric_read (env_mem env) h (bspec_io_base bspec) m) = Inr vs" "length vs = length (met_elements m)"
    using readable_values [OF assms(1)] by blast
  note shape = readable_shape [OF assms(1)]
  have set_up: "\<exists>c1. (case flt of None \<Rightarrow> Inr c | Some f \<Rightarrow> run_callback (cf_setup f) ?fs c) = Inr c1"
    using assms(2) clearing_runs(1) [OF _ shape, of _ ?fs] by (cases flt) simp_all
  have down: "\<exists>c2. (case flt of None \<Rightarrow> Inr c1 | Some f \<Rightarrow> run_callback (cf_teardown f) ?fs c1) = Inr c2" for c1
    using assms(2) clearing_runs(2) [OF _ shape, of _ ?fs] by (cases flt) simp_all
  from set_up obtain c1 where c1: "(case flt of None \<Rightarrow> Inr c | Some f \<Rightarrow> run_callback (cf_setup f) ?fs c) = Inr c1" ..
  from down [of c1] obtain c2 where
    c2: "(case flt of None \<Rightarrow> Inr c1 | Some f \<Rightarrow> run_callback (cf_teardown f) ?fs c1) = Inr c2" ..
  show ?thesis
    using vs(1) c1 c2 good_update [OF assms(1) vs(2)] by (simp add: update_metric_def Let_def)
qed

lemma update_metrics_good:
  assumes "\<forall>f. flt = Some f \<longrightarrow> clearing f"
  shows "\<forall>m \<in> set ms. metric_readable bspec m \<Longrightarrow>
     \<exists>c' ms'. update_metrics env bspec flt h c ms = Inr (c', ms') \<and> (\<forall>m \<in> set ms'. metric_readable bspec m) \<and>
       map met_spec ms' = map met_spec ms"
proof (induction ms arbitrary: c)
  case (Cons m ms)
  obtain c1 m1 where 1: "update_metric env bspec flt h c m = Inr (c1, m1)" "metric_readable bspec m1" "met_spec m1 = met_spec m"
    using update_metric_good [OF _ assms, of bspec m env h c] Cons.prems by auto
  with Cons.IH [of c1] Cons.prems show ?case by auto
qed simp

lemma update_block_good:
  assumes "block_good b" and "\<forall>f. flt = Some f \<longrightarrow> clearing f"
  shows "\<exists>c' b' h'. stats_block_update_metrics env flt c b h = Inr (c', b', h') \<and> block_good b' \<and>
           blk_spec b' = blk_spec b \<and> map met_spec (blk_metrics b') = map met_spec (blk_metrics b)"
  using update_metrics_good [OF assms(2) assms(1) [unfolded block_good_def], of env "call_opt (bspec_latch_metrics (blk_spec b)) h" c]
  by (auto simp: stats_block_update_metrics_def Let_def block_good_def)

lemma update_blocks_good:
  assumes "\<forall>f. flt = Some f \<longrightarrow> clearing f"
  shows "\<forall>b \<in> set bs. block_good b \<Longrightarrow>
     \<exists>c' bs' h'. update_blocks env flt c bs h = Inr (c', bs', h') \<and> (\<forall>b \<in> set bs'. block_good b) \<and>
       length bs' = length bs"
proof (induction bs arbitrary: c h)
  case (Cons b bs)
  obtain c1 b1 h1 where 1: "stats_block_update_metrics env flt c b h = Inr (c1, b1, h1)" "block_good b1"
    using update_block_good [OF _ assms, of b env c h] Cons.prems by auto
  with Cons.IH [of c1 h1] Cons.prems show ?case by auto
qed simp

subsection \<open>Zones and domains\<close>

lemma good_zone:
  "domain_good d \<Longrightarrow> z \<in> set (dom_zones d) \<Longrightarrow>
     \<exists>zone. dom_heap d z = Some zone \<and> zone_attached zone \<and> zone_ref_count zone \<noteq> - 1 \<and> zone_good zone"
  by (fastforce simp: domain_good_def zones_wf_def domain_zones_def)

lemma good_replace:
  assumes "domain_good d" and "z \<in> set (dom_zones d)" and "dom_heap d z = Some zone" and "\<forall>b \<in> set bs. block_good b"
  shows "domain_good (heap_update z (Some (zone\<lparr>zone_blocks := bs\<rparr>)) d)"
  using assms good_zone [OF assms(1,2)]
  by (auto simp: domain_good_def zones_wf_def domain_zones_def zone_good_def)

lemma clear_zone_good:
  assumes "domain_good d" and "z \<in> set (dom_zones d)" and "\<forall>f. flt = Some f \<longrightarrow> clearing f"
  shows "\<exists>c' d' h'. stats_zone_clear_metrics env flt c z d h = Inr (c', d', h') \<and> domain_good d' \<and>
           dom_zones d' = dom_zones d \<and> dom_spec d' = dom_spec d"
proof -
  obtain zone where zone: "dom_heap d z = Some zone" "zone_good zone" using good_zone [OF assms(1,2)] by blast
  let ?flt = "case flt of None \<Rightarrow> clear_all_filter | Some f \<Rightarrow> f"
  have "clearing ?flt" using assms(3) by (simp add: clearing_all split: option.splits)
  then obtain c' bs' h' where u: "update_blocks (env_of env d zone) (Some ?flt) c (zone_blocks zone) h = Inr (c', bs', h')"
    "\<forall>b \<in> set bs'. block_good b"
    using update_blocks_good [of "Some ?flt" "zone_blocks zone" "env_of env d zone" c h] zone(2) by (auto simp: zone_good_def)
  then show ?thesis
    using zone(1) good_replace [OF assms(1,2) zone(1) u(2)] by (simp add: stats_zone_clear_metrics_def)
qed

lemma clear_zones_good:
  assumes "\<forall>f. flt = Some f \<longrightarrow> clearing f"
  shows "domain_good d \<Longrightarrow> set zs \<subseteq> set (dom_zones d) \<Longrightarrow>
     \<exists>d' h' c'. run_zones (clear_body env flt) zs d h c = Inr (d', h', c') \<and> domain_good d' \<and>
       dom_zones d' = dom_zones d \<and> dom_spec d' = dom_spec d"
proof (induction zs arbitrary: d h c)
  case (Cons z zs)
  obtain c1 d1 h1 where 1: "stats_zone_clear_metrics env flt c z d h = Inr (c1, d1, h1)" "domain_good d1"
    "dom_zones d1 = dom_zones d" "dom_spec d1 = dom_spec d"
    using clear_zone_good [OF Cons.prems(1) _ assms, of z env c h] Cons.prems(2) by auto
  with Cons.IH [of d1 h1 c1] Cons.prems(2) show ?case by (simp add: clear_body_def)
qed simp

lemma clear_domain_good:
  assumes "domain_good d" and "\<forall>f. flt = Some f \<longrightarrow> clearing f"
  shows "\<exists>d' h' c'. stats_domain_clear_metrics env flt c d h = Some (Inr (d', h', c')) \<and> domain_good d' \<and>
           dom_zones d' = dom_zones d \<and> dom_spec d' = dom_spec d"
proof -
  have "zones_wf d" using assms(1) by (simp add: domain_good_def)
  then show ?thesis
    using clear_zones_good [OF assms(2,1) subset_refl, of env h c] domain_loops_run(4) [of d env flt c h] by auto
qed

text \<open>All metrics of a domain, as the traversal hands them to its callback.\<close>

definition block_entries :: "string \<Rightarrow> string \<Rightarrow> 'h stats_block \<Rightarrow> stats_for_each_spec list" where
  "block_entries dname zname b =
     map (\<lambda>m. \<lparr>fe_domain = dname, fe_zone = zname, fe_block = bspec_name (blk_spec b), fe_metric = met_spec m,
               fe_values = map el_value (met_elements m), fe_last_update = blk_last_update b\<rparr>) (blk_metrics b)"

definition zone_entries :: "string \<Rightarrow> 'h stats_zone \<Rightarrow> stats_for_each_spec list" where
  "zone_entries dname zone = concat (map (block_entries dname (zone_name zone)) (zone_blocks zone))"

definition domain_entries :: "'h stats_domain \<Rightarrow> stats_for_each_spec list" where
  "domain_entries d = concat (map (zone_entries (dspec_name (dom_spec d))) (domain_zones d))"

lemma block_reports:
  assumes "filters_good R flt"
  shows "\<forall>m \<in> set ms. metric_shape m \<Longrightarrow>
     block_for_each (\<lambda>m. \<lparr>fe_domain = dn, fe_zone = zn, fe_block = bn, fe_metric = met_spec m,
          fe_values = stats_metric_get_values m (length (met_elements m)), fe_last_update = t\<rparr>)
        (get_stats_for_each_metric R flt) ms acc =
     Some (0, acc @ concat (map (\<lambda>m. metric_report R flt \<lparr>fe_domain = dn, fe_zone = zn, fe_block = bn,
        fe_metric = met_spec m, fe_values = map el_value (met_elements m), fe_last_update = t\<rparr>) ms))"
proof (induction ms arbitrary: acc)
  case (Cons m ms)
  let ?s = "\<lparr>fe_domain = dn, fe_zone = zn, fe_block = bn, fe_metric = met_spec m,
    fe_values = map el_value (met_elements m), fe_last_update = t\<rparr>"
  have "metric_shape m" using Cons.prems by simp
  then have "get_stats_for_each_metric R flt ?s acc = Some (0, acc @ metric_report R flt ?s)"
    using assms by (intro get_stats_report) (auto simp: metric_shape_def filters_good_def)
  then show ?case using Cons by (simp add: metric_get_values)
qed simp

lemma zone_reports:
  assumes "filters_good R flt"
  shows "\<forall>b \<in> set bs. block_good b \<Longrightarrow>
     zone_for_each dn zn (get_stats_for_each_metric R flt) bs acc =
       Some (0, acc @ concat (map (metric_report R flt) (concat (map (block_entries dn zn) bs))))"
proof (induction bs arbitrary: acc)
  case (Cons b bs)
  then have shape: "\<forall>m \<in> set (blk_metrics b). metric_shape m" by (auto simp: block_good_def readable_shape)
  from block_reports [OF assms shape, of dn zn "bspec_name (blk_spec b)" "blk_last_update b" acc] Cons
  show ?case by (simp add: stats_block_for_each_metric_def block_entries_def comp_def)
qed simp

lemma domain_reports:
  assumes "filters_good R flt"
  shows "\<forall>z \<in> set zs. \<exists>zone. dom_heap d z = Some zone \<and> zone_good zone \<Longrightarrow>
     \<exists>rv. run_zones (with_zone (for_each_step dn (get_stats_for_each_metric R flt))) zs d h (rv0, acc) =
       Inr (d, h, rv, acc @ concat (map (metric_report R flt) (concat (map (\<lambda>z. zone_entries dn (the (dom_heap d z))) zs))))"
proof (induction zs arbitrary: rv0 acc)
  case (Cons z zs)
  then obtain zone where zone: "dom_heap d z = Some zone" "zone_good zone" by auto
  have "stats_zone_for_each_metric dn (get_stats_for_each_metric R flt) zone acc =
      Some (0, acc @ concat (map (metric_report R flt) (zone_entries dn zone)))"
    using zone_reports [OF assms, of "zone_blocks zone" dn "zone_name zone" acc] zone(2)
    by (simp add: stats_zone_for_each_metric_def zone_entries_def zone_good_def)
  then have "with_zone (for_each_step dn (get_stats_for_each_metric R flt)) z d h (rv0, acc) =
      Inr (d, h, (0, acc @ concat (map (metric_report R flt) (zone_entries dn zone))), False)"
    by (simp add: with_zone_def for_each_step_def zone(1))
  with Cons.IH [of 0 "acc @ concat (map (metric_report R flt) (zone_entries dn zone))"] Cons.prems zone(1)
  show ?case by simp
qed simp

lemma get_domain_good:
  assumes "filters_good (ae_regex env) flt" and "domain_good (dev_domain dev)"
  shows "get_stats_domain env flt dev =
           Inr (dev, concat (map (metric_report (ae_regex env) flt) (domain_entries (dev_domain dev))))"
proof -
  let ?d = "dev_domain dev"
  have "zones_wf ?d" using assms(2) by (simp add: domain_good_def)
  moreover have "\<forall>z \<in> set (dom_zones ?d). \<exists>zone. dom_heap ?d z = Some zone \<and> zone_good zone"
    using good_zone [OF assms(2)] by blast
  from domain_reports [OF assms(1) this, of "dspec_name (dom_spec ?d)" "dev_hw dev" 0 "[]"] obtain rv where
    "run_zones (with_zone (for_each_step (dspec_name (dom_spec ?d)) (get_stats_for_each_metric (ae_regex env) flt)))
       (dom_zones ?d) ?d (dev_hw dev) (0, []) =
     Inr (?d, dev_hw dev, rv, concat (map (metric_report (ae_regex env) flt) (domain_entries ?d)))"
    by (auto simp: domain_entries_def domain_zones_def comp_def)
  ultimately show ?thesis
    by (simp add: get_stats_domain_def stats_result_def domain_loops_run(2))
qed

text \<open>
  Property C9.  Reading the statistics of devices whose domains are in order returns, for every
  device of the request, the report of every metric of every zone and block in the order of the
  domain, a metric with no selected value left out, and changes nothing.
\<close>
theorem get_stats_complete:
  assumes "filters_good (ae_regex env) (sreq_filters req)" and "\<forall>dev \<in> set (impl_devices s). domain_good (dev_domain dev)"
    and "0 \<le> sreq_dev_id req" and "sreq_dev_id req < int (length (impl_devices s))"
  shows "GetStats env req s =
     Inr (s, [\<lparr>sresp_error_code = EC_OK, sresp_dev_id = nat (sreq_dev_id req),
               sresp_stats = concat (map (metric_report (ae_regex env) (sreq_filters req))
                  (domain_entries (dev_domain (impl_devices s ! nat (sreq_dev_id req)))))\<rparr>])"
proof -
  have "nat (sreq_dev_id req) < length (impl_devices s)" using assms(3,4) by simp
  then have "domain_good (dev_domain (impl_devices s ! nat (sreq_dev_id req)))" using assms(2) by simp
  from get_domain_good [OF assms(1) this] show ?thesis using assms(3,4)
    by (simp add: GetStats_def get_or_clear_stats_def for_devices_def for_range_def id_range_single on_device_def stats_body_def)
qed

subsection \<open>What a clear operation leaves\<close>

text \<open>
  The whole metric after an operation with a filter: each element is updated with the value read,
  and reset if the filter selects it (and the metric may be cleared).
\<close>

definition fspec_of :: "'h stats_env \<Rightarrow> 'h stats_block_spec \<Rightarrow> stats_metric \<Rightarrow> stats_for_each_spec" where
  "fspec_of env bspec m =
     \<lparr>fe_domain = env_domain env, fe_zone = env_zone env, fe_block = bspec_name bspec, fe_metric = met_spec m,
      fe_values = map el_value (met_elements m), fe_last_update = 0\<rparr>"

definition filter_type :: "stats_metric_type \<Rightarrow> StatsMetricType" where
  "filter_type t = (case metric_type_message t of None \<Rightarrow> STATS_METRIC_TYPE_UNKNOWN | Some x \<Rightarrow> x)"

lemma setup_selects:
  assumes "metric_good rd m" and "filters_good R flt" and "flt_metric_filter flt = Some f"
  shows "\<exists>b. clear_stats_filter_setup R f (fspec_of env bspec m) c = Some (Some b) \<and>
           (\<forall>i < length (met_elements m). ba_is_bit_set b i \<longleftrightarrow>
              filter_holds R (fspec_of env bspec m) (filter_type (mspec_type (met_spec m))) f i)"
proof -
  let ?n = "length (met_elements m)" and ?s = "fspec_of env bspec m"
  have s: "?s\<lparr>fe_last_update := 0\<rparr> = ?s" "length (fe_values ?s) = ?n" "values_labelled (fe_values ?s)" "0 < ?n"
    "filter_valid R ?n f"
    using assms by (auto simp: fspec_of_def metric_good_def filters_good_def)
  have new: "ba_sized ?n (ba_new ?n)" "\<forall>i. \<not> ba_is_bit_set (ba_new ?n) i"
    using s(4) by (auto simp: ba_sized_def ba_sem)
  have t: "(case mspec_type (fe_metric ?s) of METRIC_COUNTER \<Rightarrow> STATS_METRIC_TYPE_COUNTER
      | METRIC_GAUGE \<Rightarrow> STATS_METRIC_TYPE_GAUGE | METRIC_FLAG \<Rightarrow> STATS_METRIC_TYPE_FLAG
      | METRIC_OTHER \<Rightarrow> STATS_METRIC_TYPE_UNKNOWN) = filter_type (mspec_type (met_spec m))"
    by (simp add: fspec_of_def filter_type_def metric_type_message_def split: stats_metric_type.splits)
  from filter_total(1) [OF s(2,3,5) new, of "filter_type (mspec_type (met_spec m))"] show ?thesis
    unfolding clear_stats_filter_setup_def Let_def t s(1,2) by auto
qed

text \<open>
  Property C29.  Clearing with a filter resets exactly the values that the filter selects: of a
  metric that may be cleared, element \<open>i\<close> gets its initial value if the filter holds for it; every
  other element, and every element of a metric that is never cleared, is updated with the value
  just read as in a normal round.
\<close>
theorem clear_resets_selected:
  assumes "metric_good rd m" and "bspec_read_metric bspec = Some rd"
    and "filters_good R flt" and "flt_metric_filter flt = Some f"
  shows "\<exists>c' m'. update_metric env bspec (clear_filter_of R flt) h c m = Inr (c', m') \<and>
           length (met_elements m') = length (met_elements m) \<and>
           (\<forall>i < length (met_elements m).
              let sel = \<not> STATS_METRIC_FLAG_TEST (mspec_flags (met_spec m)) NEVER_CLEAR \<and>
                        filter_holds R (fspec_of env bspec m) (filter_type (mspec_type (met_spec m))) f i in
              met_elements m' ! i =
                update_element (case bspec_convert_metric bspec of None \<Rightarrow> env_double env | Some g \<Rightarrow> g h (met_spec m))
                  (met_spec m) sel (rd h (met_spec m) (length (met_elements m)) ! i) (met_elements m ! i) \<and>
              (sel \<longrightarrow> val_u64 (el_value (met_elements m' ! i)) = mspec_init_value (met_spec m)))"
proof -
  obtain b where b: "clear_stats_filter_setup R f (fspec_of env bspec m) c = Some (Some b)"
    "\<forall>i < length (met_elements m). ba_is_bit_set b i \<longleftrightarrow>
       filter_holds R (fspec_of env bspec m) (filter_type (mspec_type (met_spec m))) f i"
    using setup_selects [OF assms(1,3,4)] by blast
  have cf: "clear_filter_of R flt = Some \<lparr>cf_setup = Some (clear_stats_filter_setup R f),
      cf_teardown = Some clear_stats_filter_teardown, cf_match = Some clear_stats_filter_match\<rparr>"
    using assms(4) by (simp add: clear_filter_of_def)
  have len: "length (rd h (met_spec m) (length (met_elements m))) = length (met_elements m)"
    using assms(1) by (simp add: metric_good_def)
  have init: "val_u64 (el_value (update_element conv sp True v e)) = mspec_init_value sp" for conv sp v e
    by (cases "mspec_type sp") (auto simp: update_element_def update_u64_def)
  show ?thesis
    using assms(2) b(1) len unfolding fspec_of_def
    by (auto simp: update_metric_def Let_def cf run_callback_def clear_stats_filter_teardown_def
        length_update_elements nth_update_elements clear_decision_def clear_stats_filter_match_def
        b(2) [unfolded fspec_of_def] init)
qed

theorem clear_resets_selected_witness:
  "\<exists>c' m'. update_metric example_env (example_block_spec\<lparr>bspec_read_metric := Some (\<lambda>h m n. replicate n 7)\<rparr>)
      (clear_filter_of regex_none \<lparr>flt_non_zero = False,
         flt_metric_filter = Some (Filter False (FT_Match (MM_Name (MS_Exact ''drops'')))), flt_with_labels = False\<rparr>) (0::nat) None
      \<lparr>met_spec = example_metric_spec\<lparr>mspec_init_value := 3\<rparr>,
       met_elements = [\<lparr>el_value = \<lparr>val_u64 = 1, val_f64 = 0, val_labels = []\<rparr>, el_last = 0\<rparr>], met_mask = 0\<rparr> = Inr (c', m') \<and>
     val_u64 (el_value (met_elements m' ! 0)) = 3"
proof -
  let ?m = "\<lparr>met_spec = example_metric_spec\<lparr>mspec_init_value := 3\<rparr>,
    met_elements = [\<lparr>el_value = \<lparr>val_u64 = 1, val_f64 = 0, val_labels = []\<rparr>, el_last = 0\<rparr>], met_mask = 0\<rparr>"
  let ?f = "Filter False (FT_Match (MM_Name (MS_Exact ''drops'')))"
  have "metric_good (\<lambda>h m n. replicate n 7) ?m" by (simp add: metric_good_def values_labelled_def)
  from clear_resets_selected [OF this, of "example_block_spec\<lparr>bspec_read_metric := Some (\<lambda>h m n. replicate n 7)\<rparr>"
      regex_none "\<lparr>flt_non_zero = False, flt_metric_filter = Some ?f, flt_with_labels = False\<rparr>" ?f example_env 0 None]
  show ?thesis
    by (auto simp: filters_good_def fspec_of_def example_metric_spec_def flag_test_bit Let_def bit_numeral_rec)
qed

definition metric_reset :: "stats_metric \<Rightarrow> bool" where
  "metric_reset m \<longleftrightarrow>
     STATS_METRIC_FLAG_TEST (mspec_flags (met_spec m)) NEVER_CLEAR \<or>
     (\<forall>e \<in> set (met_elements m). val_u64 (el_value e) = mspec_init_value (met_spec m))"

lemma clear_all_metric:
  assumes "metric_readable bspec m" and "update_metric env bspec (Some clear_all_filter) h c m = Inr (c', m')"
  shows "metric_reset m'"
proof -
  obtain vs where vs: "(case bspec_read_metric bspec of Some rd \<Rightarrow> Inr (rd h (met_spec m) (length (met_elements m)))
      | None \<Rightarrow> stats_metric_read (env_mem env) h (bspec_io_base bspec) m) = Inr vs" "length vs = length (met_elements m)"
    using readable_values [OF assms(1)] by blast
  have init: "val_u64 (el_value (update_element conv sp True v e)) = mspec_init_value sp" for conv sp v e
    by (cases "mspec_type sp") (auto simp: update_element_def update_u64_def)
  show ?thesis using assms(2) vs
    by (auto simp: metric_reset_def update_metric_def Let_def clear_all_filter_def run_callback_def in_set_conv_nth
        length_update_elements nth_update_elements clear_decision_def init)
qed

definition blocks_reset :: "'h stats_block list \<Rightarrow> bool" where
  "blocks_reset bs \<longleftrightarrow> (\<forall>b \<in> set bs. \<forall>m \<in> set (blk_metrics b). metric_reset m)"

definition block_specs :: "'h stats_block list \<Rightarrow> stats_metric_spec set" where
  "block_specs bs = (\<Union>b \<in> set bs. met_spec ` set (blk_metrics b))"

lemma clear_all_metrics:
  "\<forall>m \<in> set ms. metric_readable bspec m \<Longrightarrow>
   update_metrics env bspec (Some clear_all_filter) h c ms = Inr (c', ms') \<Longrightarrow> \<forall>m \<in> set ms'. metric_reset m"
proof (induction ms arbitrary: c ms' c')
  case (Cons m ms)
  then show ?case using clear_all_metric by (auto split: sum.splits)
qed simp

lemma clear_all_blocks:
  "\<forall>b \<in> set bs. block_good b \<Longrightarrow> update_blocks env (Some clear_all_filter) c bs h = Inr (c', bs', h') \<Longrightarrow>
   blocks_reset bs' \<and> block_specs bs' = block_specs bs"
proof (induction bs arbitrary: c h bs' c' h')
  case (Cons b bs)
  obtain c1 b1 h1 where 1: "stats_block_update_metrics env (Some clear_all_filter) c b h = Inr (c1, b1, h1)"
    "map met_spec (blk_metrics b1) = map met_spec (blk_metrics b)"
    using update_block_good [of b "Some clear_all_filter" env c h] Cons.prems(1) clearing_all by auto
  obtain c2 bs2 h2 where 2: "update_blocks env (Some clear_all_filter) c1 bs h1 = Inr (c2, bs2, h2)" "bs' = b1 # bs2"
    using Cons.prems(2) 1(1) by (auto split: sum.splits)
  have "\<forall>m \<in> set (blk_metrics b). metric_readable (blk_spec b) m" using Cons.prems(1) by (simp add: block_good_def)
  note reset = clear_all_metrics [OF this]
  have "\<forall>m \<in> set (blk_metrics b1). metric_reset m"
    using 1(1) by (auto simp: stats_block_update_metrics_def Let_def split: sum.splits dest!: reset)
  moreover have "met_spec ` set (blk_metrics b1) = met_spec ` set (blk_metrics b)"
    using 1(2) by (metis list.set_map)
  ultimately show ?case using Cons.IH [OF _ 2(1)] Cons.prems(1) 2(2) by (simp add: blocks_reset_def block_specs_def)
qed (simp add: blocks_reset_def block_specs_def)

text \<open>The zones after the traversal: those of the list are reset, the others as before.\<close>

lemma clear_all_zones:
  "domain_good d \<Longrightarrow> set zs \<subseteq> set (dom_zones d) \<Longrightarrow> distinct zs \<Longrightarrow>
   run_zones (clear_body env (None :: 'c stats_clear_filter option)) zs d h c = Inr (d', h', c') \<Longrightarrow>
   domain_good d' \<and> dom_zones d' = dom_zones d \<and>
   (\<forall>z. z \<notin> set zs \<longrightarrow> dom_heap d' z = dom_heap d z) \<and>
   (\<forall>z \<in> set zs. blocks_reset (zone_blocks (the (dom_heap d' z))) \<and>
      block_specs (zone_blocks (the (dom_heap d' z))) = block_specs (zone_blocks (the (dom_heap d z))))"
proof (induction zs arbitrary: d h c)
  case (Cons z zs)
  obtain zone where zone: "dom_heap d z = Some zone" "zone_good zone" using good_zone [OF Cons.prems(1)] Cons.prems(2) by fastforce
  obtain c1 bs1 h1 where u: "update_blocks (env_of env d zone) (Some clear_all_filter) c (zone_blocks zone) h = Inr (c1, bs1, h1)"
    "\<forall>b \<in> set bs1. block_good b"
    using update_blocks_good [of "Some clear_all_filter" "zone_blocks zone" "env_of env d zone" c h] zone(2) clearing_all
    by (auto simp: zone_good_def)
  let ?d1 = "heap_update z (Some (zone\<lparr>zone_blocks := bs1\<rparr>)) d"
  have good: "domain_good ?d1" using Cons.prems(1,2) zone(1) u(2) by (intro good_replace) simp_all
  have reset: "blocks_reset bs1 \<and> block_specs bs1 = block_specs (zone_blocks zone)"
    using clear_all_blocks [OF _ u(1)] zone(2) by (simp add: zone_good_def)
  have step: "clear_body env (None :: 'c stats_clear_filter option) z d h c = Inr (?d1, h1, c1, False)"
    using zone(1) u(1) by (simp add: clear_body_def stats_zone_clear_metrics_def)
  have "run_zones (clear_body env (None :: 'c stats_clear_filter option)) zs ?d1 h1 c1 = Inr (d', h', c')"
    using Cons.prems(4) by (simp add: step)
  from Cons.IH [OF good _ _ this] Cons.prems(2,3) reset zone(1) show ?case by auto
qed simp

lemma clear_all_domain:
  fixes d :: "'h stats_domain"
  assumes "domain_good d"
  shows "\<exists>d' h' c'. stats_domain_clear_metrics env (None :: 'c stats_clear_filter option) c d h = Some (Inr (d', h', c')) \<and>
     domain_good d' \<and> dom_zones d' = dom_zones d \<and>
     (\<forall>e \<in> set (domain_entries d'). STATS_METRIC_FLAG_TEST (mspec_flags (fe_metric e)) NEVER_CLEAR \<or>
        (\<forall>v \<in> set (fe_values e). val_u64 v = mspec_init_value (fe_metric e))) \<and>
     fe_metric ` set (domain_entries d') = fe_metric ` set (domain_entries d)"
proof -
  have wf: "zones_wf d" using assms by (simp add: domain_good_def)
  obtain d' h' c' where run: "run_zones (clear_body env (None :: 'c stats_clear_filter option)) (dom_zones d) d h c = Inr (d', h', c')"
    using clear_zones_good [where flt = "None :: 'c stats_clear_filter option" and c = c and h = h and env = env,
        OF _ assms subset_refl] by auto
  have after: "domain_good d'" "dom_zones d' = dom_zones d"
    "\<forall>z \<in> set (dom_zones d). blocks_reset (zone_blocks (the (dom_heap d' z))) \<and>
       block_specs (zone_blocks (the (dom_heap d' z))) = block_specs (zone_blocks (the (dom_heap d z)))"
    using clear_all_zones [OF assms subset_refl _ run] wf unfolding zones_wf_def by blast+
  have specs: "fe_metric ` set (domain_entries x) = (\<Union>z \<in> set (dom_zones x). block_specs (zone_blocks (the (dom_heap x z))))"
    for x :: "'h stats_domain"
    by (force simp: domain_entries_def zone_entries_def block_entries_def domain_zones_def block_specs_def image_iff)
  have "\<forall>e \<in> set (domain_entries d'). STATS_METRIC_FLAG_TEST (mspec_flags (fe_metric e)) NEVER_CLEAR \<or>
      (\<forall>v \<in> set (fe_values e). val_u64 v = mspec_init_value (fe_metric e))"
    using after(2,3)
    by (fastforce simp: domain_entries_def zone_entries_def block_entries_def domain_zones_def blocks_reset_def metric_reset_def)
  moreover have "fe_metric ` set (domain_entries d') = fe_metric ` set (domain_entries d)"
    unfolding specs after(2) using after(3) by auto
  ultimately show ?thesis using run after(1,2) domain_loops_run(4) [OF wf, of env None c h] by auto
qed

text \<open>
  Property C23.  What was cleared is gone: after the statistics of a device have been cleared without a
  filter, a request for its non-zero statistics (with nothing counted in between) reports no
  metric at all, provided that its metrics may be cleared and start from 0.
\<close>
theorem clear_then_get_nothing:
  assumes "flt_metric_filter (sreq_filters creq) = None" and "sreq_dev_id creq = int i" and "sreq_dev_id greq = int i"
    and "i < length (impl_devices s)" and "filters_good (ae_regex env) (sreq_filters greq)" and "flt_non_zero (sreq_filters greq)"
    and "domain_good (dev_domain (impl_devices s ! i))"
    and "\<forall>e \<in> set (domain_entries (dev_domain (impl_devices s ! i))).
           \<not> STATS_METRIC_FLAG_TEST (mspec_flags (fe_metric e)) NEVER_CLEAR \<and> mspec_init_value (fe_metric e) = 0"
  shows "\<exists>s'. ClearStats env creq s = Inr (s', [\<lparr>sresp_error_code = EC_OK, sresp_dev_id = i, sresp_stats = []\<rparr>]) \<and>
             GetStats env greq s' = Inr (s', [\<lparr>sresp_error_code = EC_OK, sresp_dev_id = i, sresp_stats = []\<rparr>])"
proof -
  let ?dev = "impl_devices s ! i"
  obtain d hw c where d: "stats_domain_clear_metrics (ae_stats env) (None :: bit_array option stats_clear_filter option) None
      (dev_domain ?dev) (dev_hw ?dev) = Some (Inr (d, hw, c))" "domain_good d"
    "\<forall>e \<in> set (domain_entries d). STATS_METRIC_FLAG_TEST (mspec_flags (fe_metric e)) NEVER_CLEAR \<or>
       (\<forall>v \<in> set (fe_values e). val_u64 v = mspec_init_value (fe_metric e))"
    "fe_metric ` set (domain_entries d) = fe_metric ` set (domain_entries (dev_domain ?dev))"
    using clear_all_domain [OF assms(7), of "ae_stats env" "None :: bit_array option" "dev_hw ?dev"] by blast
  define dev' where "dev' = ?dev\<lparr>dev_domain := d, dev_hw := hw\<rparr>"
  have clear: "clear_stats_domain env (sreq_filters creq) ?dev = Inr dev'"
    using d(1) assms(1) by (simp add: clear_stats_domain_def clear_filter_of_def stats_result_def dev'_def)
  have zero: "\<forall>v \<in> set (fe_values e). val_u64 v = 0" if e: "e \<in> set (domain_entries d)" for e
  proof -
    obtain e0 where "e0 \<in> set (domain_entries (dev_domain ?dev))" "fe_metric e = fe_metric e0"
      using e d(4) by (metis image_iff)
    then show ?thesis using e d(3) assms(8) by fastforce
  qed
  have "metric_report (ae_regex env) (sreq_filters greq) e = []" if "e \<in> set (domain_entries d)" for e
    using zero [OF that] assms(6)
    by (auto simp: metric_report_def Let_def value_selected_def filter_empty_conv split: option.splits)
  then have "concat (map (metric_report (ae_regex env) (sreq_filters greq)) (domain_entries (dev_domain dev'))) = []"
    by (simp add: dev'_def)
  moreover have "domain_good (dev_domain dev')" using d(2) by (simp add: dev'_def)
  ultimately have get: "get_stats_domain env (sreq_filters greq) dev' = Inr (dev', [])"
    using get_domain_good [OF assms(5)] by simp
  show ?thesis using clear get assms(2-4)
    by (simp add: ClearStats_def GetStats_def get_or_clear_stats_def for_devices_def for_range_def id_range_single
        on_device_def stats_body_def)
qed

subsection \<open>A device with one zone\<close>

definition demo_element :: "64 word \<Rightarrow> stats_metric_element" where
  "demo_element v = \<lparr>el_value = \<lparr>val_u64 = v, val_f64 = 0, val_labels = []\<rparr>, el_last = 0\<rparr>"

definition demo_metric :: stats_metric where
  "demo_metric =
     \<lparr>met_spec = \<lparr>mspec_name = ''hits'', mspec_nelements = 2, mspec_labels = [], mspec_type = METRIC_COUNTER,
        mspec_flags = STATS_METRIC_FLAG_MASK ARRAY, mspec_init_value = 0,
        mspec_io = \<lparr>io_offset = 0, io_size = 0, io_width = 0, io_shift = 0, io_invert = False, io_data = 0\<rparr>\<rparr>,
      met_elements = [demo_element 0, demo_element 5], met_mask = 0\<rparr>"

definition demo_block :: "unit device_hw stats_block" where
  "demo_block =
     \<lparr>blk_spec = \<lparr>bspec_name = ''b'', bspec_metrics = [], bspec_io_base = 0, bspec_attach_metrics = None,
        bspec_detach_metrics = None, bspec_latch_metrics = None, bspec_release_metrics = None,
        bspec_read_metric = Some (\<lambda>h m n. replicate n 3), bspec_convert_metric = None\<rparr>,
      blk_metrics = [demo_metric], blk_nvalues = 2, blk_last_update = 9\<rparr>"

definition demo_domain :: "unit device_hw stats_domain" where
  "demo_domain =
     \<lparr>dom_spec = \<lparr>dspec_name = ''d'', dspec_interval_ms = 1000\<rparr>, dom_zones = [7], dom_nvalues = 2, dom_running = True,
      dom_heap = (\<lambda>_. None)(7 := Some \<lparr>zone_name = ''z'', zone_blocks = [demo_block], zone_nvalues = 2,
        zone_ref_count = 1, zone_enabled = True, zone_attached = True\<rparr>)\<rparr>"

definition demo_agent :: "unit SmartnicP4Impl" where
  "demo_agent =
     \<lparr>impl_devices = [\<lparr>dev_bus_id = ''x'', dev_syscfg = \<lparr>sys_usr_access = 0, sys_build_status = 0, sys_dna = []\<rparr>,
        dev_pipelines = [], dev_hw = \<lparr>hw_handles = [], hw_counters = (\<lambda>_. \<lparr>cl_valid = False, cl_values = []\<rparr>),
          hw_table_ecc = (\<lambda>_. \<lparr>te_valid = False, te_corrected = 0, te_detected = 0\<rparr>)\<rparr>, dev_domain = demo_domain\<rparr>],
      impl_debug_flags = {},
      impl_clock = \<lparr>start_wall = \<lparr>tv_sec = 0, tv_nsec = 0\<rparr>, start_mono = \<lparr>tv_sec = 0, tv_nsec = 0\<rparr>, now_mono = None\<rparr>,
      impl_server_domain = stats_domain_alloc \<lparr>dspec_name = ''s'', dspec_interval_ms = 1000\<rparr>, impl_server_zone = None\<rparr>"

definition demo_env :: "unit agent_env" where
  "demo_env = \<lparr>ae_gmp = gmp_ref, ae_regex = regex_none,
     ae_stats = \<lparr>env_double = id, env_mem = (\<lambda>_ _ _. 0), env_clock = (\<lambda>_. 0), env_domain = [], env_zone = []\<rparr>,
     ae_getenv = (\<lambda>_. None), ae_pci_file = (\<lambda>_. None)\<rparr>"

definition non_zero_only :: stats_filters where
  "non_zero_only = \<lparr>flt_non_zero = True, flt_metric_filter = None, flt_with_labels = False\<rparr>"

lemma demo_good:
  "\<forall>dev \<in> set (impl_devices demo_agent). domain_good (dev_domain dev)" "filters_good R non_zero_only"
proof -
  have "(1 :: 32 word) \<noteq> - 1" by simp
  then show "\<forall>dev \<in> set (impl_devices demo_agent). domain_good (dev_domain dev)"
    by (simp add: demo_agent_def demo_domain_def domain_good_def zones_wf_def domain_zones_def zone_good_def block_good_def
        demo_block_def metric_good_def demo_metric_def values_labelled_def demo_element_def)
qed (simp add: filters_good_def non_zero_only_def)

lemma demo_entries:
  "domain_entries (dev_domain (impl_devices demo_agent ! 0)) =
     [\<lparr>fe_domain = ''d'', fe_zone = ''z'', fe_block = ''b'', fe_metric = met_spec demo_metric,
       fe_values = map el_value (met_elements demo_metric), fe_last_update = 9\<rparr>]"
  by (simp add: demo_agent_def demo_domain_def domain_entries_def domain_zones_def zone_entries_def block_entries_def demo_block_def)

theorem get_stats_complete_witness:
  "\<exists>m. GetStats demo_env \<lparr>sreq_dev_id = 0, sreq_filters = non_zero_only\<rparr> demo_agent =
      Inr (demo_agent, [\<lparr>sresp_error_code = EC_OK, sresp_dev_id = 0, sresp_stats = [m]\<rparr>]) \<and>
     map rv_index (rm_values m) = [1] \<and> map rv_u64 (rm_values m) = [5]"
proof -
  have u: "[0..<2] = [0, 1 :: nat]" by (simp add: upt_rec)
  have "GetStats demo_env \<lparr>sreq_dev_id = 0, sreq_filters = non_zero_only\<rparr> demo_agent =
      Inr (demo_agent, [\<lparr>sresp_error_code = EC_OK, sresp_dev_id = 0,
        sresp_stats = concat (map (metric_report regex_none non_zero_only)
          (domain_entries (dev_domain (impl_devices demo_agent ! 0))))\<rparr>])"
    using get_stats_complete [of demo_env "\<lparr>sreq_dev_id = 0, sreq_filters = non_zero_only\<rparr>" demo_agent] demo_good
    by (simp add: demo_env_def) (simp add: demo_agent_def)
  then show ?thesis unfolding demo_entries
    by (simp add: metric_report_def metric_type_message_def demo_metric_def demo_element_def non_zero_only_def
        value_selected_def value_message_def u Let_def)
qed

theorem clear_then_get_nothing_witness:
  "\<exists>s'. ClearStats demo_env \<lparr>sreq_dev_id = 0, sreq_filters = non_zero_only\<rparr> demo_agent =
          Inr (s', [\<lparr>sresp_error_code = EC_OK, sresp_dev_id = 0, sresp_stats = []\<rparr>]) \<and>
        GetStats demo_env \<lparr>sreq_dev_id = 0, sreq_filters = non_zero_only\<rparr> s' =
          Inr (s', [\<lparr>sresp_error_code = EC_OK, sresp_dev_id = 0, sresp_stats = []\<rparr>])"
proof -
  have "length (impl_devices demo_agent) = 1" by (simp add: demo_agent_def)
  then show ?thesis
    using clear_then_get_nothing [of "\<lparr>sreq_dev_id = 0, sreq_filters = non_zero_only\<rparr>" 0
        "\<lparr>sreq_dev_id = 0, sreq_filters = non_zero_only\<rparr>" demo_agent demo_env] demo_good
    unfolding demo_entries
    by (simp add: non_zero_only_def demo_metric_def flag_test_bit STATS_METRIC_FLAG_MASK_def bit_push_bit_iff)
qed

end
