(* ===== verification/P4_Counters.thy ===== *)
theory P4_Counters
  imports P4_Types
begin

text \<open>
  \<^verbatim>\<open>sn-p4/src/agent/counters.cpp\<close> and \<^verbatim>\<open>table-ecc.cpp\<close>: the counters of the P4 program and the
  ECC counters of its tables, as statistics zones of the device.  The callbacks latch the counters
  through the driver API and hand them to the statistics engine.
\<close>

definition clear_on_read_array :: "32 word" where
  "clear_on_read_array = STATS_METRIC_FLAG_MASK CLEAR_ON_READ OR STATS_METRIC_FLAG_MASK ARRAY"

definition offset_io :: "nat \<Rightarrow> stats_io" where
  "offset_io n = \<lparr>io_offset = n, io_size = 0, io_width = 0, io_shift = 0, io_invert = False, io_data = 0\<rparr>"

definition plain_label :: "string \<Rightarrow> string \<Rightarrow> bool \<Rightarrow> stats_label_spec" where
  "plain_label key v no_export =
     \<lparr>lspec_key = key, lspec_value = Some v, lspec_no_export = no_export,
      lspec_value_alloc = None, lspec_has_value_free = False\<rparr>"

text \<open>\<^verbatim>\<open>malloc\<close> returns an address that no zone of the domain is at.\<close>

definition new_zone_address :: "'h stats_domain \<Rightarrow> nat" where
  "new_zone_address d = Suc (foldr max (dom_zones d) 0)"

lemma new_zone_address_fresh: "new_zone_address d \<notin> set (dom_zones d)"
proof -
  have "z \<in> set zs \<Longrightarrow> z \<le> foldr max zs 0" for z and zs :: "nat list"
    by (induction zs) auto
  then show ?thesis unfolding new_zone_address_def by (metis not_less_eq_eq order_refl)
qed

subsection \<open>Counter blocks\<close>

definition counters_latch_metrics ::
  "nat \<Rightarrow> nat \<Rightarrow> snp4_info_counter_block \<Rightarrow> 'd device_hw \<Rightarrow> 'd device_hw" where
  "counters_latch_metrics h bidx bi hw =
     (let u = hw_handles hw ! h;
          (values, u') =
            (if block_type bi = COUNTER_PACKETS_AND_BYTES
             then (case snp4_counter_block_combo_read u (block_name bi) (block_num_counters bi) of
                     (r, u') \<Rightarrow> (map_option (\<lambda>(ps, bs). ps @ bs) r, u'))
             else snp4_counter_block_simple_read u (block_name bi) (block_num_counters bi))
      in hw\<lparr>hw_handles := (hw_handles hw)[h := u'],
            hw_counters := (hw_counters hw)((h, bidx) :=
              (case values of None \<Rightarrow> \<lparr>cl_valid = False, cl_values = []\<rparr>
               | Some vs \<Rightarrow> \<lparr>cl_valid = True, cl_values = vs\<rparr>))\<rparr>)"

definition counters_read_metric ::
  "nat \<Rightarrow> nat \<Rightarrow> 'd device_hw \<Rightarrow> stats_metric_spec \<Rightarrow> nat \<Rightarrow> 64 word list" where
  "counters_read_metric h bidx hw mspec nvalues =
     (let ld = hw_counters hw (h, bidx) in
      if \<not> cl_valid ld then replicate (mspec_nelements mspec) 0
      else map (\<lambda>n. cl_values ld ! (io_offset (mspec_io mspec) + n)) [0..<mspec_nelements mspec])"

definition counter_block_label_value_alias :: "snp4_info_counter_block \<Rightarrow> stats_label_format \<Rightarrow> string" where
  "counter_block_label_value_alias bi spec =
     (case block_aliases bi of None \<Rightarrow> ''''
      | Some aliases \<Rightarrow>
        (if fmt_idx spec < length aliases
         then (case aliases ! fmt_idx spec of None \<Rightarrow> '''' | Some a \<Rightarrow> a) else ''''))"

definition init_counters_block_metric ::
  "snp4_info_pipeline \<Rightarrow> snp4_info_counter_block \<Rightarrow> nat \<Rightarrow> string option \<Rightarrow> bool \<Rightarrow> stats_metric_spec" where
  "init_counters_block_metric pi bi idx units add_suffix =
     \<lparr>mspec_name = block_name bi @ (case units of Some u \<Rightarrow> (if add_suffix then ''_'' @ u else '''') | None \<Rightarrow> ''''),
      mspec_nelements = block_num_counters bi,
      mspec_labels =
        [plain_label ''pipeline'' (pipeline_name pi) False]
        @ (case units of None \<Rightarrow> [] | Some u \<Rightarrow> [plain_label ''units'' u True])
        @ (if block_aliases bi = None then []
           else [\<lparr>lspec_key = ''alias'', lspec_value = None, lspec_no_export = True,
                  lspec_value_alloc = Some (counter_block_label_value_alias bi), lspec_has_value_free = False\<rparr>]),
      mspec_type = (if block_type bi = COUNTER_FLAG then METRIC_FLAG else METRIC_COUNTER),
      mspec_flags = clear_on_read_array,
      mspec_init_value = 0,
      mspec_io = offset_io (idx * block_num_counters bi)\<rparr>"

definition counters_block_metrics :: "snp4_info_pipeline \<Rightarrow> snp4_info_counter_block \<Rightarrow> stats_metric_spec list" where
  "counters_block_metrics pi bi =
     (case block_type bi of
        COUNTER_PACKETS_AND_BYTES \<Rightarrow>
          [init_counters_block_metric pi bi 0 (Some ''packets'') True,
           init_counters_block_metric pi bi 1 (Some ''bytes'') True]
      | COUNTER_PACKETS \<Rightarrow> [init_counters_block_metric pi bi 0 (Some ''packets'') False]
      | COUNTER_BYTES \<Rightarrow> [init_counters_block_metric pi bi 0 (Some ''bytes'') False]
      | COUNTER_FLAG \<Rightarrow> [init_counters_block_metric pi bi 0 None False])"

definition counters_block_spec ::
  "snp4_info_pipeline \<Rightarrow> nat \<Rightarrow> nat \<Rightarrow> snp4_info_counter_block \<Rightarrow> 'd device_hw stats_block_spec" where
  "counters_block_spec pi h bidx bi =
     \<lparr>bspec_name = block_name bi, bspec_metrics = counters_block_metrics pi bi, bspec_io_base = 0,
      bspec_attach_metrics = None, bspec_detach_metrics = None,
      bspec_latch_metrics = Some (counters_latch_metrics h bidx bi), bspec_release_metrics = None,
      bspec_read_metric = Some (counters_read_metric h bidx), bspec_convert_metric = None\<rparr>"

definition counters_zone_spec :: "DevicePipeline \<Rightarrow> 'd device_hw stats_zone_spec" where
  "counters_zone_spec p =
     \<lparr>zspec_name = ''pipeline'' @ dec (dp_id p),
      zspec_blocks = map (\<lambda>(bidx, bi). counters_block_spec (dp_info p) (dp_handle p) bidx bi)
        (enumerate 0 (pipeline_counter_blocks (dp_info p)))\<rparr>"

text \<open>
  The handle of the pipeline is already among those of the device.  A pipeline without counter
  blocks has no zone.
\<close>

definition alloc_zone ::
  "'d device_hw stats_zone_spec \<Rightarrow> 'd Device \<Rightarrow> agent_stop + ('d Device \<times> DeviceStats)" where
  "alloc_zone zspec dev =
     (let z = new_zone_address (dev_domain dev) in
      case stats_zone_alloc z zspec (dev_domain dev) (dev_hw dev) of Inl e \<Rightarrow> Inl (Stop_Stats e)
      | Inr (d, hw) \<Rightarrow> Inr (dev\<lparr>dev_domain := d, dev_hw := hw\<rparr>,
                            \<lparr>ds_zone_name = zspec_name zspec, ds_zone = z\<rparr>))"

definition init_counters :: "'d Device \<Rightarrow> DevicePipeline \<Rightarrow> agent_stop + ('d Device \<times> DevicePipeline)" where
  "init_counters dev p =
     (if pipeline_counter_blocks (dp_info p) = [] then Inr (dev, p\<lparr>dp_counters := None\<rparr>)
      else case alloc_zone (counters_zone_spec p) dev of Inl e \<Rightarrow> Inl e
      | Inr (dev', stats) \<Rightarrow> Inr (dev', p\<lparr>dp_counters := Some stats\<rparr>))"

definition free_zone :: "DeviceStats option \<Rightarrow> 'd Device \<Rightarrow> agent_stop + 'd Device" where
  "free_zone stats dev =
     (case stats of None \<Rightarrow> Inr dev
      | Some s \<Rightarrow>
        (case stats_zone_free (Some (ds_zone s)) (dev_domain dev) (dev_hw dev) of Inl e \<Rightarrow> Inl (Stop_Stats e)
         | Inr (d, hw) \<Rightarrow> Inr (dev\<lparr>dev_domain := d, dev_hw := hw\<rparr>)))"

definition deinit_counters :: "'d Device \<Rightarrow> DevicePipeline \<Rightarrow> agent_stop + ('d Device \<times> DevicePipeline)" where
  "deinit_counters dev p =
     (case free_zone (dp_counters p) dev of Inl e \<Rightarrow> Inl e
      | Inr dev' \<Rightarrow> Inr (dev', p\<lparr>dp_counters := None\<rparr>))"

subsection \<open>ECC counters of tables\<close>

definition table_ecc_latch_metrics ::
  "nat \<Rightarrow> nat \<Rightarrow> snp4_info_table \<Rightarrow> 'd device_hw \<Rightarrow> 'd device_hw" where
  "table_ecc_latch_metrics h tidx ti hw =
     (let (r, u') = snp4_table_ecc_counters_read (hw_handles hw ! h) (table_name ti) in
      hw\<lparr>hw_handles := (hw_handles hw)[h := u'],
         hw_table_ecc := (hw_table_ecc hw)((h, tidx) :=
           (case r of None \<Rightarrow> \<lparr>te_valid = False, te_corrected = 0, te_detected = 0\<rparr>
            | Some (c, d) \<Rightarrow> \<lparr>te_valid = True, te_corrected = c, te_detected = d\<rparr>))\<rparr>)"

definition CORRECTED_SINGLE_BIT_ERRORS :: nat where "CORRECTED_SINGLE_BIT_ERRORS = 0"

definition DETECTED_DOUBLE_BIT_ERRORS :: nat where "DETECTED_DOUBLE_BIT_ERRORS = 1"

definition table_ecc_read_metric ::
  "nat \<Rightarrow> nat \<Rightarrow> 'd device_hw \<Rightarrow> stats_metric_spec \<Rightarrow> nat \<Rightarrow> 64 word list" where
  "table_ecc_read_metric h tidx hw mspec nvalues =
     (let ld = hw_table_ecc hw (h, tidx) in
      [if \<not> te_valid ld then 0
       else if io_offset (mspec_io mspec) = CORRECTED_SINGLE_BIT_ERRORS then of_nat (te_corrected ld)
       else of_nat (te_detected ld)])"

definition mode_label :: "snp4_info_table_mode \<Rightarrow> string" where
  "mode_label m = (case m of MODE_BCAM \<Rightarrow> ''BCAM'' | MODE_STCAM \<Rightarrow> ''STCAM'' | MODE_TCAM \<Rightarrow> ''TCAM''
     | MODE_DCAM \<Rightarrow> ''DCAM'' | MODE_TINY_BCAM \<Rightarrow> ''TINY_BCAM'' | MODE_TINY_TCAM \<Rightarrow> ''TINY_TCAM'')"

definition init_table_ecc_metric :: "snp4_info_pipeline \<Rightarrow> snp4_info_table \<Rightarrow> nat \<Rightarrow> stats_metric_spec" where
  "init_table_ecc_metric pi ti cid =
     \<lparr>mspec_name = (if cid = CORRECTED_SINGLE_BIT_ERRORS then ''corrected_single_bit_errors''
                    else ''detected_double_bit_errors''),
      mspec_nelements = 0,
      mspec_labels = [plain_label ''pipeline'' (pipeline_name pi) False,
                      plain_label ''mode'' (mode_label (table_mode ti)) False],
      mspec_type = METRIC_COUNTER, mspec_flags = STATS_METRIC_FLAG_MASK CLEAR_ON_READ,
      mspec_init_value = 0, mspec_io = offset_io cid\<rparr>"

definition is_table_ecc_supported :: "snp4_info_table_mode \<Rightarrow> bool" where
  "is_table_ecc_supported m \<longleftrightarrow> (case m of
     MODE_BCAM \<Rightarrow> True | MODE_STCAM \<Rightarrow> True | MODE_TCAM \<Rightarrow> True
   | MODE_TINY_BCAM \<Rightarrow> True | MODE_TINY_TCAM \<Rightarrow> True | MODE_DCAM \<Rightarrow> False)"

definition table_ecc_block_spec ::
  "snp4_info_pipeline \<Rightarrow> nat \<Rightarrow> nat \<Rightarrow> snp4_info_table \<Rightarrow> 'd device_hw stats_block_spec" where
  "table_ecc_block_spec pi h tidx ti =
     \<lparr>bspec_name = table_name ti,
      bspec_metrics = [init_table_ecc_metric pi ti CORRECTED_SINGLE_BIT_ERRORS,
                       init_table_ecc_metric pi ti DETECTED_DOUBLE_BIT_ERRORS],
      bspec_io_base = 0, bspec_attach_metrics = None, bspec_detach_metrics = None,
      bspec_latch_metrics = Some (table_ecc_latch_metrics h tidx ti), bspec_release_metrics = None,
      bspec_read_metric = Some (table_ecc_read_metric h tidx), bspec_convert_metric = None\<rparr>"

definition ecc_tables :: "snp4_info_pipeline \<Rightarrow> snp4_info_table list" where
  "ecc_tables pi = filter (\<lambda>ti. is_table_ecc_supported (table_mode ti)) (pipeline_tables pi)"

definition table_ecc_zone_spec :: "DevicePipeline \<Rightarrow> 'd device_hw stats_zone_spec" where
  "table_ecc_zone_spec p =
     \<lparr>zspec_name = ''pipeline'' @ dec (dp_id p),
      zspec_blocks = map (\<lambda>(tidx, ti). table_ecc_block_spec (dp_info p) (dp_handle p) tidx ti)
        (enumerate 0 (ecc_tables (dp_info p)))\<rparr>"

definition init_table_ecc :: "'d Device \<Rightarrow> DevicePipeline \<Rightarrow> agent_stop + ('d Device \<times> DevicePipeline)" where
  "init_table_ecc dev p =
     (if ecc_tables (dp_info p) = [] then Inr (dev, p\<lparr>dp_table_ecc := None\<rparr>)
      else case alloc_zone (table_ecc_zone_spec p) dev of Inl e \<Rightarrow> Inl e
      | Inr (dev', stats) \<Rightarrow> Inr (dev', p\<lparr>dp_table_ecc := Some stats\<rparr>))"

definition deinit_table_ecc :: "'d Device \<Rightarrow> DevicePipeline \<Rightarrow> agent_stop + ('d Device \<times> DevicePipeline)" where
  "deinit_table_ecc dev p =
     (case free_zone (dp_table_ecc p) dev of Inl e \<Rightarrow> Inl e
      | Inr dev' \<Rightarrow> Inr (dev', p\<lparr>dp_table_ecc := None\<rparr>))"

end
