(* ===== verification/P4_Counters_Props.thy ===== *)
theory P4_Counters_Props
  imports P4_Counters Opennic_Stats_Props Snp4_Api_Props
begin

text \<open>
  From the counters of the P4 program to the statistics: one round of the collecting thread over a
  counter block adds what the driver has counted since the last round, and nothing when the
  driver fails.
\<close>

definition is_block_metric ::
  "snp4_info_pipeline \<Rightarrow> snp4_info_counter_block \<Rightarrow> nat \<Rightarrow> string option \<Rightarrow> bool \<Rightarrow> stats_metric \<Rightarrow> bool" where
  "is_block_metric pi bi idx units sfx m \<longleftrightarrow>
     (\<exists>ls. met_spec m = (init_counters_block_metric pi bi idx units sfx)\<lparr>mspec_labels := ls\<rparr>) \<and>
     length (met_elements m) = block_num_counters bi"

lemma counter_flags [simp]:
  "STATS_METRIC_FLAG_TEST clear_on_read_array CLEAR_ON_READ"
  by (simp add: flag_test_bit clear_on_read_array_def STATS_METRIC_FLAG_MASK_def bit_or_iff bit_push_bit_iff)

lemma block_metric_sel:
  assumes "is_block_metric pi bi idx units sfx m" and "block_type bi \<noteq> COUNTER_FLAG"
  shows "mspec_type (met_spec m) = METRIC_COUNTER" "STATS_METRIC_FLAG_TEST (mspec_flags (met_spec m)) CLEAR_ON_READ"
    "mspec_nelements (met_spec m) = block_num_counters bi"
    "io_offset (mspec_io (met_spec m)) = idx * block_num_counters bi"
  using assms by (auto simp: is_block_metric_def init_counters_block_metric_def offset_io_def)

text \<open>One metric of a block after an update without a filter: the values read are added.\<close>

lemma counter_metric_update:
  assumes m: "is_block_metric pi bi idx units sfx m" and t: "block_type bi \<noteq> COUNTER_FLAG"
    and rd: "bspec_read_metric bspec = Some (counters_read_metric h bidx)"
    and u: "update_metric env bspec (None :: 'c stats_clear_filter option) hw c m = Inr (c', m')"
    and i: "i < block_num_counters bi"
  shows "val_u64 (el_value (met_elements m' ! i)) = val_u64 (el_value (met_elements m ! i)) +
           (let ld = hw_counters hw (h, bidx) in
            if cl_valid ld then cl_values ld ! (idx * block_num_counters bi + i) else 0)"
proof -
  note s = block_metric_sel [OF m t]
  have len: "length (met_elements m) = block_num_counters bi" using m by (simp add: is_block_metric_def)
  have rl: "length (counters_read_metric h bidx hw (met_spec m) (block_num_counters bi)) = block_num_counters bi"
    by (simp add: counters_read_metric_def Let_def s(3))
  have e: "val_u64 (el_value (update_element conv (met_spec m) False v e)) = val_u64 (el_value e) + v" for conv v e
    by (simp add: update_element_def update_u64_def s(1,2))
  have r: "counters_read_metric h bidx hw (met_spec m) (block_num_counters bi) ! i =
      (let ld = hw_counters hw (h, bidx) in if cl_valid ld then cl_values ld ! (idx * block_num_counters bi + i) else 0)"
    using i by (simp add: counters_read_metric_def Let_def s(3,4))
  show ?thesis unfolding r [symmetric]
    using u i len rl by (auto simp: update_metric_def Let_def rd clear_decision_def nth_update_elements e)
qed

text \<open>
  Property C24.  A block that counts packets and bytes hands both to the statistics: one round adds to
  the packets of counter \<open>i\<close> the \<open>i\<close>-th packet count that the driver collected, and to its bytes
  the \<open>i\<close>-th byte count, and leaves all of them as they are when the driver fails.
\<close>
theorem combo_counters_accumulate:
  assumes "blk_spec b = (counters_block_spec pi h bidx bi)\<lparr>bspec_metrics := []\<rparr>" and "blk_metrics b = [mp, mb]"
    and "block_type bi = COUNTER_PACKETS_AND_BYTES"
    and "is_block_metric pi bi 0 (Some ''packets'') True mp" and "is_block_metric pi bi 1 (Some ''bytes'') True mb"
    and "collects (user_intf (hw_handles hw ! h))"
    and "snp4_counter_block_combo_read (hw_handles hw ! h) (block_name bi) (block_num_counters bi) = (r, u')"
  shows "\<exists>b' hw' mp' mb'.
     stats_block_update_metrics env (None :: unit stats_clear_filter option) () b hw = Inr ((), b', hw') \<and>
     blk_metrics b' = [mp', mb'] \<and> hw_handles hw' = (hw_handles hw)[h := u'] \<and>
     (\<forall>i < block_num_counters bi.
        val_u64 (el_value (met_elements mp' ! i)) =
          val_u64 (el_value (met_elements mp ! i)) + (case r of None \<Rightarrow> 0 | Some (ps, bs) \<Rightarrow> ps ! i) \<and>
        val_u64 (el_value (met_elements mb' ! i)) =
          val_u64 (el_value (met_elements mb ! i)) + (case r of None \<Rightarrow> 0 | Some (ps, bs) \<Rightarrow> bs ! i))"
proof -
  let ?bspec = "(counters_block_spec pi h bidx bi)\<lparr>bspec_metrics := []\<rparr>"
  define hw1 where "hw1 = counters_latch_metrics h bidx bi hw"
  have hw1: "hw_handles hw1 = (hw_handles hw)[h := u']"
    "hw_counters hw1 (h, bidx) = (case r of None \<Rightarrow> \<lparr>cl_valid = False, cl_values = []\<rparr>
       | Some (ps, bs) \<Rightarrow> \<lparr>cl_valid = True, cl_values = ps @ bs\<rparr>)"
    using assms(3,7) by (cases r; simp add: hw1_def counters_latch_metrics_def Let_def split: prod.splits)+
  have rd: "bspec_read_metric ?bspec = Some (counters_read_metric h bidx)" by (simp add: counters_block_spec_def)
  have t: "block_type bi \<noteq> COUNTER_FLAG" using assms(3) by simp
  obtain mp' where mp': "update_metric env ?bspec (None :: unit stats_clear_filter option) hw1 () mp = Inr ((), mp')"
    by (simp add: update_metric_def Let_def rd)
  obtain mb' where mb': "update_metric env ?bspec (None :: unit stats_clear_filter option) hw1 () mb = Inr ((), mb')"
    by (simp add: update_metric_def Let_def rd)
  have ps: "val_u64 (el_value (met_elements mp' ! i)) =
      val_u64 (el_value (met_elements mp ! i)) + (case r of None \<Rightarrow> 0 | Some (ps, bs) \<Rightarrow> ps ! i) \<and>
    val_u64 (el_value (met_elements mb' ! i)) =
      val_u64 (el_value (met_elements mb ! i)) + (case r of None \<Rightarrow> 0 | Some (ps, bs) \<Rightarrow> bs ! i)"
    if i: "i < block_num_counters bi" for i
  proof (cases r)
    case None
    then show ?thesis
      using counter_metric_update [OF assms(4) t rd mp' i] counter_metric_update [OF assms(5) t rd mb' i]
      by (simp add: hw1(2) Let_def)
  next
    case (Some pb)
    obtain ps bs where pb: "pb = (ps, bs)" by (cases pb)
    have "length ps = block_num_counters bi" using block_combo_read_length [OF assms(6)] assms(7) Some pb by blast
    then show ?thesis
      using counter_metric_update [OF assms(4) t rd mp' i] counter_metric_update [OF assms(5) t rd mb' i] i
      by (simp add: hw1(2) Some pb Let_def nth_append)
  qed
  have "stats_block_update_metrics env (None :: unit stats_clear_filter option) () b hw =
      Inr ((), b\<lparr>blk_metrics := [mp', mb'], blk_last_update := env_clock env hw\<rparr>, hw1)"
    using mp' mb' assms(1,2)
    by (simp add: stats_block_update_metrics_def Let_def call_opt_def counters_block_spec_def hw1_def)
  then show ?thesis using ps hw1(1) by auto
qed

definition example_combo :: snp4_info_counter_block where
  "example_combo = \<lparr>block_name = ''both'', block_type = COUNTER_PACKETS_AND_BYTES, block_width = 32,
     block_num_counters = 3, block_aliases = None\<rparr>"

definition example_combo_hw :: "drv_event list device_hw" where
  "example_combo_hw =
     \<lparr>hw_handles = [\<lparr>user_intf = recording_intf good_config, user_drv = [], log_enabled = False, log_prefix = [],
        user_base_addr = 0, user_sdnet_idx = 0, counter_blocks = [2, 3]\<rparr>],
      hw_counters = (\<lambda>_. \<lparr>cl_valid = False, cl_values = []\<rparr>),
      hw_table_ecc = (\<lambda>_. \<lparr>te_valid = False, te_corrected = 0, te_detected = 0\<rparr>)\<rparr>"

definition example_combo_metric :: "nat \<Rightarrow> string \<Rightarrow> stats_metric" where
  "example_combo_metric idx units =
     \<lparr>met_spec = init_counters_block_metric \<lparr>pipeline_name = ''p'', pipeline_tables = [], pipeline_counter_blocks = [example_combo]\<rparr>
        example_combo idx (Some units) True,
      met_elements = replicate 3 \<lparr>el_value = \<lparr>val_u64 = 10, val_f64 = 0, val_labels = []\<rparr>, el_last = 0\<rparr>, met_mask = 0\<rparr>"

definition example_hw_env :: "drv_event list device_hw stats_env" where
  "example_hw_env = \<lparr>env_double = id, env_mem = (\<lambda>_ _ _. 0), env_clock = (\<lambda>_. 0), env_domain = [], env_zone = []\<rparr>"

theorem combo_counters_accumulate_witness:
  "\<exists>b' hw' mp' mb'.
     stats_block_update_metrics example_hw_env (None :: unit stats_clear_filter option) ()
       \<lparr>blk_spec = (counters_block_spec \<lparr>pipeline_name = ''p'', pipeline_tables = [], pipeline_counter_blocks = [example_combo]\<rparr>
          0 0 example_combo)\<lparr>bspec_metrics := []\<rparr>,
        blk_metrics = [example_combo_metric 0 ''packets'', example_combo_metric 1 ''bytes''], blk_nvalues = 6,
        blk_last_update = 0\<rparr> example_combo_hw = Inr ((), b', hw') \<and>
     blk_metrics b' = [mp', mb'] \<and> val_u64 (el_value (met_elements mp' ! 2)) = 12 \<and>
     val_u64 (el_value (met_elements mb' ! 1)) = 11"
proof -
  let ?pi = "\<lparr>pipeline_name = ''p'', pipeline_tables = [], pipeline_counter_blocks = [example_combo]\<rparr>"
  let ?b = "\<lparr>blk_spec = (counters_block_spec ?pi 0 0 example_combo :: drv_event list device_hw stats_block_spec)\<lparr>bspec_metrics := []\<rparr>,
    blk_metrics = [example_combo_metric 0 ''packets'', example_combo_metric 1 ''bytes''], blk_nvalues = 6, blk_last_update = 0\<rparr>"
  have m: "is_block_metric ?pi example_combo 0 (Some ''packets'') True (example_combo_metric 0 ''packets'')"
    "is_block_metric ?pi example_combo 1 (Some ''bytes'') True (example_combo_metric 1 ''bytes'')"
    unfolding is_block_metric_def example_combo_metric_def
    by (auto simp: example_combo_def init_counters_block_metric_def intro!: exI)
  have c: "collects (user_intf (hw_handles example_combo_hw ! 0))" by (simp add: example_combo_hw_def recording_collects)
  have u: "[0..<3] = [0, 1, 2 :: nat]" by (simp add: upt_rec)
  obtain u' where r: "snp4_counter_block_combo_read (hw_handles example_combo_hw ! 0) (block_name example_combo) (block_num_counters example_combo)
      = (Some ([0, 1, 2], [0, 1, 2]), u')"
    by (simp add: snp4_counter_block_combo_read_def snp4_counter_block_by_name_def example_combo_hw_def example_combo_def
        good_config_def counters_only_def counter_config_def recording_intf_def drv_output_def ev_result_def u)
  show ?thesis
    using combo_counters_accumulate [OF _ _ _ m c r, where b = ?b and env = example_hw_env and bidx = 0]
    by (auto simp: example_combo_def example_combo_metric_def)
qed

end
