(* ===== verification/P4_Device.thy ===== *)
theory P4_Device
  imports P4_Types
begin

text \<open>
  \<^verbatim>\<open>sn-p4/src/agent/device.cpp\<close>: the description of the devices, with their PCI identifiers read
  from the kernel's files.
\<close>

subsection \<open>Hexadecimal numbers: \<open>stoi(s, 0, 16)\<close>\<close>

definition hex_digit :: "char \<Rightarrow> nat option" where
  "hex_digit c =
     (let n = of_char c :: nat in
      if 48 \<le> n \<and> n \<le> 57 then Some (n - 48)
      else if 97 \<le> n \<and> n \<le> 102 then Some (n - 87)
      else if 65 \<le> n \<and> n \<le> 70 then Some (n - 55) else None)"

definition is_hex :: "char \<Rightarrow> bool" where
  "is_hex c \<longleftrightarrow> hex_digit c \<noteq> None"

definition hex_value :: "string \<Rightarrow> nat" where
  "hex_value ds = foldl (\<lambda>a c. 16 * a + (case hex_digit c of None \<Rightarrow> 0 | Some d \<Rightarrow> d)) 0 ds"

definition take_sign :: "string \<Rightarrow> bool \<times> string" where
  "take_sign s = (case s of c # r \<Rightarrow> (if c = CHR ''-'' then (True, r) else if c = CHR ''+'' then (False, r)
                                   else (False, s)) | [] \<Rightarrow> (False, []))"

definition take_0x :: "string \<Rightarrow> string" where
  "take_0x s = (case s of z # x # d # r \<Rightarrow>
       (if z = CHR ''0'' \<and> (x = CHR ''x'' \<or> x = CHR ''X'') \<and> is_hex d then d # r else s)
     | _ \<Rightarrow> s)"

text \<open>No digits, or a value outside \<^verbatim>\<open>int\<close>, is an exception.\<close>

definition stoi16 :: "string \<Rightarrow> int option" where
  "stoi16 s =
     (let (neg, r) = take_sign (dropWhile is_space s);
          ds = takeWhile is_hex (take_0x r);
          v = (if neg then - int (hex_value ds) else int (hex_value ds))
      in if ds = [] then None
         else if - (2 ^ 31) \<le> v \<and> v < 2 ^ 31 then Some v else None)"

definition read_hex_pci_id :: "'d agent_env \<Rightarrow> string \<Rightarrow> string \<Rightarrow> nat option" where
  "read_hex_pci_id env bus_id file =
     (case ae_pci_file env (''/sys/bus/pci/devices/'' @ bus_id @ ''/'' @ file) of
        None \<Rightarrow> Some 65535
      | Some text \<Rightarrow> (case stoi16 text of None \<Rightarrow> None | Some v \<Rightarrow> Some (nat (v mod 65536))))"

subsection \<open>The request\<close>

record DeviceInfo =
  info_bus_id :: string
  info_vendor_id :: nat
  info_device_id :: nat
  info_number :: nat
  info_status :: nat
  info_dna :: "nat list"
  info_hw_version :: string
  info_fw_version :: string
  info_sw_version :: string

record DeviceInfoResponse =
  dir_error_code :: ErrorCode
  dir_dev_id :: nat
  dir_info :: "DeviceInfo option"

definition env_or_none :: "'d agent_env \<Rightarrow> string \<Rightarrow> string" where
  "env_or_none env var = (case ae_getenv env var of Some v \<Rightarrow> v | None \<Rightarrow> ''NONE'')"

definition device_info_body :: "'d agent_env \<Rightarrow> nat \<Rightarrow> ('d Device, DeviceInfoResponse) rpc" where
  "device_info_body env dev_id dev =
     (case read_hex_pci_id env (dev_bus_id dev) ''vendor'' of None \<Rightarrow> Inl Stop_Exception
      | Some vendor \<Rightarrow>
        (case read_hex_pci_id env (dev_bus_id dev) ''device'' of None \<Rightarrow> Inl Stop_Exception
         | Some device \<Rightarrow>
           (let cfg = dev_syscfg dev in
            Inr (dev, [\<lparr>dir_error_code = EC_OK, dir_dev_id = dev_id,
                        dir_info = Some
                          \<lparr>info_bus_id = dev_bus_id dev, info_vendor_id = vendor, info_device_id = device,
                           info_number = sys_usr_access cfg, info_status = sys_build_status cfg,
                           info_dna = sys_dna cfg,
                           info_hw_version = env_or_none env ''SN_HW_VER'',
                           info_fw_version = env_or_none env ''SN_FW_VER'',
                           info_sw_version = env_or_none env ''SN_SW_VER''\<rparr>\<rparr>]))))"

definition device_info_invalid :: DeviceInfoResponse where
  "device_info_invalid = \<lparr>dir_error_code = EC_INVALID_DEVICE_ID, dir_dev_id = 0, dir_info = None\<rparr>"

definition get_device_info :: "'d agent_env \<Rightarrow> int \<Rightarrow> ('d SmartnicP4Impl, DeviceInfoResponse) rpc" where
  "get_device_info env req_dev_id = for_devices req_dev_id device_info_invalid (device_info_body env)"

definition GetDeviceInfo :: "'d agent_env \<Rightarrow> int \<Rightarrow> ('d SmartnicP4Impl, DeviceInfoResponse) rpc" where
  "GetDeviceInfo env req_dev_id = get_device_info env req_dev_id"

definition device_info_key :: "DeviceInfoResponse \<Rightarrow> response_key" where
  "device_info_key r = (if dir_error_code r = EC_OK then Key_Device (dir_dev_id r) else Key_Invalid_Device)"

interpretation device_info: device_handler "device_info_body env" device_info_key device_info_invalid for env
proof
  show "dev_pipelines dev' = dev_pipelines dev \<and> map device_info_key rs = [Key_Device d]"
    if "device_info_body env d dev = Inr (dev', rs)" for d dev dev' rs
    using that by (auto simp: device_info_body_def device_info_key_def Let_def split: option.splits)
qed (simp add: device_info_key_def device_info_invalid_def)

end
