(* ===== verification/P4_Pipeline.thy ===== *)
theory P4_Pipeline
  imports P4_Stats P4_Counters
begin

text \<open>
  \<^verbatim>\<open>sn-p4/src/agent/pipeline.cpp\<close>: bringing the pipelines of a device up and down, their
  descriptions, and the statistics of their counters.
\<close>

subsection \<open>Initialisation\<close>

text \<open>
  The generated drivers: how many there are, their interfaces, and the state of the hardware of a
  pipeline that is reached through a BAR.
\<close>

record 'd sdnet_env =
  sdnet_count :: nat
  sdnet_intf :: "nat \<Rightarrow> 'd vitis_intf option"
  sdnet_hw :: "nat \<Rightarrow> nat \<Rightarrow> 'd"

definition snp4_sdnet_count :: "'d sdnet_env \<Rightarrow> nat" where
  "snp4_sdnet_count sd = sdnet_count sd"

definition snp4_sdnet_present :: "'d sdnet_env \<Rightarrow> nat \<Rightarrow> bool" where
  "snp4_sdnet_present sd i \<longleftrightarrow> sdnet_intf sd i \<noteq> None"

definition add_handle :: "'d snp4_user_context \<Rightarrow> 'd Device \<Rightarrow> 'd Device" where
  "add_handle u dev = (let hw = dev_hw dev in dev\<lparr>dev_hw := hw\<lparr>hw_handles := hw_handles hw @ [u]\<rparr>\<rparr>)"

definition init_one_pipeline :: "'d sdnet_env \<Rightarrow> nat \<Rightarrow> nat \<Rightarrow> 'd Device \<Rightarrow> agent_stop + 'd Device" where
  "init_one_pipeline sd bar2 i dev =
     (case snp4_init (sdnet_intf sd) i bar2 (sdnet_hw sd bar2 i) of
        (None, _) \<Rightarrow> Inl Stop_Exit
      | (Some u, _) \<Rightarrow>
        (case snp4_reset_all_tables u of (ok, u') \<Rightarrow>
          (if \<not> ok then Inl Stop_Exit
           else case snp4_info_get_pipeline (map_option intf_config (sdnet_intf sd i)) of Inl rc \<Rightarrow> Inl Stop_Exit
           | Inr pi \<Rightarrow>
             (let p = \<lparr>dp_id = i, dp_handle = length (hw_handles (dev_hw dev)), dp_info = pi,
                       dp_counters = None, dp_table_ecc = None\<rparr> in
              case init_counters (add_handle u' dev) p of Inl e \<Rightarrow> Inl e
              | Inr (dev1, p1) \<Rightarrow>
                (case init_table_ecc dev1 p1 of Inl e \<Rightarrow> Inl e
                 | Inr (dev2, p2) \<Rightarrow> Inr (dev2\<lparr>dev_pipelines := dev_pipelines dev2 @ [p2]\<rparr>))))))"

fun init_pipelines :: "'d sdnet_env \<Rightarrow> nat \<Rightarrow> nat list \<Rightarrow> 'd Device \<Rightarrow> agent_stop + 'd Device" where
  "init_pipelines sd bar2 [] dev = Inr dev"
| "init_pipelines sd bar2 (i # is) dev =
     (if \<not> snp4_sdnet_present sd i then init_pipelines sd bar2 is dev
      else case init_one_pipeline sd bar2 i dev of Inl e \<Rightarrow> Inl e
      | Inr dev' \<Rightarrow> init_pipelines sd bar2 is dev')"

definition init_pipeline :: "'d sdnet_env \<Rightarrow> nat \<Rightarrow> 'd Device \<Rightarrow> agent_stop + 'd Device" where
  "init_pipeline sd bar2 dev = init_pipelines sd bar2 [0..<snp4_sdnet_count sd] dev"

text \<open>
  The pipelines are released from the last to the first; a failure of the driver is only logged.
  A released handle keeps its place in the list.
\<close>

definition deinit_one_pipeline :: "DevicePipeline \<Rightarrow> 'd Device \<Rightarrow> agent_stop + 'd Device" where
  "deinit_one_pipeline p dev =
     (case deinit_counters dev p of Inl e \<Rightarrow> Inl e
      | Inr (dev1, p1) \<Rightarrow>
        (case deinit_table_ecc dev1 p1 of Inl e \<Rightarrow> Inl e
         | Inr (dev2, p2) \<Rightarrow>
           (let hw = dev_hw dev2; u = hw_handles hw ! dp_handle p2; (ok, u', d) = snp4_deinit u in
            Inr (dev2\<lparr>dev_hw := hw\<lparr>hw_handles := (hw_handles hw)[dp_handle p2 := u\<lparr>user_drv := d\<rparr>]\<rparr>,
                      dev_pipelines := butlast (dev_pipelines dev2)\<rparr>))))"

fun deinit_pipelines :: "DevicePipeline list \<Rightarrow> 'd Device \<Rightarrow> agent_stop + 'd Device" where
  "deinit_pipelines [] dev = Inr dev"
| "deinit_pipelines (p # ps) dev =
     (case deinit_one_pipeline p dev of Inl e \<Rightarrow> Inl e | Inr dev' \<Rightarrow> deinit_pipelines ps dev')"

definition deinit_pipeline :: "'d Device \<Rightarrow> agent_stop + 'd Device" where
  "deinit_pipeline dev = deinit_pipelines (rev (dev_pipelines dev)) dev"

subsection \<open>The log of the entries of a table\<close>

definition hex_char :: "nat \<Rightarrow> char" where
  "hex_char n = char_of (if n < 10 then 48 + n else 87 + n)"

definition hex_byte :: "8 word \<Rightarrow> string" where
  "hex_byte b = [hex_char (unat b div 16), hex_char (unat b mod 16)]"

definition hex_string :: "nat \<Rightarrow> bytes \<Rightarrow> string" where
  "hex_string len bs = ''0x'' @ concat (map (\<lambda>i. hex_byte (bs ! i)) [0..<len])"

definition get_pipeline_info_dump_table :: "snp4_table_entry \<Rightarrow> string list \<Rightarrow> bool \<times> string list" where
  "get_pipeline_info_dump_table entry log =
     (let k = entry_key entry;
          key = hex_string (data_len k) (data_value k);
          msk = hex_string (data_len k) (case data_mask k of Some m \<Rightarrow> m | None \<Rightarrow> []);
          params = hex_string (data_len (entry_params entry)) (data_value (entry_params entry))
      in (True, log @ [''--> Key:      '' @ key, ''    Mask:     '' @ msk,
                       ''    Priority: '' @ dec (entry_priority entry),
                       ''    Action:   '' @ entry_action_name entry, ''    Params:   '' @ params]))"

subsection \<open>Descriptions of pipelines\<close>

datatype TableEndian = TABLE_ENDIAN_UNKNOWN | TABLE_ENDIAN_LITTLE | TABLE_ENDIAN_BIG

datatype TableMode =
    TABLE_MODE_UNKNOWN | TABLE_MODE_BCAM | TABLE_MODE_STCAM | TABLE_MODE_TCAM | TABLE_MODE_DCAM
  | TABLE_MODE_TINY_BCAM | TABLE_MODE_TINY_TCAM

datatype MatchType =
    MATCH_TYPE_UNKNOWN | MT_BITFIELD | MT_CONSTANT | MT_PREFIX | MT_RANGE | MT_TERNARY | MT_UNUSED

datatype CounterType =
    COUNTER_TYPE_UNKNOWN | COUNTER_TYPE_PACKETS | COUNTER_TYPE_BYTES | COUNTER_TYPE_PACKETS_AND_BYTES
  | COUNTER_TYPE_FLAG

record MatchInfo = mi_width :: nat mi_type :: MatchType

record ParameterInfo = pari_name :: string pari_width :: nat

record ActionInfo = acti_name :: string acti_width :: nat acti_parameters :: "ParameterInfo list"

record TableInfo =
  tabi_name :: string
  tabi_num_entries :: nat
  tabi_endian :: TableEndian
  tabi_mode :: TableMode
  tabi_num_masks :: nat
  tabi_priority_required :: bool
  tabi_key_width :: nat
  tabi_response_width :: nat
  tabi_priority_width :: nat
  tabi_action_id_width :: nat
  tabi_matches :: "MatchInfo list"
  tabi_actions :: "ActionInfo list"

record CounterBlockInfo =
  cbi_name :: string
  cbi_width :: nat
  cbi_num_counters :: nat
  cbi_type :: CounterType

record PipelineInfo =
  pipi_name :: string
  pipi_tables :: "TableInfo list"
  pipi_counter_blocks :: "CounterBlockInfo list"

record PipelineInfoResponse =
  pir_error_code :: ErrorCode
  pir_dev_id :: nat
  pir_pipeline_id :: nat
  pir_info :: "PipelineInfo option"

definition endian_message :: "snp4_info_table_endian \<Rightarrow> TableEndian" where
  "endian_message e = (case e of ENDIAN_LITTLE \<Rightarrow> TABLE_ENDIAN_LITTLE | ENDIAN_BIG \<Rightarrow> TABLE_ENDIAN_BIG)"

definition mode_message :: "snp4_info_table_mode \<Rightarrow> TableMode" where
  "mode_message m = (case m of MODE_BCAM \<Rightarrow> TABLE_MODE_BCAM | MODE_STCAM \<Rightarrow> TABLE_MODE_STCAM
     | MODE_TCAM \<Rightarrow> TABLE_MODE_TCAM | MODE_DCAM \<Rightarrow> TABLE_MODE_DCAM
     | MODE_TINY_BCAM \<Rightarrow> TABLE_MODE_TINY_BCAM | MODE_TINY_TCAM \<Rightarrow> TABLE_MODE_TINY_TCAM)"

definition match_message :: "snp4_info_match \<Rightarrow> MatchInfo" where
  "match_message mi =
     \<lparr>mi_width = match_bits mi,
      mi_type = (case match_type mi of
         MATCH_TYPE_INVALID \<Rightarrow> MATCH_TYPE_UNKNOWN | MATCH_TYPE_BITFIELD \<Rightarrow> MT_BITFIELD
       | MATCH_TYPE_CONSTANT \<Rightarrow> MT_CONSTANT | MATCH_TYPE_PREFIX \<Rightarrow> MT_PREFIX | MATCH_TYPE_RANGE \<Rightarrow> MT_RANGE
       | MATCH_TYPE_TERNARY \<Rightarrow> MT_TERNARY | MATCH_TYPE_UNUSED \<Rightarrow> MT_UNUSED)\<rparr>"

definition action_message :: "snp4_info_action \<Rightarrow> ActionInfo" where
  "action_message ai =
     \<lparr>acti_name = action_name ai, acti_width = action_param_bits ai,
      acti_parameters = map (\<lambda>pi. \<lparr>pari_name = param_name pi, pari_width = param_bits pi\<rparr>) (action_params ai)\<rparr>"

definition table_message :: "snp4_info_table \<Rightarrow> TableInfo" where
  "table_message ti =
     \<lparr>tabi_name = table_name ti, tabi_num_entries = table_num_entries ti,
      tabi_endian = endian_message (table_endian ti), tabi_mode = mode_message (table_mode ti),
      tabi_num_masks = (if table_mode ti = MODE_STCAM then table_num_masks ti else 0),
      tabi_priority_required = table_priority_required ti, tabi_key_width = table_key_bits ti,
      tabi_response_width = table_response_bits ti, tabi_priority_width = table_priority_bits ti,
      tabi_action_id_width = table_actionid_bits ti, tabi_matches = map match_message (table_matches ti),
      tabi_actions = map action_message (table_actions ti)\<rparr>"

definition counter_block_message :: "snp4_info_counter_block \<Rightarrow> CounterBlockInfo" where
  "counter_block_message bi =
     \<lparr>cbi_name = block_name bi, cbi_width = block_width bi, cbi_num_counters = block_num_counters bi,
      cbi_type = (case block_type bi of COUNTER_PACKETS \<Rightarrow> COUNTER_TYPE_PACKETS
        | COUNTER_BYTES \<Rightarrow> COUNTER_TYPE_BYTES | COUNTER_PACKETS_AND_BYTES \<Rightarrow> COUNTER_TYPE_PACKETS_AND_BYTES
        | COUNTER_FLAG \<Rightarrow> COUNTER_TYPE_FLAG)\<rparr>"

definition pipeline_message :: "snp4_info_pipeline \<Rightarrow> PipelineInfo" where
  "pipeline_message pi =
     \<lparr>pipi_name = pipeline_name pi, pipi_tables = map table_message (pipeline_tables pi),
      pipi_counter_blocks = map counter_block_message (pipeline_counter_blocks pi)\<rparr>"

text \<open>With the debug flag the entries of every table are read from the driver and logged.\<close>

definition DEBUG_FLAG_PIPELINE_INFO :: nat where "DEBUG_FLAG_PIPELINE_INFO = 10"

fun dump_tables :: "snp4_info_table list \<Rightarrow> 'd snp4_user_context \<Rightarrow> 'd snp4_user_context option" where
  "dump_tables [] u = Some u"
| "dump_tables (ti # tis) u =
     (case snp4_table_for_each_entry u (table_name ti) get_pipeline_info_dump_table [] of None \<Rightarrow> None
      | Some (_, _, u') \<Rightarrow> dump_tables tis u')"

definition pipeline_info_body :: "bool \<Rightarrow> nat \<Rightarrow> nat \<Rightarrow> ('d Device, PipelineInfoResponse) rpc" where
  "pipeline_info_body dump dev_id pipeline_id dev =
     (let pi = dp_info (dev_pipelines dev ! pipeline_id) in
      case (if dump
            then map_option (\<lambda>u. set_handle pipeline_id u dev)
                   (dump_tables (pipeline_tables pi) (pipeline_handle dev pipeline_id))
            else Some dev) of None \<Rightarrow> Inl Stop_Walk
      | Some dev' \<Rightarrow>
          Inr (dev', [\<lparr>pir_error_code = EC_OK, pir_dev_id = dev_id, pir_pipeline_id = pipeline_id,
                       pir_info = Some (pipeline_message pi)\<rparr>]))"

definition pipeline_info_invalid_device :: PipelineInfoResponse where
  "pipeline_info_invalid_device =
     \<lparr>pir_error_code = EC_INVALID_DEVICE_ID, pir_dev_id = 0, pir_pipeline_id = 0, pir_info = None\<rparr>"

definition pipeline_info_invalid_pipeline :: "nat \<Rightarrow> PipelineInfoResponse" where
  "pipeline_info_invalid_pipeline d =
     \<lparr>pir_error_code = EC_INVALID_PIPELINE_ID, pir_dev_id = d, pir_pipeline_id = 0, pir_info = None\<rparr>"

record PipelineInfoRequest =
  pireq_dev_id :: int
  pireq_pipeline_id :: int

definition get_pipeline_info :: "PipelineInfoRequest \<Rightarrow> ('d SmartnicP4Impl, PipelineInfoResponse) rpc" where
  "get_pipeline_info req s =
     for_devices (pireq_dev_id req) pipeline_info_invalid_device
       (for_pipelines (pireq_pipeline_id req) pipeline_info_invalid_pipeline
          (pipeline_info_body (DEBUG_FLAG_PIPELINE_INFO \<in> impl_debug_flags s))) s"

definition GetPipelineInfo :: "PipelineInfoRequest \<Rightarrow> ('d SmartnicP4Impl, PipelineInfoResponse) rpc" where
  "GetPipelineInfo req = get_pipeline_info req"

subsection \<open>The statistics of a pipeline\<close>

record PipelineStatsRequest =
  psreq_dev_id :: int
  psreq_pipeline_id :: int
  psreq_filters :: stats_filters

record PipelineStatsResponse =
  psr_error_code :: ErrorCode
  psr_dev_id :: nat
  psr_pipeline_id :: nat
  psr_stats :: "StatsMetric list option"

text \<open>Reading a zone: the address is that of a zone of the device's domain.\<close>

definition get_stats_zone ::
  "'d agent_env \<Rightarrow> stats_filters \<Rightarrow> nat \<Rightarrow> 'd Device \<Rightarrow> agent_stop + StatsMetric list" where
  "get_stats_zone env filters z dev =
     (case dom_heap (dev_domain dev) z of None \<Rightarrow> Inl (Stop_Stats Undefined)
      | Some zone \<Rightarrow>
        (case stats_zone_for_each_metric (dspec_name (dom_spec (dev_domain dev)))
                (get_stats_for_each_metric (ae_regex env) filters) zone [] of
           None \<Rightarrow> Inl (Stop_Stats No_Return)
         | Some (_, ms) \<Rightarrow> Inr ms))"

definition pipeline_stats_body ::
  "'d agent_env \<Rightarrow> stats_filters \<Rightarrow> bool \<Rightarrow> nat \<Rightarrow> nat \<Rightarrow> ('d Device, PipelineStatsResponse) rpc" where
  "pipeline_stats_body env filters do_clear dev_id pipeline_id dev =
     (case (case dp_counters (dev_pipelines dev ! pipeline_id) of None \<Rightarrow> Inr (dev, None)
            | Some stats \<Rightarrow>
              (if do_clear
               then (case clear_stats_zone env filters (ds_zone stats) dev of Inl e \<Rightarrow> Inl e
                     | Inr dev' \<Rightarrow> Inr (dev', None))
               else (case get_stats_zone env filters (ds_zone stats) dev of Inl e \<Rightarrow> Inl e
                     | Inr ms \<Rightarrow> Inr (dev, Some ms)))) of Inl e \<Rightarrow> Inl e
      | Inr (dev', ms) \<Rightarrow>
          Inr (dev', [\<lparr>psr_error_code = EC_OK, psr_dev_id = dev_id, psr_pipeline_id = pipeline_id, psr_stats = ms\<rparr>]))"

definition pipeline_stats_invalid_device :: PipelineStatsResponse where
  "pipeline_stats_invalid_device =
     \<lparr>psr_error_code = EC_INVALID_DEVICE_ID, psr_dev_id = 0, psr_pipeline_id = 0, psr_stats = None\<rparr>"

definition pipeline_stats_invalid_pipeline :: "nat \<Rightarrow> PipelineStatsResponse" where
  "pipeline_stats_invalid_pipeline d =
     \<lparr>psr_error_code = EC_INVALID_PIPELINE_ID, psr_dev_id = d, psr_pipeline_id = 0, psr_stats = None\<rparr>"

definition get_or_clear_pipeline_stats ::
  "'d agent_env \<Rightarrow> PipelineStatsRequest \<Rightarrow> bool \<Rightarrow> ('d SmartnicP4Impl, PipelineStatsResponse) rpc" where
  "get_or_clear_pipeline_stats env req do_clear =
     for_devices (psreq_dev_id req) pipeline_stats_invalid_device
       (for_pipelines (psreq_pipeline_id req) pipeline_stats_invalid_pipeline
          (pipeline_stats_body env (psreq_filters req) do_clear))"

definition GetPipelineStats :: "'d agent_env \<Rightarrow> PipelineStatsRequest \<Rightarrow> ('d SmartnicP4Impl, PipelineStatsResponse) rpc" where
  "GetPipelineStats env req = get_or_clear_pipeline_stats env req False"

definition ClearPipelineStats :: "'d agent_env \<Rightarrow> PipelineStatsRequest \<Rightarrow> ('d SmartnicP4Impl, PipelineStatsResponse) rpc" where
  "ClearPipelineStats env req = get_or_clear_pipeline_stats env req True"

subsection \<open>One response for each pipeline\<close>

definition pipeline_info_key :: "PipelineInfoResponse \<Rightarrow> response_key" where
  "pipeline_info_key r =
     (if pir_error_code r = EC_OK then Key_Pipeline (pir_dev_id r) (pir_pipeline_id r)
      else if pir_error_code r = EC_INVALID_DEVICE_ID then Key_Invalid_Device else Key_Invalid_Pipeline (pir_dev_id r))"

definition pipeline_stats_key :: "PipelineStatsResponse \<Rightarrow> response_key" where
  "pipeline_stats_key r =
     (if psr_error_code r = EC_OK then Key_Pipeline (psr_dev_id r) (psr_pipeline_id r)
      else if psr_error_code r = EC_INVALID_DEVICE_ID then Key_Invalid_Device else Key_Invalid_Pipeline (psr_dev_id r))"

interpretation pipeline_info_handler: pipeline_handler "pipeline_info_body dump" pipeline_info_key
    pipeline_info_invalid_device pipeline_info_invalid_pipeline for dump
proof
  show "dev_pipelines dev' = dev_pipelines dev \<and> map pipeline_info_key rs = [Key_Pipeline d p]"
    if "pipeline_info_body dump d p dev = Inr (dev', rs)" for d p dev dev' rs
    using that by (auto simp: pipeline_info_body_def pipeline_info_key_def Let_def split: option.splits if_splits)
qed (simp_all add: pipeline_info_key_def pipeline_info_invalid_device_def pipeline_info_invalid_pipeline_def)

interpretation pipeline_stats_handler: pipeline_handler "pipeline_stats_body env flt do_clear" pipeline_stats_key
    pipeline_stats_invalid_device pipeline_stats_invalid_pipeline for env flt do_clear
proof
  show "dev_pipelines dev' = dev_pipelines dev \<and> map pipeline_stats_key rs = [Key_Pipeline d p]"
    if "pipeline_stats_body env flt do_clear d p dev = Inr (dev', rs)" for d p dev dev' rs
    using that stats_body_pipelines(3)
    by (auto simp: pipeline_stats_body_def pipeline_stats_key_def split: option.splits sum.splits if_splits)
qed (simp_all add: pipeline_stats_key_def pipeline_stats_invalid_device_def pipeline_stats_invalid_pipeline_def)

end
