(* ===== verification/P4_Server.thy ===== *)
theory P4_Server
  imports P4_Stats P4_Counters
begin

text \<open>
  \<^verbatim>\<open>sn-p4/src/agent/server.cpp\<close>: the clocks of the server, its own statistics, and its debug
  flags.
\<close>

subsection \<open>Times\<close>

text \<open>The start of the server on the wall clock and the time since then; \<open>None\<close> if the clock fails.\<close>

definition get_server_times :: "server_clock \<Rightarrow> (timespec \<times> timespec) option" where
  "get_server_times c =
     (case now_mono c of None \<Rightarrow> None
      | Some now \<Rightarrow>
        (let up = \<lparr>tv_sec = tv_sec now - tv_sec (start_mono c), tv_nsec = tv_nsec now - tv_nsec (start_mono c)\<rparr>;
             up' = (if tv_nsec up < 0
                    then up\<lparr>tv_sec := tv_sec up - 1, tv_nsec := tv_nsec up + 1000000000\<rparr> else up)
         in Some (start_wall c, up')))"

record ServerStatus =
  srv_start_time :: timespec
  srv_up_time :: timespec

record ServerStatusResponse =
  ssr_error_code :: ErrorCode
  ssr_status :: "ServerStatus option"

definition get_server_status :: "('d SmartnicP4Impl, ServerStatusResponse) rpc" where
  "get_server_status s =
     Inr (s, [case get_server_times (impl_clock s) of
                None \<Rightarrow> \<lparr>ssr_error_code = EC_SERVER_FAILED_GET_TIME, ssr_status = None\<rparr>
              | Some (start, up) \<Rightarrow>
                  \<lparr>ssr_error_code = EC_OK, ssr_status = Some \<lparr>srv_start_time = start, srv_up_time = up\<rparr>\<rparr>])"

definition GetServerStatus :: "('d SmartnicP4Impl, ServerStatusResponse) rpc" where
  "GetServerStatus = get_server_status"

subsection \<open>The statistics of the server\<close>

definition START_TIME :: nat where "START_TIME = 0"

definition UP_TIME :: nat where "UP_TIME = 1"

text \<open>When the clock fails the callback leaves the buffer as it was (\<open>junk\<close>).\<close>

definition server_status_stats_read_metric ::
  "64 word \<Rightarrow> server_clock \<Rightarrow> stats_metric_spec \<Rightarrow> nat \<Rightarrow> 64 word list" where
  "server_status_stats_read_metric junk c mspec nvalues =
     [case get_server_times c of None \<Rightarrow> junk
      | Some (start, up) \<Rightarrow>
        (if io_data (mspec_io mspec) = START_TIME then word_of_int (tv_sec start)
         else if io_data (mspec_io mspec) = UP_TIME then word_of_int (tv_sec up)
         else junk)]"

definition server_info_stats_read_metric :: "server_clock \<Rightarrow> stats_metric_spec \<Rightarrow> nat \<Rightarrow> 64 word list" where
  "server_info_stats_read_metric c mspec nvalues = [1]"

definition server_metric :: "string \<Rightarrow> stats_metric_type \<Rightarrow> nat \<Rightarrow> stats_label_spec list \<Rightarrow> stats_metric_spec" where
  "server_metric name type datum labels =
     \<lparr>mspec_name = name, mspec_nelements = 0, mspec_labels = labels, mspec_type = type,
      mspec_flags = STATS_METRIC_FLAG_MASK NEVER_CLEAR, mspec_init_value = 0,
      mspec_io = \<lparr>io_offset = 0, io_size = 0, io_width = 0, io_shift = 0, io_invert = False, io_data = datum\<rparr>\<rparr>"

definition env_label :: "(string \<Rightarrow> string option) \<Rightarrow> string \<Rightarrow> string \<Rightarrow> stats_label_spec" where
  "env_label getenv key var = plain_label key (case getenv var of None \<Rightarrow> ''NONE'' | Some v \<Rightarrow> v) False"

definition server_block ::
  "string \<Rightarrow> stats_metric_spec list \<Rightarrow> (server_clock \<Rightarrow> stats_metric_spec \<Rightarrow> nat \<Rightarrow> 64 word list) \<Rightarrow>
   server_clock stats_block_spec" where
  "server_block name metrics read =
     \<lparr>bspec_name = name, bspec_metrics = metrics, bspec_io_base = 0,
      bspec_attach_metrics = None, bspec_detach_metrics = None, bspec_latch_metrics = None,
      bspec_release_metrics = None, bspec_read_metric = Some read, bspec_convert_metric = None\<rparr>"

definition server_zone_spec :: "(string \<Rightarrow> string option) \<Rightarrow> 64 word \<Rightarrow> server_clock stats_zone_spec" where
  "server_zone_spec getenv junk =
     \<lparr>zspec_name = ''server'',
      zspec_blocks =
        [server_block ''status''
           [server_metric ''start_time_sec'' METRIC_GAUGE START_TIME [],
            server_metric ''up_time_sec'' METRIC_GAUGE UP_TIME []]
           (server_status_stats_read_metric junk),
         server_block ''info''
           [server_metric ''build_info'' METRIC_FLAG 0
              [env_label getenv ''hw_ver'' ''SN_HW_VER'', env_label getenv ''fw_ver'' ''SN_FW_VER'',
               env_label getenv ''sw_ver'' ''SN_SW_VER'']]
           server_info_stats_read_metric]\<rparr>"

definition init_server_stats ::
  "(string \<Rightarrow> string option) \<Rightarrow> 64 word \<Rightarrow> 'd SmartnicP4Impl \<Rightarrow> agent_stop + 'd SmartnicP4Impl" where
  "init_server_stats getenv junk s =
     (let z = new_zone_address (impl_server_domain s) in
      case stats_zone_alloc z (server_zone_spec getenv junk) (impl_server_domain s) (impl_clock s) of
        Inl e \<Rightarrow> Inl (Stop_Stats e)
      | Inr (d, c) \<Rightarrow> Inr (s\<lparr>impl_server_domain := d, impl_clock := c, impl_server_zone := Some z\<rparr>))"

definition init_server ::
  "(string \<Rightarrow> string option) \<Rightarrow> 64 word \<Rightarrow> timespec option \<Rightarrow> timespec option \<Rightarrow> 'd SmartnicP4Impl \<Rightarrow>
   agent_stop + 'd SmartnicP4Impl" where
  "init_server getenv junk wall mclock s =
     (case wall of None \<Rightarrow> Inl Stop_Exit
      | Some w \<Rightarrow>
        (case mclock of None \<Rightarrow> Inl Stop_Exit
         | Some m \<Rightarrow>
             init_server_stats getenv junk (s\<lparr>impl_clock := (impl_clock s)\<lparr>start_wall := w, start_mono := m\<rparr>\<rparr>)))"

text \<open>The pointer to the zone is valid from the initialisation on.\<close>

definition deinit_server :: "'d SmartnicP4Impl \<Rightarrow> agent_stop + 'd SmartnicP4Impl" where
  "deinit_server s =
     (case impl_server_zone s of None \<Rightarrow> Inl (Stop_Stats Undefined)
      | Some z \<Rightarrow>
        (case stats_zone_free (Some z) (impl_server_domain s) (impl_clock s) of Inl e \<Rightarrow> Inl (Stop_Stats e)
         | Inr (d, c) \<Rightarrow> Inr (s\<lparr>impl_server_domain := d, impl_clock := c, impl_server_zone := None\<rparr>)))"

subsection \<open>Debug flags\<close>

definition ServerDebugFlag_IsValid :: "int \<Rightarrow> bool" where
  "ServerDebugFlag_IsValid i \<longleftrightarrow> i \<in> {0, 1, 2, 3, 10, 11, 20}"

definition ServerDebugFlag_MAX :: nat where "ServerDebugFlag_MAX = 20"

definition debug_flag_label :: "nat \<Rightarrow> string" where
  "debug_flag_label flag =
     (if flag = 1 then ''TABLE_CLEAR'' else if flag = 2 then ''TABLE_RULE_INSERT''
      else if flag = 3 then ''TABLE_RULE_DELETE'' else if flag = 10 then ''PIPELINE_INFO''
      else if flag = 11 then ''PIPELINE_DRIVER'' else if flag = 20 then ''STATS'' else ''UNKNOWN'')"

text \<open>The flags that the loops from \<open>ServerDebugFlag_MIN + 1\<close> visit.\<close>

definition known_flags :: "nat list" where
  "known_flags = filter (\<lambda>i. ServerDebugFlag_IsValid (int i)) [1..<Suc ServerDebugFlag_MAX]"

definition lower_char :: "char \<Rightarrow> char" where
  "lower_char c = (let n = of_char c :: nat in if 65 \<le> n \<and> n \<le> 90 then char_of (n + 32) else c)"

definition option_name :: "string \<Rightarrow> string" where
  "option_name label = map (\<lambda>c. if c = CHR ''_'' then CHR ''-'' else c) (map lower_char label)"

definition flag_named :: "string \<Rightarrow> nat \<Rightarrow> bool" where
  "flag_named flag i \<longleftrightarrow> flag = debug_flag_label i \<or> flag = option_name (debug_flag_label i)"

fun init_server_debug :: "string list \<Rightarrow> nat set \<Rightarrow> nat set" where
  "init_server_debug [] flags = flags"
| "init_server_debug (flag # rest) flags =
     (if flag = ''all'' then flags \<union> set known_flags
      else case find (flag_named flag) known_flags of
        None \<Rightarrow> init_server_debug rest flags
      | Some i \<Rightarrow> init_server_debug rest (insert i flags))"

record ServerConfigRequest =
  cfgreq_debug :: "(int list \<times> int list) option"

record ServerConfigResponse =
  cfgresp_error_code :: ErrorCode
  cfgresp_debug :: "(nat list \<times> nat list) option"

definition get_server_config :: "('d SmartnicP4Impl, ServerConfigResponse) rpc" where
  "get_server_config s =
     Inr (s, [\<lparr>cfgresp_error_code = EC_OK,
               cfgresp_debug = Some (filter (\<lambda>i. i \<in> impl_debug_flags s) known_flags,
                                     filter (\<lambda>i. i \<notin> impl_debug_flags s) known_flags)\<rparr>])"

definition GetServerConfig :: "('d SmartnicP4Impl, ServerConfigResponse) rpc" where
  "GetServerConfig = get_server_config"

text \<open>A loop over flags of the request stops at the first one that is not valid.\<close>

fun change_flags :: "(nat \<Rightarrow> nat set \<Rightarrow> nat set) \<Rightarrow> int list \<Rightarrow> nat set \<Rightarrow> bool \<times> nat set" where
  "change_flags f [] flags = (True, flags)"
| "change_flags f (i # is) flags =
     (if \<not> ServerDebugFlag_IsValid i then (False, flags) else change_flags f is (f (nat i) flags))"

definition set_debug_flags :: "(int list \<times> int list) option \<Rightarrow> nat set \<Rightarrow> ErrorCode \<times> nat set" where
  "set_debug_flags dbg flags =
     (case dbg of None \<Rightarrow> (EC_OK, flags)
      | Some (enables, disables) \<Rightarrow>
        (case change_flags insert enables flags of
           (ok, flags1) \<Rightarrow>
             (if \<not> ok then (EC_SERVER_INVALID_DEBUG_FLAG, flags1)
              else (case change_flags (\<lambda>i fs. fs - {i}) disables flags1 of
                      (ok2, flags2) \<Rightarrow> (if \<not> ok2 then EC_SERVER_INVALID_DEBUG_FLAG else EC_OK, flags2)))))"

definition set_server_config :: "ServerConfigRequest \<Rightarrow> ('d SmartnicP4Impl, ServerConfigResponse) rpc" where
  "set_server_config req s =
     (let (err, flags) = set_debug_flags (cfgreq_debug req) (impl_debug_flags s) in
      Inr (s\<lparr>impl_debug_flags := flags\<rparr>, [\<lparr>cfgresp_error_code = err, cfgresp_debug = None\<rparr>]))"

definition SetServerConfig :: "ServerConfigRequest \<Rightarrow> ('d SmartnicP4Impl, ServerConfigResponse) rpc" where
  "SetServerConfig req = set_server_config req"

subsection \<open>What the times and the flags mean\<close>

definition nanoseconds :: "timespec \<Rightarrow> int" where
  "nanoseconds t = tv_sec t * 1000000000 + tv_nsec t"

definition timespec_ok :: "timespec \<Rightarrow> bool" where
  "timespec_ok t \<longleftrightarrow> 0 \<le> tv_nsec t \<and> tv_nsec t < 1000000000"

text \<open>
  The up time that the server reports is a normalised time (nanoseconds in
  \<open>[0, 10^9)\<close>) that amounts exactly to the difference of the monotonic clock to the start, so it
  is not negative unless the clock went back; the start time is that of the wall clock.
\<close>
lemma server_up_time_exact:
  assumes "timespec_ok (start_mono c)" and "now_mono c = Some now" and "timespec_ok now"
  shows "\<exists>up. get_server_times c = Some (start_wall c, up) \<and> timespec_ok up \<and>
           nanoseconds up = nanoseconds now - nanoseconds (start_mono c) \<and>
           (nanoseconds (start_mono c) \<le> nanoseconds now \<longleftrightarrow> 0 \<le> tv_sec up)"
  using assms by (auto simp: get_server_times_def timespec_ok_def nanoseconds_def Let_def)

lemma change_flags_all:
  "change_flags f is flags = (ok, flags') \<longleftrightarrow>
     ok = list_all ServerDebugFlag_IsValid is \<and>
     flags' = foldl (\<lambda>fs i. f (nat i) fs) flags (takeWhile ServerDebugFlag_IsValid is)"
  by (induction "is" arbitrary: flags) auto

lemma fold_insert: "foldl (\<lambda>fs i. insert (nat i) fs) flags is = flags \<union> nat ` set is"
  by (induction "is" arbitrary: flags) auto

lemma fold_remove: "foldl (\<lambda>fs i. fs - {nat i}) flags is = flags - nat ` set is"
  by (induction "is" arbitrary: flags) auto

definition config_after :: "int list \<Rightarrow> int list \<Rightarrow> nat set \<Rightarrow> nat set" where
  "config_after enables disables flags =
     (if list_all ServerDebugFlag_IsValid enables
      then (flags \<union> nat ` set enables) - nat ` set (takeWhile ServerDebugFlag_IsValid disables)
      else flags \<union> nat ` set (takeWhile ServerDebugFlag_IsValid enables))"

text \<open>
  Property C33.  A change of the configuration and the request that reads it back agree: the flags
  that are reported as enabled are those of \<open>config_after\<close>, the enabled ones first and then the
  disabled ones taken away, up to the first flag that is not valid; the change reports \<open>EC_OK\<close>
  exactly if all flags are valid, and on an error the flags before the invalid one stay changed.
\<close>
theorem set_get_config:
  "\<exists>s'. SetServerConfig \<lparr>cfgreq_debug = Some (enables, disables)\<rparr> s =
          Inr (s', [\<lparr>cfgresp_error_code =
                       (if list_all ServerDebugFlag_IsValid (enables @ disables) then EC_OK
                        else EC_SERVER_INVALID_DEBUG_FLAG), cfgresp_debug = None\<rparr>]) \<and>
        GetServerConfig s' =
          Inr (s', [\<lparr>cfgresp_error_code = EC_OK,
            cfgresp_debug = Some (filter (\<lambda>i. i \<in> config_after enables disables (impl_debug_flags s)) known_flags,
                                  filter (\<lambda>i. i \<notin> config_after enables disables (impl_debug_flags s)) known_flags)\<rparr>])"
proof -
  obtain ok1 f1 where 1: "change_flags insert enables (impl_debug_flags s) = (ok1, f1)" by force
  obtain ok2 f2 where 2: "change_flags (\<lambda>i fs. fs - {i}) disables f1 = (ok2, f2)" by force
  have ok1: "ok1 = list_all ServerDebugFlag_IsValid enables"
    "f1 = impl_debug_flags s \<union> nat ` set (takeWhile ServerDebugFlag_IsValid enables)"
    using 1 by (simp_all add: change_flags_all fold_insert)
  have ok2: "ok2 = list_all ServerDebugFlag_IsValid disables"
    "f2 = f1 - nat ` set (takeWhile ServerDebugFlag_IsValid disables)"
    using 2 by (simp_all add: change_flags_all fold_remove)
  have tw: "takeWhile ServerDebugFlag_IsValid enables = enables" if "list_all ServerDebugFlag_IsValid enables"
    using that unfolding list_all_iff takeWhile_eq_all_conv .
  have after: "config_after enables disables (impl_debug_flags s) = (if ok1 then f2 else f1)"
    unfolding config_after_def ok1 ok2 by (cases "list_all ServerDebugFlag_IsValid enables") (simp_all add: tw)
  show ?thesis
    by (cases ok1; cases ok2)
      (use 1 2 ok1(1) ok2(1) in \<open>simp_all add: SetServerConfig_def set_server_config_def set_debug_flags_def
         GetServerConfig_def get_server_config_def after\<close>)
qed

lemma known_flags_eval: "known_flags = [1, 2, 3, 10, 11, 20]"
  by (simp add: known_flags_def ServerDebugFlag_IsValid_def ServerDebugFlag_MAX_def upt_rec)

lemma option_names:
  "map (\<lambda>i. option_name (debug_flag_label i)) known_flags =
     [''table-clear'', ''table-rule-insert'', ''table-rule-delete'', ''pipeline-info'', ''pipeline-driver'', ''stats'']"
  unfolding known_flags_eval by code_simp

lemma known_flag_names:
  "i \<in> set known_flags \<Longrightarrow> j \<in> set known_flags \<Longrightarrow> flag_named name i \<Longrightarrow> flag_named name j \<Longrightarrow> i = j"
  using option_names unfolding known_flags_eval flag_named_def
  by (simp; elim disjE; simp add: debug_flag_label_def)

lemma init_server_debug_named:
  "\<forall>name \<in> set names. name \<noteq> ''all'' \<Longrightarrow>
   init_server_debug names flags = flags \<union> {i \<in> set known_flags. \<exists>name \<in> set names. flag_named name i}"
proof (induction names arbitrary: flags)
  case (Cons name names)
  show ?case
  proof (cases "find (flag_named name) known_flags")
    case None
    then have "\<forall>i \<in> set known_flags. \<not> flag_named name i" by (simp add: find_None_iff)
    moreover have "init_server_debug (name # names) flags = init_server_debug names flags" using None Cons.prems by simp
    ultimately show ?thesis using Cons by auto
  next
    case (Some i)
    have i: "i \<in> set known_flags" "flag_named name i" using Some by (metis find_Some_iff nth_mem)+
    then have "{j \<in> set known_flags. flag_named name j} = {i}" using known_flag_names by blast
    moreover have "init_server_debug (name # names) flags = init_server_debug names (insert i flags)"
      using Some Cons.prems by simp
    ultimately show ?thesis using Cons by auto
  qed
qed simp

text \<open>
  The debug flags of the command line are found by their names: a list of names,
  each the label of a flag or its spelling in lower case with dashes, enables exactly those
  flags, in addition to the ones already set; a name that no flag has is ignored.
\<close>
lemma debug_flags_by_name:
  assumes "\<forall>name \<in> set names. name \<noteq> ''all''"
  shows "init_server_debug names flags =
           flags \<union> {i \<in> set known_flags. debug_flag_label i \<in> set names \<or> option_name (debug_flag_label i) \<in> set names}"
  by (auto simp: init_server_debug_named [OF assms] flag_named_def)

end
