(* ===== verification/P4_Batch.thy ===== *)
theory P4_Batch
  imports P4_Device P4_Pipeline P4_Table P4_Server
begin

text \<open>
  \<^verbatim>\<open>sn-p4/src/agent/batch.cpp\<close> and the \<open>batch_\<close> functions of the other files: a stream of
  requests, each of which runs one of the handlers; its responses are wrapped and written to the
  same stream before the next request is read.
\<close>

datatype BatchOperation = BOP_UNKNOWN | BOP_GET | BOP_SET | BOP_CLEAR | BOP_INSERT | BOP_DELETE | BOP_OTHER int

datatype BatchItem =
    Req_device_info int
  | Req_pipeline_info PipelineInfoRequest
  | Req_pipeline_stats PipelineStatsRequest
  | Req_table TableRequest
  | Req_table_rule TableRuleRequest
  | Req_stats StatsRequest
  | Req_server_status
  | Req_server_config ServerConfigRequest
  | ITEM_NOT_SET

record BatchRequest =
  breq_op :: BatchOperation
  breq_item :: BatchItem

datatype BatchResponseItem =
    Resp_device_info DeviceInfoResponse
  | Resp_pipeline_info PipelineInfoResponse
  | Resp_pipeline_stats PipelineStatsResponse
  | Resp_table TableResponse
  | Resp_table_rule TableResponse
  | Resp_stats StatsResponse
  | Resp_server_status ServerStatusResponse
  | Resp_server_config ServerConfigResponse

record BatchResponse =
  bresp_error_code :: ErrorCode
  bresp_op :: BatchOperation
  bresp_item :: "BatchResponseItem option"

text \<open>The lambda of each \<open>batch_\<close> function.\<close>

definition batch_response :: "BatchOperation \<Rightarrow> ('r \<Rightarrow> BatchResponseItem) \<Rightarrow> 'r \<Rightarrow> BatchResponse" where
  "batch_response op item r = \<lparr>bresp_error_code = EC_OK, bresp_op = op, bresp_item = Some (item r)\<rparr>"

definition wrapped :: "BatchOperation \<Rightarrow> ('r \<Rightarrow> BatchResponseItem) \<Rightarrow> ('s, 'r) rpc \<Rightarrow> ('s, BatchResponse) rpc" where
  "wrapped op item f s =
     (case f s of Inl e \<Rightarrow> Inl e | Inr (s', rs) \<Rightarrow> Inr (s', map (batch_response op item) rs))"

definition batch_get_device_info :: "'d agent_env \<Rightarrow> int \<Rightarrow> ('d SmartnicP4Impl, BatchResponse) rpc" where
  "batch_get_device_info env req = wrapped BOP_GET Resp_device_info (get_device_info env req)"

definition batch_get_pipeline_info :: "PipelineInfoRequest \<Rightarrow> ('d SmartnicP4Impl, BatchResponse) rpc" where
  "batch_get_pipeline_info req = wrapped BOP_GET Resp_pipeline_info (get_pipeline_info req)"

definition batch_get_pipeline_stats ::
  "'d agent_env \<Rightarrow> PipelineStatsRequest \<Rightarrow> ('d SmartnicP4Impl, BatchResponse) rpc" where
  "batch_get_pipeline_stats env req = wrapped BOP_GET Resp_pipeline_stats (get_or_clear_pipeline_stats env req False)"

definition batch_clear_pipeline_stats ::
  "'d agent_env \<Rightarrow> PipelineStatsRequest \<Rightarrow> ('d SmartnicP4Impl, BatchResponse) rpc" where
  "batch_clear_pipeline_stats env req = wrapped BOP_CLEAR Resp_pipeline_stats (get_or_clear_pipeline_stats env req True)"

definition batch_clear_table :: "TableRequest \<Rightarrow> ('d SmartnicP4Impl, BatchResponse) rpc" where
  "batch_clear_table req = wrapped BOP_CLEAR Resp_table (clear_table req)"

definition batch_insert_table_rule :: "gmp \<Rightarrow> TableRuleRequest \<Rightarrow> ('d SmartnicP4Impl, BatchResponse) rpc" where
  "batch_insert_table_rule g req = wrapped BOP_INSERT Resp_table_rule (insert_or_delete_table_rule g req True)"

definition batch_delete_table_rule :: "gmp \<Rightarrow> TableRuleRequest \<Rightarrow> ('d SmartnicP4Impl, BatchResponse) rpc" where
  "batch_delete_table_rule g req = wrapped BOP_DELETE Resp_table_rule (insert_or_delete_table_rule g req False)"

definition batch_get_stats :: "'d agent_env \<Rightarrow> StatsRequest \<Rightarrow> ('d SmartnicP4Impl, BatchResponse) rpc" where
  "batch_get_stats env req = wrapped BOP_GET Resp_stats (get_or_clear_stats env req False)"

definition batch_clear_stats :: "'d agent_env \<Rightarrow> StatsRequest \<Rightarrow> ('d SmartnicP4Impl, BatchResponse) rpc" where
  "batch_clear_stats env req = wrapped BOP_CLEAR Resp_stats (get_or_clear_stats env req True)"

definition batch_get_server_status :: "('d SmartnicP4Impl, BatchResponse) rpc" where
  "batch_get_server_status = wrapped BOP_GET Resp_server_status get_server_status"

definition batch_get_server_config :: "('d SmartnicP4Impl, BatchResponse) rpc" where
  "batch_get_server_config = wrapped BOP_GET Resp_server_config get_server_config"

definition batch_set_server_config :: "ServerConfigRequest \<Rightarrow> ('d SmartnicP4Impl, BatchResponse) rpc" where
  "batch_set_server_config req = wrapped BOP_SET Resp_server_config (set_server_config req)"

definition error_resp :: "ErrorCode \<Rightarrow> BatchOperation \<Rightarrow> ('s, BatchResponse) rpc" where
  "error_resp err op s = Inr (s, [\<lparr>bresp_error_code = err, bresp_op = op, bresp_item = None\<rparr>])"

definition batch_request :: "'d agent_env \<Rightarrow> BatchRequest \<Rightarrow> ('d SmartnicP4Impl, BatchResponse) rpc" where
  "batch_request env req =
     (let op = breq_op req; unknown = error_resp EC_UNKNOWN_BATCH_OP op in
      case breq_item req of
        Req_device_info r \<Rightarrow> (case op of BOP_GET \<Rightarrow> batch_get_device_info env r | _ \<Rightarrow> unknown)
      | Req_pipeline_info r \<Rightarrow> (case op of BOP_GET \<Rightarrow> batch_get_pipeline_info r | _ \<Rightarrow> unknown)
      | Req_pipeline_stats r \<Rightarrow>
          (case op of BOP_GET \<Rightarrow> batch_get_pipeline_stats env r | BOP_CLEAR \<Rightarrow> batch_clear_pipeline_stats env r
           | _ \<Rightarrow> unknown)
      | Req_table r \<Rightarrow> (case op of BOP_CLEAR \<Rightarrow> batch_clear_table r | _ \<Rightarrow> unknown)
      | Req_table_rule r \<Rightarrow>
          (case op of BOP_INSERT \<Rightarrow> batch_insert_table_rule (ae_gmp env) r
           | BOP_DELETE \<Rightarrow> batch_delete_table_rule (ae_gmp env) r | _ \<Rightarrow> unknown)
      | Req_stats r \<Rightarrow>
          (case op of BOP_GET \<Rightarrow> batch_get_stats env r | BOP_CLEAR \<Rightarrow> batch_clear_stats env r | _ \<Rightarrow> unknown)
      | Req_server_status \<Rightarrow> (case op of BOP_GET \<Rightarrow> batch_get_server_status | _ \<Rightarrow> unknown)
      | Req_server_config r \<Rightarrow>
          (case op of BOP_GET \<Rightarrow> batch_get_server_config | BOP_SET \<Rightarrow> batch_set_server_config r | _ \<Rightarrow> unknown)
      | ITEM_NOT_SET \<Rightarrow> error_resp EC_UNKNOWN_BATCH_REQUEST op)"

text \<open>The requests of the stream, read until the client ends it.\<close>

fun Batch :: "'d agent_env \<Rightarrow> BatchRequest list \<Rightarrow> ('d SmartnicP4Impl, BatchResponse) rpc" where
  "Batch env [] s = Inr (s, [])"
| "Batch env (req # reqs) s =
     (case batch_request env req s of Inl e \<Rightarrow> Inl e
      | Inr (s1, rs1) \<Rightarrow>
        (case Batch env reqs s1 of Inl e \<Rightarrow> Inl e | Inr (s2, rs2) \<Rightarrow> Inr (s2, rs1 @ rs2)))"

end
