(* ===== verification/P4_Agent.thy ===== *)
theory P4_Agent
  imports P4_Batch "HOL-Library.Sublist"
begin

text \<open>
  \<^verbatim>\<open>sn-p4/src/agent/agent.cpp\<close>: the construction and destruction of the agent, the authentication
  of the calls, and the lists of tokens and flags that the server is started with.
\<close>

subsection \<open>Construction\<close>

text \<open>
  What the constructor gets from the system: the BARs of the devices by their bus id, the block of
  registers behind a BAR, the clocks at the start, and the value of uninitialised memory.
\<close>

record 'd start_env =
  se_agent :: "'d agent_env"
  se_sdnet :: "'d sdnet_env"
  se_map_bar2 :: "string \<Rightarrow> nat option"
  se_syscfg :: "nat \<Rightarrow> syscfg_block"
  se_server :: "server_clock stats_env"
  se_wall :: "timespec option"
  se_mono :: "timespec option"
  se_clock :: server_clock
  se_junk :: "64 word"

definition new_device :: "'d start_env \<Rightarrow> string \<Rightarrow> nat \<Rightarrow> 'd Device" where
  "new_device se bus_id bar2 =
     \<lparr>dev_bus_id = bus_id, dev_syscfg = se_syscfg se bar2, dev_pipelines = [],
      dev_hw = \<lparr>hw_handles = [], hw_counters = (\<lambda>_. \<lparr>cl_valid = False, cl_values = []\<rparr>),
                hw_table_ecc = (\<lambda>_. \<lparr>te_valid = False, te_corrected = 0, te_detected = 0\<rparr>)\<rparr>,
      dev_domain = stats_domain_alloc \<lparr>dspec_name = bus_id, dspec_interval_ms = 1000\<rparr>\<rparr>"

definition start_collection :: "'d start_env \<Rightarrow> 'd Device \<Rightarrow> agent_stop + 'd Device" where
  "start_collection se dev =
     (case stats_result (stats_domain_clear_metrics (ae_stats (se_agent se)) (None :: unit stats_clear_filter option) ()
             (dev_domain dev) (dev_hw dev)) of Inl e \<Rightarrow> Inl e
      | Inr (d, hw, _) \<Rightarrow> Inr (dev\<lparr>dev_domain := stats_domain_start d, dev_hw := hw\<rparr>))"

definition init_device :: "'d start_env \<Rightarrow> string \<Rightarrow> agent_stop + 'd Device" where
  "init_device se bus_id =
     (case se_map_bar2 se bus_id of None \<Rightarrow> Inl Stop_Exit
      | Some bar2 \<Rightarrow>
        (case init_pipeline (se_sdnet se) bar2 (new_device se bus_id bar2) of Inl e \<Rightarrow> Inl e
         | Inr dev \<Rightarrow> start_collection se dev))"

fun init_devices :: "'d start_env \<Rightarrow> string list \<Rightarrow> agent_stop + 'd Device list" where
  "init_devices se [] = Inr []"
| "init_devices se (b # bs) =
     (case init_device se b of Inl e \<Rightarrow> Inl e
      | Inr dev \<Rightarrow> (case init_devices se bs of Inl e \<Rightarrow> Inl e | Inr devs \<Rightarrow> Inr (dev # devs)))"

definition SmartnicP4Impl_new ::
  "'d start_env \<Rightarrow> string list \<Rightarrow> string list \<Rightarrow> agent_stop + 'd SmartnicP4Impl" where
  "SmartnicP4Impl_new se bus_ids debug_flags =
     (case init_devices se bus_ids of Inl e \<Rightarrow> Inl e
      | Inr devs \<Rightarrow>
        (case init_server (ae_getenv (se_agent se)) (se_junk se) (se_wall se) (se_mono se)
                \<lparr>impl_devices = devs, impl_debug_flags = init_server_debug debug_flags {}, impl_clock = se_clock se,
                 impl_server_domain = stats_domain_alloc \<lparr>dspec_name = ''sn-p4'', dspec_interval_ms = 1000\<rparr>,
                 impl_server_zone = None\<rparr> of Inl e \<Rightarrow> Inl e
         | Inr s \<Rightarrow>
           (case stats_result (stats_domain_clear_metrics (se_server se) (None :: unit stats_clear_filter option) ()
                   (impl_server_domain s) (impl_clock s)) of Inl e \<Rightarrow> Inl e
            | Inr (d, c, _) \<Rightarrow> Inr (s\<lparr>impl_server_domain := stats_domain_start d, impl_clock := c\<rparr>))))"

subsection \<open>Destruction\<close>

definition free_device :: "'d Device \<Rightarrow> agent_stop + unit" where
  "free_device dev =
     (case deinit_pipeline dev of Inl e \<Rightarrow> Inl e
      | Inr dev' \<Rightarrow>
        (case stats_result (stats_domain_free (dev_domain dev') (dev_hw dev')) of Inl e \<Rightarrow> Inl e
         | Inr _ \<Rightarrow> Inr ()))"

fun free_devices :: "'d Device list \<Rightarrow> agent_stop + unit" where
  "free_devices [] = Inr ()"
| "free_devices (dev # devs) = (case free_device dev of Inl e \<Rightarrow> Inl e | Inr _ \<Rightarrow> free_devices devs)"

definition SmartnicP4Impl_delete :: "'d SmartnicP4Impl \<Rightarrow> agent_stop + unit" where
  "SmartnicP4Impl_delete s =
     (case deinit_server s of Inl e \<Rightarrow> Inl e
      | Inr s1 \<Rightarrow>
        (case stats_result (stats_domain_free (impl_server_domain s1) (impl_clock s1)) of Inl e \<Rightarrow> Inl e
         | Inr _ \<Rightarrow> free_devices (rev (impl_devices s1))))"

subsection \<open>Authentication\<close>

datatype auth_status = Auth_OK | UNAUTHENTICATED string

text \<open>The metadata is a multimap; \<open>find\<close> gives the first value of a key.\<close>

definition metadata_find :: "string \<Rightarrow> (string \<times> string) list \<Rightarrow> string option" where
  "metadata_find key md = map_of md key"

definition AuthMetadataToken :: "string list \<Rightarrow> string list" where
  "AuthMetadataToken auth_tokens = map (\<lambda>token. ''Bearer '' @ token) auth_tokens"

definition starts_with :: "string \<Rightarrow> string \<Rightarrow> bool" where
  "starts_with s p \<longleftrightarrow> take (length p) s = p"

definition Process :: "string list \<Rightarrow> (string \<times> string) list \<Rightarrow> auth_status" where
  "Process tokens md =
     (if (case metadata_find '':path'' md of None \<Rightarrow> False
          | Some path \<Rightarrow> starts_with path ''/grpc.health.v1.Health/'')
      then Auth_OK
      else case metadata_find ''authorization'' md of
        None \<Rightarrow> UNAUTHENTICATED ''Missing token key from metadata.''
      | Some md_token \<Rightarrow>
        (if list_ex (\<lambda>token. md_token = token) tokens then Auth_OK else UNAUTHENTICATED ''Unknown token.''))"

subsection \<open>Lists of the command line\<close>

text \<open>
  \<open>sregex_token_iterator\<close> with the delimiter ``\<open>:\<close>'' and the submatch \<open>-1\<close>: the parts between
  the delimiters; without a delimiter the whole string is the only part, and after the last
  delimiter the rest is a part only if it is not empty.
\<close>

fun split_colons :: "string \<Rightarrow> string \<Rightarrow> string list" where
  "split_colons acc [] = (if acc = [] then [] else [acc])"
| "split_colons acc (c # cs) = (if c = CHR '':'' then acc # split_colons [] cs else split_colons (acc @ [c]) cs)"

definition token_parts :: "string \<Rightarrow> string list" where
  "token_parts item = (if item = [] then [[]] else split_colons [] item)"

definition parse_env_list :: "string list \<Rightarrow> string list \<Rightarrow> string list" where
  "parse_env_list in_list out_list = out_list @ concat (map token_parts in_list)"

text \<open>What the server asks of a value of its configuration file.\<close>

datatype config_value = Config_null | Config_array "string list" | Config_other

definition choose_debug_flags :: "string list \<Rightarrow> config_value \<Rightarrow> agent_stop + string list" where
  "choose_debug_flags arg_flags config_flags =
     (if arg_flags = []
      then (case config_flags of Config_null \<Rightarrow> Inr [] | Config_array fs \<Rightarrow> Inr fs | Config_other \<Rightarrow> Inl Stop_Exit)
      else Inr (parse_env_list arg_flags []))"

definition choose_auth_tokens :: "string list \<Rightarrow> config_value \<Rightarrow> agent_stop + string list" where
  "choose_auth_tokens arg_tokens config_tokens =
     (if arg_tokens = []
      then (case config_tokens of
              Config_array ts \<Rightarrow> if length ts < 1 then Inl Stop_Exit else Inr ts
            | _ \<Rightarrow> Inl Stop_Exit)
      else Inr (parse_env_list arg_tokens []))"

subsection \<open>What the authentication admits\<close>

text \<open>
  A call is admitted exactly if it is for the health service or carries one of the
  configured tokens after ``\<open>Bearer \<close>''; any other call is rejected, whatever its metadata.
\<close>
lemma auth_admits_iff:
  "Process (AuthMetadataToken tokens) md = Auth_OK \<longleftrightarrow>
     (\<exists>path. map_of md '':path'' = Some path \<and> prefix ''/grpc.health.v1.Health/'' path) \<or>
     (\<exists>token \<in> set tokens. map_of md ''authorization'' = Some (''Bearer '' @ token))"
proof -
  have p: "starts_with s p \<longleftrightarrow> prefix p s" for s p
    unfolding starts_with_def prefix_def by (metis append_eq_conv_conj append_take_drop_id)
  show ?thesis
    by (cases "map_of md '':path''"; cases "map_of md ''authorization''")
      (auto simp: Process_def metadata_find_def AuthMetadataToken_def p list_ex_iff)
qed

lemma split_colons_word: "CHR '':'' \<notin> set w \<Longrightarrow> split_colons acc (w @ s) = split_colons (acc @ w) s"
  by (induction w arbitrary: acc) auto

fun join_colons :: "string list \<Rightarrow> string" where
  "join_colons [] = []"
| "join_colons [w] = w"
| "join_colons (w # ws) = w @ CHR '':'' # join_colons ws"

lemma split_join:
  "\<forall>w \<in> set ws. w \<noteq> [] \<and> CHR '':'' \<notin> set w \<Longrightarrow> split_colons [] (join_colons ws) = ws"
proof (induction ws rule: join_colons.induct)
  case (2 w)
  then show ?case using split_colons_word [of w "[]" "[]"] by simp
next
  case (3 w v vs)
  then show ?case using split_colons_word [of w "[]" "CHR '':'' # join_colons (v # vs)"] by simp
qed simp

lemma join_not_Nil: "ws \<noteq> [] \<Longrightarrow> \<forall>w \<in> set ws. w \<noteq> [] \<Longrightarrow> join_colons ws \<noteq> []"
  by (induction ws rule: join_colons.induct) auto

text \<open>
  Names that are joined with colons come back from the environment variable as they
  were: for lists of nonempty names without colons, \<open>parse_env_list\<close> undoes the joining.
\<close>
lemma parse_env_list_roundtrip:
  assumes "\<forall>ws \<in> set groups. ws \<noteq> [] \<and> (\<forall>w \<in> set ws. w \<noteq> [] \<and> CHR '':'' \<notin> set w)"
  shows "parse_env_list (map join_colons groups) out = out @ concat groups"
proof -
  have "token_parts (join_colons ws) = ws" if "ws \<in> set groups" for ws
    using assms that split_join [of ws] join_not_Nil [of ws] by (auto simp: token_parts_def)
  then have "map token_parts (map join_colons groups) = groups"
    unfolding map_map by (intro map_idI) simp
  then show ?thesis by (simp add: parse_env_list_def)
qed

text \<open>
  Property C37.  An empty part between two colons is a token of its own: with such a list any caller
  is admitted that sends ``\<open>Bearer \<close>'' and no token at all.
\<close>
theorem empty_token_admits:
  assumes "CHR '':'' \<notin> set a"
  shows "\<exists>tokens. choose_auth_tokens [a @ ''::'' @ b] config = Inr tokens \<and>
           Process (AuthMetadataToken tokens) [(''authorization'', ''Bearer '')] = Auth_OK"
proof -
  have "[] \<in> set (token_parts (a @ ''::'' @ b))"
    using split_colons_word [OF assms, of "[]" "''::'' @ b"] by (simp add: token_parts_def)
  then show ?thesis
    by (simp add: choose_auth_tokens_def parse_env_list_def Process_def metadata_find_def AuthMetadataToken_def
        list_ex_iff)
qed

theorem empty_token_admits_witness:
  "\<exists>tokens. choose_auth_tokens [''abc::def''] Config_null = Inr tokens \<and>
     Process (AuthMetadataToken tokens) [(''authorization'', ''Bearer '')] = Auth_OK"
  using empty_token_admits [of "''abc''" "''def''" Config_null] by simp

end
