(* ===== verification/P4_Agent_Props.thy ===== *)
theory P4_Agent_Props
  imports P4_Agent P4_Stats_Props P4_Table_Props
begin

text \<open>
  The agent as a whole: what its construction establishes (\<open>agent_good\<close>), that every usable request keeps
  it and gets the responses it calls for, and that no stream of usable requests makes the agent stop.
\<close>

subsection \<open>New zones\<close>

definition spec_readable :: "'h stats_block_spec \<Rightarrow> stats_metric_spec \<Rightarrow> bool" where
  "spec_readable bs ms \<longleftrightarrow> spec_elements ms < 2 ^ 30 \<and>
     (case bspec_read_metric bs of
        Some rd \<Rightarrow> \<forall>h ls. length (rd h (ms\<lparr>mspec_labels := ls\<rparr>) (spec_elements ms)) = spec_elements ms
      | None \<Rightarrow> io_size (mspec_io ms) \<in> {1, 2, 4, 8})"

definition spec_good :: "'h stats_block_spec \<Rightarrow> bool" where
  "spec_good bs \<longleftrightarrow> (\<forall>ms \<in> set (bspec_metrics bs). spec_readable bs ms)"

lemma attach_labelled: "values_labelled (map el_value (attach_elements f ls n es))"
  by (induction es arbitrary: n) (auto simp: values_labelled_def)

lemma metric_alloc_good:
  assumes "stats_metric_alloc ms = Inr m" and "spec_readable bs ms" and "bspec_read_metric bs' = bspec_read_metric bs"
  shows "metric_readable bs' (stats_metric_attach dn zn bn m)"
proof -
  have "length (met_elements m) = spec_elements ms" "0 < spec_elements ms" "\<exists>ls. met_spec m = ms\<lparr>mspec_labels := ls\<rparr>"
    using assms(1) by (auto simp: stats_metric_alloc_def spec_elements_def Let_def split: if_splits sum.splits)
  then show ?thesis using assms(2,3)
    by (auto simp: metric_readable_def metric_good_def metric_shape_def spec_readable_def stats_metric_attach_def attach_labelled
        simp del: length_greater_0_conv split: option.splits)
qed

lemma alloc_all_Inr: "alloc_all f ss = Inr ms \<Longrightarrow> list_all2 (\<lambda>s m. f s = Inr m) ss ms"
  by (induction ss arbitrary: ms) (auto split: sum.splits)

lemma block_alloc_good:
  assumes "stats_block_alloc spec = Inr b" and "spec_good spec"
  shows "block_good (fst (stats_block_attach dn zn b h))"
proof -
  obtain ms where ms: "list_all2 (\<lambda>s m. stats_metric_alloc s = Inr m) (bspec_metrics spec) ms" "blk_metrics b = ms"
    "bspec_read_metric (blk_spec b) = bspec_read_metric spec"
    using assms(1) by (auto simp: stats_block_alloc_def dest!: alloc_all_Inr split: sum.splits)
  have "metric_readable (blk_spec b) (stats_metric_attach dn zn bn m)" if "m \<in> set ms" for m bn
  proof -
    from list_all2_right [OF ms(1) that] obtain s where "s \<in> set (bspec_metrics spec)" "stats_metric_alloc s = Inr m" by blast
    then show ?thesis using assms(2) ms(3) by (intro metric_alloc_good [of s]) (simp_all add: spec_good_def)
  qed
  then show ?thesis using ms(2) by (auto simp: block_good_def stats_block_attach_def)
qed

lemma blocks_alloc_good:
  "list_all2 (\<lambda>s b. stats_block_alloc s = Inr b) specs bs \<Longrightarrow> \<forall>s \<in> set specs. spec_good s \<Longrightarrow>
   attach_blocks dn zn bs h = (bs', h') \<Longrightarrow> \<forall>b \<in> set bs'. block_good b"
proof (induction specs bs arbitrary: h bs' rule: list_all2_induct)
  case (Cons s specs b bs)
  obtain b1 h1 where 1: "stats_block_attach dn zn b h = (b1, h1)" by force
  then obtain bs1 where 2: "attach_blocks dn zn bs h1 = (bs1, h')" "bs' = b1 # bs1"
    using Cons.prems(2) by (auto simp: Let_def split: prod.splits)
  have "block_good b1" using block_alloc_good [OF Cons.hyps(1), of dn zn h] Cons.prems(1) 1 by simp
  then show ?case using Cons.IH [OF _ 2(1)] Cons.prems(1) 2(2) by simp
qed simp

lemma zone_alloc_good:
  assumes "domain_good d" and "z \<notin> set (dom_zones d)" and "\<forall>s \<in> set (zspec_blocks spec). spec_good s"
    and "stats_zone_alloc z spec d h = Inr (d', h')"
  shows "domain_good d' \<and> dom_zones d' = dom_zones d @ [z]"
proof -
  obtain bs where bs: "alloc_all stats_block_alloc (zspec_blocks spec) = Inr bs"
    using assms(4) by (auto simp: stats_zone_alloc_def split: sum.splits)
  obtain bs1 h1 where at: "attach_blocks (dspec_name (dom_spec d)) (zspec_name spec) bs h = (bs1, h1)" by force
  have good: "\<forall>b \<in> set bs1. block_good b" using blocks_alloc_good [OF alloc_all_Inr [OF bs] assms(3) at] .
  obtain zone where zone: "dom_heap d' = (dom_heap d)(z := Some zone)" "zone_blocks zone = bs1" "zone_attached zone"
    "zone_ref_count zone = 1" "dom_zones d' = dom_zones d @ [z]"
    using assms(4) by (auto simp: stats_zone_alloc_def bs stats_zone_attach_def at Let_def stats_zone_get_def)
  have "(1 :: 32 word) \<noteq> - 1" by simp
  then show ?thesis
    using assms(1,2) good zone unfolding domain_good_def zones_wf_def
    by (auto simp: domain_zones_def zone_good_def)
qed

subsection \<open>The invariant of the agent\<close>

definition zones_known :: "'d Device \<Rightarrow> bool" where
  "zones_known dev \<longleftrightarrow>
     (\<forall>p \<in> set (dev_pipelines dev). \<forall>st. dp_counters p = Some st \<longrightarrow> ds_zone st \<in> set (dom_zones (dev_domain dev)))"

definition device_good :: "'d Device \<Rightarrow> bool" where
  "device_good dev \<longleftrightarrow> domain_good (dev_domain dev) \<and> device_tables_wf dev \<and> zones_known dev"

definition agent_good :: "'d SmartnicP4Impl \<Rightarrow> bool" where
  "agent_good s \<longleftrightarrow> (\<forall>dev \<in> set (impl_devices s). device_good dev)"

text \<open>What the driver of each pipeline must describe: consistent tables and counters of a sane number.\<close>

definition intf_good :: "'d vitis_intf \<Rightarrow> bool" where
  "intf_good intf \<longleftrightarrow>
     (\<forall>pi. snp4_info_get_pipeline (Some (intf_config intf)) = Inr pi \<longrightarrow>
        (\<forall>t \<in> set (pipeline_tables pi). table_wf t) \<and>
        (\<forall>b \<in> set (pipeline_counter_blocks pi). block_num_counters b < 2 ^ 30))"

lemma array_flags [simp]:
  "STATS_METRIC_FLAG_TEST clear_on_read_array ARRAY"
  "\<not> STATS_METRIC_FLAG_TEST (STATS_METRIC_FLAG_MASK CLEAR_ON_READ) ARRAY"
  "\<not> STATS_METRIC_FLAG_TEST clear_on_read_array NEVER_CLEAR"
  by (simp_all add: flag_test_bit clear_on_read_array_def STATS_METRIC_FLAG_MASK_def bit_or_iff bit_push_bit_iff)

lemma counters_spec_good: "block_num_counters bi < 2 ^ 30 \<Longrightarrow> spec_good (counters_block_spec pi h bidx bi)"
  by (cases "block_type bi")
     (auto simp: spec_good_def spec_readable_def counters_block_spec_def counters_block_metrics_def init_counters_block_metric_def
        spec_elements_def counters_read_metric_def Let_def)

lemma table_ecc_spec_good: "spec_good (table_ecc_block_spec pi h tidx ti)"
  by (auto simp: spec_good_def spec_readable_def table_ecc_block_spec_def init_table_ecc_metric_def spec_elements_def
      table_ecc_read_metric_def Let_def)

lemma alloc_zone_device:
  assumes "domain_good (dev_domain dev)" and "\<forall>s \<in> set (zspec_blocks zspec). spec_good s"
    and "alloc_zone zspec dev = Inr (dev', st)"
  shows "domain_good (dev_domain dev') \<and> dom_zones (dev_domain dev') = dom_zones (dev_domain dev) @ [ds_zone st] \<and>
     dev_pipelines dev' = dev_pipelines dev"
  using assms zone_alloc_good [OF assms(1) new_zone_address_fresh assms(2)]
  by (auto simp: alloc_zone_def Let_def split: sum.splits)


lemma init_counters_good:
  assumes "domain_good (dev_domain dev)" and "\<forall>b \<in> set (pipeline_counter_blocks (dp_info p)). block_num_counters b < 2 ^ 30"
    and "init_counters dev p = Inr (dev', p')"
  shows "domain_good (dev_domain dev') \<and> dev_pipelines dev' = dev_pipelines dev \<and>
     set (dom_zones (dev_domain dev)) \<subseteq> set (dom_zones (dev_domain dev')) \<and> dp_info p' = dp_info p \<and> dp_id p' = dp_id p \<and>
     (\<forall>st. dp_counters p' = Some st \<longrightarrow> ds_zone st \<in> set (dom_zones (dev_domain dev')))"
proof (cases "pipeline_counter_blocks (dp_info p) = []")
  case False
  then obtain st where st: "alloc_zone (counters_zone_spec p) dev = Inr (dev', st)" "p' = p\<lparr>dp_counters := Some st\<rparr>"
    using assms(3) by (auto simp: init_counters_def split: sum.splits)
  have "\<forall>s \<in> set (zspec_blocks (counters_zone_spec p) :: 'a device_hw stats_block_spec list). spec_good s"
    using assms(2) by (auto simp: counters_zone_spec_def in_set_enumerate_eq intro!: counters_spec_good)
  from alloc_zone_device [OF assms(1) this st(1)] st(2) show ?thesis by auto
qed (use assms in \<open>auto simp: init_counters_def\<close>)

lemma init_table_ecc_good:
  assumes "domain_good (dev_domain dev)" and "init_table_ecc dev p = Inr (dev', p')"
  shows "domain_good (dev_domain dev') \<and> dev_pipelines dev' = dev_pipelines dev \<and>
     set (dom_zones (dev_domain dev)) \<subseteq> set (dom_zones (dev_domain dev')) \<and> dp_info p' = dp_info p \<and>
     dp_counters p' = dp_counters p \<and> dp_id p' = dp_id p"
proof (cases "ecc_tables (dp_info p) = []")
  case False
  then obtain st where st: "alloc_zone (table_ecc_zone_spec p) dev = Inr (dev', st)" "p' = p\<lparr>dp_table_ecc := Some st\<rparr>"
    using assms(2) by (auto simp: init_table_ecc_def split: sum.splits)
  have "\<forall>s \<in> set (zspec_blocks (table_ecc_zone_spec p) :: 'a device_hw stats_block_spec list). spec_good s"
    using table_ecc_spec_good by (auto simp: table_ecc_zone_spec_def)
  from alloc_zone_device [OF assms(1) this st(1)] st(2) show ?thesis by auto
qed (use assms in \<open>auto simp: init_table_ecc_def\<close>)

lemma add_handle_keeps [simp]:
  "dev_domain (add_handle u dev) = dev_domain dev" "dev_pipelines (add_handle u dev) = dev_pipelines dev"
  by (simp_all add: add_handle_def Let_def)

lemma init_one_pipeline_good:
  assumes "device_good dev" and "intf_good intf" and "sdnet_intf sd i = Some intf"
    and "init_one_pipeline sd bar2 i dev = Inr dev'"
  shows "device_good dev' \<and>
     (\<exists>p pi. dev_pipelines dev' = dev_pipelines dev @ [p] \<and> dp_id p = i \<and> dp_info p = pi \<and>
        snp4_info_get_pipeline (Some (intf_config intf)) = Inr pi)"
proof -
  obtain u d1 where u: "snp4_init (sdnet_intf sd) i bar2 (sdnet_hw sd bar2 i) = (Some u, d1)"
    using assms(4) by (auto simp: init_one_pipeline_def split: prod.splits option.splits)
  obtain ok u' where u': "snp4_reset_all_tables u = (ok, u')" by force
  obtain pi where pi: "snp4_info_get_pipeline (Some (intf_config intf)) = Inr pi"
    using assms(3,4) u u' by (auto simp: init_one_pipeline_def split: if_splits sum.splits)
  have rest: "(let p = \<lparr>dp_id = i, dp_handle = length (hw_handles (dev_hw dev)), dp_info = pi, dp_counters = None, dp_table_ecc = None\<rparr> in
       case init_counters (add_handle u' dev) p of Inl e \<Rightarrow> Inl e
       | Inr (dev1, p1) \<Rightarrow> (case init_table_ecc dev1 p1 of Inl e \<Rightarrow> Inl e
           | Inr (dev2, p2) \<Rightarrow> Inr (dev2\<lparr>dev_pipelines := dev_pipelines dev2 @ [p2]\<rparr>))) = Inr dev'"
    using assms(3,4) u u' pi by (simp add: init_one_pipeline_def split: if_splits)
  define p where "p = \<lparr>dp_id = i, dp_handle = length (hw_handles (dev_hw dev)), dp_info = pi, dp_counters = None, dp_table_ecc = None\<rparr>"
  obtain dev1 p1 dev2 p2 where 1: "init_counters (add_handle u' dev) p = Inr (dev1, p1)"
    and 2: "init_table_ecc dev1 p1 = Inr (dev2, p2)" and dev': "dev' = dev2\<lparr>dev_pipelines := dev_pipelines dev2 @ [p2]\<rparr>"
    using rest unfolding p_def by (fastforce simp: Let_def split: sum.splits)
  have d: "domain_good (dev_domain (add_handle u' dev))" using assms(1) by (simp add: device_good_def)
  have n: "\<forall>b \<in> set (pipeline_counter_blocks (dp_info p)). block_num_counters b < 2 ^ 30"
    using assms(2) pi by (simp add: intf_good_def p_def)
  note i1 = init_counters_good [OF d n 1] and i2 = init_table_ecc_good [OF _ 2]
  have tab: "tables_wf p2" using i1 i2 assms(2) pi by (simp add: tables_wf_def p_def intf_good_def)
  have zs: "set (dom_zones (dev_domain dev)) \<subseteq> set (dom_zones (dev_domain dev2))"
    "\<forall>st. dp_counters p2 = Some st \<longrightarrow> ds_zone st \<in> set (dom_zones (dev_domain dev2))"
    "dev_pipelines dev2 = dev_pipelines dev" "domain_good (dev_domain dev2)"
    using i1 i2 by (simp_all add: subset_iff)
  have "zones_known dev'"
    using assms(1) zs(2) subsetD [OF zs(1)] unfolding device_good_def zones_known_def by (auto simp: dev' zs(3))
  then have "device_good dev'"
    using assms(1) zs(4) tab by (auto simp: device_good_def device_tables_wf_def dev' zs(3))
  moreover have "dev_pipelines dev' = dev_pipelines dev @ [p2]" "dp_id p2 = i" "dp_info p2 = pi"
    using i1 i2 by (simp_all add: dev' p_def)
  ultimately show ?thesis using pi by blast
qed

lemma init_pipelines_good:
  assumes "\<forall>i intf. sdnet_intf sd i = Some intf \<longrightarrow> intf_good intf"
  shows "device_good dev \<Longrightarrow> init_pipelines sd bar2 is dev = Inr dev' \<Longrightarrow>
     device_good dev' \<and>
     (\<exists>ps. dev_pipelines dev' = dev_pipelines dev @ ps \<and> map dp_id ps = filter (snp4_sdnet_present sd) is \<and>
        (\<forall>p \<in> set ps. \<exists>intf. sdnet_intf sd (dp_id p) = Some intf \<and>
           snp4_info_get_pipeline (Some (intf_config intf)) = Inr (dp_info p)))"
proof (induction "is" arbitrary: dev)
  case (Cons i "is")
  show ?case
  proof (cases "sdnet_intf sd i")
    case None
    then show ?thesis using Cons by (simp add: snp4_sdnet_present_def)
  next
    case (Some intf)
    obtain dev1 where dev1: "init_one_pipeline sd bar2 i dev = Inr dev1" "init_pipelines sd bar2 is dev1 = Inr dev'"
      using Cons.prems(2) Some by (auto simp: snp4_sdnet_present_def split: sum.splits)
    have intf: "intf_good intf" using assms Some by blast
    from init_one_pipeline_good [OF Cons.prems(1) intf Some dev1(1)] obtain p where
      p: "device_good dev1" "dev_pipelines dev1 = dev_pipelines dev @ [p]" "dp_id p = i"
      "snp4_info_get_pipeline (Some (intf_config intf)) = Inr (dp_info p)" by blast
    obtain ps where
      "device_good dev'" "dev_pipelines dev' = dev_pipelines dev1 @ ps" "map dp_id ps = filter (snp4_sdnet_present sd) is"
      "\<forall>p \<in> set ps. \<exists>intf. sdnet_intf sd (dp_id p) = Some intf \<and>
         snp4_info_get_pipeline (Some (intf_config intf)) = Inr (dp_info p)" using Cons.IH [OF p(1) dev1(2)] by blast
    moreover have "snp4_sdnet_present sd i" using Some by (simp add: snp4_sdnet_present_def)
    ultimately show ?thesis using p Some by (intro conjI exI [of _ "p # ps"]) auto
  qed
qed simp

lemma new_device_good: "device_good (new_device se bus_id bar2)"
  by (simp add: device_good_def new_device_def device_tables_wf_def zones_known_def domain_good_def zones_wf_def
      stats_domain_alloc_def domain_zones_def)

lemma start_collection_good:
  assumes "device_good dev" and "start_collection se dev = Inr dev'"
  shows "device_good dev' \<and> dev_pipelines dev' = dev_pipelines dev"
proof -
  obtain d hw c where d: "stats_domain_clear_metrics (ae_stats (se_agent se)) (None :: unit stats_clear_filter option) ()
      (dev_domain dev) (dev_hw dev) = Some (Inr (d, hw, c))" "domain_good d" "dom_zones d = dom_zones (dev_domain dev)"
    using clear_domain_good [of "dev_domain dev" "None :: unit stats_clear_filter option" "ae_stats (se_agent se)" "()" "dev_hw dev"]
      assms(1) by (auto simp: device_good_def)
  then have "dev' = dev\<lparr>dev_domain := stats_domain_start d, dev_hw := hw\<rparr>"
    using assms(2) by (simp add: start_collection_def stats_result_def)
  then show ?thesis using d assms(1)
    by (simp add: device_good_def device_tables_wf_def zones_known_def stats_domain_start_def domain_good_def zones_wf_def
        domain_zones_def)
qed

definition pipelines_started :: "'d sdnet_env \<Rightarrow> 'd Device \<Rightarrow> bool" where
  "pipelines_started sd dev \<longleftrightarrow>
     map dp_id (dev_pipelines dev) = filter (snp4_sdnet_present sd) [0..<snp4_sdnet_count sd] \<and>
     (\<forall>p \<in> set (dev_pipelines dev). \<exists>intf. sdnet_intf sd (dp_id p) = Some intf \<and>
        snp4_info_get_pipeline (Some (intf_config intf)) = Inr (dp_info p))"

lemma init_device_good:
  assumes "\<forall>i intf. sdnet_intf (se_sdnet se) i = Some intf \<longrightarrow> intf_good intf" and "init_device se b = Inr dev"
  shows "device_good dev \<and> pipelines_started (se_sdnet se) dev"
proof -
  obtain bar2 dev1 where 1: "init_pipeline (se_sdnet se) bar2 (new_device se b bar2) = Inr dev1" "start_collection se dev1 = Inr dev"
    using assms(2) by (auto simp: init_device_def split: option.splits sum.splits)
  have "dev_pipelines (new_device se b bar2) = []" by (simp add: new_device_def)
  with init_pipelines_good [OF assms(1) new_device_good 1(1) [unfolded init_pipeline_def]] start_collection_good [OF _ 1(2)]
  show ?thesis by (auto simp: pipelines_started_def)
qed

lemma init_devices_good:
  assumes "\<forall>i intf. sdnet_intf (se_sdnet se) i = Some intf \<longrightarrow> intf_good intf"
  shows "init_devices se bs = Inr devs \<Longrightarrow>
    length devs = length bs \<and> (\<forall>dev \<in> set devs. device_good dev \<and> pipelines_started (se_sdnet se) dev)"
  using init_device_good [OF assms] by (induction bs arbitrary: devs) (auto split: sum.splits)

text \<open>
  Property C13.  An agent that starts is in order: it has one device for each bus id of the command
  line, in each of them one pipeline for each driver that is present, in their order, described as
  the driver describes itself; the statistics domains, the zones that the pipelines point to and
  the tables satisfy the invariant under which all requests are served.
\<close>
theorem started_agent_good:
  assumes "SmartnicP4Impl_new se bus_ids flags = Inr s"
    and "\<forall>i intf. sdnet_intf (se_sdnet se) i = Some intf \<longrightarrow> intf_good intf"
  shows "agent_good s \<and> length (impl_devices s) = length bus_ids \<and>
         (\<forall>dev \<in> set (impl_devices s). pipelines_started (se_sdnet se) dev) \<and>
         impl_debug_flags s = init_server_debug flags {}"
proof -
  obtain devs where devs: "init_devices se bus_ids = Inr devs" using assms(1)
    by (auto simp: SmartnicP4Impl_new_def split: sum.splits)
  then have "impl_devices s = devs \<and> impl_debug_flags s = init_server_debug flags {}" using assms(1)
    by (auto simp: SmartnicP4Impl_new_def init_server_def init_server_stats_def Let_def split: sum.splits option.splits)
  then show ?thesis using init_devices_good [OF assms(2) devs] by (auto simp: agent_good_def)
qed

subsection \<open>The domains of the agent are reachable\<close>

text \<open>
  The zones of the agent have callbacks that give each metric the values it has room for, and all that the agent does with the domain of
  a device are operations of the library.
\<close>

lemma spec_good_reads: "spec_good bs \<Longrightarrow> reads_all bs"
  by (auto simp: spec_good_def spec_readable_def reads_all_def fills_def)

lemma counters_read_all: "reads_all (counters_block_spec pi h bidx bi)"
  by (cases "block_type bi")
     (auto simp: reads_all_def fills_def counters_block_spec_def counters_block_metrics_def init_counters_block_metric_def
        spec_elements_def counters_read_metric_def Let_def)

lemma server_specs_good: "\<forall>b \<in> set (zspec_blocks (server_zone_spec getenv junk)). spec_good b"
  by (auto simp: server_zone_spec_def server_block_def spec_good_def spec_readable_def server_metric_def spec_elements_def flag_test_bit
      STATS_METRIC_FLAG_MASK_def bit_push_bit_iff server_status_stats_read_metric_def server_info_stats_read_metric_def)

lemma p4_zones_read_all:
  "b \<in> set (zspec_blocks (counters_zone_spec p)) \<Longrightarrow> reads_all b"
  "b \<in> set (zspec_blocks (table_ecc_zone_spec p)) \<Longrightarrow> reads_all b"
  "b' \<in> set (zspec_blocks (server_zone_spec getenv junk)) \<Longrightarrow> reads_all b'"
proof -
  show "b \<in> set (zspec_blocks (counters_zone_spec p)) \<Longrightarrow> reads_all b"
    using counters_read_all by (auto simp: counters_zone_spec_def)
  show "b \<in> set (zspec_blocks (table_ecc_zone_spec p)) \<Longrightarrow> reads_all b"
    using spec_good_reads [OF table_ecc_spec_good] by (auto simp: table_ecc_zone_spec_def)
  show "b' \<in> set (zspec_blocks (server_zone_spec getenv junk)) \<Longrightarrow> reads_all b'"
    using server_specs_good spec_good_reads by blast
qed

definition device_reachable :: "'d agent_env \<Rightarrow> 'd Device \<Rightarrow> bool" where
  "device_reachable env dev \<longleftrightarrow>
     (\<exists>spec. domain_reachable (ae_stats env) (None :: bit_array option) spec (dev_domain dev, dev_hw dev))"

lemma device_step:
  assumes "device_reachable env dev"
    and "domain_step (ae_stats env) (None :: bit_array option) (dev_domain dev, dev_hw dev) (dev_domain dev', dev_hw dev')"
  shows "device_reachable env dev'"
proof -
  from assms(1) obtain spec where
    "domain_reachable (ae_stats env) (None :: bit_array option) spec (dev_domain dev, dev_hw dev)"
    unfolding device_reachable_def by blast
  from reach_step [OF this assms(2)] show ?thesis unfolding device_reachable_def by blast
qed

lemma device_reachable_cong:
  "device_reachable env dev \<Longrightarrow> dev_domain dev' = dev_domain dev \<Longrightarrow> device_reachable env dev'"
  by (erule device_step) (simp add: step_device)

lemma alloc_zone_reachable:
  assumes "device_reachable env dev" and "\<forall>b \<in> set (zspec_blocks zspec). reads_all b" and "alloc_zone zspec dev = Inr (dev', st)"
  shows "device_reachable env dev'"
  using assms(3)
  by (intro device_step [OF assms(1)] step_alloc [OF new_zone_address_fresh assms(2)])
     (auto simp: alloc_zone_def Let_def split: sum.splits)

lemma init_zones_reachable:
  assumes "device_reachable env dev"
  shows "init_counters dev p = Inr (dev', p') \<Longrightarrow> device_reachable env dev'"
    and "init_table_ecc dev p = Inr (dev', p') \<Longrightarrow> device_reachable env dev'"
proof -
  note zones = alloc_zone_reachable [OF assms, of "counters_zone_spec p"] alloc_zone_reachable [OF assms, of "table_ecc_zone_spec p"]
  show "device_reachable env dev'" if "init_counters dev p = Inr (dev', p')"
    using that assms zones(1) p4_zones_read_all(1) by (fastforce simp: init_counters_def split: sum.splits if_splits)
  show "device_reachable env dev'" if "init_table_ecc dev p = Inr (dev', p')"
    using that assms zones(2) p4_zones_read_all(2) by (fastforce simp: init_table_ecc_def split: sum.splits if_splits)
qed

lemma init_pipelines_reachable:
  "device_reachable env dev \<Longrightarrow> init_pipelines sd bar2 is dev = Inr dev' \<Longrightarrow> device_reachable env dev'"
proof (induction "is" arbitrary: dev)
  case (Cons i "is")
  have one: "device_reachable env dev1" if one: "init_one_pipeline sd bar2 i dev = Inr dev1" for dev1
  proof -
    obtain u p d1 p1 d2 p2 where 1: "init_counters (add_handle u dev) p = Inr (d1, p1)" "init_table_ecc d1 p1 = Inr (d2, p2)"
      "dev1 = d2\<lparr>dev_pipelines := dev_pipelines d2 @ [p2]\<rparr>"
      using one unfolding init_one_pipeline_def Let_def by (fastforce split: prod.splits option.splits if_splits sum.splits)
    have "device_reachable env (add_handle u dev)" by (rule device_reachable_cong [OF Cons.prems(1)]) simp
    from init_zones_reachable(2) [OF init_zones_reachable(1) [OF this 1(1)] 1(2)] show ?thesis
      by (rule device_reachable_cong) (simp add: 1(3))
  qed
  show ?case using Cons one by (auto split: if_splits sum.splits)
qed simp

lemma clear_reachable:
  assumes "device_reachable env dev"
  shows "clear_stats_domain env flt dev = Inr dev' \<Longrightarrow> device_reachable env dev'"
    and "z \<in> set (dom_zones (dev_domain dev)) \<Longrightarrow> clear_stats_zone env flt z dev = Inr dev' \<Longrightarrow> device_reachable env dev'"
proof -
  let ?clear = "clear_filter_of (ae_regex env) flt"
  show "device_reachable env dev'" if c: "clear_stats_domain env flt dev = Inr dev'"
  proof -
    obtain d hw c where "stats_domain_clear_metrics (ae_stats env) ?clear None (dev_domain dev) (dev_hw dev) = Some (Inr (d, hw, c))"
      "dev' = dev\<lparr>dev_domain := d, dev_hw := hw\<rparr>"
      using c by (auto simp: clear_stats_domain_def stats_result_def split: option.splits sum.splits)
    then show ?thesis by (intro device_step [OF assms] step_clear) simp
  qed
  show "device_reachable env dev'" if z: "z \<in> set (dom_zones (dev_domain dev))" and c: "clear_stats_zone env flt z dev = Inr dev'"
  proof -
    obtain d hw c where "stats_zone_clear_metrics (ae_stats env) ?clear None z (dev_domain dev) (dev_hw dev) = Inr (c, d, hw)"
      "dev' = dev\<lparr>dev_domain := d, dev_hw := hw\<rparr>"
      using c by (auto simp: clear_stats_zone_def split: sum.splits)
    then show ?thesis by (intro device_step [OF assms] step_zone_clear [OF z]) simp
  qed
qed

lemma start_collection_reachable:
  assumes "device_reachable (se_agent se) dev" and "start_collection se dev = Inr dev'"
  shows "device_reachable (se_agent se) dev'"
proof -
  obtain d hw u where c: "stats_domain_clear_metrics (ae_stats (se_agent se)) (None :: unit stats_clear_filter option) ()
      (dev_domain dev) (dev_hw dev) = Some (Inr (d, hw, u))" and dev': "dev' = dev\<lparr>dev_domain := stats_domain_start d, dev_hw := hw\<rparr>"
    using assms(2) by (auto simp: start_collection_def stats_result_def split: option.splits sum.splits)
  have "device_reachable (se_agent se) (dev\<lparr>dev_domain := d, dev_hw := hw\<rparr>)"
    by (rule device_step [OF assms(1)]) (simp add: step_clear_all [OF c])
  then show ?thesis by (rule device_step) (simp add: dev' step_start)
qed

lemma started_agent_reachable:
  assumes "SmartnicP4Impl_new se bus_ids flags = Inr s"
  shows "\<forall>dev \<in> set (impl_devices s). device_reachable (se_agent se) dev"
proof -
  have new: "device_reachable (se_agent se) (new_device se b bar2)" for b bar2
    unfolding device_reachable_def new_device_def by (auto intro: reach_alloc)
  have one: "device_reachable (se_agent se) dev" if i: "init_device se b = Inr dev" for b dev
  proof -
    obtain bar2 dev1 where "init_pipeline (se_sdnet se) bar2 (new_device se b bar2) = Inr dev1" "start_collection se dev1 = Inr dev"
      using i by (auto simp: init_device_def split: option.splits sum.splits)
    then show ?thesis
      using start_collection_reachable init_pipelines_reachable [OF new] unfolding init_pipeline_def by blast
  qed
  have all: "init_devices se bs = Inr devs \<Longrightarrow> \<forall>dev \<in> set devs. device_reachable (se_agent se) dev" for bs devs
    using one by (induction bs arbitrary: devs) (auto split: sum.splits)
  obtain devs where "init_devices se bus_ids = Inr devs" "impl_devices s = devs" using assms
    by (auto simp: SmartnicP4Impl_new_def init_server_def init_server_stats_def Let_def split: sum.splits option.splits)
  then show ?thesis using all by simp
qed

subsection \<open>Every usable request is served\<close>

text \<open>
  The conditions: GMP behaves as documented, the kernel's files of the devices hold hexadecimal
  numbers, and the filters of a request have expressions that compile and steps below \<open>2 ^ 30\<close>.
  The walk over the entries of a table, which only the debug flag of the pipeline information
  starts, ends when the driver says so; the statement is about agents with that flag off.
\<close>

definition pci_ok :: "'d agent_env \<Rightarrow> bool" where
  "pci_ok env \<longleftrightarrow> (\<forall>path text. ae_pci_file env path = Some text \<longrightarrow> stoi16 text \<noteq> None)"

definition request_ok :: "'d agent_env \<Rightarrow> BatchRequest \<Rightarrow> bool" where
  "request_ok env req \<longleftrightarrow>
     (case breq_item req of
        Req_stats r \<Rightarrow> filters_good (ae_regex env) (sreq_filters r)
      | Req_pipeline_stats r \<Rightarrow> filters_good (ae_regex env) (psreq_filters r)
      | Req_server_config r \<Rightarrow>
          (case cfgreq_debug r of None \<Rightarrow> True | Some (enables, _) \<Rightarrow> int DEBUG_FLAG_PIPELINE_INFO \<notin> set enables)
      | _ \<Rightarrow> True)"

definition agent_ok :: "'d SmartnicP4Impl \<Rightarrow> bool" where
  "agent_ok s \<longleftrightarrow> agent_good s \<and> DEBUG_FLAG_PIPELINE_INFO \<notin> impl_debug_flags s"

text \<open>
  What identifies a response: the operation that it repeats, the kind of its item, and the device and pipeline in it; or the
  operation and the code of an error of the batch itself.
\<close>

datatype response_kind =
    Kind_device_info | Kind_pipeline_info | Kind_pipeline_stats | Kind_table | Kind_table_rule | Kind_stats
  | Kind_server_status | Kind_server_config

datatype batch_answer =
    Answer BatchOperation response_kind response_key
  | Answer_Server BatchOperation response_kind
  | Answer_Error BatchOperation ErrorCode

definition batch_answer :: "BatchResponse \<Rightarrow> batch_answer" where
  "batch_answer r =
     (let op = bresp_op r in
      if bresp_error_code r \<noteq> EC_OK then Answer_Error op (bresp_error_code r)
      else case bresp_item r of
        None \<Rightarrow> Answer_Error op EC_OK
      | Some (Resp_device_info x) \<Rightarrow> Answer op Kind_device_info (device_info_key x)
      | Some (Resp_pipeline_info x) \<Rightarrow> Answer op Kind_pipeline_info (pipeline_info_key x)
      | Some (Resp_pipeline_stats x) \<Rightarrow> Answer op Kind_pipeline_stats (pipeline_stats_key x)
      | Some (Resp_table x) \<Rightarrow> Answer op Kind_table (table_key x)
      | Some (Resp_table_rule x) \<Rightarrow> Answer op Kind_table_rule (table_key x)
      | Some (Resp_stats x) \<Rightarrow> Answer op Kind_stats (stats_key x)
      | Some (Resp_server_status x) \<Rightarrow> Answer_Server op Kind_server_status
      | Some (Resp_server_config x) \<Rightarrow> Answer_Server op Kind_server_config)"

lemma batch_answers:
  "batch_answer (batch_response op Resp_device_info r1) = Answer op Kind_device_info (device_info_key r1)"
  "batch_answer (batch_response op Resp_pipeline_info r2) = Answer op Kind_pipeline_info (pipeline_info_key r2)"
  "batch_answer (batch_response op Resp_pipeline_stats r3) = Answer op Kind_pipeline_stats (pipeline_stats_key r3)"
  "batch_answer (batch_response op Resp_table r4) = Answer op Kind_table (table_key r4)"
  "batch_answer (batch_response op Resp_table_rule r4) = Answer op Kind_table_rule (table_key r4)"
  "batch_answer (batch_response op Resp_stats r5) = Answer op Kind_stats (stats_key r5)"
  "batch_answer (batch_response op Resp_server_status r6) = Answer_Server op Kind_server_status"
  "batch_answer (batch_response op Resp_server_config r7) = Answer_Server op Kind_server_config"
  by (simp_all add: batch_answer_def batch_response_def)

text \<open>The responses that a request calls for, in order, of an agent with devices of the given shape.\<close>

definition answers :: "nat list \<Rightarrow> BatchRequest \<Rightarrow> batch_answer list" where
  "answers sh req =
     (let op = breq_op req; unknown = [Answer_Error op EC_UNKNOWN_BATCH_OP] in
      case breq_item req of
        Req_device_info d \<Rightarrow> (if op = BOP_GET then map (Answer op Kind_device_info) (device_request_keys d sh) else unknown)
      | Req_pipeline_info r \<Rightarrow>
          (if op = BOP_GET
           then map (Answer op Kind_pipeline_info) (pipeline_request_keys (pireq_dev_id r) (pireq_pipeline_id r) sh) else unknown)
      | Req_pipeline_stats r \<Rightarrow>
          (if op \<in> {BOP_GET, BOP_CLEAR}
           then map (Answer op Kind_pipeline_stats) (pipeline_request_keys (psreq_dev_id r) (psreq_pipeline_id r) sh) else unknown)
      | Req_table r \<Rightarrow>
          (if op = BOP_CLEAR
           then map (Answer op Kind_table) (pipeline_request_keys (treq_dev_id r) (treq_pipeline_id r) sh) else unknown)
      | Req_table_rule r \<Rightarrow>
          (if op \<in> {BOP_INSERT, BOP_DELETE}
           then map (Answer op Kind_table_rule) (pipeline_request_keys (rreq_dev_id r) (rreq_pipeline_id r) sh) else unknown)
      | Req_stats r \<Rightarrow>
          (if op \<in> {BOP_GET, BOP_CLEAR} then map (Answer op Kind_stats) (device_request_keys (sreq_dev_id r) sh) else unknown)
      | Req_server_status \<Rightarrow> (if op = BOP_GET then [Answer_Server op Kind_server_status] else unknown)
      | Req_server_config r \<Rightarrow> (if op \<in> {BOP_GET, BOP_SET} then [Answer_Server op Kind_server_config] else unknown)
      | ITEM_NOT_SET \<Rightarrow> [Answer_Error op EC_UNKNOWN_BATCH_REQUEST])"

lemma for_devices_keeps:
  "for_devices req invalid body s = Inr (s', rs) \<Longrightarrow> s' = s\<lparr>impl_devices := impl_devices s'\<rparr>"
  by (auto simp: for_devices_def split: sum.splits)

lemma for_devices_total:
  assumes "\<And>dev i. P dev \<Longrightarrow> \<exists>dev' rs. body i dev = Inr (dev', rs) \<and> P dev'" and "\<forall>dev \<in> set (impl_devices s). P dev"
  shows "\<exists>s' rs. for_devices req invalid body s = Inr (s', rs) \<and> (\<forall>dev \<in> set (impl_devices s'). P dev)"
proof -
  have "\<exists>devs rs. for_range req (length (impl_devices s)) invalid (on_device body) (impl_devices s) = Inr (devs, rs) \<and>
      (length devs = length (impl_devices s) \<and> (\<forall>dev \<in> set devs. P dev))"
  proof (rule for_range_total)
    fix i devs
    assume i: "i < length (impl_devices s)" and P: "length devs = length (impl_devices s) \<and> (\<forall>dev \<in> set devs. P dev)"
    from assms(1) [of "devs ! i" i] i P obtain dev' rs where "body i (devs ! i) = Inr (dev', rs)" "P dev'" by auto
    then show "\<exists>devs' rs. on_device body i devs = Inr (devs', rs) \<and>
        (length devs' = length (impl_devices s) \<and> (\<forall>dev \<in> set devs'. P dev))"
      using P by (auto simp: on_device_def dest!: set_update_subset_insert [THEN subsetD])
  qed (use assms(2) in simp)
  then show ?thesis by (auto simp: for_devices_def)
qed

lemma device_good_cong:
  "dev_pipelines dev' = dev_pipelines dev \<Longrightarrow> dev_domain dev' = dev_domain dev \<Longrightarrow> device_good dev' = device_good dev"
  by (simp add: device_good_def device_tables_wf_def zones_known_def)

lemma device_good_set_handle [simp]: "device_good (set_handle i u dev) = device_good dev"
  by (rule device_good_cong) simp_all

lemma filter_clears: "filters_good R flt \<Longrightarrow> \<forall>f. clear_filter_of R flt = Some f \<longrightarrow> clearing f"
  using clearing_filter by blast

lemma clear_stats_device:
  assumes "filters_good (ae_regex env) flt" and "device_good dev"
  shows "\<exists>dev'. clear_stats_domain env flt dev = Inr dev' \<and> device_good dev'"
proof -
  obtain d hw c where d: "stats_domain_clear_metrics (ae_stats env) (clear_filter_of (ae_regex env) flt) None
      (dev_domain dev) (dev_hw dev) = Some (Inr (d, hw, c))" "domain_good d" "dom_zones d = dom_zones (dev_domain dev)"
    using clear_domain_good [OF _ filter_clears [OF assms(1)], of "dev_domain dev" "ae_stats env" None "dev_hw dev"] assms(2)
    by (auto simp: device_good_def)
  then show ?thesis using assms(2)
    by (simp add: clear_stats_domain_def stats_result_def device_good_def device_tables_wf_def zones_known_def)
qed

lemma stats_body_total:
  assumes "filters_good (ae_regex env) flt" and "device_good dev"
  shows "\<exists>dev' rs. stats_body env flt do_clear i dev = Inr (dev', rs) \<and> device_good dev'"
  using clear_stats_device [OF assms] get_domain_good [OF assms(1), of dev] assms(2)
  by (auto simp: stats_body_def device_good_def)

lemma clear_stats_zone_device:
  assumes "filters_good (ae_regex env) flt" and "device_good dev" and "z \<in> set (dom_zones (dev_domain dev))"
  shows "\<exists>dev'. clear_stats_zone env flt z dev = Inr dev' \<and> device_good dev'"
proof -
  obtain d hw c where d: "stats_zone_clear_metrics (ae_stats env) (clear_filter_of (ae_regex env) flt) None z
      (dev_domain dev) (dev_hw dev) = Inr (c, d, hw)" "domain_good d" "dom_zones d = dom_zones (dev_domain dev)"
    using clear_zone_good [OF _ assms(3) filter_clears [OF assms(1)], of "ae_stats env" None "dev_hw dev"] assms(2)
    by (auto simp: device_good_def)
  then show ?thesis using assms(2)
    by (simp add: clear_stats_zone_def device_good_def device_tables_wf_def zones_known_def)
qed

lemma get_stats_zone_total:
  assumes "filters_good (ae_regex env) flt" and "domain_good (dev_domain dev)" and "z \<in> set (dom_zones (dev_domain dev))"
  shows "\<exists>ms. get_stats_zone env flt z dev = Inr ms"
proof -
  obtain zone where z: "dom_heap (dev_domain dev) z = Some zone" "zone_good zone" using good_zone [OF assms(2,3)] by blast
  then show ?thesis using zone_reports [OF assms(1), of "zone_blocks zone"]
    by (simp add: get_stats_zone_def stats_zone_for_each_metric_def zone_good_def)
qed

lemma pipeline_stats_body_total:
  assumes "filters_good (ae_regex env) flt" and "device_good dev" and "i < length (dev_pipelines dev)"
  shows "\<exists>dev' rs. pipeline_stats_body env flt do_clear d i dev = Inr (dev', rs) \<and> device_good dev' \<and>
           dev_pipelines dev' = dev_pipelines dev"
proof (cases "dp_counters (dev_pipelines dev ! i)")
  case None
  then show ?thesis using assms(2) by (simp add: pipeline_stats_body_def)
next
  case (Some st)
  then have z: "ds_zone st \<in> set (dom_zones (dev_domain dev))"
    using assms(2,3) by (auto simp: device_good_def zones_known_def)
  obtain dev' where c: "clear_stats_zone env flt (ds_zone st) dev = Inr dev'" "device_good dev'"
    using clear_stats_zone_device [OF assms(1,2) z] by blast
  obtain ms where "get_stats_zone env flt (ds_zone st) dev = Inr ms"
    using get_stats_zone_total [OF assms(1) _ z] assms(2) by (auto simp: device_good_def)
  then show ?thesis using Some c assms(2) stats_body_pipelines(3) [OF c(1)]
    by (cases do_clear) (simp_all add: pipeline_stats_body_def)
qed

lemma clear_table_body_total:
  "device_good dev \<Longrightarrow> \<exists>dev' rs. clear_table_body log t d i dev = Inr (dev', rs) \<and> device_good dev' \<and>
     dev_pipelines dev' = dev_pipelines dev"
  by (cases "clear_table_of (dev_pipelines dev ! i) t (snp4_log_enable (pipeline_handle dev i) log (Some driver_log_prefix))")
     (simp add: clear_table_body_def Let_def)

lemma rule_body_total:
  assumes "gmp_documented g" and "device_good dev" and "i < length (dev_pipelines dev)"
  shows "\<exists>dev' rs. table_rule_body g log ins rules d i dev = Inr (dev', rs) \<and> device_good dev' \<and>
           dev_pipelines dev' = dev_pipelines dev"
proof -
  have "device_tables_wf dev" using assms(2) by (simp add: device_good_def)
  from table_rule_body_total [OF assms(1) this assms(3)] obtain dev' rs where
    b: "table_rule_body g log ins rules d i dev = Inr (dev', rs)" "dev_pipelines dev' = dev_pipelines dev" by blast
  have "dev_domain dev' = dev_domain dev" using b(1)
    by (auto simp: table_rule_body_def Let_def split: sum.splits)
  then show ?thesis using b assms(2) device_good_cong by blast
qed

lemma device_info_body_total:
  assumes "pci_ok env" and "device_good dev"
  shows "\<exists>dev' rs. device_info_body env i dev = Inr (dev', rs) \<and> device_good dev'"
proof -
  have r: "\<exists>v. read_hex_pci_id env b f = Some v" for b f :: string
  proof -
    obtain fname where fname: "fname = ''/sys/bus/pci/devices/'' @ b @ ''/'' @ f" by blast
    have "ae_pci_file env fname = Some x \<Longrightarrow> \<exists>v. stoi16 x = Some v" for x
      using assms(1) by (auto simp: pci_ok_def)
    then show ?thesis unfolding read_hex_pci_id_def fname [symmetric] by (cases "ae_pci_file env fname") force+
  qed
  obtain v where "read_hex_pci_id env (dev_bus_id dev) ''vendor'' = Some v" using r by blast
  moreover obtain w where "read_hex_pci_id env (dev_bus_id dev) ''device'' = Some w" using r by blast
  ultimately show ?thesis using assms(2) by (simp add: device_info_body_def Let_def)
qed

lemma pipeline_info_body_total:
  "device_good dev \<Longrightarrow> \<exists>dev' rs. pipeline_info_body False d i dev = Inr (dev', rs) \<and> device_good dev' \<and>
     dev_pipelines dev' = dev_pipelines dev"
  by (simp add: pipeline_info_body_def Let_def)

subsection \<open>A stream of requests\<close>

lemma wrapped_Inr:
  "f s = Inr (s', rs) \<Longrightarrow> wrapped op item f s = Inr (s', map (batch_response op item) rs)"
  by (simp add: wrapped_def)

text \<open>The three shapes of handlers: for devices, for pipelines, and for the server.\<close>

definition served :: "('d SmartnicP4Impl, 'r) rpc \<Rightarrow> 'd SmartnicP4Impl \<Rightarrow> ('r \<Rightarrow> 'k) \<Rightarrow> 'k list \<Rightarrow> bool" where
  "served f s key ks \<longleftrightarrow>
     (\<exists>s' rs. f s = Inr (s', rs) \<and> agent_ok s' \<and> shape (impl_devices s') = shape (impl_devices s) \<and> map key rs = ks)"

lemma served_wrapped:
  assumes "served f s key ks" and "\<And>r. batch_answer (batch_response op item r) = answer (key r)"
  shows "served (wrapped op item f) s batch_answer (map answer ks)"
proof -
  obtain s' rs where f: "f s = Inr (s', rs)" "agent_ok s'" "shape (impl_devices s') = shape (impl_devices s)" "map key rs = ks"
    using assms(1) by (auto simp: served_def)
  have "map batch_answer (map (batch_response op item) rs) = map answer ks"
    using assms(2) by (simp add: f(4) [symmetric])
  then show ?thesis using f(2,3) by (simp add: served_def wrapped_def f(1))
qed

lemma served_devices:
  assumes "agent_ok s" and "device_handler body key invalid"
    and "\<And>dev i. device_good dev \<Longrightarrow> \<exists>dev' rs. body i dev = Inr (dev', rs) \<and> device_good dev'"
  shows "served (for_devices req invalid body) s key (device_request_keys req (shape (impl_devices s)))"
proof -
  obtain s' rs where r: "for_devices req invalid body s = Inr (s', rs)" "\<forall>dev \<in> set (impl_devices s'). device_good dev"
    using for_devices_total [of device_good body s req invalid] assms(1,3) by (auto simp: agent_ok_def agent_good_def)
  moreover have "impl_debug_flags s' = impl_debug_flags s"
    using for_devices_keeps [OF r(1)] by (metis SmartnicP4Impl.ext_inject SmartnicP4Impl.surjective SmartnicP4Impl.update_convs(1))
  ultimately show ?thesis
    using device_handler.responses [OF assms(2) r(1)] assms(1)
    by (fastforce simp: served_def agent_ok_def agent_good_def)
qed

lemma served_pipelines:
  assumes "agent_ok s" and "pipeline_handler body key inv_d inv_p"
    and "\<And>dev d i. device_good dev \<Longrightarrow> i < length (dev_pipelines dev) \<Longrightarrow>
           \<exists>dev' rs. body d i dev = Inr (dev', rs) \<and> device_good dev' \<and> dev_pipelines dev' = dev_pipelines dev"
  shows "served (for_devices req_d inv_d (for_pipelines req_p inv_p body)) s key
           (pipeline_request_keys req_d req_p (shape (impl_devices s)))"
proof -
  obtain s' rs where r: "for_devices req_d inv_d (for_pipelines req_p inv_p body) s = Inr (s', rs)"
    "\<forall>dev \<in> set (impl_devices s'). device_good dev"
    using for_devices_pipelines_total [of device_good body s req_d inv_d req_p inv_p] assms(1,3)
    by (auto simp: agent_ok_def agent_good_def)
  moreover have "impl_debug_flags s' = impl_debug_flags s"
    using for_devices_keeps [OF r(1)] by (metis SmartnicP4Impl.ext_inject SmartnicP4Impl.surjective SmartnicP4Impl.update_convs(1))
  ultimately show ?thesis
    using pipeline_handler.responses [OF assms(2) r(1)] assms(1)
    by (fastforce simp: served_def agent_ok_def agent_good_def)
qed

lemma served_error: "agent_ok s \<Longrightarrow> err \<noteq> EC_OK \<Longrightarrow> served (error_resp err op) s batch_answer [Answer_Error op err]"
  by (simp add: served_def error_resp_def batch_answer_def)

lemma served_server:
  assumes "agent_ok s"
  shows "served get_server_status s (\<lambda>_. ()) [()]" and "served get_server_config s (\<lambda>_. ()) [()]"
  using assms by (simp_all add: served_def get_server_status_def get_server_config_def)

lemma no_dump_flag:
  assumes "int DEBUG_FLAG_PIPELINE_INFO \<notin> set is" and "DEBUG_FLAG_PIPELINE_INFO \<notin> flags"
  shows "DEBUG_FLAG_PIPELINE_INFO \<notin> snd (change_flags insert is flags)"
  using assms
proof (induction "is" arbitrary: flags)
  case (Cons i "is")
  have "DEBUG_FLAG_PIPELINE_INFO \<noteq> nat i" if "ServerDebugFlag_IsValid i"
    using that Cons.prems(1) by (auto simp: ServerDebugFlag_IsValid_def DEBUG_FLAG_PIPELINE_INFO_def)
  then show ?case using Cons by auto
qed simp

lemma served_set_config:
  assumes "agent_ok s" and "\<forall>en dis. cfgreq_debug r = Some (en, dis) \<longrightarrow> int DEBUG_FLAG_PIPELINE_INFO \<notin> set en"
  shows "served (set_server_config r) s (\<lambda>_. ()) [()]"
proof -
  obtain err flags where f: "set_debug_flags (cfgreq_debug r) (impl_debug_flags s) = (err, flags)" by force
  have rem: "snd (change_flags (\<lambda>i fs. fs - {i}) is fs) \<subseteq> fs" for "is" fs
    by (induction "is" arbitrary: fs) auto
  have "DEBUG_FLAG_PIPELINE_INFO \<notin> flags"
  proof (cases "cfgreq_debug r")
    case (Some p)
    obtain en dis where p: "p = (en, dis)" by (cases p)
    obtain ok1 f1 where 1: "change_flags insert en (impl_debug_flags s) = (ok1, f1)" by force
    obtain ok2 f2 where 2: "change_flags (\<lambda>i fs. fs - {i}) dis f1 = (ok2, f2)" by force
    have "DEBUG_FLAG_PIPELINE_INFO \<notin> f1"
      using no_dump_flag [of en "impl_debug_flags s"] assms Some p 1 by (simp add: agent_ok_def)
    moreover have "f2 \<subseteq> f1" using rem [of dis f1] 2 by simp
    ultimately show ?thesis using f Some p 1 2 by (auto simp: set_debug_flags_def split: if_splits)
  qed (use f assms(1) in \<open>simp add: set_debug_flags_def agent_ok_def\<close>)
  then show ?thesis using assms(1) f by (simp add: served_def set_server_config_def agent_ok_def agent_good_def)
qed

lemma served_request:
  assumes "gmp_documented (ae_gmp env)" and "pci_ok env" and "agent_ok s" and "request_ok env req"
  shows "served (batch_request env req) s batch_answer (answers (shape (impl_devices s)) req)"
proof -
  let ?sh = "shape (impl_devices s)"
  note dev = served_devices [OF assms(3)] and pipe = served_pipelines [OF assms(3)]
  have info: "served (get_device_info env d) s device_info_key (device_request_keys d ?sh)" for d
    unfolding get_device_info_def by (rule dev [OF device_info.device_handler_axioms device_info_body_total [OF assms(2)]])
  have flag: "(DEBUG_FLAG_PIPELINE_INFO \<in> impl_debug_flags s) = False" using assms(3) by (simp add: agent_ok_def)
  have pinfo: "served (get_pipeline_info r) s pipeline_info_key (pipeline_request_keys (pireq_dev_id r) (pireq_pipeline_id r) ?sh)" for r
    using pipe [OF pipeline_info_handler.pipeline_handler_axioms pipeline_info_body_total]
    unfolding served_def get_pipeline_info_def flag by blast
  have table: "served (clear_table r) s table_key (pipeline_request_keys (treq_dev_id r) (treq_pipeline_id r) ?sh)" for r
    using pipe [OF clear_table_handler.pipeline_handler_axioms clear_table_body_total]
    unfolding served_def clear_table_def by blast
  have rules: "served (insert_or_delete_table_rule (ae_gmp env) r ins) s table_key
      (pipeline_request_keys (rreq_dev_id r) (rreq_pipeline_id r) ?sh)" for r ins
    using pipe [OF table_rule_handler.pipeline_handler_axioms rule_body_total [OF assms(1)]]
    unfolding served_def insert_or_delete_table_rule_def by blast
  have stats: "served (get_or_clear_stats env r c) s stats_key (device_request_keys (sreq_dev_id r) ?sh)"
    if "filters_good (ae_regex env) (sreq_filters r)" for r c
    unfolding get_or_clear_stats_def by (rule dev [OF stats_handler.device_handler_axioms stats_body_total [OF that]])
  have pstats: "served (get_or_clear_pipeline_stats env r c) s pipeline_stats_key
      (pipeline_request_keys (psreq_dev_id r) (psreq_pipeline_id r) ?sh)"
    if "filters_good (ae_regex env) (psreq_filters r)" for r c
    unfolding get_or_clear_pipeline_stats_def
    by (rule pipe [OF pipeline_stats_handler.pipeline_handler_axioms pipeline_stats_body_total [OF that]])
  have config: "served (set_server_config r) s (\<lambda>_. ()) [()]"
    if "breq_item req = Req_server_config r" for r
    by (rule served_set_config [OF assms(3)]) (use assms(4) that in \<open>auto simp: request_ok_def\<close>)
  note wrapped = served_wrapped [OF info batch_answers(1)] served_wrapped [OF pinfo batch_answers(2)]
    served_wrapped [OF pstats batch_answers(3)] served_wrapped [OF table batch_answers(4)]
    served_wrapped [OF rules batch_answers(5)] served_wrapped [OF stats batch_answers(6)]
    served_wrapped [OF served_server(1) [OF assms(3)], of BOP_GET Resp_server_status "\<lambda>_. Answer_Server BOP_GET Kind_server_status",
      OF batch_answers(7)]
    served_wrapped [OF served_server(2) [OF assms(3)], of BOP_GET Resp_server_config "\<lambda>_. Answer_Server BOP_GET Kind_server_config",
      OF batch_answers(8)]
    served_wrapped [OF config, of _ BOP_SET Resp_server_config "\<lambda>_. Answer_Server BOP_SET Kind_server_config", OF _ batch_answers(8)]
  note defs = batch_request_def Let_def answers_def batch_get_device_info_def batch_get_pipeline_info_def
    batch_get_pipeline_stats_def batch_clear_pipeline_stats_def batch_clear_table_def batch_insert_table_rule_def
    batch_delete_table_rule_def batch_get_stats_def batch_clear_stats_def batch_get_server_status_def
    batch_get_server_config_def batch_set_server_config_def
  have ok: "(case breq_item req of Req_stats r \<Rightarrow> filters_good (ae_regex env) (sreq_filters r)
      | Req_pipeline_stats r \<Rightarrow> filters_good (ae_regex env) (psreq_filters r) | _ \<Rightarrow> True)"
    using assms(4) by (auto simp: request_ok_def split: BatchItem.splits)
  show ?thesis
    by (cases "breq_item req"; cases "breq_op req"; use ok wrapped [simplified] served_error [OF assms(3)] in \<open>simp add: defs\<close>)
qed

text \<open>
  Property C2.  No stream of usable requests stops the agent.  From any state in order, with the dump of tables off, every batch
  of requests is served to its end, whatever devices, pipelines, tables, rules and operations it names, and the agent is in
  order again.  The responses are those that the requests call for, in order: each repeats the operation of its request, is
  of its kind, and is for one device or pipeline that the request selects, or reports that the device, the pipeline, the operation or
  the request is unknown.  Usable means that the regular expressions of the filters compile and the steps of their slices are
  below \<open>2 ^ 30\<close>, and that no request switches the dump of tables on; the PCI files of the kernel hold numbers.
\<close>
theorem batch_served:
  assumes "gmp_documented (ae_gmp env)" and "pci_ok env" and "agent_ok s" and "\<forall>req \<in> set reqs. request_ok env req"
  shows "\<exists>s' rs. Batch env reqs s = Inr (s', rs) \<and> agent_ok s' \<and> shape (impl_devices s') = shape (impl_devices s) \<and>
           map batch_answer rs = concat (map (answers (shape (impl_devices s))) reqs)"
  using assms(3,4)
proof (induction reqs arbitrary: s)
  case (Cons req reqs)
  obtain s1 rs1 where 1: "batch_request env req s = Inr (s1, rs1)" "agent_ok s1"
    "shape (impl_devices s1) = shape (impl_devices s)" "map batch_answer rs1 = answers (shape (impl_devices s)) req"
    using served_request [OF assms(1,2) Cons.prems(1), of req] Cons.prems(2) by (auto simp: served_def)
  then show ?case using Cons.IH [OF 1(2)] Cons.prems(2) by auto
qed simp

subsection \<open>Examples\<close>

definition example_agent_env :: "drv_event list agent_env" where
  "example_agent_env = \<lparr>ae_gmp = gmp_ref, ae_regex = regex_none,
     ae_stats = \<lparr>env_double = id, env_mem = (\<lambda>_ _ _. 0), env_clock = (\<lambda>_. 0), env_domain = [], env_zone = []\<rparr>,
     ae_getenv = (\<lambda>_. None), ae_pci_file = (\<lambda>_. Some ''0x10ee'')\<rparr>"

lemma example_agent_ok: "agent_ok example_agent"
  unfolding agent_ok_def agent_good_def
  by (simp add: device_good_def zones_known_def example_device_pipeline_def)
     (simp add: example_agent_def example_device_def domain_good_def zones_wf_def stats_domain_alloc_def domain_zones_def)

lemma stoi_example: "stoi16 ''0x10ee'' = Some 4334"
  by code_simp

theorem batch_served_witness:
  "\<exists>s' rs. Batch example_agent_env
      [\<lparr>breq_op = BOP_INSERT, breq_item = Req_table_rule \<lparr>rreq_dev_id = - 1, rreq_pipeline_id = - 1, rreq_rules = [example_table_rule]\<rparr>\<rparr>,
       \<lparr>breq_op = BOP_SET, breq_item = Req_stats \<lparr>sreq_dev_id = 0, sreq_filters = non_zero_only\<rparr>\<rparr>,
       \<lparr>breq_op = BOP_GET, breq_item = Req_stats \<lparr>sreq_dev_id = 3, sreq_filters = non_zero_only\<rparr>\<rparr>] example_agent = Inr (s', rs) \<and>
     length rs = 3"
proof -
  have pci: "pci_ok example_agent_env" by (simp add: pci_ok_def example_agent_env_def stoi_example)
  have g: "gmp_documented (ae_gmp example_agent_env)" by (simp add: example_agent_env_def)
  show ?thesis
    using batch_served [OF g pci example_agent_ok, of
      "[\<lparr>breq_op = BOP_INSERT, breq_item = Req_table_rule \<lparr>rreq_dev_id = - 1, rreq_pipeline_id = - 1, rreq_rules = [example_table_rule]\<rparr>\<rparr>,
        \<lparr>breq_op = BOP_SET, breq_item = Req_stats \<lparr>sreq_dev_id = 0, sreq_filters = non_zero_only\<rparr>\<rparr>,
        \<lparr>breq_op = BOP_GET, breq_item = Req_stats \<lparr>sreq_dev_id = 3, sreq_filters = non_zero_only\<rparr>\<rparr>]"]
    by (auto simp: request_ok_def demo_good(2) answers_def pipeline_request_keys_def device_keys_def device_request_keys_def id_range_def)
qed

text \<open>An agent with one device and two drivers, of which the second one is not there.\<close>

definition example_start :: "drv_event list start_env" where
  "example_start =
     \<lparr>se_agent = example_agent_env,
      se_sdnet = \<lparr>sdnet_count = 2, sdnet_intf = (\<lambda>i. if i = 0 then Some (recording_intf good_config) else None),
                  sdnet_hw = (\<lambda>_ _. [])\<rparr>,
      se_map_bar2 = (\<lambda>_. Some 0), se_syscfg = (\<lambda>_. \<lparr>sys_usr_access = 0, sys_build_status = 0, sys_dna = []\<rparr>),
      se_server = \<lparr>env_double = id, env_mem = (\<lambda>_ _ _. 0), env_clock = (\<lambda>_. 0), env_domain = [], env_zone = []\<rparr>,
      se_wall = Some zero_time, se_mono = Some zero_time,
      se_clock = \<lparr>start_wall = zero_time, start_mono = zero_time, now_mono = Some zero_time\<rparr>, se_junk = 0\<rparr>"

lemma example_started: "\<not> isl (SmartnicP4Impl_new example_start [''x''] [''table-clear''])"
  by code_simp

lemma example_intf_good: "intf_good (recording_intf good_config)"
proof -
  have "case snp4_info_get_pipeline (Some good_config) of Inl e \<Rightarrow> True
        | Inr pi \<Rightarrow> pipeline_tables pi = [] \<and> list_all (\<lambda>b. block_num_counters b \<le> 3) (pipeline_counter_blocks pi)"
    by code_simp
  then show ?thesis by (fastforce simp: intf_good_def list_all_iff)
qed

theorem started_agent_good_witness:
  "\<exists>s. SmartnicP4Impl_new example_start [''x''] [''table-clear''] = Inr s \<and> agent_good s \<and>
     length (impl_devices s) = 1 \<and> map dp_id (dev_pipelines (impl_devices s ! 0)) = [0]"
proof -
  obtain s where s: "SmartnicP4Impl_new example_start [''x''] [''table-clear''] = Inr s"
    using example_started by (cases "SmartnicP4Impl_new example_start [''x''] [''table-clear'']") auto
  have "\<forall>i intf. sdnet_intf (se_sdnet example_start) i = Some intf \<longrightarrow> intf_good intf"
    using example_intf_good by (simp add: example_start_def)
  from started_agent_good [OF s this] s show ?thesis
    by (auto simp: pipelines_started_def example_start_def snp4_sdnet_present_def snp4_sdnet_count_def upt_rec)
qed

end
