(* ===== verification/Opennic_Regs.thy ===== *)
theory Opennic_Regs
  imports Opennic_Stats
begin

text \<open>
  The registers of a card behind its BAR 2, as \<^verbatim>\<open>libopennic\<close> uses them.  The C structures and unions
  of the registers are generated from the hardware repository; where their fields are (the
  positions and widths of bit fields, the values of the selectors) is the parameter
  \<open>smartnic_layout\<close>, and the arrays have the lengths of the lists.  A register keeps the value that
  is written to it, except for the status registers of a MAC, whose readings are a sequence.
\<close>

named_theorems reg_facts \<open>reading a field after writing one\<close>

subsection \<open>Bit fields\<close>

record bitfield =
  bf_shift :: nat
  bf_width :: nat

definition bf_get :: "bitfield \<Rightarrow> 32 word \<Rightarrow> 32 word" where
  "bf_get f w = take_bit (bf_width f) (drop_bit (bf_shift f) w)"

definition bf_set :: "bitfield \<Rightarrow> 32 word \<Rightarrow> 32 word \<Rightarrow> 32 word" where
  "bf_set f v w =
     (w AND NOT (push_bit (bf_shift f) (mask (bf_width f)))) OR push_bit (bf_shift f) (take_bit (bf_width f) v)"

definition bf_ok :: "bitfield \<Rightarrow> bool" where
  "bf_ok f \<longleftrightarrow> 0 < bf_width f \<and> bf_shift f + bf_width f \<le> 32"

definition bf_disjoint :: "bitfield \<Rightarrow> bitfield \<Rightarrow> bool" where
  "bf_disjoint f g \<longleftrightarrow> bf_shift f + bf_width f \<le> bf_shift g \<or> bf_shift g + bf_width g \<le> bf_shift f"

text \<open>A value fits in a field if the field gives it back.\<close>

definition bf_fits :: "bitfield \<Rightarrow> 32 word \<Rightarrow> bool" where
  "bf_fits f v \<longleftrightarrow> take_bit (bf_width f) v = v"

lemma bf_get_set: "bf_ok f \<Longrightarrow> bf_get f (bf_set f v w) = take_bit (bf_width f) v"
  by (rule bit_word_eqI)
    (auto simp: bf_get_def bf_set_def bf_ok_def bit_simps)

lemma bf_get_set_fits [reg_facts]: "bf_ok f \<Longrightarrow> bf_fits f v \<Longrightarrow> bf_get f (bf_set f v w) = v"
  by (simp add: bf_get_set bf_fits_def)

lemma bf_get_set_other [reg_facts]:
  "bf_ok f \<Longrightarrow> bf_ok g \<Longrightarrow> bf_disjoint f g \<Longrightarrow> bf_get f (bf_set g v w) = bf_get f w"
  by (rule bit_word_eqI) (auto simp: bf_get_def bf_set_def bf_ok_def bf_disjoint_def bit_simps)

lemma bf_disjoint_sym: "bf_disjoint f g \<Longrightarrow> bf_disjoint g f"
  by (auto simp: bf_disjoint_def)

lemma bf_fits_0_1 [reg_facts]: "bf_fits f 0" "bf_ok f \<Longrightarrow> bf_fits f 1"
  by (auto simp: bf_fits_def bf_ok_def)

lemma bf_fits_value: "uint v < 2 ^ bf_width f \<Longrightarrow> bf_fits f v"
  unfolding bf_fits_def by (rule word_uint_eqI) (simp add: unsigned_take_bit_eq take_bit_int_eq_self)

subsection \<open>The blocks of registers\<close>

text \<open>
  The queues of the two channels have registers of types of their own, and so have the hash tables
  of the four functions.
\<close>

record smartnic_layout =
  lay_mux_value :: bitfield
  lay_BYPASS :: "32 word"
  lay_DROP :: "32 word"
  lay_APP :: "32 word"
  lay_demux_port0 :: bitfield
  lay_demux_port1 :: bitfield
  lay_swap_paths :: bitfield
  lay_igr_base :: "nat \<Rightarrow> bitfield"
  lay_igr_num_q :: "nat \<Rightarrow> bitfield"
  lay_h2q_base :: bitfield
  lay_h2q_value :: "nat \<Rightarrow> bitfield"
  lay_qbase :: bitfield
  lay_numq :: bitfield

record smartnic_block =
  smartnic_mux_out_sel :: "32 word list"
  smartnic_demux_out_sel :: "32 word"
  bypass_config :: "32 word"
  igr_q_config_0 :: "32 word list"
  igr_q_config_1 :: "32 word list"
  egr_fc_thresh :: "32 word list"

record smartnic_hash2qid_block =
  q_config :: "32 word list"
  pf_table :: "32 word list"
  vf0_table :: "32 word list"
  vf1_table :: "32 word list"
  vf2_table :: "32 word list"

record cmac_layout =
  lay_usr_tx_reset :: bitfield
  lay_usr_rx_reset :: bitfield
  lay_ctl_rx_enable :: bitfield
  lay_ctl_tx_enable :: bitfield
  lay_ieee_err_ind_mode :: bitfield
  lay_rsfec_en_ind :: bitfield
  lay_rsfec_en_cor :: bitfield
  lay_tx_rsfec_enable :: bitfield
  lay_rx_rsfec_enable :: bitfield
  lay_stat_rx_status :: bitfield
  lay_stat_rx_aligned :: bitfield

text \<open>The \<open>n\<close>th reading of a status register is \<open>stat_rx_status_at n\<close>.\<close>

record cmac_block =
  reset_reg :: "32 word"
  gt_loopback :: "32 word"
  conf_rx_1 :: "32 word"
  conf_tx_1 :: "32 word"
  rsfec_conf_ind_correction :: "32 word"
  rsfec_conf_enable :: "32 word"
  stat_tx_status_at :: "nat \<Rightarrow> 32 word"
  stat_tx_reads :: nat
  stat_rx_status_at :: "nat \<Rightarrow> 32 word"
  stat_rx_reads :: nat

text \<open>The signals of a module (\<^verbatim>\<open>cms.h\<close>), and the buffer into which its statistics are latched (\<^verbatim>\<open>cms.c\<close>).\<close>

record cms_qsfp_gpio =
  qsfp_reset :: bool
  qsfp_low_power_mode :: bool
  qsfp_select :: bool
  qsfp_present :: bool
  qsfp_interrupt :: bool

record cms_module_block_latch_data =
  latch_gpio :: cms_qsfp_gpio
  latch_lo :: "8 word list option"

text \<open>The registers of a system monitor that are written or that describe its channels, and the build information.\<close>

record sysmon_block =
  software_reset :: "32 word"
  sysmon_flag :: "32 word"
  config_reg_1 :: "32 word"
  seqchsel0 :: "32 word"
  seqchsel1 :: "32 word"
  seqchsel2 :: "32 word"
  seqavg0 :: "32 word"
  seqavg1 :: "32 word"
  seqavg2 :: "32 word"
  seqinmode0 :: "32 word"
  seqinmode1 :: "32 word"

record syscfg_regs =
  usr_access :: "32 word"
  build_status :: "32 word"
  syscfg_dna :: "32 word list"

text \<open>
  \<open>bar_rest\<close> is what else is behind the BAR: the probes, counters and monitors, and the card
  management subsystem.  \<open>module_latch\<close> holds the latch buffers of the cages.
\<close>

record 'x esnet_smartnic_bar2 =
  smartnic_regs :: smartnic_block
  cmac0 :: cmac_block
  cmac1 :: cmac_block
  qdma_func0 :: "32 word"
  qdma_func1 :: "32 word"
  smartnic_hash2qid_0 :: smartnic_hash2qid_block
  smartnic_hash2qid_1 :: smartnic_hash2qid_block
  syscfg :: syscfg_regs
  sysmon0 :: sysmon_block
  sysmon1 :: sysmon_block
  sysmon2 :: sysmon_block
  module_latch :: "nat \<Rightarrow> cms_module_block_latch_data"
  bar_rest :: 'x

subsection \<open>What the generated layouts promise\<close>

definition layout_ok :: "smartnic_layout \<Rightarrow> bool" where
  "layout_ok l \<longleftrightarrow>
     bf_ok (lay_mux_value l) \<and> bf_fits (lay_mux_value l) (lay_BYPASS l) \<and> bf_fits (lay_mux_value l) (lay_DROP l) \<and>
     bf_fits (lay_mux_value l) (lay_APP l) \<and> distinct [lay_BYPASS l, lay_DROP l, lay_APP l] \<and>
     bf_ok (lay_demux_port0 l) \<and> bf_ok (lay_demux_port1 l) \<and> bf_disjoint (lay_demux_port0 l) (lay_demux_port1 l) \<and>
     bf_ok (lay_swap_paths l) \<and>
     (\<forall>c < 2. bf_ok (lay_igr_base l c) \<and> bf_ok (lay_igr_num_q l c) \<and> bf_disjoint (lay_igr_base l c) (lay_igr_num_q l c)) \<and>
     bf_ok (lay_h2q_base l) \<and> (\<forall>f < 4. bf_ok (lay_h2q_value l f)) \<and>
     bf_ok (lay_qbase l) \<and> bf_ok (lay_numq l) \<and> bf_disjoint (lay_qbase l) (lay_numq l)"

text \<open>Two ports and two hosts, with the entries of both; four DMA functions for each channel.\<close>

definition block_ok :: "smartnic_block \<Rightarrow> bool" where
  "block_ok blk \<longleftrightarrow>
     length (smartnic_mux_out_sel blk) = 4 \<and> length (igr_q_config_0 blk) = 4 \<and> length (igr_q_config_1 blk) = 4 \<and>
     length (egr_fc_thresh blk) = 4"

definition hash2qid_ok :: "nat \<Rightarrow> smartnic_hash2qid_block \<Rightarrow> bool" where
  "hash2qid_ok n h2q \<longleftrightarrow>
     length (q_config h2q) = 4 \<and> length (pf_table h2q) = n \<and> length (vf0_table h2q) = n \<and>
     length (vf1_table h2q) = n \<and> length (vf2_table h2q) = n"

definition cmac_layout_ok :: "cmac_layout \<Rightarrow> bool" where
  "cmac_layout_ok l \<longleftrightarrow>
     bf_ok (lay_ctl_rx_enable l) \<and> bf_ok (lay_ctl_tx_enable l) \<and>
     bf_ok (lay_tx_rsfec_enable l) \<and> bf_ok (lay_rx_rsfec_enable l) \<and>
     bf_disjoint (lay_tx_rsfec_enable l) (lay_rx_rsfec_enable l)"

end
