(* ===== verification/Opennic_Switch.thy ===== *)
theory Opennic_Switch
  imports Opennic_Regs
begin

text \<open>
  \<^verbatim>\<open>libopennic/src/switch.c\<close>: the selectors of the packet switch of a card, and the statistics of
  its probes.
\<close>

subsection \<open>Selectors\<close>

datatype switch_interface = switch_interface_UNKNOWN | switch_interface_PHYSICAL | switch_interface_TEST

datatype switch_destination =
  switch_destination_UNKNOWN | switch_destination_BYPASS | switch_destination_DROP | switch_destination_APP

datatype switch_bypass_mode = switch_bypass_mode_UNKNOWN | switch_bypass_mode_STRAIGHT | switch_bypass_mode_SWAP

definition SWITCH_NUM_PORTS :: nat where "SWITCH_NUM_PORTS = 2"

record switch_ingress_selector =
  is_index :: nat
  is_intf :: switch_interface
  is_dest :: switch_destination

record switch_egress_selector =
  es_index :: nat
  es_intf :: switch_interface

definition switch_port_to_mux_tid :: "nat \<Rightarrow> switch_interface \<Rightarrow> nat option" where
  "switch_port_to_mux_tid index intf =
     (if index \<ge> SWITCH_NUM_PORTS then None
      else case intf of
        switch_interface_PHYSICAL \<Rightarrow> Some index
      | switch_interface_TEST \<Rightarrow> Some (SWITCH_NUM_PORTS + index)
      | switch_interface_UNKNOWN \<Rightarrow> None)"

definition switch_destination_from_mux_sel :: "smartnic_layout \<Rightarrow> 32 word \<Rightarrow> switch_destination option" where
  "switch_destination_from_mux_sel l v =
     (if v = lay_BYPASS l then Some switch_destination_BYPASS
      else if v = lay_DROP l then Some switch_destination_DROP
      else if v = lay_APP l then Some switch_destination_APP
      else None)"

definition switch_destination_to_mux_sel :: "smartnic_layout \<Rightarrow> switch_destination \<Rightarrow> 32 word option" where
  "switch_destination_to_mux_sel l dest =
     (case dest of
        switch_destination_BYPASS \<Rightarrow> Some (lay_BYPASS l)
      | switch_destination_DROP \<Rightarrow> Some (lay_DROP l)
      | switch_destination_APP \<Rightarrow> Some (lay_APP l)
      | switch_destination_UNKNOWN \<Rightarrow> None)"

text \<open>The two functions with leading underscores work on the interface that the selector names.\<close>

definition get_ingress_selector_of_intf ::
  "smartnic_layout \<Rightarrow> smartnic_block \<Rightarrow> switch_ingress_selector \<Rightarrow> switch_ingress_selector option" where
  "get_ingress_selector_of_intf l blk sel =
     (case switch_port_to_mux_tid (is_index sel) (is_intf sel) of None \<Rightarrow> None
      | Some tid \<Rightarrow>
        (if tid \<ge> length (smartnic_mux_out_sel blk) then None
         else map_option (\<lambda>d. sel\<lparr>is_dest := d\<rparr>)
                (switch_destination_from_mux_sel l (bf_get (lay_mux_value l) (smartnic_mux_out_sel blk ! tid)))))"

definition switch_get_ingress_selector ::
  "smartnic_layout \<Rightarrow> smartnic_block \<Rightarrow> nat \<Rightarrow> switch_ingress_selector option" where
  "switch_get_ingress_selector l blk index =
     (case get_ingress_selector_of_intf l blk
             \<lparr>is_index = index, is_intf = switch_interface_TEST, is_dest = switch_destination_UNKNOWN\<rparr> of
        None \<Rightarrow> None
      | Some sel \<Rightarrow>
        (if is_dest sel \<noteq> switch_destination_DROP then Some sel
         else get_ingress_selector_of_intf l blk (sel\<lparr>is_intf := switch_interface_PHYSICAL\<rparr>)))"

definition set_ingress_selector_of_intf ::
  "smartnic_layout \<Rightarrow> switch_ingress_selector \<Rightarrow> smartnic_block \<Rightarrow> bool \<times> smartnic_block" where
  "set_ingress_selector_of_intf l sel blk =
     (case (switch_port_to_mux_tid (is_index sel) (is_intf sel), switch_destination_to_mux_sel l (is_dest sel)) of
        (Some tid, Some v) \<Rightarrow>
          (if tid \<ge> length (smartnic_mux_out_sel blk) then (False, blk)
           else (True, blk\<lparr>smartnic_mux_out_sel := (smartnic_mux_out_sel blk)
                           [tid := bf_set (lay_mux_value l) v (smartnic_mux_out_sel blk ! tid)]\<rparr>))
      | _ \<Rightarrow> (False, blk))"

definition switch_set_ingress_selector ::
  "smartnic_layout \<Rightarrow> switch_ingress_selector \<Rightarrow> smartnic_block \<Rightarrow> bool \<times> smartnic_block" where
  "switch_set_ingress_selector l sel blk =
     (let ps = sel\<lparr>is_intf := switch_interface_PHYSICAL,
                   is_dest := if is_intf sel \<noteq> switch_interface_PHYSICAL then switch_destination_DROP else is_dest sel\<rparr>;
          ts = sel\<lparr>is_intf := switch_interface_TEST,
                   is_dest := if is_intf sel \<noteq> switch_interface_TEST then switch_destination_DROP else is_dest sel\<rparr>;
          (ok, blk') = set_ingress_selector_of_intf l ps blk
      in if \<not> ok then (False, blk') else set_ingress_selector_of_intf l ts blk')"

definition demux_port :: "smartnic_layout \<Rightarrow> nat \<Rightarrow> bitfield option" where
  "demux_port l index = (if index = 0 then Some (lay_demux_port0 l) else if index = 1 then Some (lay_demux_port1 l) else None)"

definition switch_get_egress_selector ::
  "smartnic_layout \<Rightarrow> smartnic_block \<Rightarrow> nat \<Rightarrow> switch_egress_selector option" where
  "switch_get_egress_selector l blk index =
     map_option (\<lambda>f. \<lparr>es_index = index,
         es_intf = if bf_get f (smartnic_demux_out_sel blk) \<noteq> 0 then switch_interface_TEST else switch_interface_PHYSICAL\<rparr>)
       (demux_port l index)"

definition switch_set_egress_selector ::
  "smartnic_layout \<Rightarrow> switch_egress_selector \<Rightarrow> smartnic_block \<Rightarrow> bool \<times> smartnic_block" where
  "switch_set_egress_selector l sel blk =
     (case (case es_intf sel of
              switch_interface_PHYSICAL \<Rightarrow> Some 0 | switch_interface_TEST \<Rightarrow> Some 1 | _ \<Rightarrow> None) of
        None \<Rightarrow> (False, blk)
      | Some v \<Rightarrow>
        (case demux_port l (es_index sel) of None \<Rightarrow> (False, blk)
         | Some f \<Rightarrow> (True, blk\<lparr>smartnic_demux_out_sel := bf_set f v (smartnic_demux_out_sel blk)\<rparr>)))"

definition switch_get_bypass_mode :: "smartnic_layout \<Rightarrow> smartnic_block \<Rightarrow> switch_bypass_mode" where
  "switch_get_bypass_mode l blk =
     (if bf_get (lay_swap_paths l) (bypass_config blk) \<noteq> 0 then switch_bypass_mode_SWAP
      else switch_bypass_mode_STRAIGHT)"

definition switch_set_bypass_mode ::
  "smartnic_layout \<Rightarrow> switch_bypass_mode \<Rightarrow> smartnic_block \<Rightarrow> bool \<times> smartnic_block" where
  "switch_set_bypass_mode l mode blk =
     (case mode of
        switch_bypass_mode_STRAIGHT \<Rightarrow> (True, blk\<lparr>bypass_config := bf_set (lay_swap_paths l) 0 (bypass_config blk)\<rparr>)
      | switch_bypass_mode_SWAP \<Rightarrow> (True, blk\<lparr>bypass_config := bf_set (lay_swap_paths l) 1 (bypass_config blk)\<rparr>)
      | switch_bypass_mode_UNKNOWN \<Rightarrow> (False, blk))"

text \<open>The results of the setters are ignored here.  A whole register is written to drop its traffic.\<close>

definition switch_set_defaults_one_to_one :: "smartnic_layout \<Rightarrow> smartnic_block \<Rightarrow> smartnic_block" where
  "switch_set_defaults_one_to_one l blk =
     (let blk1 = blk\<lparr>smartnic_mux_out_sel := map (\<lambda>_. lay_DROP l) (smartnic_mux_out_sel blk)\<rparr>;
          blk2 = fold (\<lambda>i b. snd (switch_set_ingress_selector l
                   \<lparr>is_index = i, is_intf = switch_interface_PHYSICAL, is_dest = switch_destination_APP\<rparr> b))
                   [0..<SWITCH_NUM_PORTS] blk1;
          blk3 = fold (\<lambda>i b. snd (switch_set_egress_selector l
                   \<lparr>es_index = i, es_intf = switch_interface_PHYSICAL\<rparr> b)) [0..<SWITCH_NUM_PORTS] blk2
      in snd (switch_set_bypass_mode l switch_bypass_mode_STRAIGHT blk3))"

end
