(* ===== verification/Opennic_Switch_Stats.thy ===== *)
theory Opennic_Switch_Stats
  imports Opennic_Switch
begin

text \<open>
  \<^verbatim>\<open>libopennic/src/switch.c\<close> from line 274 on: the statistics blocks of the probes of the switch.
  The places of the probes in the generated structures are a parameter, and so is the effect that a
  write to the control register of a probe has on the hardware.
\<close>

record axi4s_probe_layout =
  lay_latch :: bitfield
  lay_clear :: bitfield
  LATCH_ON_WR_EVT :: "32 word"
  LATCH_ON_CLK :: "32 word"
  CLEAR_ON_WR_EVT :: "32 word"
  NO_CLEAR :: "32 word"

text \<open>Addresses count from the start of the BAR; \<open>be_offsetof\<close> is C's \<open>offsetof\<close> by structure and field.\<close>

record 'x bar_env =
  be_offsetof :: "string \<Rightarrow> string \<Rightarrow> nat"
  be_sizeof :: "string \<Rightarrow> string \<Rightarrow> nat"
  be_probe :: axi4s_probe_layout
  be_write32 :: "nat \<Rightarrow> 32 word \<Rightarrow> 'x \<Rightarrow> 'x"
  be_mem :: "'x esnet_smartnic_bar2 device_memory"
  be_v2_switch_counters :: bool

definition bar_write32 :: "'x bar_env \<Rightarrow> nat \<Rightarrow> 32 word \<Rightarrow> 'x esnet_smartnic_bar2 \<Rightarrow> 'x esnet_smartnic_bar2" where
  "bar_write32 be addr v h = h\<lparr>bar_rest := be_write32 be addr v (bar_rest h)\<rparr>"

subsection \<open>The probes and their views\<close>

record switch_stats_block_info =
  si_name :: string
  si_struct :: string
  si_field :: string
  si_views :: string

definition VIEW :: "string \<Rightarrow> string \<Rightarrow> string \<Rightarrow> string" where
  "VIEW name port direction = name @ '':'' @ port @ '':'' @ direction"

fun VCAT :: "string list \<Rightarrow> string" where
  "VCAT [] = []"
| "VCAT [v] = v"
| "VCAT (v # vs) = v @ '','' @ VCAT vs"

definition top_info :: "string \<Rightarrow> string list \<Rightarrow> switch_stats_block_info" where
  "top_info name views =
     \<lparr>si_name = name, si_struct = ''esnet_smartnic_bar2'', si_field = name, si_views = VCAT views\<rparr>"

definition p4_proc_info :: "string \<Rightarrow> string \<Rightarrow> string list \<Rightarrow> switch_stats_block_info" where
  "p4_proc_info prefix name views =
     \<lparr>si_name = ''p4_proc_'' @ prefix @ ''_'' @ name, si_struct = ''p4_proc_decoder'', si_field = name,
      si_views = VCAT views\<rparr>"

definition switch_stats_top_info :: "bool \<Rightarrow> switch_stats_block_info list" where
  "switch_stats_top_info v2 =
     [
        top_info ''probe_core_to_app0'' [VIEW ''sn.igr.mux'' ''0'' ''out'', VIEW ''sn.igr.app'' ''0'' ''in'', VIEW ''sn.igr.app.p4'' ''0'' ''in''],
        top_info ''probe_core_to_app1'' [VIEW ''sn.igr.mux'' ''1'' ''out'', VIEW ''sn.igr.app'' ''1'' ''in'', VIEW ''sn.igr.app.p4'' ''1'' ''in''],
        top_info ''probe_app0_to_core'' [VIEW ''sn.egr.demux'' ''0'' ''in'', VIEW ''sn.egr.app'' ''0'' ''out'', VIEW ''sn.egr.app.p4'' ''0'' ''out''],
        top_info ''probe_app1_to_core'' [VIEW ''sn.egr.demux'' ''1'' ''in'', VIEW ''sn.egr.app'' ''1'' ''out'', VIEW ''sn.egr.app.p4'' ''1'' ''out''],
        top_info ''probe_from_cmac_0'' [VIEW ''sn'' ''0'' ''in'', VIEW ''sn.igr'' ''0'' ''in'', VIEW ''sn.igr.mux'' ''0'' ''in''],
        top_info ''drops_ovfl_from_cmac_0'' [VIEW ''sn'' ''0'' ''in'', VIEW ''sn.igr'' ''0'' ''in'', VIEW ''sn.igr.mux'' ''0'' ''in''],
        top_info ''drops_err_from_cmac_0'' [VIEW ''sn'' ''0'' ''in'', VIEW ''sn.igr'' ''0'' ''in'', VIEW ''sn.igr.mux'' ''0'' ''in''],
        top_info ''probe_from_cmac_1'' [VIEW ''sn'' ''1'' ''in'', VIEW ''sn.igr'' ''1'' ''in'', VIEW ''sn.igr.mux'' ''1'' ''in''],
        top_info ''drops_ovfl_from_cmac_1'' [VIEW ''sn'' ''1'' ''in'', VIEW ''sn.igr'' ''1'' ''in'', VIEW ''sn.igr.mux'' ''1'' ''in''],
        top_info ''drops_err_from_cmac_1'' [VIEW ''sn'' ''1'' ''in'', VIEW ''sn.igr'' ''1'' ''in'', VIEW ''sn.igr.mux'' ''1'' ''in''],
        top_info ''probe_to_cmac_0'' [VIEW ''sn'' ''0'' ''out'', VIEW ''sn.egr'' ''0'' ''out'', VIEW ''sn.egr.demux'' ''0'' ''out''],
        top_info ''drops_ovfl_to_cmac_0'' [VIEW ''sn'' ''0'' ''out'', VIEW ''sn.egr'' ''0'' ''out'', VIEW ''sn.egr.demux'' ''0'' ''out''],
        top_info ''probe_to_cmac_1'' [VIEW ''sn'' ''1'' ''out'', VIEW ''sn.egr'' ''1'' ''out'', VIEW ''sn.egr.demux'' ''1'' ''out''],
        top_info ''drops_ovfl_to_cmac_1'' [VIEW ''sn'' ''1'' ''out'', VIEW ''sn.egr'' ''1'' ''out'', VIEW ''sn.egr.demux'' ''1'' ''out''],
        top_info ''probe_from_host_0'' [VIEW ''sn'' ''0'' ''in''],
        top_info ''probe_from_host_1'' [VIEW ''sn'' ''1'' ''in''],
        top_info ''probe_to_host_0'' [VIEW ''sn'' ''0'' ''out''],
        top_info ''drops_ovfl_to_host_0'' [VIEW ''sn'' ''0'' ''out''],
        top_info ''probe_to_host_1'' [VIEW ''sn'' ''1'' ''out''],
        top_info ''drops_ovfl_to_host_1'' [VIEW ''sn'' ''1'' ''out''],
        top_info ''probe_to_bypass_0'' [VIEW ''sn.igr.mux'' ''0'' ''out''],
        top_info ''drops_to_bypass_0'' [VIEW ''sn.igr.mux'' ''0'' ''out'']] @
     (if \<not> v2 then [
        top_info ''drops_from_bypass_0'' [VIEW ''sn.egr.demux'' ''0'' ''in'']] else []) @
     [
        top_info ''probe_to_bypass_1'' [VIEW ''sn.igr.mux'' ''1'' ''out''],
        top_info ''drops_to_bypass_1'' [VIEW ''sn.igr.mux'' ''1'' ''out'']] @
     (if \<not> v2 then [
        top_info ''drops_from_bypass_1'' [VIEW ''sn.egr.demux'' ''1'' ''in'']] else []) @
     [
        top_info ''probe_from_pf0'' [VIEW ''sn.egr.app'' ''0'' ''in'', VIEW ''sn.egr.app.mux'' ''0'' ''in''],
        top_info ''probe_from_pf0_vf0'' [VIEW ''sn.egr.app'' ''0'' ''in'', VIEW ''sn.egr.app.user'' ''0'' ''in''],
        top_info ''probe_from_pf0_vf1'' [VIEW ''sn.egr.app'' ''0'' ''in'', VIEW ''sn.egr.app.p4'' ''0'' ''in''],
        top_info ''probe_from_pf0_vf2'' [VIEW ''sn.igr.mux'' ''0'' ''in''],
        top_info ''probe_to_pf0'' [VIEW ''sn.igr.app'' ''0'' ''out'', VIEW ''sn.igr.app.demux'' ''0'' ''out''],
        top_info ''probe_to_pf0_vf0'' [VIEW ''sn.igr.app'' ''0'' ''out'', VIEW ''sn.igr.app.user'' ''0'' ''out''],
        top_info ''probe_to_pf0_vf1'' [VIEW ''sn.egr.app'' ''0'' ''out'', VIEW ''sn.egr.app.p4'' ''0'' ''out''],
        top_info ''probe_to_pf0_vf2'' [VIEW ''sn.egr.demux'' ''0'' ''out''],
        top_info ''probe_from_pf1'' [VIEW ''sn.egr.app'' ''1'' ''in'', VIEW ''sn.egr.app.mux'' ''1'' ''in''],
        top_info ''probe_from_pf1_vf0'' [VIEW ''sn.egr.app'' ''1'' ''in'', VIEW ''sn.egr.app.user'' ''1'' ''in''],
        top_info ''probe_from_pf1_vf1'' [VIEW ''sn.egr.app'' ''1'' ''in'', VIEW ''sn.egr.app.p4'' ''1'' ''in''],
        top_info ''probe_from_pf1_vf2'' [VIEW ''sn.igr.mux'' ''1'' ''in''],
        top_info ''probe_to_pf1'' [VIEW ''sn.igr.app'' ''1'' ''out'', VIEW ''sn.igr.app.demux'' ''1'' ''out''],
        top_info ''probe_to_pf1_vf0'' [VIEW ''sn.igr.app'' ''1'' ''out'', VIEW ''sn.igr.app.user'' ''1'' ''out''],
        top_info ''probe_to_pf1_vf1'' [VIEW ''sn.egr.app'' ''1'' ''out'', VIEW ''sn.egr.app.p4'' ''1'' ''out''],
        top_info ''probe_to_pf1_vf2'' [VIEW ''sn.egr.demux'' ''1'' ''out''],
        top_info ''drops_q_range_fail_0'' [VIEW ''sn'' ''0'' ''out''],
        top_info ''drops_q_range_fail_1'' [VIEW ''sn'' ''1'' ''out'']] @
     (if v2 then [
        top_info ''probe_to_app_igr_in0'' [VIEW ''sn.igr.app.demux'' ''0'' ''out'', VIEW ''sn.igr.app.user'' ''0'' ''in''],
        top_info ''probe_to_app_igr_in1'' [VIEW ''sn.igr.app.demux'' ''1'' ''out'', VIEW ''sn.igr.app.user'' ''1'' ''in''],
        top_info ''probe_to_app_igr_p4_out0'' [VIEW ''sn.igr.app.p4'' ''0'' ''out'', VIEW ''sn.igr.app.demux'' ''0'' ''in''],
        top_info ''probe_to_app_igr_p4_out1'' [VIEW ''sn.igr.app.p4'' ''1'' ''out'', VIEW ''sn.igr.app.demux'' ''1'' ''in''],
        top_info ''probe_to_app_egr_in0'' [VIEW ''sn.igr.app.user'' ''0'' ''out'', VIEW ''sn.egr.app.user'' ''0'' ''in''],
        top_info ''probe_to_app_egr_in1'' [VIEW ''sn.igr.app.user'' ''1'' ''out'', VIEW ''sn.egr.app.user'' ''1'' ''in''],
        top_info ''probe_to_app_egr_out0'' [VIEW ''sn.egr.app.user'' ''0'' ''out'', VIEW ''sn.egr.app.mux'' ''0'' ''in''],
        top_info ''probe_to_app_egr_out1'' [VIEW ''sn.egr.app.user'' ''1'' ''out'', VIEW ''sn.egr.app.mux'' ''1'' ''in''],
        top_info ''probe_to_app_egr_p4_in0'' [VIEW ''sn.egr.app.p4'' ''0'' ''in'', VIEW ''sn.egr.app.mux'' ''0'' ''out''],
        top_info ''probe_to_app_egr_p4_in1'' [VIEW ''sn.egr.app.p4'' ''1'' ''in'', VIEW ''sn.egr.app.mux'' ''1'' ''out'']] else [])"

definition switch_stats_p4_proc_igr_info :: "bool \<Rightarrow> switch_stats_block_info list" where
  "switch_stats_p4_proc_igr_info v2 =
     (if v2 then [
        p4_proc_info ''igr'' ''drops_from_p4'' [VIEW ''sn.igr.app.p4'' ''0'' ''out'', VIEW ''sn.igr.app.p4'' ''1'' ''out''],
        p4_proc_info ''igr'' ''drops_unset_err_port_0'' [VIEW ''sn.igr.app.p4'' ''0'' ''out''],
        p4_proc_info ''igr'' ''drops_unset_err_port_1'' [VIEW ''sn.igr.app.p4'' ''1'' ''out'']] else []) @
     (if \<not> v2 then [
        p4_proc_info ''igr'' ''drops_from_proc_port_0'' [VIEW ''sn.egr.app.p4'' ''0'' ''out''],
        p4_proc_info ''igr'' ''drops_from_proc_port_1'' [VIEW ''sn.egr.app.p4'' ''0'' ''out''],
        p4_proc_info ''igr'' ''probe_to_pyld_fifo'' [VIEW ''sn.igr.app.p4'' ''0'' ''in''],
        p4_proc_info ''igr'' ''drops_to_pyld_fifo'' [VIEW ''sn.igr.app.p4'' ''0'' ''in'']] else [])"

definition switch_stats_p4_proc_egr_info :: "bool \<Rightarrow> switch_stats_block_info list" where
  "switch_stats_p4_proc_egr_info v2 =
     (if v2 then [
        p4_proc_info ''egr'' ''drops_from_p4'' [VIEW ''sn.egr.app.p4'' ''0'' ''out'', VIEW ''sn.egr.app.p4'' ''1'' ''out''],
        p4_proc_info ''egr'' ''drops_unset_err_port_0'' [VIEW ''sn.egr.app.p4'' ''0'' ''out''],
        p4_proc_info ''egr'' ''drops_unset_err_port_1'' [VIEW ''sn.egr.app.p4'' ''1'' ''out'']] else []) @
     (if \<not> v2 then [
        p4_proc_info ''egr'' ''drops_from_proc_port_0'' [VIEW ''sn.egr.app.p4'' ''1'' ''out''],
        p4_proc_info ''egr'' ''drops_from_proc_port_1'' [VIEW ''sn.egr.app.p4'' ''1'' ''out''],
        p4_proc_info ''egr'' ''probe_to_pyld_fifo'' [VIEW ''sn.igr.app.p4'' ''1'' ''in''],
        p4_proc_info ''egr'' ''drops_to_pyld_fifo'' [VIEW ''sn.igr.app.p4'' ''1'' ''in'']] else [])"

subsection \<open>Callbacks\<close>

definition switch_stats_latch_metrics :: "'x bar_env \<Rightarrow> nat \<Rightarrow> 'x esnet_smartnic_bar2 \<Rightarrow> 'x esnet_smartnic_bar2" where
  "switch_stats_latch_metrics be base h =
     (let p = be_probe be in
      bar_write32 be (base + be_offsetof be ''axi4s_probe_block'' ''probe_control'')
        (bf_set (lay_clear p) (CLEAR_ON_WR_EVT p) (bf_set (lay_latch p) (LATCH_ON_WR_EVT p) 0)) h)"

definition switch_stats_release_metrics :: "'x bar_env \<Rightarrow> nat \<Rightarrow> 'x esnet_smartnic_bar2 \<Rightarrow> 'x esnet_smartnic_bar2" where
  "switch_stats_release_metrics be base h =
     (let p = be_probe be in
      bar_write32 be (base + be_offsetof be ''axi4s_probe_block'' ''probe_control'')
        (bf_set (lay_clear p) (NO_CLEAR p) (bf_set (lay_latch p) (LATCH_ON_CLK p) 0)) h)"

definition switch_stats_attach_metrics :: "'x bar_env \<Rightarrow> nat \<Rightarrow> 'x esnet_smartnic_bar2 \<Rightarrow> 'x esnet_smartnic_bar2" where
  "switch_stats_attach_metrics be base h =
     switch_stats_release_metrics be base (switch_stats_latch_metrics be base h)"

text \<open>The upper half of a counter comes first.\<close>

definition switch_stats_read_metric ::
  "'x bar_env \<Rightarrow> nat \<Rightarrow> 'x esnet_smartnic_bar2 \<Rightarrow> stats_metric_spec \<Rightarrow> nat \<Rightarrow> 64 word list" where
  "switch_stats_read_metric be base h mspec nvalues =
     (let pair = base + io_offset (mspec_io mspec) in
      [push_bit 32 (be_mem be h pair 4) OR be_mem be h (pair + 4) 4])"

subsection \<open>The zone\<close>

definition no_export_label :: "string \<Rightarrow> string \<Rightarrow> stats_label_spec" where
  "no_export_label key v =
     \<lparr>lspec_key = key, lspec_value = Some v, lspec_no_export = True,
      lspec_value_alloc = None, lspec_has_value_free = False\<rparr>"

text \<open>A metric with the placeholder of its label ``\<open>views\<close>'' replaced by the views of the block.\<close>

definition SWITCH_STATS_COUNTER :: "'x bar_env \<Rightarrow> string \<Rightarrow> string \<Rightarrow> string \<Rightarrow> stats_metric_spec" where
  "SWITCH_STATS_COUNTER be name units views =
     \<lparr>mspec_name = name, mspec_nelements = 0,
      mspec_labels = [no_export_label ''units'' units, no_export_label ''views'' views],
      mspec_type = METRIC_COUNTER, mspec_flags = STATS_METRIC_FLAG_MASK CLEAR_ON_READ, mspec_init_value = 0,
      mspec_io = \<lparr>io_offset = be_offsetof be ''axi4s_probe_block'' (name @ ''_upper''), io_size = 8,
                  io_width = 0, io_shift = 0, io_invert = False, io_data = 0\<rparr>\<rparr>"

definition switch_stats_metrics :: "'x bar_env \<Rightarrow> string \<Rightarrow> stats_metric_spec list" where
  "switch_stats_metrics be views =
     [SWITCH_STATS_COUNTER be ''pkt_count'' ''packets'' views, SWITCH_STATS_COUNTER be ''byte_count'' ''bytes'' views]"

definition switch_stats_block ::
  "'x bar_env \<Rightarrow> nat \<Rightarrow> switch_stats_block_info \<Rightarrow> 'x esnet_smartnic_bar2 stats_block_spec" where
  "switch_stats_block be grp_base info =
     (let base = grp_base + be_offsetof be (si_struct info) (si_field info) in
      \<lparr>bspec_name = si_name info, bspec_metrics = switch_stats_metrics be (si_views info), bspec_io_base = base,
       bspec_attach_metrics = Some (switch_stats_attach_metrics be base), bspec_detach_metrics = None,
       bspec_latch_metrics = Some (switch_stats_latch_metrics be base),
       bspec_release_metrics = Some (switch_stats_release_metrics be base),
       bspec_read_metric = Some (switch_stats_read_metric be base), bspec_convert_metric = None\<rparr>)"

text \<open>A P4 processor whose status reads as all ones is not implemented, and its probes are left out.\<close>

definition p4_proc_implemented :: "'x bar_env \<Rightarrow> nat \<Rightarrow> 'x esnet_smartnic_bar2 \<Rightarrow> bool" where
  "p4_proc_implemented be base h \<longleftrightarrow> be_mem be h (base + be_offsetof be ''p4_proc_decoder'' ''p4_proc.status'') 4 \<noteq> 4294967295"

definition switch_stats_zone_spec ::
  "'x bar_env \<Rightarrow> string \<Rightarrow> 'x esnet_smartnic_bar2 \<Rightarrow> 'x esnet_smartnic_bar2 stats_zone_spec" where
  "switch_stats_zone_spec be name h =
     (let v2 = be_v2_switch_counters be;
          igr = be_offsetof be ''esnet_smartnic_bar2'' ''p4_proc_igr'';
          egr = be_offsetof be ''esnet_smartnic_bar2'' ''p4_proc_egr''
      in \<lparr>zspec_name = name,
          zspec_blocks = map (switch_stats_block be 0) (switch_stats_top_info v2)
            @ (if p4_proc_implemented be igr h then map (switch_stats_block be igr) (switch_stats_p4_proc_igr_info v2) else [])
            @ (if p4_proc_implemented be egr h then map (switch_stats_block be egr) (switch_stats_p4_proc_egr_info v2) else [])\<rparr>)"

definition switch_stats_zone_alloc ::
  "'x bar_env \<Rightarrow> nat \<Rightarrow> string \<Rightarrow> 'x esnet_smartnic_bar2 stats_domain \<Rightarrow> 'x esnet_smartnic_bar2 \<Rightarrow>
   stats_stop + ('x esnet_smartnic_bar2 stats_domain \<times> 'x esnet_smartnic_bar2)" where
  "switch_stats_zone_alloc be z name domain h = stats_zone_alloc z (switch_stats_zone_spec be name h) domain h"

definition switch_stats_zone_free ::
  "nat option \<Rightarrow> 'x esnet_smartnic_bar2 stats_domain \<Rightarrow> 'x esnet_smartnic_bar2 \<Rightarrow>
   stats_stop + ('x esnet_smartnic_bar2 stats_domain \<times> 'x esnet_smartnic_bar2)" where
  "switch_stats_zone_free zone domain h = stats_zone_free zone domain h"

end
