(* ===== verification/Opennic_Host.thy ===== *)
theory Opennic_Host
  imports Opennic_Switch_Stats
begin

text \<open>
  \<^verbatim>\<open>libopennic/src/qdma.c\<close> and \<^verbatim>\<open>flow_control.c\<close>: the DMA queues of the host functions, the hash
  tables that spread packets over the queues, the flow control thresholds, and the statistics of
  the host adapters.
\<close>

subsection \<open>Channels\<close>

definition QDMA_CHANNEL_MAX :: nat where "QDMA_CHANNEL_MAX = 2"

definition qdma_channel_get_queues ::
  "smartnic_layout \<Rightarrow> 'x esnet_smartnic_bar2 \<Rightarrow> nat \<Rightarrow> (32 word \<times> 32 word) option" where
  "qdma_channel_get_queues l bar2 channel =
     (let read = (\<lambda>q. Some (bf_get (lay_qbase l) q, bf_get (lay_numq l) q)) in
      if channel = 0 then read (qdma_func0 bar2) else if channel = 1 then read (qdma_func1 bar2) else None)"

definition qdma_channel_set_queues ::
  "smartnic_layout \<Rightarrow> nat \<Rightarrow> 32 word \<Rightarrow> 32 word \<Rightarrow> 'x esnet_smartnic_bar2 \<Rightarrow> bool \<times> 'x esnet_smartnic_bar2" where
  "qdma_channel_set_queues l channel base_queue num_queues bar2 =
     (let qconf = bf_set (lay_numq l) num_queues (bf_set (lay_qbase l) base_queue 0) in
      if channel = 0 then (True, bar2\<lparr>qdma_func0 := qconf\<rparr>)
      else if channel = 1 then (True, bar2\<lparr>qdma_func1 := qconf\<rparr>) else (False, bar2))"

subsection \<open>Functions\<close>

text \<open>The enumerators; a variable of the C enumeration is an unsigned number.\<close>

definition qdma_function_PF :: nat where "qdma_function_PF = 0"

definition qdma_function_VF_MIN :: nat where "qdma_function_VF_MIN = 1"

definition qdma_function_VF_MAX :: nat where "qdma_function_VF_MAX = 4"

definition qdma_function_MAX :: nat where "qdma_function_MAX = qdma_function_VF_MAX"

definition qdma_function_get_queues ::
  "smartnic_layout \<Rightarrow> 'x esnet_smartnic_bar2 \<Rightarrow> nat \<Rightarrow> nat \<Rightarrow> (32 word \<times> 32 word) option" where
  "qdma_function_get_queues l bar2 channel func =
     (if channel \<ge> QDMA_CHANNEL_MAX \<or> func \<ge> qdma_function_MAX then None
      else let sn = smartnic_regs bar2;
               qconf = (if channel = 0 then igr_q_config_0 sn else igr_q_config_1 sn) ! func
           in Some (bf_get (lay_igr_base l channel) qconf, bf_get (lay_igr_num_q l channel) qconf))"

definition hash_table :: "nat \<Rightarrow> smartnic_hash2qid_block \<Rightarrow> 32 word list" where
  "hash_table func h2q =
     (if func = 0 then pf_table h2q else if func = 1 then vf0_table h2q else if func = 2 then vf1_table h2q
      else vf2_table h2q)"

definition set_hash_table :: "nat \<Rightarrow> 32 word list \<Rightarrow> smartnic_hash2qid_block \<Rightarrow> smartnic_hash2qid_block" where
  "set_hash_table func t h2q =
     (if func = 0 then h2q\<lparr>pf_table := t\<rparr> else if func = 1 then h2q\<lparr>vf0_table := t\<rparr>
      else if func = 2 then h2q\<lparr>vf1_table := t\<rparr> else h2q\<lparr>vf2_table := t\<rparr>)"

text \<open>Packets are spread over the queues round robin; without queues all go to number 0.\<close>

definition spread_table :: "bitfield \<Rightarrow> nat \<Rightarrow> nat \<Rightarrow> 32 word list" where
  "spread_table f len num_queues =
     (let spread = (if num_queues > 0 then num_queues else 1)
      in map (\<lambda>q. bf_set f (of_nat (q mod spread)) 0) [0..<len])"

text \<open>
  The base of the queues in the hash block is written before the number of queues is compared
  with the size of the table.
\<close>

definition qdma_function_set_queues ::
  "smartnic_layout \<Rightarrow> nat \<Rightarrow> nat \<Rightarrow> 32 word \<Rightarrow> 32 word \<Rightarrow> 'x esnet_smartnic_bar2 \<Rightarrow> bool \<times> 'x esnet_smartnic_bar2" where
  "qdma_function_set_queues l channel func base_queue num_queues bar2 =
     (if channel \<ge> QDMA_CHANNEL_MAX \<or> func \<ge> qdma_function_MAX then (False, bar2)
      else
        (let h2q = (if channel = 0 then smartnic_hash2qid_0 bar2 else smartnic_hash2qid_1 bar2);
             h2q1 = h2q\<lparr>q_config := (q_config h2q)[func := bf_set (lay_h2q_base l) base_queue 0]\<rparr>;
             table = hash_table func h2q1;
             put = (\<lambda>h b. if channel = 0 then b\<lparr>smartnic_hash2qid_0 := h\<rparr> else b\<lparr>smartnic_hash2qid_1 := h\<rparr>)
         in if unat num_queues > length table then (False, put h2q1 bar2)
            else
              (let h2q2 = set_hash_table func (spread_table (lay_h2q_value l func) (length table) (unat num_queues)) h2q1;
                   qconf = bf_set (lay_igr_num_q l channel) num_queues (bf_set (lay_igr_base l channel) base_queue 0);
                   sn = smartnic_regs bar2;
                   sn' = (if channel = 0 then sn\<lparr>igr_q_config_0 := (igr_q_config_0 sn)[func := qconf]\<rparr>
                          else sn\<lparr>igr_q_config_1 := (igr_q_config_1 sn)[func := qconf]\<rparr>)
               in (True, put h2q2 bar2\<lparr>smartnic_regs := sn'\<rparr>))))"

subsection \<open>Flow control\<close>

datatype fc_interface_type = fc_interface_type_UNKNOWN | fc_interface_type_PORT | fc_interface_type_HOST

definition FC_NUM_INTFS_PER_TYPE :: nat where "FC_NUM_INTFS_PER_TYPE = 2"

definition FC_THRESHOLD_UNLIMITED :: "32 word" where "FC_THRESHOLD_UNLIMITED = - 1"

definition fc_interface_to_egr_threshold_tid :: "fc_interface_type \<Rightarrow> nat \<Rightarrow> nat option" where
  "fc_interface_to_egr_threshold_tid type index =
     (if index \<ge> FC_NUM_INTFS_PER_TYPE then None
      else case type of
        fc_interface_type_PORT \<Rightarrow> Some index
      | fc_interface_type_HOST \<Rightarrow> Some (FC_NUM_INTFS_PER_TYPE + index)
      | fc_interface_type_UNKNOWN \<Rightarrow> None)"

definition fc_get_egress_threshold :: "smartnic_block \<Rightarrow> fc_interface_type \<Rightarrow> nat \<Rightarrow> 32 word option" where
  "fc_get_egress_threshold blk type index =
     (case fc_interface_to_egr_threshold_tid type index of None \<Rightarrow> None
      | Some tid \<Rightarrow> if tid \<ge> length (egr_fc_thresh blk) then None else Some (egr_fc_thresh blk ! tid))"

definition fc_set_egress_threshold ::
  "fc_interface_type \<Rightarrow> nat \<Rightarrow> 32 word \<Rightarrow> smartnic_block \<Rightarrow> bool \<times> smartnic_block" where
  "fc_set_egress_threshold type index threshold blk =
     (case fc_interface_to_egr_threshold_tid type index of None \<Rightarrow> (False, blk)
      | Some tid \<Rightarrow>
        (if tid \<ge> length (egr_fc_thresh blk) then (False, blk)
         else (True, blk\<lparr>egr_fc_thresh := (egr_fc_thresh blk)[tid := threshold]\<rparr>)))"

subsection \<open>Statistics of a host adapter\<close>

definition cmac_adapter_metric :: "'x bar_env \<Rightarrow> string \<Rightarrow> string \<Rightarrow> stats_metric_spec" where
  "cmac_adapter_metric be prefix units =
     (let name = prefix @ ''_'' @ units in
      \<lparr>mspec_name = name, mspec_nelements = 0, mspec_labels = [no_export_label ''units'' units],
       mspec_type = METRIC_COUNTER, mspec_flags = 0, mspec_init_value = 0,
       mspec_io = \<lparr>io_offset = be_offsetof be ''cmac_adapter_block'' (name @ ''_lo''), io_size = 8, io_width = 0,
                   io_shift = 0, io_invert = False, io_data = 0\<rparr>\<rparr>)"

definition cmac_adapter_stats_metrics :: "'x bar_env \<Rightarrow> stats_metric_spec list" where
  "cmac_adapter_stats_metrics be =
     concat (map (\<lambda>prefix. [cmac_adapter_metric be prefix ''packets'', cmac_adapter_metric be prefix ''bytes''])
       [''tx'', ''tx_drop'', ''rx'', ''rx_drop'', ''rx_err''])"

text \<open>The lower half of a counter comes first.\<close>

definition cmac_adapter_stats_read_metric ::
  "'x bar_env \<Rightarrow> nat \<Rightarrow> 'x esnet_smartnic_bar2 \<Rightarrow> stats_metric_spec \<Rightarrow> nat \<Rightarrow> 64 word list" where
  "cmac_adapter_stats_read_metric be base h mspec nvalues =
     (let pair = base + io_offset (mspec_io mspec) in
      [push_bit 32 (be_mem be h (pair + 4) 4) OR be_mem be h pair 4])"

definition qdma_stats_zone_spec :: "'x bar_env \<Rightarrow> nat \<Rightarrow> string \<Rightarrow> 'x esnet_smartnic_bar2 stats_zone_spec" where
  "qdma_stats_zone_spec be adapter name =
     \<lparr>zspec_name = name,
      zspec_blocks =
        [\<lparr>bspec_name = ''cmac_adapter'', bspec_metrics = cmac_adapter_stats_metrics be, bspec_io_base = adapter,
          bspec_attach_metrics = None, bspec_detach_metrics = None, bspec_latch_metrics = None,
          bspec_release_metrics = None, bspec_read_metric = Some (cmac_adapter_stats_read_metric be adapter),
          bspec_convert_metric = None\<rparr>]\<rparr>"

definition qdma_stats_zone_alloc ::
  "'x bar_env \<Rightarrow> nat \<Rightarrow> nat \<Rightarrow> string \<Rightarrow> 'x esnet_smartnic_bar2 stats_domain \<Rightarrow> 'x esnet_smartnic_bar2 \<Rightarrow>
   stats_stop + ('x esnet_smartnic_bar2 stats_domain \<times> 'x esnet_smartnic_bar2)" where
  "qdma_stats_zone_alloc be z adapter name domain h = stats_zone_alloc z (qdma_stats_zone_spec be adapter name) domain h"

definition qdma_stats_zone_free ::
  "nat option \<Rightarrow> 'x esnet_smartnic_bar2 stats_domain \<Rightarrow> 'x esnet_smartnic_bar2 \<Rightarrow>
   stats_stop + ('x esnet_smartnic_bar2 stats_domain \<times> 'x esnet_smartnic_bar2)" where
  "qdma_stats_zone_free zone domain h = stats_zone_free zone domain h"

end
