(* ===== verification/Opennic_Cmac.thy ===== *)
theory Opennic_Cmac
  imports Opennic_Switch_Stats
begin

text \<open>
  \<^verbatim>\<open>libopennic/src/cmac.c\<close>: the MAC of a port.  A union that is initialised with some of its fields has
  zeros in the others.  The status registers are read twice because their bits are sticky.
\<close>

definition cmac_reset :: "cmac_layout \<Rightarrow> cmac_block \<Rightarrow> cmac_block" where
  "cmac_reset l c =
     (let on = bf_set (lay_usr_rx_reset l) 1 (bf_set (lay_usr_tx_reset l) 1 0);
          off = bf_set (lay_usr_rx_reset l) 0 (bf_set (lay_usr_tx_reset l) 0 0)
      in c\<lparr>reset_reg := on\<rparr>\<lparr>reset_reg := off\<rparr>)"

definition cmac_loopback_enable :: "cmac_block \<Rightarrow> cmac_block" where
  "cmac_loopback_enable c = c\<lparr>gt_loopback := 1\<rparr>"

definition cmac_loopback_disable :: "cmac_block \<Rightarrow> cmac_block" where
  "cmac_loopback_disable c = c\<lparr>gt_loopback := 0\<rparr>"

definition cmac_loopback_is_enabled :: "cmac_block \<Rightarrow> bool" where
  "cmac_loopback_is_enabled c \<longleftrightarrow> gt_loopback c \<noteq> 0"

text \<open>Two readings of a status register; the second one counts.\<close>

definition read_tx_status :: "cmac_block \<Rightarrow> 32 word \<times> cmac_block" where
  "read_tx_status c = (stat_tx_status_at c (Suc (stat_tx_reads c)), c\<lparr>stat_tx_reads := stat_tx_reads c + 2\<rparr>)"

definition read_rx_status :: "cmac_block \<Rightarrow> 32 word \<times> cmac_block" where
  "read_rx_status c = (stat_rx_status_at c (Suc (stat_rx_reads c)), c\<lparr>stat_rx_reads := stat_rx_reads c + 2\<rparr>)"

definition cmac_enable :: "cmac_layout \<Rightarrow> cmac_block \<Rightarrow> bool \<times> cmac_block" where
  "cmac_enable l c =
     (let c1 = c\<lparr>conf_rx_1 := bf_set (lay_ctl_rx_enable l) 1 0\<rparr>;
          c2 = c1\<lparr>conf_tx_1 := bf_set (lay_ctl_tx_enable l) 1 0\<rparr>;
          (tx_status, c3) = read_tx_status c2;
          (rx_status, c4) = read_rx_status c3
      in (if tx_status \<noteq> 0 then False else if rx_status \<noteq> 3 then False else True, c4))"

definition cmac_disable :: "cmac_layout \<Rightarrow> cmac_block \<Rightarrow> cmac_block" where
  "cmac_disable l c =
     c\<lparr>conf_rx_1 := bf_set (lay_ctl_rx_enable l) 0 0, conf_tx_1 := bf_set (lay_ctl_tx_enable l) 0 0\<rparr>"

definition cmac_is_enabled :: "cmac_layout \<Rightarrow> cmac_block \<Rightarrow> bool" where
  "cmac_is_enabled l c \<longleftrightarrow>
     bf_get (lay_ctl_rx_enable l) (conf_rx_1 c) \<noteq> 0 \<and> bf_get (lay_ctl_tx_enable l) (conf_tx_1 c) \<noteq> 0"

definition rsfec_conf :: "cmac_layout \<Rightarrow> 32 word \<Rightarrow> cmac_block \<Rightarrow> cmac_block" where
  "rsfec_conf l v c =
     c\<lparr>rsfec_conf_ind_correction :=
         bf_set (lay_rsfec_en_cor l) v (bf_set (lay_rsfec_en_ind l) v (bf_set (lay_ieee_err_ind_mode l) v 0)),
       rsfec_conf_enable := bf_set (lay_rx_rsfec_enable l) v (bf_set (lay_tx_rsfec_enable l) v 0)\<rparr>"

definition cmac_rsfec_enable :: "cmac_layout \<Rightarrow> cmac_block \<Rightarrow> cmac_block" where
  "cmac_rsfec_enable l c = cmac_reset l (rsfec_conf l 1 c)"

definition cmac_rsfec_disable :: "cmac_layout \<Rightarrow> cmac_block \<Rightarrow> cmac_block" where
  "cmac_rsfec_disable l c = rsfec_conf l 0 c"

definition cmac_rsfec_is_enabled :: "cmac_layout \<Rightarrow> cmac_block \<Rightarrow> bool" where
  "cmac_rsfec_is_enabled l c \<longleftrightarrow>
     bf_get (lay_rx_rsfec_enable l) (rsfec_conf_enable c) \<noteq> 0 \<and> bf_get (lay_tx_rsfec_enable l) (rsfec_conf_enable c) \<noteq> 0"

definition cmac_rx_status_is_link_up :: "cmac_layout \<Rightarrow> cmac_block \<Rightarrow> bool \<times> cmac_block" where
  "cmac_rx_status_is_link_up l c =
     (let (status, c') = read_rx_status c in
      (bf_get (lay_stat_rx_status l) status \<noteq> 0 \<and> bf_get (lay_stat_rx_aligned l) status \<noteq> 0, c'))"

subsection \<open>Statistics\<close>

definition CMAC_STATS_COUNTER :: "'x bar_env \<Rightarrow> string \<Rightarrow> stats_label_spec list \<Rightarrow> stats_metric_spec" where
  "CMAC_STATS_COUNTER be name labels =
     \<lparr>mspec_name = name, mspec_nelements = 0, mspec_labels = labels, mspec_type = METRIC_COUNTER,
      mspec_flags = STATS_METRIC_FLAG_MASK CLEAR_ON_READ, mspec_init_value = 0,
      mspec_io = \<lparr>io_offset = be_offsetof be ''cmac_block'' (''stat_'' @ name),
                  io_size = be_sizeof be ''cmac_block'' (''stat_'' @ name), io_width = 0, io_shift = 0,
                  io_invert = False, io_data = 0\<rparr>\<rparr>"

definition cmac_stats_metrics :: "'x bar_env \<Rightarrow> stats_metric_spec list" where
  "cmac_stats_metrics be =
     map (\<lambda>name. CMAC_STATS_COUNTER be name [])
       [
         ''rx_bip_err_0'', ''rx_bip_err_1'', ''rx_bip_err_2'', ''rx_bip_err_3'', ''rx_bip_err_4'',
         ''rx_bip_err_5'', ''rx_bip_err_6'', ''rx_bip_err_7'', ''rx_bip_err_8'', ''rx_bip_err_9'',
         ''rx_bip_err_10'', ''rx_bip_err_11'', ''rx_bip_err_12'', ''rx_bip_err_13'', ''rx_bip_err_14'',
         ''rx_bip_err_15'', ''rx_bip_err_16'', ''rx_bip_err_17'', ''rx_bip_err_18'', ''rx_bip_err_19'',
         ''rx_framing_err_0'', ''rx_framing_err_1'', ''rx_framing_err_2'', ''rx_framing_err_3'', ''rx_framing_err_4'',
         ''rx_framing_err_5'', ''rx_framing_err_6'', ''rx_framing_err_7'', ''rx_framing_err_8'', ''rx_framing_err_9'',
         ''rx_framing_err_10'', ''rx_framing_err_11'', ''rx_framing_err_12'', ''rx_framing_err_13'', ''rx_framing_err_14'',
         ''rx_framing_err_15'', ''rx_framing_err_16'', ''rx_framing_err_17'', ''rx_framing_err_18'', ''rx_framing_err_19'',
         ''rx_bad_code'', ''tx_frame_error''] @
     map (\<lambda>(name, units). CMAC_STATS_COUNTER be name [no_export_label ''units'' units])
       [
         (''tx_total_pkts'', ''packets''), (''tx_total_good_pkts'', ''packets''), (''tx_total_bytes'', ''bytes''),
         (''tx_total_good_bytes'', ''bytes''), (''tx_pkt_64_bytes'', ''bytes''), (''tx_pkt_65_127_bytes'', ''bytes''),
         (''tx_pkt_128_255_bytes'', ''bytes''), (''tx_pkt_256_511_bytes'', ''bytes''), (''tx_pkt_512_1023_bytes'', ''bytes''),
         (''tx_pkt_1024_1518_bytes'', ''bytes''), (''tx_pkt_1519_1522_bytes'', ''bytes''), (''tx_pkt_1523_1548_bytes'', ''bytes''),
         (''tx_pkt_1549_2047_bytes'', ''bytes''), (''tx_pkt_2048_4095_bytes'', ''bytes''), (''tx_pkt_4096_8191_bytes'', ''bytes''),
         (''tx_pkt_8192_9215_bytes'', ''bytes''), (''tx_pkt_large'', ''packets''), (''tx_pkt_small'', ''packets''),
         (''tx_bad_fcs'', ''packets''), (''tx_unicast'', ''packets''), (''tx_multicast'', ''packets''),
         (''tx_broadcast'', ''packets''), (''tx_vlan'', ''packets''), (''tx_pause'', ''packets''),
         (''tx_user_pause'', ''packets''), (''rx_total_pkts'', ''packets''), (''rx_total_good_pkts'', ''packets''),
         (''rx_total_bytes'', ''bytes''), (''rx_total_good_bytes'', ''bytes''), (''rx_pkt_64_bytes'', ''bytes''),
         (''rx_pkt_65_127_bytes'', ''bytes''), (''rx_pkt_128_255_bytes'', ''bytes''), (''rx_pkt_256_511_bytes'', ''bytes''),
         (''rx_pkt_512_1023_bytes'', ''bytes''), (''rx_pkt_1024_1518_bytes'', ''bytes''), (''rx_pkt_1519_1522_bytes'', ''bytes''),
         (''rx_pkt_1523_1548_bytes'', ''bytes''), (''rx_pkt_1549_2047_bytes'', ''bytes''), (''rx_pkt_2048_4095_bytes'', ''bytes''),
         (''rx_pkt_4096_8191_bytes'', ''bytes''), (''rx_pkt_8192_9215_bytes'', ''bytes''), (''rx_pkt_large'', ''packets''),
         (''rx_pkt_small'', ''packets''), (''rx_undersize'', ''packets''), (''rx_fragment'', ''packets''),
         (''rx_oversize'', ''packets''), (''rx_toolong'', ''packets''), (''rx_jabber'', ''packets''),
         (''rx_bad_fcs'', ''packets''), (''rx_pkt_bad_fcs'', ''packets''), (''rx_stomped_fcs'', ''packets''),
         (''rx_unicast'', ''packets''), (''rx_multicast'', ''packets''), (''rx_broadcast'', ''packets''),
         (''rx_vlan'', ''packets''), (''rx_pause'', ''packets''), (''rx_user_pause'', ''packets''),
         (''rx_inrangeerr'', ''packets''), (''rx_truncated'', ''packets'')]"

text \<open>Writing the register \<open>tick\<close> latches the counters of the MAC in the hardware (the rest of the BAR).\<close>

definition cmac_stats_latch_metrics :: "'x bar_env \<Rightarrow> nat \<Rightarrow> 'x esnet_smartnic_bar2 \<Rightarrow> 'x esnet_smartnic_bar2" where
  "cmac_stats_latch_metrics be base h = bar_write32 be (base + be_offsetof be ''cmac_block'' ''tick'') 1 h"

definition cmac_stats_zone_spec :: "'x bar_env \<Rightarrow> nat \<Rightarrow> string \<Rightarrow> 'x esnet_smartnic_bar2 stats_zone_spec" where
  "cmac_stats_zone_spec be cmac name =
     \<lparr>zspec_name = name,
      zspec_blocks =
        [\<lparr>bspec_name = ''cmac'', bspec_metrics = cmac_stats_metrics be, bspec_io_base = cmac,
          bspec_attach_metrics = None, bspec_detach_metrics = None,
          bspec_latch_metrics = Some (cmac_stats_latch_metrics be cmac),
          bspec_release_metrics = None, bspec_read_metric = None, bspec_convert_metric = None\<rparr>]\<rparr>"

definition cmac_stats_zone_alloc ::
  "'x bar_env \<Rightarrow> nat \<Rightarrow> nat \<Rightarrow> string \<Rightarrow> 'x esnet_smartnic_bar2 stats_domain \<Rightarrow> 'x esnet_smartnic_bar2 \<Rightarrow>
   stats_stop + ('x esnet_smartnic_bar2 stats_domain \<times> 'x esnet_smartnic_bar2)" where
  "cmac_stats_zone_alloc be z cmac name domain h = stats_zone_alloc z (cmac_stats_zone_spec be cmac name) domain h"

definition cmac_stats_zone_free ::
  "nat option \<Rightarrow> 'x esnet_smartnic_bar2 stats_domain \<Rightarrow> 'x esnet_smartnic_bar2 \<Rightarrow>
   stats_stop + ('x esnet_smartnic_bar2 stats_domain \<times> 'x esnet_smartnic_bar2)" where
  "cmac_stats_zone_free zone domain h = stats_zone_free zone domain h"

end
