(* ===== verification/Opennic_Cms.thy ===== *)
theory Opennic_Cms
  imports Opennic_Regs
begin

text \<open>
  \<^verbatim>\<open>libopennic/src/cms.c\<close>, lines 41 to 620: the card management subsystem of a card, a processor of its own behind a block of
  registers and a mailbox in memory.  Its state is \<open>'c\<close> and its reactions are the parameter
  \<open>cms_hw\<close>: a reading may change it, as may the time that a sleep takes.  Mailbox words are at offsets in bytes from
  the register \<open>reg_map_id_reg\<close>.  The mutex of a \<open>struct cms\<close> is left out.
\<close>

datatype cms_reg =
    profile_name_reg | host_status2_reg | status_reg | control_reg | error_reg | mb_resetn_reg
  | host_msg_error_reg | host_msg_offset_reg

record 'c cms_hw =
  cms_rd :: "cms_reg \<Rightarrow> 'c \<Rightarrow> 32 word \<times> 'c"
  cms_wr :: "cms_reg \<Rightarrow> 32 word \<Rightarrow> 'c \<Rightarrow> 'c"
  cms_mem_rd :: "nat \<Rightarrow> 'c \<Rightarrow> 32 word \<times> 'c"
  cms_mem_wr :: "nat \<Rightarrow> 32 word \<Rightarrow> 'c \<Rightarrow> 'c"
  cms_usleep :: "nat \<Rightarrow> 'c \<Rightarrow> 'c"

record cms_layout =
  lay_reg_map_ready :: bitfield
  lay_sat_ctrl_mode :: bitfield
  lay_reset_error_reg :: bitfield
  lay_mailbox_msg_status :: bitfield
  lay_hbm_temp_monitor_enable :: bitfield
  lay_pkt_error :: bitfield
  lay_sat_ctrl_err :: bitfield
  lay_sat_ctrl_err_code :: bitfield

subsection \<open>Profiles\<close>

datatype cms_profile =
    cms_profile_NONE | cms_profile_U200_U250 | cms_profile_U280 | cms_profile_U50 | cms_profile_U55
  | cms_profile_UL3524 | cms_profile_U45N | cms_profile_X3522

definition cms_profile_to_str :: "cms_profile \<Rightarrow> string" where
  "cms_profile_to_str p =
     (case p of cms_profile_NONE \<Rightarrow> ''NONE'' | cms_profile_U200_U250 \<Rightarrow> ''U200_U250'' | cms_profile_U280 \<Rightarrow> ''U280''
      | cms_profile_U50 \<Rightarrow> ''U50'' | cms_profile_U55 \<Rightarrow> ''U55'' | cms_profile_UL3524 \<Rightarrow> ''UL3524''
      | cms_profile_U45N \<Rightarrow> ''U45N'' | cms_profile_X3522 \<Rightarrow> ''X3522'')"

definition profile_of_name :: "32 word \<Rightarrow> cms_profile" where
  "profile_of_name name =
     (if name = 0x55325858 then cms_profile_U200_U250
      else if name = 0x55323830 then cms_profile_U280
      else if name = 0x55353041 then cms_profile_U50
      else if name = 0x5535354e then cms_profile_U55
      else if name = 0x55333234 then cms_profile_UL3524
      else if name = 0x55323641 then cms_profile_U45N
      else if name = 0x58334100 then cms_profile_X3522
      else cms_profile_NONE)"

definition cms_profile_get :: "'c cms_hw \<Rightarrow> 'c \<Rightarrow> cms_profile \<times> 'c" where
  "cms_profile_get hw c = (let (name, c1) = cms_rd hw profile_name_reg c in (profile_of_name name, c1))"

subsection \<open>Polling\<close>

text \<open>A register is read up to \<open>MAX_ITER\<close> times, every \<open>ITER_DELAY_MS\<close>, until it is as it should be.\<close>

definition MAX_ITER :: nat where "MAX_ITER = 20"

definition ITER_DELAY_MS :: nat where "ITER_DELAY_MS = 100"

fun cms_poll :: "'c cms_hw \<Rightarrow> cms_reg \<Rightarrow> (32 word \<Rightarrow> bool) \<Rightarrow> nat \<Rightarrow> 'c \<Rightarrow> bool \<times> 'c" where
  "cms_poll hw r ok 0 c = (False, c)"
| "cms_poll hw r ok (Suc n) c =
     (let (v, c1) = cms_rd hw r c in
      if ok v then (True, c1) else cms_poll hw r ok n (cms_usleep hw (ITER_DELAY_MS * 1000) c1))"

definition cms_reg_map_is_ready :: "'c cms_hw \<Rightarrow> cms_layout \<Rightarrow> 'c \<Rightarrow> bool \<times> 'c" where
  "cms_reg_map_is_ready hw l c =
     cms_poll hw host_status2_reg (\<lambda>v. bf_get (lay_reg_map_ready l) v \<noteq> 0) MAX_ITER c"

definition cms_sc_mode_NORMAL :: "32 word" where "cms_sc_mode_NORMAL = 1"

definition cms_sc_mode_NORMAL_SC_NOT_UPGRADABLE :: "32 word" where "cms_sc_mode_NORMAL_SC_NOT_UPGRADABLE = 5"

definition cms_sc_is_ready :: "'c cms_hw \<Rightarrow> cms_layout \<Rightarrow> 'c \<Rightarrow> bool \<times> 'c" where
  "cms_sc_is_ready hw l c =
     cms_poll hw status_reg
       (\<lambda>v. bf_get (lay_sat_ctrl_mode l) v \<in> {cms_sc_mode_NORMAL, cms_sc_mode_NORMAL_SC_NOT_UPGRADABLE}) MAX_ITER c"

definition cms_error_is_cleared :: "'c cms_hw \<Rightarrow> cms_layout \<Rightarrow> 'c \<Rightarrow> bool \<times> 'c" where
  "cms_error_is_cleared hw l c =
     cms_poll hw control_reg (\<lambda>v. bf_get (lay_reset_error_reg l) v = 0) MAX_ITER c"

definition set_control :: "'c cms_hw \<Rightarrow> bitfield \<Rightarrow> 'c \<Rightarrow> 'c" where
  "set_control hw f c = (let (v, c1) = cms_rd hw control_reg c in cms_wr hw control_reg (bf_set f 1 v) c1)"

definition cms_error_clear :: "'c cms_hw \<Rightarrow> cms_layout \<Rightarrow> 'c \<Rightarrow> 'c" where
  "cms_error_clear hw l c = set_control hw (lay_reset_error_reg l) c"

definition cms_mailbox_is_ready :: "'c cms_hw \<Rightarrow> cms_layout \<Rightarrow> 'c \<Rightarrow> bool \<times> 'c" where
  "cms_mailbox_is_ready hw l c =
     cms_poll hw control_reg (\<lambda>v. bf_get (lay_mailbox_msg_status l) v = 0) MAX_ITER c"

definition cms_is_ready :: "'c cms_hw \<Rightarrow> cms_layout \<Rightarrow> 'c \<Rightarrow> bool \<times> 'c" where
  "cms_is_ready hw l c =
     (let (map_ok, c1) = cms_reg_map_is_ready hw l c in
      if \<not> map_ok then (False, c1)
      else let (sc_ok, c2) = cms_sc_is_ready hw l c1 in
           if \<not> sc_ok then (False, c2) else cms_mailbox_is_ready hw l c2)"

subsection \<open>Resets\<close>

definition cms_microblaze_reset_assert :: "'c cms_hw \<Rightarrow> 'c \<Rightarrow> 'c" where
  "cms_microblaze_reset_assert hw c = cms_wr hw mb_resetn_reg 0 c"

definition cms_microblaze_reset_deassert :: "'c cms_hw \<Rightarrow> 'c \<Rightarrow> 'c" where
  "cms_microblaze_reset_deassert hw c = cms_wr hw mb_resetn_reg 1 c"

definition cms_microblaze_reset_release :: "'c cms_hw \<Rightarrow> 'c \<Rightarrow> 'c" where
  "cms_microblaze_reset_release hw c =
     (let (v, c1) = cms_rd hw mb_resetn_reg c in
      if v = 0 then cms_usleep hw (5 * 1000 * 1000) (cms_microblaze_reset_deassert hw c1) else c1)"

definition cms_microblaze_reset :: "'c cms_hw \<Rightarrow> 'c \<Rightarrow> 'c" where
  "cms_microblaze_reset hw c =
     cms_microblaze_reset_release hw (cms_usleep hw (10 * 1000) (cms_microblaze_reset_assert hw c))"

definition cms_reset :: "'c cms_hw \<Rightarrow> cms_layout \<Rightarrow> 'c \<Rightarrow> bool \<times> 'c" where
  "cms_reset hw l c = cms_is_ready hw l (cms_microblaze_reset hw c)"

definition cms_enable :: "'c cms_hw \<Rightarrow> cms_layout \<Rightarrow> 'c \<Rightarrow> bool \<times> 'c" where
  "cms_enable hw l c = cms_is_ready hw l (cms_microblaze_reset_release hw c)"

definition cms_disable :: "'c cms_hw \<Rightarrow> 'c \<Rightarrow> 'c" where
  "cms_disable hw c = cms_microblaze_reset_assert hw c"

subsection \<open>The mailbox\<close>

datatype cms_mailbox_opcode =
    cms_mailbox_opcode_SC_FW_SEC | cms_mailbox_opcode_SC_FW_DATA | cms_mailbox_opcode_SC_FW_REBOOT
  | cms_mailbox_opcode_SC_FW_ERASE | cms_mailbox_opcode_CARD_INFO_REQ
  | cms_mailbox_opcode_READ_MODULE_LOW_SPEED_IO | cms_mailbox_opcode_WRITE_MODULE_LOW_SPEED_IO
  | cms_mailbox_opcode_BLOCK_READ_MODULE_I2C | cms_mailbox_opcode_BYTE_READ_MODULE_I2C
  | cms_mailbox_opcode_BYTE_WRITE_MODULE_I2C

definition opcode_value :: "cms_mailbox_opcode \<Rightarrow> 32 word" where
  "opcode_value opc =
     (case opc of
        cms_mailbox_opcode_SC_FW_SEC \<Rightarrow> 0x01
      | cms_mailbox_opcode_SC_FW_DATA \<Rightarrow> 0x02
      | cms_mailbox_opcode_SC_FW_REBOOT \<Rightarrow> 0x03
      | cms_mailbox_opcode_SC_FW_ERASE \<Rightarrow> 0x05
      | cms_mailbox_opcode_CARD_INFO_REQ \<Rightarrow> 0x04
      | cms_mailbox_opcode_READ_MODULE_LOW_SPEED_IO \<Rightarrow> 0x0d
      | cms_mailbox_opcode_WRITE_MODULE_LOW_SPEED_IO \<Rightarrow> 0x0e
      | cms_mailbox_opcode_BLOCK_READ_MODULE_I2C \<Rightarrow> 0x0b
      | cms_mailbox_opcode_BYTE_READ_MODULE_I2C \<Rightarrow> 0x0f
      | cms_mailbox_opcode_BYTE_WRITE_MODULE_I2C \<Rightarrow> 0x10)"

text \<open>The header of a request: length 0 in bits 11 to 0, the code of the operation in bits 31 to 24.\<close>

definition mailbox_header :: "cms_mailbox_opcode \<Rightarrow> 32 word" where
  "mailbox_header opc = push_bit 24 (opcode_value opc)"

definition header_length :: "32 word \<Rightarrow> nat" where
  "header_length w = unat (take_bit 12 w)"

definition cms_msg_error_QSFP_FAIL :: "32 word" where "cms_msg_error_QSFP_FAIL = 10"

text \<open>The mailbox is where the subsystem says; word \<open>n\<close> of the payload comes after the header.\<close>

definition cms_mailbox_get :: "'c cms_hw \<Rightarrow> 'c \<Rightarrow> nat \<times> 'c" where
  "cms_mailbox_get hw c = (let (off, c1) = cms_rd hw host_msg_offset_reg c in (unat off, c1))"

definition payload_addr :: "nat \<Rightarrow> nat \<Rightarrow> nat" where
  "payload_addr mb n = mb + 4 + 4 * n"

fun write_payload :: "'c cms_hw \<Rightarrow> nat \<Rightarrow> nat \<Rightarrow> 32 word list \<Rightarrow> 'c \<Rightarrow> 'c" where
  "write_payload hw mb n [] c = c"
| "write_payload hw mb n (w # ws) c = write_payload hw mb (Suc n) ws (cms_mem_wr hw (payload_addr mb n) w c)"

text \<open>The errors of a message that was taken; after a module failure the next attempt waits.\<close>

definition message_errors :: "'c cms_hw \<Rightarrow> cms_layout \<Rightarrow> 'c \<Rightarrow> bool \<times> 'c" where
  "message_errors hw l c =
     (let (err, c1) = cms_rd hw error_reg c;
          pkt = bf_get (lay_pkt_error l) err \<noteq> 0;
          c2 = (if pkt
                then let (code, c') = cms_rd hw host_msg_error_reg c1 in
                     if code = cms_msg_error_QSFP_FAIL then cms_usleep hw (100 * 1000) c' else c'
                else c1)
      in (pkt \<or> bf_get (lay_sat_ctrl_err l) err \<noteq> 0, c2))"

definition MAX_ATTEMPTS :: nat where "MAX_ATTEMPTS = 5"

text \<open>The result is the place of the mailbox with the response, or \<open>None\<close>.\<close>

fun mailbox_attempts ::
  "'c cms_hw \<Rightarrow> cms_layout \<Rightarrow> cms_mailbox_opcode \<Rightarrow> 32 word list \<Rightarrow> nat \<Rightarrow> 'c \<Rightarrow> nat option \<times> 'c" where
  "mailbox_attempts hw l opc words 0 c = (None, c)"
| "mailbox_attempts hw l opc words (Suc n) c =
     (let (ready, c1) = cms_mailbox_is_ready hw l c in
      if \<not> ready then (None, c1)
      else let (cleared, c2) = cms_error_is_cleared hw l (cms_error_clear hw l c1) in
      if \<not> cleared then (None, c2)
      else
        let (mb, c3) = cms_mailbox_get hw c2;
            c4 = write_payload hw mb 0 words (cms_mem_wr hw mb (mailbox_header opc) c3);
            c5 = set_control hw (lay_mailbox_msg_status l) c4;
            (taken, c6) = cms_mailbox_is_ready hw l c5;
            (failed, c7) = message_errors hw l c6
        in if taken \<and> \<not> failed then (Some mb, c7) else mailbox_attempts hw l opc words n c7)"

definition cms_mailbox_post ::
  "'c cms_hw \<Rightarrow> cms_layout \<Rightarrow> cms_mailbox_opcode \<Rightarrow> 32 word list \<Rightarrow> 'c \<Rightarrow> nat option \<times> 'c" where
  "cms_mailbox_post hw l opc words c = mailbox_attempts hw l opc words MAX_ATTEMPTS c"

text \<open>Reading the first words of the payload of a response.\<close>

fun read_payload :: "'c cms_hw \<Rightarrow> nat \<Rightarrow> nat \<Rightarrow> nat \<Rightarrow> 'c \<Rightarrow> 32 word list \<times> 'c" where
  "read_payload hw mb n 0 c = ([], c)"
| "read_payload hw mb n (Suc k) c =
     (let (w, c1) = cms_mem_rd hw (payload_addr mb n) c;
          (ws, c2) = read_payload hw mb (Suc n) k c1
      in (w # ws, c2))"

text \<open>The bytes of words in the order of a little-endian memory.\<close>

definition word_bytes :: "32 word \<Rightarrow> 8 word list" where
  "word_bytes w = map (\<lambda>i. ucast (drop_bit (8 * i) w)) [0..<4]"

definition words_bytes :: "32 word list \<Rightarrow> 8 word list" where
  "words_bytes ws = concat (map word_bytes ws)"

end
