(* ===== verification/Opennic_Cms_Card.thy ===== *)
theory Opennic_Cms_Card
  imports Opennic_Cms
begin

text \<open>
  \<^verbatim>\<open>libopennic/src/cms.c\<close>, lines 457 to 665: the description of a card, which the subsystem sends as a sequence of
  fields with a key, a length and a value.
\<close>

subsection \<open>The description\<close>

text \<open>
  The strings point into the copy of the payload that follows the structure (\<open>ci_payload\<close>), and are places in it; the legacy addresses
  have six bytes each.
\<close>

record cms_card_info =
  ci_profile :: cms_profile
  ci_name :: "nat option"
  ci_serial_number :: "nat option"
  ci_revision :: "nat option"
  ci_sc_version :: "nat option"
  ci_fan_presence :: "8 word"
  ci_total_power_avail :: nat
  ci_config_mode :: "8 word"
  ci_cage_types :: "8 word list"
  ci_cage_valid_mask :: "32 word"
  ci_legacy_addrs :: "8 word list list"
  ci_legacy_valid_mask :: "32 word"
  ci_block_count :: nat
  ci_block_base :: "8 word list"
  ci_payload :: "8 word list"

definition CMS_CARD_INFO_VALID_MASK :: "nat \<Rightarrow> 32 word" where
  "CMS_CARD_INFO_VALID_MASK idx = push_bit idx 1"

definition CMS_CARD_INFO_IS_VALID :: "32 word \<Rightarrow> nat \<Rightarrow> bool" where
  "CMS_CARD_INFO_IS_VALID m idx \<longleftrightarrow> and m (CMS_CARD_INFO_VALID_MASK idx) \<noteq> 0"

definition CMS_CARD_INFO_MAX_CAGES :: nat where "CMS_CARD_INFO_MAX_CAGES = 4"

definition CMS_CARD_INFO_MAX_LEGACY_MACS :: nat where "CMS_CARD_INFO_MAX_LEGACY_MACS = 4"

definition ETH_ALEN :: nat where "ETH_ALEN = 6"

text \<open>What \<open>calloc\<close> gives, followed by the payload.\<close>

definition empty_card_info :: "8 word list \<Rightarrow> cms_card_info" where
  "empty_card_info payload =
     \<lparr>ci_profile = cms_profile_NONE, ci_name = None, ci_serial_number = None, ci_revision = None, ci_sc_version = None,
      ci_fan_presence = 0, ci_total_power_avail = 0, ci_config_mode = 0,
      ci_cage_types = replicate CMS_CARD_INFO_MAX_CAGES 0, ci_cage_valid_mask = 0,
      ci_legacy_addrs = replicate CMS_CARD_INFO_MAX_LEGACY_MACS (replicate ETH_ALEN 0), ci_legacy_valid_mask = 0,
      ci_block_count = 0, ci_block_base = replicate ETH_ALEN 0, ci_payload = payload\<rparr>"

text \<open>The string at a place: up to the first zero; without one a reader leaves the memory of the description.\<close>

definition card_info_string :: "cms_card_info \<Rightarrow> nat \<Rightarrow> string option" where
  "card_info_string info p =
     (let bytes = drop p (ci_payload info) in
      if 0 \<in> set bytes then Some (map (\<lambda>b. char_of (unat b)) (takeWhile (\<lambda>b. b \<noteq> 0) bytes)) else None)"

subsection \<open>Parsing\<close>

definition cms_card_info_key_CARD_SN :: nat where "cms_card_info_key_CARD_SN = 0x21"
definition cms_card_info_key_MAC_ADDRESS0 :: nat where "cms_card_info_key_MAC_ADDRESS0 = 0x22"
definition cms_card_info_key_MAC_ADDRESS3 :: nat where "cms_card_info_key_MAC_ADDRESS3 = 0x25"
definition cms_card_info_key_CARD_REV :: nat where "cms_card_info_key_CARD_REV = 0x26"
definition cms_card_info_key_CARD_NAME :: nat where "cms_card_info_key_CARD_NAME = 0x27"
definition cms_card_info_key_SAT_VERSION :: nat where "cms_card_info_key_SAT_VERSION = 0x28"
definition cms_card_info_key_TOTAL_POWER_AVAIL :: nat where "cms_card_info_key_TOTAL_POWER_AVAIL = 0x29"
definition cms_card_info_key_FAN_PRESENCE :: nat where "cms_card_info_key_FAN_PRESENCE = 0x2a"
definition cms_card_info_key_CONFIG_MODE :: nat where "cms_card_info_key_CONFIG_MODE = 0x2b"
definition cms_card_info_key_NEW_MAC_SCHEME :: nat where "cms_card_info_key_NEW_MAC_SCHEME = 0x4b"
definition cms_card_info_key_CAGE_TYPE_00 :: nat where "cms_card_info_key_CAGE_TYPE_00 = 0x50"
definition cms_card_info_key_CAGE_TYPE_03 :: nat where "cms_card_info_key_CAGE_TYPE_03 = 0x53"

lemmas card_info_keys =
  cms_card_info_key_CARD_SN_def cms_card_info_key_MAC_ADDRESS0_def cms_card_info_key_MAC_ADDRESS3_def
  cms_card_info_key_CARD_REV_def cms_card_info_key_CARD_NAME_def cms_card_info_key_SAT_VERSION_def
  cms_card_info_key_TOTAL_POWER_AVAIL_def cms_card_info_key_FAN_PRESENCE_def cms_card_info_key_CONFIG_MODE_def
  cms_card_info_key_NEW_MAC_SCHEME_def cms_card_info_key_CAGE_TYPE_00_def cms_card_info_key_CAGE_TYPE_03_def

definition total_power_of :: "8 word \<Rightarrow> nat \<Rightarrow> nat" where
  "total_power_of v old = (if v = 0 then 75 else if v = 1 then 150 else if v = 2 then 225 else if v = 4 then 300 else old)"

text \<open>
  The field at place \<open>p\<close> with its key and length.  The length of a field is checked for the keys whose values are copied, but not against the
  end of the payload: reading past the end is \<open>None\<close>.  \<open>aton\<close> is \<open>ether_aton_r\<close>, from the text and the
  previous address to the new one.
\<close>

definition read_at :: "8 word list \<Rightarrow> nat \<Rightarrow> nat \<Rightarrow> 8 word list option" where
  "read_at payload p n = (if p + n \<le> length payload then Some (take n (drop p payload)) else None)"

definition cms_card_info_parse_value ::
  "(8 word list \<Rightarrow> 8 word list \<Rightarrow> 8 word list) \<Rightarrow> nat \<Rightarrow> nat \<Rightarrow> nat \<Rightarrow> cms_card_info \<Rightarrow> cms_card_info option" where
  "cms_card_info_parse_value aton key len p info =
     (let payload = ci_payload info;
          u8 = (\<lambda>f. if len \<noteq> 1 then Some info else map_option (\<lambda>bs. f (hd bs) info) (read_at payload p 1))
      in
      if key = cms_card_info_key_CARD_SN then Some (info\<lparr>ci_serial_number := Some p\<rparr>)
      else if key = cms_card_info_key_CARD_REV then Some (info\<lparr>ci_revision := Some p\<rparr>)
      else if key = cms_card_info_key_CARD_NAME then Some (info\<lparr>ci_name := Some p\<rparr>)
      else if key = cms_card_info_key_SAT_VERSION then Some (info\<lparr>ci_sc_version := Some p\<rparr>)
      else if key = cms_card_info_key_TOTAL_POWER_AVAIL
        then u8 (\<lambda>v i. i\<lparr>ci_total_power_avail := total_power_of v (ci_total_power_avail i)\<rparr>)
      else if key = cms_card_info_key_FAN_PRESENCE then u8 (\<lambda>v i. i\<lparr>ci_fan_presence := v\<rparr>)
      else if key = cms_card_info_key_CONFIG_MODE then u8 (\<lambda>v i. i\<lparr>ci_config_mode := v\<rparr>)
      else if cms_card_info_key_MAC_ADDRESS0 \<le> key \<and> key \<le> cms_card_info_key_MAC_ADDRESS3 then
        (if len \<noteq> 18 then Some info
         else let n = key - cms_card_info_key_MAC_ADDRESS0 in
           map_option (\<lambda>text. info\<lparr>ci_legacy_addrs := (ci_legacy_addrs info)[n := aton text (ci_legacy_addrs info ! n)],
                ci_legacy_valid_mask := or (ci_legacy_valid_mask info) (CMS_CARD_INFO_VALID_MASK n)\<rparr>)
             (read_at payload p 18))
      else if key = cms_card_info_key_NEW_MAC_SCHEME then
        (if len \<noteq> 8 then Some info
         else map_option (\<lambda>bs. info\<lparr>ci_block_count := unat (hd bs), ci_block_base := drop 2 bs\<rparr>)
           (read_at payload p (2 + ETH_ALEN)))
      else if cms_card_info_key_CAGE_TYPE_00 \<le> key \<and> key \<le> cms_card_info_key_CAGE_TYPE_03 then
        (let n = key - cms_card_info_key_CAGE_TYPE_00 in
         u8 (\<lambda>v i. i\<lparr>ci_cage_types := (ci_cage_types i)[n := v],
                    ci_cage_valid_mask := or (ci_cage_valid_mask i) (CMS_CARD_INFO_VALID_MASK n)\<rparr>))
      else Some info)"

definition cms_card_info_parse_field ::
  "(8 word list \<Rightarrow> 8 word list \<Rightarrow> 8 word list) \<Rightarrow> nat \<Rightarrow> cms_card_info \<Rightarrow> (nat \<times> cms_card_info) option" where
  "cms_card_info_parse_field aton p info =
     (case read_at (ci_payload info) p 2 of None \<Rightarrow> None
      | Some header \<Rightarrow>
        (let key = unat (header ! 0); len = unat (header ! 1) in
         map_option (\<lambda>info'. (2 + len, info')) (cms_card_info_parse_value aton key len (p + 2) info)))"

text \<open>Every field takes at least the two bytes of its header.\<close>

lemma parse_field_size: "cms_card_info_parse_field aton p info = Some (n, info') \<Longrightarrow> 2 \<le> n"
  by (auto simp: cms_card_info_parse_field_def Let_def split: option.splits)

function cms_card_info_parse_fields ::
  "(8 word list \<Rightarrow> 8 word list \<Rightarrow> 8 word list) \<Rightarrow> nat \<Rightarrow> nat \<Rightarrow> cms_card_info \<Rightarrow> cms_card_info option" where
  "cms_card_info_parse_fields aton len p info =
     (if p < len
      then case cms_card_info_parse_field aton p info of None \<Rightarrow> None
           | Some (n, info') \<Rightarrow> cms_card_info_parse_fields aton len (p + n) info'
      else Some info)"
  by pat_completeness auto
termination
  by (relation "measure (\<lambda>(_, len, p, _). len - p)") (auto dest!: parse_field_size)

declare cms_card_info_parse_fields.simps [simp del]

definition cms_card_info_parse ::
  "'c cms_hw \<Rightarrow> (8 word list \<Rightarrow> 8 word list \<Rightarrow> 8 word list) \<Rightarrow> nat \<Rightarrow> 'c \<Rightarrow> cms_card_info option \<times> 'c" where
  "cms_card_info_parse hw aton mb c =
     (let (header, c1) = cms_mem_rd hw mb c;
          len = header_length header;
          (ws, c2) = read_payload hw mb 0 ((len + 3) div 4) c1
      in (cms_card_info_parse_fields aton len 0 (empty_card_info (words_bytes ws)), c2))"

text \<open>
  The outer result is \<open>None\<close> after a read outside of the memory of the description, the inner one is NULL.
\<close>

definition cms_card_info_read ::
  "'c cms_hw \<Rightarrow> cms_layout \<Rightarrow> (8 word list \<Rightarrow> 8 word list \<Rightarrow> 8 word list) \<Rightarrow> 'c \<Rightarrow>
   (cms_card_info option \<times> 'c) option" where
  "cms_card_info_read hw l aton c =
     (case cms_mailbox_post hw l cms_mailbox_opcode_CARD_INFO_REQ [] c of
        (None, c1) \<Rightarrow> Some (None, c1)
      | (Some mb, c1) \<Rightarrow>
        (case cms_card_info_parse hw aton mb c1 of
           (None, _) \<Rightarrow> None
         | (Some info, c2) \<Rightarrow> (let (profile, c3) = cms_profile_get hw c2 in Some (Some (info\<lparr>ci_profile := profile\<rparr>), c3))))"

subsection \<open>Names\<close>

definition nth_name :: "string list \<Rightarrow> 8 word \<Rightarrow> string" where
  "nth_name names v = (if unat v < length names then names ! unat v else ''UNKNOWN'')"

definition cms_card_info_config_mode_to_str :: "8 word \<Rightarrow> string" where
  "cms_card_info_config_mode_to_str = nth_name
     [''SLAVE_SERIAL_X1'', ''SLAVE_SELECT_MAP_X8'', ''SLAVE_SELECT_MAP_X16'', ''SLAVE_SELECT_MAP_X32'',
      ''JTAG_BOUNDARY_SCAN_X1'', ''MASTER_SPI_X1'', ''MASTER_SPI_X2'', ''MASTER_SPI_X4'', ''MASTER_SPI_X8'',
      ''MASTER_BPI_X8'', ''MASTER_BPI_X16'', ''MASTER_SERIAL_X1'', ''MASTER_SELECT_MAP_X8'', ''MASTER_SELECT_MAP_X16'']"

definition cms_card_info_cage_type_to_str :: "8 word \<Rightarrow> string" where
  "cms_card_info_cage_type_to_str = nth_name [''QSFP'', ''DSFP'', ''SFP'']"

end
