(* ===== verification/Opennic_Cms_Module.thy ===== *)
theory Opennic_Cms_Module
  imports Opennic_Cms
begin

text \<open>
  \<^verbatim>\<open>libopennic/src/cms.c\<close>, lines 694 to 1110: the memories and the low speed signals of the modules in the
  cages of a card, by requests to the card management subsystem.  A fixed lower and a paged upper half
  of a module's memory have 128 bytes each.
\<close>

record cms_module_id =
  mid_cage :: "8 word"
  mid_page :: "8 word"
  mid_upper :: bool
  mid_cmis :: bool
  mid_bank :: "8 word"
  mid_sfp_diag :: bool

definition CMS_MODULE_PAGE_SIZE :: nat where "CMS_MODULE_PAGE_SIZE = 128"

text \<open>The words that select a place: the fields are cut to their widths of 2, 8, 1, 1, 1 and 5 bits.\<close>

definition cms_op_module_i2c_select ::
  "8 word \<Rightarrow> 8 word \<Rightarrow> bool \<Rightarrow> bool \<Rightarrow> bool \<Rightarrow> 8 word \<Rightarrow> 32 word list" where
  "cms_op_module_i2c_select cage page upper sfp_diag cmis_bank_valid cmis_bank =
     [ucast (take_bit 2 cage), ucast page,
      or (of_bool upper) (or (push_bit 16 (of_bool sfp_diag))
         (or (push_bit 17 (of_bool cmis_bank_valid)) (push_bit 18 (ucast (take_bit 5 cmis_bank)))))]"

subsection \<open>Memories\<close>

definition cms_module_page_read ::
  "'c cms_hw \<Rightarrow> cms_layout \<Rightarrow> cms_module_id \<Rightarrow> 'c \<Rightarrow> 8 word list option \<times> 'c" where
  "cms_module_page_read hw l mid c =
     (let req = cms_op_module_i2c_select (mid_cage mid) (if mid_upper mid then mid_page mid else 0) (mid_upper mid)
                  (mid_sfp_diag mid) (mid_cmis mid) (if mid_cmis mid then mid_bank mid else 0) in
      case cms_mailbox_post hw l cms_mailbox_opcode_BLOCK_READ_MODULE_I2C req c of
        (None, c1) \<Rightarrow> (None, c1)
      | (Some mb, c1) \<Rightarrow>
          (let (sz, c2) = cms_mem_rd hw (payload_addr mb 3) c1 in
           if unat sz \<noteq> CMS_MODULE_PAGE_SIZE then (None, c2)
           else let (ws, c3) = read_payload hw mb 4 (unat sz div 4) c2 in (Some (words_bytes ws), c3)))"

definition byte_select :: "cms_module_id \<Rightarrow> 8 word \<Rightarrow> 32 word list" where
  "byte_select mid offset =
     (let upper = CMS_MODULE_PAGE_SIZE \<le> unat offset in
      cms_op_module_i2c_select (mid_cage mid) (if upper then mid_page mid else 0) upper
        (mid_sfp_diag mid) (mid_cmis mid) (if mid_cmis mid then mid_bank mid else 0))"

definition cms_module_byte_read ::
  "'c cms_hw \<Rightarrow> cms_layout \<Rightarrow> cms_module_id \<Rightarrow> 8 word \<Rightarrow> 'c \<Rightarrow> 8 word option \<times> 'c" where
  "cms_module_byte_read hw l mid offset c =
     (case cms_mailbox_post hw l cms_mailbox_opcode_BYTE_READ_MODULE_I2C (byte_select mid offset @ [ucast offset]) c of
        (None, c1) \<Rightarrow> (None, c1)
      | (Some mb, c1) \<Rightarrow> (let (w, c2) = cms_mem_rd hw (payload_addr mb 4) c1 in (Some (ucast w), c2)))"

definition cms_module_byte_write ::
  "'c cms_hw \<Rightarrow> cms_layout \<Rightarrow> cms_module_id \<Rightarrow> 8 word \<Rightarrow> 8 word \<Rightarrow> 'c \<Rightarrow> bool \<times> 'c" where
  "cms_module_byte_write hw l mid offset val c =
     (case cms_mailbox_post hw l cms_mailbox_opcode_BYTE_WRITE_MODULE_I2C
             (byte_select mid offset @ [ucast offset, ucast val]) c of
        (None, c1) \<Rightarrow> (False, c1)
      | (Some mb, c1) \<Rightarrow> (True, c1))"

subsection \<open>Signals\<close>

record cms_dsfp_gpio =
  dsfp_reset :: bool
  dsfp_low_power_mode :: bool
  dsfp_present :: bool
  dsfp_interrupt :: bool

datatype cms_module_gpio_type = cms_module_gpio_type_SFP | cms_module_gpio_type_DSFP | cms_module_gpio_type_QSFP

datatype cms_module_gpio =
    GPIO_SFP bool
  | GPIO_DSFP cms_dsfp_gpio
  | GPIO_QSFP cms_qsfp_gpio

text \<open>The inputs and outputs of a QSFP module whose names end in \<open>_l\<close> are active when they are low.\<close>

definition decode_gpio :: "cms_module_gpio_type \<Rightarrow> 32 word \<Rightarrow> cms_module_gpio" where
  "decode_gpio t w =
     (case t of
        cms_module_gpio_type_SFP \<Rightarrow> GPIO_SFP (bit w 3)
      | cms_module_gpio_type_DSFP \<Rightarrow>
          GPIO_DSFP \<lparr>dsfp_reset = bit w 0, dsfp_low_power_mode = bit w 1, dsfp_present = bit w 3, dsfp_interrupt = bit w 4\<rparr>
      | cms_module_gpio_type_QSFP \<Rightarrow>
          GPIO_QSFP \<lparr>qsfp_reset = (\<not> bit w 0), qsfp_low_power_mode = bit w 1, qsfp_select = (\<not> bit w 2),
                     qsfp_present = (\<not> bit w 3), qsfp_interrupt = (\<not> bit w 4)\<rparr>)"

definition cms_module_gpio_read ::
  "'c cms_hw \<Rightarrow> cms_layout \<Rightarrow> 8 word \<Rightarrow> cms_module_gpio_type \<Rightarrow> 'c \<Rightarrow> cms_module_gpio option \<times> 'c" where
  "cms_module_gpio_read hw l cage t c =
     (case cms_mailbox_post hw l cms_mailbox_opcode_READ_MODULE_LOW_SPEED_IO [ucast (take_bit 2 cage)] c of
        (None, c1) \<Rightarrow> (None, c1)
      | (Some mb, c1) \<Rightarrow> (let (w, c2) = cms_mem_rd hw (payload_addr mb 1) c1 in (Some (decode_gpio t w), c2)))"

definition encode_gpio :: "cms_module_gpio \<Rightarrow> 32 word option" where
  "encode_gpio g =
     (case g of
        GPIO_SFP _ \<Rightarrow> None
      | GPIO_DSFP d \<Rightarrow> Some (or (of_bool (dsfp_reset d)) (push_bit 1 (of_bool (dsfp_low_power_mode d))))
      | GPIO_QSFP q \<Rightarrow> Some (or (of_bool (\<not> qsfp_reset q)) (push_bit 1 (of_bool (qsfp_low_power_mode q)))))"

definition cms_module_gpio_write ::
  "'c cms_hw \<Rightarrow> cms_layout \<Rightarrow> 8 word \<Rightarrow> cms_module_gpio \<Rightarrow> 'c \<Rightarrow> bool \<times> 'c" where
  "cms_module_gpio_write hw l cage g c =
     (case encode_gpio g of None \<Rightarrow> (False, c)
      | Some w \<Rightarrow>
        (case cms_mailbox_post hw l cms_mailbox_opcode_WRITE_MODULE_LOW_SPEED_IO [ucast (take_bit 2 cage), w] c of
           (None, c1) \<Rightarrow> (False, c1)
         | (Some mb, c1) \<Rightarrow> (True, c1)))"

end
