(* ===== verification/Opennic_Cms_Stats.thy ===== *)
theory Opennic_Cms_Stats
  imports Opennic_Cms_Module Opennic_Switch_Stats
begin

text \<open>
  \<^verbatim>\<open>libopennic/src/cms.c\<close>, lines 1112 to 1670: the monitors of a card and of its modules as statistics
  zones.  The arithmetic of doubles and the values of their literals are the parameter \<open>fp_ops\<close>.
\<close>

record fp_ops =
  fp_of_int :: "int \<Rightarrow> double_bits"
  fp_literal :: "string \<Rightarrow> double_bits"
  fp_div :: "double_bits \<Rightarrow> double_bits \<Rightarrow> double_bits"
  fp_mul :: "double_bits \<Rightarrow> double_bits \<Rightarrow> double_bits"
  fp_add :: "double_bits \<Rightarrow> double_bits \<Rightarrow> double_bits"

text \<open>The subsystem of a card is in the rest of its BAR.\<close>

definition on_bar_rest :: "('x \<Rightarrow> 'a \<times> 'x) \<Rightarrow> 'x esnet_smartnic_bar2 \<Rightarrow> 'a \<times> 'x esnet_smartnic_bar2" where
  "on_bar_rest f h = (let (a, x) = f (bar_rest h) in (a, h\<lparr>bar_rest := x\<rparr>))"

subsection \<open>Monitors of a card\<close>

definition profile_code :: "cms_profile \<Rightarrow> nat" where
  "profile_code p =
     (case p of cms_profile_NONE \<Rightarrow> 0 | cms_profile_U200_U250 \<Rightarrow> 1 | cms_profile_U280 \<Rightarrow> 2 | cms_profile_U50 \<Rightarrow> 3
      | cms_profile_U55 \<Rightarrow> 4 | cms_profile_UL3524 \<Rightarrow> 5 | cms_profile_U45N \<Rightarrow> 6 | cms_profile_X3522 \<Rightarrow> 7)"

definition CMS_PROFILE_MASK :: "cms_profile \<Rightarrow> 64 word" where
  "CMS_PROFILE_MASK p = push_bit (profile_code p) 1"

definition profiles_mask :: "cms_profile list \<Rightarrow> 64 word" where
  "profiles_mask ps = fold (\<lambda>p m. or m (CMS_PROFILE_MASK p)) ps 0"

text \<open>The flags: bit 0 for the format of an ADC, bit 1 for thousandths.\<close>

record cms_card_metric =
  cm_spec :: stats_metric_spec
  cm_is_adc :: bool
  cm_in_milli :: bool
  cm_profile_mask :: "64 word"

definition card_flags :: "cms_card_metric \<Rightarrow> nat" where
  "card_flags cm = of_bool (cm_is_adc cm) + 2 * of_bool (cm_in_milli cm)"

definition cms_metric_spec ::
  "'x bar_env \<Rightarrow> string \<Rightarrow> stats_metric_type \<Rightarrow> string \<Rightarrow> nat \<Rightarrow> nat \<Rightarrow> bool \<Rightarrow> stats_metric_spec" where
  "cms_metric_spec be name mtype reg width pos invert =
     \<lparr>mspec_name = name, mspec_nelements = 0, mspec_labels = [], mspec_type = mtype, mspec_flags = 0,
      mspec_init_value = 0,
      mspec_io = \<lparr>io_offset = be_offsetof be ''cms_block'' reg, io_size = be_sizeof be ''cms_block'' reg, io_width = width,
                  io_shift = pos, io_invert = invert, io_data = 0\<rparr>\<rparr>"

definition CMS_CARD_METRIC_ADC ::
  "'x bar_env \<Rightarrow> string \<times> bool \<times> cms_profile list \<Rightarrow> cms_card_metric list" where
  "CMS_CARD_METRIC_ADC be = (\<lambda>(name, in_milli, ps).
     map (\<lambda>suffix. \<lparr>cm_spec = cms_metric_spec be (name @ suffix) METRIC_GAUGE (name @ suffix @ ''_reg'') 0 0 False,
                    cm_is_adc = True, cm_in_milli = in_milli, cm_profile_mask = profiles_mask ps\<rparr>)
       [''_max'', ''_avg'', ''_ins''])"

definition CMS_CARD_METRIC_BIT ::
  "'x bar_env \<Rightarrow> string \<Rightarrow> nat \<Rightarrow> bool \<Rightarrow> cms_profile list \<Rightarrow> cms_card_metric" where
  "CMS_CARD_METRIC_BIT be name pos invert ps =
     \<lparr>cm_spec = cms_metric_spec be name METRIC_FLAG (name @ ''_ins_reg'') 1 pos invert, cm_is_adc = False,
      cm_in_milli = False, cm_profile_mask = profiles_mask ps\<rparr>"

definition cms_card_metrics :: "'x bar_env \<Rightarrow> cms_card_metric list" where
  "cms_card_metrics be = concat (map (CMS_CARD_METRIC_ADC be)
     [(''_1v2_vccio'', True, []),
      (''_2v5_vpp23'', True, []),
      (''_3v3_aux'', True, [cms_profile_U280]),
      (''_3v3_pex'', True, [cms_profile_U280, cms_profile_U55]),
      (''_3v3pex_i_in'', True, [cms_profile_U55]),
      (''_12v_aux'', True, [cms_profile_U280, cms_profile_U55]),
      (''_12v_aux1'', True, []),
      (''_12v_aux_i_in'', True, [cms_profile_U280, cms_profile_U55]),
      (''_12v_pex'', True, [cms_profile_U280, cms_profile_U55]),
      (''_12v_sw'', True, [cms_profile_U280]),
      (''_12vpex_i_in'', True, [cms_profile_U280, cms_profile_U55]),
      (''aux_3v3_i'', True, [cms_profile_U280]),
      (''cage_temp0'', False, [cms_profile_U280, cms_profile_U55]),
      (''cage_temp1'', False, [cms_profile_U280, cms_profile_U55]),
      (''cage_temp2'', False, []),
      (''cage_temp3'', False, []),
      (''ddr4_vpp_btm'', True, [cms_profile_U280]),
      (''ddr4_vpp_top'', True, [cms_profile_U280]),
      (''dimm_temp0'', False, [cms_profile_U280]),
      (''dimm_temp1'', False, [cms_profile_U280]),
      (''dimm_temp2'', False, []),
      (''dimm_temp3'', False, []),
      (''fan_speed'', False, [cms_profile_U280]),
      (''fan_temp'', False, [cms_profile_U280]),
      (''fpga_temp'', False, [cms_profile_U280, cms_profile_U55]),
      (''gtavcc'', True, []),
      (''gtvcc_aux'', True, []),
      (''hbm_1v2'', True, [cms_profile_U55]),
      (''hbm_1v2_i'', True, [cms_profile_U55]),
      (''hbm_temp1'', False, [cms_profile_U280, cms_profile_U55]),
      (''hbm_temp2'', False, [cms_profile_U280, cms_profile_U55]),
      (''mgt0v9avcc'', True, [cms_profile_U280, cms_profile_U55]),
      (''cmc_mgtavcc'', True, []),
      (''cmc_mgtavcc_i'', True, []),
      (''mgtavtt'', True, [cms_profile_U280, cms_profile_U55]),
      (''cmc_mgtavtt_i'', True, []),
      (''pex_3v3_power'', True, []),
      (''pex_12v_power'', True, []),
      (''se98_temp0'', False, [cms_profile_U280, cms_profile_U55]),
      (''se98_temp1'', False, [cms_profile_U280, cms_profile_U55]),
      (''se98_temp2'', False, []),
      (''sys_5v5'', True, [cms_profile_U280, cms_profile_U55]),
      (''v12_in_aux0_i'', True, []),
      (''v12_in_aux1_i'', True, []),
      (''v12_in_i'', True, []),
      (''vcc0v85'', True, [cms_profile_U280]),
      (''vcc1v2_btm'', True, [cms_profile_U280]),
      (''vcc1v2_i'', True, []),
      (''vcc1v2_top'', True, [cms_profile_U280]),
      (''cmc_vcc1v5'', True, []),
      (''vcc1v8'', True, [cms_profile_U280, cms_profile_U55]),
      (''vcc3v3'', True, [cms_profile_U55]),
      (''vcc_5v0'', True, []),
      (''vccaux'', True, []),
      (''vccaux_pmc'', True, []),
      (''vccint'', True, [cms_profile_U280, cms_profile_U55]),
      (''vccint_i'', True, [cms_profile_U280, cms_profile_U55]),
      (''vccint_io'', True, [cms_profile_U55]),
      (''vccint_io_i'', True, [cms_profile_U55]),
      (''vccint_power'', True, []),
      (''vccint_temp'', False, [cms_profile_U55]),
      (''vccint_vcu_0v9'', True, []),
      (''vccram'', True, []),
      (''vccsoc'', True, []),
      (''vpp2v5'', True, [cms_profile_U55])]) @
     [CMS_CARD_METRIC_BIT be ''power_good'' 0 True [cms_profile_U280, cms_profile_U55]]"

definition cms_card_stats_attach_metrics ::
  "'x cms_hw \<Rightarrow> cms_layout \<Rightarrow> 'x esnet_smartnic_bar2 \<Rightarrow> 'x esnet_smartnic_bar2" where
  "cms_card_stats_attach_metrics hw l h = h\<lparr>bar_rest := set_control hw (lay_hbm_temp_monitor_enable l) (bar_rest h)\<rparr>"

definition cms_card_stats_convert_metric :: "fp_ops \<Rightarrow> stats_metric_spec \<Rightarrow> 64 word \<Rightarrow> double_bits" where
  "cms_card_stats_convert_metric fp mspec v =
     (let flags = io_data (mspec_io mspec) in
      if odd flags \<and> odd (flags div 2) then fp_div fp (fp_of_int fp (uint v)) (fp_literal fp ''1000.0'')
      else fp_of_int fp (uint v))"

text \<open>The metrics that the profile of the card has.\<close>

definition cms_card_stats_zone_spec ::
  "'x cms_hw \<Rightarrow> cms_layout \<Rightarrow> fp_ops \<Rightarrow> 'x bar_env \<Rightarrow> nat \<Rightarrow> string \<Rightarrow> cms_profile \<Rightarrow> 'x esnet_smartnic_bar2 stats_zone_spec" where
  "cms_card_stats_zone_spec hw l fp be base name profile =
     (let cms = filter (\<lambda>cm. and (cm_profile_mask cm) (CMS_PROFILE_MASK profile) \<noteq> 0) (cms_card_metrics be);
          mspecs = map (\<lambda>cm. (cm_spec cm)\<lparr>mspec_io := (mspec_io (cm_spec cm))\<lparr>io_data := card_flags cm\<rparr>\<rparr>) cms in
      \<lparr>zspec_name = name,
       zspec_blocks =
         [\<lparr>bspec_name = ''cms'', bspec_metrics = mspecs, bspec_io_base = base,
           bspec_attach_metrics = Some (cms_card_stats_attach_metrics hw l), bspec_detach_metrics = None,
           bspec_latch_metrics = None, bspec_release_metrics = None, bspec_read_metric = None,
           bspec_convert_metric = Some (\<lambda>_. cms_card_stats_convert_metric fp)\<rparr>]\<rparr>)"

text \<open>\<open>Inr None\<close> is NULL: the subsystem did not become ready.\<close>

definition cms_card_stats_zone_alloc ::
  "'x cms_hw \<Rightarrow> cms_layout \<Rightarrow> fp_ops \<Rightarrow> 'x bar_env \<Rightarrow> nat \<Rightarrow> nat \<Rightarrow> string \<Rightarrow>
   'x esnet_smartnic_bar2 stats_domain \<Rightarrow> 'x esnet_smartnic_bar2 \<Rightarrow>
   stats_stop + (('x esnet_smartnic_bar2 stats_domain option) \<times> 'x esnet_smartnic_bar2)" where
  "cms_card_stats_zone_alloc hw l fp be z base name domain h =
     (let (ready, h1) = on_bar_rest (cms_reg_map_is_ready hw l) h in
      if \<not> ready then Inr (None, h1)
      else let (profile, h2) = on_bar_rest (cms_profile_get hw) h1 in
        (case stats_zone_alloc z (cms_card_stats_zone_spec hw l fp be base name profile) domain h2 of Inl e \<Rightarrow> Inl e
         | Inr (d, h3) \<Rightarrow> Inr (Some d, h3)))"

definition cms_card_stats_zone_free ::
  "nat option \<Rightarrow> 'x esnet_smartnic_bar2 stats_domain \<Rightarrow> 'x esnet_smartnic_bar2 \<Rightarrow>
   stats_stop + ('x esnet_smartnic_bar2 stats_domain \<times> 'x esnet_smartnic_bar2)" where
  "cms_card_stats_zone_free zone domain h = stats_zone_free zone domain h"

subsection \<open>Monitors of a module\<close>

text \<open>The type of a metric is its number in the C enumeration.\<close>

definition cms_module_metric_type_GPIO :: nat where "cms_module_metric_type_GPIO = 0"
definition cms_module_metric_type_ALARM :: nat where "cms_module_metric_type_ALARM = 1"
definition cms_module_metric_type_MONITOR_MIN :: nat where "cms_module_metric_type_MONITOR_MIN = 2"
definition cms_module_metric_type_MONITOR_TEMP :: nat where "cms_module_metric_type_MONITOR_TEMP = 2"
definition cms_module_metric_type_MONITOR_VOLTAGE :: nat where "cms_module_metric_type_MONITOR_VOLTAGE = 3"
definition cms_module_metric_type_MONITOR_CURRENT :: nat where "cms_module_metric_type_MONITOR_CURRENT = 4"
definition cms_module_metric_type_MONITOR_OPTICAL_POWER :: nat where "cms_module_metric_type_MONITOR_OPTICAL_POWER = 5"
definition cms_module_metric_type_MONITOR_MAX :: nat where "cms_module_metric_type_MONITOR_MAX = 6"

lemmas cms_module_metric_types =
  cms_module_metric_type_GPIO_def cms_module_metric_type_ALARM_def cms_module_metric_type_MONITOR_MIN_def
  cms_module_metric_type_MONITOR_TEMP_def cms_module_metric_type_MONITOR_VOLTAGE_def
  cms_module_metric_type_MONITOR_CURRENT_def cms_module_metric_type_MONITOR_OPTICAL_POWER_def
  cms_module_metric_type_MONITOR_MAX_def

definition module_metric ::
  "string \<Rightarrow> stats_metric_type \<Rightarrow> nat \<Rightarrow> nat \<Rightarrow> nat \<Rightarrow> nat \<Rightarrow> nat \<Rightarrow> stats_metric_spec" where
  "module_metric name mtype offset sz width pos flags =
     \<lparr>mspec_name = name, mspec_nelements = 0, mspec_labels = [], mspec_type = mtype, mspec_flags = 0,
      mspec_init_value = 0,
      mspec_io = \<lparr>io_offset = offset, io_size = sz, io_width = width, io_shift = pos, io_invert = False,
                  io_data = flags\<rparr>\<rparr>"

text \<open>The signals of a QSFP module are the bytes after the four of the type, in the order of the structure.\<close>

definition CMS_MODULE_METRIC_QSFP_GPIO :: "string \<times> nat \<Rightarrow> stats_metric_spec" where
  "CMS_MODULE_METRIC_QSFP_GPIO = (\<lambda>(name, place).
     module_metric (''qsfp_gpio_'' @ name) METRIC_FLAG (4 + place) 0 0 0 cms_module_metric_type_GPIO)"

definition CMS_MODULE_METRIC_ALARM :: "string \<times> nat \<times> nat \<Rightarrow> stats_metric_spec" where
  "CMS_MODULE_METRIC_ALARM = (\<lambda>(name, offset, pos).
     module_metric name METRIC_FLAG offset 1 1 pos cms_module_metric_type_ALARM)"

definition CMS_MODULE_METRIC_MONITOR :: "string \<times> nat \<times> nat \<Rightarrow> stats_metric_spec" where
  "CMS_MODULE_METRIC_MONITOR = (\<lambda>(name, mtype, offset). module_metric name METRIC_GAUGE offset 2 0 0 mtype)"

definition cms_module_metrics :: "stats_metric_spec list" where
  "cms_module_metrics =
     map CMS_MODULE_METRIC_QSFP_GPIO
     [(''reset'', 0), (''low_power_mode'', 1), (''select'', 2), (''present'', 3), (''interrupt'', 4)] @
     map CMS_MODULE_METRIC_ALARM
     [(''channel_los_rx1'', 3, 0), (''channel_los_rx2'', 3, 1), (''channel_los_rx3'', 3, 2),
      (''channel_los_rx4'', 3, 3), (''channel_los_tx1'', 3, 4), (''channel_los_tx2'', 3, 5),
      (''channel_los_tx3'', 3, 6), (''channel_los_tx4'', 3, 7), (''channel_fault_tx1'', 4, 0),
      (''channel_fault_tx2'', 4, 1), (''channel_fault_tx3'', 4, 2), (''channel_fault_tx4'', 4, 3),
      (''channel_fault_tx1_equalizer'', 4, 4), (''channel_fault_tx2_equalizer'', 4, 5), (''channel_fault_tx3_equalizer'', 4, 6),
      (''channel_fault_tx4_equalizer'', 4, 7), (''channel_lol_rx1'', 5, 0), (''channel_lol_rx2'', 5, 1),
      (''channel_lol_rx3'', 5, 2), (''channel_lol_rx4'', 5, 3), (''channel_lol_tx1'', 5, 4),
      (''channel_lol_tx2'', 5, 5), (''channel_lol_tx3'', 5, 6), (''channel_lol_tx4'', 5, 7),
      (''temp_low_warning'', 6, 4), (''temp_high_warning'', 6, 5), (''temp_low_alarm'', 6, 6),
      (''temp_high_alarm'', 6, 7), (''vcc_low_warning'', 7, 4), (''vcc_high_warning'', 7, 5),
      (''vcc_low_alarm'', 7, 6), (''vcc_high_alarm'', 7, 7), (''channel_power_low_warning_rx2'', 9, 0),
      (''channel_power_high_warning_rx2'', 9, 1), (''channel_power_low_alarm_rx2'', 9, 2), (''channel_power_high_alarm_rx2'', 9, 3),
      (''channel_power_low_warning_rx1'', 9, 4), (''channel_power_high_warning_rx1'', 9, 5), (''channel_power_low_alarm_rx1'', 9, 6),
      (''channel_power_high_alarm_rx1'', 9, 7), (''channel_power_low_warning_rx4'', 10, 0), (''channel_power_high_warning_rx4'', 10, 1),
      (''channel_power_low_alarm_rx4'', 10, 2), (''channel_power_high_alarm_rx4'', 10, 3), (''channel_power_low_warning_rx3'', 10, 4),
      (''channel_power_high_warning_rx3'', 10, 5), (''channel_power_low_alarm_rx3'', 10, 6), (''channel_power_high_alarm_rx3'', 10, 7),
      (''channel_bias_low_warning_tx2'', 11, 0), (''channel_bias_high_warning_tx2'', 11, 1), (''channel_bias_low_alarm_tx2'', 11, 2),
      (''channel_bias_high_alarm_tx2'', 11, 3), (''channel_bias_low_warning_tx1'', 11, 4), (''channel_bias_high_warning_tx1'', 11, 5),
      (''channel_bias_low_alarm_tx1'', 11, 6), (''channel_bias_high_alarm_tx1'', 11, 7), (''channel_bias_low_warning_tx4'', 12, 0),
      (''channel_bias_high_warning_tx4'', 12, 1), (''channel_bias_low_alarm_tx4'', 12, 2), (''channel_bias_high_alarm_tx4'', 12, 3),
      (''channel_bias_low_warning_tx3'', 12, 4), (''channel_bias_high_warning_tx3'', 12, 5), (''channel_bias_low_alarm_tx3'', 12, 6),
      (''channel_bias_high_alarm_tx3'', 12, 7), (''channel_power_low_warning_tx2'', 13, 0), (''channel_power_high_warning_tx2'', 13, 1),
      (''channel_power_low_alarm_tx2'', 13, 2), (''channel_power_high_alarm_tx2'', 13, 3), (''channel_power_low_warning_tx1'', 13, 4),
      (''channel_power_high_warning_tx1'', 13, 5), (''channel_power_low_alarm_tx1'', 13, 6), (''channel_power_high_alarm_tx1'', 13, 7),
      (''channel_power_low_warning_tx4'', 14, 0), (''channel_power_high_warning_tx4'', 14, 1), (''channel_power_low_alarm_tx4'', 14, 2),
      (''channel_power_high_alarm_tx4'', 14, 3), (''channel_power_low_warning_tx3'', 14, 4), (''channel_power_high_warning_tx3'', 14, 5),
      (''channel_power_low_alarm_tx3'', 14, 6), (''channel_power_high_alarm_tx3'', 14, 7)] @
     map CMS_MODULE_METRIC_MONITOR
     [(''temp'', cms_module_metric_type_MONITOR_TEMP, 22), (''vcc'', cms_module_metric_type_MONITOR_VOLTAGE, 26),
      (''channel_power_rx1'', cms_module_metric_type_MONITOR_OPTICAL_POWER, 34), (''channel_power_rx2'', cms_module_metric_type_MONITOR_OPTICAL_POWER, 36),
      (''channel_power_rx3'', cms_module_metric_type_MONITOR_OPTICAL_POWER, 38), (''channel_power_rx4'', cms_module_metric_type_MONITOR_OPTICAL_POWER, 40),
      (''channel_bias_tx1'', cms_module_metric_type_MONITOR_CURRENT, 42), (''channel_bias_tx2'', cms_module_metric_type_MONITOR_CURRENT, 44),
      (''channel_bias_tx3'', cms_module_metric_type_MONITOR_CURRENT, 46), (''channel_bias_tx4'', cms_module_metric_type_MONITOR_CURRENT, 48),
      (''channel_power_tx1'', cms_module_metric_type_MONITOR_OPTICAL_POWER, 50), (''channel_power_tx2'', cms_module_metric_type_MONITOR_OPTICAL_POWER, 52),
      (''channel_power_tx3'', cms_module_metric_type_MONITOR_OPTICAL_POWER, 54), (''channel_power_tx4'', cms_module_metric_type_MONITOR_OPTICAL_POWER, 56)]"

definition gpio_at :: "cms_qsfp_gpio \<Rightarrow> nat \<Rightarrow> bool" where
  "gpio_at g offset =
     [qsfp_reset g, qsfp_low_power_mode g, qsfp_select g, qsfp_present g, qsfp_interrupt g] ! (offset - 4)"

text \<open>The engine clears the buffer before it calls the function that latches.\<close>

definition cleared_latch :: cms_module_block_latch_data where
  "cleared_latch =
     \<lparr>latch_gpio = \<lparr>qsfp_reset = False, qsfp_low_power_mode = False, qsfp_select = False, qsfp_present = False,
                    qsfp_interrupt = False\<rparr>, latch_lo = None\<rparr>"

definition latch_module ::
  "'c cms_hw \<Rightarrow> cms_layout \<Rightarrow> nat \<Rightarrow> 'c \<Rightarrow> cms_module_block_latch_data \<times> 'c" where
  "latch_module hw l cage c =
     (case cms_module_gpio_read hw l (of_nat cage) cms_module_gpio_type_QSFP c of
        (Some (GPIO_QSFP g), c1) \<Rightarrow>
          (if qsfp_present g \<and> \<not> qsfp_reset g
           then let (page, c2) = cms_module_page_read hw l
                      \<lparr>mid_cage = of_nat cage, mid_page = 0, mid_upper = False, mid_cmis = False, mid_bank = 0,
                       mid_sfp_diag = False\<rparr> c1
                in (cleared_latch\<lparr>latch_gpio := g, latch_lo := page\<rparr>, c2)
           else (cleared_latch\<lparr>latch_gpio := g\<rparr>, c1))
      | (_, c1) \<Rightarrow> (cleared_latch, c1))"

definition cms_module_stats_latch_metrics ::
  "'x cms_hw \<Rightarrow> cms_layout \<Rightarrow> nat \<Rightarrow> 'x esnet_smartnic_bar2 \<Rightarrow> 'x esnet_smartnic_bar2" where
  "cms_module_stats_latch_metrics hw l cage h =
     (let (latch, h1) = on_bar_rest (latch_module hw l cage) h in h1\<lparr>module_latch := (module_latch h1)(cage := latch)\<rparr>)"

definition cms_module_stats_release_metrics :: "nat \<Rightarrow> 'x esnet_smartnic_bar2 \<Rightarrow> 'x esnet_smartnic_bar2" where
  "cms_module_stats_release_metrics cage h =
     h\<lparr>module_latch := (module_latch h)(cage := (module_latch h cage)\<lparr>latch_lo := None\<rparr>)\<rparr>"

definition cms_module_stats_read_metric ::
  "nat \<Rightarrow> 'x esnet_smartnic_bar2 \<Rightarrow> stats_metric_spec \<Rightarrow> nat \<Rightarrow> 64 word list" where
  "cms_module_stats_read_metric cage h mspec nvalues =
     (let latch = module_latch h cage; t = io_data (mspec_io mspec); offset = io_offset (mspec_io mspec) in
      [if t = cms_module_metric_type_GPIO then of_bool (gpio_at (latch_gpio latch) offset)
       else if t = cms_module_metric_type_ALARM then
         (case latch_lo latch of None \<Rightarrow> 0
          | Some page \<Rightarrow> of_bool (bit (page ! offset) (io_shift (mspec_io mspec))))
       else if cms_module_metric_type_MONITOR_MIN \<le> t \<and> t < cms_module_metric_type_MONITOR_MAX then
         (case latch_lo latch of None \<Rightarrow> - 1
          | Some page \<Rightarrow> or (push_bit 8 (ucast (page ! offset))) (ucast (page ! Suc offset)))
       else 0])"

text \<open>The value of a monitor that could not be read is infinity; temperatures are signed numbers of 16 bits.\<close>

definition cms_module_stats_convert_metric :: "fp_ops \<Rightarrow> stats_metric_spec \<Rightarrow> 64 word \<Rightarrow> double_bits" where
  "cms_module_stats_convert_metric fp mspec v =
     (let t = io_data (mspec_io mspec);
          u = fp_of_int fp (uint (ucast v :: 16 word)) in
      if v = - 1 then fp_literal fp ''HUGE_VAL''
      else if t = cms_module_metric_type_GPIO \<or> t = cms_module_metric_type_ALARM
        then fp_literal fp (if v \<noteq> 0 then ''1.0'' else ''0.0'')
      else if t = cms_module_metric_type_MONITOR_TEMP
        then fp_div fp (fp_of_int fp (sint (ucast v :: 16 word))) (fp_literal fp ''256.0'')
      else if t = cms_module_metric_type_MONITOR_VOLTAGE then fp_mul fp u (fp_literal fp ''100e-6'')
      else if t = cms_module_metric_type_MONITOR_CURRENT then fp_mul fp u (fp_literal fp ''2e-6'')
      else if t = cms_module_metric_type_MONITOR_OPTICAL_POWER then fp_mul fp u (fp_literal fp ''0.1e-6'')
      else fp_literal fp ''0.0'')"

definition cms_module_stats_zone_spec ::
  "'x cms_hw \<Rightarrow> cms_layout \<Rightarrow> fp_ops \<Rightarrow> nat \<Rightarrow> nat \<Rightarrow> string \<Rightarrow> 'x esnet_smartnic_bar2 stats_zone_spec" where
  "cms_module_stats_zone_spec hw l fp base cage name =
     (let cage = cage mod 4 in
      \<lparr>zspec_name = name,
       zspec_blocks =
         [\<lparr>bspec_name = ''cms'', bspec_metrics = cms_module_metrics, bspec_io_base = base,
           bspec_attach_metrics = None, bspec_detach_metrics = None,
           bspec_latch_metrics = Some (cms_module_stats_latch_metrics hw l cage),
           bspec_release_metrics = Some (cms_module_stats_release_metrics cage),
           bspec_read_metric = Some (cms_module_stats_read_metric cage),
           bspec_convert_metric = Some (\<lambda>_. cms_module_stats_convert_metric fp)\<rparr>]\<rparr>)"

definition cms_module_stats_zone_alloc ::
  "'x cms_hw \<Rightarrow> cms_layout \<Rightarrow> fp_ops \<Rightarrow> nat \<Rightarrow> nat \<Rightarrow> nat \<Rightarrow> string \<Rightarrow>
   'x esnet_smartnic_bar2 stats_domain \<Rightarrow> 'x esnet_smartnic_bar2 \<Rightarrow>
   stats_stop + (('x esnet_smartnic_bar2 stats_domain option) \<times> 'x esnet_smartnic_bar2)" where
  "cms_module_stats_zone_alloc hw l fp z base cage name domain h =
     (let (ready, h1) = on_bar_rest (cms_reg_map_is_ready hw l) h in
      if \<not> ready then Inr (None, h1)
      else case stats_zone_alloc z (cms_module_stats_zone_spec hw l fp base cage name) domain h1 of Inl e \<Rightarrow> Inl e
        | Inr (d, h2) \<Rightarrow> Inr (Some d, h2))"

definition cms_module_stats_zone_free ::
  "nat option \<Rightarrow> 'x esnet_smartnic_bar2 stats_domain \<Rightarrow> 'x esnet_smartnic_bar2 \<Rightarrow>
   stats_stop + ('x esnet_smartnic_bar2 stats_domain \<times> 'x esnet_smartnic_bar2)" where
  "cms_module_stats_zone_free zone domain h = stats_zone_free zone domain h"

definition cms_module_stats_is_gpio_metric :: "stats_metric_spec \<Rightarrow> bool" where
  "cms_module_stats_is_gpio_metric mspec \<longleftrightarrow> io_data (mspec_io mspec) = cms_module_metric_type_GPIO"

definition cms_module_stats_is_alarm_metric :: "stats_metric_spec \<Rightarrow> bool" where
  "cms_module_stats_is_alarm_metric mspec \<longleftrightarrow> io_data (mspec_io mspec) = cms_module_metric_type_ALARM"

definition cms_module_stats_is_monitor_metric :: "stats_metric_spec \<Rightarrow> bool" where
  "cms_module_stats_is_monitor_metric mspec \<longleftrightarrow>
     cms_module_metric_type_MONITOR_MIN \<le> io_data (mspec_io mspec) \<and>
     io_data (mspec_io mspec) < cms_module_metric_type_MONITOR_MAX"

end
