(* ===== verification/Opennic_Sysmon.thy ===== *)
theory Opennic_Sysmon
  imports Opennic_Cms_Stats
begin

text \<open>
  \<^verbatim>\<open>libopennic/src/sysmon.c\<close> and \<^verbatim>\<open>sysmon.h\<close>: the system monitors of the card, their sequencers and
  their measurements as statistics zones.  What a reset does to the registers, and their fields, are parameters.
\<close>

record sysmon_layout =
  lay_seq :: bitfield
  lay_SEQ_SINGLE_CHANNEL :: "32 word"
  lay_SEQ_CONTINUOUS :: "32 word"
  lay_ref :: bitfield
  lay_REF_EXTERNAL :: "32 word"
  lay_software_reset :: "sysmon_block \<Rightarrow> sysmon_block"

subsection \<open>Channels\<close>

datatype sysmon_channel =
    VUSER "nat" | VCC_PSINTLP | VCC_PSINTFP | VCC_PSAUX | TEMP | VCCINT | VCCAUX | VP_VN | VREFP | VREFN | VCCBRAM
  | VAUX "nat"

definition channel_number :: "sysmon_channel \<Rightarrow> nat" where
  "channel_number ch =
     (case ch of VUSER n \<Rightarrow> n | VCC_PSINTLP \<Rightarrow> 21 | VCC_PSINTFP \<Rightarrow> 22 | VCC_PSAUX \<Rightarrow> 23 | TEMP \<Rightarrow> 24 | VCCINT \<Rightarrow> 25
      | VCCAUX \<Rightarrow> 26 | VP_VN \<Rightarrow> 27 | VREFP \<Rightarrow> 28 | VREFN \<Rightarrow> 29 | VCCBRAM \<Rightarrow> 30 | VAUX n \<Rightarrow> 32 + n)"

definition SYSMON_CHANNEL_MASK :: "sysmon_channel \<Rightarrow> 64 word" where
  "SYSMON_CHANNEL_MASK ch = push_bit (channel_number ch) 1"

definition channels_mask :: "sysmon_channel list \<Rightarrow> 64 word" where
  "channels_mask chs = foldr (\<lambda>ch m. or (SYSMON_CHANNEL_MASK ch) m) chs 0"

definition SYSMON_TEMP_CHANNELS_MASK :: "64 word" where
  "SYSMON_TEMP_CHANNELS_MASK = SYSMON_CHANNEL_MASK TEMP"

definition SYSMON_SUPPLY_CHANNELS_MASK :: "64 word" where
  "SYSMON_SUPPLY_CHANNELS_MASK =
     channels_mask [VUSER 0, VUSER 1, VUSER 2, VUSER 3, VCC_PSINTLP, VCC_PSINTFP, VCC_PSAUX, VCCINT, VCCAUX, VCCBRAM]"

definition SYSMON_ANALOG_CHANNELS_MASK :: "64 word" where
  "SYSMON_ANALOG_CHANNELS_MASK =
     or (SYSMON_CHANNEL_MASK VP_VN)
        (and (push_bit 1 (SYSMON_CHANNEL_MASK (VAUX 15)) - 1) (not (SYSMON_CHANNEL_MASK (VAUX 0) - 1)))"

subsection \<open>Control\<close>

definition sysmon_master_reset :: "sysmon_layout \<Rightarrow> sysmon_block \<Rightarrow> sysmon_block" where
  "sysmon_master_reset l b = lay_software_reset l (b\<lparr>software_reset := 0xa\<rparr>)"

definition sysmon_sequencer_enable ::
  "sysmon_layout \<Rightarrow> 64 word \<Rightarrow> 64 word \<Rightarrow> sysmon_block \<Rightarrow> sysmon_block" where
  "sysmon_sequencer_enable l select_mask average_mask b =
     (let reg = bf_set (lay_seq l) (lay_SEQ_SINGLE_CHANNEL l) (config_reg_1 b);
          b1 = b\<lparr>config_reg_1 := reg,
                 seqchsel0 := ucast (and select_mask 0xffff),
                 seqavg0 := ucast (and average_mask 0xffff),
                 seqchsel1 := ucast (and (drop_bit 16 select_mask) 0xffff),
                 seqavg1 := ucast (and (drop_bit 16 average_mask) 0xffff),
                 seqchsel2 := ucast (and (drop_bit 32 select_mask) 0xffff),
                 seqavg2 := ucast (and (drop_bit 32 average_mask) 0xffff)\<rparr>
      in b1\<lparr>config_reg_1 := bf_set (lay_seq l) (lay_SEQ_CONTINUOUS l) reg\<rparr>)"

definition sysmon_select_mask :: "sysmon_block \<Rightarrow> 64 word" where
  "sysmon_select_mask b =
     or (push_bit 16 (or (push_bit 16 (and (ucast (seqchsel2 b)) 0xffff)) (and (ucast (seqchsel1 b)) 0xffff)))
        (and (ucast (seqchsel0 b)) 0xffff)"

definition sysmon_bipolar_mask :: "sysmon_block \<Rightarrow> 64 word" where
  "sysmon_bipolar_mask b =
     push_bit 16 (or (push_bit 16 (and (ucast (seqinmode1 b)) 0xffff)) (and (ucast (seqinmode0 b)) 0xffff))"

subsection \<open>Metrics\<close>

record sysmon_metric =
  sm_spec :: stats_metric_spec
  sm_channel_mask :: "64 word"

definition sysmon_metric_spec ::
  "'x bar_env \<Rightarrow> string \<Rightarrow> stats_metric_type \<Rightarrow> string \<Rightarrow> nat \<Rightarrow> nat \<Rightarrow> stats_metric_spec" where
  "sysmon_metric_spec be name mtype reg width pos =
     \<lparr>mspec_name = name, mspec_nelements = 0, mspec_labels = [], mspec_type = mtype, mspec_flags = 0,
      mspec_init_value = 0,
      mspec_io = \<lparr>io_offset = be_offsetof be ''sysmon_block'' reg, io_size = be_sizeof be ''sysmon_block'' reg,
                  io_width = width, io_shift = pos, io_invert = False, io_data = 0\<rparr>\<rparr>"

definition SYSMON_METRIC :: "'x bar_env \<Rightarrow> string \<times> sysmon_channel \<Rightarrow> sysmon_metric" where
  "SYSMON_METRIC be = (\<lambda>(name, ch).
     \<lparr>sm_spec = sysmon_metric_spec be name METRIC_GAUGE name 10 6, sm_channel_mask = SYSMON_CHANNEL_MASK ch\<rparr>)"

definition SYSMON_METRIC_MIN_MAX :: "'x bar_env \<Rightarrow> string \<times> sysmon_channel \<Rightarrow> sysmon_metric list" where
  "SYSMON_METRIC_MIN_MAX be = (\<lambda>(name, ch).
     map (SYSMON_METRIC be) [(name, ch), (''min_'' @ name, ch), (''max_'' @ name, ch)])"

definition SYSMON_METRIC_ALARM :: "'x bar_env \<Rightarrow> string \<times> nat \<times> sysmon_channel list \<Rightarrow> sysmon_metric" where
  "SYSMON_METRIC_ALARM be = (\<lambda>(name, pos, chs).
     \<lparr>sm_spec = sysmon_metric_spec be (name @ ''_alarm'') METRIC_FLAG ''alarm_output_status'' 1 pos,
      sm_channel_mask = channels_mask chs\<rparr>)"

definition sysmon_metrics :: "'x bar_env \<Rightarrow> sysmon_metric list" where
  "sysmon_metrics be =
     concat (map (SYSMON_METRIC_MIN_MAX be)
       [(''temperature'', TEMP), (''vccint'', VCCINT), (''vccaux'', VCCAUX), (''vccbram'', VCCBRAM),
        (''vcc_psintlp'', VCC_PSINTLP), (''vcc_psintfp'', VCC_PSINTFP), (''vcc_psaux'', VCC_PSAUX),
        (''vuser0'', VUSER 0), (''vuser1'', VUSER 1), (''vuser2'', VUSER 2), (''vuser3'', VUSER 3)]) @
     map (SYSMON_METRIC be) [(''vp_vn'', VP_VN), (''vrefp'', VREFP), (''vrefn'', VREFN)] @
     map (\<lambda>n. SYSMON_METRIC be (''vaux['' @ dec n @ '']'', VAUX n)) [0..<16] @
     map (SYSMON_METRIC_ALARM be)
       [(''over_temperature'', 0, [TEMP]), (''temperature'', 1, [TEMP]), (''vccint'', 2, [VCCINT]),
        (''vccaux'', 3, [VCCAUX]), (''vccbram'', 4, [VCCBRAM]),
        (''any'', 8, [TEMP, VCCINT, VCCAUX, VCCBRAM, VUSER 0, VUSER 1, VUSER 2, VUSER 3]),
        (''vuser0'', 9, [VUSER 0]), (''vuser1'', 10, [VUSER 1]), (''vuser2'', 11, [VUSER 2]),
        (''vuser3'', 12, [VUSER 3]), (''any_vuser'', 16, [VUSER 0, VUSER 1, VUSER 2, VUSER 3])]"

text \<open>The flags of a metric: external reference, bipolar input, temperature, supply.\<close>

record sysmon_metric_flags =
  fl_external :: bool
  fl_bipolar :: bool
  fl_temp :: bool
  fl_supply :: bool

definition sysmon_flags_value :: "sysmon_metric_flags \<Rightarrow> nat" where
  "sysmon_flags_value f =
     of_bool (fl_external f) + 2 * of_bool (fl_bipolar f) + 4 * of_bool (fl_temp f) + 8 * of_bool (fl_supply f)"

definition sysmon_flags_of :: "nat \<Rightarrow> sysmon_metric_flags" where
  "sysmon_flags_of v =
     \<lparr>fl_external = odd v, fl_bipolar = odd (v div 2), fl_temp = odd (v div 4), fl_supply = odd (v div 8)\<rparr>"

definition sysmon_stats_convert_metric :: "fp_ops \<Rightarrow> stats_metric_spec \<Rightarrow> 64 word \<Rightarrow> double_bits" where
  "sysmon_stats_convert_metric fp mspec v =
     (let flags = sysmon_flags_of (io_data (mspec_io mspec)) in
      if mspec_type mspec \<noteq> METRIC_GAUGE then fp_of_int fp (uint v)
      else
        let raw = (if fl_bipolar flags \<and> push_bit 9 1 \<le> v
                   then fp_of_int fp (- uint (and (not v) (push_bit 10 1 - 1) + 1)) else fp_of_int fp (uint v));
            voltage = fp_div fp raw (fp_literal fp ''1024.0'');
            (slope, offset) =
              (if fl_temp flags
               then if fl_external flags then (''507.5921310'', ''-279.42657680'') else (''509.3140064'', ''-280.23087870'')
               else if fl_supply flags then (''3.0'', ''0.0'') else (''1.0'', ''0.0''))
        in fp_add fp (fp_mul fp voltage (fp_literal fp slope)) (fp_literal fp offset))"

definition sysmon_stats_zone_spec ::
  "sysmon_layout \<Rightarrow> fp_ops \<Rightarrow> 'x bar_env \<Rightarrow> nat \<Rightarrow> string \<Rightarrow> sysmon_block \<Rightarrow> 'x esnet_smartnic_bar2 stats_zone_spec" where
  "sysmon_stats_zone_spec l fp be base name b =
     (let external = bf_get (lay_ref l) (sysmon_flag b) = lay_REF_EXTERNAL l;
          selected = filter (\<lambda>sm. and (sm_channel_mask sm) (sysmon_select_mask b) \<noteq> 0) (sysmon_metrics be);
          flags = (\<lambda>sm. sysmon_flags_value
                     \<lparr>fl_external = external,
                      fl_bipolar = (and (and (sm_channel_mask sm) (sysmon_bipolar_mask b)) SYSMON_ANALOG_CHANNELS_MASK \<noteq> 0),
                      fl_temp = (and (sm_channel_mask sm) SYSMON_TEMP_CHANNELS_MASK \<noteq> 0),
                      fl_supply = (and (sm_channel_mask sm) SYSMON_SUPPLY_CHANNELS_MASK \<noteq> 0)\<rparr>)
      in \<lparr>zspec_name = name,
          zspec_blocks =
            [\<lparr>bspec_name = ''sysmon'',
              bspec_metrics = map (\<lambda>sm. (sm_spec sm)\<lparr>mspec_io := (mspec_io (sm_spec sm))\<lparr>io_data := flags sm\<rparr>\<rparr>) selected,
              bspec_io_base = base, bspec_attach_metrics = None, bspec_detach_metrics = None, bspec_latch_metrics = None,
              bspec_release_metrics = None, bspec_read_metric = None,
              bspec_convert_metric = Some (\<lambda>_. sysmon_stats_convert_metric fp)\<rparr>]\<rparr>)"

text \<open>The channels that the sequencer was told to convert are the ones whose metrics the zone has.\<close>

lemma and_ffff: "and v (0xffff :: 'a::len word) = take_bit 16 v"
proof -
  have "(0xffff :: 'a word) = mask 16" by (simp add: mask_numeral)
  then show ?thesis by (simp only: take_bit_eq_mask [symmetric])
qed

lemma ucast_half: "ucast (ucast (take_bit 16 (v :: 64 word)) :: 32 word) = take_bit 16 v"
  by (rule bit_word_eqI) (auto simp: bit_simps)

lemma halves: "or (or (push_bit 32 (take_bit 16 (drop_bit 32 v))) (push_bit 16 (take_bit 16 (drop_bit 16 v)))) (take_bit 16 v)
    = take_bit 48 (v :: 64 word)"
proof (rule bit_word_eqI)
  fix n
  assume n: "n < LENGTH(64)"
  consider "n < 16" | m where "n = 16 + m" "m < 16" | m where "n = 32 + m" "m < 16" | "48 \<le> n"
  proof -
    have "n < 16 \<or> (\<exists>m < 16. n = 16 + m) \<or> (\<exists>m < 16. n = 32 + m) \<or> 48 \<le> n" by presburger
    then show thesis using that by blast
  qed
  then show "bit (or (or (push_bit 32 (take_bit 16 (drop_bit 32 v))) (push_bit 16 (take_bit 16 (drop_bit 16 v)))) (take_bit 16 v)) n
      = bit (take_bit 48 v) n"
    by cases (use n in \<open>auto simp: bit_simps\<close>)
qed

lemma select_mask_readback: "sysmon_select_mask (sysmon_sequencer_enable l sel avg b) = take_bit 48 sel"
  by (simp add: sysmon_select_mask_def sysmon_sequencer_enable_def Let_def and_ffff ucast_half halves)

end
