(* ===== verification/Cfg_Types.thy ===== *)
theory Cfg_Types
  imports P4_Stats P4_Counters Opennic_Host Opennic_Cmac Opennic_Cms_Card Opennic_Sysmon
begin

text \<open>
  The state of the configuration agent (\<^verbatim>\<open>sn-cfg/src/agent/agent.hpp\<close>, \<^verbatim>\<open>device.hpp\<close>): its devices with
  their registers and statistics domains, and the flags of the server.  A name of \<^verbatim>\<open>sn_cfg::v2\<close> that the
  P4 agent also uses has the prefix \<open>Cfg\<close> or \<open>CFG_\<close>.
\<close>

datatype CfgErrorCode =
    CFG_EC_UNKNOWN | CFG_EC_OK | CFG_EC_UNKNOWN_BATCH_REQUEST | CFG_EC_UNKNOWN_BATCH_OP
  | CFG_EC_INVALID_DEVICE_ID | EC_CARD_INFO_READ_FAILED
  | EC_INVALID_HOST_ID | EC_MISSING_HOST_CONFIG | EC_UNSUPPORTED_HOST_ID | EC_UNSUPPORTED_HOST_FUNCTION
  | EC_FAILED_GET_HOST_FUNCTION_DMA_QUEUES | EC_FAILED_SET_HOST_FUNCTION_DMA_QUEUES
  | EC_FAILED_GET_HOST_FC_EGR_THRESHOLD | EC_FAILED_SET_HOST_FC_EGR_THRESHOLD
  | EC_INVALID_PORT_ID | EC_MISSING_PORT_CONFIG | EC_UNSUPPORTED_PORT_ID | EC_UNSUPPORTED_PORT_STATE
  | EC_UNSUPPORTED_PORT_FEC | EC_UNSUPPORTED_PORT_LOOPBACK
  | EC_FAILED_GET_PORT_FC_EGR_THRESHOLD | EC_FAILED_SET_PORT_FC_EGR_THRESHOLD
  | EC_MISSING_SWITCH_CONFIG | EC_UNSUPPORTED_IGR_SEL_INTF | EC_UNSUPPORTED_IGR_SEL_DEST
  | EC_FAILED_GET_IGR_SEL | EC_FAILED_SET_IGR_SEL | EC_UNSUPPORTED_EGR_SEL_INTF | EC_FAILED_GET_EGR_SEL
  | EC_FAILED_SET_EGR_SEL | EC_UNSUPPORTED_BYPASS_MODE | EC_FAILED_GET_BYPASS_MODE | EC_FAILED_SET_BYPASS_MODE
  | EC_UNKNOWN_DEFAULTS_PROFILE
  | EC_INVALID_MODULE_ID | EC_MODULE_PAGE_READ_FAILED | EC_INVALID_MODULE_MEM_OFFSET | EC_INVALID_MODULE_MEM_PAGE
  | EC_INVALID_MODULE_MEM_COUNT | EC_MODULE_MEM_READ_FAILED | EC_MODULE_MEM_WRITE_FAILED
  | EC_UNKNOWN_MODULE_GPIO_TYPE | EC_MODULE_GPIO_READ_FAILED | EC_MODULE_GPIO_WRITE_FAILED | EC_MODULE_NOT_PRESENT
  | CFG_EC_SERVER_FAILED_GET_TIME | CFG_EC_SERVER_INVALID_DEBUG_FLAG | EC_SERVER_INVALID_CONTROL_STATS_FLAG

subsection \<open>Devices\<close>

datatype DeviceStatsDomain = COUNTERS | MONITORS | MODULES

datatype DeviceStatsZone =
  CARD_MONITORS | SYSMON_MONITORS | HOST_COUNTERS | PORT_COUNTERS | SWITCH_COUNTERS | MODULE_MONITORS

text \<open>The callbacks of all domains of a device work on its registers.  The zones of a kind are in the order of their creation.\<close>

record 'x CfgDevice =
  cd_bus_id :: string
  cd_bar2 :: "'x esnet_smartnic_bar2"
  cd_nhosts :: nat
  cd_nports :: nat
  cd_domains :: "DeviceStatsDomain \<Rightarrow> 'x esnet_smartnic_bar2 stats_domain"
  cd_zones :: "DeviceStatsZone \<Rightarrow> DeviceStats list"

record 'x SmartnicConfigImpl =
  cfg_devices :: "'x CfgDevice list"
  cfg_debug_flags :: "nat set"
  cfg_stats_flags :: "nat set"
  cfg_clock :: server_clock
  cfg_server_domain :: "server_clock stats_domain"
  cfg_server_zone :: "nat option"

text \<open>The surroundings of the agent: layouts of registers, the subsystems of the cards, libraries, variables and files.\<close>

record 'x cfg_env =
  ce_layout :: smartnic_layout
  ce_cmac_layout :: cmac_layout
  ce_bar :: "'x bar_env"
  ce_cms :: "'x cms_hw"
  ce_cms_layout :: cms_layout
  ce_sysmon_layout :: sysmon_layout
  ce_fp :: fp_ops
  ce_ether_aton :: "8 word list \<Rightarrow> 8 word list \<Rightarrow> 8 word list"
  ce_regex :: regex
  ce_stats :: "'x esnet_smartnic_bar2 stats_env"
  ce_getenv :: "string \<Rightarrow> string option"
  ce_pci_file :: "string \<Rightarrow> string option"

definition map_regs :: "(smartnic_block \<Rightarrow> smartnic_block) \<Rightarrow> 'x CfgDevice \<Rightarrow> 'x CfgDevice" where
  "map_regs f dev = dev\<lparr>cd_bar2 := (cd_bar2 dev)\<lparr>smartnic_regs := f (smartnic_regs (cd_bar2 dev))\<rparr>\<rparr>"

text \<open>The card management subsystem of a device.\<close>

abbreviation dev_cms :: "'x CfgDevice \<Rightarrow> 'x" where
  "dev_cms dev \<equiv> bar_rest (cd_bar2 dev)"

definition put_cms :: "'x \<Rightarrow> 'x CfgDevice \<Rightarrow> 'x CfgDevice" where
  "put_cms c dev = dev\<lparr>cd_bar2 := (cd_bar2 dev)\<lparr>bar_rest := c\<rparr>\<rparr>"

abbreviation dev_regs :: "'x CfgDevice \<Rightarrow> smartnic_block" where
  "dev_regs dev \<equiv> smartnic_regs (cd_bar2 dev)"

subsection \<open>Requests for devices, hosts and ports\<close>

definition on_cfg_device ::
  "(nat \<Rightarrow> ('x CfgDevice, 'r) rpc) \<Rightarrow> nat \<Rightarrow> ('x CfgDevice list, 'r) rpc" where
  "on_cfg_device body i devs =
     (case body i (devs ! i) of Inl e \<Rightarrow> Inl e | Inr (d, rs) \<Rightarrow> Inr (devs[i := d], rs))"

definition for_cfg_devices ::
  "int \<Rightarrow> 'r \<Rightarrow> (nat \<Rightarrow> ('x CfgDevice, 'r) rpc) \<Rightarrow> ('x SmartnicConfigImpl, 'r) rpc" where
  "for_cfg_devices req_dev_id invalid body s =
     (case for_range req_dev_id (length (cfg_devices s)) invalid (on_cfg_device body) (cfg_devices s) of
        Inl e \<Rightarrow> Inl e
      | Inr (devs, rs) \<Rightarrow> Inr (s\<lparr>cfg_devices := devs\<rparr>, rs))"

text \<open>A request without the configuration to set is rejected, but only after its device id is checked.\<close>

definition for_cfg_devices_with ::
  "'c option \<Rightarrow> int \<Rightarrow> 'r \<Rightarrow> 'r \<Rightarrow> ('c \<Rightarrow> nat \<Rightarrow> ('x CfgDevice, 'r) rpc) \<Rightarrow> ('x SmartnicConfigImpl, 'r) rpc" where
  "for_cfg_devices_with config req_dev_id invalid missing body s =
     (if req_dev_id > int (length (cfg_devices s)) - 1 then Inr (s, [invalid])
      else case config of None \<Rightarrow> Inr (s, [missing])
      | Some c \<Rightarrow> for_cfg_devices req_dev_id invalid (body c) s)"

definition for_hosts ::
  "int \<Rightarrow> (nat \<Rightarrow> 'r) \<Rightarrow> (nat \<Rightarrow> nat \<Rightarrow> ('x CfgDevice, 'r) rpc) \<Rightarrow> nat \<Rightarrow> ('x CfgDevice, 'r) rpc" where
  "for_hosts req_host_id invalid body dev_id dev =
     for_range req_host_id (cd_nhosts dev) (invalid dev_id) (body dev_id) dev"

definition for_ports ::
  "int \<Rightarrow> (nat \<Rightarrow> 'r) \<Rightarrow> (nat \<Rightarrow> nat \<Rightarrow> ('x CfgDevice, 'r) rpc) \<Rightarrow> nat \<Rightarrow> ('x CfgDevice, 'r) rpc" where
  "for_ports req_port_id invalid body dev_id dev =
     for_range req_port_id (cd_nports dev) (invalid dev_id) (body dev_id) dev"

subsection \<open>Zones of statistics\<close>

definition CTRL_STATS_FLAG_DOMAIN :: "DeviceStatsDomain \<Rightarrow> nat" where
  "CTRL_STATS_FLAG_DOMAIN d = (case d of COUNTERS \<Rightarrow> 1 | MONITORS \<Rightarrow> 2 | MODULES \<Rightarrow> 3)"

definition CTRL_STATS_FLAG_ZONE :: "DeviceStatsZone \<Rightarrow> nat" where
  "CTRL_STATS_FLAG_ZONE z = (case z of CARD_MONITORS \<Rightarrow> 10 | SYSMON_MONITORS \<Rightarrow> 20 | HOST_COUNTERS \<Rightarrow> 30
     | PORT_COUNTERS \<Rightarrow> 40 | SWITCH_COUNTERS \<Rightarrow> 50 | MODULE_MONITORS \<Rightarrow> 60)"

definition domain_of_zone :: "DeviceStatsZone \<Rightarrow> DeviceStatsDomain" where
  "domain_of_zone z = (case z of CARD_MONITORS \<Rightarrow> MONITORS | SYSMON_MONITORS \<Rightarrow> MONITORS
     | HOST_COUNTERS \<Rightarrow> COUNTERS | PORT_COUNTERS \<Rightarrow> COUNTERS | SWITCH_COUNTERS \<Rightarrow> COUNTERS | MODULE_MONITORS \<Rightarrow> MODULES)"

text \<open>A new zone is disabled when the flag of its kind is off, and becomes the last one of its kind.\<close>

definition keep_stats_zone ::
  "nat set \<Rightarrow> DeviceStatsZone \<Rightarrow> string \<Rightarrow> nat \<Rightarrow> 'x esnet_smartnic_bar2 stats_domain \<Rightarrow> 'x esnet_smartnic_bar2 \<Rightarrow>
   'x CfgDevice \<Rightarrow> agent_stop + 'x CfgDevice" where
  "keep_stats_zone flags kind name z d h dev =
     (case (if CTRL_STATS_FLAG_ZONE kind \<in> flags then Inr d else stats_zone_disable z d) of Inl e \<Rightarrow> Inl (Stop_Stats e)
      | Inr d' \<Rightarrow>
          Inr (dev\<lparr>cd_bar2 := h, cd_domains := (cd_domains dev)(domain_of_zone kind := d'),
                   cd_zones := (cd_zones dev)(kind := cd_zones dev kind @ [\<lparr>ds_zone_name = name, ds_zone = z\<rparr>])\<rparr>))"

definition add_stats_zone ::
  "nat set \<Rightarrow> DeviceStatsZone \<Rightarrow> 'x esnet_smartnic_bar2 stats_zone_spec \<Rightarrow> 'x CfgDevice \<Rightarrow> agent_stop + 'x CfgDevice" where
  "add_stats_zone flags kind spec dev =
     (let sdom = domain_of_zone kind; z = new_zone_address (cd_domains dev sdom) in
      case stats_zone_alloc z spec (cd_domains dev sdom) (cd_bar2 dev) of Inl e \<Rightarrow> Inl (Stop_Stats e)
      | Inr (d, h) \<Rightarrow> keep_stats_zone flags kind (zspec_name spec) z d h dev)"

text \<open>The zones of a kind are freed from the last one on.\<close>

fun free_stats_zones :: "DeviceStatsDomain \<Rightarrow> DeviceStats list \<Rightarrow> 'x CfgDevice \<Rightarrow> agent_stop + 'x CfgDevice" where
  "free_stats_zones sdom [] dev = Inr dev"
| "free_stats_zones sdom (s # ss) dev =
     (case stats_zone_free (Some (ds_zone s)) (cd_domains dev sdom) (cd_bar2 dev) of Inl e \<Rightarrow> Inl (Stop_Stats e)
      | Inr (d, h) \<Rightarrow> free_stats_zones sdom ss (dev\<lparr>cd_bar2 := h, cd_domains := (cd_domains dev)(sdom := d)\<rparr>))"

definition deinit_zones :: "DeviceStatsZone \<Rightarrow> 'x CfgDevice \<Rightarrow> agent_stop + 'x CfgDevice" where
  "deinit_zones kind dev =
     (case free_stats_zones (domain_of_zone kind) (rev (cd_zones dev kind)) dev of Inl e \<Rightarrow> Inl e
      | Inr dev' \<Rightarrow> Inr (dev'\<lparr>cd_zones := (cd_zones dev')(kind := [])\<rparr>))"

text \<open>Reading or clearing the zone with a given index among those of its kind.\<close>

definition zone_at :: "DeviceStatsZone \<Rightarrow> nat \<Rightarrow> 'x CfgDevice \<Rightarrow> agent_stop + nat" where
  "zone_at kind i dev =
     (if i < length (cd_zones dev kind) then Inr (ds_zone (cd_zones dev kind ! i)) else Inl (Stop_Stats Undefined))"

definition cfg_clear_stats_zone ::
  "'x cfg_env \<Rightarrow> stats_filters \<Rightarrow> DeviceStatsDomain \<Rightarrow> nat \<Rightarrow> 'x CfgDevice \<Rightarrow> agent_stop + 'x CfgDevice" where
  "cfg_clear_stats_zone env filters sdom z dev =
     (case stats_zone_clear_metrics (ce_stats env) (clear_filter_of (ce_regex env) filters) None z
             (cd_domains dev sdom) (cd_bar2 dev) of Inl e \<Rightarrow> Inl (Stop_Stats e)
      | Inr (_, d, h) \<Rightarrow> Inr (dev\<lparr>cd_bar2 := h, cd_domains := (cd_domains dev)(sdom := d)\<rparr>))"

definition cfg_get_stats_zone ::
  "'x cfg_env \<Rightarrow> stats_filters \<Rightarrow> DeviceStatsDomain \<Rightarrow> nat \<Rightarrow> 'x CfgDevice \<Rightarrow> agent_stop + StatsMetric list" where
  "cfg_get_stats_zone env filters sdom z dev =
     (case dom_heap (cd_domains dev sdom) z of None \<Rightarrow> Inl (Stop_Stats Undefined)
      | Some zone \<Rightarrow>
        (case stats_zone_for_each_metric (dspec_name (dom_spec (cd_domains dev sdom)))
                (get_stats_for_each_metric (ce_regex env) filters) zone [] of
           None \<Rightarrow> Inl (Stop_Stats No_Return)
         | Some (_, ms) \<Rightarrow> Inr ms))"

definition zone_stats ::
  "'x cfg_env \<Rightarrow> stats_filters \<Rightarrow> bool \<Rightarrow> DeviceStatsZone \<Rightarrow> nat \<Rightarrow> 'x CfgDevice \<Rightarrow>
   agent_stop + ('x CfgDevice \<times> StatsMetric list)" where
  "zone_stats env filters do_clear kind i dev =
     (case zone_at kind i dev of Inl e \<Rightarrow> Inl e
      | Inr z \<Rightarrow>
        (if do_clear
         then map_sum id (\<lambda>dev'. (dev', [])) (cfg_clear_stats_zone env filters (domain_of_zone kind) z dev)
         else map_sum id (\<lambda>ms. (dev, ms)) (cfg_get_stats_zone env filters (domain_of_zone kind) z dev)))"

text \<open>The result of a callback over the metrics of a zone of a device.\<close>

definition cfg_for_each_metric ::
  "'a for_each_callback \<Rightarrow> DeviceStatsZone \<Rightarrow> nat \<Rightarrow> 'x CfgDevice \<Rightarrow> 'a \<Rightarrow> agent_stop + 'a" where
  "cfg_for_each_metric cb kind i dev a =
     (case zone_at kind i dev of Inl e \<Rightarrow> Inl e
      | Inr z \<Rightarrow>
        (let dom = cd_domains dev (domain_of_zone kind) in
         case dom_heap dom z of None \<Rightarrow> Inl (Stop_Stats Undefined)
         | Some zone \<Rightarrow>
           (case stats_zone_for_each_metric (dspec_name (dom_spec dom)) cb zone a of
              None \<Rightarrow> Inl (Stop_Stats Undefined)
            | Some (_, a') \<Rightarrow> Inr a')))"

subsection \<open>Octets as text\<close>

definition hex2 :: "8 word \<Rightarrow> string" where
  "hex2 b = (let digit = (\<lambda>n. if n < 10 then char_of (48 + n) else char_of (55 + n)) in
             [digit (unat b div 16), digit (unat b mod 16)])"

fun colon_join :: "string list \<Rightarrow> string" where
  "colon_join [] = []"
| "colon_join [s] = s"
| "colon_join (s # ss) = s @ '':'' @ colon_join ss"

end
