(* ===== verification/Cfg_Port.thy ===== *)
theory Cfg_Port
  imports Cfg_Types
begin

text \<open>
  \<^verbatim>\<open>sn-cfg/src/agent/port.cpp\<close>: the configuration, status and statistics of the ports of a card.
\<close>

subsection \<open>Ports of a device\<close>

definition port_cmac :: "nat \<Rightarrow> 'x esnet_smartnic_bar2 \<Rightarrow> cmac_block option" where
  "port_cmac port_id bar2 = (if port_id = 0 then Some (cmac0 bar2) else if port_id = 1 then Some (cmac1 bar2) else None)"

definition put_port_cmac :: "nat \<Rightarrow> cmac_block \<Rightarrow> 'x CfgDevice \<Rightarrow> 'x CfgDevice" where
  "put_port_cmac port_id c dev =
     dev\<lparr>cd_bar2 := if port_id = 0 then (cd_bar2 dev)\<lparr>cmac0 := c\<rparr> else (cd_bar2 dev)\<lparr>cmac1 := c\<rparr>\<rparr>"

fun init_ports :: "'x bar_env \<Rightarrow> nat set \<Rightarrow> nat list \<Rightarrow> 'x CfgDevice \<Rightarrow> agent_stop + 'x CfgDevice" where
  "init_ports be flags [] dev = Inr dev"
| "init_ports be flags (p # ps) dev =
     (if p \<ge> 2 then Inl Stop_Exit
      else case add_stats_zone flags PORT_COUNTERS
             (cmac_stats_zone_spec be (be_offsetof be ''esnet_smartnic_bar2'' (if p = 0 then ''cmac0'' else ''cmac1''))
               (''port'' @ dec p)) dev of Inl e \<Rightarrow> Inl e
      | Inr dev' \<Rightarrow> init_ports be flags ps dev')"

definition init_port :: "'x bar_env \<Rightarrow> nat set \<Rightarrow> 'x CfgDevice \<Rightarrow> agent_stop + 'x CfgDevice" where
  "init_port be flags dev = init_ports be flags [0..<cd_nports dev] dev"

definition deinit_port :: "'x CfgDevice \<Rightarrow> agent_stop + 'x CfgDevice" where
  "deinit_port dev = deinit_zones PORT_COUNTERS dev"

subsection \<open>Messages\<close>

datatype PortState = PORT_STATE_UNKNOWN | PORT_STATE_DISABLE | PORT_STATE_ENABLE | PORT_STATE_OTHER

datatype PortFec = PORT_FEC_UNKNOWN | PORT_FEC_NONE | PORT_FEC_REED_SOLOMON | PORT_FEC_OTHER

datatype PortLoopback =
  PORT_LOOPBACK_UNKNOWN | PORT_LOOPBACK_NONE | PORT_LOOPBACK_NEAR_END_PMA | PORT_LOOPBACK_OTHER

datatype PortLink = PORT_LINK_UNKNOWN | PORT_LINK_DOWN | PORT_LINK_UP

text \<open>The flow control of a configuration is its egress threshold.\<close>

record PortConfig =
  pc_state :: PortState
  pc_fec :: PortFec
  pc_loopback :: PortLoopback
  pc_flow_control :: "int option"

record PortConfigRequest =
  pcreq_dev_id :: int
  pcreq_port_id :: int
  pcreq_config :: "PortConfig option"

record PortConfigResponse =
  pcresp_error_code :: CfgErrorCode
  pcresp_dev_id :: nat
  pcresp_port_id :: nat
  pcresp_config :: "PortConfig option"

definition port_config_error :: "CfgErrorCode \<Rightarrow> nat \<Rightarrow> PortConfigResponse" where
  "port_config_error err dev_id =
     \<lparr>pcresp_error_code = err, pcresp_dev_id = dev_id, pcresp_port_id = 0, pcresp_config = None\<rparr>"

text \<open>A negative threshold is unlimited; the register is read back as a signed number.\<close>

definition threshold_of_config :: "int \<Rightarrow> 32 word" where
  "threshold_of_config et = (if et < 0 then FC_THRESHOLD_UNLIMITED else word_of_int et)"

definition config_of_threshold :: "32 word \<Rightarrow> int" where
  "config_of_threshold threshold = sint (if threshold = FC_THRESHOLD_UNLIMITED then - 1 else threshold)"

subsection \<open>Reading the configuration\<close>

definition read_port_config ::
  "'x cfg_env \<Rightarrow> nat \<Rightarrow> 'x CfgDevice \<Rightarrow> CfgErrorCode \<times> PortConfig option" where
  "read_port_config env port_id dev =
     (case port_cmac port_id (cd_bar2 dev) of None \<Rightarrow> (EC_UNSUPPORTED_PORT_ID, None)
      | Some cmac \<Rightarrow>
        (let l = ce_cmac_layout env;
             config = \<lparr>pc_state = if cmac_is_enabled l cmac then PORT_STATE_ENABLE else PORT_STATE_DISABLE,
                       pc_fec = if cmac_rsfec_is_enabled l cmac then PORT_FEC_REED_SOLOMON else PORT_FEC_NONE,
                       pc_loopback = if cmac_loopback_is_enabled cmac then PORT_LOOPBACK_NEAR_END_PMA
                                     else PORT_LOOPBACK_NONE,
                       pc_flow_control = None\<rparr> in
         case fc_get_egress_threshold (dev_regs dev) fc_interface_type_PORT port_id of
           None \<Rightarrow> (EC_FAILED_GET_PORT_FC_EGR_THRESHOLD, Some config)
         | Some threshold \<Rightarrow>
             (CFG_EC_OK, Some (config\<lparr>pc_flow_control := Some (config_of_threshold threshold)\<rparr>))))"

definition get_port_config_body :: "'x cfg_env \<Rightarrow> nat \<Rightarrow> nat \<Rightarrow> ('x CfgDevice, PortConfigResponse) rpc" where
  "get_port_config_body env dev_id port_id dev =
     (let (err, config) = read_port_config env port_id dev in
      Inr (dev, [\<lparr>pcresp_error_code = err, pcresp_dev_id = dev_id, pcresp_port_id = port_id, pcresp_config = config\<rparr>]))"

definition get_port_config ::
  "'x cfg_env \<Rightarrow> PortConfigRequest \<Rightarrow> ('x SmartnicConfigImpl, PortConfigResponse) rpc" where
  "get_port_config env req =
     for_cfg_devices (pcreq_dev_id req) (port_config_error CFG_EC_INVALID_DEVICE_ID 0)
       (for_ports (pcreq_port_id req) (port_config_error EC_INVALID_PORT_ID) (get_port_config_body env))"

definition GetPortConfig ::
  "'x cfg_env \<Rightarrow> PortConfigRequest \<Rightarrow> ('x SmartnicConfigImpl, PortConfigResponse) rpc" where
  "GetPortConfig env req = get_port_config env req"

subsection \<open>Writing the configuration\<close>

text \<open>\<open>None\<close> is a value that is not supported; the result of enabling a MAC is not looked at.\<close>

definition set_port_state :: "cmac_layout \<Rightarrow> PortState \<Rightarrow> cmac_block \<Rightarrow> cmac_block option" where
  "set_port_state l st cmac =
     (case st of PORT_STATE_UNKNOWN \<Rightarrow> Some cmac
      | PORT_STATE_DISABLE \<Rightarrow> Some (cmac_disable l cmac)
      | PORT_STATE_ENABLE \<Rightarrow> Some (snd (cmac_enable l cmac))
      | PORT_STATE_OTHER \<Rightarrow> None)"

definition set_port_fec :: "cmac_layout \<Rightarrow> PortFec \<Rightarrow> cmac_block \<Rightarrow> cmac_block option" where
  "set_port_fec l fec cmac =
     (case fec of PORT_FEC_UNKNOWN \<Rightarrow> Some cmac
      | PORT_FEC_NONE \<Rightarrow> Some (cmac_rsfec_disable l cmac)
      | PORT_FEC_REED_SOLOMON \<Rightarrow> Some (cmac_rsfec_enable l cmac)
      | PORT_FEC_OTHER \<Rightarrow> None)"

definition set_port_loopback :: "PortLoopback \<Rightarrow> cmac_block \<Rightarrow> cmac_block option" where
  "set_port_loopback lb cmac =
     (case lb of PORT_LOOPBACK_UNKNOWN \<Rightarrow> Some cmac
      | PORT_LOOPBACK_NONE \<Rightarrow> Some (cmac_loopback_disable cmac)
      | PORT_LOOPBACK_NEAR_END_PMA \<Rightarrow> Some (cmac_loopback_enable cmac)
      | PORT_LOOPBACK_OTHER \<Rightarrow> None)"

text \<open>What was written before a value that is not supported stays written.\<close>

definition set_port_cmac :: "cmac_layout \<Rightarrow> PortConfig \<Rightarrow> cmac_block \<Rightarrow> CfgErrorCode \<times> cmac_block" where
  "set_port_cmac l config cmac =
     (case set_port_state l (pc_state config) cmac of None \<Rightarrow> (EC_UNSUPPORTED_PORT_STATE, cmac)
      | Some c1 \<Rightarrow>
        (case set_port_fec l (pc_fec config) c1 of None \<Rightarrow> (EC_UNSUPPORTED_PORT_FEC, c1)
         | Some c2 \<Rightarrow>
           (case set_port_loopback (pc_loopback config) c2 of None \<Rightarrow> (EC_UNSUPPORTED_PORT_LOOPBACK, c2)
            | Some c3 \<Rightarrow> (CFG_EC_OK, c3))))"

definition write_port_config ::
  "'x cfg_env \<Rightarrow> PortConfig \<Rightarrow> nat \<Rightarrow> 'x CfgDevice \<Rightarrow> CfgErrorCode \<times> 'x CfgDevice" where
  "write_port_config env config port_id dev =
     (case port_cmac port_id (cd_bar2 dev) of None \<Rightarrow> (EC_UNSUPPORTED_PORT_ID, dev)
      | Some cmac \<Rightarrow>
        (let (err, cmac') = set_port_cmac (ce_cmac_layout env) config cmac;
             dev1 = put_port_cmac port_id cmac' dev in
         if err \<noteq> CFG_EC_OK then (err, dev1)
         else case pc_flow_control config of None \<Rightarrow> (CFG_EC_OK, dev1)
         | Some et \<Rightarrow>
             (let (ok, blk) = fc_set_egress_threshold fc_interface_type_PORT port_id (threshold_of_config et) (dev_regs dev1)
              in (if \<not> ok then EC_FAILED_SET_PORT_FC_EGR_THRESHOLD else CFG_EC_OK, map_regs (\<lambda>_. blk) dev1))))"

definition set_port_config_body ::
  "'x cfg_env \<Rightarrow> PortConfig \<Rightarrow> nat \<Rightarrow> nat \<Rightarrow> ('x CfgDevice, PortConfigResponse) rpc" where
  "set_port_config_body env config dev_id port_id dev =
     (let (err, dev') = write_port_config env config port_id dev in
      Inr (dev', [\<lparr>pcresp_error_code = err, pcresp_dev_id = dev_id, pcresp_port_id = port_id, pcresp_config = None\<rparr>]))"

definition set_port_config ::
  "'x cfg_env \<Rightarrow> PortConfigRequest \<Rightarrow> ('x SmartnicConfigImpl, PortConfigResponse) rpc" where
  "set_port_config env req =
     for_cfg_devices_with (pcreq_config req) (pcreq_dev_id req) (port_config_error CFG_EC_INVALID_DEVICE_ID 0)
       (port_config_error EC_MISSING_PORT_CONFIG 0)
       (\<lambda>config. for_ports (pcreq_port_id req) (port_config_error EC_INVALID_PORT_ID) (set_port_config_body env config))"

definition SetPortConfig ::
  "'x cfg_env \<Rightarrow> PortConfigRequest \<Rightarrow> ('x SmartnicConfigImpl, PortConfigResponse) rpc" where
  "SetPortConfig env req = set_port_config env req"

subsection \<open>Status\<close>

record PortStatusRequest =
  pstreq_dev_id :: int
  pstreq_port_id :: int

record PortStatusResponse =
  pstresp_error_code :: CfgErrorCode
  pstresp_dev_id :: nat
  pstresp_port_id :: nat
  pstresp_link :: "PortLink option"

definition port_status_error :: "CfgErrorCode \<Rightarrow> nat \<Rightarrow> PortStatusResponse" where
  "port_status_error err dev_id =
     \<lparr>pstresp_error_code = err, pstresp_dev_id = dev_id, pstresp_port_id = 0, pstresp_link = None\<rparr>"

definition port_status_body :: "'x cfg_env \<Rightarrow> nat \<Rightarrow> nat \<Rightarrow> ('x CfgDevice, PortStatusResponse) rpc" where
  "port_status_body env dev_id port_id dev =
     (let (err, link, dev') =
        (case port_cmac port_id (cd_bar2 dev) of None \<Rightarrow> (EC_UNSUPPORTED_PORT_ID, None, dev)
         | Some cmac \<Rightarrow>
           (let (up, cmac') = cmac_rx_status_is_link_up (ce_cmac_layout env) cmac in
            (CFG_EC_OK, Some (if up then PORT_LINK_UP else PORT_LINK_DOWN), put_port_cmac port_id cmac' dev)))
      in Inr (dev', [\<lparr>pstresp_error_code = err, pstresp_dev_id = dev_id, pstresp_port_id = port_id,
                      pstresp_link = link\<rparr>]))"

definition get_port_status ::
  "'x cfg_env \<Rightarrow> PortStatusRequest \<Rightarrow> ('x SmartnicConfigImpl, PortStatusResponse) rpc" where
  "get_port_status env req =
     for_cfg_devices (pstreq_dev_id req) (port_status_error CFG_EC_INVALID_DEVICE_ID 0)
       (for_ports (pstreq_port_id req) (port_status_error EC_INVALID_PORT_ID) (port_status_body env))"

definition GetPortStatus ::
  "'x cfg_env \<Rightarrow> PortStatusRequest \<Rightarrow> ('x SmartnicConfigImpl, PortStatusResponse) rpc" where
  "GetPortStatus env req = get_port_status env req"

subsection \<open>Statistics\<close>

record PortStatsRequest =
  psrq_dev_id :: int
  psrq_port_id :: int
  psrq_filters :: stats_filters

record PortStatsResponse =
  psrs_error_code :: CfgErrorCode
  psrs_dev_id :: nat
  psrs_port_id :: nat
  psrs_stats :: "StatsMetric list"

definition port_stats_error :: "CfgErrorCode \<Rightarrow> nat \<Rightarrow> PortStatsResponse" where
  "port_stats_error err dev_id = \<lparr>psrs_error_code = err, psrs_dev_id = dev_id, psrs_port_id = 0, psrs_stats = []\<rparr>"

definition port_stats_body ::
  "'x cfg_env \<Rightarrow> stats_filters \<Rightarrow> bool \<Rightarrow> nat \<Rightarrow> nat \<Rightarrow> ('x CfgDevice, PortStatsResponse) rpc" where
  "port_stats_body env filters do_clear dev_id port_id dev =
     (case zone_stats env filters do_clear PORT_COUNTERS port_id dev of Inl e \<Rightarrow> Inl e
      | Inr (dev', ms) \<Rightarrow>
          Inr (dev', [\<lparr>psrs_error_code = CFG_EC_OK, psrs_dev_id = dev_id, psrs_port_id = port_id, psrs_stats = ms\<rparr>]))"

definition get_or_clear_port_stats ::
  "'x cfg_env \<Rightarrow> PortStatsRequest \<Rightarrow> bool \<Rightarrow> ('x SmartnicConfigImpl, PortStatsResponse) rpc" where
  "get_or_clear_port_stats env req do_clear =
     for_cfg_devices (psrq_dev_id req) (port_stats_error CFG_EC_INVALID_DEVICE_ID 0)
       (for_ports (psrq_port_id req) (port_stats_error EC_INVALID_PORT_ID)
          (port_stats_body env (psrq_filters req) do_clear))"

definition GetPortStats ::
  "'x cfg_env \<Rightarrow> PortStatsRequest \<Rightarrow> ('x SmartnicConfigImpl, PortStatsResponse) rpc" where
  "GetPortStats env req = get_or_clear_port_stats env req False"

definition ClearPortStats ::
  "'x cfg_env \<Rightarrow> PortStatsRequest \<Rightarrow> ('x SmartnicConfigImpl, PortStatsResponse) rpc" where
  "ClearPortStats env req = get_or_clear_port_stats env req True"

end
