(* ===== verification/Cfg_Host.thy ===== *)
theory Cfg_Host
  imports Cfg_Port
begin

text \<open>
  \<^verbatim>\<open>sn-cfg/src/agent/host.cpp\<close>: the DMA queues, flow control and statistics of the host interfaces of a
  card.  The build sets the DMA channel of a host along with the queues of its functions
  (\<^verbatim>\<open>SN_CFG_HOST_SET_QDMA_CHANNEL\<close>).
\<close>

fun init_hosts :: "'x bar_env \<Rightarrow> nat set \<Rightarrow> nat list \<Rightarrow> 'x CfgDevice \<Rightarrow> agent_stop + 'x CfgDevice" where
  "init_hosts be flags [] dev = Inr dev"
| "init_hosts be flags (h # hs) dev =
     (if h \<ge> 2 then Inl Stop_Exit
      else case add_stats_zone flags HOST_COUNTERS
             (qdma_stats_zone_spec be
               (be_offsetof be ''esnet_smartnic_bar2'' (if h = 0 then ''cmac_adapter0'' else ''cmac_adapter1''))
               (''host'' @ dec h)) dev of Inl e \<Rightarrow> Inl e
      | Inr dev' \<Rightarrow> init_hosts be flags hs dev')"

definition init_host :: "'x bar_env \<Rightarrow> nat set \<Rightarrow> 'x CfgDevice \<Rightarrow> agent_stop + 'x CfgDevice" where
  "init_host be flags dev = init_hosts be flags [0..<cd_nhosts dev] dev"

definition deinit_host :: "'x CfgDevice \<Rightarrow> agent_stop + 'x CfgDevice" where
  "deinit_host dev = deinit_zones HOST_COUNTERS dev"

subsection \<open>Messages\<close>

datatype HostFunctionType = HOST_FUNC_UNKNOWN | HOST_FUNC_PHYSICAL | HOST_FUNC_VIRTUAL | HOST_FUNC_OTHER

record HostFunctionId =
  hf_ftype :: HostFunctionType
  hf_index :: "32 word"

record HostFunctionDmaConfig =
  hfd_func_id :: HostFunctionId
  hfd_base_queue :: "32 word"
  hfd_num_queues :: "32 word"

record HostDmaConfig =
  dma_functions :: "HostFunctionDmaConfig list"
  dma_reset :: bool

record HostConfig =
  hc_dma :: "HostDmaConfig option"
  hc_flow_control :: "int option"

record HostConfigRequest =
  hcreq_dev_id :: int
  hcreq_host_id :: int
  hcreq_config :: "HostConfig option"

record HostConfigResponse =
  hcresp_error_code :: CfgErrorCode
  hcresp_dev_id :: nat
  hcresp_host_id :: nat
  hcresp_config :: "HostConfig option"

definition host_config_error :: "CfgErrorCode \<Rightarrow> nat \<Rightarrow> HostConfigResponse" where
  "host_config_error err dev_id =
     \<lparr>hcresp_error_code = err, hcresp_dev_id = dev_id, hcresp_host_id = 0, hcresp_config = None\<rparr>"

text \<open>The sum of the first virtual function and the index is an unsigned number of 32 bits.\<close>

definition convert_to_driver_qdma_function :: "HostFunctionId \<Rightarrow> nat option" where
  "convert_to_driver_qdma_function fid =
     (case hf_ftype fid of
        HOST_FUNC_PHYSICAL \<Rightarrow> if hf_index fid \<noteq> 0 then None else Some qdma_function_PF
      | HOST_FUNC_VIRTUAL \<Rightarrow>
          (let func = unat (of_nat qdma_function_VF_MIN + hf_index fid) in
           if func \<ge> qdma_function_VF_MAX then None else Some func)
      | _ \<Rightarrow> None)"

definition convert_from_driver_qdma_function :: "nat \<Rightarrow> HostFunctionId option" where
  "convert_from_driver_qdma_function func =
     (if func = qdma_function_PF then Some \<lparr>hf_ftype = HOST_FUNC_PHYSICAL, hf_index = 0\<rparr>
      else if qdma_function_VF_MIN \<le> func \<and> func < qdma_function_VF_MAX
      then Some \<lparr>hf_ftype = HOST_FUNC_VIRTUAL, hf_index = of_nat (func - qdma_function_VF_MIN)\<rparr>
      else None)"

subsection \<open>Reading the configuration\<close>

text \<open>The threshold is read again for every function.\<close>

fun read_functions ::
  "smartnic_layout \<Rightarrow> nat list \<Rightarrow> nat \<Rightarrow> 'x esnet_smartnic_bar2 \<Rightarrow>
   HostFunctionDmaConfig list \<Rightarrow> int option \<Rightarrow> CfgErrorCode \<times> HostFunctionDmaConfig list \<times> int option" where
  "read_functions l [] host_id bar2 fs fc = (CFG_EC_OK, fs, fc)"
| "read_functions l (qf # qfs) host_id bar2 fs fc =
     (case qdma_function_get_queues l bar2 host_id qf of None \<Rightarrow> (EC_FAILED_GET_HOST_FUNCTION_DMA_QUEUES, fs, fc)
      | Some (base_queue, num_queues) \<Rightarrow>
        (case convert_from_driver_qdma_function qf of
           None \<Rightarrow> (EC_UNSUPPORTED_HOST_FUNCTION,
                    fs @ [\<lparr>hfd_func_id = \<lparr>hf_ftype = HOST_FUNC_UNKNOWN, hf_index = 0\<rparr>, hfd_base_queue = 0, hfd_num_queues = 0\<rparr>], fc)
         | Some fid \<Rightarrow>
           (let fs' = fs @ [\<lparr>hfd_func_id = fid, hfd_base_queue = base_queue, hfd_num_queues = num_queues\<rparr>] in
            case fc_get_egress_threshold (smartnic_regs bar2) fc_interface_type_HOST host_id of
              None \<Rightarrow> (EC_FAILED_GET_HOST_FC_EGR_THRESHOLD, fs', fc)
            | Some threshold \<Rightarrow>
                read_functions l qfs host_id bar2 fs' (Some (config_of_threshold threshold)))))"

definition get_host_config_body :: "'x cfg_env \<Rightarrow> nat \<Rightarrow> nat \<Rightarrow> ('x CfgDevice, HostConfigResponse) rpc" where
  "get_host_config_body env dev_id host_id dev =
     (let (err, fs, fc) = read_functions (ce_layout env) [0..<qdma_function_MAX] host_id (cd_bar2 dev) [] None in
      Inr (dev, [\<lparr>hcresp_error_code = err, hcresp_dev_id = dev_id, hcresp_host_id = host_id,
                  hcresp_config = Some \<lparr>hc_dma = Some \<lparr>dma_functions = fs, dma_reset = False\<rparr>, hc_flow_control = fc\<rparr>\<rparr>]))"

definition get_host_config ::
  "'x cfg_env \<Rightarrow> HostConfigRequest \<Rightarrow> ('x SmartnicConfigImpl, HostConfigResponse) rpc" where
  "get_host_config env req =
     for_cfg_devices (hcreq_dev_id req) (host_config_error CFG_EC_INVALID_DEVICE_ID 0)
       (for_hosts (hcreq_host_id req) (host_config_error EC_INVALID_HOST_ID) (get_host_config_body env))"

definition GetHostConfig ::
  "'x cfg_env \<Rightarrow> HostConfigRequest \<Rightarrow> ('x SmartnicConfigImpl, HostConfigResponse) rpc" where
  "GetHostConfig env req = get_host_config env req"

subsection \<open>Writing the configuration\<close>

text \<open>The results of the setters are not looked at during a reset.\<close>

definition reset_dma :: "smartnic_layout \<Rightarrow> nat \<Rightarrow> 'x esnet_smartnic_bar2 \<Rightarrow> 'x esnet_smartnic_bar2" where
  "reset_dma l host_id bar2 =
     (let bar2' = fold (\<lambda>qf b. snd (qdma_function_set_queues l host_id qf 0 0 b)) [0..<qdma_function_MAX] bar2
      in snd (qdma_channel_set_queues l host_id 0 0 bar2'))"

fun set_functions ::
  "smartnic_layout \<Rightarrow> nat \<Rightarrow> HostFunctionDmaConfig list \<Rightarrow> 'x esnet_smartnic_bar2 \<Rightarrow>
   CfgErrorCode \<times> 'x esnet_smartnic_bar2" where
  "set_functions l host_id [] bar2 = (CFG_EC_OK, bar2)"
| "set_functions l host_id (func # funcs) bar2 =
     (case convert_to_driver_qdma_function (hfd_func_id func) of None \<Rightarrow> (EC_UNSUPPORTED_HOST_FUNCTION, bar2)
      | Some qf \<Rightarrow>
        (let (ok, bar2') = qdma_function_set_queues l host_id qf (hfd_base_queue func) (hfd_num_queues func) bar2 in
         if \<not> ok then (EC_FAILED_SET_HOST_FUNCTION_DMA_QUEUES, bar2') else set_functions l host_id funcs bar2'))"

text \<open>The queues of a channel: from the lowest base of a function with queues, as many as all of them have.\<close>

fun channel_queues ::
  "smartnic_layout \<Rightarrow> nat list \<Rightarrow> nat \<Rightarrow> 'x esnet_smartnic_bar2 \<Rightarrow> 32 word \<times> 32 word \<Rightarrow> (32 word \<times> 32 word) option" where
  "channel_queues l [] host_id bar2 acc = Some acc"
| "channel_queues l (qf # qfs) host_id bar2 acc =
     (case qdma_function_get_queues l bar2 host_id qf of None \<Rightarrow> None
      | Some (func_base, func_queues) \<Rightarrow>
          channel_queues l qfs host_id bar2
            (if func_queues > 0 then (min (fst acc) func_base, snd acc + func_queues) else acc))"

definition set_dma ::
  "smartnic_layout \<Rightarrow> nat \<Rightarrow> HostDmaConfig \<Rightarrow> 'x esnet_smartnic_bar2 \<Rightarrow> CfgErrorCode \<times> 'x esnet_smartnic_bar2" where
  "set_dma l host_id dma bar2 =
     (let bar2a = (if dma_reset dma then reset_dma l host_id bar2 else bar2);
          (err, bar2b) = set_functions l host_id (dma_functions dma) bar2a in
      if err \<noteq> CFG_EC_OK then (err, bar2b)
      else case channel_queues l [0..<qdma_function_MAX] host_id bar2b (- 1, 0) of
        None \<Rightarrow> (EC_FAILED_SET_HOST_FUNCTION_DMA_QUEUES, bar2b)
      | Some (chan_base, chan_queues) \<Rightarrow>
          (CFG_EC_OK, if chan_queues > 0 then snd (qdma_channel_set_queues l host_id chan_base chan_queues bar2b)
                      else bar2b))"

definition write_host_config ::
  "'x cfg_env \<Rightarrow> HostConfig \<Rightarrow> nat \<Rightarrow> 'x CfgDevice \<Rightarrow> CfgErrorCode \<times> 'x CfgDevice" where
  "write_host_config env config host_id dev =
     (let (err, bar2) = (case hc_dma config of None \<Rightarrow> (CFG_EC_OK, cd_bar2 dev)
                         | Some dma \<Rightarrow> set_dma (ce_layout env) host_id dma (cd_bar2 dev));
          dev1 = dev\<lparr>cd_bar2 := bar2\<rparr> in
      if err \<noteq> CFG_EC_OK then (err, dev1)
      else case hc_flow_control config of None \<Rightarrow> (CFG_EC_OK, dev1)
      | Some et \<Rightarrow>
          (let (ok, blk) = fc_set_egress_threshold fc_interface_type_HOST host_id (threshold_of_config et) (dev_regs dev1)
           in (if \<not> ok then EC_FAILED_SET_HOST_FC_EGR_THRESHOLD else CFG_EC_OK, map_regs (\<lambda>_. blk) dev1)))"

definition set_host_config_body ::
  "'x cfg_env \<Rightarrow> HostConfig \<Rightarrow> nat \<Rightarrow> nat \<Rightarrow> ('x CfgDevice, HostConfigResponse) rpc" where
  "set_host_config_body env config dev_id host_id dev =
     (let (err, dev') = write_host_config env config host_id dev in
      Inr (dev', [\<lparr>hcresp_error_code = err, hcresp_dev_id = dev_id, hcresp_host_id = host_id, hcresp_config = None\<rparr>]))"

definition set_host_config ::
  "'x cfg_env \<Rightarrow> HostConfigRequest \<Rightarrow> ('x SmartnicConfigImpl, HostConfigResponse) rpc" where
  "set_host_config env req =
     for_cfg_devices_with (hcreq_config req) (hcreq_dev_id req) (host_config_error CFG_EC_INVALID_DEVICE_ID 0)
       (host_config_error EC_MISSING_HOST_CONFIG 0)
       (\<lambda>config. for_hosts (hcreq_host_id req) (host_config_error EC_INVALID_HOST_ID) (set_host_config_body env config))"

definition SetHostConfig ::
  "'x cfg_env \<Rightarrow> HostConfigRequest \<Rightarrow> ('x SmartnicConfigImpl, HostConfigResponse) rpc" where
  "SetHostConfig env req = set_host_config env req"

subsection \<open>Statistics\<close>

record HostStatsRequest =
  hsrq_dev_id :: int
  hsrq_host_id :: int
  hsrq_filters :: stats_filters

record HostStatsResponse =
  hsrs_error_code :: CfgErrorCode
  hsrs_dev_id :: nat
  hsrs_host_id :: nat
  hsrs_stats :: "StatsMetric list"

definition host_stats_error :: "CfgErrorCode \<Rightarrow> nat \<Rightarrow> HostStatsResponse" where
  "host_stats_error err dev_id = \<lparr>hsrs_error_code = err, hsrs_dev_id = dev_id, hsrs_host_id = 0, hsrs_stats = []\<rparr>"

definition host_stats_body ::
  "'x cfg_env \<Rightarrow> stats_filters \<Rightarrow> bool \<Rightarrow> nat \<Rightarrow> nat \<Rightarrow> ('x CfgDevice, HostStatsResponse) rpc" where
  "host_stats_body env filters do_clear dev_id host_id dev =
     (case zone_stats env filters do_clear HOST_COUNTERS host_id dev of Inl e \<Rightarrow> Inl e
      | Inr (dev', ms) \<Rightarrow>
          Inr (dev', [\<lparr>hsrs_error_code = CFG_EC_OK, hsrs_dev_id = dev_id, hsrs_host_id = host_id, hsrs_stats = ms\<rparr>]))"

definition get_or_clear_host_stats ::
  "'x cfg_env \<Rightarrow> HostStatsRequest \<Rightarrow> bool \<Rightarrow> ('x SmartnicConfigImpl, HostStatsResponse) rpc" where
  "get_or_clear_host_stats env req do_clear =
     for_cfg_devices (hsrq_dev_id req) (host_stats_error CFG_EC_INVALID_DEVICE_ID 0)
       (for_hosts (hsrq_host_id req) (host_stats_error EC_INVALID_HOST_ID)
          (host_stats_body env (hsrq_filters req) do_clear))"

definition GetHostStats ::
  "'x cfg_env \<Rightarrow> HostStatsRequest \<Rightarrow> ('x SmartnicConfigImpl, HostStatsResponse) rpc" where
  "GetHostStats env req = get_or_clear_host_stats env req False"

definition ClearHostStats ::
  "'x cfg_env \<Rightarrow> HostStatsRequest \<Rightarrow> ('x SmartnicConfigImpl, HostStatsResponse) rpc" where
  "ClearHostStats env req = get_or_clear_host_stats env req True"

end
