(* ===== verification/Cfg_Switch.thy ===== *)
theory Cfg_Switch
  imports Cfg_Types
begin

text \<open>
  \<^verbatim>\<open>sn-cfg/src/agent/switch.cpp\<close>: the requests that configure the packet switch of a card, and its
  statistics.  An enumeration of the protocol is open: \<open>_OTHER\<close> stands for a number without a name.
\<close>

definition init_switch :: "'x bar_env \<Rightarrow> nat set \<Rightarrow> 'x CfgDevice \<Rightarrow> agent_stop + 'x CfgDevice" where
  "init_switch be flags dev =
     add_stats_zone flags SWITCH_COUNTERS (switch_stats_zone_spec be ''switch'' (cd_bar2 dev)) dev"

definition deinit_switch :: "'x CfgDevice \<Rightarrow> agent_stop + 'x CfgDevice" where
  "deinit_switch dev = deinit_zones SWITCH_COUNTERS dev"

subsection \<open>Messages\<close>

datatype SwitchInterface = SW_INTF_UNKNOWN | SW_INTF_PHYSICAL | SW_INTF_TEST | SW_INTF_OTHER

datatype SwitchDestination = SW_DEST_UNKNOWN | SW_DEST_BYPASS | SW_DEST_DROP | SW_DEST_APP | SW_DEST_OTHER

datatype SwitchBypassMode = SW_BYPASS_UNKNOWN | SW_BYPASS_STRAIGHT | SW_BYPASS_SWAP | SW_BYPASS_OTHER

record SwitchIngressSelector =
  isel_index :: nat
  isel_intf :: SwitchInterface
  isel_dest :: SwitchDestination

record SwitchEgressSelector =
  esel_index :: nat
  esel_intf :: SwitchInterface

record SwitchConfig =
  ingress_selectors :: "SwitchIngressSelector list"
  egress_selectors :: "SwitchEgressSelector list"
  bypass_mode :: SwitchBypassMode

record SwitchConfigRequest =
  swreq_dev_id :: int
  swreq_config :: "SwitchConfig option"

record SwitchConfigResponse =
  swresp_error_code :: CfgErrorCode
  swresp_dev_id :: nat
  swresp_config :: "SwitchConfig option"

definition convert_to_driver_interface :: "SwitchInterface \<Rightarrow> switch_interface option" where
  "convert_to_driver_interface i =
     (case i of SW_INTF_PHYSICAL \<Rightarrow> Some switch_interface_PHYSICAL | SW_INTF_TEST \<Rightarrow> Some switch_interface_TEST
      | _ \<Rightarrow> None)"

definition convert_from_driver_interface :: "switch_interface \<Rightarrow> SwitchInterface option" where
  "convert_from_driver_interface i =
     (case i of switch_interface_PHYSICAL \<Rightarrow> Some SW_INTF_PHYSICAL | switch_interface_TEST \<Rightarrow> Some SW_INTF_TEST
      | switch_interface_UNKNOWN \<Rightarrow> None)"

definition convert_to_driver_destination :: "SwitchDestination \<Rightarrow> switch_destination option" where
  "convert_to_driver_destination d =
     (case d of SW_DEST_BYPASS \<Rightarrow> Some switch_destination_BYPASS | SW_DEST_DROP \<Rightarrow> Some switch_destination_DROP
      | SW_DEST_APP \<Rightarrow> Some switch_destination_APP | _ \<Rightarrow> None)"

definition convert_from_driver_destination :: "switch_destination \<Rightarrow> SwitchDestination option" where
  "convert_from_driver_destination d =
     (case d of switch_destination_BYPASS \<Rightarrow> Some SW_DEST_BYPASS | switch_destination_DROP \<Rightarrow> Some SW_DEST_DROP
      | switch_destination_APP \<Rightarrow> Some SW_DEST_APP | switch_destination_UNKNOWN \<Rightarrow> None)"

definition convert_to_driver_bypass_mode :: "SwitchBypassMode \<Rightarrow> switch_bypass_mode option" where
  "convert_to_driver_bypass_mode m =
     (case m of SW_BYPASS_STRAIGHT \<Rightarrow> Some switch_bypass_mode_STRAIGHT | SW_BYPASS_SWAP \<Rightarrow> Some switch_bypass_mode_SWAP
      | _ \<Rightarrow> None)"

definition convert_from_driver_bypass_mode :: "switch_bypass_mode \<Rightarrow> SwitchBypassMode option" where
  "convert_from_driver_bypass_mode m =
     (case m of switch_bypass_mode_STRAIGHT \<Rightarrow> Some SW_BYPASS_STRAIGHT | switch_bypass_mode_SWAP \<Rightarrow> Some SW_BYPASS_SWAP
      | switch_bypass_mode_UNKNOWN \<Rightarrow> None)"

subsection \<open>Reading the configuration\<close>

text \<open>
  Each port adds its ingress and its egress selector to the message; a selector whose conversion
  fails stays in the message with its index and the fields that were converted.
\<close>

definition add_ingress ::
  "smartnic_layout \<Rightarrow> smartnic_block \<Rightarrow> nat \<Rightarrow> SwitchConfig \<Rightarrow> CfgErrorCode \<times> SwitchConfig" where
  "add_ingress l blk port_id config =
     (case switch_get_ingress_selector l blk port_id of None \<Rightarrow> (EC_FAILED_GET_IGR_SEL, config)
      | Some is \<Rightarrow>
        (let add = (\<lambda>i d. config\<lparr>ingress_selectors := ingress_selectors config
                             @ [\<lparr>isel_index = is_index is, isel_intf = i, isel_dest = d\<rparr>]\<rparr>) in
         case convert_from_driver_interface (is_intf is) of
           None \<Rightarrow> (EC_UNSUPPORTED_IGR_SEL_INTF, add SW_INTF_UNKNOWN SW_DEST_UNKNOWN)
         | Some i \<Rightarrow>
           (case convert_from_driver_destination (is_dest is) of
              None \<Rightarrow> (EC_UNSUPPORTED_IGR_SEL_DEST, add i SW_DEST_UNKNOWN)
            | Some d \<Rightarrow> (CFG_EC_OK, add i d))))"

definition add_egress ::
  "smartnic_layout \<Rightarrow> smartnic_block \<Rightarrow> nat \<Rightarrow> SwitchConfig \<Rightarrow> CfgErrorCode \<times> SwitchConfig" where
  "add_egress l blk port_id config =
     (case switch_get_egress_selector l blk port_id of None \<Rightarrow> (EC_FAILED_GET_EGR_SEL, config)
      | Some es \<Rightarrow>
        (let add = (\<lambda>i. config\<lparr>egress_selectors := egress_selectors config
                           @ [\<lparr>esel_index = es_index es, esel_intf = i\<rparr>]\<rparr>) in
         case convert_from_driver_interface (es_intf es) of
           None \<Rightarrow> (EC_UNSUPPORTED_EGR_SEL_INTF, add SW_INTF_UNKNOWN)
         | Some i \<Rightarrow> (CFG_EC_OK, add i)))"

fun add_ports ::
  "smartnic_layout \<Rightarrow> smartnic_block \<Rightarrow> nat list \<Rightarrow> SwitchConfig \<Rightarrow> CfgErrorCode \<times> SwitchConfig" where
  "add_ports l blk [] config = (CFG_EC_OK, config)"
| "add_ports l blk (p # ps) config =
     (let (err, c1) = add_ingress l blk p config in
      if err \<noteq> CFG_EC_OK then (err, c1)
      else let (err2, c2) = add_egress l blk p c1 in
           if err2 \<noteq> CFG_EC_OK then (err2, c2) else add_ports l blk ps c2)"

definition read_switch_config :: "smartnic_layout \<Rightarrow> smartnic_block \<Rightarrow> nat \<Rightarrow> CfgErrorCode \<times> SwitchConfig" where
  "read_switch_config l blk nports =
     (let (err, config) = add_ports l blk [0..<nports]
            \<lparr>ingress_selectors = [], egress_selectors = [], bypass_mode = SW_BYPASS_UNKNOWN\<rparr> in
      if err \<noteq> CFG_EC_OK then (err, config)
      else case convert_from_driver_bypass_mode (switch_get_bypass_mode l blk) of
        None \<Rightarrow> (EC_UNSUPPORTED_BYPASS_MODE, config)
      | Some m \<Rightarrow> (CFG_EC_OK, config\<lparr>bypass_mode := m\<rparr>))"

definition get_switch_config_body :: "'x cfg_env \<Rightarrow> nat \<Rightarrow> ('x CfgDevice, SwitchConfigResponse) rpc" where
  "get_switch_config_body env dev_id dev =
     (let (err, config) = read_switch_config (ce_layout env) (dev_regs dev) (cd_nports dev) in
      Inr (dev, [\<lparr>swresp_error_code = err, swresp_dev_id = dev_id, swresp_config = Some config\<rparr>]))"

definition switch_config_error :: "CfgErrorCode \<Rightarrow> SwitchConfigResponse" where
  "switch_config_error err = \<lparr>swresp_error_code = err, swresp_dev_id = 0, swresp_config = None\<rparr>"

definition get_switch_config ::
  "'x cfg_env \<Rightarrow> SwitchConfigRequest \<Rightarrow> ('x SmartnicConfigImpl, SwitchConfigResponse) rpc" where
  "get_switch_config env req =
     for_cfg_devices (swreq_dev_id req) (switch_config_error CFG_EC_INVALID_DEVICE_ID) (get_switch_config_body env)"

definition GetSwitchConfig ::
  "'x cfg_env \<Rightarrow> SwitchConfigRequest \<Rightarrow> ('x SmartnicConfigImpl, SwitchConfigResponse) rpc" where
  "GetSwitchConfig env req = get_switch_config env req"

subsection \<open>Writing the configuration\<close>

text \<open>The selectors are written one after the other; the first failure leaves the rest as it was.\<close>

fun set_ingress_selectors ::
  "smartnic_layout \<Rightarrow> SwitchIngressSelector list \<Rightarrow> smartnic_block \<Rightarrow> CfgErrorCode \<times> smartnic_block" where
  "set_ingress_selectors l [] blk = (CFG_EC_OK, blk)"
| "set_ingress_selectors l (sel # sels) blk =
     (case convert_to_driver_interface (isel_intf sel) of None \<Rightarrow> (EC_UNSUPPORTED_IGR_SEL_INTF, blk)
      | Some i \<Rightarrow>
        (case convert_to_driver_destination (isel_dest sel) of None \<Rightarrow> (EC_UNSUPPORTED_IGR_SEL_DEST, blk)
         | Some d \<Rightarrow>
           (let (ok, blk') = switch_set_ingress_selector l \<lparr>is_index = isel_index sel, is_intf = i, is_dest = d\<rparr> blk in
            if \<not> ok then (EC_FAILED_SET_IGR_SEL, blk') else set_ingress_selectors l sels blk')))"

fun set_egress_selectors ::
  "smartnic_layout \<Rightarrow> SwitchEgressSelector list \<Rightarrow> smartnic_block \<Rightarrow> CfgErrorCode \<times> smartnic_block" where
  "set_egress_selectors l [] blk = (CFG_EC_OK, blk)"
| "set_egress_selectors l (sel # sels) blk =
     (case convert_to_driver_interface (esel_intf sel) of None \<Rightarrow> (EC_UNSUPPORTED_EGR_SEL_INTF, blk)
      | Some i \<Rightarrow>
        (let (ok, blk') = switch_set_egress_selector l \<lparr>es_index = esel_index sel, es_intf = i\<rparr> blk in
         if \<not> ok then (EC_FAILED_SET_EGR_SEL, blk') else set_egress_selectors l sels blk'))"

definition write_switch_config ::
  "smartnic_layout \<Rightarrow> SwitchConfig \<Rightarrow> smartnic_block \<Rightarrow> CfgErrorCode \<times> smartnic_block" where
  "write_switch_config l config blk =
     (let (err, blk1) = set_ingress_selectors l (ingress_selectors config) blk in
      if err \<noteq> CFG_EC_OK then (err, blk1)
      else
        (let (err2, blk2) = set_egress_selectors l (egress_selectors config) blk1 in
         if err2 \<noteq> CFG_EC_OK then (err2, blk2)
         else if bypass_mode config = SW_BYPASS_UNKNOWN then (CFG_EC_OK, blk2)
         else case convert_to_driver_bypass_mode (bypass_mode config) of None \<Rightarrow> (EC_UNSUPPORTED_BYPASS_MODE, blk2)
         | Some m \<Rightarrow>
             (let (ok, blk3) = switch_set_bypass_mode l m blk2 in
              (if \<not> ok then EC_FAILED_SET_BYPASS_MODE else CFG_EC_OK, blk3))))"

definition set_switch_config_body ::
  "'x cfg_env \<Rightarrow> SwitchConfig \<Rightarrow> nat \<Rightarrow> ('x CfgDevice, SwitchConfigResponse) rpc" where
  "set_switch_config_body env config dev_id dev =
     (let (err, blk) = write_switch_config (ce_layout env) config (dev_regs dev) in
      Inr (map_regs (\<lambda>_. blk) dev, [\<lparr>swresp_error_code = err, swresp_dev_id = dev_id, swresp_config = None\<rparr>]))"

definition set_switch_config ::
  "'x cfg_env \<Rightarrow> SwitchConfigRequest \<Rightarrow> ('x SmartnicConfigImpl, SwitchConfigResponse) rpc" where
  "set_switch_config env req =
     for_cfg_devices_with (swreq_config req) (swreq_dev_id req) (switch_config_error CFG_EC_INVALID_DEVICE_ID)
       (switch_config_error EC_MISSING_SWITCH_CONFIG) (set_switch_config_body env)"

definition SetSwitchConfig ::
  "'x cfg_env \<Rightarrow> SwitchConfigRequest \<Rightarrow> ('x SmartnicConfigImpl, SwitchConfigResponse) rpc" where
  "SetSwitchConfig env req = set_switch_config env req"

subsection \<open>Statistics\<close>

record SwitchStatsRequest =
  swsreq_dev_id :: int
  swsreq_filters :: stats_filters

record SwitchStatsResponse =
  swsresp_error_code :: CfgErrorCode
  swsresp_dev_id :: nat
  swsresp_stats :: "StatsMetric list"

definition switch_stats_body ::
  "'x cfg_env \<Rightarrow> stats_filters \<Rightarrow> bool \<Rightarrow> nat \<Rightarrow> ('x CfgDevice, SwitchStatsResponse) rpc" where
  "switch_stats_body env filters do_clear dev_id dev =
     (case zone_stats env filters do_clear SWITCH_COUNTERS 0 dev of Inl e \<Rightarrow> Inl e
      | Inr (dev', ms) \<Rightarrow>
          Inr (dev', [\<lparr>swsresp_error_code = CFG_EC_OK, swsresp_dev_id = dev_id, swsresp_stats = ms\<rparr>]))"

definition get_or_clear_switch_stats ::
  "'x cfg_env \<Rightarrow> SwitchStatsRequest \<Rightarrow> bool \<Rightarrow> ('x SmartnicConfigImpl, SwitchStatsResponse) rpc" where
  "get_or_clear_switch_stats env req do_clear =
     for_cfg_devices (swsreq_dev_id req)
       \<lparr>swsresp_error_code = CFG_EC_INVALID_DEVICE_ID, swsresp_dev_id = 0, swsresp_stats = []\<rparr>
       (switch_stats_body env (swsreq_filters req) do_clear)"

definition GetSwitchStats ::
  "'x cfg_env \<Rightarrow> SwitchStatsRequest \<Rightarrow> ('x SmartnicConfigImpl, SwitchStatsResponse) rpc" where
  "GetSwitchStats env req = get_or_clear_switch_stats env req False"

definition ClearSwitchStats ::
  "'x cfg_env \<Rightarrow> SwitchStatsRequest \<Rightarrow> ('x SmartnicConfigImpl, SwitchStatsResponse) rpc" where
  "ClearSwitchStats env req = get_or_clear_switch_stats env req True"

end
