(* ===== verification/Cfg_Defaults.thy ===== *)
theory Cfg_Defaults
  imports Cfg_Host Cfg_Switch
begin

text \<open>
  \<^verbatim>\<open>sn-cfg/src/agent/defaults.cpp\<close>: the request that puts a card into its default configuration (with a pause, to drain the pipelines), where
  each port is connected to the application and each host has one queue.
\<close>

text \<open>The ports are visited in order; \<open>None\<close> is a port without a MAC, after the earlier ones are changed.\<close>

fun for_cmacs :: "(cmac_block \<Rightarrow> cmac_block) \<Rightarrow> nat list \<Rightarrow> 'x CfgDevice \<Rightarrow> bool \<times> 'x CfgDevice" where
  "for_cmacs f [] dev = (True, dev)"
| "for_cmacs f (p # ps) dev =
     (case port_cmac p (cd_bar2 dev) of None \<Rightarrow> (False, dev)
      | Some c \<Rightarrow> for_cmacs f ps (put_port_cmac p (f c) dev))"

fun default_hosts ::
  "smartnic_layout \<Rightarrow> nat list \<Rightarrow> 'x esnet_smartnic_bar2 \<Rightarrow> bool \<times> 'x esnet_smartnic_bar2" where
  "default_hosts l [] bar2 = (True, bar2)"
| "default_hosts l (i # is) bar2 =
     (let (ok, b1) = qdma_function_set_queues l i qdma_function_PF (of_nat i) 1 bar2 in
      if \<not> ok then (False, b1)
      else let (ok2, b2) = qdma_channel_set_queues l i (of_nat i) 1 b1 in
           if \<not> ok2 then (False, b2) else default_hosts l is b2)"

definition set_defaults_one_to_one :: "'x cfg_env \<Rightarrow> 'x CfgDevice \<Rightarrow> CfgErrorCode \<times> 'x CfgDevice" where
  "set_defaults_one_to_one env dev =
     (let l = ce_layout env; cl = ce_cmac_layout env;
          (ok1, d1) = for_cmacs (\<lambda>c. cmac_disable cl (cmac_loopback_disable c)) [0..<cd_nports dev] dev in
      if \<not> ok1 then (EC_UNSUPPORTED_PORT_ID, d1)
      else
        (let d2 = map_regs (switch_set_defaults_one_to_one l) d1;
             (ok2, bar2) = default_hosts l [0..<cd_nhosts dev] (cd_bar2 d2);
             d3 = d2\<lparr>cd_bar2 := bar2\<rparr> in
         if \<not> ok2 then (EC_FAILED_SET_HOST_FUNCTION_DMA_QUEUES, d3)
         else
           (let (ok3, d4) = for_cmacs (\<lambda>c. snd (cmac_enable cl (cmac_rsfec_enable cl c))) [0..<cd_nports dev] d3 in
            (if \<not> ok3 then EC_UNSUPPORTED_PORT_ID else CFG_EC_OK, d4))))"

datatype DefaultsProfile = DS_UNKNOWN | DS_ONE_TO_ONE | DS_OTHER

record DefaultsRequest =
  dsreq_dev_id :: int
  dsreq_profile :: DefaultsProfile

record DefaultsResponse =
  dsresp_error_code :: CfgErrorCode
  dsresp_dev_id :: nat

definition set_defaults_body :: "'x cfg_env \<Rightarrow> DefaultsProfile \<Rightarrow> nat \<Rightarrow> ('x CfgDevice, DefaultsResponse) rpc" where
  "set_defaults_body env profile dev_id dev =
     (let (err, dev') = (case profile of DS_ONE_TO_ONE \<Rightarrow> set_defaults_one_to_one env dev
                         | _ \<Rightarrow> (EC_UNKNOWN_DEFAULTS_PROFILE, dev))
      in Inr (dev', [\<lparr>dsresp_error_code = err, dsresp_dev_id = dev_id\<rparr>]))"

definition set_defaults :: "'x cfg_env \<Rightarrow> DefaultsRequest \<Rightarrow> ('x SmartnicConfigImpl, DefaultsResponse) rpc" where
  "set_defaults env req =
     for_cfg_devices (dsreq_dev_id req) \<lparr>dsresp_error_code = CFG_EC_INVALID_DEVICE_ID, dsresp_dev_id = 0\<rparr>
       (set_defaults_body env (dsreq_profile req))"

definition SetDefaults :: "'x cfg_env \<Rightarrow> DefaultsRequest \<Rightarrow> ('x SmartnicConfigImpl, DefaultsResponse) rpc" where
  "SetDefaults env req = set_defaults env req"

end
