(* ===== verification/Cfg_Sample.thy ===== *)
theory Cfg_Sample
  imports Cfg_Defaults
begin

text \<open>
  A card with two ports and two hosts whose registers are zero, with a layout of them that satisfies
  the hypotheses of the properties: the concrete input of their witnesses.
\<close>

definition sample_layout :: smartnic_layout where
  "sample_layout =
     \<lparr>lay_mux_value = \<lparr>bf_shift = 0, bf_width = 2\<rparr>, lay_BYPASS = 0, lay_DROP = 2, lay_APP = 1,
      lay_demux_port0 = \<lparr>bf_shift = 0, bf_width = 1\<rparr>, lay_demux_port1 = \<lparr>bf_shift = 1, bf_width = 1\<rparr>,
      lay_swap_paths = \<lparr>bf_shift = 0, bf_width = 1\<rparr>,
      lay_igr_base = (\<lambda>_. \<lparr>bf_shift = 0, bf_width = 12\<rparr>), lay_igr_num_q = (\<lambda>_. \<lparr>bf_shift = 12, bf_width = 12\<rparr>),
      lay_h2q_base = \<lparr>bf_shift = 0, bf_width = 12\<rparr>, lay_h2q_value = (\<lambda>_. \<lparr>bf_shift = 0, bf_width = 12\<rparr>),
      lay_qbase = \<lparr>bf_shift = 0, bf_width = 16\<rparr>, lay_numq = \<lparr>bf_shift = 16, bf_width = 16\<rparr>\<rparr>"

definition sample_cmac_layout :: cmac_layout where
  "sample_cmac_layout =
     \<lparr>lay_usr_tx_reset = \<lparr>bf_shift = 31, bf_width = 1\<rparr>, lay_usr_rx_reset = \<lparr>bf_shift = 30, bf_width = 1\<rparr>,
      lay_ctl_rx_enable = \<lparr>bf_shift = 0, bf_width = 1\<rparr>, lay_ctl_tx_enable = \<lparr>bf_shift = 0, bf_width = 1\<rparr>,
      lay_ieee_err_ind_mode = \<lparr>bf_shift = 2, bf_width = 1\<rparr>, lay_rsfec_en_ind = \<lparr>bf_shift = 1, bf_width = 1\<rparr>,
      lay_rsfec_en_cor = \<lparr>bf_shift = 0, bf_width = 1\<rparr>, lay_tx_rsfec_enable = \<lparr>bf_shift = 1, bf_width = 1\<rparr>,
      lay_rx_rsfec_enable = \<lparr>bf_shift = 0, bf_width = 1\<rparr>, lay_stat_rx_status = \<lparr>bf_shift = 0, bf_width = 1\<rparr>,
      lay_stat_rx_aligned = \<lparr>bf_shift = 1, bf_width = 1\<rparr>\<rparr>"

definition sample_block :: smartnic_block where
  "sample_block =
     \<lparr>smartnic_mux_out_sel = [0, 0, 0, 0], smartnic_demux_out_sel = 0, bypass_config = 0,
      igr_q_config_0 = [0, 0, 0, 0], igr_q_config_1 = [0, 0, 0, 0], egr_fc_thresh = [0, 0, 0, 0]\<rparr>"

definition sample_hash2qid :: smartnic_hash2qid_block where
  "sample_hash2qid =
     \<lparr>q_config = [0, 0, 0, 0], pf_table = [0, 0], vf0_table = [0, 0], vf1_table = [0, 0], vf2_table = [0, 0]\<rparr>"

definition sample_cmac :: cmac_block where
  "sample_cmac =
     \<lparr>reset_reg = 0, gt_loopback = 0, conf_rx_1 = 0, conf_tx_1 = 0, rsfec_conf_ind_correction = 0,
      rsfec_conf_enable = 0, stat_tx_status_at = (\<lambda>_. 0), stat_tx_reads = 0, stat_rx_status_at = (\<lambda>_. 3), stat_rx_reads = 0\<rparr>"

definition sample_sysmon :: sysmon_block where
  "sample_sysmon =
     \<lparr>software_reset = 0, sysmon_flag = 0, config_reg_1 = 0, seqchsel0 = 0, seqchsel1 = 0, seqchsel2 = 0,
      seqavg0 = 0, seqavg1 = 0, seqavg2 = 0, seqinmode0 = 0, seqinmode1 = 0\<rparr>"

definition sample_device_of :: "'x \<Rightarrow> 'x CfgDevice" where
  "sample_device_of x =
     \<lparr>cd_bus_id = ''0000:81:00.0'',
      cd_bar2 = \<lparr>smartnic_regs = sample_block, cmac0 = sample_cmac, cmac1 = sample_cmac, qdma_func0 = 0, qdma_func1 = 0,
                 smartnic_hash2qid_0 = sample_hash2qid, smartnic_hash2qid_1 = sample_hash2qid,
                 syscfg = \<lparr>usr_access = 0, build_status = 0, syscfg_dna = [0, 0, 0]\<rparr>,
                 sysmon0 = sample_sysmon, sysmon1 = sample_sysmon, sysmon2 = sample_sysmon,
                 module_latch = (\<lambda>_. \<lparr>latch_gpio = \<lparr>qsfp_reset = False, qsfp_low_power_mode = False, qsfp_select = False,
                   qsfp_present = False, qsfp_interrupt = False\<rparr>, latch_lo = None\<rparr>), bar_rest = x\<rparr>,
      cd_nhosts = 2, cd_nports = 2,
      cd_domains = (\<lambda>_. stats_domain_alloc \<lparr>dspec_name = ''counters'', dspec_interval_ms = 1000\<rparr>),
      cd_zones = (\<lambda>_. [])\<rparr>"

definition sample_device :: "unit CfgDevice" where "sample_device = sample_device_of ()"

definition sample_agent_of :: "'x CfgDevice list \<Rightarrow> 'x SmartnicConfigImpl" where
  "sample_agent_of devs =
     \<lparr>cfg_devices = devs, cfg_debug_flags = {}, cfg_stats_flags = {},
      cfg_clock = \<lparr>start_wall = \<lparr>tv_sec = 0, tv_nsec = 0\<rparr>, start_mono = \<lparr>tv_sec = 0, tv_nsec = 0\<rparr>, now_mono = None\<rparr>,
      cfg_server_domain = stats_domain_alloc \<lparr>dspec_name = ''sn-cfg'', dspec_interval_ms = 1000\<rparr>,
      cfg_server_zone = None\<rparr>"

definition sample_agent :: "unit SmartnicConfigImpl" where "sample_agent = sample_agent_of [sample_device, sample_device]"

definition sample_cms_layout :: cms_layout where
  "sample_cms_layout =
     \<lparr>lay_reg_map_ready = \<lparr>bf_shift = 0, bf_width = 1\<rparr>, lay_sat_ctrl_mode = \<lparr>bf_shift = 28, bf_width = 3\<rparr>,
      lay_reset_error_reg = \<lparr>bf_shift = 1, bf_width = 1\<rparr>, lay_mailbox_msg_status = \<lparr>bf_shift = 5, bf_width = 1\<rparr>,
      lay_hbm_temp_monitor_enable = \<lparr>bf_shift = 27, bf_width = 1\<rparr>, lay_pkt_error = \<lparr>bf_shift = 31, bf_width = 1\<rparr>,
      lay_sat_ctrl_err = \<lparr>bf_shift = 1, bf_width = 1\<rparr>, lay_sat_ctrl_err_code = \<lparr>bf_shift = 24, bf_width = 7\<rparr>\<rparr>"

definition sample_sysmon_layout :: sysmon_layout where
  "sample_sysmon_layout =
     \<lparr>lay_seq = \<lparr>bf_shift = 12, bf_width = 4\<rparr>, lay_SEQ_SINGLE_CHANNEL = 3, lay_SEQ_CONTINUOUS = 2,
      lay_ref = \<lparr>bf_shift = 9, bf_width = 1\<rparr>, lay_REF_EXTERNAL = 0, lay_software_reset = id\<rparr>"

definition sample_fp :: fp_ops where
  "sample_fp = \<lparr>fp_of_int = word_of_int, fp_literal = (\<lambda>_. 1), fp_div = (\<lambda>x _. x), fp_mul = (\<lambda>x _. x), fp_add = (\<lambda>x _. x)\<rparr>"

definition sample_env_of :: "'x cms_hw \<Rightarrow> 'x cfg_env" where
  "sample_env_of hw =
     \<lparr>ce_layout = sample_layout, ce_cmac_layout = sample_cmac_layout,
      ce_bar = \<lparr>be_offsetof = (\<lambda>_ _. 0), be_sizeof = (\<lambda>_ _. 4),
                be_probe = \<lparr>lay_latch = \<lparr>bf_shift = 0, bf_width = 2\<rparr>, lay_clear = \<lparr>bf_shift = 2, bf_width = 2\<rparr>,
                            LATCH_ON_WR_EVT = 1, LATCH_ON_CLK = 0, CLEAR_ON_WR_EVT = 1, NO_CLEAR = 0\<rparr>,
                be_write32 = (\<lambda>_ _ x. x), be_mem = (\<lambda>_ _ _. 0), be_v2_switch_counters = False\<rparr>,
      ce_cms = hw,
      ce_cms_layout = sample_cms_layout, ce_sysmon_layout = sample_sysmon_layout, ce_fp = sample_fp,
      ce_ether_aton = (\<lambda>_ old. old),
      ce_regex = \<lparr>regex_match = (\<lambda>_ p str. Some (p = str)), regex_split = (\<lambda>_ str. Some [str])\<rparr>,
      ce_stats = \<lparr>env_double = id, env_mem = (\<lambda>_ _ _. 0), env_clock = (\<lambda>_. 0), env_domain = '''', env_zone = ''''\<rparr>,
      ce_getenv = (\<lambda>_. None), ce_pci_file = (\<lambda>_. None)\<rparr>"

text \<open>A card management subsystem that does nothing.\<close>

definition no_cms :: "unit cms_hw" where
  "no_cms =
     \<lparr>cms_rd = (\<lambda>_ c. (0, c)), cms_wr = (\<lambda>_ _ c. c), cms_mem_rd = (\<lambda>_ c. (0, c)), cms_mem_wr = (\<lambda>_ _ c. c),
      cms_usleep = (\<lambda>_ c. c)\<rparr>"

definition sample_env :: "unit cfg_env" where "sample_env = sample_env_of no_cms"

lemmas sample_defs =
  sample_layout_def sample_cmac_layout_def sample_block_def sample_hash2qid_def sample_cmac_def sample_sysmon_def sample_device_def sample_device_of_def
  sample_cms_layout_def sample_sysmon_layout_def sample_fp_def
  sample_agent_def sample_agent_of_def sample_env_def sample_env_of_def no_cms_def

lemma sample_layout_ok: "layout_ok (ce_layout sample_env)"
  by (simp add: layout_ok_def sample_env_def sample_env_of_def sample_layout_def bf_ok_def bf_fits_def bf_disjoint_def)

lemma sample_cmac_layout_ok: "cmac_layout_ok (ce_cmac_layout sample_env)"
  by (simp add: cmac_layout_ok_def sample_env_def sample_env_of_def sample_cmac_layout_def bf_ok_def bf_disjoint_def)

lemma sample_block_ok: "block_ok (dev_regs (cfg_devices sample_agent ! 1))"
  by (simp add: block_ok_def sample_agent_def sample_agent_of_def sample_device_def sample_device_of_def sample_block_def)

lemma sample_hash2qid_ok: "hash2qid_ok 2 sample_hash2qid"
  by (simp add: hash2qid_ok_def sample_hash2qid_def)

end
