(* ===== verification/Cfg_Switch_Props.thy ===== *)
theory Cfg_Switch_Props
  imports Cfg_Sample
begin

text \<open>
  The configuration of the packet switch through the agent: which requests are accepted, and that
  what was set is what is read back.
\<close>

subsection \<open>One device\<close>

lemma for_range_single:
  "i < n \<Longrightarrow> for_range (int i) n invalid body s = body i s"
  by (simp add: for_range_def id_range_single split: sum.splits prod.splits)

lemma for_cfg_devices_single:
  "i < length (cfg_devices s) \<Longrightarrow>
   for_cfg_devices (int i) invalid body s =
     (case body i (cfg_devices s ! i) of Inl e \<Rightarrow> Inl e
      | Inr (d, rs) \<Rightarrow> Inr (s\<lparr>cfg_devices := (cfg_devices s)[i := d]\<rparr>, rs))"
  by (simp add: for_cfg_devices_def for_range_single on_cfg_device_def split: sum.splits prod.splits)

lemma for_cfg_devices_with_single:
  "i < length (cfg_devices s) \<Longrightarrow>
   for_cfg_devices_with (Some c) (int i) invalid missing body s = for_cfg_devices (int i) invalid (body c) s"
  by (simp add: for_cfg_devices_with_def)

subsection \<open>Selectors of the switch\<close>

lemma layout_mux:
  assumes "layout_ok l"
  shows "bf_ok (lay_mux_value l)" "bf_fits (lay_mux_value l) (lay_BYPASS l)" "bf_fits (lay_mux_value l) (lay_DROP l)"
    "bf_fits (lay_mux_value l) (lay_APP l)" "lay_BYPASS l \<noteq> lay_DROP l" "lay_BYPASS l \<noteq> lay_APP l" "lay_DROP l \<noteq> lay_APP l"
  using assms by (auto simp: layout_ok_def)

definition mux_dest :: "smartnic_layout \<Rightarrow> smartnic_block \<Rightarrow> nat \<Rightarrow> switch_destination option" where
  "mux_dest l blk tid = switch_destination_from_mux_sel l (bf_get (lay_mux_value l) (smartnic_mux_out_sel blk ! tid))"

lemma to_from_mux:
  assumes "layout_ok l" and "d \<noteq> switch_destination_UNKNOWN"
  shows "\<exists>v. switch_destination_to_mux_sel l d = Some v \<and>
     (\<forall>w. switch_destination_from_mux_sel l (bf_get (lay_mux_value l) (bf_set (lay_mux_value l) v w)) = Some d)"
  using assms(2) layout_mux [OF assms(1)]
  by (cases d)
    (auto simp: switch_destination_to_mux_sel_def switch_destination_from_mux_sel_def bf_get_set_fits)

lemma get_ingress_mux:
  assumes "block_ok blk" and "p < 2"
  shows "switch_get_ingress_selector l blk p =
    (case mux_dest l blk (2 + p) of None \<Rightarrow> None
     | Some d \<Rightarrow> if d \<noteq> switch_destination_DROP
         then Some \<lparr>is_index = p, is_intf = switch_interface_TEST, is_dest = d\<rparr>
         else map_option (\<lambda>d'. \<lparr>is_index = p, is_intf = switch_interface_PHYSICAL, is_dest = d'\<rparr>) (mux_dest l blk p))"
  using assms
  by (auto simp: switch_get_ingress_selector_def get_ingress_selector_of_intf_def switch_port_to_mux_tid_def
      SWITCH_NUM_PORTS_def mux_dest_def block_ok_def split: option.splits)

lemma set_of_intf:
  assumes "layout_ok l" and "block_ok blk" and "i < 2" and "d \<noteq> switch_destination_UNKNOWN"
    and "tid = (if t = switch_interface_PHYSICAL then i else 2 + i)" and "t \<noteq> switch_interface_UNKNOWN"
  shows "\<exists>blk'. set_ingress_selector_of_intf l \<lparr>is_index = i, is_intf = t, is_dest = d\<rparr> blk = (True, blk') \<and>
     block_ok blk' \<and> smartnic_demux_out_sel blk' = smartnic_demux_out_sel blk \<and> bypass_config blk' = bypass_config blk \<and>
     (\<forall>k < 4. mux_dest l blk' k = (if k = tid then Some d else mux_dest l blk k)) \<and>
     igr_q_config_0 blk' = igr_q_config_0 blk \<and> igr_q_config_1 blk' = igr_q_config_1 blk \<and> egr_fc_thresh blk' = egr_fc_thresh blk"
proof -
  obtain v where v: "switch_destination_to_mux_sel l d = Some v"
    "\<And>w. switch_destination_from_mux_sel l (bf_get (lay_mux_value l) (bf_set (lay_mux_value l) v w)) = Some d"
    using to_from_mux [OF assms(1,4)] by blast
  have tid: "switch_port_to_mux_tid i t = Some tid" "tid < 4"
    using assms(3,5,6) by (cases t; simp add: switch_port_to_mux_tid_def SWITCH_NUM_PORTS_def)+
  show ?thesis using assms(2) v tid
    by (auto simp: set_ingress_selector_of_intf_def block_ok_def mux_dest_def nth_list_update)
qed

text \<open>What the registers of the switch mean to the agent.\<close>

definition reported_ingress :: "SwitchIngressSelector \<Rightarrow> SwitchIngressSelector" where
  "reported_ingress sel =
     (if isel_dest sel = SW_DEST_DROP then sel\<lparr>isel_intf := SW_INTF_PHYSICAL\<rparr> else sel)"

definition ingress_ok :: "SwitchIngressSelector \<Rightarrow> bool" where
  "ingress_ok sel \<longleftrightarrow> isel_index sel < 2 \<and> isel_intf sel \<in> {SW_INTF_PHYSICAL, SW_INTF_TEST} \<and>
     isel_dest sel \<in> {SW_DEST_BYPASS, SW_DEST_DROP, SW_DEST_APP}"

definition egress_ok :: "SwitchEgressSelector \<Rightarrow> bool" where
  "egress_ok sel \<longleftrightarrow> esel_index sel < 2 \<and> esel_intf sel \<in> {SW_INTF_PHYSICAL, SW_INTF_TEST}"

definition port_ingress :: "smartnic_layout \<Rightarrow> smartnic_block \<Rightarrow> nat \<Rightarrow> SwitchIngressSelector option" where
  "port_ingress l blk p =
     (case switch_get_ingress_selector l blk p of None \<Rightarrow> None
      | Some s \<Rightarrow>
        (case (convert_from_driver_interface (is_intf s), convert_from_driver_destination (is_dest s)) of
           (Some i, Some d) \<Rightarrow> Some \<lparr>isel_index = is_index s, isel_intf = i, isel_dest = d\<rparr>
         | _ \<Rightarrow> None))"

definition port_egress :: "smartnic_layout \<Rightarrow> smartnic_block \<Rightarrow> nat \<Rightarrow> SwitchEgressSelector" where
  "port_egress l blk p =
     \<lparr>esel_index = p, esel_intf = if bf_get (if p = 0 then lay_demux_port0 l else lay_demux_port1 l) (smartnic_demux_out_sel blk) \<noteq> 0
                                  then SW_INTF_TEST else SW_INTF_PHYSICAL\<rparr>"

definition switch_bypass :: "smartnic_layout \<Rightarrow> smartnic_block \<Rightarrow> SwitchBypassMode" where
  "switch_bypass l blk =
     (if bf_get (lay_swap_paths l) (bypass_config blk) \<noteq> 0 then SW_BYPASS_SWAP else SW_BYPASS_STRAIGHT)"

text \<open>The other registers of the block are those of the queues and thresholds.\<close>

definition same_queues :: "smartnic_block \<Rightarrow> smartnic_block \<Rightarrow> bool" where
  "same_queues b c \<longleftrightarrow> igr_q_config_0 b = igr_q_config_0 c \<and> igr_q_config_1 b = igr_q_config_1 c \<and>
     egr_fc_thresh b = egr_fc_thresh c"

lemma driver_ingress:
  assumes "ingress_ok sel"
  obtains i d where "convert_to_driver_interface (isel_intf sel) = Some i" "i \<noteq> switch_interface_UNKNOWN"
    "convert_to_driver_destination (isel_dest sel) = Some d" "d \<noteq> switch_destination_UNKNOWN"
    "convert_from_driver_interface i = Some (isel_intf sel)" "convert_from_driver_destination d = Some (isel_dest sel)"
    "d = switch_destination_DROP \<longleftrightarrow> isel_dest sel = SW_DEST_DROP"
    "i = switch_interface_TEST \<longleftrightarrow> isel_intf sel = SW_INTF_TEST"
  using assms unfolding ingress_ok_def
  by (cases "isel_intf sel"; cases "isel_dest sel")
    (auto simp: convert_to_driver_interface_def convert_to_driver_destination_def convert_from_driver_interface_def
      convert_from_driver_destination_def)

lemma set_ingress:
  assumes "layout_ok l" and "block_ok blk" and "ingress_ok sel"
  shows "\<exists>i d blk'. convert_to_driver_interface (isel_intf sel) = Some i \<and>
     convert_to_driver_destination (isel_dest sel) = Some d \<and>
     switch_set_ingress_selector l \<lparr>is_index = isel_index sel, is_intf = i, is_dest = d\<rparr> blk = (True, blk') \<and>
     block_ok blk' \<and> same_queues blk' blk \<and> port_egress l blk' = port_egress l blk \<and> switch_bypass l blk' = switch_bypass l blk \<and>
     (\<forall>p < 2. port_ingress l blk' p = (if p = isel_index sel then Some (reported_ingress sel) else port_ingress l blk p))"
proof -
  obtain i d where id: "convert_to_driver_interface (isel_intf sel) = Some i" "i \<noteq> switch_interface_UNKNOWN"
    "convert_to_driver_destination (isel_dest sel) = Some d" "d \<noteq> switch_destination_UNKNOWN"
    "convert_from_driver_interface i = Some (isel_intf sel)" "convert_from_driver_destination d = Some (isel_dest sel)"
    "d = switch_destination_DROP \<longleftrightarrow> isel_dest sel = SW_DEST_DROP"
    "i = switch_interface_TEST \<longleftrightarrow> isel_intf sel = SW_INTF_TEST" by (rule driver_ingress [OF assms(3)])
  let ?n = "isel_index sel"
  define dp where "dp = (if i \<noteq> switch_interface_PHYSICAL then switch_destination_DROP else d)"
  define dt where "dt = (if i \<noteq> switch_interface_TEST then switch_destination_DROP else d)"
  have n: "?n < 2" using assms(3) by (simp add: ingress_ok_def)
  have known: "dp \<noteq> switch_destination_UNKNOWN" "dt \<noteq> switch_destination_UNKNOWN" using id(4) by (simp_all add: dp_def dt_def)
  obtain b1 where b1: "set_ingress_selector_of_intf l \<lparr>is_index = ?n, is_intf = switch_interface_PHYSICAL, is_dest = dp\<rparr> blk = (True, b1)"
    "block_ok b1" "smartnic_demux_out_sel b1 = smartnic_demux_out_sel blk" "bypass_config b1 = bypass_config blk"
    "\<forall>k < 4. mux_dest l b1 k = (if k = ?n then Some dp else mux_dest l blk k)" "same_queues b1 blk"
    using set_of_intf [OF assms(1,2) n known(1) refl, of switch_interface_PHYSICAL] by (auto simp: same_queues_def)
  obtain b2 where b2: "set_ingress_selector_of_intf l \<lparr>is_index = ?n, is_intf = switch_interface_TEST, is_dest = dt\<rparr> b1 = (True, b2)"
    "block_ok b2" "smartnic_demux_out_sel b2 = smartnic_demux_out_sel b1" "bypass_config b2 = bypass_config b1"
    "\<forall>k < 4. mux_dest l b2 k = (if k = 2 + ?n then Some dt else mux_dest l b1 k)" "same_queues b2 b1"
    using set_of_intf [OF assms(1) b1(2) n known(2) refl, of switch_interface_TEST] by (auto simp: same_queues_def)
  have set_eq: "switch_set_ingress_selector l \<lparr>is_index = ?n, is_intf = i, is_dest = d\<rparr> blk = (True, b2)"
    using b1(1) b2(1) by (cases i) (simp_all add: switch_set_ingress_selector_def dp_def dt_def)
  have mux: "mux_dest l b2 k = (if k = 2 + ?n then Some dt else if k = ?n then Some dp else mux_dest l blk k)" if "k < 4" for k
    using b1(5) b2(5) that n by auto
  have "port_ingress l b2 p = (if p = ?n then Some (reported_ingress sel) else port_ingress l blk p)" if p: "p < 2" for p
  proof (cases "p = ?n")
    case True
    then show ?thesis
      using mux [of p] mux [of "2 + p"] n id get_ingress_mux [OF b2(2) p, of l]
      by (cases i) (auto simp: port_ingress_def reported_ingress_def dp_def dt_def convert_from_driver_interface_def)
  next
    case False
    then have "mux_dest l b2 p = mux_dest l blk p" "mux_dest l b2 (2 + p) = mux_dest l blk (2 + p)"
      using mux [of p] mux [of "2 + p"] p n by simp_all
    then show ?thesis using False
      by (simp only: port_ingress_def get_ingress_mux [OF b2(2) p] get_ingress_mux [OF assms(2) p] if_False)
  qed
  then show ?thesis using set_eq id(1,3) b2 b1
    by (auto simp: same_queues_def port_egress_def switch_bypass_def fun_eq_iff)
qed

lemma port_ingress_cong:
  assumes "smartnic_mux_out_sel b = smartnic_mux_out_sel c"
  shows "port_ingress l b = port_ingress l c"
proof -
  have eq: "get_ingress_selector_of_intf l b = get_ingress_selector_of_intf l c"
    unfolding get_ingress_selector_of_intf_def assms by (rule refl)
  show ?thesis unfolding port_ingress_def switch_get_ingress_selector_def eq by (rule refl)
qed

lemma layout_demux:
  assumes "layout_ok l"
  shows "bf_ok (lay_demux_port0 l)" "bf_ok (lay_demux_port1 l)" "bf_disjoint (lay_demux_port0 l) (lay_demux_port1 l)"
    "bf_disjoint (lay_demux_port1 l) (lay_demux_port0 l)" "bf_ok (lay_swap_paths l)"
  using assms by (auto simp: layout_ok_def bf_disjoint_def)

lemma set_egress:
  assumes "layout_ok l" and "block_ok blk" and "egress_ok sel"
  shows "\<exists>i blk'. convert_to_driver_interface (esel_intf sel) = Some i \<and>
     switch_set_egress_selector l \<lparr>es_index = esel_index sel, es_intf = i\<rparr> blk = (True, blk') \<and>
     block_ok blk' \<and> same_queues blk' blk \<and> port_ingress l blk' = port_ingress l blk \<and> switch_bypass l blk' = switch_bypass l blk \<and>
     (\<forall>p < 2. port_egress l blk' p = (if p = esel_index sel then sel else port_egress l blk p))"
proof -
  let ?n = "esel_index sel"
  have n: "?n = 0 \<or> ?n = 1" and intf: "esel_intf sel = SW_INTF_PHYSICAL \<or> esel_intf sel = SW_INTF_TEST"
    using assms(3) by (auto simp: egress_ok_def)
  define f where "f = (if ?n = 0 then lay_demux_port0 l else lay_demux_port1 l)"
  define v :: "32 word" where "v = (if esel_intf sel = SW_INTF_TEST then 1 else 0)"
  define i where "i = (if esel_intf sel = SW_INTF_TEST then switch_interface_TEST else switch_interface_PHYSICAL)"
  define b where "b = blk\<lparr>smartnic_demux_out_sel := bf_set f v (smartnic_demux_out_sel blk)\<rparr>"
  have conv: "convert_to_driver_interface (esel_intf sel) = Some i"
    using intf by (auto simp: i_def convert_to_driver_interface_def)
  have set_eq: "switch_set_egress_selector l \<lparr>es_index = ?n, es_intf = i\<rparr> blk = (True, b)"
    using n intf by (auto simp: switch_set_egress_selector_def demux_port_def i_def b_def f_def v_def)
  have rest: "block_ok b" "same_queues b blk" "port_ingress l b = port_ingress l blk" "switch_bypass l b = switch_bypass l blk"
    using assms(2) port_ingress_cong [of b blk l]
    by (simp_all add: b_def block_ok_def same_queues_def switch_bypass_def)
  have "port_egress l b p = (if p = ?n then sel else port_egress l blk p)" if "p < 2" for p
  proof -
    have p: "p = 0 \<or> p = 1" using that by auto
    define fp where "fp = (if p = 0 then lay_demux_port0 l else lay_demux_port1 l)"
    have fits: "bf_fits f v" using layout_demux(1,2) [OF assms(1)] by (simp add: f_def v_def bf_fits_0_1)
    have "bf_get fp (smartnic_demux_out_sel b) = (if p = ?n then v else bf_get fp (smartnic_demux_out_sel blk))"
      using p n fits layout_demux [OF assms(1)] unfolding b_def fp_def f_def
      by (elim disjE) (simp_all add: bf_get_set_fits bf_get_set_other)
    then show ?thesis using intf
      by (cases sel) (auto simp: port_egress_def fp_def [symmetric] v_def)
  qed
  then show ?thesis using conv set_eq rest by blast
qed

subsection \<open>Lists of selectors\<close>

definition last_ingress :: "SwitchIngressSelector list \<Rightarrow> nat \<Rightarrow> SwitchIngressSelector option" where
  "last_ingress sels p = find (\<lambda>sel. isel_index sel = p) (rev sels)"

definition last_egress :: "SwitchEgressSelector list \<Rightarrow> nat \<Rightarrow> SwitchEgressSelector option" where
  "last_egress sels p = find (\<lambda>sel. esel_index sel = p) (rev sels)"

lemma find_append: "find P (xs @ ys) = (case find P xs of None \<Rightarrow> find P ys | Some x \<Rightarrow> Some x)"
  by (induction xs) simp_all

lemma last_ingress_Cons:
  "last_ingress (sel # sels) p =
     (case last_ingress sels p of Some s \<Rightarrow> Some s | None \<Rightarrow> if isel_index sel = p then Some sel else None)"
  by (simp add: last_ingress_def find_append split: option.splits)

lemma last_egress_Cons:
  "last_egress (sel # sels) p =
     (case last_egress sels p of Some s \<Rightarrow> Some s | None \<Rightarrow> if esel_index sel = p then Some sel else None)"
  by (simp add: last_egress_def find_append split: option.splits)

lemma set_ingress_list:
  assumes "layout_ok l" and "block_ok blk" and "\<forall>sel \<in> set sels. ingress_ok sel"
  shows "\<exists>blk'. set_ingress_selectors l sels blk = (CFG_EC_OK, blk') \<and>
     block_ok blk' \<and> same_queues blk' blk \<and> port_egress l blk' = port_egress l blk \<and> switch_bypass l blk' = switch_bypass l blk \<and>
     (\<forall>p < 2. port_ingress l blk' p =
        (case last_ingress sels p of Some s \<Rightarrow> Some (reported_ingress s) | None \<Rightarrow> port_ingress l blk p))"
  using assms(2,3)
proof (induction sels arbitrary: blk)
  case Nil
  then show ?case by (simp add: last_ingress_def same_queues_def)
next
  case (Cons sel sels)
  have "ingress_ok sel" using Cons.prems by simp
  from set_ingress [OF assms(1) Cons.prems(1) this] obtain i d b where b:
    "convert_to_driver_interface (isel_intf sel) = Some i" "convert_to_driver_destination (isel_dest sel) = Some d"
    "switch_set_ingress_selector l \<lparr>is_index = isel_index sel, is_intf = i, is_dest = d\<rparr> blk = (True, b)"
    "block_ok b" "same_queues b blk" "port_egress l b = port_egress l blk" "switch_bypass l b = switch_bypass l blk"
    "\<forall>p < 2. port_ingress l b p = (if p = isel_index sel then Some (reported_ingress sel) else port_ingress l blk p)"
    by blast
  have "\<forall>sel \<in> set sels. ingress_ok sel" using Cons.prems by simp
  from Cons.IH [OF b(4) this] b show ?case
    by (auto simp: last_ingress_Cons same_queues_def split: option.splits)
qed

lemma set_egress_list:
  assumes "layout_ok l" and "block_ok blk" and "\<forall>sel \<in> set sels. egress_ok sel"
  shows "\<exists>blk'. set_egress_selectors l sels blk = (CFG_EC_OK, blk') \<and>
     block_ok blk' \<and> same_queues blk' blk \<and> port_ingress l blk' = port_ingress l blk \<and> switch_bypass l blk' = switch_bypass l blk \<and>
     (\<forall>p < 2. port_egress l blk' p = (case last_egress sels p of Some s \<Rightarrow> s | None \<Rightarrow> port_egress l blk p))"
  using assms(2,3)
proof (induction sels arbitrary: blk)
  case Nil
  then show ?case by (simp add: last_egress_def same_queues_def)
next
  case (Cons sel sels)
  have "egress_ok sel" using Cons.prems by simp
  from set_egress [OF assms(1) Cons.prems(1) this] obtain i b where b:
    "convert_to_driver_interface (esel_intf sel) = Some i"
    "switch_set_egress_selector l \<lparr>es_index = esel_index sel, es_intf = i\<rparr> blk = (True, b)"
    "block_ok b" "same_queues b blk" "port_ingress l b = port_ingress l blk" "switch_bypass l b = switch_bypass l blk"
    "\<forall>p < 2. port_egress l b p = (if p = esel_index sel then sel else port_egress l blk p)"
    by blast
  have "\<forall>sel \<in> set sels. egress_ok sel" using Cons.prems by simp
  from Cons.IH [OF b(3) this] b show ?case
    by (auto simp: last_egress_Cons same_queues_def split: option.splits)
qed

lemma set_bypass:
  assumes "layout_ok l" and "block_ok blk" and "m = SW_BYPASS_STRAIGHT \<or> m = SW_BYPASS_SWAP"
  shows "\<exists>d blk'. convert_to_driver_bypass_mode m = Some d \<and> switch_set_bypass_mode l d blk = (True, blk') \<and>
     block_ok blk' \<and> same_queues blk' blk \<and> port_ingress l blk' = port_ingress l blk \<and> port_egress l blk' = port_egress l blk \<and>
     switch_bypass l blk' = m"
proof -
  define v :: "32 word" where "v = (if m = SW_BYPASS_SWAP then 1 else 0)"
  define d where "d = (if m = SW_BYPASS_SWAP then switch_bypass_mode_SWAP else switch_bypass_mode_STRAIGHT)"
  define b where "b = blk\<lparr>bypass_config := bf_set (lay_swap_paths l) v (bypass_config blk)\<rparr>"
  have "convert_to_driver_bypass_mode m = Some d" "switch_set_bypass_mode l d blk = (True, b)"
    using assms(3) by (auto simp: convert_to_driver_bypass_mode_def switch_set_bypass_mode_def d_def b_def v_def)
  moreover have "block_ok b" "same_queues b blk" "port_ingress l b = port_ingress l blk" "port_egress l b = port_egress l blk"
    using assms(2) port_ingress_cong [of b blk l]
    by (simp_all add: b_def block_ok_def same_queues_def port_egress_def fun_eq_iff)
  moreover have "switch_bypass l b = m"
    using assms(3) layout_demux(5) [OF assms(1)] by (auto simp: switch_bypass_def b_def v_def reg_facts)
  ultimately show ?thesis by blast
qed

subsection \<open>The configuration of a device\<close>

text \<open>What a configuration makes of one that was read: the last selector for a port replaces that of the port.\<close>

definition overlay_switch :: "SwitchConfig \<Rightarrow> SwitchConfig \<Rightarrow> SwitchConfig" where
  "overlay_switch c c0 =
     \<lparr>ingress_selectors = map (\<lambda>old. case last_ingress (ingress_selectors c) (isel_index old) of
          Some sel \<Rightarrow> reported_ingress sel | None \<Rightarrow> old) (ingress_selectors c0),
      egress_selectors = map (\<lambda>old. case last_egress (egress_selectors c) (esel_index old) of
          Some sel \<Rightarrow> sel | None \<Rightarrow> old) (egress_selectors c0),
      bypass_mode = if bypass_mode c = SW_BYPASS_UNKNOWN then bypass_mode c0 else bypass_mode c\<rparr>"

definition switch_config_ok :: "SwitchConfig \<Rightarrow> bool" where
  "switch_config_ok c \<longleftrightarrow> list_all ingress_ok (ingress_selectors c) \<and> list_all egress_ok (egress_selectors c) \<and>
     bypass_mode c \<noteq> SW_BYPASS_OTHER"

lemma write_switch_config_ok:
  assumes "layout_ok l" and "block_ok blk" and "switch_config_ok c"
  shows "\<exists>blk'. write_switch_config l c blk = (CFG_EC_OK, blk') \<and> block_ok blk' \<and> same_queues blk' blk \<and>
     (\<forall>p < 2. port_ingress l blk' p =
        (case last_ingress (ingress_selectors c) p of Some s \<Rightarrow> Some (reported_ingress s) | None \<Rightarrow> port_ingress l blk p)) \<and>
     (\<forall>p < 2. port_egress l blk' p =
        (case last_egress (egress_selectors c) p of Some s \<Rightarrow> s | None \<Rightarrow> port_egress l blk p)) \<and>
     switch_bypass l blk' = (if bypass_mode c = SW_BYPASS_UNKNOWN then switch_bypass l blk else bypass_mode c)"
proof -
  have ok: "\<forall>sel \<in> set (ingress_selectors c). ingress_ok sel" "\<forall>sel \<in> set (egress_selectors c). egress_ok sel"
    using assms(3) by (simp_all add: switch_config_ok_def list_all_iff)
  obtain b1 where b1: "set_ingress_selectors l (ingress_selectors c) blk = (CFG_EC_OK, b1)" "block_ok b1" "same_queues b1 blk"
    "port_egress l b1 = port_egress l blk" "switch_bypass l b1 = switch_bypass l blk"
    "\<forall>p < 2. port_ingress l b1 p = (case last_ingress (ingress_selectors c) p of Some s \<Rightarrow> Some (reported_ingress s)
       | None \<Rightarrow> port_ingress l blk p)"
    using set_ingress_list [OF assms(1,2) ok(1)] by blast
  obtain b2 where b2: "set_egress_selectors l (egress_selectors c) b1 = (CFG_EC_OK, b2)" "block_ok b2" "same_queues b2 b1"
    "port_ingress l b2 = port_ingress l b1" "switch_bypass l b2 = switch_bypass l b1"
    "\<forall>p < 2. port_egress l b2 p = (case last_egress (egress_selectors c) p of Some s \<Rightarrow> s | None \<Rightarrow> port_egress l b1 p)"
    using set_egress_list [OF assms(1) b1(2) ok(2)] by blast
  have read: "\<forall>p < 2. port_ingress l b2 p = (case last_ingress (ingress_selectors c) p of Some s \<Rightarrow> Some (reported_ingress s)
       | None \<Rightarrow> port_ingress l blk p)"
    "\<forall>p < 2. port_egress l b2 p = (case last_egress (egress_selectors c) p of Some s \<Rightarrow> s | None \<Rightarrow> port_egress l blk p)"
    using b1(6) b2(6) [unfolded b1(4)] unfolding b2(4) by blast+
  have same: "same_queues b2 blk" using b1(3) b2(3) by (simp add: same_queues_def)
  show ?thesis
  proof (cases "bypass_mode c = SW_BYPASS_UNKNOWN")
    case True
    then have "write_switch_config l c blk = (CFG_EC_OK, b2)" using b1(1) b2(1) by (simp add: write_switch_config_def)
    then show ?thesis using True read same b2(2,5) b1(5) by (intro exI [of _ b2]) simp
  next
    case False
    then have "bypass_mode c = SW_BYPASS_STRAIGHT \<or> bypass_mode c = SW_BYPASS_SWAP"
      using assms(3) by (cases "bypass_mode c") (auto simp: switch_config_ok_def)
    from set_bypass [OF assms(1) b2(2) this] obtain d b3 where b3: "convert_to_driver_bypass_mode (bypass_mode c) = Some d"
      "switch_set_bypass_mode l d b2 = (True, b3)" "block_ok b3" "same_queues b3 b2" "port_ingress l b3 = port_ingress l b2"
      "port_egress l b3 = port_egress l b2" "switch_bypass l b3 = bypass_mode c" by blast
    have "write_switch_config l c blk = (CFG_EC_OK, b3)"
      using b1(1) b2(1) b3(1,2) False by (simp add: write_switch_config_def)
    moreover have "same_queues b3 blk" using same b3(4) by (simp add: same_queues_def)
    ultimately show ?thesis using False read b3(3,5-7) by (intro exI [of _ b3]) simp
  qed
qed

lemma add_ingress_OK:
  "add_ingress l blk p cfg = (CFG_EC_OK, cfg') \<longleftrightarrow>
     (\<exists>s. port_ingress l blk p = Some s \<and> cfg' = cfg\<lparr>ingress_selectors := ingress_selectors cfg @ [s]\<rparr>)"
  by (auto simp: add_ingress_def port_ingress_def Let_def split: option.splits)

lemma add_egress_OK:
  "p < 2 \<Longrightarrow> add_egress l blk p cfg = (CFG_EC_OK, cfg\<lparr>egress_selectors := egress_selectors cfg @ [port_egress l blk p]\<rparr>)"
  by (auto simp: add_egress_def switch_get_egress_selector_def demux_port_def port_egress_def convert_from_driver_interface_def)

lemma add_ports_OK:
  assumes "p < 2"
  shows "add_ports l blk (p # ps) cfg = (CFG_EC_OK, cfg') \<longleftrightarrow>
     (\<exists>s. port_ingress l blk p = Some s \<and>
        add_ports l blk ps (cfg\<lparr>ingress_selectors := ingress_selectors cfg @ [s],
                                egress_selectors := egress_selectors cfg @ [port_egress l blk p]\<rparr>) = (CFG_EC_OK, cfg'))"
proof (cases "port_ingress l blk p")
  case None
  then have "fst (add_ingress l blk p cfg) \<noteq> CFG_EC_OK" using add_ingress_OK [of l blk p cfg] by (metis option.distinct(1) prod.collapse)
  then show ?thesis using None by (auto split: prod.splits)
next
  case (Some s)
  then have "add_ingress l blk p cfg = (CFG_EC_OK, cfg\<lparr>ingress_selectors := ingress_selectors cfg @ [s]\<rparr>)"
    by (simp add: add_ingress_OK)
  then show ?thesis using Some by (simp add: add_egress_OK [OF assms])
qed

lemma read_switch_config_2:
  "read_switch_config l blk 2 = (CFG_EC_OK, c) \<longleftrightarrow>
     (\<exists>s0 s1. port_ingress l blk 0 = Some s0 \<and> port_ingress l blk 1 = Some s1 \<and>
        c = \<lparr>ingress_selectors = [s0, s1], egress_selectors = [port_egress l blk 0, port_egress l blk 1],
             bypass_mode = switch_bypass l blk\<rparr>)"
proof -
  have u: "[0..<2] = [0, 1 :: nat]" by (simp add: upt_rec)
  have bp: "convert_from_driver_bypass_mode (switch_get_bypass_mode l blk) = Some (switch_bypass l blk)"
    by (simp add: convert_from_driver_bypass_mode_def switch_get_bypass_mode_def switch_bypass_def)
  have "read_switch_config l blk 2 = (CFG_EC_OK, c) \<longleftrightarrow>
      (\<exists>c1. add_ports l blk [0, 1] \<lparr>ingress_selectors = [], egress_selectors = [], bypass_mode = SW_BYPASS_UNKNOWN\<rparr>
              = (CFG_EC_OK, c1) \<and> c = c1\<lparr>bypass_mode := switch_bypass l blk\<rparr>)"
    unfolding read_switch_config_def u bp by (auto simp: Let_def simp del: add_ports.simps split: prod.splits if_splits)
  also have "\<dots> \<longleftrightarrow> (\<exists>s0 s1. port_ingress l blk 0 = Some s0 \<and> port_ingress l blk 1 = Some s1 \<and>
        c = \<lparr>ingress_selectors = [s0, s1], egress_selectors = [port_egress l blk 0, port_egress l blk 1],
             bypass_mode = switch_bypass l blk\<rparr>)"
    by (auto simp: add_ports_OK simp del: add_ports.simps(2))
  finally show ?thesis .
qed

lemma port_ingress_index: "port_ingress l blk p = Some s \<Longrightarrow> isel_index s = p"
  by (auto simp: port_ingress_def switch_get_ingress_selector_def get_ingress_selector_of_intf_def split: option.splits if_splits)

lemma write_read_switch_config:
  assumes "layout_ok l" and "block_ok blk" and "switch_config_ok c" and "read_switch_config l blk 2 = (CFG_EC_OK, c0)"
  shows "\<exists>blk'. write_switch_config l c blk = (CFG_EC_OK, blk') \<and> block_ok blk' \<and> same_queues blk' blk \<and>
     read_switch_config l blk' 2 = (CFG_EC_OK, overlay_switch c c0)"
proof -
  obtain blk' where w: "write_switch_config l c blk = (CFG_EC_OK, blk')" "block_ok blk'" "same_queues blk' blk"
    "\<forall>p < 2. port_ingress l blk' p =
        (case last_ingress (ingress_selectors c) p of Some s \<Rightarrow> Some (reported_ingress s) | None \<Rightarrow> port_ingress l blk p)"
    "\<forall>p < 2. port_egress l blk' p =
        (case last_egress (egress_selectors c) p of Some s \<Rightarrow> s | None \<Rightarrow> port_egress l blk p)"
    "switch_bypass l blk' = (if bypass_mode c = SW_BYPASS_UNKNOWN then switch_bypass l blk else bypass_mode c)"
    using write_switch_config_ok [OF assms(1-3)] by blast
  obtain s0 s1 where r: "port_ingress l blk 0 = Some s0" "port_ingress l blk 1 = Some s1"
    "c0 = \<lparr>ingress_selectors = [s0, s1], egress_selectors = [port_egress l blk 0, port_egress l blk 1],
           bypass_mode = switch_bypass l blk\<rparr>"
    using assms(4) by (auto simp: read_switch_config_2)
  have idx: "isel_index s0 = 0" "isel_index s1 = 1" "esel_index (port_egress l blk 0) = 0" "esel_index (port_egress l blk 1) = 1"
    using port_ingress_index r(1,2) by (simp_all add: port_egress_def)
  have p: "port_ingress l blk' 0 = Some (case last_ingress (ingress_selectors c) 0 of Some s \<Rightarrow> reported_ingress s | None \<Rightarrow> s0)"
    "port_ingress l blk' 1 = Some (case last_ingress (ingress_selectors c) 1 of Some s \<Rightarrow> reported_ingress s | None \<Rightarrow> s1)"
    using w(4) r by (auto split: option.splits)
  have "read_switch_config l blk' 2 = (CFG_EC_OK, overlay_switch c c0)"
    unfolding read_switch_config_2 overlay_switch_def using p idx w(5,6) r(3) by simp
  then show ?thesis using w by blast
qed

text \<open>Property C17.
  The configuration of the switch of a card is read back as it was set: a request with
  selectors for the two ports, with known interfaces and destinations, succeeds, and from then on
  the last selector of a port is what is reported for it, a port without one and a bypass mode
  that is not given keep what was reported before, and the queues, the thresholds and the other
  devices are left alone.  Only a selector that drops the packets of the test interface is reported as one for the
  physical interface.
\<close>

theorem switch_config_readback:
  assumes "layout_ok (ce_layout env)" and "i < length (cfg_devices s)"
    and "block_ok (dev_regs (cfg_devices s ! i))" and "cd_nports (cfg_devices s ! i) = 2"
    and "switch_config_ok c"
    and "GetSwitchConfig env \<lparr>swreq_dev_id = int i, swreq_config = None\<rparr> s =
           Inr (s, [\<lparr>swresp_error_code = CFG_EC_OK, swresp_dev_id = i, swresp_config = Some c0\<rparr>])"
  shows "\<exists>s'. SetSwitchConfig env \<lparr>swreq_dev_id = int i, swreq_config = Some c\<rparr> s =
             Inr (s', [\<lparr>swresp_error_code = CFG_EC_OK, swresp_dev_id = i, swresp_config = None\<rparr>]) \<and>
           GetSwitchConfig env \<lparr>swreq_dev_id = int i, swreq_config = None\<rparr> s' =
             Inr (s', [\<lparr>swresp_error_code = CFG_EC_OK, swresp_dev_id = i, swresp_config = Some (overlay_switch c c0)\<rparr>]) \<and>
           same_queues (dev_regs (cfg_devices s' ! i)) (dev_regs (cfg_devices s ! i)) \<and>
           (\<forall>j. j \<noteq> i \<longrightarrow> cfg_devices s' ! j = cfg_devices s ! j)"
proof -
  let ?l = "ce_layout env" and ?dev = "cfg_devices s ! i"
  have "read_switch_config ?l (dev_regs ?dev) 2 = (CFG_EC_OK, c0)"
    using assms(2,4,6)
    by (simp add: GetSwitchConfig_def get_switch_config_def for_cfg_devices_single get_switch_config_body_def split: prod.splits)
  from write_read_switch_config [OF assms(1,3,5) this] obtain blk where blk:
    "write_switch_config ?l c (dev_regs ?dev) = (CFG_EC_OK, blk)" "same_queues blk (dev_regs ?dev)"
    "read_switch_config ?l blk 2 = (CFG_EC_OK, overlay_switch c c0)" by blast
  let ?s = "s\<lparr>cfg_devices := (cfg_devices s)[i := map_regs (\<lambda>_. blk) ?dev]\<rparr>"
  have "SetSwitchConfig env \<lparr>swreq_dev_id = int i, swreq_config = Some c\<rparr> s =
      Inr (?s, [\<lparr>swresp_error_code = CFG_EC_OK, swresp_dev_id = i, swresp_config = None\<rparr>])"
    using assms(2) blk(1)
    by (simp add: SetSwitchConfig_def set_switch_config_def for_cfg_devices_with_single for_cfg_devices_single
      set_switch_config_body_def)
  moreover have "GetSwitchConfig env \<lparr>swreq_dev_id = int i, swreq_config = None\<rparr> ?s =
      Inr (?s, [\<lparr>swresp_error_code = CFG_EC_OK, swresp_dev_id = i, swresp_config = Some (overlay_switch c c0)\<rparr>])"
    using assms(2,4) blk(3)
    by (simp add: GetSwitchConfig_def get_switch_config_def for_cfg_devices_single get_switch_config_body_def map_regs_def)
  ultimately show ?thesis using assms(2) blk(2) by (intro exI [of _ ?s]) (simp add: map_regs_def)
qed

lemma switch_config_readback_witness:
  "\<exists>s'. SetSwitchConfig sample_env \<lparr>swreq_dev_id = 1, swreq_config = Some
           \<lparr>ingress_selectors = [\<lparr>isel_index = 1, isel_intf = SW_INTF_TEST, isel_dest = SW_DEST_DROP\<rparr>,
                                 \<lparr>isel_index = 0, isel_intf = SW_INTF_TEST, isel_dest = SW_DEST_APP\<rparr>],
            egress_selectors = [\<lparr>esel_index = 1, esel_intf = SW_INTF_TEST\<rparr>], bypass_mode = SW_BYPASS_SWAP\<rparr>\<rparr> sample_agent =
         Inr (s', [\<lparr>swresp_error_code = CFG_EC_OK, swresp_dev_id = 1, swresp_config = None\<rparr>]) \<and>
       GetSwitchConfig sample_env \<lparr>swreq_dev_id = 1, swreq_config = None\<rparr> s' =
         Inr (s', [\<lparr>swresp_error_code = CFG_EC_OK, swresp_dev_id = 1, swresp_config = Some
           \<lparr>ingress_selectors = [\<lparr>isel_index = 0, isel_intf = SW_INTF_TEST, isel_dest = SW_DEST_APP\<rparr>,
                                 \<lparr>isel_index = 1, isel_intf = SW_INTF_PHYSICAL, isel_dest = SW_DEST_DROP\<rparr>],
            egress_selectors = [\<lparr>esel_index = 0, esel_intf = SW_INTF_PHYSICAL\<rparr>, \<lparr>esel_index = 1, esel_intf = SW_INTF_TEST\<rparr>],
            bypass_mode = SW_BYPASS_SWAP\<rparr>\<rparr>])"
proof -
  let ?new = "\<lparr>ingress_selectors = [\<lparr>isel_index = 1, isel_intf = SW_INTF_TEST, isel_dest = SW_DEST_DROP\<rparr>,
                                 \<lparr>isel_index = 0, isel_intf = SW_INTF_TEST, isel_dest = SW_DEST_APP\<rparr>],
            egress_selectors = [\<lparr>esel_index = 1, esel_intf = SW_INTF_TEST\<rparr>], bypass_mode = SW_BYPASS_SWAP\<rparr>"
  let ?old = "\<lparr>ingress_selectors = [\<lparr>isel_index = 0, isel_intf = SW_INTF_TEST, isel_dest = SW_DEST_BYPASS\<rparr>,
                                 \<lparr>isel_index = 1, isel_intf = SW_INTF_TEST, isel_dest = SW_DEST_BYPASS\<rparr>],
            egress_selectors = [\<lparr>esel_index = 0, esel_intf = SW_INTF_PHYSICAL\<rparr>, \<lparr>esel_index = 1, esel_intf = SW_INTF_PHYSICAL\<rparr>],
            bypass_mode = SW_BYPASS_STRAIGHT\<rparr>"
  have two: "(1::nat) < length (cfg_devices sample_agent)" "cd_nports (cfg_devices sample_agent ! 1) = 2"
    by (simp_all add: sample_agent_def sample_agent_of_def sample_device_def sample_device_of_def)
  have ok: "switch_config_ok ?new" by (simp add: switch_config_ok_def ingress_ok_def egress_ok_def)
  have "read_switch_config sample_layout sample_block 2 = (CFG_EC_OK, ?old)" by code_simp
  then have "GetSwitchConfig sample_env \<lparr>swreq_dev_id = int 1, swreq_config = None\<rparr> sample_agent =
      Inr (sample_agent, [\<lparr>swresp_error_code = CFG_EC_OK, swresp_dev_id = 1, swresp_config = Some ?old\<rparr>])"
    unfolding GetSwitchConfig_def get_switch_config_def by (simp add: for_cfg_devices_single [where i = 1, simplified]
      get_switch_config_body_def sample_defs)
  from switch_config_readback [OF sample_layout_ok two(1) sample_block_ok two(2) ok this]
  show ?thesis
    by (elim exE conjE, intro exI conjI)
      (simp_all add: overlay_switch_def last_ingress_def last_egress_def reported_ingress_def)
qed

end
