(* ===== verification/Cfg_Port_Props.thy ===== *)
theory Cfg_Port_Props
  imports Cfg_Switch_Props
begin

text \<open>
  The configuration of the ports through the agent: what was set is what is read back, for the
  port of the request only.
\<close>

subsection \<open>Thresholds\<close>

lemma config_of_threshold_sint: "config_of_threshold w = sint w"
  by (simp add: config_of_threshold_def FC_THRESHOLD_UNLIMITED_def)

lemma config_of_threshold_of_config:
  assumes "et < 2 ^ 31"
  shows "config_of_threshold (threshold_of_config et) = (if et < 0 then - 1 else et)"
  using assms
  by (simp add: config_of_threshold_sint threshold_of_config_def FC_THRESHOLD_UNLIMITED_def sint_sbintrunc'
      signed_take_bit_int_eq_self)

lemma fc_set_get:
  assumes "block_ok blk" and "fc_interface_to_egr_threshold_tid t p = Some tid"
  shows "\<exists>blk'. fc_set_egress_threshold t p v blk = (True, blk') \<and> block_ok blk' \<and>
     blk' = blk\<lparr>egr_fc_thresh := egr_fc_thresh blk'\<rparr> \<and>
     (\<forall>t' p'. fc_get_egress_threshold blk' t' p' =
        (if fc_interface_to_egr_threshold_tid t' p' = Some tid then Some v else fc_get_egress_threshold blk t' p'))"
proof -
  have tid: "tid < 4" using assms(2)
    by (auto simp: fc_interface_to_egr_threshold_tid_def FC_NUM_INTFS_PER_TYPE_def split: if_splits fc_interface_type.splits)
  then have "fc_set_egress_threshold t p v blk = (True, blk\<lparr>egr_fc_thresh := (egr_fc_thresh blk)[tid := v]\<rparr>)"
    using assms by (simp add: fc_set_egress_threshold_def block_ok_def)
  then show ?thesis using assms(1) tid
    by (auto simp: block_ok_def fc_get_egress_threshold_def nth_list_update split: option.splits)
qed

lemma port_tid: "p < 2 \<Longrightarrow> fc_interface_to_egr_threshold_tid fc_interface_type_PORT p = Some p"
  by (simp add: fc_interface_to_egr_threshold_tid_def FC_NUM_INTFS_PER_TYPE_def)

lemma host_tid: "p < 2 \<Longrightarrow> fc_interface_to_egr_threshold_tid fc_interface_type_HOST p = Some (2 + p)"
  by (simp add: fc_interface_to_egr_threshold_tid_def FC_NUM_INTFS_PER_TYPE_def)

lemma fc_port_tid_iff: "fc_interface_to_egr_threshold_tid fc_interface_type_PORT q = Some p \<longleftrightarrow> q = p \<and> p < 2"
  by (auto simp: fc_interface_to_egr_threshold_tid_def FC_NUM_INTFS_PER_TYPE_def)

subsection \<open>The MAC of a port\<close>

lemma cmac_layout:
  assumes "cmac_layout_ok l"
  shows "bf_ok (lay_ctl_rx_enable l)" "bf_ok (lay_ctl_tx_enable l)" "bf_ok (lay_tx_rsfec_enable l)" "bf_ok (lay_rx_rsfec_enable l)"
    "bf_disjoint (lay_tx_rsfec_enable l) (lay_rx_rsfec_enable l)"
  using assms by (simp_all add: cmac_layout_ok_def)

lemma enabled_after [simp]:
  assumes "cmac_layout_ok l"
  shows "cmac_is_enabled l (snd (cmac_enable l c))" "\<not> cmac_is_enabled l (cmac_disable l c)"
  using cmac_layout [OF assms]
  by (simp_all add: cmac_is_enabled_def cmac_enable_def cmac_disable_def read_tx_status_def read_rx_status_def
      Let_def bf_get_set_fits bf_fits_0_1)

lemma rsfec_after [simp]:
  assumes "cmac_layout_ok l"
  shows "cmac_rsfec_is_enabled l (cmac_rsfec_enable l c)" "\<not> cmac_rsfec_is_enabled l (cmac_rsfec_disable l c)"
  using cmac_layout [OF assms]
  by (simp_all add: cmac_rsfec_is_enabled_def cmac_rsfec_enable_def cmac_rsfec_disable_def rsfec_conf_def cmac_reset_def
      Let_def bf_get_set_fits bf_get_set_other bf_fits_0_1)

lemma loopback_after [simp]:
  "cmac_loopback_is_enabled (cmac_loopback_enable c)" "\<not> cmac_loopback_is_enabled (cmac_loopback_disable c)"
  by (simp_all add: cmac_loopback_is_enabled_def cmac_loopback_enable_def cmac_loopback_disable_def)

text \<open>Each of the three settings leaves the other two alone.\<close>

lemma settings_apart [simp]:
  "cmac_rsfec_is_enabled l (snd (cmac_enable l c)) = cmac_rsfec_is_enabled l c"
  "cmac_rsfec_is_enabled l (cmac_disable l c) = cmac_rsfec_is_enabled l c"
  "cmac_rsfec_is_enabled l (cmac_loopback_enable c) = cmac_rsfec_is_enabled l c"
  "cmac_rsfec_is_enabled l (cmac_loopback_disable c) = cmac_rsfec_is_enabled l c"
  "cmac_is_enabled l (cmac_rsfec_enable l c) = cmac_is_enabled l c"
  "cmac_is_enabled l (cmac_rsfec_disable l c) = cmac_is_enabled l c"
  "cmac_is_enabled l (cmac_loopback_enable c) = cmac_is_enabled l c"
  "cmac_is_enabled l (cmac_loopback_disable c) = cmac_is_enabled l c"
  "cmac_loopback_is_enabled (snd (cmac_enable l c)) = cmac_loopback_is_enabled c"
  "cmac_loopback_is_enabled (cmac_disable l c) = cmac_loopback_is_enabled c"
  "cmac_loopback_is_enabled (cmac_rsfec_enable l c) = cmac_loopback_is_enabled c"
  "cmac_loopback_is_enabled (cmac_rsfec_disable l c) = cmac_loopback_is_enabled c"
  by (simp_all add: cmac_rsfec_is_enabled_def cmac_is_enabled_def cmac_loopback_is_enabled_def cmac_enable_def cmac_disable_def
      read_tx_status_def read_rx_status_def cmac_loopback_enable_def cmac_loopback_disable_def cmac_rsfec_enable_def
      cmac_rsfec_disable_def rsfec_conf_def cmac_reset_def Let_def)

definition cmac_config_ok :: "PortConfig \<Rightarrow> bool" where
  "cmac_config_ok c \<longleftrightarrow> pc_state c \<noteq> PORT_STATE_OTHER \<and> pc_fec c \<noteq> PORT_FEC_OTHER \<and> pc_loopback c \<noteq> PORT_LOOPBACK_OTHER"

lemma set_port_cmac_ok:
  assumes "cmac_layout_ok l" and "cmac_config_ok config"
  shows "\<exists>c'. set_port_cmac l config c = (CFG_EC_OK, c') \<and>
     cmac_is_enabled l c' = (if pc_state config = PORT_STATE_UNKNOWN then cmac_is_enabled l c
                             else pc_state config = PORT_STATE_ENABLE) \<and>
     cmac_rsfec_is_enabled l c' = (if pc_fec config = PORT_FEC_UNKNOWN then cmac_rsfec_is_enabled l c
                             else pc_fec config = PORT_FEC_REED_SOLOMON) \<and>
     cmac_loopback_is_enabled c' = (if pc_loopback config = PORT_LOOPBACK_UNKNOWN then cmac_loopback_is_enabled c
                             else pc_loopback config = PORT_LOOPBACK_NEAR_END_PMA)"
proof -
  obtain c1 where c1: "set_port_state l (pc_state config) c = Some c1"
    "cmac_is_enabled l c1 = (if pc_state config = PORT_STATE_UNKNOWN then cmac_is_enabled l c else pc_state config = PORT_STATE_ENABLE)"
    "cmac_rsfec_is_enabled l c1 = cmac_rsfec_is_enabled l c" "cmac_loopback_is_enabled c1 = cmac_loopback_is_enabled c"
    using assms by (cases "pc_state config") (auto simp: set_port_state_def cmac_config_ok_def)
  obtain c2 where c2: "set_port_fec l (pc_fec config) c1 = Some c2"
    "cmac_rsfec_is_enabled l c2 = (if pc_fec config = PORT_FEC_UNKNOWN then cmac_rsfec_is_enabled l c1
                                   else pc_fec config = PORT_FEC_REED_SOLOMON)"
    "cmac_is_enabled l c2 = cmac_is_enabled l c1" "cmac_loopback_is_enabled c2 = cmac_loopback_is_enabled c1"
    using assms by (cases "pc_fec config") (auto simp: set_port_fec_def cmac_config_ok_def)
  obtain c3 where c3: "set_port_loopback (pc_loopback config) c2 = Some c3"
    "cmac_loopback_is_enabled c3 = (if pc_loopback config = PORT_LOOPBACK_UNKNOWN then cmac_loopback_is_enabled c2
                                    else pc_loopback config = PORT_LOOPBACK_NEAR_END_PMA)"
    "cmac_is_enabled l c3 = cmac_is_enabled l c2" "cmac_rsfec_is_enabled l c3 = cmac_rsfec_is_enabled l c2"
    using assms by (cases "pc_loopback config") (auto simp: set_port_loopback_def cmac_config_ok_def)
  show ?thesis using c1 c2 c3 by (simp add: set_port_cmac_def)
qed

subsection \<open>The configuration of a port\<close>

definition port_config_ok :: "PortConfig \<Rightarrow> bool" where
  "port_config_ok c \<longleftrightarrow> cmac_config_ok c \<and> (case pc_flow_control c of None \<Rightarrow> True | Some et \<Rightarrow> et < 2 ^ 31)"

text \<open>What a configuration makes of one that was read: what is not given stays as it is.\<close>

definition overlay_port :: "PortConfig \<Rightarrow> PortConfig \<Rightarrow> PortConfig" where
  "overlay_port c c0 =
     \<lparr>pc_state = if pc_state c = PORT_STATE_UNKNOWN then pc_state c0 else pc_state c,
      pc_fec = if pc_fec c = PORT_FEC_UNKNOWN then pc_fec c0 else pc_fec c,
      pc_loopback = if pc_loopback c = PORT_LOOPBACK_UNKNOWN then pc_loopback c0 else pc_loopback c,
      pc_flow_control = (case pc_flow_control c of None \<Rightarrow> pc_flow_control c0
                         | Some et \<Rightarrow> Some (if et < 0 then - 1 else et))\<rparr>"

text \<open>What is read depends on the MAC and the threshold of the port only.\<close>

definition mac_config :: "cmac_layout \<Rightarrow> cmac_block \<Rightarrow> 32 word \<Rightarrow> PortConfig" where
  "mac_config l c threshold =
     \<lparr>pc_state = if cmac_is_enabled l c then PORT_STATE_ENABLE else PORT_STATE_DISABLE,
      pc_fec = if cmac_rsfec_is_enabled l c then PORT_FEC_REED_SOLOMON else PORT_FEC_NONE,
      pc_loopback = if cmac_loopback_is_enabled c then PORT_LOOPBACK_NEAR_END_PMA else PORT_LOOPBACK_NONE,
      pc_flow_control = Some (config_of_threshold threshold)\<rparr>"

lemma read_port_config_eq:
  assumes "port_cmac p (cd_bar2 dev) = Some c" and "fc_get_egress_threshold (dev_regs dev) fc_interface_type_PORT p = Some t"
  shows "read_port_config env p dev = (CFG_EC_OK, Some (mac_config (ce_cmac_layout env) c t))"
  using assms by (simp add: read_port_config_def mac_config_def Let_def)

lemma read_port_config_cong:
  assumes "port_cmac q (cd_bar2 dev') = port_cmac q (cd_bar2 dev)"
    and "fc_get_egress_threshold (dev_regs dev') fc_interface_type_PORT q = fc_get_egress_threshold (dev_regs dev) fc_interface_type_PORT q"
  shows "read_port_config env q dev' = read_port_config env q dev"
  unfolding read_port_config_def assms by (rule refl)

lemma set_port_cmac_overlay:
  assumes "cmac_layout_ok l" and "cmac_config_ok config"
  obtains c' where "set_port_cmac l config c = (CFG_EC_OK, c')"
    "\<And>t'. mac_config l c' t' = (overlay_port config (mac_config l c t))\<lparr>pc_flow_control := Some (config_of_threshold t')\<rparr>"
proof -
  obtain c' where c': "set_port_cmac l config c = (CFG_EC_OK, c')"
    "cmac_is_enabled l c' = (if pc_state config = PORT_STATE_UNKNOWN then cmac_is_enabled l c
                             else pc_state config = PORT_STATE_ENABLE)"
    "cmac_rsfec_is_enabled l c' = (if pc_fec config = PORT_FEC_UNKNOWN then cmac_rsfec_is_enabled l c
                             else pc_fec config = PORT_FEC_REED_SOLOMON)"
    "cmac_loopback_is_enabled c' = (if pc_loopback config = PORT_LOOPBACK_UNKNOWN then cmac_loopback_is_enabled c
                             else pc_loopback config = PORT_LOOPBACK_NEAR_END_PMA)"
    using set_port_cmac_ok [OF assms] by blast
  have "mac_config l c' t' = (overlay_port config (mac_config l c t))\<lparr>pc_flow_control := Some (config_of_threshold t')\<rparr>" for t'
    using assms(2) c'(2-4)
    by (cases "pc_state config"; cases "pc_fec config"; cases "pc_loopback config")
      (simp_all add: mac_config_def overlay_port_def cmac_config_ok_def)
  then show ?thesis using c'(1) that by blast
qed

lemma port_cmac_put:
  "p < 2 \<Longrightarrow> port_cmac q (cd_bar2 (put_port_cmac p c dev)) = (if q = p then Some c else port_cmac q (cd_bar2 dev))"
  by (auto simp: port_cmac_def put_port_cmac_def)

lemma dev_regs_put [simp]:
  "dev_regs (put_port_cmac p c dev) = dev_regs dev" "cd_nports (put_port_cmac p c dev) = cd_nports dev"
  by (simp_all add: put_port_cmac_def)

lemma map_regs_sel [simp]:
  "dev_regs (map_regs f dev) = f (dev_regs dev)" "port_cmac q (cd_bar2 (map_regs f dev)) = port_cmac q (cd_bar2 dev)"
  "cd_nports (map_regs f dev) = cd_nports dev"
  by (simp_all add: map_regs_def port_cmac_def)

lemma write_read_port:
  assumes "cmac_layout_ok (ce_cmac_layout env)" and "block_ok (dev_regs dev)" and "p < 2" and "port_config_ok config"
    and "read_port_config env p dev = (CFG_EC_OK, Some c0)"
  shows "\<exists>dev'. write_port_config env config p dev = (CFG_EC_OK, dev') \<and> cd_nports dev' = cd_nports dev \<and>
     block_ok (dev_regs dev') \<and> read_port_config env p dev' = (CFG_EC_OK, Some (overlay_port config c0)) \<and>
     (\<forall>q. q \<noteq> p \<longrightarrow> read_port_config env q dev' = read_port_config env q dev)"
proof -
  let ?l = "ce_cmac_layout env"
  have "p = 0 \<or> p = 1" using assms(3) by auto
  then obtain c where c: "port_cmac p (cd_bar2 dev) = Some c" by (auto simp: port_cmac_def)
  obtain t where t: "fc_get_egress_threshold (dev_regs dev) fc_interface_type_PORT p = Some t"
    using assms(2,3) by (simp add: fc_get_egress_threshold_def port_tid block_ok_def)
  have c0: "c0 = mac_config ?l c t" using assms(5) read_port_config_eq [OF c t, of env] by simp
  obtain c' where c': "set_port_cmac ?l config c = (CFG_EC_OK, c')"
    "\<And>t'. mac_config ?l c' t' = (overlay_port config c0)\<lparr>pc_flow_control := Some (config_of_threshold t')\<rparr>"
    using set_port_cmac_overlay [OF assms(1), of config c t] assms(4) by (auto simp: port_config_ok_def c0)
  define d1 where "d1 = put_port_cmac p c' dev"
  have d1: "port_cmac p (cd_bar2 d1) = Some c'" "dev_regs d1 = dev_regs dev" "cd_nports d1 = cd_nports dev"
    "\<And>q. q \<noteq> p \<Longrightarrow> port_cmac q (cd_bar2 d1) = port_cmac q (cd_bar2 dev)"
    using assms(3) by (simp_all add: d1_def port_cmac_put)
  show ?thesis
  proof (cases "pc_flow_control config")
    case None
    have "write_port_config env config p dev = (CFG_EC_OK, d1)"
      using c c' None by (simp add: write_port_config_def d1_def)
    moreover have "read_port_config env p d1 = (CFG_EC_OK, Some (overlay_port config c0))"
      using read_port_config_eq [OF d1(1), of t env] t d1(2) c'(2) [of t] None
      by (simp add: overlay_port_def c0) (simp add: mac_config_def)
    ultimately show ?thesis using d1 assms(2) read_port_config_cong [of _ d1 dev env] by auto
  next
    case (Some et)
    obtain blk where blk: "fc_set_egress_threshold fc_interface_type_PORT p (threshold_of_config et) (dev_regs dev) = (True, blk)"
      "block_ok blk"
      "\<And>q. fc_get_egress_threshold blk fc_interface_type_PORT q =
         (if q = p then Some (threshold_of_config et) else fc_get_egress_threshold (dev_regs dev) fc_interface_type_PORT q)"
      using fc_set_get [OF assms(2) port_tid [OF assms(3)], of "threshold_of_config et"] assms(3) by (auto simp: fc_port_tid_iff)
    define d2 where "d2 = map_regs (\<lambda>_. blk) d1"
    have w: "write_port_config env config p dev = (CFG_EC_OK, d2)"
      using c c'(1) Some blk(1) by (simp add: write_port_config_def d2_def d1_def [symmetric] d1(2))
    have et: "et < 2 ^ 31" using assms(4) Some by (simp add: port_config_ok_def)
    have "read_port_config env p d2 = (CFG_EC_OK, Some (mac_config ?l c' (threshold_of_config et)))"
      using d1(1) blk(3) by (intro read_port_config_eq) (simp_all add: d2_def)
    moreover have "mac_config ?l c' (threshold_of_config et) = overlay_port config c0"
      using Some by (simp add: c'(2) config_of_threshold_of_config [OF et] overlay_port_def)
    moreover have "read_port_config env q d2 = read_port_config env q dev" if "q \<noteq> p" for q
      using that d1(4) blk(3) by (intro read_port_config_cong) (simp_all add: d2_def)
    ultimately show ?thesis using w blk(2) d1(3) by (auto simp: d2_def)
  qed
qed

lemma for_ports_single:
  "p < cd_nports dev \<Longrightarrow> for_ports (int p) invalid body dev_id dev = body dev_id p dev"
  by (simp add: for_ports_def for_range_single)

lemma GetPortConfig_single:
  assumes "i < length (cfg_devices s)" and "p < cd_nports (cfg_devices s ! i)"
  shows "GetPortConfig env \<lparr>pcreq_dev_id = int i, pcreq_port_id = int p, pcreq_config = x\<rparr> s =
    Inr (s, [\<lparr>pcresp_error_code = fst (read_port_config env p (cfg_devices s ! i)), pcresp_dev_id = i, pcresp_port_id = p,
             pcresp_config = snd (read_port_config env p (cfg_devices s ! i))\<rparr>])"
  using assms by (simp add: GetPortConfig_def get_port_config_def for_cfg_devices_single for_ports_single
    get_port_config_body_def split: prod.splits)

text \<open>Property C18.
  The configuration of a port is read back as it was set: a request with known values and an egress threshold
  below 2 ^ 31 succeeds; from then on its state, error correction, loopback and threshold are
  what is reported for the port (all negative thresholds as -1), what it does not mention is reported as before, and so is
  the configuration of the other ports and devices.
\<close>

theorem port_config_readback:
  assumes "cmac_layout_ok (ce_cmac_layout env)" and "i < length (cfg_devices s)"
    and "block_ok (dev_regs (cfg_devices s ! i))" and "cd_nports (cfg_devices s ! i) = 2" and "p < 2"
    and "port_config_ok c"
    and "GetPortConfig env \<lparr>pcreq_dev_id = int i, pcreq_port_id = int p, pcreq_config = None\<rparr> s =
           Inr (s, [\<lparr>pcresp_error_code = CFG_EC_OK, pcresp_dev_id = i, pcresp_port_id = p, pcresp_config = Some c0\<rparr>])"
  shows "\<exists>s'. SetPortConfig env \<lparr>pcreq_dev_id = int i, pcreq_port_id = int p, pcreq_config = Some c\<rparr> s =
             Inr (s', [\<lparr>pcresp_error_code = CFG_EC_OK, pcresp_dev_id = i, pcresp_port_id = p, pcresp_config = None\<rparr>]) \<and>
           GetPortConfig env \<lparr>pcreq_dev_id = int i, pcreq_port_id = int p, pcreq_config = None\<rparr> s' =
             Inr (s', [\<lparr>pcresp_error_code = CFG_EC_OK, pcresp_dev_id = i, pcresp_port_id = p,
                        pcresp_config = Some (overlay_port c c0)\<rparr>]) \<and>
           (\<forall>j q. j < length (cfg_devices s) \<longrightarrow> q < cd_nports (cfg_devices s ! j) \<longrightarrow> (j, q) \<noteq> (i, p) \<longrightarrow>
              map_sum id snd (GetPortConfig env \<lparr>pcreq_dev_id = int j, pcreq_port_id = int q, pcreq_config = None\<rparr> s') =
              map_sum id snd (GetPortConfig env \<lparr>pcreq_dev_id = int j, pcreq_port_id = int q, pcreq_config = None\<rparr> s))"
proof -
  let ?dev = "cfg_devices s ! i"
  have "read_port_config env p ?dev = (CFG_EC_OK, Some c0)"
    using assms(4,5,7) GetPortConfig_single [OF assms(2), of p env None] by (simp add: prod_eq_iff)
  from write_read_port [OF assms(1,3,5,6) this] obtain dev' where dev':
    "write_port_config env c p ?dev = (CFG_EC_OK, dev')" "cd_nports dev' = cd_nports ?dev"
    "read_port_config env p dev' = (CFG_EC_OK, Some (overlay_port c c0))"
    "\<And>q. q \<noteq> p \<Longrightarrow> read_port_config env q dev' = read_port_config env q ?dev" by blast
  let ?s = "s\<lparr>cfg_devices := (cfg_devices s)[i := dev']\<rparr>"
  have "SetPortConfig env \<lparr>pcreq_dev_id = int i, pcreq_port_id = int p, pcreq_config = Some c\<rparr> s =
      Inr (?s, [\<lparr>pcresp_error_code = CFG_EC_OK, pcresp_dev_id = i, pcresp_port_id = p, pcresp_config = None\<rparr>])"
    using assms(2,4,5) dev'(1)
    by (simp add: SetPortConfig_def set_port_config_def for_cfg_devices_with_single for_cfg_devices_single
      for_ports_single set_port_config_body_def)
  moreover have "GetPortConfig env \<lparr>pcreq_dev_id = int i, pcreq_port_id = int p, pcreq_config = None\<rparr> ?s =
      Inr (?s, [\<lparr>pcresp_error_code = CFG_EC_OK, pcresp_dev_id = i, pcresp_port_id = p, pcresp_config = Some (overlay_port c c0)\<rparr>])"
    using assms(2,4,5) dev'(2,3) by (subst GetPortConfig_single) simp_all
  moreover have "map_sum id snd (GetPortConfig env \<lparr>pcreq_dev_id = int j, pcreq_port_id = int q, pcreq_config = None\<rparr> ?s) =
      map_sum id snd (GetPortConfig env \<lparr>pcreq_dev_id = int j, pcreq_port_id = int q, pcreq_config = None\<rparr> s)"
    if "j < length (cfg_devices s)" "q < cd_nports (cfg_devices s ! j)" "(j, q) \<noteq> (i, p)" for j q
    using that dev'(2,4) GetPortConfig_single [of j s q env None] GetPortConfig_single [of j ?s q env None]
    by (cases "j = i") auto
  ultimately show ?thesis by blast
qed

lemma port_config_readback_witness:
  "\<exists>s'. SetPortConfig sample_env \<lparr>pcreq_dev_id = 1, pcreq_port_id = 1, pcreq_config = Some
           \<lparr>pc_state = PORT_STATE_ENABLE, pc_fec = PORT_FEC_UNKNOWN, pc_loopback = PORT_LOOPBACK_NEAR_END_PMA,
            pc_flow_control = Some (- 7)\<rparr>\<rparr> sample_agent =
         Inr (s', [\<lparr>pcresp_error_code = CFG_EC_OK, pcresp_dev_id = 1, pcresp_port_id = 1, pcresp_config = None\<rparr>]) \<and>
       GetPortConfig sample_env \<lparr>pcreq_dev_id = 1, pcreq_port_id = 1, pcreq_config = None\<rparr> s' =
         Inr (s', [\<lparr>pcresp_error_code = CFG_EC_OK, pcresp_dev_id = 1, pcresp_port_id = 1, pcresp_config = Some
           \<lparr>pc_state = PORT_STATE_ENABLE, pc_fec = PORT_FEC_NONE, pc_loopback = PORT_LOOPBACK_NEAR_END_PMA,
            pc_flow_control = Some (- 1)\<rparr>\<rparr>])"
proof -
  let ?new = "\<lparr>pc_state = PORT_STATE_ENABLE, pc_fec = PORT_FEC_UNKNOWN, pc_loopback = PORT_LOOPBACK_NEAR_END_PMA,
            pc_flow_control = Some (- 7)\<rparr>"
  let ?old = "\<lparr>pc_state = PORT_STATE_DISABLE, pc_fec = PORT_FEC_NONE, pc_loopback = PORT_LOOPBACK_NONE,
            pc_flow_control = Some 0\<rparr>"
  have two: "(1::nat) < length (cfg_devices sample_agent)" "cd_nports (cfg_devices sample_agent ! 1) = 2" "(1::nat) < 2"
    by (simp_all add: sample_agent_def sample_agent_of_def sample_device_def sample_device_of_def)
  have ok: "port_config_ok ?new" by (simp add: port_config_ok_def cmac_config_ok_def)
  have "read_port_config sample_env 1 (cfg_devices sample_agent ! 1) = (CFG_EC_OK, Some ?old)" by code_simp
  then have "GetPortConfig sample_env \<lparr>pcreq_dev_id = int 1, pcreq_port_id = int 1, pcreq_config = None\<rparr> sample_agent =
      Inr (sample_agent, [\<lparr>pcresp_error_code = CFG_EC_OK, pcresp_dev_id = 1, pcresp_port_id = 1, pcresp_config = Some ?old\<rparr>])"
    using two by (subst GetPortConfig_single) simp_all
  from port_config_readback [OF sample_cmac_layout_ok two(1) sample_block_ok two(2,3) ok this] show ?thesis
    by (elim exE conjE, intro exI conjI) (simp_all add: overlay_port_def)
qed

end
