(* ===== verification/Cfg_Module.thy ===== *)
theory Cfg_Module
  imports Cfg_Types
begin

text \<open>
  \<^verbatim>\<open>sn-cfg/src/agent/module.cpp\<close>: the signals, memories and monitors of the modules in the
  cages of a card.  Its description of a module is in \<^verbatim>\<open>Cfg_Module_Info\<close>.
\<close>

definition check_module_present :: "'c cms_hw \<Rightarrow> cms_layout \<Rightarrow> nat \<Rightarrow> 'c \<Rightarrow> CfgErrorCode \<times> 'c" where
  "check_module_present hw l mod_id c =
     (case cms_module_gpio_read hw l (of_nat mod_id) cms_module_gpio_type_QSFP c of
        (Some (GPIO_QSFP q), c1) \<Rightarrow>
          (if \<not> qsfp_present q \<or> qsfp_reset q then (EC_MODULE_NOT_PRESENT, c1) else (CFG_EC_OK, c1))
      | (_, c1) \<Rightarrow> (EC_MODULE_GPIO_READ_FAILED, c1))"

subsection \<open>Monitors of a device\<close>

fun init_modules :: "'x cfg_env \<Rightarrow> nat set \<Rightarrow> nat list \<Rightarrow> 'x CfgDevice \<Rightarrow> agent_stop + 'x CfgDevice" where
  "init_modules env flags [] dev = Inr dev"
| "init_modules env flags (m # ms) dev =
     (let name = ''module'' @ dec m; z = new_zone_address (cd_domains dev MODULES) in
      case cms_module_stats_zone_alloc (ce_cms env) (ce_cms_layout env) (ce_fp env) z
             (be_offsetof (ce_bar env) ''esnet_smartnic_bar2'' ''cms'') m name (cd_domains dev MODULES) (cd_bar2 dev) of
        Inl e \<Rightarrow> Inl (Stop_Stats e)
      | Inr (None, h) \<Rightarrow> Inl Stop_Exit
      | Inr (Some d, h) \<Rightarrow>
        (case keep_stats_zone flags MODULE_MONITORS name z d h dev of Inl e \<Rightarrow> Inl e
         | Inr dev' \<Rightarrow> init_modules env flags ms dev'))"

definition init_module :: "'x cfg_env \<Rightarrow> nat set \<Rightarrow> 'x CfgDevice \<Rightarrow> agent_stop + 'x CfgDevice" where
  "init_module env flags dev = init_modules env flags [0..<cd_nports dev] dev"

definition deinit_module :: "'x CfgDevice \<Rightarrow> agent_stop + 'x CfgDevice" where
  "deinit_module dev = deinit_zones MODULE_MONITORS dev"

subsection \<open>Requests\<close>

text \<open>
  The modules of a device, by \<^verbatim>\<open>mod_id\<close>.  A device without the module is answered and the request
  goes on with the next one.
\<close>

definition for_modules ::
  "int \<Rightarrow> (nat \<Rightarrow> 'r) \<Rightarrow> (nat \<Rightarrow> nat \<Rightarrow> ('x CfgDevice, 'r) rpc) \<Rightarrow> nat \<Rightarrow> ('x CfgDevice, 'r) rpc" where
  "for_modules req_mod_id invalid body dev_id dev =
     for_range req_mod_id (cd_nports dev) (invalid dev_id) (body dev_id) dev"

text \<open>
  What a request does for a module: a module that is absent is skipped when all modules were asked
  for, and an error otherwise.
\<close>

definition on_present_module ::
  "'x cfg_env \<Rightarrow> bool \<Rightarrow> (CfgErrorCode \<Rightarrow> 'm option \<Rightarrow> 'r) \<Rightarrow>
   ('x CfgDevice \<Rightarrow> agent_stop + (CfgErrorCode \<times> 'm option \<times> 'x CfgDevice)) \<Rightarrow> nat \<Rightarrow> ('x CfgDevice, 'r) rpc" where
  "on_present_module env is_range resp act mod_id dev =
     (let (err, c1) = check_module_present (ce_cms env) (ce_cms_layout env) mod_id (dev_cms dev); dev1 = put_cms c1 dev in
      if err \<noteq> CFG_EC_OK then Inr (dev1, if is_range then [] else [resp err None])
      else case act dev1 of Inl e \<Rightarrow> Inl e
        | Inr (err', m, dev2) \<Rightarrow> Inr (dev2, [resp err' m]))"

subsection \<open>Signals\<close>

datatype ModuleGpioState = GPIO_STATE_UNKNOWN | GPIO_STATE_ASSERT | GPIO_STATE_DEASSERT | GPIO_STATE_OTHER

record ModuleGpio =
  mg_reset :: ModuleGpioState
  mg_low_power_mode :: ModuleGpioState
  mg_select :: ModuleGpioState
  mg_present :: ModuleGpioState
  mg_interrupt :: ModuleGpioState

record ModuleGpioRequest =
  mgreq_dev_id :: int
  mgreq_mod_id :: int
  mgreq_gpio :: ModuleGpio

record ModuleGpioResponse =
  mgresp_error_code :: CfgErrorCode
  mgresp_dev_id :: nat
  mgresp_mod_id :: nat
  mgresp_gpio :: "ModuleGpio option"

definition bool_to_gpio_state :: "bool \<Rightarrow> ModuleGpioState" where
  "bool_to_gpio_state b = (if b then GPIO_STATE_ASSERT else GPIO_STATE_DEASSERT)"

definition bool_if_has_gpio_state :: "ModuleGpioState \<Rightarrow> bool \<Rightarrow> bool" where
  "bool_if_has_gpio_state state b = (if state \<noteq> GPIO_STATE_UNKNOWN then state = GPIO_STATE_ASSERT else b)"

definition gpio_error :: "CfgErrorCode \<Rightarrow> nat \<Rightarrow> ModuleGpioResponse" where
  "gpio_error err dev_id = \<lparr>mgresp_error_code = err, mgresp_dev_id = dev_id, mgresp_mod_id = 0, mgresp_gpio = None\<rparr>"

definition get_module_gpio_body :: "'x cfg_env \<Rightarrow> nat \<Rightarrow> nat \<Rightarrow> ('x CfgDevice, ModuleGpioResponse) rpc" where
  "get_module_gpio_body env dev_id mod_id dev =
     (let (r, c1) = cms_module_gpio_read (ce_cms env) (ce_cms_layout env) (of_nat mod_id) cms_module_gpio_type_QSFP (dev_cms dev);
          (err, gpio) = (case r of
             Some (GPIO_QSFP q) \<Rightarrow>
               (CFG_EC_OK, Some \<lparr>mg_reset = bool_to_gpio_state (qsfp_reset q),
                  mg_low_power_mode = bool_to_gpio_state (qsfp_low_power_mode q), mg_select = bool_to_gpio_state (qsfp_select q),
                  mg_present = bool_to_gpio_state (qsfp_present q), mg_interrupt = bool_to_gpio_state (qsfp_interrupt q)\<rparr>)
           | _ \<Rightarrow> (EC_MODULE_GPIO_READ_FAILED, None))
      in Inr (put_cms c1 dev, [\<lparr>mgresp_error_code = err, mgresp_dev_id = dev_id, mgresp_mod_id = mod_id, mgresp_gpio = gpio\<rparr>]))"

definition get_module_gpio ::
  "'x cfg_env \<Rightarrow> ModuleGpioRequest \<Rightarrow> ('x SmartnicConfigImpl, ModuleGpioResponse) rpc" where
  "get_module_gpio env req =
     for_cfg_devices (mgreq_dev_id req) (gpio_error CFG_EC_INVALID_DEVICE_ID 0)
       (for_modules (mgreq_mod_id req) (gpio_error EC_INVALID_MODULE_ID) (get_module_gpio_body env))"

definition GetModuleGpio ::
  "'x cfg_env \<Rightarrow> ModuleGpioRequest \<Rightarrow> ('x SmartnicConfigImpl, ModuleGpioResponse) rpc" where
  "GetModuleGpio env req = get_module_gpio env req"

text \<open>The signals are read first, so that those that the request leaves out stay as they are.\<close>

definition write_module_gpio :: "'c cms_hw \<Rightarrow> cms_layout \<Rightarrow> ModuleGpio \<Rightarrow> nat \<Rightarrow> 'c \<Rightarrow> CfgErrorCode \<times> 'c" where
  "write_module_gpio hw l gpio mod_id c =
     (case cms_module_gpio_read hw l (of_nat mod_id) cms_module_gpio_type_QSFP c of
        (Some (GPIO_QSFP q), c1) \<Rightarrow>
          (let q' = q\<lparr>qsfp_reset := bool_if_has_gpio_state (mg_reset gpio) (qsfp_reset q),
                      qsfp_low_power_mode := bool_if_has_gpio_state (mg_low_power_mode gpio) (qsfp_low_power_mode q)\<rparr>;
               (ok, c2) = cms_module_gpio_write hw l (of_nat mod_id) (GPIO_QSFP q') c1
           in (if ok then CFG_EC_OK else EC_MODULE_GPIO_WRITE_FAILED, c2))
      | (_, c1) \<Rightarrow> (EC_MODULE_GPIO_READ_FAILED, c1))"

definition set_module_gpio_body ::
  "'x cfg_env \<Rightarrow> ModuleGpio \<Rightarrow> nat \<Rightarrow> nat \<Rightarrow> ('x CfgDevice, ModuleGpioResponse) rpc" where
  "set_module_gpio_body env gpio dev_id mod_id dev =
     (let (err, c1) = write_module_gpio (ce_cms env) (ce_cms_layout env) gpio mod_id (dev_cms dev) in
      Inr (put_cms c1 dev, [\<lparr>mgresp_error_code = err, mgresp_dev_id = dev_id, mgresp_mod_id = mod_id, mgresp_gpio = None\<rparr>]))"

definition set_module_gpio ::
  "'x cfg_env \<Rightarrow> ModuleGpioRequest \<Rightarrow> ('x SmartnicConfigImpl, ModuleGpioResponse) rpc" where
  "set_module_gpio env req =
     for_cfg_devices (mgreq_dev_id req) (gpio_error CFG_EC_INVALID_DEVICE_ID 0)
       (for_modules (mgreq_mod_id req) (gpio_error EC_INVALID_MODULE_ID) (set_module_gpio_body env (mgreq_gpio req)))"

definition SetModuleGpio ::
  "'x cfg_env \<Rightarrow> ModuleGpioRequest \<Rightarrow> ('x SmartnicConfigImpl, ModuleGpioResponse) rpc" where
  "SetModuleGpio env req = set_module_gpio env req"

subsection \<open>Memories\<close>

record ModuleMem =
  mm_offset :: nat
  mm_page :: nat
  mm_count :: nat
  mm_data :: "8 word list"

record ModuleMemRequest =
  mmreq_dev_id :: int
  mmreq_mod_id :: int
  mmreq_mem :: ModuleMem

record ModuleMemResponse =
  mmresp_error_code :: CfgErrorCode
  mmresp_dev_id :: nat
  mmresp_mod_id :: nat
  mmresp_mem :: "ModuleMem option"

definition mem_response :: "nat \<Rightarrow> nat \<Rightarrow> CfgErrorCode \<Rightarrow> ModuleMem option \<Rightarrow> ModuleMemResponse" where
  "mem_response dev_id mod_id err mem =
     \<lparr>mmresp_error_code = err, mmresp_dev_id = dev_id, mmresp_mod_id = mod_id, mmresp_mem = mem\<rparr>"

definition mem_module_id :: "nat \<Rightarrow> nat \<Rightarrow> bool \<Rightarrow> cms_module_id" where
  "mem_module_id mod_id page upper =
     \<lparr>mid_cage = of_nat mod_id, mid_page = of_nat page, mid_upper = upper, mid_cmis = False, mid_bank = 0, mid_sfp_diag = False\<rparr>"

text \<open>
  The loop over pages with its byte-sized counters \<open>page_offset\<close>, \<open>data_count\<close> and \<open>data_offset\<close>.
  A page that cannot be read ends it with \<open>(None, c)\<close>; the outer \<open>None\<close> is a loop that does not end or a copy
  that leaves the page or the buffer.
\<close>

definition copy_page ::
  "8 word list \<Rightarrow> 8 word \<Rightarrow> 8 word \<Rightarrow> 8 word \<Rightarrow> 8 word list \<Rightarrow> 8 word list option" where
  "copy_page page page_offset data_count data_offset data =
     (let p = unat page_offset; n = unat data_count; d = unat data_offset in
      if p + n \<le> length page \<and> d + n \<le> length data
      then Some (take d data @ take n (drop p page) @ drop (d + n) data) else None)"

partial_function (option) read_pages ::
  "'c cms_hw \<Rightarrow> cms_layout \<Rightarrow> nat \<Rightarrow> nat \<Rightarrow> nat \<Rightarrow> bool \<Rightarrow> 8 word \<Rightarrow> 8 word \<Rightarrow> 8 word \<Rightarrow> 8 word list \<Rightarrow> 'c \<Rightarrow>
   (8 word list option \<times> 'c) option" where
  "read_pages hw l mod_id page count upper page_offset data_count data_offset data c =
     (case cms_module_page_read hw l (mem_module_id mod_id page upper) c of
        (None, c1) \<Rightarrow> Some (None, c1)
      | (Some cms_page, c1) \<Rightarrow>
        (case copy_page cms_page page_offset data_count data_offset data of None \<Rightarrow> None
         | Some data' \<Rightarrow>
           (let data_offset' = data_offset + data_count; data_count' = of_nat count - data_offset' in
            if data_count' \<noteq> 0 then read_pages hw l mod_id page count True 0 data_count' data_offset' data' c1
            else Some (Some data', c1))))"

definition read_module_range ::
  "'c cms_hw \<Rightarrow> cms_layout \<Rightarrow> nat \<Rightarrow> nat \<Rightarrow> nat \<Rightarrow> nat \<Rightarrow> 'c \<Rightarrow> (8 word list option \<times> 'c) option" where
  "read_module_range hw l mod_id page offset count c =
     (let page_offset = of_nat (offset mod CMS_MODULE_PAGE_SIZE) :: 8 word in
      read_pages hw l mod_id page count (CMS_MODULE_PAGE_SIZE \<le> offset) page_offset
        (of_nat (min count (CMS_MODULE_PAGE_SIZE - unat page_offset))) 0 (replicate count 0) c)"

definition get_module_mem_act ::
  "'x cfg_env \<Rightarrow> nat \<Rightarrow> nat \<Rightarrow> nat \<Rightarrow> nat \<Rightarrow> 'x CfgDevice \<Rightarrow>
   agent_stop + (CfgErrorCode \<times> ModuleMem option \<times> 'x CfgDevice)" where
  "get_module_mem_act env offset page count mod_id dev =
     (if count > 1 then
        (case read_module_range (ce_cms env) (ce_cms_layout env) mod_id page offset count (dev_cms dev) of
           None \<Rightarrow> Inl (Stop_Stats No_Return)
         | Some (None, c) \<Rightarrow> Inr (EC_MODULE_PAGE_READ_FAILED, None, put_cms c dev)
         | Some (Some data, c) \<Rightarrow>
             Inr (CFG_EC_OK, Some \<lparr>mm_offset = offset, mm_page = page, mm_count = count, mm_data = data\<rparr>, put_cms c dev))
      else
        (case cms_module_byte_read (ce_cms env) (ce_cms_layout env) (mem_module_id mod_id page False) (of_nat offset) (dev_cms dev) of
           (None, c) \<Rightarrow> Inr (EC_MODULE_MEM_READ_FAILED, None, put_cms c dev)
         | (Some data, c) \<Rightarrow>
             Inr (CFG_EC_OK, Some \<lparr>mm_offset = offset, mm_page = page, mm_count = 1, mm_data = [data]\<rparr>, put_cms c dev)))"

text \<open>
  The place of the request is checked for each device once the module is found: a bad one ends
  the whole request.  \<open>Inl\<close> is the answer in that case, \<open>Inr\<close> the number of bytes.
\<close>

definition UINT8_MAX :: nat where "UINT8_MAX = 255"

definition check_mem_place :: "ModuleMem \<Rightarrow> CfgErrorCode option" where
  "check_mem_place mem =
     (if mm_offset mem > UINT8_MAX then Some EC_INVALID_MODULE_MEM_OFFSET
      else if mm_page mem > UINT8_MAX then Some EC_INVALID_MODULE_MEM_PAGE else None)"

definition get_mem_count :: "ModuleMem \<Rightarrow> CfgErrorCode + nat" where
  "get_mem_count mem =
     (case check_mem_place mem of Some err \<Rightarrow> Inl err
      | None \<Rightarrow>
        (if mm_count mem < 1 then Inr CMS_MODULE_PAGE_SIZE
         else if mm_count mem > UINT8_MAX - mm_offset mem + 1 then Inl EC_INVALID_MODULE_MEM_COUNT
         else Inr (mm_count mem)))"

definition set_mem_count :: "ModuleMem \<Rightarrow> CfgErrorCode + nat" where
  "set_mem_count mem =
     (case check_mem_place mem of Some err \<Rightarrow> Inl err
      | None \<Rightarrow>
        (if length (mm_data mem) > UINT8_MAX - mm_offset mem + 1 then Inl EC_INVALID_MODULE_MEM_COUNT
         else Inr (length (mm_data mem))))"

text \<open>The devices of a request that a bad place ends.\<close>

fun mem_devices ::
  "int \<Rightarrow> CfgErrorCode + nat \<Rightarrow> (nat \<Rightarrow> nat \<Rightarrow> nat \<Rightarrow> ('x CfgDevice, ModuleMemResponse) rpc) \<Rightarrow> nat list \<Rightarrow>
   ('x CfgDevice list, ModuleMemResponse) rpc" where
  "mem_devices req_mod_id checked body [] devs = Inr (devs, [])"
| "mem_devices req_mod_id checked body (d # ds) devs =
     (if req_mod_id > int (cd_nports (devs ! d)) - 1
      then map_sum id (\<lambda>(devs', rs). (devs', mem_response d 0 EC_INVALID_MODULE_ID None # rs))
             (mem_devices req_mod_id checked body ds devs)
      else case checked of Inl err \<Rightarrow> Inr (devs, [mem_response 0 0 err None])
      | Inr count \<Rightarrow>
        (case for_modules req_mod_id (\<lambda>dev_id. mem_response dev_id 0 EC_INVALID_MODULE_ID None)
                (\<lambda>dev_id. body count dev_id) d (devs ! d) of Inl e \<Rightarrow> Inl e
         | Inr (dev', rs) \<Rightarrow>
             map_sum id (\<lambda>(devs', rs'). (devs', rs @ rs')) (mem_devices req_mod_id checked body ds (devs[d := dev']))))"

definition module_mem_request ::
  "ModuleMemRequest \<Rightarrow> CfgErrorCode + nat \<Rightarrow> (nat \<Rightarrow> nat \<Rightarrow> nat \<Rightarrow> ('x CfgDevice, ModuleMemResponse) rpc) \<Rightarrow>
   ('x SmartnicConfigImpl, ModuleMemResponse) rpc" where
  "module_mem_request req checked body s =
     (let dev_id = mmreq_dev_id req; n = length (cfg_devices s) in
      if dev_id > int n - 1 then Inr (s, [mem_response 0 0 CFG_EC_INVALID_DEVICE_ID None])
      else map_sum id (\<lambda>(devs, rs). (s\<lparr>cfg_devices := devs\<rparr>, rs))
             (mem_devices (mmreq_mod_id req) checked body (if dev_id > - 1 then [nat dev_id] else [0..<n]) (cfg_devices s)))"

definition get_module_mem ::
  "'x cfg_env \<Rightarrow> ModuleMemRequest \<Rightarrow> ('x SmartnicConfigImpl, ModuleMemResponse) rpc" where
  "get_module_mem env req =
     (let mem = mmreq_mem req in
      module_mem_request req (get_mem_count mem)
        (\<lambda>count dev_id mod_id. on_present_module env (mmreq_mod_id req < 0) (mem_response dev_id mod_id)
           (get_module_mem_act env (mm_offset mem) (mm_page mem) count mod_id) mod_id))"

definition GetModuleMem ::
  "'x cfg_env \<Rightarrow> ModuleMemRequest \<Rightarrow> ('x SmartnicConfigImpl, ModuleMemResponse) rpc" where
  "GetModuleMem env req = get_module_mem env req"

text \<open>The bytes are written one by one, up to the first that fails.\<close>

fun write_module_bytes ::
  "'c cms_hw \<Rightarrow> cms_layout \<Rightarrow> cms_module_id \<Rightarrow> nat \<Rightarrow> 8 word list \<Rightarrow> 'c \<Rightarrow> bool \<times> 'c" where
  "write_module_bytes hw l mid place [] c = (True, c)"
| "write_module_bytes hw l mid place (b # bs) c =
     (case cms_module_byte_write hw l mid (of_nat place) b c of
        (False, c1) \<Rightarrow> (False, c1)
      | (True, c1) \<Rightarrow> write_module_bytes hw l mid (Suc place) bs c1)"

definition set_module_mem_act ::
  "'x cfg_env \<Rightarrow> ModuleMem \<Rightarrow> nat \<Rightarrow> nat \<Rightarrow> 'x CfgDevice \<Rightarrow>
   agent_stop + (CfgErrorCode \<times> ModuleMem option \<times> 'x CfgDevice)" where
  "set_module_mem_act env mem count mod_id dev =
     (let (ok, c) = write_module_bytes (ce_cms env) (ce_cms_layout env) (mem_module_id mod_id (mm_page mem) False)
            (mm_offset mem) (take count (mm_data mem)) (dev_cms dev) in
      Inr (if ok then CFG_EC_OK else EC_MODULE_MEM_WRITE_FAILED, None, put_cms c dev))"

definition set_module_mem ::
  "'x cfg_env \<Rightarrow> ModuleMemRequest \<Rightarrow> ('x SmartnicConfigImpl, ModuleMemResponse) rpc" where
  "set_module_mem env req =
     (let mem = mmreq_mem req in
      module_mem_request req (set_mem_count mem)
        (\<lambda>count dev_id mod_id. on_present_module env (mmreq_mod_id req < 0) (mem_response dev_id mod_id)
           (set_module_mem_act env mem count mod_id) mod_id))"

definition SetModuleMem ::
  "'x cfg_env \<Rightarrow> ModuleMemRequest \<Rightarrow> ('x SmartnicConfigImpl, ModuleMemResponse) rpc" where
  "SetModuleMem env req = set_module_mem env req"

subsection \<open>Status\<close>

record ModuleStatus =
  mst_alarms :: "(string \<times> bool) list"
  mst_monitors :: "(string \<times> double_bits) list"

record ModuleStatusRequest =
  mstreq_dev_id :: int
  mstreq_mod_id :: int

record ModuleStatusResponse =
  mstresp_error_code :: CfgErrorCode
  mstresp_dev_id :: nat
  mstresp_mod_id :: nat
  mstresp_status :: "ModuleStatus option"

definition get_module_stats :: "stats_for_each_spec \<Rightarrow> ModuleStatus \<Rightarrow> (int \<times> ModuleStatus) option" where
  "get_module_stats spec st =
     (let m = fe_metric spec in
      if cms_module_stats_is_alarm_metric m then
        (case fe_values spec of [] \<Rightarrow> None
         | v # _ \<Rightarrow> Some (0, st\<lparr>mst_alarms := mst_alarms st @ [(mspec_name m, val_u64 v \<noteq> 0)]\<rparr>))
      else if cms_module_stats_is_monitor_metric m then
        (case fe_values spec of [] \<Rightarrow> None
         | v # _ \<Rightarrow> Some (0, st\<lparr>mst_monitors := mst_monitors st @ [(mspec_name m, val_f64 v)]\<rparr>))
      else Some (0, st))"

definition status_response :: "CfgErrorCode \<Rightarrow> nat \<Rightarrow> nat \<Rightarrow> ModuleStatus option \<Rightarrow> ModuleStatusResponse" where
  "status_response err dev_id mod_id st =
     \<lparr>mstresp_error_code = err, mstresp_dev_id = dev_id, mstresp_mod_id = mod_id, mstresp_status = st\<rparr>"

text \<open>The answer is \<open>EC_OK\<close> whatever the check of the module found.\<close>

definition get_module_status_body ::
  "'x cfg_env \<Rightarrow> bool \<Rightarrow> nat \<Rightarrow> nat \<Rightarrow> ('x CfgDevice, ModuleStatusResponse) rpc" where
  "get_module_status_body env is_range dev_id mod_id =
     on_present_module env is_range (\<lambda>_ st. status_response CFG_EC_OK dev_id mod_id st)
       (\<lambda>dev. map_sum id (\<lambda>st. (CFG_EC_OK, Some st, dev))
          (cfg_for_each_metric get_module_stats MODULE_MONITORS mod_id dev \<lparr>mst_alarms = [], mst_monitors = []\<rparr>)) mod_id"

definition get_module_status ::
  "'x cfg_env \<Rightarrow> ModuleStatusRequest \<Rightarrow> ('x SmartnicConfigImpl, ModuleStatusResponse) rpc" where
  "get_module_status env req =
     for_cfg_devices (mstreq_dev_id req) (status_response CFG_EC_INVALID_DEVICE_ID 0 0 None)
       (for_modules (mstreq_mod_id req) (\<lambda>dev_id. status_response EC_INVALID_MODULE_ID dev_id 0 None)
          (get_module_status_body env (mstreq_mod_id req < 0)))"

definition GetModuleStatus ::
  "'x cfg_env \<Rightarrow> ModuleStatusRequest \<Rightarrow> ('x SmartnicConfigImpl, ModuleStatusResponse) rpc" where
  "GetModuleStatus env req = get_module_status env req"

end
