(* ===== verification/Opennic_Cms_Props.thy ===== *)
theory Opennic_Cms_Props
  imports Opennic_Cms_Module
begin

text \<open>
  What the documentation of the card management subsystem (AMD PG348) promises of its registers, its mailbox and the modules behind
  it, as a hypothesis on the parameter \<open>cms_hw\<close>; and what the operations of \<^verbatim>\<open>cms.c\<close> then do.
\<close>

subsection \<open>The documented behaviour\<close>

text \<open>
  A view of the state of the subsystem: whether it is ready for a message, the words of
  its memory, the bytes of the modules by cage, page and place, those that can be written, and the signals of the cages.
\<close>

record 'c cms_view =
  cv_idle :: "'c \<Rightarrow> bool"
  cv_mailbox :: nat
  cv_word :: "'c \<Rightarrow> nat \<Rightarrow> 32 word"
  cv_byte :: "'c \<Rightarrow> 8 word \<Rightarrow> 8 word \<Rightarrow> 8 word \<Rightarrow> 8 word"
  cv_writable :: "8 word \<Rightarrow> 8 word \<Rightarrow> 8 word \<Rightarrow> bool"
  cv_gpio :: "'c \<Rightarrow> 8 word \<Rightarrow> 32 word"

definition calm :: "'c cms_view \<Rightarrow> 'c \<Rightarrow> 'c \<Rightarrow> bool" where
  "calm v c c' \<longleftrightarrow> cv_idle v c' \<and> cv_byte v c' = cv_byte v c \<and> cv_gpio v c' = cv_gpio v c"

definition quiet :: "'c cms_view \<Rightarrow> 'c \<Rightarrow> 'c \<Rightarrow> bool" where
  "quiet v c c' \<longleftrightarrow> calm v c c' \<and> cv_word v c' = cv_word v c"

definition payload :: "'c cms_view \<Rightarrow> 'c \<Rightarrow> nat \<Rightarrow> 32 word" where
  "payload v c n = cv_word v c (payload_addr (cv_mailbox v) n)"

text \<open>What the message in the mailbox does: the requests for the modules, by their codes.\<close>

definition executes :: "'c cms_view \<Rightarrow> 'c \<Rightarrow> 'c \<Rightarrow> bool" where
  "executes v c c' \<longleftrightarrow>
     (let header = cv_word v c (cv_mailbox v); p = payload v c; p' = payload v c';
          cage = ucast (p 0); page = ucast (p 1); place = ucast (p 3) in
      cv_idle v c' \<and>
      (header = mailbox_header cms_mailbox_opcode_BLOCK_READ_MODULE_I2C \<longrightarrow>
         calm v c c' \<and> p' 3 = 128 \<and>
         (\<forall>k < 32. word_bytes (p' (4 + k)) =
            map (\<lambda>i. cv_byte v c cage page (of_nat ((if bit (p 2) 0 then 128 else 0) + (4 * k + i)))) [0..<4])) \<and>
      (header = mailbox_header cms_mailbox_opcode_BYTE_READ_MODULE_I2C \<longrightarrow>
         calm v c c' \<and> ucast (p' 4) = cv_byte v c cage page place) \<and>
      (header = mailbox_header cms_mailbox_opcode_BYTE_WRITE_MODULE_I2C \<longrightarrow>
         cv_gpio v c' = cv_gpio v c \<and>
         cv_byte v c' = (\<lambda>g q x. if (g, q, x) = (cage, page, place) \<and> cv_writable v g q x then ucast (p 4)
                                 else cv_byte v c g q x)) \<and>
      (header = mailbox_header cms_mailbox_opcode_READ_MODULE_LOW_SPEED_IO \<longrightarrow>
         calm v c c' \<and> p' 1 = cv_gpio v c cage) \<and>
      (header = mailbox_header cms_mailbox_opcode_WRITE_MODULE_LOW_SPEED_IO \<longrightarrow>
         cv_byte v c' = cv_byte v c \<and>
         cv_gpio v c' = (cv_gpio v c)(cage := or (and (p 1) 3) (and (cv_gpio v c cage) (not 3)))))"

definition cms_documented :: "'c cms_hw \<Rightarrow> cms_layout \<Rightarrow> 'c cms_view \<Rightarrow> bool" where
  "cms_documented hw l v \<longleftrightarrow>
     (\<forall>c. cv_idle v c \<longrightarrow>
        (\<forall>r. \<exists>w c'. cms_rd hw r c = (w, c') \<and> quiet v c c' \<and>
           (r = control_reg \<longrightarrow> bf_get (lay_mailbox_msg_status l) w = 0 \<and> bf_get (lay_reset_error_reg l) w = 0) \<and>
           (r = error_reg \<longrightarrow> bf_get (lay_pkt_error l) w = 0 \<and> bf_get (lay_sat_ctrl_err l) w = 0) \<and>
           (r = host_msg_offset_reg \<longrightarrow> unat w = cv_mailbox v)) \<and>
        (\<forall>a. \<exists>c'. cms_mem_rd hw a c = (cv_word v c a, c') \<and> quiet v c c') \<and>
        (\<forall>a w. calm v c (cms_mem_wr hw a w c) \<and> cv_word v (cms_mem_wr hw a w c) = (cv_word v c)(a := w)) \<and>
        (\<forall>w. bf_get (lay_mailbox_msg_status l) w = 0 \<longrightarrow> quiet v c (cms_wr hw control_reg w c)) \<and>
        (\<forall>w. bf_get (lay_mailbox_msg_status l) w = 1 \<longrightarrow> executes v c (cms_wr hw control_reg w c)))"

definition cms_layout_ok :: "cms_layout \<Rightarrow> bool" where
  "cms_layout_ok l \<longleftrightarrow>
     bf_ok (lay_mailbox_msg_status l) \<and> bf_ok (lay_reset_error_reg l) \<and>
     bf_disjoint (lay_mailbox_msg_status l) (lay_reset_error_reg l)"

subsection \<open>Steps that change nothing\<close>

lemma calm_refl: "cv_idle v c \<Longrightarrow> calm v c c" by (simp add: calm_def)

lemma calm_trans: "calm v a b \<Longrightarrow> calm v b c \<Longrightarrow> calm v a c" by (simp add: calm_def)

lemma quiet_refl: "cv_idle v c \<Longrightarrow> quiet v c c" by (simp add: quiet_def calm_refl)

lemma quiet_trans: "quiet v a b \<Longrightarrow> quiet v b c \<Longrightarrow> quiet v a c" by (auto simp: quiet_def calm_def)

lemma quiet_calm: "quiet v a b \<Longrightarrow> calm v a b" by (simp add: quiet_def)

lemma calm_idle: "calm v a b \<Longrightarrow> cv_idle v b" by (simp add: calm_def)

lemma quiet_idle: "quiet v a b \<Longrightarrow> cv_idle v b" by (simp add: quiet_def calm_def)

lemma quiet_payload: "quiet v a b \<Longrightarrow> payload v b = payload v a" by (simp add: quiet_def payload_def fun_eq_iff)

lemma executes_quiet: "executes v a b \<Longrightarrow> quiet v b c \<Longrightarrow> executes v a c"
  using quiet_payload [of v b c] by (simp add: executes_def Let_def quiet_def calm_def)

subsection \<open>Registers and the mailbox\<close>

definition cms_serves :: "'c cms_hw \<Rightarrow> cms_layout \<Rightarrow> 'c cms_view \<Rightarrow> bool" where
  "cms_serves hw l v \<longleftrightarrow> cms_documented hw l v \<and> cms_layout_ok l"

lemma serves_rd:
  assumes "cms_serves hw l v" and "cv_idle v c"
  obtains w c' where "cms_rd hw r c = (w, c')" "quiet v c c'"
    "r = control_reg \<Longrightarrow> bf_get (lay_mailbox_msg_status l) w = 0 \<and> bf_get (lay_reset_error_reg l) w = 0"
    "r = error_reg \<Longrightarrow> bf_get (lay_pkt_error l) w = 0 \<and> bf_get (lay_sat_ctrl_err l) w = 0"
    "r = host_msg_offset_reg \<Longrightarrow> unat w = cv_mailbox v"
  using assms unfolding cms_serves_def cms_documented_def by blast

lemma serves_mem:
  assumes "cms_serves hw l v" and "cv_idle v c"
  shows "\<exists>c'. cms_mem_rd hw a c = (cv_word v c a, c') \<and> quiet v c c'"
    and "calm v c (cms_mem_wr hw a w c)"
    and "cv_word v (cms_mem_wr hw a w c) = (cv_word v c)(a := w)"
  using assms unfolding cms_serves_def cms_documented_def by blast+

lemma serves_control:
  assumes "cms_serves hw l v" and "cv_idle v c"
  shows "bf_get (lay_mailbox_msg_status l) w = 0 \<Longrightarrow> quiet v c (cms_wr hw control_reg w c)"
    and "bf_get (lay_mailbox_msg_status l) w = 1 \<Longrightarrow> executes v c (cms_wr hw control_reg w c)"
  using assms unfolding cms_serves_def cms_documented_def by blast+

lemma mailbox_ready:
  assumes "cms_serves hw l v" and "cv_idle v c"
  shows "\<exists>c'. cms_mailbox_is_ready hw l c = (True, c') \<and> quiet v c c'"
  by (rule serves_rd [OF assms, of control_reg]) (auto simp: cms_mailbox_is_ready_def MAX_ITER_def eval_nat_numeral)

lemma error_cleared:
  assumes "cms_serves hw l v" and "cv_idle v c"
  shows "\<exists>c'. cms_error_is_cleared hw l c = (True, c') \<and> quiet v c c'"
  by (rule serves_rd [OF assms, of control_reg]) (auto simp: cms_error_is_cleared_def MAX_ITER_def eval_nat_numeral)

lemma no_errors:
  assumes "cms_serves hw l v" and "cv_idle v c"
  shows "\<exists>c'. message_errors hw l c = (False, c') \<and> quiet v c c'"
  by (rule serves_rd [OF assms, of error_reg]) (auto simp: message_errors_def)

lemma mailbox_place:
  assumes "cms_serves hw l v" and "cv_idle v c"
  shows "\<exists>c'. cms_mailbox_get hw c = (cv_mailbox v, c') \<and> quiet v c c'"
  by (rule serves_rd [OF assms, of host_msg_offset_reg]) (auto simp: cms_mailbox_get_def)

lemma clear_error:
  assumes "cms_serves hw l v" and "cv_idle v c"
  shows "quiet v c (cms_error_clear hw l c)"
proof -
  obtain w c' where 1: "cms_rd hw control_reg c = (w, c')" "quiet v c c'" "bf_get (lay_mailbox_msg_status l) w = 0"
    using serves_rd [OF assms, of control_reg] by metis
  have "bf_get (lay_mailbox_msg_status l) (bf_set (lay_reset_error_reg l) 1 w) = 0"
    using 1(3) assms(1) by (simp add: cms_serves_def cms_layout_ok_def bf_get_set_other)
  with 1 show ?thesis
    using serves_control(1) [OF assms(1) quiet_idle [OF 1(2)]]
    by (auto simp: cms_error_clear_def set_control_def intro: quiet_trans)
qed

lemma executes_after: "quiet v a b \<Longrightarrow> executes v b c \<Longrightarrow> executes v a c"
  using quiet_payload [of v a b] by (simp add: executes_def Let_def quiet_def calm_def cong: if_cong)

lemma send_message:
  assumes "cms_serves hw l v" and "cv_idle v c"
  shows "executes v c (set_control hw (lay_mailbox_msg_status l) c)"
proof -
  obtain w c' where 1: "cms_rd hw control_reg c = (w, c')" "quiet v c c'"
    using serves_rd [OF assms, of control_reg] by metis
  have "bf_get (lay_mailbox_msg_status l) (bf_set (lay_mailbox_msg_status l) 1 w) = 1"
    using assms(1) by (simp add: cms_serves_def cms_layout_ok_def bf_get_set_fits bf_fits_0_1)
  then have "executes v c' (cms_wr hw control_reg (bf_set (lay_mailbox_msg_status l) 1 w) c')"
    using serves_control(2) [OF assms(1)] quiet_idle [OF 1(2)] by blast
  with 1 show ?thesis by (simp add: set_control_def executes_after)
qed

lemma payload_written:
  assumes "cms_serves hw l v"
  shows "cv_idle v c \<Longrightarrow> calm v c (write_payload hw (cv_mailbox v) n ws c) \<and>
     cv_word v (write_payload hw (cv_mailbox v) n ws c) (cv_mailbox v) = cv_word v c (cv_mailbox v) \<and>
     (\<forall>k. payload v (write_payload hw (cv_mailbox v) n ws c) k =
        (if n \<le> k \<and> k < n + length ws then ws ! (k - n) else payload v c k))"
proof (induction ws arbitrary: n c)
  case Nil
  then show ?case by (auto simp: calm_refl)
next
  case (Cons w ws)
  let ?c = "cms_mem_wr hw (payload_addr (cv_mailbox v) n) w c"
  have c: "calm v c ?c" "cv_word v ?c = (cv_word v c)(payload_addr (cv_mailbox v) n := w)"
    using serves_mem(2,3) [OF assms Cons.prems] by blast+
  have "payload v ?c k = (if k = n then w else payload v c k)" for k
    unfolding payload_def c(2) fun_upd_apply by (simp add: payload_addr_def)
  moreover have "cv_word v ?c (cv_mailbox v) = cv_word v c (cv_mailbox v)"
    unfolding c(2) fun_upd_apply by (simp add: payload_addr_def)
  ultimately show ?case
    using Cons.IH [OF calm_idle [OF c(1)], of "Suc n"] c(1)
    by (auto simp: calm_trans nth_Cons' Suc_diff_le less_Suc_eq_le not_less_eq_eq)
qed

text \<open>A message is taken at the first attempt: its words are in the mailbox when it is executed.\<close>

lemma message_posted:
  assumes S: "cms_serves hw l v" and idle: "cv_idle v c"
  shows "\<exists>c1 c'. cms_mailbox_post hw l opc ws c = (Some (cv_mailbox v), c') \<and> calm v c c1 \<and>
     cv_word v c1 (cv_mailbox v) = mailbox_header opc \<and> (\<forall>k < length ws. payload v c1 k = ws ! k) \<and> executes v c1 c'"
proof -
  obtain a1 where 1: "cms_mailbox_is_ready hw l c = (True, a1)" "quiet v c a1" using mailbox_ready [OF S idle] by blast
  have 2: "quiet v a1 (cms_error_clear hw l a1)" using clear_error [OF S quiet_idle [OF 1(2)]] .
  obtain a3 where 3: "cms_error_is_cleared hw l (cms_error_clear hw l a1) = (True, a3)" "quiet v (cms_error_clear hw l a1) a3"
    using error_cleared [OF S quiet_idle [OF 2]] by blast
  obtain a4 where 4: "cms_mailbox_get hw a3 = (cv_mailbox v, a4)" "quiet v a3 a4"
    using mailbox_place [OF S quiet_idle [OF 3(2)]] by blast
  let ?a5 = "cms_mem_wr hw (cv_mailbox v) (mailbox_header opc) a4"
  have 5: "calm v a4 ?a5" "cv_word v ?a5 (cv_mailbox v) = mailbox_header opc"
    using serves_mem(2,3) [OF S quiet_idle [OF 4(2)]] by (blast, simp)
  let ?a6 = "write_payload hw (cv_mailbox v) 0 ws ?a5"
  have 6: "calm v ?a5 ?a6" "cv_word v ?a6 (cv_mailbox v) = mailbox_header opc" "\<forall>k < length ws. payload v ?a6 k = ws ! k"
    using payload_written [OF S calm_idle [OF 5(1)], of 0 ws] 5(2) by auto
  let ?a7 = "set_control hw (lay_mailbox_msg_status l) ?a6"
  have 7: "executes v ?a6 ?a7" using send_message [OF S calm_idle [OF 6(1)]] .
  then have "cv_idle v ?a7" by (simp add: executes_def Let_def)
  then obtain a8 where 8: "cms_mailbox_is_ready hw l ?a7 = (True, a8)" "quiet v ?a7 a8" using mailbox_ready [OF S] by blast
  obtain a9 where 9: "message_errors hw l a8 = (False, a9)" "quiet v a8 a9" using no_errors [OF S quiet_idle [OF 8(2)]] by blast
  have "cms_mailbox_post hw l opc ws c = (Some (cv_mailbox v), a9)"
    by (simp add: cms_mailbox_post_def MAX_ATTEMPTS_def eval_nat_numeral 1(1) 3(1) 4(1) 8(1) 9(1) Let_def)
  moreover have "calm v c ?a6" using 1(2) 2 3(2) 4(2) 5(1) 6(1) by (meson calm_trans quiet_calm)
  moreover have "executes v ?a6 a9" using executes_quiet [OF executes_quiet [OF 7 8(2)] 9(2)] .
  ultimately show ?thesis using 6 by blast
qed

lemma payload_read:
  assumes "cms_serves hw l v"
  shows "cv_idle v c \<Longrightarrow> \<exists>c'. read_payload hw (cv_mailbox v) n k c = (map (payload v c) [n..<n + k], c') \<and> quiet v c c'"
proof (induction k arbitrary: n c)
  case 0
  then show ?case by (simp add: quiet_refl)
next
  case (Suc k)
  obtain c1 where 1: "cms_mem_rd hw (payload_addr (cv_mailbox v) n) c = (payload v c n, c1)" "quiet v c c1"
    using serves_mem(1) [OF assms Suc.prems] unfolding payload_def by blast
  obtain c2 where 2: "read_payload hw (cv_mailbox v) (Suc n) k c1 = (map (payload v c1) [Suc n..<Suc n + k], c2)" "quiet v c1 c2"
    using Suc.IH [OF quiet_idle [OF 1(2)]] by blast
  show ?case
    using 1 2 quiet_payload [OF 1(2)] by (auto simp: upt_rec intro: quiet_trans)
qed

subsection \<open>Modules\<close>

text \<open>The bytes of a module as the agent addresses them: places below 128 are not paged.\<close>

definition module_byte :: "'c cms_view \<Rightarrow> 'c \<Rightarrow> nat \<Rightarrow> nat \<Rightarrow> nat \<Rightarrow> 8 word" where
  "module_byte v c cage page place = cv_byte v c (of_nat cage) (if place < 128 then 0 else of_nat page) (of_nat place)"

lemma calm_module_byte: "calm v c c' \<Longrightarrow> module_byte v c' = module_byte v c"
  by (simp add: calm_def module_byte_def fun_eq_iff)

lemma octet_of_word [simp]: "ucast (ucast (b :: 8 word) :: 32 word) = b"
  by (rule bit_word_eqI) (auto simp: bit_simps)

lemma cage_of_request: "cage < 4 \<Longrightarrow> take_bit 2 (of_nat cage :: 8 word) = of_nat cage"
proof -
  assume "cage < 4"
  then have "cage \<in> {0, 1, 2, 3}" by auto
  then show ?thesis by auto
qed

lemma words_bytes_block:
  "(\<And>k. k < n \<Longrightarrow> word_bytes (ws k) = map (\<lambda>i. f (4 * k + i)) [0..<4]) \<Longrightarrow>
   words_bytes (map ws [0..<n]) = map f [0..<4 * n]"
proof (induction n)
  case (Suc n)
  have four: "[0..<4 * Suc n] = [0..<4 * n] @ map (\<lambda>i. 4 * n + i) [0..<4]"
  proof -
    have "[0..<4 * Suc n] = [0..<4 * n] @ [4 * n..<4 * n + 4]" using upt_add_eq_append [of 0 "4 * n" 4] by (simp add: add.commute)
    also have "[4 * n..<4 * n + 4] = map (\<lambda>i. 4 * n + i) [0..<4]" using map_add_upt [of "4 * n" 4] by (simp add: add.commute)
    finally show ?thesis .
  qed
  show ?case using Suc unfolding four by (simp add: words_bytes_def del: upt_rec_numeral)
qed (simp add: words_bytes_def)

lemma page_read:
  assumes S: "cms_serves hw l v" and idle: "cv_idle v c" and cage: "cage < 4"
  shows "\<exists>c'. cms_module_page_read hw l
      \<lparr>mid_cage = of_nat cage, mid_page = of_nat page, mid_upper = upper, mid_cmis = False, mid_bank = 0, mid_sfp_diag = False\<rparr> c
      = (Some (map (\<lambda>i. module_byte v c cage page ((if upper then 128 else 0) + i)) [0..<128]), c') \<and> calm v c c'"
proof -
  let ?page = "(if upper then of_nat page else 0) :: 8 word"
  let ?req = "cms_op_module_i2c_select (of_nat cage) ?page upper False False 0"
  obtain c1 c2 where 1: "cms_mailbox_post hw l cms_mailbox_opcode_BLOCK_READ_MODULE_I2C ?req c = (Some (cv_mailbox v), c2)"
      "calm v c c1" "cv_word v c1 (cv_mailbox v) = mailbox_header cms_mailbox_opcode_BLOCK_READ_MODULE_I2C"
      "\<forall>k < length ?req. payload v c1 k = ?req ! k" "executes v c1 c2"
    using message_posted [OF S idle] by blast
  have req: "payload v c1 0 = ucast (take_bit 2 (of_nat cage :: 8 word))" "payload v c1 (Suc 0) = ucast ?page"
      "payload v c1 2 = of_bool upper"
    using 1(4) by (simp_all add: cms_op_module_i2c_select_def)
  have bytes: "cv_byte v c1 (ucast (payload v c1 0)) (ucast (payload v c1 (Suc 0))) (of_nat ((if bit (payload v c1 2) 0 then 128 else 0) + i))
      = module_byte v c cage page ((if upper then 128 else 0) + i)" if "i < 128" for i
    using 1(2) that by (simp add: req cage_of_request [OF cage] module_byte_def calm_def bit_simps)
  have block: "calm v c1 c2 \<and> payload v c2 3 = 128 \<and> (\<forall>k < 32. word_bytes (payload v c2 (4 + k)) =
      map (\<lambda>i. cv_byte v c1 (ucast (payload v c1 0)) (ucast (payload v c1 1))
             (of_nat ((if bit (payload v c1 2) 0 then 128 else 0) + (4 * k + i)))) [0..<4])"
    using 1(5) 1(3) unfolding executes_def Let_def by blast
  have 2: "calm v c1 c2" "payload v c2 3 = 128"
      "\<forall>k < 32. word_bytes (payload v c2 (4 + k)) = map (\<lambda>i. module_byte v c cage page ((if upper then 128 else 0) + (4 * k + i))) [0..<4]"
  proof -
    show "\<forall>k < 32. word_bytes (payload v c2 (4 + k)) = map (\<lambda>i. module_byte v c cage page ((if upper then 128 else 0) + (4 * k + i))) [0..<4]"
    proof (intro allI impI)
      fix k :: nat
      assume k: "k < 32"
      then have "word_bytes (payload v c2 (4 + k)) = map (\<lambda>i. cv_byte v c1 (ucast (payload v c1 0)) (ucast (payload v c1 (Suc 0)))
             (of_nat ((if bit (payload v c1 2) 0 then 128 else 0) + (4 * k + i)))) [0..<4]"
        using block by simp
      also have "\<dots> = map (\<lambda>i. module_byte v c cage page ((if upper then 128 else 0) + (4 * k + i))) [0..<4]"
        by (rule map_cong [OF refl], rule bytes) (use k in simp)
      finally show "word_bytes (payload v c2 (4 + k)) =
          map (\<lambda>i. module_byte v c cage page ((if upper then 128 else 0) + (4 * k + i))) [0..<4]" .
    qed
  qed (use block in auto)
  obtain c3 where 3: "cms_mem_rd hw (payload_addr (cv_mailbox v) 3) c2 = (128, c3)" "quiet v c2 c3"
    using serves_mem(1) [OF S calm_idle [OF 2(1)]] 2(2) unfolding payload_def by metis
  obtain c4 where 4: "read_payload hw (cv_mailbox v) 4 32 c3 = (map (payload v c3) [4..<4 + 32], c4)" "quiet v c3 c4"
    using payload_read [OF S quiet_idle [OF 3(2)]] by blast
  have words: "map (payload v c3) [4..<4 + 32] = map (\<lambda>k. payload v c2 (4 + k)) [0..<32]"
    by (rule nth_equalityI) (simp_all add: quiet_payload [OF 3(2)] del: upt_rec_numeral)
  have "words_bytes (map (\<lambda>k. payload v c2 (4 + k)) [0..<32]) =
      map (\<lambda>i. module_byte v c cage page ((if upper then 128 else 0) + i)) [0..<4 * 32]"
    by (rule words_bytes_block) (use 2(3) in blast)
  then have "words_bytes (map (payload v c3) [4..<4 + 32]) =
      map (\<lambda>i. module_byte v c cage page ((if upper then 128 else 0) + i)) [0..<128]"
    by (simp only: words) simp
  moreover have "calm v c c4" using 1(2) 2(1) 3(2) 4(2) by (meson calm_trans quiet_calm)
  ultimately show ?thesis using 1(1) 3(1) 4(1) by (auto simp: cms_module_page_read_def Let_def CMS_MODULE_PAGE_SIZE_def)
qed

lemma byte_request:
  assumes "place < 256" and "cage < 4" and "calm v c c1"
    and "\<forall>k < length ws. payload v c1 k = ws ! k"
    and "byte_select \<lparr>mid_cage = of_nat cage, mid_page = of_nat page, mid_upper = u, mid_cmis = False, mid_bank = 0,
           mid_sfp_diag = False\<rparr> (of_nat place) @ ucast (of_nat place :: 8 word) # rest = ws"
  shows "ucast (payload v c1 0) = (of_nat cage :: 8 word)"
    and "ucast (payload v c1 (Suc 0)) = (if place < 128 then 0 else of_nat page :: 8 word)"
    and "ucast (payload v c1 3) = (of_nat place :: 8 word)"
    and "rest = [w] \<Longrightarrow> payload v c1 4 = w"
proof -
  have n: "unat (of_nat place :: 8 word) = place" using assms(1) by (simp add: unat_of_nat)
  have ws: "ws = [ucast (take_bit 2 (of_nat cage :: 8 word)), ucast (if place < 128 then 0 else of_nat page :: 8 word),
      of_bool (128 \<le> place), ucast (of_nat place :: 8 word)] @ rest"
    using assms(5) by (auto simp: byte_select_def cms_op_module_i2c_select_def CMS_MODULE_PAGE_SIZE_def Let_def n not_le)
  show "ucast (payload v c1 0) = (of_nat cage :: 8 word)"
    "ucast (payload v c1 (Suc 0)) = (if place < 128 then 0 else of_nat page :: 8 word)"
    "ucast (payload v c1 3) = (of_nat place :: 8 word)"
    "rest = [w] \<Longrightarrow> payload v c1 4 = w"
    using assms(4) by (simp_all add: ws cage_of_request [OF assms(2)])
qed

lemma byte_read:
  assumes S: "cms_serves hw l v" and idle: "cv_idle v c" and cage: "cage < 4" and place: "place < 256"
  shows "\<exists>c'. cms_module_byte_read hw l
      \<lparr>mid_cage = of_nat cage, mid_page = of_nat page, mid_upper = u, mid_cmis = False, mid_bank = 0, mid_sfp_diag = False\<rparr>
      (of_nat place) c = (Some (module_byte v c cage page place), c') \<and> calm v c c'"
proof -
  let ?req = "byte_select \<lparr>mid_cage = of_nat cage, mid_page = of_nat page, mid_upper = u, mid_cmis = False, mid_bank = 0,
      mid_sfp_diag = False\<rparr> (of_nat place) @ [ucast (of_nat place :: 8 word)]"
  obtain c1 c2 where 1: "cms_mailbox_post hw l cms_mailbox_opcode_BYTE_READ_MODULE_I2C ?req c = (Some (cv_mailbox v), c2)"
      "calm v c c1" "cv_word v c1 (cv_mailbox v) = mailbox_header cms_mailbox_opcode_BYTE_READ_MODULE_I2C"
      "\<forall>k < length ?req. payload v c1 k = ?req ! k" "executes v c1 c2"
    using message_posted [OF S idle] by blast
  note req = byte_request [OF place cage 1(2,4) refl]
  have 2: "calm v c1 c2" "ucast (payload v c2 4) = module_byte v c cage page place"
    using 1(2,3,5) by (simp_all add: executes_def Let_def req module_byte_def calm_def)
  obtain c3 where 3: "cms_mem_rd hw (payload_addr (cv_mailbox v) 4) c2 = (payload v c2 4, c3)" "quiet v c2 c3"
    using serves_mem(1) [OF S calm_idle [OF 2(1)]] unfolding payload_def by blast
  moreover have "calm v c c3" using 1(2) 2(1) 3(2) by (meson calm_trans quiet_calm)
  ultimately show ?thesis using 1(1) 2(2) by (auto simp: cms_module_byte_read_def)
qed

lemma byte_write:
  assumes S: "cms_serves hw l v" and idle: "cv_idle v c" and cage: "cage < 4" and place: "place < 256"
    and writable: "cv_writable v (of_nat cage) (if place < 128 then 0 else of_nat page) (of_nat place)"
  shows "\<exists>c'. cms_module_byte_write hw l
      \<lparr>mid_cage = of_nat cage, mid_page = of_nat page, mid_upper = u, mid_cmis = False, mid_bank = 0, mid_sfp_diag = False\<rparr>
      (of_nat place) b c = (True, c') \<and> cv_idle v c' \<and> cv_gpio v c' = cv_gpio v c \<and>
      cv_byte v c' = (\<lambda>g q x. if (g, q, x) = (of_nat cage, if place < 128 then 0 else of_nat page, of_nat place) then b
                              else cv_byte v c g q x)"
proof -
  let ?req = "byte_select \<lparr>mid_cage = of_nat cage, mid_page = of_nat page, mid_upper = u, mid_cmis = False, mid_bank = 0,
      mid_sfp_diag = False\<rparr> (of_nat place) @ [ucast (of_nat place :: 8 word), ucast b]"
  obtain c1 c2 where 1: "cms_mailbox_post hw l cms_mailbox_opcode_BYTE_WRITE_MODULE_I2C ?req c = (Some (cv_mailbox v), c2)"
      "calm v c c1" "cv_word v c1 (cv_mailbox v) = mailbox_header cms_mailbox_opcode_BYTE_WRITE_MODULE_I2C"
      "\<forall>k < length ?req. payload v c1 k = ?req ! k" "executes v c1 c2"
    using message_posted [OF S idle] by blast
  note req = byte_request(1-3) [OF place cage 1(2,4) refl] byte_request(4) [OF place cage 1(2,4) refl refl]
  have "cv_idle v c2" "cv_gpio v c2 = cv_gpio v c1"
    "cv_byte v c2 = (\<lambda>g q x. if (g, q, x) = (of_nat cage, if place < 128 then 0 else of_nat page, of_nat place) \<and> cv_writable v g q x
       then b else cv_byte v c1 g q x)"
    using 1(3,5) by (simp_all add: executes_def Let_def req cong: if_cong)
  moreover have "(g, q, x) = (of_nat cage, if place < 128 then 0 else of_nat page, of_nat place) \<and> cv_writable v g q x \<longleftrightarrow>
      (g, q, x) = (of_nat cage, if place < 128 then 0 else of_nat page, of_nat place)" for g q x
    using writable by auto
  ultimately show ?thesis using 1(1,2) by (simp add: cms_module_byte_write_def calm_def cong: if_cong)
qed

lemma gpio_read:
  assumes S: "cms_serves hw l v" and idle: "cv_idle v c" and cage: "cage < 4"
  shows "\<exists>c'. cms_module_gpio_read hw l (of_nat cage) t c = (Some (decode_gpio t (cv_gpio v c (of_nat cage))), c') \<and> calm v c c'"
proof -
  let ?req = "[ucast (take_bit 2 (of_nat cage :: 8 word))] :: 32 word list"
  obtain c1 c2 where 1: "cms_mailbox_post hw l cms_mailbox_opcode_READ_MODULE_LOW_SPEED_IO ?req c = (Some (cv_mailbox v), c2)"
      "calm v c c1" "cv_word v c1 (cv_mailbox v) = mailbox_header cms_mailbox_opcode_READ_MODULE_LOW_SPEED_IO"
      "\<forall>k < length ?req. payload v c1 k = ?req ! k" "executes v c1 c2"
    using message_posted [OF S idle] by blast
  have req: "ucast (payload v c1 0) = (of_nat cage :: 8 word)" using 1(4) cage_of_request [OF cage] by simp
  have 2: "calm v c1 c2" "payload v c2 1 = cv_gpio v c (of_nat cage)"
    using 1(2,3,5) by (simp_all add: executes_def Let_def req calm_def)
  obtain c3 where 3: "cms_mem_rd hw (payload_addr (cv_mailbox v) 1) c2 = (payload v c2 1, c3)" "quiet v c2 c3"
    using serves_mem(1) [OF S calm_idle [OF 2(1)]] unfolding payload_def by blast
  moreover have "calm v c c3" using 1(2) 2(1) 3(2) by (meson calm_trans quiet_calm)
  ultimately show ?thesis using 1(1) 2(2) by (auto simp: cms_module_gpio_read_def)
qed

lemma gpio_write:
  assumes S: "cms_serves hw l v" and idle: "cv_idle v c" and cage: "cage < 4" and word: "encode_gpio g = Some w"
  shows "\<exists>c'. cms_module_gpio_write hw l (of_nat cage) g c = (True, c') \<and> cv_idle v c' \<and> cv_byte v c' = cv_byte v c \<and>
     cv_gpio v c' = (cv_gpio v c)(of_nat cage := or (and w 3) (and (cv_gpio v c (of_nat cage)) (not 3)))"
proof -
  let ?req = "[ucast (take_bit 2 (of_nat cage :: 8 word)), w] :: 32 word list"
  obtain c1 c2 where 1: "cms_mailbox_post hw l cms_mailbox_opcode_WRITE_MODULE_LOW_SPEED_IO ?req c = (Some (cv_mailbox v), c2)"
      "calm v c c1" "cv_word v c1 (cv_mailbox v) = mailbox_header cms_mailbox_opcode_WRITE_MODULE_LOW_SPEED_IO"
      "\<forall>k < length ?req. payload v c1 k = ?req ! k" "executes v c1 c2"
    using message_posted [OF S idle] by blast
  have req: "ucast (payload v c1 0) = (of_nat cage :: 8 word)" "payload v c1 (Suc 0) = w"
    using 1(4) cage_of_request [OF cage] by auto
  show ?thesis
    using 1(1,2,3,5) word by (simp add: cms_module_gpio_write_def executes_def Let_def req calm_def)
qed

end
