(* ===== verification/Cfg_Module_Props.thy ===== *)
theory Cfg_Module_Props
  imports Cfg_Module Opennic_Cms_Props Cfg_Switch_Props
begin

text \<open>
  The memories of the modules through the agent, when the card management subsystem does what is documented
  (\<^verbatim>\<open>Opennic_Cms_Props\<close>): what is written is read back, through two protocols and the halves of the memory.
\<close>

subsection \<open>A module that is present\<close>

definition module_is_present :: "'c cms_view \<Rightarrow> 'c \<Rightarrow> nat \<Rightarrow> bool" where
  "module_is_present v c mod_id \<longleftrightarrow> bit (cv_gpio v c (of_nat mod_id)) 0 \<and> \<not> bit (cv_gpio v c (of_nat mod_id)) 3"

lemma calm_present: "calm v c c' \<Longrightarrow> module_is_present v c' = module_is_present v c"
  by (simp add: calm_def module_is_present_def fun_eq_iff)

lemma present_checked:
  assumes "cms_serves hw l v" and "cv_idle v c" and "m < 4" and "module_is_present v c m"
  shows "\<exists>c'. check_module_present hw l m c = (CFG_EC_OK, c') \<and> calm v c c'"
  using gpio_read [OF assms(1-3), of cms_module_gpio_type_QSFP] assms(4)
  by (auto simp: check_module_present_def decode_gpio_def module_is_present_def)

lemma absent_checked:
  assumes "cms_serves hw l v" and "cv_idle v c" and "m < 4" and "\<not> module_is_present v c m"
  shows "\<exists>c'. check_module_present hw l m c = (EC_MODULE_NOT_PRESENT, c') \<and> calm v c c'"
  using gpio_read [OF assms(1-3), of cms_module_gpio_type_QSFP] assms(4)
  by (auto simp: check_module_present_def decode_gpio_def module_is_present_def)

subsection \<open>Reading a range\<close>

lemma copy_page_fits:
  "unat p + unat n \<le> length page \<Longrightarrow> unat d + unat n \<le> length data \<Longrightarrow>
   copy_page page p n d data = Some (take (unat d) data @ take (unat n) (drop (unat p) page) @ drop (unat d + unat n) data)"
  by (simp add: copy_page_def Let_def)

lemma page_part:
  "p + n \<le> 128 \<Longrightarrow> take n (drop p (map f [0..<128])) = map (\<lambda>i. f (p + i)) [0..<n]"
  by (rule nth_equalityI) auto

lemma read_payload_length: "read_payload hw mb n k c = (ws, c') \<Longrightarrow> length ws = k"
  by (induction k arbitrary: n c ws) (auto simp: Let_def split: prod.splits)

lemma page_length: "cms_module_page_read hw l mid c = (Some page, c') \<Longrightarrow> length page = 128"
  by (auto simp: cms_module_page_read_def CMS_MODULE_PAGE_SIZE_def words_bytes_def word_bytes_def length_concat comp_def sum_list_triv
      Let_def split: prod.splits option.splits if_splits dest!: read_payload_length)

text \<open>
  A range is read in one part, or in two of which the second is from the start of the upper half: the loop ends after at most
  two pages, and all its copies stay within the page and the buffer.
\<close>

lemma range_parts:
  assumes "offset < 256" and "0 < count" and "count \<le> 256"
    and n: "n = min count (128 - offset mod 128)" and rest: "count - n \<le> 128"
  shows "read_module_range hw l m page offset count c =
     (case cms_module_page_read hw l (mem_module_id m page (128 \<le> offset)) c of
        (None, c1) \<Rightarrow> Some (None, c1)
      | (Some p, c1) \<Rightarrow>
        (if count = n then Some (Some (take n (drop (offset mod 128) p)), c1)
         else case cms_module_page_read hw l (mem_module_id m page True) c1 of
           (None, c2) \<Rightarrow> Some (None, c2)
         | (Some q, c2) \<Rightarrow> Some (Some (take n (drop (offset mod 128) p) @ take (count - n) q), c2)))"
proof (cases "fst (cms_module_page_read hw l (mem_module_id m page (128 \<le> offset)) c)")
  case None
  then show ?thesis
    by (auto simp: read_module_range_def read_pages.simps [of hw l m page count "128 \<le> offset"] CMS_MODULE_PAGE_SIZE_def Let_def
        split: prod.split)
next
  case (Some p)
  then obtain c1 where 1: "cms_module_page_read hw l (mem_module_id m page (128 \<le> offset)) c = (Some p, c1)"
    by (metis prod.collapse)
  define k where "k = count - n"
  let ?part = "take n (drop (offset mod 128) p)"
  have bounds: "offset mod 128 < 128" "n \<le> 128" "offset mod 128 + n \<le> 128" "count = n + k" "k \<le> 128" "0 < n"
    using n rest assms(2) mod_less_divisor [of 128 offset] by (auto simp: k_def min_def)
  have words: "unat (of_nat (offset mod 128) :: 8 word) = offset mod 128" "unat (of_nat n :: 8 word) = n" "unat (of_nat k :: 8 word) = k"
    using bounds by (simp_all add: unat_of_nat)
  have copy1: "copy_page p (of_nat (offset mod 128)) (of_nat n) 0 (replicate count 0) = Some (?part @ replicate k 0)"
    using bounds page_length [OF 1] by (subst copy_page_fits) (simp_all add: words)
  have diff: "of_nat count - of_nat n = (of_nat k :: 8 word)" by (simp add: bounds(4))
  have "read_module_range hw l m page offset count c =
      (if (of_nat count - of_nat n :: 8 word) \<noteq> 0
       then read_pages hw l m page count True 0 (of_nat count - of_nat n) (of_nat n) (?part @ replicate k 0) c1
       else Some (Some (?part @ replicate k 0), c1))"
    using 1 copy1
    by (simp add: read_module_range_def read_pages.simps [of hw l m page count "128 \<le> offset"] CMS_MODULE_PAGE_SIZE_def
        Let_def words n [symmetric])
  note step = this [unfolded diff]
  have "(of_nat k :: 8 word) = 0 \<longleftrightarrow> k = 0" using words(3) by fastforce
  then have nonzero: "(of_nat k :: 8 word) = 0 \<longleftrightarrow> count = n" using bounds(4) by simp
  have part_length: "length ?part = n" using bounds page_length [OF 1] by simp
  have copy2: "copy_page q 0 (of_nat k) (of_nat n) (?part @ replicate k 0) = Some (?part @ take k q)" if "length q = 128" for q
    using bounds that part_length by (subst copy_page_fits) (simp_all add: words)
  have pages: "read_pages hw l m page count True 0 (of_nat k) (of_nat n) (?part @ replicate k 0) c1 =
      (case cms_module_page_read hw l (mem_module_id m page True) c1 of (None, c2) \<Rightarrow> Some (None, c2)
       | (Some q, c2) \<Rightarrow> Some (Some (?part @ take k q), c2))"
    using bounds(4) by (subst read_pages.simps) (auto simp: Let_def copy2 page_length split: prod.split option.split)
  show ?thesis unfolding step nonzero pages using 1 bounds(4) by (simp add: k_def split: prod.split option.split)
qed

text \<open>The places that the checks of a request admit.\<close>

lemma mem_count_place:
  assumes "get_mem_count mem = Inr count"
  shows "mm_offset mem < 256" and "0 < count" and "count \<le> 256"
    and "count - min count (128 - mm_offset mem mod 128) \<le> 128"
proof -
  have place: "mm_offset mem < 256 \<and> 0 < count \<and> (count = 128 \<or> mm_offset mem + count \<le> 256)"
    using assms by (auto simp: get_mem_count_def check_mem_place_def UINT8_MAX_def CMS_MODULE_PAGE_SIZE_def split: if_split_asm)
  then show "mm_offset mem < 256" "0 < count" "count \<le> 256" by auto
  have "mm_offset mem mod 128 = (if mm_offset mem < 128 then mm_offset mem else mm_offset mem - 128)"
    using place by (auto simp: mod_if)
  then show "count - min count (128 - mm_offset mem mod 128) \<le> 128" using place by (auto simp: min_def)
qed

lemma range_total:
  assumes "get_mem_count mem = Inr count"
  shows "\<exists>r c'. read_module_range hw l m page (mm_offset mem) count c = Some (r, c') \<and> (\<forall>data. r = Some data \<longrightarrow> length data = count)"
proof -
  let ?n = "min count (128 - mm_offset mem mod 128)"
  note place = mem_count_place [OF assms]
  have "?n \<le> 128 - mm_offset mem mod 128" "mm_offset mem mod 128 < 128" by simp_all
  then show ?thesis
    unfolding range_parts [OF place(1-3) refl place(4)]
    using place(4) by (auto split: prod.split option.split dest!: page_length)
qed

lemma range_read:
  assumes S: "cms_serves hw l v" and idle: "cv_idle v c" and m: "m < 4" and "offset < 256" and "0 < count" and "count \<le> 256"
    and n: "n = min count (128 - offset mod 128)" and rest: "count - n \<le> 128"
  shows "\<exists>c'. read_module_range hw l m page offset count c =
      Some (Some (map (\<lambda>i. module_byte v c m page (offset + i)) [0..<n] @
                  map (\<lambda>i. module_byte v c m page (128 + i)) [0..<count - n]), c') \<and> calm v c c'"
proof -
  let ?f = "\<lambda>i. module_byte v c m page ((if 128 \<le> offset then 128 else 0) + i)" and ?g = "\<lambda>i. module_byte v c m page (128 + i)"
  obtain c1 where 1: "cms_module_page_read hw l (mem_module_id m page (128 \<le> offset)) c = (Some (map ?f [0..<128]), c1)"
      "calm v c c1"
    using page_read [OF S idle m, of page "128 \<le> offset"] unfolding mem_module_id_def by blast
  obtain c2 where 2: "cms_module_page_read hw l (mem_module_id m page True) c1 = (Some (map ?g [0..<128]), c2)" "calm v c1 c2"
    using page_read [OF S calm_idle [OF 1(2)] m, of page True] calm_module_byte [OF 1(2)] unfolding mem_module_id_def by auto
  have "offset mod 128 + n \<le> 128" using n mod_less_divisor [of 128 offset] by (auto simp: min_def)
  then have "take n (drop (offset mod 128) (map ?f [0..<128])) = map (\<lambda>i. ?f (offset mod 128 + i)) [0..<n]" by (rule page_part)
  also have "\<dots> = map (\<lambda>i. module_byte v c m page (offset + i)) [0..<n]"
    using assms(4) by (intro map_cong refl arg_cong [where f = "module_byte v c m page"]) (auto simp: mod_if)
  finally have part: "take n (drop (offset mod 128) (map ?f [0..<128])) = map (\<lambda>i. module_byte v c m page (offset + i)) [0..<n]" .
  have "take (count - n) (map ?g [0..<128]) = map ?g [0..<count - n]" using rest page_part [of 0 "count - n" ?g] by simp
  then show ?thesis
    unfolding range_parts [OF assms(4,5,6) n rest] 1(1) 2(1) prod.case option.case part
    using 1(2) calm_trans [OF 1(2) 2(2)] n by (auto split: if_splits)
qed

lemma range_read_fits:
  assumes "cms_serves hw l v" and "cv_idle v c" and "m < 4" and "0 < count" and "offset + count \<le> 256"
  shows "\<exists>c'. read_module_range hw l m page offset count c =
      Some (Some (map (\<lambda>i. module_byte v c m page (offset + i)) [0..<count]), c') \<and> calm v c c'"
proof -
  define n where "n = min count (128 - offset mod 128)"
  have bounds: "offset < 256" "count \<le> 256" "count - n \<le> 128" "n \<le> count" "n < count \<Longrightarrow> offset + n = 128"
    using assms(4,5) by (auto simp: n_def min_def mod_if split: if_splits)
  have "map (\<lambda>i. module_byte v c m page (offset + i)) [0..<n] @ map (\<lambda>i. module_byte v c m page (128 + i)) [0..<count - n] =
      map (\<lambda>i. module_byte v c m page (offset + i)) [0..<count]"
    using bounds(4,5) by (intro nth_equalityI) (auto simp: nth_append intro!: arg_cong [where f = "module_byte v c m page"])
  then show ?thesis using range_read [OF assms(1-3) bounds(1) assms(4) bounds(2) n_def bounds(3), of page] by simp
qed

subsection \<open>Writing bytes\<close>

abbreviation page_at :: "nat \<Rightarrow> nat \<Rightarrow> 8 word" where
  "page_at page place \<equiv> (if place < 128 then 0 else of_nat page)"

lemma bytes_written:
  assumes S: "cms_serves hw l v" and m: "m < 4"
  shows "cv_idle v c \<Longrightarrow> place + length bs \<le> 256 \<Longrightarrow>
    (\<forall>k < length bs. cv_writable v (of_nat m) (page_at page (place + k)) (of_nat (place + k))) \<Longrightarrow>
    \<exists>c'. write_module_bytes hw l (mem_module_id m page False) place bs c = (True, c') \<and> cv_idle v c' \<and>
       cv_gpio v c' = cv_gpio v c \<and> (\<forall>k < length bs. module_byte v c' m page (place + k) = bs ! k) \<and>
       (\<forall>g q x. (\<forall>k < length bs. (g, q, x) \<noteq> (of_nat m, page_at page (place + k), of_nat (place + k))) \<longrightarrow>
          cv_byte v c' g q x = cv_byte v c g q x)"
proof (induction bs arbitrary: place c)
  case Nil
  then show ?case by simp
next
  case (Cons b bs)
  have "cv_writable v (of_nat m) (page_at page place) (of_nat place)" using Cons.prems(3) by (metis add_0_right length_greater_0_conv list.distinct(1))
  then obtain c1 where 1: "cms_module_byte_write hw l (mem_module_id m page False) (of_nat place) b c = (True, c1)"
      "cv_idle v c1" "cv_gpio v c1 = cv_gpio v c"
      "cv_byte v c1 = (\<lambda>g q x. if (g, q, x) = (of_nat m, page_at page place, of_nat place) then b else cv_byte v c g q x)"
    using byte_write [OF S Cons.prems(1) m, of place page False b] Cons.prems(2) unfolding mem_module_id_def by auto
  have "\<forall>k < length bs. cv_writable v (of_nat m) (page_at page (Suc place + k)) (of_nat (Suc place + k))"
    using Cons.prems(3) by (metis Suc_less_eq add_Suc_shift length_Cons)
  then obtain c2 where 2: "write_module_bytes hw l (mem_module_id m page False) (Suc place) bs c1 = (True, c2)" "cv_idle v c2"
      "cv_gpio v c2 = cv_gpio v c1" "\<forall>k < length bs. module_byte v c2 m page (Suc place + k) = bs ! k"
      "\<forall>g q x. (\<forall>k < length bs. (g, q, x) \<noteq> (of_nat m, page_at page (Suc place + k), of_nat (Suc place + k))) \<longrightarrow>
          cv_byte v c2 g q x = cv_byte v c1 g q x"
    using Cons.IH [OF 1(2), of "Suc place"] Cons.prems(2) by auto
  have distinct_place: "(of_nat place :: 8 word) \<noteq> of_nat (Suc place + k)" if "k < length bs" for k
  proof -
    have "unat (of_nat place :: 8 word) = place" "unat (of_nat (Suc place + k) :: 8 word) = Suc place + k"
      using Cons.prems(2) that by (simp_all only: unat_of_nat) simp_all
    then show ?thesis by (metis add_Suc less_add_Suc1 less_irrefl_nat)
  qed
  then have "module_byte v c2 m page place = module_byte v c1 m page place"
    using 2(5) unfolding module_byte_def by simp
  also have "\<dots> = b" by (simp add: module_byte_def 1(4))
  finally have "module_byte v c2 m page (place + k) = (b # bs) ! k" if "k < length (b # bs)" for k
    using 2(4) that by (cases k) auto
  moreover have "cv_byte v c2 g q x = cv_byte v c g q x"
    if "\<forall>k < length (b # bs). (g, q, x) \<noteq> (of_nat m, page_at page (place + k), of_nat (place + k))" for g q x
  proof -
    have "(g, q, x) \<noteq> (of_nat m, page_at page place, of_nat place)" using that [THEN spec, of 0] by simp
    then have "cv_byte v c1 g q x = cv_byte v c g q x" unfolding 1(4) by (rule if_not_P)
    moreover have "\<forall>k < length bs. (g, q, x) \<noteq> (of_nat m, page_at page (Suc place + k), of_nat (Suc place + k))"
      using that by (metis Suc_less_eq add_Suc_shift length_Cons)
    ultimately show ?thesis using 2(5) by metis
  qed
  ultimately show ?case using 1 2 by auto
qed

subsection \<open>Requests\<close>

lemma mem_request_single:
  assumes "i < length (cfg_devices s)" and "m < cd_nports (cfg_devices s ! i)"
  shows "module_mem_request \<lparr>mmreq_dev_id = int i, mmreq_mod_id = int m, mmreq_mem = mem\<rparr> (Inr count) body s =
    (case body count i m (cfg_devices s ! i) of Inl e \<Rightarrow> Inl e
     | Inr (d, rs) \<Rightarrow> Inr (s\<lparr>cfg_devices := (cfg_devices s)[i := d]\<rparr>, rs))"
  using assms
  by (auto simp: module_mem_request_def Let_def for_modules_def for_range_single split: sum.splits prod.splits)

lemma put_put_cms: "put_cms c' (put_cms c dev) = put_cms c' dev" "dev_cms (put_cms c dev) = c"
  by (simp_all add: put_cms_def)

lemma get_mem_single:
  assumes S: "cms_serves (ce_cms env) (ce_cms_layout env) v" and ports: "cd_nports (cfg_devices s ! i) \<le> 4"
    and ids: "i < length (cfg_devices s)" "m < cd_nports (cfg_devices s ! i)"
    and idle: "cv_idle v (dev_cms (cfg_devices s ! i))" "module_is_present v (dev_cms (cfg_devices s ! i)) m"
    and place: "0 < count" "offset + count \<le> 256" "page < 256"
  shows "\<exists>s'. GetModuleMem env \<lparr>mmreq_dev_id = int i, mmreq_mod_id = int m,
             mmreq_mem = \<lparr>mm_offset = offset, mm_page = page, mm_count = count, mm_data = junk\<rparr>\<rparr> s =
           Inr (s', [mem_response i m CFG_EC_OK (Some \<lparr>mm_offset = offset, mm_page = page, mm_count = count,
             mm_data = map (\<lambda>k. module_byte v (dev_cms (cfg_devices s ! i)) m page (offset + k)) [0..<count]\<rparr>)]) \<and>
         (\<exists>c'. cfg_devices s' = (cfg_devices s)[i := put_cms c' (cfg_devices s ! i)] \<and> calm v (dev_cms (cfg_devices s ! i)) c')"
proof -
  let ?c = "dev_cms (cfg_devices s ! i)" and ?hw = "ce_cms env" and ?l = "ce_cms_layout env"
  have m: "m < 4" using ids ports by simp
  obtain c1 where 1: "check_module_present ?hw ?l m ?c = (CFG_EC_OK, c1)" "calm v ?c c1"
    using present_checked [OF S idle(1) m idle(2)] by blast
  note same = calm_module_byte [OF 1(2)]
  have "\<exists>c2. calm v c1 c2 \<and> get_module_mem_act env offset page count m (put_cms c1 (cfg_devices s ! i)) =
      Inr (CFG_EC_OK, Some \<lparr>mm_offset = offset, mm_page = page, mm_count = count,
             mm_data = map (\<lambda>k. module_byte v ?c m page (offset + k)) [0..<count]\<rparr>, put_cms c2 (cfg_devices s ! i))"
  proof (cases "count > 1")
    case True
    show ?thesis
      using range_read_fits [OF S calm_idle [OF 1(2)] m place(1,2), of page] True same
      by (auto simp: get_module_mem_act_def put_put_cms)
  next
    case False
    then have "count = 1" using place(1) by simp
    moreover have "offset < 256" using place(1,2) by simp
    ultimately show ?thesis
      using byte_read [OF S calm_idle [OF 1(2)] m, of offset page False] same
      by (auto simp: get_module_mem_act_def put_put_cms mem_module_id_def)
  qed
  then obtain c2 where 2: "calm v c1 c2" "get_module_mem_act env offset page count m (put_cms c1 (cfg_devices s ! i)) =
      Inr (CFG_EC_OK, Some \<lparr>mm_offset = offset, mm_page = page, mm_count = count,
             mm_data = map (\<lambda>k. module_byte v ?c m page (offset + k)) [0..<count]\<rparr>, put_cms c2 (cfg_devices s ! i))"
    by blast
  have "get_mem_count \<lparr>mm_offset = offset, mm_page = page, mm_count = count, mm_data = junk\<rparr> = Inr count"
    using place by (auto simp: get_mem_count_def check_mem_place_def UINT8_MAX_def)
  then have "GetModuleMem env \<lparr>mmreq_dev_id = int i, mmreq_mod_id = int m,
             mmreq_mem = \<lparr>mm_offset = offset, mm_page = page, mm_count = count, mm_data = junk\<rparr>\<rparr> s =
      Inr (s\<lparr>cfg_devices := (cfg_devices s)[i := put_cms c2 (cfg_devices s ! i)]\<rparr>,
           [mem_response i m CFG_EC_OK (Some \<lparr>mm_offset = offset, mm_page = page, mm_count = count,
              mm_data = map (\<lambda>k. module_byte v ?c m page (offset + k)) [0..<count]\<rparr>)])"
    using 1(1) 2(2) by (simp add: GetModuleMem_def get_module_mem_def mem_request_single [OF ids] on_present_module_def Let_def)
  then show ?thesis using calm_trans [OF 1(2) 2(1)] by (intro exI conjI) auto
qed

lemma set_mem_single:
  assumes S: "cms_serves (ce_cms env) (ce_cms_layout env) v" and ports: "cd_nports (cfg_devices s ! i) \<le> 4"
    and ids: "i < length (cfg_devices s)" "m < cd_nports (cfg_devices s ! i)"
    and idle: "cv_idle v (dev_cms (cfg_devices s ! i))" "module_is_present v (dev_cms (cfg_devices s ! i)) m"
    and place: "offset < 256" "offset + length data \<le> 256" "page < 256"
    and writable: "\<forall>k < length data. cv_writable v (of_nat m) (page_at page (offset + k)) (of_nat (offset + k))"
  shows "\<exists>s' c'. SetModuleMem env \<lparr>mmreq_dev_id = int i, mmreq_mod_id = int m,
             mmreq_mem = \<lparr>mm_offset = offset, mm_page = page, mm_count = junk, mm_data = data\<rparr>\<rparr> s =
           Inr (s', [mem_response i m CFG_EC_OK None]) \<and>
         cfg_devices s' = (cfg_devices s)[i := put_cms c' (cfg_devices s ! i)] \<and> cv_idle v c' \<and>
         cv_gpio v c' = cv_gpio v (dev_cms (cfg_devices s ! i)) \<and>
         (\<forall>k < length data. module_byte v c' m page (offset + k) = data ! k) \<and>
         (\<forall>g q x. (\<forall>k < length data. (g, q, x) \<noteq> (of_nat m, page_at page (offset + k), of_nat (offset + k))) \<longrightarrow>
            cv_byte v c' g q x = cv_byte v (dev_cms (cfg_devices s ! i)) g q x)"
proof -
  let ?c = "dev_cms (cfg_devices s ! i)" and ?hw = "ce_cms env" and ?l = "ce_cms_layout env"
  let ?mem = "\<lparr>mm_offset = offset, mm_page = page, mm_count = junk, mm_data = data\<rparr>"
  have m: "m < 4" using ids ports by simp
  obtain c1 where 1: "check_module_present ?hw ?l m ?c = (CFG_EC_OK, c1)" "calm v ?c c1"
    using present_checked [OF S idle(1) m idle(2)] by blast
  obtain c2 where 2: "write_module_bytes ?hw ?l (mem_module_id m page False) offset data c1 = (True, c2)" "cv_idle v c2"
      "cv_gpio v c2 = cv_gpio v c1" "\<forall>k < length data. module_byte v c2 m page (offset + k) = data ! k"
      "\<forall>g q x. (\<forall>k < length data. (g, q, x) \<noteq> (of_nat m, page_at page (offset + k), of_nat (offset + k))) \<longrightarrow>
         cv_byte v c2 g q x = cv_byte v c1 g q x"
    using bytes_written [OF S m calm_idle [OF 1(2)] place(2) writable] by blast
  have "set_module_mem_act env ?mem (length data) m (put_cms c1 (cfg_devices s ! i)) =
      Inr (CFG_EC_OK, None, put_cms c2 (cfg_devices s ! i))"
    using 2(1) by (simp add: set_module_mem_act_def put_cms_def)
  moreover have "set_mem_count ?mem = Inr (length data)"
    using place by (auto simp: set_mem_count_def check_mem_place_def UINT8_MAX_def)
  ultimately have "SetModuleMem env \<lparr>mmreq_dev_id = int i, mmreq_mod_id = int m, mmreq_mem = ?mem\<rparr> s =
      Inr (s\<lparr>cfg_devices := (cfg_devices s)[i := put_cms c2 (cfg_devices s ! i)]\<rparr>, [mem_response i m CFG_EC_OK None])"
    using 1(1) by (simp add: SetModuleMem_def set_module_mem_def mem_request_single [OF ids] on_present_module_def Let_def)
  moreover have "cv_byte v c1 = cv_byte v ?c" "cv_gpio v c1 = cv_gpio v ?c" using 1(2) by (simp_all add: calm_def)
  ultimately show ?thesis using 2 by (intro exI conjI) auto
qed

text \<open>
  Property C15.  What a client writes to the memory of a module is what it reads back.  If the card management subsystem does what is
  documented, the module is present and the bytes, which may lie in both halves of the memory, can be written, then
  \<open>SetModuleMem\<close> writes them one by one through the mailbox and answers \<open>EC_OK\<close>, the next
  \<open>GetModuleMem\<close> for the same range gives exactly these bytes, and no other byte of any module has changed.
\<close>
theorem module_mem_roundtrip:
  assumes "cms_serves (ce_cms env) (ce_cms_layout env) v"
    and "i < length (cfg_devices s)" and "m < cd_nports (cfg_devices s ! i)" and "cd_nports (cfg_devices s ! i) \<le> 4"
    and "cv_idle v (dev_cms (cfg_devices s ! i))" and "module_is_present v (dev_cms (cfg_devices s ! i)) m"
    and "data \<noteq> []" and "offset + length data \<le> 256" and "page < 256"
    and "\<forall>k < length data. cv_writable v (of_nat m) (page_at page (offset + k)) (of_nat (offset + k))"
  shows "\<exists>s' s''.
    SetModuleMem env \<lparr>mmreq_dev_id = int i, mmreq_mod_id = int m,
      mmreq_mem = \<lparr>mm_offset = offset, mm_page = page, mm_count = 0, mm_data = data\<rparr>\<rparr> s =
      Inr (s', [mem_response i m CFG_EC_OK None]) \<and>
    GetModuleMem env \<lparr>mmreq_dev_id = int i, mmreq_mod_id = int m,
      mmreq_mem = \<lparr>mm_offset = offset, mm_page = page, mm_count = length data, mm_data = []\<rparr>\<rparr> s' =
      Inr (s'', [mem_response i m CFG_EC_OK
        (Some \<lparr>mm_offset = offset, mm_page = page, mm_count = length data, mm_data = data\<rparr>)]) \<and>
    (\<forall>g q x. (\<forall>k < length data. (g, q, x) \<noteq> (of_nat m, page_at page (offset + k), of_nat (offset + k))) \<longrightarrow>
       cv_byte v (dev_cms (cfg_devices s'' ! i)) g q x = cv_byte v (dev_cms (cfg_devices s ! i)) g q x)"
proof -
  have "offset < 256" using assms(7,8) by (cases data) auto
  from set_mem_single [OF assms(1,4,2,3,5,6) this assms(8,9,10), of 0] obtain s' c' where
    1: "SetModuleMem env \<lparr>mmreq_dev_id = int i, mmreq_mod_id = int m,
        mmreq_mem = \<lparr>mm_offset = offset, mm_page = page, mm_count = 0, mm_data = data\<rparr>\<rparr> s =
        Inr (s', [mem_response i m CFG_EC_OK None])"
      "cfg_devices s' = (cfg_devices s)[i := put_cms c' (cfg_devices s ! i)]" "cv_idle v c'"
      "cv_gpio v c' = cv_gpio v (dev_cms (cfg_devices s ! i))" "\<forall>k < length data. module_byte v c' m page (offset + k) = data ! k"
      "\<forall>g q x. (\<forall>k < length data. (g, q, x) \<noteq> (of_nat m, page_at page (offset + k), of_nat (offset + k))) \<longrightarrow>
         cv_byte v c' g q x = cv_byte v (dev_cms (cfg_devices s ! i)) g q x" by metis
  have dev: "dev_cms (cfg_devices s' ! i) = c'" "cd_nports (cfg_devices s' ! i) = cd_nports (cfg_devices s ! i)"
      "i < length (cfg_devices s')"
    using 1(2) assms(2) by (simp_all add: put_cms_def)
  have "module_is_present v c' m" using assms(6) by (simp add: module_is_present_def 1(4))
  then obtain s'' c'' where 2: "GetModuleMem env \<lparr>mmreq_dev_id = int i, mmreq_mod_id = int m,
      mmreq_mem = \<lparr>mm_offset = offset, mm_page = page, mm_count = length data, mm_data = []\<rparr>\<rparr> s' =
      Inr (s'', [mem_response i m CFG_EC_OK (Some \<lparr>mm_offset = offset, mm_page = page, mm_count = length data,
             mm_data = map (\<lambda>k. module_byte v c' m page (offset + k)) [0..<length data]\<rparr>)])"
      "cfg_devices s'' = (cfg_devices s')[i := put_cms c'' (cfg_devices s' ! i)]" "calm v c' c''"
    using get_mem_single [OF assms(1), of s' i m "length data" offset page "[]"] dev 1(3) assms(3,4,7,8,9) by auto
  have "map (\<lambda>k. module_byte v c' m page (offset + k)) [0..<length data] = data"
    using 1(5) by (intro nth_equalityI) auto
  moreover have "cv_byte v (dev_cms (cfg_devices s'' ! i)) = cv_byte v c'" using 2(2,3) dev(3) by (simp add: calm_def put_cms_def)
  ultimately show ?thesis using 1(1,6) 2(1) by auto
qed

text \<open>
  A card management subsystem that executes each message at once, for the witnesses.  Its mailbox is at 0.
\<close>

record sim_cms =
  sim_word :: "nat \<Rightarrow> 32 word"
  sim_byte :: "8 word \<Rightarrow> 8 word \<Rightarrow> 8 word \<Rightarrow> 8 word"
  sim_gpio :: "8 word \<Rightarrow> 32 word"

definition word_of_bytes :: "(nat \<Rightarrow> 8 word) \<Rightarrow> 32 word" where
  "word_of_bytes f = or (ucast (f 0)) (or (push_bit 8 (ucast (f 1))) (or (push_bit 16 (ucast (f 2))) (push_bit 24 (ucast (f 3)))))"

lemma word_bytes_of: "word_bytes (word_of_bytes f) = map f [0..<4]"
proof -
  have "ucast (word_of_bytes f) = f 0" "ucast (drop_bit 8 (word_of_bytes f)) = f 1"
    "ucast (drop_bit 16 (word_of_bytes f)) = f 2" "ucast (drop_bit 24 (word_of_bytes f)) = f 3"
    by (rule bit_word_eqI; auto simp: word_of_bytes_def bit_simps dest: bit_imp_le_length)+
  then show ?thesis by (simp add: word_bytes_def upt_rec numeral_2_eq_2 numeral_3_eq_3)
qed

definition sim_execute :: "sim_cms \<Rightarrow> sim_cms" where
  "sim_execute c =
     (let header = sim_word c 0; p = (\<lambda>n. sim_word c (payload_addr 0 n));
          cage = ucast (p 0); page = ucast (p 1); place = ucast (p 3); base = (if bit (p 2) 0 then 128 else 0 :: nat) in
      if header = mailbox_header cms_mailbox_opcode_BLOCK_READ_MODULE_I2C then
        c\<lparr>sim_word := (\<lambda>a. if a = payload_addr 0 3 then 128
                         else word_of_bytes (\<lambda>i. sim_byte c cage page (of_nat (base + ((a - payload_addr 0 4) + i)))))\<rparr>
      else if header = mailbox_header cms_mailbox_opcode_BYTE_READ_MODULE_I2C then
        c\<lparr>sim_word := (sim_word c)(payload_addr 0 4 := ucast (sim_byte c cage page place))\<rparr>
      else if header = mailbox_header cms_mailbox_opcode_BYTE_WRITE_MODULE_I2C then
        c\<lparr>sim_byte := (\<lambda>g q x. if (g, q, x) = (cage, page, place) then ucast (p 4) else sim_byte c g q x)\<rparr>
      else if header = mailbox_header cms_mailbox_opcode_READ_MODULE_LOW_SPEED_IO then
        c\<lparr>sim_word := (sim_word c)(payload_addr 0 1 := sim_gpio c cage)\<rparr>
      else if header = mailbox_header cms_mailbox_opcode_WRITE_MODULE_LOW_SPEED_IO then
        c\<lparr>sim_gpio := (sim_gpio c)(cage := or (and (p 1) 3) (and (sim_gpio c cage) (not 3)))\<rparr>
      else c)"

definition sim_hw :: "sim_cms cms_hw" where
  "sim_hw =
     \<lparr>cms_rd = (\<lambda>_ c. (0, c)),
      cms_wr = (\<lambda>r w c. if r = control_reg \<and> bf_get (lay_mailbox_msg_status sample_cms_layout) w = 1 then sim_execute c else c),
      cms_mem_rd = (\<lambda>a c. (sim_word c a, c)), cms_mem_wr = (\<lambda>a w c. c\<lparr>sim_word := (sim_word c)(a := w)\<rparr>),
      cms_usleep = (\<lambda>_ c. c)\<rparr>"

definition sim_view :: "sim_cms cms_view" where
  "sim_view =
     \<lparr>cv_idle = (\<lambda>_. True), cv_mailbox = 0, cv_word = sim_word, cv_byte = sim_byte, cv_writable = (\<lambda>_ _ _. True),
      cv_gpio = sim_gpio\<rparr>"

lemmas header_values = mailbox_header_def opcode_value_def

lemma sim_executes: "executes sim_view c (sim_execute c)"
proof -
  note defs = executes_def sim_execute_def Let_def sim_view_def calm_def payload_def payload_addr_def
  consider opc where "sim_word c 0 = mailbox_header opc" "opc \<in> {cms_mailbox_opcode_BLOCK_READ_MODULE_I2C,
      cms_mailbox_opcode_BYTE_READ_MODULE_I2C, cms_mailbox_opcode_BYTE_WRITE_MODULE_I2C,
      cms_mailbox_opcode_READ_MODULE_LOW_SPEED_IO, cms_mailbox_opcode_WRITE_MODULE_LOW_SPEED_IO}"
    | "\<forall>opc. sim_word c 0 \<noteq> mailbox_header opc" | opc where "sim_word c 0 = mailbox_header opc" "opc \<notin> {cms_mailbox_opcode_BLOCK_READ_MODULE_I2C,
      cms_mailbox_opcode_BYTE_READ_MODULE_I2C, cms_mailbox_opcode_BYTE_WRITE_MODULE_I2C,
      cms_mailbox_opcode_READ_MODULE_LOW_SPEED_IO, cms_mailbox_opcode_WRITE_MODULE_LOW_SPEED_IO}" by blast
  then show ?thesis
  proof cases
    case 1
    then show ?thesis
      by (elim insertE emptyE) (simp_all add: defs header_values word_bytes_of cong: if_cong del: upt_rec_numeral)
  next
    case 2
    then show ?thesis by (simp add: defs)
  next
    case 3
    then show ?thesis by (cases opc) (simp_all add: defs header_values)
  qed
qed

lemma sim_serves: "cms_serves sim_hw sample_cms_layout sim_view"
proof -
  have "bf_get f 0 = 0" for f by (rule bit_word_eqI) (simp add: bf_get_def bit_simps)
  then have "cms_documented sim_hw sample_cms_layout sim_view"
    using sim_executes
    by (auto simp: cms_documented_def sim_hw_def) (auto simp: sim_view_def quiet_def calm_def)
  moreover have "cms_layout_ok sample_cms_layout"
    by (simp add: cms_layout_ok_def sample_cms_layout_def bf_ok_def bf_disjoint_def)
  ultimately show ?thesis by (simp add: cms_serves_def)
qed

text \<open>A card whose modules have at each place the number of the place.\<close>

definition sim_agent :: "sim_cms SmartnicConfigImpl" where
  "sim_agent = sample_agent_of [sample_device_of
     \<lparr>sim_word = (\<lambda>_. 0), sim_byte = (\<lambda>_ _ x. x), sim_gpio = (\<lambda>_. 1)\<rparr>]"

lemma sim_agent_facts:
  "length (cfg_devices sim_agent) = 1" "cd_nports (cfg_devices sim_agent ! 0) = 2"
  "cv_idle sim_view (dev_cms (cfg_devices sim_agent ! 0))"
  "module_is_present sim_view (dev_cms (cfg_devices sim_agent ! 0)) m"
  by (simp_all add: sim_agent_def sample_agent_of_def sample_device_of_def sim_view_def module_is_present_def)

theorem module_mem_roundtrip_witness:
  "\<exists>s' s''.
    SetModuleMem (sample_env_of sim_hw) \<lparr>mmreq_dev_id = 0, mmreq_mod_id = 1,
      mmreq_mem = \<lparr>mm_offset = 126, mm_page = 3, mm_count = 0, mm_data = [7, 8, 9]\<rparr>\<rparr> sim_agent =
      Inr (s', [mem_response 0 1 CFG_EC_OK None]) \<and>
    GetModuleMem (sample_env_of sim_hw) \<lparr>mmreq_dev_id = 0, mmreq_mod_id = 1,
      mmreq_mem = \<lparr>mm_offset = 126, mm_page = 3, mm_count = 3, mm_data = []\<rparr>\<rparr> s' =
      Inr (s'', [mem_response 0 1 CFG_EC_OK
        (Some \<lparr>mm_offset = 126, mm_page = 3, mm_count = 3, mm_data = [7, 8, 9]\<rparr>)])"
proof -
  have "cms_serves (ce_cms (sample_env_of sim_hw)) (ce_cms_layout (sample_env_of sim_hw)) sim_view"
    using sim_serves by (simp add: sample_env_of_def)
  from module_mem_roundtrip [OF this, of 0 sim_agent 1 "[7, 8, 9]" 126 3] sim_agent_facts
  show ?thesis by (auto simp: sim_view_def numeral_3_eq_3)
qed

text \<open>
  Property C16.  Reading the memory of a module is within bounds.  For every request that passes the checks of its place
  and its number of bytes, and whatever the management subsystem does, the loop over the pages, with its byte-sized
  counters, ends, no copy of it leaves a page or the buffer of the answer, and if all pages can be read the buffer is filled
  with exactly the number of bytes that was asked for, at most 256.
\<close>
theorem module_mem_read_bounds:
  assumes "get_mem_count mem = Inr count"
  shows "0 < count \<and> count \<le> 256 \<and>
    (\<exists>r c'. read_module_range hw l m (mm_page mem) (mm_offset mem) count c = Some (r, c') \<and>
       (\<forall>data. r = Some data \<longrightarrow> length data = count))"
  by (intro conjI mem_count_place(2,3) [OF assms] range_total [OF assms])

theorem module_mem_read_bounds_witness:
  "\<exists>r c'. read_module_range sim_hw sample_cms_layout 1 2 200 128 (dev_cms (cfg_devices sim_agent ! 0)) = Some (r, c') \<and>
     (\<forall>data. r = Some data \<longrightarrow> length data = 128)"
proof -
  let ?mem = "\<lparr>mm_offset = 200, mm_page = 2, mm_count = 0, mm_data = []\<rparr>"
  have "get_mem_count ?mem = Inr 128" by (simp add: get_mem_count_def check_mem_place_def UINT8_MAX_def CMS_MODULE_PAGE_SIZE_def)
  from module_mem_read_bounds [OF this, of sim_hw sample_cms_layout 1 "dev_cms (cfg_devices sim_agent ! 0)"] show ?thesis
    by (simp only: ModuleMem.select_convs simp_thms)
qed

subsection \<open>The default number of bytes\<close>

lemma default_range:
  assumes "cms_serves hw l v" and "cv_idle v c" and "m < 4" and "128 < offset" and "offset < 256"
  shows "\<exists>c'. read_module_range hw l m page offset 128 c =
      Some (Some (map (\<lambda>k. module_byte v c m page (if offset + k < 256 then offset + k else offset + k - 128)) [0..<128]), c') \<and>
      calm v c c'"
proof -
  have n: "256 - offset = min 128 (128 - offset mod 128)" "128 - (256 - offset) \<le> 128" "128 - (256 - offset) = offset - 128"
    using assms(4,5) by (auto simp: min_def mod_if)
  have "map (\<lambda>i. module_byte v c m page (offset + i)) [0..<256 - offset] @ map (\<lambda>i. module_byte v c m page (128 + i)) [0..<offset - 128] =
      map (\<lambda>k. module_byte v c m page (if offset + k < 256 then offset + k else offset + k - 128)) [0..<128]"
    using assms(4,5)
    by (intro nth_equalityI) (auto simp: nth_append intro!: arg_cong [where f = "module_byte v c m page"] simp del: upt_rec_numeral)
  then show ?thesis using range_read [OF assms(1-3,5) _ _ n(1,2), of page] n(3) by simp
qed

text \<open>
  Property C35.  A request that leaves out the number of bytes gets 128 of them, also when fewer are left: from a place
  beyond 128 on, the agent answers \<open>EC_OK\<close> and fills the rest with the bytes from the start
  of the upper half, as if the memory went on there, although a request that asks for 128 bytes from this place is rejected.
\<close>
theorem module_mem_default_count_wraps:
  assumes "cms_serves (ce_cms env) (ce_cms_layout env) v"
    and "i < length (cfg_devices s)" and "m < cd_nports (cfg_devices s ! i)" and "cd_nports (cfg_devices s ! i) \<le> 4"
    and "cv_idle v (dev_cms (cfg_devices s ! i))" and "module_is_present v (dev_cms (cfg_devices s ! i)) m"
    and "128 < offset" and "offset < 256" and "page < 256"
  shows "(\<exists>s'. GetModuleMem env \<lparr>mmreq_dev_id = int i, mmreq_mod_id = int m,
      mmreq_mem = \<lparr>mm_offset = offset, mm_page = page, mm_count = 0, mm_data = []\<rparr>\<rparr> s =
      Inr (s', [mem_response i m CFG_EC_OK (Some \<lparr>mm_offset = offset, mm_page = page, mm_count = 128,
        mm_data = map (\<lambda>k. module_byte v (dev_cms (cfg_devices s ! i)) m page
                          (if offset + k < 256 then offset + k else offset + k - 128)) [0..<128]\<rparr>)])) \<and>
    GetModuleMem env \<lparr>mmreq_dev_id = int i, mmreq_mod_id = int m,
      mmreq_mem = \<lparr>mm_offset = offset, mm_page = page, mm_count = 128, mm_data = []\<rparr>\<rparr> s =
      Inr (s, [mem_response 0 0 EC_INVALID_MODULE_MEM_COUNT None])"
proof -
  let ?c = "dev_cms (cfg_devices s ! i)" and ?hw = "ce_cms env" and ?l = "ce_cms_layout env"
  have m: "m < 4" using assms(3,4) by simp
  obtain c1 where 1: "check_module_present ?hw ?l m ?c = (CFG_EC_OK, c1)" "calm v ?c c1"
    using present_checked [OF assms(1,5) m assms(6)] by blast
  obtain c2 where "read_module_range ?hw ?l m page offset 128 c1 =
      Some (Some (map (\<lambda>k. module_byte v ?c m page (if offset + k < 256 then offset + k else offset + k - 128)) [0..<128]), c2)"
    using default_range [OF assms(1) calm_idle [OF 1(2)] m assms(7,8), of page] calm_module_byte [OF 1(2)] by auto
  then have "get_module_mem_act env offset page 128 m (put_cms c1 (cfg_devices s ! i)) =
      Inr (CFG_EC_OK, Some \<lparr>mm_offset = offset, mm_page = page, mm_count = 128,
             mm_data = map (\<lambda>k. module_byte v ?c m page (if offset + k < 256 then offset + k else offset + k - 128)) [0..<128]\<rparr>,
           put_cms c2 (cfg_devices s ! i))"
    by (simp add: get_module_mem_act_def put_put_cms del: upt_rec_numeral)
  moreover have "get_mem_count \<lparr>mm_offset = offset, mm_page = page, mm_count = 0, mm_data = []\<rparr> = Inr 128"
    using assms(8,9) by (simp add: get_mem_count_def check_mem_place_def UINT8_MAX_def CMS_MODULE_PAGE_SIZE_def)
  ultimately have read: "\<exists>s'. GetModuleMem env \<lparr>mmreq_dev_id = int i, mmreq_mod_id = int m,
      mmreq_mem = \<lparr>mm_offset = offset, mm_page = page, mm_count = 0, mm_data = []\<rparr>\<rparr> s =
      Inr (s', [mem_response i m CFG_EC_OK (Some \<lparr>mm_offset = offset, mm_page = page, mm_count = 128,
        mm_data = map (\<lambda>k. module_byte v (dev_cms (cfg_devices s ! i)) m page
                          (if offset + k < 256 then offset + k else offset + k - 128)) [0..<128]\<rparr>)])"
    using 1(1) by (simp add: GetModuleMem_def get_module_mem_def mem_request_single [OF assms(2,3)] on_present_module_def Let_def
        del: upt_rec_numeral)
  have "get_mem_count \<lparr>mm_offset = offset, mm_page = page, mm_count = 128, mm_data = []\<rparr> = Inl EC_INVALID_MODULE_MEM_COUNT"
    using assms(7,8,9) by (simp add: get_mem_count_def check_mem_place_def UINT8_MAX_def)
  then have "GetModuleMem env \<lparr>mmreq_dev_id = int i, mmreq_mod_id = int m,
      mmreq_mem = \<lparr>mm_offset = offset, mm_page = page, mm_count = 128, mm_data = []\<rparr>\<rparr> s =
      Inr (s, [mem_response 0 0 EC_INVALID_MODULE_MEM_COUNT None])"
    using assms(2,3) by (simp add: GetModuleMem_def get_module_mem_def module_mem_request_def Let_def)
  with read show ?thesis by blast
qed

theorem module_mem_default_count_wraps_witness:
  "\<exists>s'. GetModuleMem (sample_env_of sim_hw) \<lparr>mmreq_dev_id = 0, mmreq_mod_id = 1,
      mmreq_mem = \<lparr>mm_offset = 250, mm_page = 3, mm_count = 0, mm_data = []\<rparr>\<rparr> sim_agent =
      Inr (s', [mem_response 0 1 CFG_EC_OK (Some \<lparr>mm_offset = 250, mm_page = 3, mm_count = 128,
        mm_data = map of_nat ([250..<256] @ [128..<250])\<rparr>)])"
proof -
  have serves: "cms_serves (ce_cms (sample_env_of sim_hw)) (ce_cms_layout (sample_env_of sim_hw)) sim_view"
    using sim_serves by (simp add: sample_env_of_def)
  have "module_byte sim_view (dev_cms (cfg_devices sim_agent ! 0)) 1 3 k = of_nat k" for k
    by (simp add: module_byte_def sim_view_def sim_agent_def sample_agent_of_def sample_device_of_def)
  then have bytes: "map (\<lambda>k. module_byte sim_view (dev_cms (cfg_devices sim_agent ! 0)) 1 3
      (if 250 + k < 256 then 250 + k else 250 + k - 128)) [0..<128] = map of_nat ([250..<256] @ [128..<250])"
    by (intro nth_equalityI) (auto simp: nth_append simp del: upt_rec_numeral upt_Suc)
  show ?thesis
    using module_mem_default_count_wraps [OF serves, of 0 sim_agent 1 250 3, unfolded bytes of_nat_0 of_nat_1] sim_agent_facts
    by simp
qed

text \<open>
  Property C36.  A request for the status of a single module that is absent is answered \<open>EC_OK\<close>, without a status: the error of
  the check is lost, unlike in the requests for its description and its memory, which answer \<open>EC_MODULE_NOT_PRESENT\<close>.
\<close>
theorem absent_module_status_ok:
  assumes "cms_serves (ce_cms env) (ce_cms_layout env) v"
    and "i < length (cfg_devices s)" and "m < cd_nports (cfg_devices s ! i)" and "cd_nports (cfg_devices s ! i) \<le> 4"
    and "cv_idle v (dev_cms (cfg_devices s ! i))" and "\<not> module_is_present v (dev_cms (cfg_devices s ! i)) m"
    and "offset < 256" and "page < 256"
  shows "(\<exists>s'. GetModuleStatus env \<lparr>mstreq_dev_id = int i, mstreq_mod_id = int m\<rparr> s =
           Inr (s', [status_response CFG_EC_OK i m None])) \<and>
         (\<exists>s'. GetModuleMem env \<lparr>mmreq_dev_id = int i, mmreq_mod_id = int m,
           mmreq_mem = \<lparr>mm_offset = offset, mm_page = page, mm_count = 1, mm_data = []\<rparr>\<rparr> s =
           Inr (s', [mem_response i m EC_MODULE_NOT_PRESENT None]))"
proof -
  have m: "m < 4" using assms(3,4) by simp
  obtain c1 where 1: "check_module_present (ce_cms env) (ce_cms_layout env) m (dev_cms (cfg_devices s ! i)) = (EC_MODULE_NOT_PRESENT, c1)"
    using absent_checked [OF assms(1,5) m assms(6)] by blast
  have status: "\<exists>s'. GetModuleStatus env \<lparr>mstreq_dev_id = int i, mstreq_mod_id = int m\<rparr> s =
           Inr (s', [status_response CFG_EC_OK i m None])"
    using assms(2,3) 1
    by (simp add: GetModuleStatus_def get_module_status_def for_cfg_devices_single for_modules_def for_range_single
        get_module_status_body_def on_present_module_def Let_def)
  have "get_mem_count \<lparr>mm_offset = offset, mm_page = page, mm_count = 1, mm_data = []\<rparr> = Inr 1"
    using assms(7,8) by (simp add: get_mem_count_def check_mem_place_def UINT8_MAX_def)
  then have "\<exists>s'. GetModuleMem env \<lparr>mmreq_dev_id = int i, mmreq_mod_id = int m,
           mmreq_mem = \<lparr>mm_offset = offset, mm_page = page, mm_count = 1, mm_data = []\<rparr>\<rparr> s =
           Inr (s', [mem_response i m EC_MODULE_NOT_PRESENT None])"
    using 1 by (simp add: GetModuleMem_def get_module_mem_def mem_request_single [OF assms(2,3)] on_present_module_def Let_def)
  with status show ?thesis by blast
qed

theorem absent_module_status_ok_witness:
  "\<exists>s'. GetModuleStatus (sample_env_of sim_hw) \<lparr>mstreq_dev_id = 0, mstreq_mod_id = 1\<rparr>
      (sample_agent_of [sample_device_of \<lparr>sim_word = (\<lambda>_. 0), sim_byte = (\<lambda>_ _ x. x), sim_gpio = (\<lambda>_. 0x1f)\<rparr>]) =
      Inr (s', [status_response CFG_EC_OK 0 1 None])"
proof -
  let ?s = "sample_agent_of [sample_device_of \<lparr>sim_word = (\<lambda>_. 0), sim_byte = (\<lambda>_ _ x. x), sim_gpio = (\<lambda>_. 0x1f)\<rparr>]"
  have "cms_serves (ce_cms (sample_env_of sim_hw)) (ce_cms_layout (sample_env_of sim_hw)) sim_view"
    using sim_serves by (simp add: sample_env_of_def)
  from absent_module_status_ok [OF this, of 0 ?s 1 0 0] show ?thesis
    by (simp add: sample_agent_of_def sample_device_of_def sim_view_def module_is_present_def)
qed

end
