(* ===== verification/Opennic_Sff.thy ===== *)
theory Opennic_Sff
  imports Opennic_Cms_Module
begin

text \<open>
  The memory of a QSFP module and the names of its codes: \<^verbatim>\<open>libopennic/src/sff-8024.c\<close>,
  \<^verbatim>\<open>sff-8636.c\<close>, \<^verbatim>\<open>sff-8089.c\<close> and the pages of \<^verbatim>\<open>libopennic/include/sff-8636-*.h\<close>.  A text is the sequence of its bytes.
\<close>

subsection \<open>Names of codes\<close>

text \<open>A switch over a code: the cases, then the ranges of cases, else the text it starts with.\<close>

definition table_to_str :: "(nat \<times> string) list \<Rightarrow> (nat \<times> nat \<times> string) list \<Rightarrow> 8 word \<Rightarrow> string" where
  "table_to_str cases ranges v =
     (case map_of cases (unat v) of Some text \<Rightarrow> text
      | None \<Rightarrow> (case find (\<lambda>(a, b, _). a \<le> unat v \<and> unat v \<le> b) ranges of Some (_, _, text) \<Rightarrow> text
                 | None \<Rightarrow> ''UNKNOWN''))"

definition sff_8024_identifier_to_str :: "8 word \<Rightarrow> string" where
  "sff_8024_identifier_to_str = table_to_str
     [(0, ''Unknown or unspecified''),
      (1, ''GBIC''),
      (2, ''Module/connector soldered to motherboard (using SFF-8472)''),
      (3, ''SFP/SFP+/SFP28 and later with SFF-8472 management interface''),
      (4, ''300 pin XBI''),
      (5, ''XENPAK''),
      (6, ''XFP''),
      (7, ''XFF''),
      (8, ''XFP-E''),
      (9, ''XPAK''),
      (10, ''X2''),
      (11, ''DWDM-SFP/SFP+ (not using SFF-8472)''),
      (12, ''QSFP (INF-8438)''),
      (13, ''QSFP+ or later with SFF-8636 or SFF-8436 management interface''),
      (14, ''CXP or later''),
      (15, ''Shielded Mini Multilane HD 4X''),
      (16, ''Shielded Mini Multilane HD 8X''),
      (17, ''QSFP28 or later with SFF-8636 management interface''),
      (18, ''CXP2 (aka CXP28) or later''),
      (19, ''CDFP (Style 1/Style2)''),
      (20, ''Shielded Mini Multilane HD 4X Fanout Cable''),
      (21, ''Shielded Mini Multilane HD 8X Fanout Cable''),
      (22, ''CDFP (Style 3)''),
      (23, ''microQSFP''),
      (24, ''QSFP-DD Double Density 8X Pluggable Transceiver (INF-8628)''),
      (25, ''OSFP 8X Pluggable Transceiver''),
      (26, ''SFP-DD Double Density 2X Pluggable Transceiver with SFP-DD Management Interface Specification''),
      (27, ''DSFP Dual Small Form Factor Pluggable Transceiver''),
      (28, ''x4 MiniLink/OcuLink''),
      (29, ''x8 MiniLink''),
      (30, ''QSFP+ or later with Common Management Interface Specification (CMIS)''),
      (31, ''SFP-DD Double Density 2X Pluggable Transceiver with Common Management Interface Specification (CMIS)''),
      (32, ''SFP+ and later with Common Management Interface Specification (CMIS)''),
      (33, ''OSFP-XD with Common Management Interface Specification (CMIS)''),
      (34, ''OIF-ELSFP with Common Management Interface Specification (CMIS)''),
      (35, ''CDFP (x4 PCIe) SFF-TA-1032 with Common Management Interface Specification (CMIS)''),
      (36, ''CDFP (x8 PCIe) SFF-TA-1032 with Common Management Interface Specification (CMIS)''),
      (37, ''CDFP (x16 PCIe) SFF-TA-1032 with Common Management Interface Specification (CMIS)'')]
     [(0x80, 0xff, ''VENDOR''), (0x26, 0x7f, ''RESERVED'')]"

definition sff_8024_extended_compliance_to_str :: "8 word \<Rightarrow> string" where
  "sff_8024_extended_compliance_to_str = table_to_str
     [(0, ''Unspecified''),
      (1, (''100G AOC (Active Optical Cable), retimed or 25GAUI C2M AOC. Providing a worst BER of 5 '' @ [CHR 0xC3, CHR 0x97] @ '' 10-5'')),
      (2, ''100GBASE-SR4 or 25GBASE-SR''),
      (3, ''100GBASE-LR4 or 25GBASE-LR''),
      (4, ''100GBASE-ER4 or 25GBASE-ER''),
      (5, ''100GBASE-SR10''),
      (6, ''100G CWDM4''),
      (7, ''100G PSM4 Parallel SMF''),
      (8, (''100G ACC (Active Copper Cable), retimed or 25GAUI C2M ACC. Providing a worst BER of 5 '' @ [CHR 0xC3, CHR 0x97] @ '' 10-5'')),
      (9, ''Obsolete (assigned before 100G CWDM4 MSA required FEC)''),
      (11, ''100GBASE-CR4, 25GBASE-CR CA-25G-L or 50GBASE-CR2 with RS (Clause91) FEC''),
      (12, ''25GBASE-CR CA-25G-S or 50GBASE-CR2 with BASE-R (Clause 74 Fire code) FEC''),
      (13, ''25GBASE-CR CA-25G-N or 50GBASE-CR2 with no FEC''),
      (14, ''10 Mb/s Single Pair Ethernet (802.3cg, Clause 146/147, 1000 m copper)''),
      (16, ''40GBASE-ER4''),
      (17, ''4 x 10GBASE-SR''),
      (18, ''40G PSM4 Parallel SMF''),
      (19, ''G959.1 profile P1I1-2D1 (10709 MBd, 2km, 1310 nm SM)''),
      (20, ''G959.1 profile P1S1-2D2 (10709 MBd, 40km, 1550 nm SM)''),
      (21, ''G959.1 profile P1L1-2D2 (10709 MBd, 80km, 1550 nm SM)''),
      (22, ''10GBASE-T with SFI electrical interfac''),
      (23, ''100G CLR4''),
      (24, ''100G AOC, retimed or 25GAUI C2M AOC. Providing a worst BER of 10-12 or below''),
      (25, ''100G ACC, retimed or 25GAUI C2M ACC. Providing a worst BER of 10-12 or below''),
      (26, ''100GE-DWDM2 (DWDM transceiver using 2 wavelengths on a 1550 nm DWDM grid with a reach up to 80 km)''),
      (27, ''100G 1550nm WDM (4 wavelengths)''),
      (28, ''10GBASE-T Short Reach (30 meters)''),
      (29, ''5GBASE-T''),
      (30, ''2.5GBASE-T''),
      (31, ''40G SWDM4''),
      (32, ''100G SWDM4''),
      (33, ''100G PAM4 BiDi''),
      (34, ''4WDM-10 MSA (10km version of 100G CWDM4 with same RS(528,514) FEC in host system)''),
      (35, ''4WDM-20 MSA (20km version of 100GBASE-LR4 with RS(528,514) FEC in host system)''),
      (36, ''4WDM-40 MSA (40km reach with APD receiver and RS(528,514) FEC in host system)''),
      (37, ''100GBASE-DR (Clause 140), CAUI-4 (no FEC)''),
      (38, ''100G-FR or 100GBASE-FR1 (Clause 140), CAUI-4 (no FEC on host interface)''),
      (39, ''100G-LR or 100GBASE-LR1 (Clause 140), CAUI-4 (no FEC on host interface)''),
      (40, ''100GBASE-SR1 (802.3, Clause 167), CAUI-4 (no FEC on host interface)''),
      (41, ''100GBASE-SR1, 200GBASE-SR2 or 400GBASE-SR4 (802.3, Clause 167)''),
      (42, ''100GBASE-FR1 (802.3, Clause 140) or 400GBASE-DR4-2 (P802.3df, Clause 124)''),
      (43, ''100GBASE-LR1 (802.3, Clause 140)''),
      (44, ''100G-LR1-20 MSA, CAUI-4 (no FEC on host interface)''),
      (45, ''100G-ER1-30 MSA, CAUI-4 (no FEC on host interface)''),
      (46, ''100G-ER1-40 MSA, CAUI-4 (no FEC on host interface)''),
      (47, ''100G-LR1-20 MSA''),
      (48, ''Active Copper Cable with 50GAUI, 100GAUI-2 or 200GAUI-4 C2M. Providing a worst BER of 10-6 or below''),
      (49, ''Active Optical Cable with 50GAUI, 100GAUI-2 or 200GAUI-4 C2M. Providing a worst BER of 10-6 or below''),
      (50, ''Active Copper Cable with 50GAUI, 100GAUI-2 or 200GAUI-4 C2M. Providing a worst BER of 2.6x10-4 for ACC, 10-5 for AUI, or below''),
      (51, ''Active Optical Cable with 50GAUI, 100GAUI-2 or 200GAUI-4 C2M. Providing a worst BER of 2.6x10-4 for AOC, 10-5 for AUI, or below''),
      (52, ''100G-ER1-30 MSA''),
      (53, ''100G-ER1-40 MSA''),
      (54, ''100GBASE-VR1, 200GBASE-VR2 or 400GBASE-VR4 (802.3, Clause 167)''),
      (55, ''10GBASE-BR (Clause 158)''),
      (56, ''25GBASE-BR (Clause 159)''),
      (57, ''50GBASE-BR (Clause 160)''),
      (58, ''100GBASE-VR1 (802.3, Clause 167), CAUI-4 (no FEC on host interface)''),
      (63, ''100GBASE-CR1, 200GBASE-CR2 or 400GBASE-CR4 (P802.3ck, Clause 162)''),
      (64, ''50GBASE-CR, 100GBASE-CR2, or 200GBASE-CR4''),
      (65, ''50GBASE-SR, 100GBASE-SR2, or 200GBASE-SR4''),
      (66, ''50GBASE-FR or 200GBASE-DR4''),
      (67, ''200GBASE-FR4''),
      (68, ''200G 1550 nm PSM4''),
      (69, ''50GBASE-LR''),
      (70, ''200GBASE-LR4''),
      (71, ''400GBASE-DR4 (802.3, Clause 124), 400GAUI-4 C2M (Annex 120G)''),
      (72, ''400GBASE-FR4 (802.3, Clause 151)''),
      (73, ''400GBASE-LR4-6 (802.3, Clause 151)''),
      (74, ''50GBASE-ER (IEEE 802.3, Clause 139)''),
      (75, ''400G-LR4-10''),
      (76, ''400GBASE-ZR (P802.3cw, Clause 156)''),
      (127, ''256GFC-SW4 (FC-PI-7P)''),
      (128, ''64GFC (FC-PI-7)''),
      (129, ''128GFC (FC-PI-8)'')]
     [(0x0a, 0x0a, ''RESERVED''), (0x0f, 0x0f, ''RESERVED''), (0x3b, 0x3e, ''RESERVED''), (0x4d, 0x7e, ''RESERVED''), (0x82, 0xff, ''RESERVED'')]"

definition sff_8024_connector_type_to_str :: "8 word \<Rightarrow> string" where
  "sff_8024_connector_type_to_str = table_to_str
     [(0, ''Unspecified''),
      (1, ''SC (Subscriber Connector)''),
      (2, ''Fibre Channel Style 1 copper connector''),
      (3, ''Fibre Channel Style 2 copper connector''),
      (4, ''BNC/TNC (Bayonet/Threaded Neill-Concelman)''),
      (5, ''Fibre Channel coax headers''),
      (6, ''Fiber Jack''),
      (7, ''LC (Lucent Connector)''),
      (8, (''MT-RJ (Mechanical Transfer '' @ [CHR 0xE2, CHR 0x80, CHR 0x93] @ '' Registered Jack)'')),
      (9, ''MU (Multiple Optical)''),
      (10, ''SG''),
      (11, ''Optical Pigtail''),
      (12, ''MPO 1x12 (Multifiber Parallel Optic)''),
      (13, ''MPO 2x16 (Multifiber Parallel Optic)''),
      (32, ''HSSDC II (High Speed Serial Data Connector)''),
      (33, ''Copper pigtail''),
      (34, ''RJ45 (Registered Jack)''),
      (35, ''No separable connector''),
      (36, ''MXC 2x16''),
      (37, ''CS optical connector''),
      (38, ''SN (previously Mini CS) optical connector''),
      (39, ''MPO 2x12 (Multifiber Parallel Optic)''),
      (40, ''MPO 1x16 (Multifiber Parallel Optic)'')]
     [(0x80, 0xff, ''VENDOR''), (0x0e, 0x1f, ''RESERVED''), (0x29, 0x7f, ''RESERVED'')]"

definition sff_8024_encoding_to_str :: "8 word \<Rightarrow> string" where
  "sff_8024_encoding_to_str = table_to_str
     [(0, ''Unspecified''),
      (1, ''8B/10B''),
      (2, ''4B/5B''),
      (3, ''NRZ''),
      (4, ''SONET Scrambled''),
      (5, ''64B/66B''),
      (6, ''Manchester''),
      (7, ''256B/257B (transcoded FEC-enabled data)''),
      (8, ''PAM4'')]
     [(0x09, 0xff, ''RESERVED'')]"

definition sff_8024_xcvr_sub_type_to_str :: "8 word \<Rightarrow> string" where
  "sff_8024_xcvr_sub_type_to_str = table_to_str
     [(0, ''Unspecified''),
      (1, ''Type 1''),
      (2, ''Type 2''),
      (3, ''Type 2A''),
      (4, ''Type 2B'')]
     [(0x05, 0xff, ''RESERVED'')]"

definition sff_8024_xcvr_fiber_face_type_to_str :: "8 word \<Rightarrow> string" where
  "sff_8024_xcvr_fiber_face_type_to_str = table_to_str
     [(0, ''Unspecified''),
      (1, ''Physical/Ultra Physical Contact''),
      (2, ''Angled Physical Contact'')]
     []"

text \<open>The categories of \<^verbatim>\<open>sff-8089.c\<close> have no texts yet.\<close>

definition sff_8089_application_category_to_str :: "8 word \<Rightarrow> string" where
  "sff_8089_application_category_to_str = table_to_str
     [(0, []), (1, []), (2, []), (3, []), (4, []), (5, []), (6, [])]
     [(7, 20, ''RESERVED'')]"

definition sff_8636_compliance_revision_to_str :: "8 word \<Rightarrow> string" where
  "sff_8636_compliance_revision_to_str = table_to_str
     [(0, ''Revision not specified''),
      (1, ''SFF-8436 Rev 4.8 or earlier''),
      (2, ''Includes functionality described in revision 4.8 or earlier of SFF-8436''),
      (3, ''SFF-8636 Rev 1.3 or earlier''),
      (4, ''SFF-8636 Rev 1.4''),
      (5, ''SFF-8636 Rev 1.5''),
      (6, ''SFF-8636 Rev 2.0''),
      (7, ''SFF-8636 Rev 2.5, 2.6 and 2.7''),
      (8, ''SFF-8636 Rev 2.8, 2.9 and 2.10'')]
     [(0x09, 0xff, ''RESERVED'')]"

definition sff_8636_tx_technology_to_str :: "8 word \<Rightarrow> string" where
  "sff_8636_tx_technology_to_str = table_to_str
     [(0, ''850 nm VCSEL''),
      (1, ''1310 nm VCSEL''),
      (2, ''1550 nm VCSEL''),
      (3, ''1310 nm FP''),
      (4, ''1310 nm DFB''),
      (5, ''1550 nm DFB''),
      (6, ''1310 nm EML''),
      (7, ''1550 nm EML''),
      (8, ''Other / Undefined''),
      (9, ''1490 nm DFB''),
      (10, ''Copper cable unequalized''),
      (11, ''Copper cable passive equalized''),
      (12, ''Copper cable, near and far end limiting active equalizers''),
      (13, ''Copper cable, far end limiting active equalizers''),
      (14, ''Copper cable, near end limiting active equalizers''),
      (15, ''Copper cable, linear active equalizers'')]
     []"

definition sff_8636_param_type_to_str :: "8 word \<Rightarrow> string" where
  "sff_8636_param_type_to_str = table_to_str
     [(0, ''Parameter not supported''),
      (1, ''SNR, line ingress''),
      (2, ''Residual ISI/Dispersion, line ingress''),
      (3, ''PAM4 Level Transition Parameter, line ingress''),
      (4, ''Pre-FEC BER, average, line ingress''),
      (5, ''FER, average, line ingress''),
      (6, ''TEC Current''),
      (7, ''Laser Frequency''),
      (8, ''Laser Temperature''),
      (9, ''Pre-FEC BER, latched minimum value since last read, line ingress''),
      (10, ''Pre-FEC BER, latched maximum value since last read, line ingress''),
      (11, ''Pre-FEC BER, prior period, line ingress''),
      (12, ''Pre-FEC BER, current, line ingress''),
      (13, ''FER, latched minimum value since last read, line ingress''),
      (14, ''FER, latched maximum value since last read, line ingress''),
      (15, ''FER, prior period, line ingress''),
      (16, ''FER, current, line ingress'')]
     [(0x11, 0xbf, ''RESERVED''), (0xc0, 0xff, ''VENDOR'')]"

definition sff_8636_lane_mapping_to_str :: "8 word \<Rightarrow> string" where
  "sff_8636_lane_mapping_to_str = table_to_str
     [(0, ''Not determined or not supported''),
      (1, ''Optical Lane 1, LSB''),
      (2, ''Optical Lane 1, MSB''),
      (3, ''Optical Lane 2, LSB''),
      (4, ''Optical Lane 2, MSB''),
      (5, ''Optical Lane 1''),
      (6, ''Optical Lane 2'')]
     [(0x07, 0x0c, ''RESERVED''), (0x0d, 0x0f, ''VENDOR'')]"

definition sff_8636_state_duration_to_str :: "8 word \<Rightarrow> string" where
  "sff_8636_state_duration_to_str = table_to_str
     [(0, ''Maximum state duration is less than 1 ms''),
      (1, ''1 ms <= maximum state duration < 5 ms''),
      (2, ''5 ms <= maximum state duration < 10 ms''),
      (3, ''10 ms <= maximum state duration < 50 ms''),
      (4, ''50 ms <= maximum state duration < 100 ms''),
      (5, ''100 ms <= maximum state duration < 500 ms''),
      (6, ''500 ms <= maximum state duration < 1 s''),
      (7, ''1 s <= maximum state duration < 5 s''),
      (8, ''5 s <= maximum state duration < 10 s''),
      (9, ''10 s <= maximum state duration < 1 min''),
      (10, ''1 min <= maximum state duration < 5 min''),
      (11, ''5 min <= maximum state duration < 10 min''),
      (12, ''10 min <= maximum state duration < 50 min''),
      (13, ''Maximum state duration >= 50 min'')]
     [(0x0e, 0x0f, ''RESERVED'')]"

definition sff_8636_module_type_to_str :: "8 word \<Rightarrow> string" where
  "sff_8636_module_type_to_str = table_to_str
     [(0, ''Undefined''),
      (1, ''Optical Interfaces: MMF''),
      (2, ''Optical Interfaces: SMF''),
      (3, ''Passive Copper''),
      (4, ''Active Cable''),
      (5, ''Base-T'')]
     [(0x40, 0x8f, ''CUSTOM''), (0x06, 0x3f, ''RESERVED''), (0x90, 0xff, ''RESERVED'')]"

subsection \<open>Pages\<close>

text \<open>
  A page is its 128 bytes; the places of its fields are those of the packed structures, an
  upper page being at the places 128 to 255 of the memory.
\<close>

type_synonym sff_8636_page = "8 word list"

definition lower_byte :: "sff_8636_page \<Rightarrow> nat \<Rightarrow> 8 word" where
  "lower_byte page place = page ! place"

definition upper_byte :: "sff_8636_page \<Rightarrow> nat \<Rightarrow> 8 word" where
  "upper_byte page place = page ! (place - CMS_MODULE_PAGE_SIZE)"

definition upper_bytes :: "sff_8636_page \<Rightarrow> nat \<Rightarrow> nat \<Rightarrow> 8 word list" where
  "upper_bytes page place n = take n (drop (place - CMS_MODULE_PAGE_SIZE) page)"

definition upper_chars :: "sff_8636_page \<Rightarrow> nat \<Rightarrow> nat \<Rightarrow> string" where
  "upper_chars page place n = map (\<lambda>b. char_of (unat b)) (upper_bytes page place n)"

definition lo_revision_compliance :: "sff_8636_page \<Rightarrow> 8 word" where
  "lo_revision_compliance lo = lower_byte lo 1"

definition lo_flat_mem :: "sff_8636_page \<Rightarrow> bool" where
  "lo_flat_mem lo = bit (lower_byte lo 2) 2"

text \<open>\<open>sff_8636_upper_page_00_extended_identifier\<close>, at 129.\<close>

record sff_8636_upper_page_00_extended_identifier =
  power_class_hi :: nat
  rx_cdr :: bool
  tx_cdr :: bool
  clei_present :: bool
  power_class_8 :: bool
  power_class_lo :: nat

definition extended_identifier :: "sff_8636_page \<Rightarrow> sff_8636_upper_page_00_extended_identifier" where
  "extended_identifier u00 =
     (let b = upper_byte u00 129 in
      \<lparr>power_class_hi = unat (take_bit 2 b), rx_cdr = bit b 2, tx_cdr = bit b 3, clei_present = bit b 4,
       power_class_8 = bit b 5, power_class_lo = unat (take_bit 2 (drop_bit 6 b))\<rparr>)"

text \<open>\<open>sff_8636_upper_page_00_options_device\<close>, at 195.\<close>

definition options_page_01 :: "sff_8636_page \<Rightarrow> bool" where "options_page_01 u00 = bit (upper_byte u00 195) 6"

definition options_page_02 :: "sff_8636_page \<Rightarrow> bool" where "options_page_02 u00 = bit (upper_byte u00 195) 7"

definition options_pages_20_21 :: "sff_8636_page \<Rightarrow> bool" where "options_pages_20_21 u00 = bit (upper_byte u00 195) 0"

text \<open>\<open>sff_8636_upper_page_00_compliance\<close>, at 131 to 138; the fibre link is a little-endian word.\<close>

definition comp_ethernet :: "sff_8636_page \<Rightarrow> nat \<Rightarrow> bool" where "comp_ethernet u00 n = bit (upper_byte u00 131) n"

definition comp_sonet :: "sff_8636_page \<Rightarrow> nat \<Rightarrow> bool" where "comp_sonet u00 n = bit (upper_byte u00 132) n"

definition comp_sas :: "sff_8636_page \<Rightarrow> nat \<Rightarrow> bool" where "comp_sas u00 n = bit (upper_byte u00 133) n"

definition comp_gigabit_ethernet :: "sff_8636_page \<Rightarrow> nat \<Rightarrow> bool" where
  "comp_gigabit_ethernet u00 n = bit (upper_byte u00 134) n"

definition comp_fibre_link :: "sff_8636_page \<Rightarrow> nat \<Rightarrow> bool" where
  "comp_fibre_link u00 n = (if n < 8 then bit (upper_byte u00 135) n else bit (upper_byte u00 136) (n - 8))"

definition comp_fibre_media :: "sff_8636_page \<Rightarrow> nat \<Rightarrow> bool" where "comp_fibre_media u00 n = bit (upper_byte u00 137) n"

definition comp_fibre_speed :: "sff_8636_page \<Rightarrow> nat \<Rightarrow> bool" where "comp_fibre_speed u00 n = bit (upper_byte u00 138) n"

end
