(* ===== verification/Cfg_Module_Info.thy ===== *)
theory Cfg_Module_Info
  imports Cfg_Module Opennic_Sff
begin

text \<open>
  The description of a module (\<^verbatim>\<open>sn-cfg/src/agent/module.cpp\<close>, lines 21 to 93 and 340 to 735):
  its vendor and its properties, decoded from the pages of its memory.
\<close>

subsection \<open>Pages\<close>

record ModulePages =
  pg_lower :: sff_8636_page
  pg_upper_00 :: sff_8636_page
  pg_upper_02 :: "sff_8636_page option"

text \<open>\<open>None\<close> is a page that could not be read.\<close>

definition read_ModulePages :: "'c cms_hw \<Rightarrow> cms_layout \<Rightarrow> nat \<Rightarrow> 'c \<Rightarrow> ModulePages option \<times> 'c" where
  "read_ModulePages hw l mod_id c =
     (case cms_module_page_read hw l (mem_module_id mod_id 0 False) c of
        (None, c1) \<Rightarrow> (None, c1)
      | (Some lo, c1) \<Rightarrow>
        (case cms_module_page_read hw l (mem_module_id mod_id 0 True) c1 of
           (None, c2) \<Rightarrow> (None, c2)
         | (Some u00, c2) \<Rightarrow>
           (if \<not> lo_flat_mem lo \<and> options_page_02 u00
            then (case cms_module_page_read hw l (mem_module_id mod_id 2 True) c2 of
                    (None, c3) \<Rightarrow> (None, c3)
                  | (Some u02, c3) \<Rightarrow> (Some \<lparr>pg_lower = lo, pg_upper_00 = u00, pg_upper_02 = Some u02\<rparr>, c3))
            else (Some \<lparr>pg_lower = lo, pg_upper_00 = u00, pg_upper_02 = None\<rparr>, c2))))"

subsection \<open>Vendor\<close>

record ModuleInfoVendorDate =
  vd_year :: string
  vd_month :: string
  vd_day :: string
  vd_vendor :: string

record ModuleInfoVendor =
  vn_name :: string
  vn_oui :: string
  vn_revision :: string
  vn_part_number :: string
  vn_serial_number :: string
  vn_clei :: string
  vn_date :: ModuleInfoVendorDate

text \<open>\<open>isprint\<close> without \<open>isblank\<close> in the C locale.\<close>

definition is_visible :: "char \<Rightarrow> bool" where
  "is_visible c \<longleftrightarrow> (let n = of_char c :: nat in 32 < n \<and> n < 127)"

fun count_printable_below :: "string \<Rightarrow> nat \<Rightarrow> nat" where
  "count_printable_below s 0 = 0"
| "count_printable_below s (Suc n) = (if is_visible (s ! n) then Suc n else count_printable_below s n)"

definition count_printable :: "string \<Rightarrow> nat" where
  "count_printable s = count_printable_below s (length s)"

definition printable_or_unspecified :: "string \<Rightarrow> string" where
  "printable_or_unspecified s = (let n = count_printable s in if n > 0 then take n s else ''unspecified'')"

definition vendor_oui_str :: "8 word list \<Rightarrow> string" where
  "vendor_oui_str bytes = (if list_all (\<lambda>b. b = 0) bytes then ''unspecified'' else colon_join (map hex2 bytes))"

definition add_module_info_vendor :: "ModulePages \<Rightarrow> ModuleInfoVendor" where
  "add_module_info_vendor pages =
     (let u00 = pg_upper_00 pages in
      \<lparr>vn_name = printable_or_unspecified (upper_chars u00 148 16),
       vn_oui = vendor_oui_str (upper_bytes u00 165 3),
       vn_revision = printable_or_unspecified (upper_chars u00 184 2),
       vn_part_number = printable_or_unspecified (upper_chars u00 168 16),
       vn_serial_number = printable_or_unspecified (upper_chars u00 196 16),
       vn_clei = (case pg_upper_02 pages of
                    Some u02 \<Rightarrow> if clei_present (extended_identifier u00) then upper_chars u02 128 10 else ''unspecified''
                  | None \<Rightarrow> ''unspecified''),
       vn_date = \<lparr>vd_year = upper_chars u00 212 2, vd_month = upper_chars u00 214 2, vd_day = upper_chars u00 216 2,
                  vd_vendor = printable_or_unspecified (upper_chars u00 218 2)\<rparr>\<rparr>)"

subsection \<open>Device\<close>

record ModuleInfoSpecComplianceFibre =
  fib_length :: "string list"
  fib_tx_technology :: "string list"
  fib_media :: "string list"
  fib_speed :: "string list"

record ModuleInfoSpecCompliance =
  sc_ethernet :: "string list"
  sc_sonet :: "string list"
  sc_sas :: "string list"
  sc_gigabit_ethernet :: "string list"
  sc_fibre :: ModuleInfoSpecComplianceFibre

record ModuleInfoDeviceIdentifier =
  di_identifier :: string
  di_revision_compliance :: string
  di_optional_upper_pages :: "8 word list"
  di_power_class :: nat
  di_rx_cdr :: bool
  di_tx_cdr :: bool
  di_connector_type :: string
  di_encoding :: string
  di_baud_rate :: nat
  di_spec_compliance :: ModuleInfoSpecCompliance

record ModuleInfo =
  mi_vendor :: ModuleInfoVendor
  mi_device :: ModuleInfoDeviceIdentifier

text \<open>The names of the bits that are set.\<close>

definition names_of :: "(nat \<Rightarrow> bool) \<Rightarrow> (nat \<times> string) list \<Rightarrow> string list" where
  "names_of has table = map snd (filter (\<lambda>(n, _). has n) table)"

definition fibre_compliance :: "sff_8636_page \<Rightarrow> ModuleInfoSpecComplianceFibre" where
  "fibre_compliance u00 =
     \<lparr>fib_length = names_of (comp_fibre_link u00)
        [(3, ''Medium (M)''), (4, ''Long distance (L)''), (5, ''Intermediate distance (I)''), (6, ''Short distance (S)''),
         (7, ''Very long distance (V)'')],
      fib_tx_technology = names_of (comp_fibre_link u00)
        [(0, ''Electrical inter-enclosure (EL)''), (15, ''Electrical intra-enclosure''), (1, ''Longwave laser (LC)''),
         (12, ''Longwave Laser (LL)''), (13, ''Shortwave laser w OFC (SL)''), (14, ''Shortwave laser w/o OFC (SN)'')],
      fib_media = names_of (comp_fibre_media u00)
        [(0, ''Single Mode (SM)''), (1, ''Multi-mode 50 um (OM3)''), (2, ''Multi-mode 50 um (M5)''),
         (3, ''Multi-mode 62.5 um (M6)''), (4, ''Video Coax (TV)''), (5, ''Miniature Coax (MI)''),
         (6, ''Shielded Twisted Pair (TP)''), (7, ''Twin Axial Pair (TW)'')],
      fib_speed = names_of (comp_fibre_speed u00)
        [(0, ''100 MBps''), (2, ''200 MBps''), (3, ''3200 MBps (per channel)''), (4, ''400 MBps''),
         (5, ''1600 MBps (per channel)''), (6, ''800 MBps''), (7, ''1200 MBps (per channel)''),
         (1, sff_8024_extended_compliance_to_str (upper_byte u00 192))]\<rparr>"

definition spec_compliance :: "sff_8636_page \<Rightarrow> ModuleInfoSpecCompliance" where
  "spec_compliance u00 =
     \<lparr>sc_ethernet = names_of (comp_ethernet u00)
        [(0, ''40G Active Cable (XLPPI)''), (1, ''40GBASE-LR4''), (2, ''40GBASE-SR4''), (3, ''40GBASE-CR4''),
         (4, ''10GBASE-SR''), (5, ''10GBASE-LR''), (6, ''10GBASE-LRM''),
         (7, sff_8024_extended_compliance_to_str (upper_byte u00 192))],
      sc_sonet = names_of (comp_sonet u00)
        [(0, ''OC 48 short reach''), (1, ''OC 48, intermediate reach''), (2, ''OC 48, long reach'')],
      sc_sas = names_of (comp_sas u00)
        [(4, ''SAS 3.0 Gbps''), (5, ''SAS 6.0 Gbps''), (6, ''SAS 12.0 Gbps''), (7, ''SAS 24.0 Gbps'')],
      sc_gigabit_ethernet = names_of (comp_gigabit_ethernet u00)
        [(0, ''1000BASE-SX''), (1, ''1000BASE-LX''), (2, ''1000BASE-CX''), (3, ''1000BASE-T'')],
      sc_fibre = fibre_compliance u00\<rparr>"

definition optional_upper_pages :: "sff_8636_page \<Rightarrow> sff_8636_page \<Rightarrow> 8 word list" where
  "optional_upper_pages lo u00 =
     (if lo_flat_mem lo then []
      else (if options_page_01 u00 then [1] else []) @ (if options_page_02 u00 then [2] else []) @ [3] @
           (if options_pages_20_21 u00 then [0x20, 0x21] else []))"

definition power_class :: "sff_8636_upper_page_00_extended_identifier \<Rightarrow> nat" where
  "power_class e =
     (if power_class_8 e then 8 else if power_class_hi e = 0 then power_class_lo e + 1 else power_class_hi e + 4)"

definition baud_rate_of :: "sff_8636_page \<Rightarrow> nat" where
  "baud_rate_of u00 =
     (let baud_rate = unat (upper_byte u00 140) in
      if baud_rate = 0xff then unat (upper_byte u00 222) * 250 else baud_rate * 100)"

definition add_module_info_device :: "ModulePages \<Rightarrow> ModuleInfoDeviceIdentifier" where
  "add_module_info_device pages =
     (let lo = pg_lower pages; u00 = pg_upper_00 pages; e = extended_identifier u00 in
      \<lparr>di_identifier = sff_8024_identifier_to_str (upper_byte u00 128),
       di_revision_compliance = sff_8636_compliance_revision_to_str (lo_revision_compliance lo),
       di_optional_upper_pages = optional_upper_pages lo u00,
       di_power_class = power_class e, di_rx_cdr = rx_cdr e, di_tx_cdr = tx_cdr e,
       di_connector_type = sff_8024_connector_type_to_str (upper_byte u00 130),
       di_encoding = sff_8024_encoding_to_str (upper_byte u00 139),
       di_baud_rate = baud_rate_of u00, di_spec_compliance = spec_compliance u00\<rparr>)"

subsection \<open>The request\<close>

record ModuleInfoRequest =
  mireq_dev_id :: int
  mireq_mod_id :: int

record ModuleInfoResponse =
  miresp_error_code :: CfgErrorCode
  miresp_dev_id :: nat
  miresp_mod_id :: nat
  miresp_info :: "ModuleInfo option"

definition info_response :: "nat \<Rightarrow> nat \<Rightarrow> CfgErrorCode \<Rightarrow> ModuleInfo option \<Rightarrow> ModuleInfoResponse" where
  "info_response dev_id mod_id err info =
     \<lparr>miresp_error_code = err, miresp_dev_id = dev_id, miresp_mod_id = mod_id, miresp_info = info\<rparr>"

definition get_module_info_body :: "'x cfg_env \<Rightarrow> bool \<Rightarrow> nat \<Rightarrow> nat \<Rightarrow> ('x CfgDevice, ModuleInfoResponse) rpc" where
  "get_module_info_body env is_range dev_id mod_id =
     on_present_module env is_range (info_response dev_id mod_id)
       (\<lambda>dev. case read_ModulePages (ce_cms env) (ce_cms_layout env) mod_id (dev_cms dev) of
          (None, c) \<Rightarrow> Inr (EC_MODULE_PAGE_READ_FAILED, None, put_cms c dev)
        | (Some pages, c) \<Rightarrow>
            Inr (CFG_EC_OK, Some \<lparr>mi_vendor = add_module_info_vendor pages, mi_device = add_module_info_device pages\<rparr>,
                 put_cms c dev)) mod_id"

definition get_module_info ::
  "'x cfg_env \<Rightarrow> ModuleInfoRequest \<Rightarrow> ('x SmartnicConfigImpl, ModuleInfoResponse) rpc" where
  "get_module_info env req =
     for_cfg_devices (mireq_dev_id req) (info_response 0 0 CFG_EC_INVALID_DEVICE_ID None)
       (for_modules (mireq_mod_id req) (\<lambda>dev_id. info_response dev_id 0 EC_INVALID_MODULE_ID None)
          (get_module_info_body env (mireq_mod_id req < 0)))"

definition GetModuleInfo ::
  "'x cfg_env \<Rightarrow> ModuleInfoRequest \<Rightarrow> ('x SmartnicConfigImpl, ModuleInfoResponse) rpc" where
  "GetModuleInfo env req = get_module_info env req"

text \<open>What is shown of a text is all of it up to its last visible character.\<close>

lemma count_printable_below_le: "count_printable_below s n \<le> n"
  by (induction n) (auto intro: le_SucI)

lemma count_printable_below_spec:
  "k < count_printable_below s n \<Longrightarrow> \<exists>j < n. k \<le> j \<and> is_visible (s ! j)"
  "count_printable_below s n \<le> k \<Longrightarrow> k < n \<Longrightarrow> \<not> is_visible (s ! k)"
  by (induction n) (auto simp: less_Suc_eq split: if_splits)

lemma printable_prefix:
  "k < length s \<Longrightarrow> count_printable s \<le> k \<longleftrightarrow> (\<forall>j < length s. k \<le> j \<longrightarrow> \<not> is_visible (s ! j))"
  using count_printable_below_spec(1) [of k s "length s"] count_printable_below_spec(2) [of s "length s"]
  unfolding count_printable_def by (metis leI le_trans)

end
