(* ===== verification/Cfg_Device.thy ===== *)
theory Cfg_Device
  imports Cfg_Types P4_Device
begin

text \<open>
  \<^verbatim>\<open>sn-cfg/src/agent/device.cpp\<close>: the monitors of a card, its description and its status.
\<close>

definition cfg_device_stats_domain_name :: "DeviceStatsDomain \<Rightarrow> string" where
  "cfg_device_stats_domain_name d =
     (case d of COUNTERS \<Rightarrow> ''counters_stats'' | MONITORS \<Rightarrow> ''monitors_stats'' | MODULES \<Rightarrow> ''modules_stats'')"

subsection \<open>Monitors of a device\<close>

definition sysmon_block_of :: "nat \<Rightarrow> 'x esnet_smartnic_bar2 \<Rightarrow> sysmon_block" where
  "sysmon_block_of n h = (if n = 0 then sysmon0 h else if n = 1 then sysmon1 h else sysmon2 h)"

definition put_sysmon_block :: "nat \<Rightarrow> sysmon_block \<Rightarrow> 'x esnet_smartnic_bar2 \<Rightarrow> 'x esnet_smartnic_bar2" where
  "put_sysmon_block n b h = (if n = 0 then h\<lparr>sysmon0 := b\<rparr> else if n = 1 then h\<lparr>sysmon1 := b\<rparr> else h\<lparr>sysmon2 := b\<rparr>)"

definition sysmon_channels :: "nat \<Rightarrow> 64 word" where
  "sysmon_channels n =
     (if n = 0 then channels_mask [TEMP, VCCINT, VCCAUX, VCCBRAM, VP_VN]
      else channels_mask [TEMP, VCCINT, VCCAUX, VCCBRAM, VUSER 0])"

fun init_sysmons :: "'x cfg_env \<Rightarrow> nat set \<Rightarrow> nat list \<Rightarrow> 'x CfgDevice \<Rightarrow> agent_stop + 'x CfgDevice" where
  "init_sysmons env flags [] dev = Inr dev"
| "init_sysmons env flags (n # ns) dev =
     (let name = ''sysmon'' @ dec n;
          b = sysmon_sequencer_enable (ce_sysmon_layout env) (sysmon_channels n) 0 (sysmon_block_of n (cd_bar2 dev));
          dev1 = dev\<lparr>cd_bar2 := put_sysmon_block n b (cd_bar2 dev)\<rparr>
      in case add_stats_zone flags SYSMON_MONITORS
             (sysmon_stats_zone_spec (ce_sysmon_layout env) (ce_fp env) (ce_bar env)
                (be_offsetof (ce_bar env) ''esnet_smartnic_bar2'' name) name b) dev1 of Inl e \<Rightarrow> Inl e
         | Inr dev2 \<Rightarrow> init_sysmons env flags ns dev2)"

definition init_card :: "'x cfg_env \<Rightarrow> nat set \<Rightarrow> 'x CfgDevice \<Rightarrow> agent_stop + 'x CfgDevice" where
  "init_card env flags dev =
     (let (ok, c) = cms_reset (ce_cms env) (ce_cms_layout env) (dev_cms dev); dev1 = put_cms c dev in
      if \<not> ok then Inl Stop_Exit
      else let z = new_zone_address (cd_domains dev1 MONITORS) in
        case cms_card_stats_zone_alloc (ce_cms env) (ce_cms_layout env) (ce_fp env) (ce_bar env) z
               (be_offsetof (ce_bar env) ''esnet_smartnic_bar2'' ''cms'') ''card'' (cd_domains dev1 MONITORS) (cd_bar2 dev1) of
          Inl e \<Rightarrow> Inl (Stop_Stats e)
        | Inr (None, h) \<Rightarrow> Inl Stop_Exit
        | Inr (Some d, h) \<Rightarrow> keep_stats_zone flags CARD_MONITORS ''card'' z d h dev1)"

definition cfg_init_device :: "'x cfg_env \<Rightarrow> nat set \<Rightarrow> 'x CfgDevice \<Rightarrow> agent_stop + 'x CfgDevice" where
  "cfg_init_device env flags dev =
     (let dev1 = dev\<lparr>cd_bar2 := (cd_bar2 dev)\<lparr>sysmon0 := sysmon_master_reset (ce_sysmon_layout env) (sysmon0 (cd_bar2 dev))\<rparr>\<rparr> in
      case init_sysmons env flags [0, 1, 2] dev1 of Inl e \<Rightarrow> Inl e
      | Inr dev2 \<Rightarrow> init_card env flags dev2)"

definition cfg_deinit_device :: "'x CfgDevice \<Rightarrow> agent_stop + 'x CfgDevice" where
  "cfg_deinit_device dev =
     (case deinit_zones SYSMON_MONITORS dev of Inl e \<Rightarrow> Inl e
      | Inr dev1 \<Rightarrow> deinit_zones CARD_MONITORS dev1)"

subsection \<open>Description of a card\<close>

record DeviceCardInfo =
  card_name :: string
  card_profile :: string
  card_serial_number :: string
  card_revision :: string
  card_sc_version :: string
  card_fan_presence :: "8 word"
  card_total_power_avail :: nat
  card_config_mode :: string
  card_cage_types :: "string list"
  card_mac_addrs :: "string list"

definition mac_addr_str :: "8 word list \<Rightarrow> string" where
  "mac_addr_str octets = colon_join (map hex2 (take ETH_ALEN octets))"

text \<open>The addresses of a block: only the last octet counts, and wraps around.\<close>

fun block_mac_addrs :: "8 word list \<Rightarrow> nat \<Rightarrow> string list" where
  "block_mac_addrs addr 0 = []"
| "block_mac_addrs addr (Suc n) = mac_addr_str addr # block_mac_addrs (addr[5 := addr ! 5 + 1]) n"

definition card_mac_addrs_of :: "cms_card_info \<Rightarrow> string list" where
  "card_mac_addrs_of ci =
     (if ci_block_count ci > 0 then block_mac_addrs (ci_block_base ci) (ci_block_count ci)
      else map (\<lambda>n. mac_addr_str (ci_legacy_addrs ci ! n))
             (filter (CMS_CARD_INFO_IS_VALID (ci_legacy_valid_mask ci)) [0..<CMS_CARD_INFO_MAX_LEGACY_MACS]))"

text \<open>A text that the description does not have is NULL, which no string may be built from.\<close>

definition card_text :: "cms_card_info \<Rightarrow> nat option \<Rightarrow> agent_stop + string" where
  "card_text ci p =
     (case p of None \<Rightarrow> Inl (Stop_Stats Undefined)
      | Some q \<Rightarrow> (case card_info_string ci q of None \<Rightarrow> Inl (Stop_Stats Undefined) | Some s \<Rightarrow> Inr s))"

definition device_card_info :: "cms_card_info \<Rightarrow> agent_stop + DeviceCardInfo" where
  "device_card_info ci =
     (case card_text ci (ci_name ci) of Inl e \<Rightarrow> Inl e
      | Inr name \<Rightarrow>
     (case card_text ci (ci_serial_number ci) of Inl e \<Rightarrow> Inl e
      | Inr serial \<Rightarrow>
     (case card_text ci (ci_revision ci) of Inl e \<Rightarrow> Inl e
      | Inr revision \<Rightarrow>
     (case card_text ci (ci_sc_version ci) of Inl e \<Rightarrow> Inl e
      | Inr sc_version \<Rightarrow>
          Inr \<lparr>card_name = name, card_profile = cms_profile_to_str (ci_profile ci), card_serial_number = serial,
               card_revision = revision, card_sc_version = sc_version, card_fan_presence = ci_fan_presence ci,
               card_total_power_avail = ci_total_power_avail ci,
               card_config_mode = cms_card_info_config_mode_to_str (ci_config_mode ci),
               card_cage_types = map (\<lambda>n. cms_card_info_cage_type_to_str (ci_cage_types ci ! n))
                 (filter (CMS_CARD_INFO_IS_VALID (ci_cage_valid_mask ci)) [0..<CMS_CARD_INFO_MAX_CAGES]),
               card_mac_addrs = card_mac_addrs_of ci\<rparr>))))"

definition read_card_info ::
  "'x cfg_env \<Rightarrow> 'x CfgDevice \<Rightarrow> agent_stop + (cms_card_info option \<times> 'x CfgDevice)" where
  "read_card_info env dev =
     (case cms_card_info_read (ce_cms env) (ce_cms_layout env) (ce_ether_aton env) (dev_cms dev) of
        None \<Rightarrow> Inl (Stop_Stats Undefined)
      | Some (ci, c) \<Rightarrow> Inr (ci, put_cms c dev))"

definition add_card_info ::
  "'x cfg_env \<Rightarrow> 'x CfgDevice \<Rightarrow> agent_stop + (CfgErrorCode \<times> DeviceCardInfo option \<times> 'x CfgDevice)" where
  "add_card_info env dev =
     (case read_card_info env dev of Inl e \<Rightarrow> Inl e
      | Inr (None, dev1) \<Rightarrow> Inr (EC_CARD_INFO_READ_FAILED, None, dev1)
      | Inr (Some ci, dev1) \<Rightarrow> map_sum id (\<lambda>card. (CFG_EC_OK, Some card, dev1)) (device_card_info ci))"

subsection \<open>The request for the description\<close>

record CfgDeviceInfo =
  cdi_bus_id :: string
  cdi_vendor_id :: nat
  cdi_device_id :: nat
  cdi_number :: "32 word"
  cdi_status :: "32 word"
  cdi_dna :: "32 word list"
  cdi_hw_version :: string
  cdi_fw_version :: string
  cdi_sw_version :: string
  cdi_card :: "DeviceCardInfo option"

record CfgDeviceInfoResponse =
  cdir_error_code :: CfgErrorCode
  cdir_dev_id :: nat
  cdir_info :: "CfgDeviceInfo option"

text \<open>\<open>None\<close> is the exception of \<^verbatim>\<open>stoi\<close>.\<close>

definition cfg_read_hex_pci_id :: "'x cfg_env \<Rightarrow> string \<Rightarrow> string \<Rightarrow> nat option" where
  "cfg_read_hex_pci_id env bus_id name =
     (case ce_pci_file env (''/sys/bus/pci/devices/'' @ bus_id @ ''/'' @ name) of
        None \<Rightarrow> Some 65535
      | Some content \<Rightarrow> map_option (\<lambda>v. nat (v mod 65536)) (stoi16 content))"

definition cfg_device_info_body :: "'x cfg_env \<Rightarrow> nat \<Rightarrow> ('x CfgDevice, CfgDeviceInfoResponse) rpc" where
  "cfg_device_info_body env dev_id dev =
     (case (cfg_read_hex_pci_id env (cd_bus_id dev) ''vendor'', cfg_read_hex_pci_id env (cd_bus_id dev) ''device'') of
        (Some vendor, Some device) \<Rightarrow>
          (let cfg = syscfg (cd_bar2 dev); var = (\<lambda>v. case ce_getenv env v of Some x \<Rightarrow> x | None \<Rightarrow> ''NONE'') in
           case add_card_info env dev of Inl e \<Rightarrow> Inl e
           | Inr (err, ci, dev1) \<Rightarrow>
               Inr (dev1, [\<lparr>cdir_error_code = err, cdir_dev_id = dev_id,
                            cdir_info = Some
                              \<lparr>cdi_bus_id = cd_bus_id dev, cdi_vendor_id = vendor, cdi_device_id = device,
                               cdi_number = usr_access cfg, cdi_status = build_status cfg, cdi_dna = syscfg_dna cfg,
                               cdi_hw_version = var ''SN_HW_VER'', cdi_fw_version = var ''SN_FW_VER'',
                               cdi_sw_version = var ''SN_SW_VER'', cdi_card = ci\<rparr>\<rparr>]))
      | _ \<Rightarrow> Inl Stop_Exception)"

definition cfg_get_device_info ::
  "'x cfg_env \<Rightarrow> int \<Rightarrow> ('x SmartnicConfigImpl, CfgDeviceInfoResponse) rpc" where
  "cfg_get_device_info env req_dev_id =
     for_cfg_devices req_dev_id \<lparr>cdir_error_code = CFG_EC_INVALID_DEVICE_ID, cdir_dev_id = 0, cdir_info = None\<rparr>
       (cfg_device_info_body env)"

definition CfgGetDeviceInfo :: "'x cfg_env \<Rightarrow> int \<Rightarrow> ('x SmartnicConfigImpl, CfgDeviceInfoResponse) rpc" where
  "CfgGetDeviceInfo env req_dev_id = cfg_get_device_info env req_dev_id"

subsection \<open>The request for the status\<close>

text \<open>Alarms and monitors with their source and name.\<close>

record DeviceStatus =
  dst_alarms :: "(string \<times> string \<times> bool) list"
  dst_monitors :: "(string \<times> string \<times> double_bits) list"

record DeviceStatusResponse =
  dstr_error_code :: CfgErrorCode
  dstr_dev_id :: nat
  dstr_status :: "DeviceStatus option"

definition get_device_stats :: "stats_for_each_spec \<Rightarrow> DeviceStatus \<Rightarrow> (int \<times> DeviceStatus) option" where
  "get_device_stats spec st =
     (let m = fe_metric spec in
      case mspec_type m of
        METRIC_FLAG \<Rightarrow>
          (case fe_values spec of [] \<Rightarrow> None
           | v # _ \<Rightarrow> Some (0, st\<lparr>dst_alarms := dst_alarms st @ [(fe_zone spec, mspec_name m, val_u64 v \<noteq> 0)]\<rparr>))
      | METRIC_GAUGE \<Rightarrow>
          (case fe_values spec of [] \<Rightarrow> None
           | v # _ \<Rightarrow> Some (0, st\<lparr>dst_monitors := dst_monitors st @ [(fe_zone spec, mspec_name m, val_f64 v)]\<rparr>))
      | _ \<Rightarrow> Some (0, st))"

fun zones_status :: "DeviceStatsZone \<Rightarrow> nat list \<Rightarrow> 'x CfgDevice \<Rightarrow> DeviceStatus \<Rightarrow> agent_stop + DeviceStatus" where
  "zones_status kind [] dev st = Inr st"
| "zones_status kind (n # ns) dev st =
     (case cfg_for_each_metric get_device_stats kind n dev st of Inl e \<Rightarrow> Inl e
      | Inr st' \<Rightarrow> zones_status kind ns dev st')"

definition device_status_body :: "nat \<Rightarrow> ('x CfgDevice, DeviceStatusResponse) rpc" where
  "device_status_body dev_id dev =
     (case zones_status SYSMON_MONITORS [0..<length (cd_zones dev SYSMON_MONITORS)] dev \<lparr>dst_alarms = [], dst_monitors = []\<rparr> of
        Inl e \<Rightarrow> Inl e
      | Inr st \<Rightarrow>
        (case zones_status CARD_MONITORS [0] dev st of Inl e \<Rightarrow> Inl e
         | Inr st' \<Rightarrow> Inr (dev, [\<lparr>dstr_error_code = CFG_EC_OK, dstr_dev_id = dev_id, dstr_status = Some st'\<rparr>])))"

definition get_device_status :: "int \<Rightarrow> ('x SmartnicConfigImpl, DeviceStatusResponse) rpc" where
  "get_device_status req_dev_id =
     for_cfg_devices req_dev_id \<lparr>dstr_error_code = CFG_EC_INVALID_DEVICE_ID, dstr_dev_id = 0, dstr_status = None\<rparr>
       device_status_body"

definition GetDeviceStatus :: "int \<Rightarrow> ('x SmartnicConfigImpl, DeviceStatusResponse) rpc" where
  "GetDeviceStatus req_dev_id = get_device_status req_dev_id"

end
