(* ===== verification/Cfg_Server.thy ===== *)
theory Cfg_Server
  imports Cfg_Device P4_Server
begin

text \<open>
  \<^verbatim>\<open>sn-cfg/src/agent/server.cpp\<close>: the server's statistics, its debug flags, and the flags that control the
  collection of statistics.  Its clocks are those of \<^verbatim>\<open>P4_Server\<close>.
\<close>

subsection \<open>Status\<close>

record CfgServerStatusResponse =
  cssr_error_code :: CfgErrorCode
  cssr_status :: "ServerStatus option"

definition cfg_get_server_status :: "('x SmartnicConfigImpl, CfgServerStatusResponse) rpc" where
  "cfg_get_server_status s =
     Inr (s, [case get_server_times (cfg_clock s) of
                None \<Rightarrow> \<lparr>cssr_error_code = CFG_EC_SERVER_FAILED_GET_TIME, cssr_status = None\<rparr>
              | Some (start, up) \<Rightarrow>
                  \<lparr>cssr_error_code = CFG_EC_OK, cssr_status = Some \<lparr>srv_start_time = start, srv_up_time = up\<rparr>\<rparr>])"

definition CfgGetServerStatus :: "('x SmartnicConfigImpl, CfgServerStatusResponse) rpc" where
  "CfgGetServerStatus = cfg_get_server_status"

subsection \<open>The statistics of the server\<close>

definition card_info_metric :: "'x CfgDevice \<Rightarrow> cms_card_info \<Rightarrow> agent_stop + stats_metric_spec" where
  "card_info_metric dev ci =
     (case card_text ci (ci_serial_number ci) of Inl e \<Rightarrow> Inl e
      | Inr serial \<Rightarrow>
     (case card_text ci (ci_revision ci) of Inl e \<Rightarrow> Inl e
      | Inr revision \<Rightarrow>
     (case card_text ci (ci_sc_version ci) of Inl e \<Rightarrow> Inl e
      | Inr sc_version \<Rightarrow>
          Inr (server_metric ''card_info'' METRIC_FLAG 0
            [plain_label ''pcie_bus_id'' (cd_bus_id dev) False, plain_label ''profile'' (cms_profile_to_str (ci_profile ci)) False,
             plain_label ''serial'' serial False, plain_label ''revision'' revision False,
             plain_label ''sc_ver'' sc_version False]))))"

fun card_info_metrics ::
  "'x cfg_env \<Rightarrow> 'x CfgDevice list \<Rightarrow> agent_stop + ('x CfgDevice list \<times> stats_metric_spec list)" where
  "card_info_metrics env [] = Inr ([], [])"
| "card_info_metrics env (dev # devs) =
     (case read_card_info env dev of Inl e \<Rightarrow> Inl e
      | Inr (None, dev') \<Rightarrow> Inl Stop_Exit
      | Inr (Some ci, dev') \<Rightarrow>
        (case card_info_metric dev ci of Inl e \<Rightarrow> Inl e
         | Inr m \<Rightarrow> map_sum id (\<lambda>(devs', ms). (dev' # devs', m # ms)) (card_info_metrics env devs)))"

definition cfg_server_zone_spec ::
  "(string \<Rightarrow> string option) \<Rightarrow> 64 word \<Rightarrow> stats_metric_spec list \<Rightarrow> server_clock stats_zone_spec" where
  "cfg_server_zone_spec getenv junk cards =
     \<lparr>zspec_name = ''server'',
      zspec_blocks =
        [server_block ''status''
           [server_metric ''start_time_sec'' METRIC_GAUGE START_TIME [],
            server_metric ''up_time_sec'' METRIC_GAUGE UP_TIME []]
           (server_status_stats_read_metric junk),
         server_block ''info''
           (server_metric ''build_info'' METRIC_FLAG 0
              [env_label getenv ''hw_ver'' ''SN_HW_VER'', env_label getenv ''fw_ver'' ''SN_FW_VER'',
               env_label getenv ''sw_ver'' ''SN_SW_VER''] # cards)
           server_info_stats_read_metric]\<rparr>"

definition cfg_init_server_stats ::
  "'x cfg_env \<Rightarrow> 64 word \<Rightarrow> 'x SmartnicConfigImpl \<Rightarrow> agent_stop + 'x SmartnicConfigImpl" where
  "cfg_init_server_stats env junk s =
     (case card_info_metrics env (cfg_devices s) of Inl e \<Rightarrow> Inl e
      | Inr (devs, cards) \<Rightarrow>
        (let z = new_zone_address (cfg_server_domain s) in
         case stats_zone_alloc z (cfg_server_zone_spec (ce_getenv env) junk cards) (cfg_server_domain s) (cfg_clock s) of
           Inl e \<Rightarrow> Inl (Stop_Stats e)
         | Inr (d, c) \<Rightarrow>
             Inr (s\<lparr>cfg_devices := devs, cfg_server_domain := d, cfg_clock := c, cfg_server_zone := Some z\<rparr>)))"

definition cfg_init_server ::
  "'x cfg_env \<Rightarrow> 64 word \<Rightarrow> timespec option \<Rightarrow> timespec option \<Rightarrow> 'x SmartnicConfigImpl \<Rightarrow>
   agent_stop + 'x SmartnicConfigImpl" where
  "cfg_init_server env junk wall mclock s =
     (case wall of None \<Rightarrow> Inl Stop_Exit
      | Some w \<Rightarrow>
        (case mclock of None \<Rightarrow> Inl Stop_Exit
         | Some m \<Rightarrow>
             cfg_init_server_stats env junk (s\<lparr>cfg_clock := (cfg_clock s)\<lparr>start_wall := w, start_mono := m\<rparr>\<rparr>)))"

definition cfg_deinit_server :: "'x SmartnicConfigImpl \<Rightarrow> agent_stop + 'x SmartnicConfigImpl" where
  "cfg_deinit_server s =
     (case cfg_server_zone s of None \<Rightarrow> Inl (Stop_Stats Undefined)
      | Some z \<Rightarrow>
        (case stats_zone_free (Some z) (cfg_server_domain s) (cfg_clock s) of Inl e \<Rightarrow> Inl (Stop_Stats e)
         | Inr (d, c) \<Rightarrow> Inr (s\<lparr>cfg_server_domain := d, cfg_clock := c, cfg_server_zone := None\<rparr>)))"

subsection \<open>Flags\<close>

definition CfgServerDebugFlag_IsValid :: "int \<Rightarrow> bool" where
  "CfgServerDebugFlag_IsValid i \<longleftrightarrow> i \<in> {0, 1, 10}"

definition ServerControlStatsFlag_IsValid :: "int \<Rightarrow> bool" where
  "ServerControlStatsFlag_IsValid i \<longleftrightarrow> i \<in> {0, 1, 2, 3, 10, 20, 30, 40, 50, 60}"

definition cfg_debug_flag_label :: "nat \<Rightarrow> string" where
  "cfg_debug_flag_label flag = (if flag = 1 then ''BATCH'' else if flag = 10 then ''STATS'' else ''UNKNOWN'')"

definition stats_flag_label :: "nat \<Rightarrow> string" where
  "stats_flag_label flag =
     (if flag = 1 then ''DOMAIN_COUNTERS'' else if flag = 2 then ''DOMAIN_MONITORS'' else if flag = 3 then ''DOMAIN_MODULES''
      else if flag = 10 then ''ZONE_CARD_MONITORS'' else if flag = 20 then ''ZONE_SYSMON_MONITORS''
      else if flag = 30 then ''ZONE_HOST_COUNTERS'' else if flag = 40 then ''ZONE_PORT_COUNTERS''
      else if flag = 50 then ''ZONE_SWITCH_COUNTERS'' else if flag = 60 then ''ZONE_MODULE_MONITORS'' else ''UNKNOWN'')"

definition cfg_known_flags :: "nat list" where
  "cfg_known_flags = filter (\<lambda>i. CfgServerDebugFlag_IsValid (int i)) [1..<11]"

definition known_stats_flags :: "nat list" where
  "known_stats_flags = filter (\<lambda>i. ServerControlStatsFlag_IsValid (int i)) [1..<61]"

text \<open>The flags that a list of the command line names; \<open>all\<close> ends the list.\<close>

fun named_flags :: "(nat \<Rightarrow> string) \<Rightarrow> nat list \<Rightarrow> string list \<Rightarrow> nat set" where
  "named_flags label known [] = {}"
| "named_flags label known (name # rest) =
     (if name = ''all'' then set known
      else case find (\<lambda>i. name = label i \<or> name = option_name (label i)) known of
        None \<Rightarrow> named_flags label known rest
      | Some i \<Rightarrow> insert i (named_flags label known rest))"

text \<open>The debug flags that are named are set; all statistics flags are set but the named ones.\<close>

definition cfg_init_server_debug :: "string list \<Rightarrow> string list \<Rightarrow> nat set \<times> nat set" where
  "cfg_init_server_debug debug_flags stats_flags_disable =
     (named_flags cfg_debug_flag_label cfg_known_flags debug_flags,
      set known_stats_flags - named_flags stats_flag_label known_stats_flags stats_flags_disable)"

subsection \<open>Control of the collection\<close>

definition convert_server_control_stats_flag :: "int \<Rightarrow> (DeviceStatsDomain + DeviceStatsZone) option" where
  "convert_server_control_stats_flag flag =
     (if flag = 1 then Some (Inl COUNTERS) else if flag = 2 then Some (Inl MONITORS) else if flag = 3 then Some (Inl MODULES)
      else if flag = 10 then Some (Inr CARD_MONITORS) else if flag = 20 then Some (Inr SYSMON_MONITORS)
      else if flag = 30 then Some (Inr HOST_COUNTERS) else if flag = 40 then Some (Inr PORT_COUNTERS)
      else if flag = 50 then Some (Inr SWITCH_COUNTERS) else if flag = 60 then Some (Inr MODULE_MONITORS) else None)"

definition switch_domain :: "bool \<Rightarrow> DeviceStatsDomain \<Rightarrow> 'x CfgDevice \<Rightarrow> 'x CfgDevice" where
  "switch_domain enable sdom dev =
     dev\<lparr>cd_domains := (cd_domains dev)(sdom := (if enable then stats_domain_start else stats_domain_stop) (cd_domains dev sdom))\<rparr>"

fun switch_zones :: "bool \<Rightarrow> nat list \<Rightarrow> 'h stats_domain \<Rightarrow> stats_stop + 'h stats_domain" where
  "switch_zones enable [] d = Inr d"
| "switch_zones enable (z # zs) d =
     (case (if enable then stats_zone_enable z d else stats_zone_disable z d) of Inl e \<Rightarrow> Inl e
      | Inr d' \<Rightarrow> switch_zones enable zs d')"

definition switch_device_zones :: "bool \<Rightarrow> DeviceStatsZone \<Rightarrow> 'x CfgDevice \<Rightarrow> agent_stop + 'x CfgDevice" where
  "switch_device_zones enable kind dev =
     (let sdom = domain_of_zone kind in
      case switch_zones enable (map ds_zone (cd_zones dev kind)) (cd_domains dev sdom) of Inl e \<Rightarrow> Inl (Stop_Stats e)
      | Inr d \<Rightarrow> Inr (dev\<lparr>cd_domains := (cd_domains dev)(sdom := d)\<rparr>))"

fun map_devices :: "('x CfgDevice \<Rightarrow> agent_stop + 'x CfgDevice) \<Rightarrow> 'x CfgDevice list \<Rightarrow> agent_stop + 'x CfgDevice list" where
  "map_devices f [] = Inr []"
| "map_devices f (dev # devs) =
     (case f dev of Inl e \<Rightarrow> Inl e | Inr dev' \<Rightarrow> map_sum id ((#) dev') (map_devices f devs))"

text \<open>The result \<open>Inr (err, s)\<close> is an error of the request or \<open>EC_OK\<close>.\<close>

definition apply_server_control_stats_flag ::
  "bool \<Rightarrow> int \<Rightarrow> 'x SmartnicConfigImpl \<Rightarrow> agent_stop + (CfgErrorCode \<times> 'x SmartnicConfigImpl)" where
  "apply_server_control_stats_flag enable flag s =
     (case convert_server_control_stats_flag flag of
        None \<Rightarrow> Inr (EC_SERVER_INVALID_CONTROL_STATS_FLAG, s)
      | Some what \<Rightarrow>
        (let flags = (if enable then insert (nat flag) (cfg_stats_flags s) else cfg_stats_flags s - {nat flag});
             switch = (case what of Inl sdom \<Rightarrow> (\<lambda>dev. Inr (switch_domain enable sdom dev))
                                  | Inr kind \<Rightarrow> switch_device_zones enable kind)
         in map_sum id (\<lambda>devs. (CFG_EC_OK, s\<lparr>cfg_stats_flags := flags, cfg_devices := devs\<rparr>))
              (map_devices switch (cfg_devices s))))"

fun apply_stats_flags ::
  "bool \<Rightarrow> int list \<Rightarrow> 'x SmartnicConfigImpl \<Rightarrow> agent_stop + (CfgErrorCode \<times> 'x SmartnicConfigImpl)" where
  "apply_stats_flags enable [] s = Inr (CFG_EC_OK, s)"
| "apply_stats_flags enable (flag # rest) s =
     (case apply_server_control_stats_flag enable flag s of Inl e \<Rightarrow> Inl e
      | Inr (err, s') \<Rightarrow> if err \<noteq> CFG_EC_OK then Inr (err, s') else apply_stats_flags enable rest s')"

fun change_debug_flags :: "bool \<Rightarrow> int list \<Rightarrow> nat set \<Rightarrow> CfgErrorCode \<times> nat set" where
  "change_debug_flags enable [] flags = (CFG_EC_OK, flags)"
| "change_debug_flags enable (flag # rest) flags =
     (if \<not> CfgServerDebugFlag_IsValid flag then (CFG_EC_SERVER_INVALID_DEBUG_FLAG, flags)
      else change_debug_flags enable rest (if enable then insert (nat flag) flags else flags - {nat flag}))"

subsection \<open>Configuration requests\<close>

text \<open>The flags to enable and those to disable; \<open>None\<close> is a message that is not set.\<close>

record CfgServerConfig =
  csc_debug :: "(int list \<times> int list) option"
  csc_control_stats :: "(int list \<times> int list) option"

record CfgServerConfigResponse =
  cscr_error_code :: CfgErrorCode
  cscr_debug :: "(nat list \<times> nat list) option"
  cscr_control_stats :: "(nat list \<times> nat list) option"

definition split_flags :: "nat set \<Rightarrow> nat list \<Rightarrow> nat list \<times> nat list" where
  "split_flags flags known = (filter (\<lambda>i. i \<in> flags) known, filter (\<lambda>i. i \<notin> flags) known)"

definition cfg_get_server_config :: "('x SmartnicConfigImpl, CfgServerConfigResponse) rpc" where
  "cfg_get_server_config s =
     Inr (s, [\<lparr>cscr_error_code = CFG_EC_OK, cscr_debug = Some (split_flags (cfg_debug_flags s) cfg_known_flags),
               cscr_control_stats = Some (split_flags (cfg_stats_flags s) known_stats_flags)\<rparr>])"

definition CfgGetServerConfig :: "('x SmartnicConfigImpl, CfgServerConfigResponse) rpc" where
  "CfgGetServerConfig = cfg_get_server_config"

definition write_debug_flags ::
  "(int list \<times> int list) option \<Rightarrow> 'x SmartnicConfigImpl \<Rightarrow> CfgErrorCode \<times> 'x SmartnicConfigImpl" where
  "write_debug_flags dbg s =
     (case dbg of None \<Rightarrow> (CFG_EC_OK, s)
      | Some (enables, disables) \<Rightarrow>
        (let (err, flags) = change_debug_flags True enables (cfg_debug_flags s);
             (err', flags') = (if err \<noteq> CFG_EC_OK then (err, flags) else change_debug_flags False disables flags)
         in (err', s\<lparr>cfg_debug_flags := flags'\<rparr>)))"

definition write_stats_flags ::
  "(int list \<times> int list) option \<Rightarrow> 'x SmartnicConfigImpl \<Rightarrow> agent_stop + (CfgErrorCode \<times> 'x SmartnicConfigImpl)" where
  "write_stats_flags stats s =
     (case stats of None \<Rightarrow> Inr (CFG_EC_OK, s)
      | Some (enables, disables) \<Rightarrow>
        (case apply_stats_flags True enables s of Inl e \<Rightarrow> Inl e
         | Inr (err, s1) \<Rightarrow> if err \<noteq> CFG_EC_OK then Inr (err, s1) else apply_stats_flags False disables s1))"

definition cfg_set_server_config ::
  "CfgServerConfig \<Rightarrow> ('x SmartnicConfigImpl, CfgServerConfigResponse) rpc" where
  "cfg_set_server_config config s =
     (let resp = (\<lambda>err. \<lparr>cscr_error_code = err, cscr_debug = None, cscr_control_stats = None\<rparr>);
          (err, s1) = write_debug_flags (csc_debug config) s in
      if err \<noteq> CFG_EC_OK then Inr (s1, [resp err])
      else map_sum id (\<lambda>(err', s2). (s2, [resp err'])) (write_stats_flags (csc_control_stats config) s1))"

definition CfgSetServerConfig :: "CfgServerConfig \<Rightarrow> ('x SmartnicConfigImpl, CfgServerConfigResponse) rpc" where
  "CfgSetServerConfig config = cfg_set_server_config config"

end
