(* ===== verification/Cfg_Stats.thy ===== *)
theory Cfg_Stats
  imports Cfg_Types
begin

text \<open>
  The requests of \<^verbatim>\<open>sn-cfg/src/agent/stats.cpp\<close> (lines 721 to 865) for the statistics of whole devices.
  The filters are those of \<^verbatim>\<open>Stats_Filter\<close>, which both agents have.
\<close>

record CfgStatsRequest =
  csreq_dev_id :: int
  csreq_filters :: stats_filters

record CfgStatsResponse =
  csresp_error_code :: CfgErrorCode
  csresp_dev_id :: nat
  csresp_stats :: "StatsMetric list"

definition NDOMAINS :: "DeviceStatsDomain list" where "NDOMAINS = [COUNTERS, MONITORS, MODULES]"

definition cfg_clear_stats_domain ::
  "'x cfg_env \<Rightarrow> stats_filters \<Rightarrow> DeviceStatsDomain \<Rightarrow> 'x CfgDevice \<Rightarrow> agent_stop + 'x CfgDevice" where
  "cfg_clear_stats_domain env filters sdom dev =
     (case stats_result (stats_domain_clear_metrics (ce_stats env) (clear_filter_of (ce_regex env) filters) None
             (cd_domains dev sdom) (cd_bar2 dev)) of Inl e \<Rightarrow> Inl e
      | Inr (d, h, _) \<Rightarrow> Inr (dev\<lparr>cd_bar2 := h, cd_domains := (cd_domains dev)(sdom := d)\<rparr>))"

definition cfg_get_stats_domain ::
  "'x cfg_env \<Rightarrow> stats_filters \<Rightarrow> DeviceStatsDomain \<Rightarrow> StatsMetric list \<Rightarrow> 'x CfgDevice \<Rightarrow>
   agent_stop + ('x CfgDevice \<times> StatsMetric list)" where
  "cfg_get_stats_domain env filters sdom ms dev =
     (case stats_result (stats_domain_for_each_metric (get_stats_for_each_metric (ce_regex env) filters)
             (cd_domains dev sdom) (cd_bar2 dev) ms) of Inl e \<Rightarrow> Inl e
      | Inr (d, h, (_, ms')) \<Rightarrow> Inr (dev\<lparr>cd_bar2 := h, cd_domains := (cd_domains dev)(sdom := d)\<rparr>, ms'))"

fun domains_stats ::
  "'x cfg_env \<Rightarrow> stats_filters \<Rightarrow> bool \<Rightarrow> DeviceStatsDomain list \<Rightarrow> StatsMetric list \<Rightarrow> 'x CfgDevice \<Rightarrow>
   agent_stop + ('x CfgDevice \<times> StatsMetric list)" where
  "domains_stats env filters do_clear [] ms dev = Inr (dev, ms)"
| "domains_stats env filters do_clear (sdom # rest) ms dev =
     (case (if do_clear then map_sum id (\<lambda>dev'. (dev', ms)) (cfg_clear_stats_domain env filters sdom dev)
            else cfg_get_stats_domain env filters sdom ms dev) of Inl e \<Rightarrow> Inl e
      | Inr (dev', ms') \<Rightarrow> domains_stats env filters do_clear rest ms' dev')"

definition cfg_stats_body ::
  "'x cfg_env \<Rightarrow> stats_filters \<Rightarrow> bool \<Rightarrow> nat \<Rightarrow> ('x CfgDevice, CfgStatsResponse) rpc" where
  "cfg_stats_body env filters do_clear dev_id dev =
     (case domains_stats env filters do_clear NDOMAINS [] dev of Inl e \<Rightarrow> Inl e
      | Inr (dev', ms) \<Rightarrow> Inr (dev', [\<lparr>csresp_error_code = CFG_EC_OK, csresp_dev_id = dev_id, csresp_stats = ms\<rparr>]))"

definition cfg_get_or_clear_stats ::
  "'x cfg_env \<Rightarrow> CfgStatsRequest \<Rightarrow> bool \<Rightarrow> ('x SmartnicConfigImpl, CfgStatsResponse) rpc" where
  "cfg_get_or_clear_stats env req do_clear =
     for_cfg_devices (csreq_dev_id req)
       \<lparr>csresp_error_code = CFG_EC_INVALID_DEVICE_ID, csresp_dev_id = 0, csresp_stats = []\<rparr>
       (cfg_stats_body env (csreq_filters req) do_clear)"

definition CfgGetStats :: "'x cfg_env \<Rightarrow> CfgStatsRequest \<Rightarrow> ('x SmartnicConfigImpl, CfgStatsResponse) rpc" where
  "CfgGetStats env req = cfg_get_or_clear_stats env req False"

definition CfgClearStats :: "'x cfg_env \<Rightarrow> CfgStatsRequest \<Rightarrow> ('x SmartnicConfigImpl, CfgStatsResponse) rpc" where
  "CfgClearStats env req = cfg_get_or_clear_stats env req True"

end
