(* ===== verification/Cfg_Batch.thy ===== *)
theory Cfg_Batch
  imports Cfg_Defaults Cfg_Module_Info Cfg_Server Cfg_Stats
begin

text \<open>
  \<^verbatim>\<open>sn-cfg/src/agent/batch.cpp\<close> and the \<open>batch_\<close> functions of the other files: a stream of requests, each of
  which runs one of the handlers and gets the answers of the handler, wrapped.
\<close>

datatype CfgBatchOperation = CFG_BOP_UNKNOWN | CFG_BOP_GET | CFG_BOP_SET | CFG_BOP_CLEAR | CFG_BOP_OTHER int

datatype CfgBatchItem =
    Item_device_info int
  | Item_device_status int
  | Item_host_config HostConfigRequest
  | Item_host_stats HostStatsRequest
  | Item_port_config PortConfigRequest
  | Item_port_status PortStatusRequest
  | Item_port_stats PortStatsRequest
  | Item_switch_config SwitchConfigRequest
  | Item_switch_stats SwitchStatsRequest
  | Item_defaults DefaultsRequest
  | Item_stats CfgStatsRequest
  | Item_module_info ModuleInfoRequest
  | Item_module_status ModuleStatusRequest
  | Item_module_mem ModuleMemRequest
  | Item_module_gpio ModuleGpioRequest
  | Item_server_status
  | Item_server_config CfgServerConfig
  | Item_NOT_SET

datatype CfgBatchResponseItem =
    Answer_device_info CfgDeviceInfoResponse
  | Answer_device_status DeviceStatusResponse
  | Answer_host_config HostConfigResponse
  | Answer_host_stats HostStatsResponse
  | Answer_port_config PortConfigResponse
  | Answer_port_status PortStatusResponse
  | Answer_port_stats PortStatsResponse
  | Answer_switch_config SwitchConfigResponse
  | Answer_switch_stats SwitchStatsResponse
  | Answer_defaults DefaultsResponse
  | Answer_stats CfgStatsResponse
  | Answer_module_info ModuleInfoResponse
  | Answer_module_status ModuleStatusResponse
  | Answer_module_mem ModuleMemResponse
  | Answer_module_gpio ModuleGpioResponse
  | Answer_server_status CfgServerStatusResponse
  | Answer_server_config CfgServerConfigResponse

record CfgBatchRequest =
  cbreq_op :: CfgBatchOperation
  cbreq_item :: CfgBatchItem

record CfgBatchResponse =
  cbresp_error_code :: CfgErrorCode
  cbresp_op :: CfgBatchOperation
  cbresp_item :: "CfgBatchResponseItem option"

text \<open>The lambda of each \<open>batch_\<close> function.\<close>

definition cfg_wrapped ::
  "CfgBatchOperation \<Rightarrow> ('r \<Rightarrow> CfgBatchResponseItem) \<Rightarrow> ('s, 'r) rpc \<Rightarrow> ('s, CfgBatchResponse) rpc" where
  "cfg_wrapped op item f s =
     map_sum id (\<lambda>(s', rs).
       (s', map (\<lambda>r. \<lparr>cbresp_error_code = CFG_EC_OK, cbresp_op = op, cbresp_item = Some (item r)\<rparr>) rs)) (f s)"

definition cfg_batch_get_device_info :: "'x cfg_env \<Rightarrow> int \<Rightarrow> ('x SmartnicConfigImpl, CfgBatchResponse) rpc" where
  "cfg_batch_get_device_info env req = cfg_wrapped CFG_BOP_GET Answer_device_info (cfg_get_device_info env req)"

definition cfg_batch_get_device_status :: "int \<Rightarrow> ('x SmartnicConfigImpl, CfgBatchResponse) rpc" where
  "cfg_batch_get_device_status req = cfg_wrapped CFG_BOP_GET Answer_device_status (get_device_status req)"

definition cfg_batch_get_host_config :: "'x cfg_env \<Rightarrow> HostConfigRequest \<Rightarrow> ('x SmartnicConfigImpl, CfgBatchResponse) rpc" where
  "cfg_batch_get_host_config env req = cfg_wrapped CFG_BOP_GET Answer_host_config (get_host_config env req)"

definition cfg_batch_set_host_config :: "'x cfg_env \<Rightarrow> HostConfigRequest \<Rightarrow> ('x SmartnicConfigImpl, CfgBatchResponse) rpc" where
  "cfg_batch_set_host_config env req = cfg_wrapped CFG_BOP_SET Answer_host_config (set_host_config env req)"

definition cfg_batch_get_host_stats :: "'x cfg_env \<Rightarrow> HostStatsRequest \<Rightarrow> ('x SmartnicConfigImpl, CfgBatchResponse) rpc" where
  "cfg_batch_get_host_stats env req = cfg_wrapped CFG_BOP_GET Answer_host_stats (get_or_clear_host_stats env req False)"

definition cfg_batch_clear_host_stats :: "'x cfg_env \<Rightarrow> HostStatsRequest \<Rightarrow> ('x SmartnicConfigImpl, CfgBatchResponse) rpc" where
  "cfg_batch_clear_host_stats env req = cfg_wrapped CFG_BOP_CLEAR Answer_host_stats (get_or_clear_host_stats env req True)"

definition cfg_batch_get_port_config :: "'x cfg_env \<Rightarrow> PortConfigRequest \<Rightarrow> ('x SmartnicConfigImpl, CfgBatchResponse) rpc" where
  "cfg_batch_get_port_config env req = cfg_wrapped CFG_BOP_GET Answer_port_config (get_port_config env req)"

definition cfg_batch_set_port_config :: "'x cfg_env \<Rightarrow> PortConfigRequest \<Rightarrow> ('x SmartnicConfigImpl, CfgBatchResponse) rpc" where
  "cfg_batch_set_port_config env req = cfg_wrapped CFG_BOP_SET Answer_port_config (set_port_config env req)"

definition cfg_batch_get_port_status :: "'x cfg_env \<Rightarrow> PortStatusRequest \<Rightarrow> ('x SmartnicConfigImpl, CfgBatchResponse) rpc" where
  "cfg_batch_get_port_status env req = cfg_wrapped CFG_BOP_GET Answer_port_status (get_port_status env req)"

definition cfg_batch_get_port_stats :: "'x cfg_env \<Rightarrow> PortStatsRequest \<Rightarrow> ('x SmartnicConfigImpl, CfgBatchResponse) rpc" where
  "cfg_batch_get_port_stats env req = cfg_wrapped CFG_BOP_GET Answer_port_stats (get_or_clear_port_stats env req False)"

definition cfg_batch_clear_port_stats :: "'x cfg_env \<Rightarrow> PortStatsRequest \<Rightarrow> ('x SmartnicConfigImpl, CfgBatchResponse) rpc" where
  "cfg_batch_clear_port_stats env req = cfg_wrapped CFG_BOP_CLEAR Answer_port_stats (get_or_clear_port_stats env req True)"

definition cfg_batch_get_switch_config :: "'x cfg_env \<Rightarrow> SwitchConfigRequest \<Rightarrow> ('x SmartnicConfigImpl, CfgBatchResponse) rpc" where
  "cfg_batch_get_switch_config env req = cfg_wrapped CFG_BOP_GET Answer_switch_config (get_switch_config env req)"

definition cfg_batch_set_switch_config :: "'x cfg_env \<Rightarrow> SwitchConfigRequest \<Rightarrow> ('x SmartnicConfigImpl, CfgBatchResponse) rpc" where
  "cfg_batch_set_switch_config env req = cfg_wrapped CFG_BOP_SET Answer_switch_config (set_switch_config env req)"

definition cfg_batch_get_switch_stats :: "'x cfg_env \<Rightarrow> SwitchStatsRequest \<Rightarrow> ('x SmartnicConfigImpl, CfgBatchResponse) rpc" where
  "cfg_batch_get_switch_stats env req = cfg_wrapped CFG_BOP_GET Answer_switch_stats (get_or_clear_switch_stats env req False)"

definition cfg_batch_clear_switch_stats :: "'x cfg_env \<Rightarrow> SwitchStatsRequest \<Rightarrow> ('x SmartnicConfigImpl, CfgBatchResponse) rpc" where
  "cfg_batch_clear_switch_stats env req = cfg_wrapped CFG_BOP_CLEAR Answer_switch_stats (get_or_clear_switch_stats env req True)"

definition cfg_batch_set_defaults :: "'x cfg_env \<Rightarrow> DefaultsRequest \<Rightarrow> ('x SmartnicConfigImpl, CfgBatchResponse) rpc" where
  "cfg_batch_set_defaults env req = cfg_wrapped CFG_BOP_SET Answer_defaults (set_defaults env req)"

definition cfg_batch_get_stats :: "'x cfg_env \<Rightarrow> CfgStatsRequest \<Rightarrow> ('x SmartnicConfigImpl, CfgBatchResponse) rpc" where
  "cfg_batch_get_stats env req = cfg_wrapped CFG_BOP_GET Answer_stats (cfg_get_or_clear_stats env req False)"

definition cfg_batch_clear_stats :: "'x cfg_env \<Rightarrow> CfgStatsRequest \<Rightarrow> ('x SmartnicConfigImpl, CfgBatchResponse) rpc" where
  "cfg_batch_clear_stats env req = cfg_wrapped CFG_BOP_CLEAR Answer_stats (cfg_get_or_clear_stats env req True)"

definition cfg_batch_get_module_info :: "'x cfg_env \<Rightarrow> ModuleInfoRequest \<Rightarrow> ('x SmartnicConfigImpl, CfgBatchResponse) rpc" where
  "cfg_batch_get_module_info env req = cfg_wrapped CFG_BOP_GET Answer_module_info (get_module_info env req)"

definition cfg_batch_get_module_status :: "'x cfg_env \<Rightarrow> ModuleStatusRequest \<Rightarrow> ('x SmartnicConfigImpl, CfgBatchResponse) rpc" where
  "cfg_batch_get_module_status env req = cfg_wrapped CFG_BOP_GET Answer_module_status (get_module_status env req)"

definition cfg_batch_get_module_mem :: "'x cfg_env \<Rightarrow> ModuleMemRequest \<Rightarrow> ('x SmartnicConfigImpl, CfgBatchResponse) rpc" where
  "cfg_batch_get_module_mem env req = cfg_wrapped CFG_BOP_GET Answer_module_mem (get_module_mem env req)"

definition cfg_batch_set_module_mem :: "'x cfg_env \<Rightarrow> ModuleMemRequest \<Rightarrow> ('x SmartnicConfigImpl, CfgBatchResponse) rpc" where
  "cfg_batch_set_module_mem env req = cfg_wrapped CFG_BOP_SET Answer_module_mem (set_module_mem env req)"

definition cfg_batch_get_module_gpio :: "'x cfg_env \<Rightarrow> ModuleGpioRequest \<Rightarrow> ('x SmartnicConfigImpl, CfgBatchResponse) rpc" where
  "cfg_batch_get_module_gpio env req = cfg_wrapped CFG_BOP_GET Answer_module_gpio (get_module_gpio env req)"

definition cfg_batch_set_module_gpio :: "'x cfg_env \<Rightarrow> ModuleGpioRequest \<Rightarrow> ('x SmartnicConfigImpl, CfgBatchResponse) rpc" where
  "cfg_batch_set_module_gpio env req = cfg_wrapped CFG_BOP_SET Answer_module_gpio (set_module_gpio env req)"

definition cfg_batch_get_server_status :: "('x SmartnicConfigImpl, CfgBatchResponse) rpc" where
  "cfg_batch_get_server_status = cfg_wrapped CFG_BOP_GET Answer_server_status (cfg_get_server_status)"

definition cfg_batch_get_server_config :: "('x SmartnicConfigImpl, CfgBatchResponse) rpc" where
  "cfg_batch_get_server_config = cfg_wrapped CFG_BOP_GET Answer_server_config (cfg_get_server_config)"

definition cfg_batch_set_server_config :: "CfgServerConfig \<Rightarrow> ('x SmartnicConfigImpl, CfgBatchResponse) rpc" where
  "cfg_batch_set_server_config req = cfg_wrapped CFG_BOP_SET Answer_server_config (cfg_set_server_config req)"

definition cfg_error_resp :: "CfgErrorCode \<Rightarrow> CfgBatchOperation \<Rightarrow> ('s, CfgBatchResponse) rpc" where
  "cfg_error_resp err op s = Inr (s, [\<lparr>cbresp_error_code = err, cbresp_op = op, cbresp_item = None\<rparr>])"

definition cfg_batch_request :: "'x cfg_env \<Rightarrow> CfgBatchRequest \<Rightarrow> ('x SmartnicConfigImpl, CfgBatchResponse) rpc" where
  "cfg_batch_request env req =
     (let op = cbreq_op req; unknown = cfg_error_resp CFG_EC_UNKNOWN_BATCH_OP op in
      case cbreq_item req of
       Item_device_info r \<Rightarrow> (case op of CFG_BOP_GET \<Rightarrow> cfg_batch_get_device_info env r | _ \<Rightarrow> unknown)
      | Item_device_status r \<Rightarrow> (case op of CFG_BOP_GET \<Rightarrow> cfg_batch_get_device_status r | _ \<Rightarrow> unknown)
      | Item_host_config r \<Rightarrow> (case op of CFG_BOP_GET \<Rightarrow> cfg_batch_get_host_config env r | CFG_BOP_SET \<Rightarrow> cfg_batch_set_host_config env r | _ \<Rightarrow> unknown)
      | Item_host_stats r \<Rightarrow> (case op of CFG_BOP_GET \<Rightarrow> cfg_batch_get_host_stats env r | CFG_BOP_CLEAR \<Rightarrow> cfg_batch_clear_host_stats env r | _ \<Rightarrow> unknown)
      | Item_port_config r \<Rightarrow> (case op of CFG_BOP_GET \<Rightarrow> cfg_batch_get_port_config env r | CFG_BOP_SET \<Rightarrow> cfg_batch_set_port_config env r | _ \<Rightarrow> unknown)
      | Item_port_status r \<Rightarrow> (case op of CFG_BOP_GET \<Rightarrow> cfg_batch_get_port_status env r | _ \<Rightarrow> unknown)
      | Item_port_stats r \<Rightarrow> (case op of CFG_BOP_GET \<Rightarrow> cfg_batch_get_port_stats env r | CFG_BOP_CLEAR \<Rightarrow> cfg_batch_clear_port_stats env r | _ \<Rightarrow> unknown)
      | Item_switch_config r \<Rightarrow> (case op of CFG_BOP_GET \<Rightarrow> cfg_batch_get_switch_config env r | CFG_BOP_SET \<Rightarrow> cfg_batch_set_switch_config env r | _ \<Rightarrow> unknown)
      | Item_switch_stats r \<Rightarrow> (case op of CFG_BOP_GET \<Rightarrow> cfg_batch_get_switch_stats env r | CFG_BOP_CLEAR \<Rightarrow> cfg_batch_clear_switch_stats env r | _ \<Rightarrow> unknown)
      | Item_defaults r \<Rightarrow> (case op of CFG_BOP_SET \<Rightarrow> cfg_batch_set_defaults env r | _ \<Rightarrow> unknown)
      | Item_stats r \<Rightarrow> (case op of CFG_BOP_GET \<Rightarrow> cfg_batch_get_stats env r | CFG_BOP_CLEAR \<Rightarrow> cfg_batch_clear_stats env r | _ \<Rightarrow> unknown)
      | Item_module_info r \<Rightarrow> (case op of CFG_BOP_GET \<Rightarrow> cfg_batch_get_module_info env r | _ \<Rightarrow> unknown)
      | Item_module_status r \<Rightarrow> (case op of CFG_BOP_GET \<Rightarrow> cfg_batch_get_module_status env r | _ \<Rightarrow> unknown)
      | Item_module_mem r \<Rightarrow> (case op of CFG_BOP_GET \<Rightarrow> cfg_batch_get_module_mem env r | CFG_BOP_SET \<Rightarrow> cfg_batch_set_module_mem env r | _ \<Rightarrow> unknown)
      | Item_module_gpio r \<Rightarrow> (case op of CFG_BOP_GET \<Rightarrow> cfg_batch_get_module_gpio env r | CFG_BOP_SET \<Rightarrow> cfg_batch_set_module_gpio env r | _ \<Rightarrow> unknown)
      | Item_server_status \<Rightarrow> (case op of CFG_BOP_GET \<Rightarrow> cfg_batch_get_server_status | _ \<Rightarrow> unknown)
      | Item_server_config r \<Rightarrow> (case op of CFG_BOP_GET \<Rightarrow> cfg_batch_get_server_config | CFG_BOP_SET \<Rightarrow> cfg_batch_set_server_config r | _ \<Rightarrow> unknown)
      | Item_NOT_SET \<Rightarrow> cfg_error_resp CFG_EC_UNKNOWN_BATCH_REQUEST op)"

text \<open>The requests of the stream, read until the client ends it.\<close>

fun CfgBatch :: "'x cfg_env \<Rightarrow> CfgBatchRequest list \<Rightarrow> ('x SmartnicConfigImpl, CfgBatchResponse) rpc" where
  "CfgBatch env [] s = Inr (s, [])"
| "CfgBatch env (req # reqs) s =
     (case cfg_batch_request env req s of Inl e \<Rightarrow> Inl e
      | Inr (s1, rs1) \<Rightarrow> map_sum id (\<lambda>(s2, rs2). (s2, rs1 @ rs2)) (CfgBatch env reqs s1))"

end
