(* ===== verification/Cfg_Agent.thy ===== *)
theory Cfg_Agent
  imports Cfg_Batch P4_Agent
begin

text \<open>
  \<^verbatim>\<open>sn-cfg/src/agent/agent.cpp\<close>: the construction and destruction of the agent.  Its authentication and the lists of its
  command line are those of \<^verbatim>\<open>P4_Agent\<close>, which both agents have; \<open>Cfg_Run\<close> has the start of its server.
\<close>

subsection \<open>Construction\<close>

text \<open>The BARs of the devices by their bus id, the clocks at the start, and the value of uninitialised memory.\<close>

record 'x cfg_start_env =
  cse_agent :: "'x cfg_env"
  cse_map_bar2 :: "string \<Rightarrow> 'x esnet_smartnic_bar2 option"
  cse_server :: "server_clock stats_env"
  cse_wall :: "timespec option"
  cse_mono :: "timespec option"
  cse_clock :: server_clock
  cse_junk :: "64 word"

definition domain_seconds :: "DeviceStatsDomain \<Rightarrow> nat" where
  "domain_seconds d = (case d of COUNTERS \<Rightarrow> 1 | MONITORS \<Rightarrow> 10 | MODULES \<Rightarrow> 20)"

definition domain_enabled :: "nat set \<Rightarrow> DeviceStatsDomain \<Rightarrow> bool" where
  "domain_enabled flags d \<longleftrightarrow> CTRL_STATS_FLAG_DOMAIN d \<in> flags"

definition cfg_new_device :: "string \<Rightarrow> 'x esnet_smartnic_bar2 \<Rightarrow> 'x CfgDevice" where
  "cfg_new_device bus_id bar2 =
     \<lparr>cd_bus_id = bus_id, cd_bar2 = bar2, cd_nhosts = 2, cd_nports = 2,
      cd_domains = (\<lambda>d. stats_domain_alloc \<lparr>dspec_name = bus_id, dspec_interval_ms = domain_seconds d * 1000\<rparr>),
      cd_zones = (\<lambda>_. [])\<rparr>"

text \<open>The parts of a device are initialised in this order.\<close>

definition init_parts :: "'x cfg_env \<Rightarrow> nat set \<Rightarrow> 'x CfgDevice \<Rightarrow> agent_stop + 'x CfgDevice" where
  "init_parts env flags dev =
     (case cfg_init_device env flags dev of Inl e \<Rightarrow> Inl e
      | Inr d1 \<Rightarrow>
     (case init_host (ce_bar env) flags d1 of Inl e \<Rightarrow> Inl e
      | Inr d2 \<Rightarrow>
     (case init_module env flags d2 of Inl e \<Rightarrow> Inl e
      | Inr d3 \<Rightarrow>
     (case init_port (ce_bar env) flags d3 of Inl e \<Rightarrow> Inl e
      | Inr d4 \<Rightarrow> init_switch (ce_bar env) flags d4))))"

fun start_domains ::
  "'x cfg_env \<Rightarrow> nat set \<Rightarrow> DeviceStatsDomain list \<Rightarrow> 'x CfgDevice \<Rightarrow> agent_stop + 'x CfgDevice" where
  "start_domains env flags [] dev = Inr dev"
| "start_domains env flags (sdom # rest) dev =
     (if \<not> domain_enabled flags sdom then start_domains env flags rest dev
      else case stats_result (stats_domain_clear_metrics (ce_stats env) (None :: unit stats_clear_filter option) ()
               (cd_domains dev sdom) (cd_bar2 dev)) of Inl e \<Rightarrow> Inl e
      | Inr (d, h, _) \<Rightarrow>
          start_domains env flags rest (dev\<lparr>cd_bar2 := h, cd_domains := (cd_domains dev)(sdom := stats_domain_start d)\<rparr>))"

definition start_device :: "'x cfg_start_env \<Rightarrow> nat set \<Rightarrow> string \<Rightarrow> agent_stop + 'x CfgDevice" where
  "start_device se flags bus_id =
     (case cse_map_bar2 se bus_id of None \<Rightarrow> Inl Stop_Exit
      | Some bar2 \<Rightarrow>
        (case init_parts (cse_agent se) flags (cfg_new_device bus_id bar2) of Inl e \<Rightarrow> Inl e
         | Inr dev \<Rightarrow> start_domains (cse_agent se) flags NDOMAINS dev))"

fun start_devices :: "'x cfg_start_env \<Rightarrow> nat set \<Rightarrow> string list \<Rightarrow> agent_stop + 'x CfgDevice list" where
  "start_devices se flags [] = Inr []"
| "start_devices se flags (b # bs) =
     (case start_device se flags b of Inl e \<Rightarrow> Inl e
      | Inr dev \<Rightarrow> map_sum id ((#) dev) (start_devices se flags bs))"

definition SmartnicConfigImpl_new ::
  "'x cfg_start_env \<Rightarrow> string list \<Rightarrow> string list \<Rightarrow> string list \<Rightarrow> agent_stop + 'x SmartnicConfigImpl" where
  "SmartnicConfigImpl_new se bus_ids debug_flags stats_flags_disable =
     (let (dflags, sflags) = cfg_init_server_debug debug_flags stats_flags_disable in
      case start_devices se sflags bus_ids of Inl e \<Rightarrow> Inl e
      | Inr devs \<Rightarrow>
        (case cfg_init_server (cse_agent se) (cse_junk se) (cse_wall se) (cse_mono se)
                \<lparr>cfg_devices = devs, cfg_debug_flags = dflags, cfg_stats_flags = sflags, cfg_clock = cse_clock se,
                 cfg_server_domain = stats_domain_alloc \<lparr>dspec_name = ''sn-cfg'', dspec_interval_ms = 1000\<rparr>,
                 cfg_server_zone = None\<rparr> of Inl e \<Rightarrow> Inl e
         | Inr s \<Rightarrow>
           (case stats_result (stats_domain_clear_metrics (cse_server se) (None :: unit stats_clear_filter option) ()
                   (cfg_server_domain s) (cfg_clock s)) of Inl e \<Rightarrow> Inl e
            | Inr (d, c, _) \<Rightarrow> Inr (s\<lparr>cfg_server_domain := stats_domain_start d, cfg_clock := c\<rparr>))))"

subsection \<open>Destruction\<close>

definition deinit_parts :: "'x CfgDevice \<Rightarrow> agent_stop + 'x CfgDevice" where
  "deinit_parts dev =
     (case cfg_deinit_device dev of Inl e \<Rightarrow> Inl e
      | Inr d1 \<Rightarrow>
     (case deinit_host d1 of Inl e \<Rightarrow> Inl e
      | Inr d2 \<Rightarrow>
     (case deinit_module d2 of Inl e \<Rightarrow> Inl e
      | Inr d3 \<Rightarrow>
     (case deinit_port d3 of Inl e \<Rightarrow> Inl e
      | Inr d4 \<Rightarrow> deinit_switch d4))))"

fun free_domains :: "DeviceStatsDomain list \<Rightarrow> 'x CfgDevice \<Rightarrow> agent_stop + 'x CfgDevice" where
  "free_domains [] dev = Inr dev"
| "free_domains (sdom # rest) dev =
     (case stats_result (stats_domain_free (cd_domains dev sdom) (cd_bar2 dev)) of Inl e \<Rightarrow> Inl e
      | Inr (d, h, _) \<Rightarrow> free_domains rest (dev\<lparr>cd_bar2 := h\<rparr>))"

definition cfg_free_device :: "'x CfgDevice \<Rightarrow> agent_stop + unit" where
  "cfg_free_device dev =
     (case deinit_parts dev of Inl e \<Rightarrow> Inl e
      | Inr dev' \<Rightarrow> map_sum id (\<lambda>_. ()) (free_domains NDOMAINS dev'))"

fun cfg_free_devices :: "'x CfgDevice list \<Rightarrow> agent_stop + unit" where
  "cfg_free_devices [] = Inr ()"
| "cfg_free_devices (dev # devs) = (case cfg_free_device dev of Inl e \<Rightarrow> Inl e | Inr _ \<Rightarrow> cfg_free_devices devs)"

definition SmartnicConfigImpl_delete :: "'x SmartnicConfigImpl \<Rightarrow> agent_stop + unit" where
  "SmartnicConfigImpl_delete s =
     (case cfg_deinit_server s of Inl e \<Rightarrow> Inl e
      | Inr s1 \<Rightarrow>
        (case stats_result (stats_domain_free (cfg_server_domain s1) (cfg_clock s1)) of Inl e \<Rightarrow> Inl e
         | Inr _ \<Rightarrow> cfg_free_devices (rev (cfg_devices s1))))"

end
