(* ===== verification/Cfg_Steady.thy ===== *)
theory Cfg_Steady
  imports Cfg_Agent Opennic_Stats_Props
begin

text \<open>
  What the requests of the configuration agent leave alone: the parts of a device, the zones of its domains and whether
  these are collected.  \<open>steady_handler\<close> is the contract of a handler for a device that may change its registers
  and the values of its metrics only; every handler of the agent is an instance of it.
\<close>

subsection \<open>Zones of a domain\<close>

definition zone_state :: "'h stats_domain \<Rightarrow> nat \<Rightarrow> (bool \<times> bool \<times> 32 word) option" where
  "zone_state d z = map_option (\<lambda>zone. (zone_enabled zone, zone_attached zone, zone_ref_count zone)) (dom_heap d z)"

definition same_control :: "'h stats_domain \<Rightarrow> 'h stats_domain \<Rightarrow> bool" where
  "same_control d d' \<longleftrightarrow>
     dom_zones d' = dom_zones d \<and> dom_running d' = dom_running d \<and> (\<forall>z. zone_state d' z = zone_state d z)"

lemma same_control_refl [simp]: "same_control d d"
  by (simp add: same_control_def)

lemma same_control_trans: "same_control d d' \<Longrightarrow> same_control d' d'' \<Longrightarrow> same_control d d''"
  by (simp add: same_control_def)

lemma zones_wf_state:
  "zones_wf d \<longleftrightarrow> distinct (dom_zones d) \<and>
     (\<forall>z \<in> set (dom_zones d). \<exists>on r. zone_state d z = Some (on, True, r) \<and> r \<noteq> - 1)"
  by (auto simp: zones_wf_def zone_state_def)

lemma same_control_wf: "same_control d d' \<Longrightarrow> zones_wf d' \<longleftrightarrow> zones_wf d"
  by (simp add: same_control_def zones_wf_state)

lemma replaced_blocks_same:
  "dom_heap d z = Some zone \<Longrightarrow> same_control d (heap_update z (Some (zone\<lparr>zone_blocks := bs\<rparr>)) d)"
  by (auto simp: same_control_def zone_state_def)

lemma zone_body_same: "zone_body g z d h a = Inr (d', h', a', l) \<Longrightarrow> same_control d d'"
  by (auto simp: zone_body_def replaced_blocks_same split: option.splits sum.splits)

lemma run_zones_same:
  assumes "\<And>z d h a d' h' a' l. body z d h a = Inr (d', h', a', l) \<Longrightarrow> same_control d d'"
  shows "run_zones body zs d h a = Inr (d', h', a') \<Longrightarrow> same_control d d'"
  by (induction zs arbitrary: d h a) (auto split: sum.splits if_splits dest!: assms intro: same_control_trans)

lemma clear_same:
  assumes "zones_wf d" and "stats_domain_clear_metrics env flt c d h = Some (Inr (d', h', c'))"
  shows "same_control d d'"
proof (rule run_zones_same)
  show "run_zones (clear_body env flt) (dom_zones d) d h c = Inr (d', h', c')"
    using assms domain_loops_run(4) [OF assms(1), of env flt c h] by simp
  show "same_control d1 d2" if "clear_body env flt z d1 h1 a = Inr (d2, h2, a', l)" for z d1 h1 a d2 h2 a' l
    using that clear_loop.body_blocks [OF refl, of env flt z d1 h1 a] zone_body_same by metis
qed

lemma for_each_same:
  assumes "zones_wf d" and "stats_domain_for_each_metric cb d h a = Some (Inr (d', h', a'))"
  shows "same_control d d'"
proof (rule run_zones_same)
  show "run_zones (with_zone (for_each_step (dspec_name (dom_spec d)) cb)) (dom_zones d) d h (0, a) = Inr (d', h', a')"
    using assms domain_loops_run(2) [OF assms(1), of cb h a] by simp
  show "same_control d1 d2" if "with_zone (for_each_step n cb) z d1 h1 x = Inr (d2, h2, y, l)" for n z d1 h1 x d2 h2 y l
    using that with_zone_body zone_body_same by metis
qed

lemma clear_zone_same:
  "stats_zone_clear_metrics env flt c z d h = Inr (c', d', h') \<Longrightarrow> same_control d d'"
  by (auto simp: stats_zone_clear_metrics_def Let_def replaced_blocks_same split: option.splits sum.splits prod.splits)

subsection \<open>Requests that leave the control alone\<close>

text \<open>What a request other than for the flags may change of a device: registers, and values of metrics.\<close>

definition steady :: "'x CfgDevice \<Rightarrow> 'x CfgDevice \<Rightarrow> bool" where
  "steady dev dev' \<longleftrightarrow> ((\<forall>sdom. zones_wf (cd_domains dev sdom)) \<longrightarrow>
     cd_bus_id dev' = cd_bus_id dev \<and> cd_nhosts dev' = cd_nhosts dev \<and> cd_nports dev' = cd_nports dev \<and>
     cd_zones dev' = cd_zones dev \<and> (\<forall>sdom. same_control (cd_domains dev sdom) (cd_domains dev' sdom)))"

lemma steady_refl [simp]: "steady dev dev"
  by (simp add: steady_def)

lemma steady_trans: "steady dev dev' \<Longrightarrow> steady dev' dev'' \<Longrightarrow> steady dev dev''"
  unfolding steady_def by (metis same_control_wf same_control_trans)

lemma steady_bar2 [simp]:
  "steady dev (dev\<lparr>cd_bar2 := h\<rparr>)" "steady dev (map_regs f dev)" "steady dev (put_cms c dev)" "steady dev (put_port_cmac p m dev)"
  by (simp_all add: steady_def map_regs_def put_cms_def put_port_cmac_def)

definition steady_agent :: "'x SmartnicConfigImpl \<Rightarrow> 'x SmartnicConfigImpl \<Rightarrow> bool" where
  "steady_agent s s' \<longleftrightarrow>
     list_all2 steady (cfg_devices s) (cfg_devices s') \<and> cfg_stats_flags s' = cfg_stats_flags s"

lemma steady_agent_refl [simp]: "steady_agent s s"
  by (simp add: steady_agent_def list_all2_same)

lemma steady_agent_trans: "steady_agent s s' \<Longrightarrow> steady_agent s' s'' \<Longrightarrow> steady_agent s s''"
  unfolding steady_agent_def using list_all2_trans [of steady steady steady] steady_trans by (metis (no_types, lifting))

lemma for_each_id_related:
  assumes "\<And>s. R s s" and "\<And>a b c. R a b \<Longrightarrow> R b c \<Longrightarrow> R a c"
    and "\<And>i s s' rs. body i s = Inr (s', rs) \<Longrightarrow> R s s'"
  shows "for_each_id body is s = Inr (s', rs) \<Longrightarrow> R s s'"
proof (induction "is" arbitrary: s rs)
  case (Cons i "is")
  then obtain s1 rs1 rs2 where "body i s = Inr (s1, rs1)" "for_each_id body is s1 = Inr (s', rs2)"
    by (auto split: sum.splits)
  then show ?case using assms(2) [OF assms(3)] Cons.IH by blast
qed (simp add: assms(1))

lemma for_range_related:
  assumes "\<And>s. R s s" and "\<And>a b c. R a b \<Longrightarrow> R b c \<Longrightarrow> R a c"
    and "\<And>i s s' rs. body i s = Inr (s', rs) \<Longrightarrow> R s s'"
    and "for_range req n invalid body s = Inr (s', rs)"
  shows "R s s'"
  using assms(4) for_each_id_related [of R body, OF assms(1-3)] assms(1)
  by (auto simp: for_range_def split: option.splits)

locale steady_handler =
  fixes body :: "nat \<Rightarrow> ('x CfgDevice, 'r) rpc"
  assumes body_steady: "body i dev = Inr (dev', rs) \<Longrightarrow> steady dev dev'"
begin

lemma on_device:
  assumes "on_cfg_device body i devs = Inr (devs', rs)"
  shows "list_all2 steady devs devs'"
proof -
  obtain d where "body i (devs ! i) = Inr (d, rs)" "devs' = devs[i := d]"
    using assms by (auto simp: on_cfg_device_def split: sum.splits)
  then show ?thesis using body_steady [of i "devs ! i" d rs]
    by (cases "i < length devs") (auto simp: list_all2_conv_all_nth nth_list_update list_all2_same list_update_beyond)
qed

lemma agent:
  assumes "for_cfg_devices req invalid body s = Inr (s', rs)"
  shows "steady_agent s s'"
proof -
  obtain devs where devs: "for_range req (length (cfg_devices s)) invalid (on_cfg_device body) (cfg_devices s) = Inr (devs, rs)"
    "s' = s\<lparr>cfg_devices := devs\<rparr>"
    using assms by (auto simp: for_cfg_devices_def split: sum.splits)
  have "list_all2 steady (cfg_devices s) devs"
  proof (rule for_range_related [of "list_all2 steady", OF _ _ _ devs(1)])
    show "list_all2 steady a c" if "list_all2 steady a b" "list_all2 steady b c" for a b c :: "'x CfgDevice list"
      using list_all2_trans [of steady steady steady, OF steady_trans that] .
  qed (auto simp: list_all2_same on_device)
  then show ?thesis using devs(2) by (simp add: steady_agent_def)
qed

end

text \<open>A handler for the hosts, ports or modules of a device is one for the device.\<close>

locale steady_part_handler =
  fixes body :: "nat \<Rightarrow> nat \<Rightarrow> ('x CfgDevice, 'r) rpc"
  assumes part_steady: "body dev_id i dev = Inr (dev', rs) \<Longrightarrow> steady dev dev'"
begin

lemma range: "for_range req n invalid (body dev_id) dev = Inr (dev', rs) \<Longrightarrow> steady dev dev'"
  by (rule for_range_related [of steady "body dev_id"]) (auto intro: steady_trans part_steady)

end

sublocale steady_part_handler \<subseteq> hosts: steady_handler "for_hosts req invalid body" for req invalid
  by unfold_locales (auto simp: for_hosts_def intro: range)

sublocale steady_part_handler \<subseteq> ports: steady_handler "for_ports req invalid body" for req invalid
  by unfold_locales (auto simp: for_ports_def intro: range)

sublocale steady_part_handler \<subseteq> modules: steady_handler "for_modules req invalid body" for req invalid
  by unfold_locales (auto simp: for_modules_def intro: range)

text \<open>Handlers of requests that come with a configuration, and of those for the memories of modules.\<close>

lemma with_config_steady:
  assumes "\<And>c. steady_handler (body c)" and "for_cfg_devices_with config req invalid missing body s = Inr (s', rs)"
  shows "steady_agent s s'"
  using assms(2) steady_handler.agent [OF assms(1)] by (auto simp: for_cfg_devices_with_def split: if_splits option.splits)

lemma on_present_steady:
  assumes "on_present_module env is_range resp act m dev = Inr (dev', rs)"
    and "\<And>d err x d'. act d = Inr (err, x, d') \<Longrightarrow> steady d d'"
  shows "steady dev dev'"
  using assms(1) steady_trans [OF steady_bar2(3) assms(2)]
  by (auto simp: on_present_module_def Let_def split: prod.splits if_splits sum.splits)

lemma map_sum_Inr_iff [simp]: "map_sum f g x = Inr y \<longleftrightarrow> (\<exists>a. x = Inr a \<and> y = g a)"
  by (cases x) auto

lemma mem_devices_steady:
  assumes "\<And>count. steady_part_handler (body count)"
  shows "mem_devices req checked body ds devs = Inr (devs', rs) \<Longrightarrow> list_all2 steady devs devs'"
proof (induction ds arbitrary: devs rs)
  case Nil
  then show ?case by (simp add: list_all2_same)
next
  case (Cons d ds)
  consider rs' where "mem_devices req checked body ds devs = Inr (devs', rs')" | "devs' = devs"
    | count dev' rs1 rs2 where "for_modules req (\<lambda>dev_id. mem_response dev_id 0 EC_INVALID_MODULE_ID None) (body count) d (devs ! d)
          = Inr (dev', rs1)" "mem_devices req checked body ds (devs[d := dev']) = Inr (devs', rs2)"
    using Cons.prems by (auto simp: map_sum_Inr_iff split: if_splits sum.splits)
  then show ?case
  proof cases
    case 3
    have "steady (devs ! d) dev'" using 3(1) by (auto simp: for_modules_def intro: steady_part_handler.range [OF assms])
    then have "list_all2 steady devs (devs[d := dev'])"
      by (cases "d < length devs") (auto simp: list_all2_conv_all_nth nth_list_update list_all2_same list_update_beyond)
    from list_all2_trans [of steady steady steady, OF steady_trans this Cons.IH [OF 3(2)]] show ?thesis .
  qed (use Cons.IH in \<open>auto simp: list_all2_same\<close>)
qed

lemma module_mem_steady:
  assumes "\<And>count. steady_part_handler (body count)" and "module_mem_request req checked body s = Inr (s', rs)"
  shows "steady_agent s s'"
proof (cases "mmreq_dev_id req > int (length (cfg_devices s)) - 1")
  case False
  then show ?thesis using assms(2) mem_devices_steady [of body, OF assms(1)]
    by (auto simp: module_mem_request_def Let_def map_sum_Inr_iff steady_agent_def simp del: mem_devices.simps)
qed (use assms(2) in \<open>simp add: module_mem_request_def\<close>)

lemma steady_domain:
  assumes "zones_wf (cd_domains dev sdom) \<Longrightarrow> same_control (cd_domains dev sdom) d"
  shows "steady dev (dev\<lparr>cd_bar2 := h, cd_domains := (cd_domains dev)(sdom := d)\<rparr>)"
  using assms by (simp add: steady_def)

lemma stats_result_Inr [simp]: "stats_result r = Inr x \<longleftrightarrow> r = Some (Inr x)"
  by (auto simp: stats_result_def split: option.splits sum.splits)

lemma zone_stats_steady: "zone_stats env filters do_clear kind i dev = Inr (dev', ms) \<Longrightarrow> steady dev dev'"
  by (auto simp: zone_stats_def cfg_clear_stats_zone_def split: sum.splits if_splits intro!: steady_domain clear_zone_same)

lemma domains_stats_steady: "domains_stats env filters do_clear doms ms dev = Inr (dev', ms') \<Longrightarrow> steady dev dev'"
proof (induction doms arbitrary: dev ms)
  case (Cons sdom doms)
  obtain dev1 ms1 where "(if do_clear then map_sum id (\<lambda>dev'. (dev', ms)) (cfg_clear_stats_domain env filters sdom dev)
      else cfg_get_stats_domain env filters sdom ms dev) = Inr (dev1, ms1)" and rest: "steady dev1 dev'"
    using Cons by (auto split: sum.splits)
  then have "steady dev dev1"
    by (auto simp: cfg_clear_stats_domain_def cfg_get_stats_domain_def split: if_splits sum.splits prod.splits
        intro!: steady_domain dest: clear_same for_each_same)
  from steady_trans [OF this rest] show ?case .
qed simp

lemma add_card_info_steady: "add_card_info env dev = Inr (err, ci, dev') \<Longrightarrow> steady dev dev'"
  by (auto simp: add_card_info_def read_card_info_def split: option.splits sum.splits prod.splits)

interpretation device_info: steady_handler "cfg_device_info_body env" for env
  by unfold_locales
     (auto simp: cfg_device_info_body_def Let_def split: option.split_asm sum.splits prod.splits dest: add_card_info_steady)

interpretation device_status: steady_handler device_status_body
  by unfold_locales (auto simp: device_status_body_def split: sum.splits)

interpretation get_host_config: steady_part_handler "get_host_config_body env" for env
  by unfold_locales (auto simp: get_host_config_body_def split: prod.splits)

interpretation set_host_config: steady_part_handler "set_host_config_body env config" for env config
  by unfold_locales (auto simp: set_host_config_body_def write_host_config_def Let_def split: prod.splits if_splits option.splits
      intro: steady_trans [OF steady_bar2(1) steady_bar2(2)])

interpretation host_stats: steady_part_handler "host_stats_body env filters do_clear" for env filters do_clear
  by unfold_locales (auto simp: host_stats_body_def split: sum.splits intro: zone_stats_steady)

interpretation get_port_config: steady_part_handler "get_port_config_body env" for env
  by unfold_locales (auto simp: get_port_config_body_def split: prod.splits)

interpretation set_port_config: steady_part_handler "set_port_config_body env config" for env config
  by unfold_locales (auto simp: set_port_config_body_def write_port_config_def Let_def split: prod.splits if_splits option.splits
      intro: steady_trans [OF steady_bar2(4) steady_bar2(2)])

interpretation port_status: steady_part_handler "port_status_body env" for env
  by unfold_locales (auto simp: port_status_body_def split: prod.splits option.splits)

interpretation port_stats: steady_part_handler "port_stats_body env filters do_clear" for env filters do_clear
  by unfold_locales (auto simp: port_stats_body_def split: sum.splits intro: zone_stats_steady)

interpretation get_switch_config: steady_handler "get_switch_config_body env" for env
  by unfold_locales (auto simp: get_switch_config_body_def split: prod.splits)

interpretation set_switch_config: steady_handler "set_switch_config_body env config" for env config
  by unfold_locales (auto simp: set_switch_config_body_def split: prod.splits)

interpretation switch_stats: steady_handler "switch_stats_body env filters do_clear" for env filters do_clear
  by unfold_locales (auto simp: switch_stats_body_def split: sum.splits intro: zone_stats_steady)

lemma for_cmacs_steady: "for_cmacs f ps dev = (ok, dev') \<Longrightarrow> steady dev dev'"
  by (induction ps arbitrary: dev) (auto split: option.splits intro: steady_trans [OF steady_bar2(4)])

lemma defaults_steady:
  assumes "set_defaults_one_to_one env dev = (err, dev')"
  shows "steady dev dev'"
proof -
  obtain ok1 d1 where 1: "for_cmacs (\<lambda>c. cmac_disable (ce_cmac_layout env) (cmac_loopback_disable c)) [0..<cd_nports dev] dev = (ok1, d1)"
    by fastforce
  define d2 where "d2 = map_regs (switch_set_defaults_one_to_one (ce_layout env)) d1"
  obtain ok2 bar2 where 2: "default_hosts (ce_layout env) [0..<cd_nhosts dev] (cd_bar2 d2) = (ok2, bar2)" by fastforce
  define d3 where "d3 = d2\<lparr>cd_bar2 := bar2\<rparr>"
  obtain ok3 d4 where 3: "for_cmacs (\<lambda>c. snd (cmac_enable (ce_cmac_layout env) (cmac_rsfec_enable (ce_cmac_layout env) c)))
      [0..<cd_nports dev] d3 = (ok3, d4)" by fastforce
  have "dev' \<in> {d1, d3, d4}"
    using assms by (auto simp: set_defaults_one_to_one_def Let_def 1 2 3 d2_def [symmetric] d3_def [symmetric] split: if_splits)
  moreover have "steady dev d1" using 1 by (rule for_cmacs_steady)
  moreover from this have "steady dev d3" unfolding d3_def d2_def using steady_trans steady_bar2(1,2) by metis
  moreover from this have "steady dev d4" using for_cmacs_steady [OF 3] steady_trans by metis
  ultimately show ?thesis by blast
qed

interpretation defaults: steady_handler "set_defaults_body env profile" for env profile
  by unfold_locales (auto simp: set_defaults_body_def split: prod.splits DefaultsProfile.splits intro: defaults_steady)

interpretation stats: steady_handler "cfg_stats_body env filters do_clear" for env filters do_clear
  by unfold_locales (auto simp: cfg_stats_body_def split: sum.splits intro: domains_stats_steady)

interpretation get_gpio: steady_part_handler "get_module_gpio_body env" for env
  by unfold_locales (auto simp: get_module_gpio_body_def Let_def split: prod.splits)

interpretation set_gpio: steady_part_handler "set_module_gpio_body env gpio" for env gpio
  by unfold_locales (auto simp: set_module_gpio_body_def split: prod.splits)

interpretation module_info: steady_part_handler "get_module_info_body env is_range" for env is_range
  by unfold_locales (auto simp: get_module_info_body_def split: prod.splits option.splits elim!: on_present_steady)

interpretation module_status: steady_part_handler "get_module_status_body env is_range" for env is_range
  by unfold_locales (auto simp: get_module_status_body_def elim!: on_present_steady)

interpretation get_mem: steady_part_handler "\<lambda>dev_id m. on_present_module env is_range (resp dev_id m) (get_module_mem_act env offset page count m) m"
  for env is_range resp offset page count
  by unfold_locales
     (auto simp: get_module_mem_act_def split: prod.splits option.splits if_splits elim!: on_present_steady)

interpretation set_mem: steady_part_handler "\<lambda>dev_id m. on_present_module env is_range (resp dev_id m) (set_module_mem_act env mem count m) m"
  for env is_range resp mem count
  by unfold_locales (auto simp: set_module_mem_act_def split: prod.splits elim!: on_present_steady)

lemma cfg_wrapped_Inr: "cfg_wrapped op item f s = Inr (s', rs) \<Longrightarrow> \<exists>rs'. f s = Inr (s', rs')"
  by (auto simp: cfg_wrapped_def)

lemma requests_steady:
  "cfg_get_device_info env d s = Inr (s', rs1) \<Longrightarrow> steady_agent s s'"
  "get_device_status d s = Inr (s', rs2) \<Longrightarrow> steady_agent s s'"
  "get_host_config env q3 s = Inr (s', rs3) \<Longrightarrow> steady_agent s s'"
  "set_host_config env q3 s = Inr (s', rs3) \<Longrightarrow> steady_agent s s'"
  "get_or_clear_host_stats env q4 c s = Inr (s', rs4) \<Longrightarrow> steady_agent s s'"
  "get_port_config env q5 s = Inr (s', rs5) \<Longrightarrow> steady_agent s s'"
  "set_port_config env q5 s = Inr (s', rs5) \<Longrightarrow> steady_agent s s'"
  "get_port_status env q6 s = Inr (s', rs6) \<Longrightarrow> steady_agent s s'"
  "get_or_clear_port_stats env q7 c s = Inr (s', rs7) \<Longrightarrow> steady_agent s s'"
  "get_switch_config env q8 s = Inr (s', rs8) \<Longrightarrow> steady_agent s s'"
  "set_switch_config env q8 s = Inr (s', rs8) \<Longrightarrow> steady_agent s s'"
  "get_or_clear_switch_stats env q9 c s = Inr (s', rs9) \<Longrightarrow> steady_agent s s'"
  "set_defaults env q10 s = Inr (s', rs10) \<Longrightarrow> steady_agent s s'"
  "cfg_get_or_clear_stats env q11 c s = Inr (s', rs11) \<Longrightarrow> steady_agent s s'"
  "get_module_info env q12 s = Inr (s', rs12) \<Longrightarrow> steady_agent s s'"
  "get_module_status env q13 s = Inr (s', rs13) \<Longrightarrow> steady_agent s s'"
  "get_module_mem env q14 s = Inr (s', rs14) \<Longrightarrow> steady_agent s s'"
  "set_module_mem env q14 s = Inr (s', rs14) \<Longrightarrow> steady_agent s s'"
  "get_module_gpio env q15 s = Inr (s', rs15) \<Longrightarrow> steady_agent s s'"
  "set_module_gpio env q15 s = Inr (s', rs15) \<Longrightarrow> steady_agent s s'"
  "cfg_get_server_status s = Inr (s', rs16) \<Longrightarrow> steady_agent s s'"
  "cfg_get_server_config s = Inr (s', rs17) \<Longrightarrow> steady_agent s s'"
  unfolding cfg_get_device_info_def get_device_status_def get_host_config_def set_host_config_def get_or_clear_host_stats_def
    get_port_config_def set_port_config_def get_port_status_def get_or_clear_port_stats_def get_switch_config_def
    set_switch_config_def get_or_clear_switch_stats_def set_defaults_def cfg_get_or_clear_stats_def get_module_info_def
    get_module_status_def get_module_mem_def set_module_mem_def get_module_gpio_def set_module_gpio_def Let_def
  by (erule device_info.agent device_status.agent get_host_config.hosts.agent host_stats.hosts.agent get_port_config.ports.agent
      port_status.ports.agent port_stats.ports.agent get_switch_config.agent switch_stats.agent defaults.agent stats.agent
      module_info.modules.agent module_status.modules.agent get_gpio.modules.agent set_gpio.modules.agent
      with_config_steady [rotated] module_mem_steady [rotated] |
      (rule set_host_config.hosts.steady_handler_axioms set_port_config.ports.steady_handler_axioms
         set_switch_config.steady_handler_axioms get_mem.steady_part_handler_axioms set_mem.steady_part_handler_axioms) |
      (simp add: cfg_get_server_status_def cfg_get_server_config_def))+

lemma batch_request_steady:
  assumes "cfg_batch_request env req s = Inr (s', rs)"
  shows "steady_agent s s' \<or> (\<exists>config rs'. cfg_set_server_config config s = Inr (s', rs'))"
proof -
  note defs = cfg_batch_get_device_info_def cfg_batch_get_device_status_def cfg_batch_get_host_config_def
    cfg_batch_set_host_config_def cfg_batch_get_host_stats_def cfg_batch_clear_host_stats_def cfg_batch_get_port_config_def
    cfg_batch_set_port_config_def cfg_batch_get_port_status_def cfg_batch_get_port_stats_def cfg_batch_clear_port_stats_def
    cfg_batch_get_switch_config_def cfg_batch_set_switch_config_def cfg_batch_get_switch_stats_def
    cfg_batch_clear_switch_stats_def cfg_batch_set_defaults_def cfg_batch_get_stats_def cfg_batch_clear_stats_def
    cfg_batch_get_module_info_def cfg_batch_get_module_status_def cfg_batch_get_module_mem_def cfg_batch_set_module_mem_def
    cfg_batch_get_module_gpio_def cfg_batch_set_module_gpio_def cfg_batch_get_server_status_def
    cfg_batch_get_server_config_def cfg_batch_set_server_config_def
  show ?thesis
  proof (cases "cbreq_item req")
    case Item_NOT_SET
    then show ?thesis using assms by (simp add: cfg_batch_request_def cfg_error_resp_def)
  qed (use assms in \<open>auto simp: cfg_batch_request_def Let_def defs cfg_error_resp_def split: CfgBatchOperation.splits
         dest!: cfg_wrapped_Inr dest: requests_steady\<close>)
qed

end
