(* ===== verification/Cfg_Control_Props.thy ===== *)
theory Cfg_Control_Props
  imports Cfg_Steady Cfg_Sample
begin

text \<open>
  Which statistics of a card are collected.  Every zone belongs to one kind, a zone is enabled exactly
  if the flag of its kind is set, and a domain is running exactly if its flag is set.  No request but the
  one that changes the flags touches this, and that one keeps it; the construction of the agent
  establishes it.
\<close>

subsection \<open>The flags and the collection\<close>

definition zone_ids :: "'x CfgDevice \<Rightarrow> DeviceStatsZone \<Rightarrow> nat list" where
  "zone_ids dev kind = map ds_zone (cd_zones dev kind)"

definition zone_on :: "'h stats_domain \<Rightarrow> nat \<Rightarrow> bool" where
  "zone_on d z \<longleftrightarrow> (case dom_heap d z of Some zone \<Rightarrow> zone_enabled zone | None \<Rightarrow> False)"

text \<open>Each zone of a domain is of one kind, and is on if the kind is one of \<open>flags\<close>; \<open>run\<close> are the domains that run.\<close>

definition controlled :: "(DeviceStatsDomain \<Rightarrow> bool) \<Rightarrow> nat set \<Rightarrow> 'x CfgDevice \<Rightarrow> bool" where
  "controlled run flags dev \<longleftrightarrow>
     (\<forall>sdom. zones_wf (cd_domains dev sdom) \<and> dom_running (cd_domains dev sdom) = run sdom) \<and>
     (\<forall>kind. \<forall>z \<in> set (zone_ids dev kind).
        z \<in> set (dom_zones (cd_domains dev (domain_of_zone kind))) \<and>
        zone_on (cd_domains dev (domain_of_zone kind)) z = (CTRL_STATS_FLAG_ZONE kind \<in> flags)) \<and>
     (\<forall>sdom. \<forall>z \<in> set (dom_zones (cd_domains dev sdom)).
        \<exists>!kind. domain_of_zone kind = sdom \<and> z \<in> set (zone_ids dev kind))"

abbreviation running_flags :: "nat set \<Rightarrow> DeviceStatsDomain \<Rightarrow> bool" where
  "running_flags flags sdom \<equiv> CTRL_STATS_FLAG_DOMAIN sdom \<in> flags"

lemma zone_on_state: "zone_on d z = (case zone_state d z of None \<Rightarrow> False | Some (on, rest) \<Rightarrow> on)"
  by (cases "dom_heap d z") (simp_all add: zone_on_def zone_state_def)

lemma zone_on_same: "same_control d d' \<Longrightarrow> zone_on d' z = zone_on d z"
  by (simp add: same_control_def zone_on_state)

lemma controlled_steady:
  assumes "controlled run flags dev" and "steady dev dev'"
  shows "controlled run flags dev'"
proof -
  have st: "cd_zones dev' = cd_zones dev" "\<forall>sdom. same_control (cd_domains dev sdom) (cd_domains dev' sdom)"
    using assms by (simp_all add: steady_def controlled_def)
  then have "\<forall>sdom. dom_zones (cd_domains dev' sdom) = dom_zones (cd_domains dev sdom) \<and>
      dom_running (cd_domains dev' sdom) = dom_running (cd_domains dev sdom) \<and>
      zones_wf (cd_domains dev' sdom) = zones_wf (cd_domains dev sdom) \<and>
      (\<forall>z. zone_on (cd_domains dev' sdom) z = zone_on (cd_domains dev sdom) z)"
    using zone_on_same same_control_wf unfolding same_control_def by blast
  then show ?thesis using assms(1) st(1) unfolding controlled_def zone_ids_def by simp
qed

lemma CTRL_STATS_FLAG_inj:
  "CTRL_STATS_FLAG_DOMAIN a = CTRL_STATS_FLAG_DOMAIN b \<longleftrightarrow> a = b"
  "CTRL_STATS_FLAG_ZONE k = CTRL_STATS_FLAG_ZONE m \<longleftrightarrow> k = m"
  "CTRL_STATS_FLAG_DOMAIN a \<noteq> CTRL_STATS_FLAG_ZONE k"
  by (cases a; cases b; simp add: CTRL_STATS_FLAG_DOMAIN_def; fail | cases k; cases m; simp add: CTRL_STATS_FLAG_ZONE_def; fail |
      cases a; cases k; simp add: CTRL_STATS_FLAG_DOMAIN_def CTRL_STATS_FLAG_ZONE_def)+

text \<open>The flag of a domain or of a kind of zones.\<close>

definition control_flag :: "DeviceStatsDomain + DeviceStatsZone \<Rightarrow> nat" where
  "control_flag what = (case what of Inl sdom \<Rightarrow> CTRL_STATS_FLAG_DOMAIN sdom | Inr kind \<Rightarrow> CTRL_STATS_FLAG_ZONE kind)"

lemma convert_flag: "convert_server_control_stats_flag flag = Some what \<Longrightarrow> nat flag = control_flag what"
  by (auto simp: convert_server_control_stats_flag_def control_flag_def CTRL_STATS_FLAG_DOMAIN_def CTRL_STATS_FLAG_ZONE_def
      split: if_splits)

definition put_flag :: "bool \<Rightarrow> nat \<Rightarrow> nat set \<Rightarrow> nat set" where
  "put_flag enable i flags = (if enable then insert i flags else flags - {i})"

text \<open>What a device is controlled by is seen in its zones and domains only.\<close>

lemma controlled_cong:
  assumes "controlled run flags dev" and "\<And>kind. zone_ids dev' kind = zone_ids dev kind"
    and "\<And>sdom. dom_zones (cd_domains dev' sdom) = dom_zones (cd_domains dev sdom)"
    and "\<And>sdom. zones_wf (cd_domains dev' sdom) \<and> dom_running (cd_domains dev' sdom) = run' sdom"
    and "\<And>kind z. z \<in> set (zone_ids dev kind) \<Longrightarrow>
      zone_on (cd_domains dev' (domain_of_zone kind)) z = (CTRL_STATS_FLAG_ZONE kind \<in> flags')"
  shows "controlled run' flags' dev'"
  using assms(1,4,5) by (simp add: controlled_def assms(2,3))

lemma zone_of_one_kind:
  assumes "controlled run flags dev" and "z \<in> set (zone_ids dev kind)" and "z \<in> set (zone_ids dev kind')"
    and "domain_of_zone kind' = domain_of_zone kind"
  shows "kind' = kind"
  using assms unfolding controlled_def by metis

lemma switch_domain_run:
  assumes "controlled run flags dev"
  shows "controlled (run(sdom := enable)) flags (switch_domain enable sdom dev)"
proof (rule controlled_cong [OF assms])
  let ?d = "(if enable then stats_domain_start else stats_domain_stop) (cd_domains dev sdom)"
  have d: "dom_zones ?d = dom_zones (cd_domains dev sdom)" "dom_heap ?d = dom_heap (cd_domains dev sdom)" "dom_running ?d = enable"
    by (simp_all add: stats_domain_start_def stats_domain_stop_def)
  then have keep: "zones_wf ?d = zones_wf (cd_domains dev sdom)" "zone_on ?d = zone_on (cd_domains dev sdom)"
    by (simp_all add: zones_wf_def zone_on_def fun_eq_iff)
  show "zone_ids (switch_domain enable sdom dev) kind = zone_ids dev kind" for kind
    by (simp add: zone_ids_def switch_domain_def)
  show "dom_zones (cd_domains (switch_domain enable sdom dev) s) = dom_zones (cd_domains dev s)" for s
    using d(1) by (simp add: switch_domain_def)
  show "zones_wf (cd_domains (switch_domain enable sdom dev) s) \<and>
      dom_running (cd_domains (switch_domain enable sdom dev) s) = (run(sdom := enable)) s" for s
    using assms keep(1) d(3) by (auto simp: controlled_def switch_domain_def)
  show "zone_on (cd_domains (switch_domain enable sdom dev) (domain_of_zone kind)) z = (CTRL_STATS_FLAG_ZONE kind \<in> flags)"
    if "z \<in> set (zone_ids dev kind)" for kind z
    using assms keep(2) that by (auto simp: controlled_def switch_domain_def)
qed

lemma controlled_flags:
  assumes "controlled run flags dev" and "\<And>kind. CTRL_STATS_FLAG_ZONE kind \<in> flags' \<longleftrightarrow> CTRL_STATS_FLAG_ZONE kind \<in> flags"
    and "run' = run"
  shows "controlled run' flags' dev"
  using assms(1) by (simp add: controlled_def assms(2,3))

lemma switch_domain_controlled:
  assumes "controlled (running_flags flags) flags dev"
  shows "controlled (running_flags (put_flag enable (CTRL_STATS_FLAG_DOMAIN sdom) flags)) (put_flag enable (CTRL_STATS_FLAG_DOMAIN sdom) flags)
    (switch_domain enable sdom dev)"
  using switch_domain_run [OF assms, of sdom enable] CTRL_STATS_FLAG_inj(3) [of sdom]
  by (elim controlled_flags) (auto simp: put_flag_def CTRL_STATS_FLAG_inj(1) fun_eq_iff dest: sym)

lemma switch_zones_on:
  assumes "zones_wf d" and "set zs \<subseteq> set (dom_zones d)"
  shows "\<exists>d'. switch_zones enable zs d = Inr d' \<and> dom_zones d' = dom_zones d \<and> dom_running d' = dom_running d \<and> zones_wf d' \<and>
    (\<forall>z. zone_on d' z = (if z \<in> set zs then enable else zone_on d z))"
  using assms
proof (induction zs arbitrary: d)
  case (Cons z zs)
  obtain zone where zone: "dom_heap d z = Some zone" "zone_attached zone"
    using Cons.prems by (auto simp: zones_wf_def)
  define d1 where "d1 = heap_update z (Some (zone\<lparr>zone_enabled := enable\<rparr>)) d"
  have step: "(if enable then stats_zone_enable z d else stats_zone_disable z d) = Inr d1"
    using zone by (simp add: d1_def stats_zone_enable_def stats_zone_disable_def map_zone_def)
  have keep: "dom_zones d1 = dom_zones d" "dom_running d1 = dom_running d" "zones_wf d1"
    "zone_on d1 x = (if x = z then enable else zone_on d x)" for x
    using Cons.prems(1) zone by (auto simp: d1_def heap_update_def zones_wf_def zone_on_def)
  from Cons.IH [of d1] Cons.prems(2) keep show ?case by (auto simp: step)
qed simp

lemma switch_device_zones_controlled:
  assumes "controlled (running_flags flags) flags dev"
    and flags'_def: "flags' = put_flag enable (CTRL_STATS_FLAG_ZONE kind) flags"
  shows "\<exists>dev'. switch_device_zones enable kind dev = Inr dev' \<and> controlled (running_flags flags') flags' dev'"
proof -
  let ?s = "domain_of_zone kind"
  have "zones_wf (cd_domains dev ?s)" "set (zone_ids dev kind) \<subseteq> set (dom_zones (cd_domains dev ?s))"
    using assms(1) by (auto simp: controlled_def)
  from switch_zones_on [OF this, of enable] obtain d where d: "switch_zones enable (zone_ids dev kind) (cd_domains dev ?s) = Inr d"
    "dom_zones d = dom_zones (cd_domains dev ?s)" "dom_running d = dom_running (cd_domains dev ?s)" "zones_wf d"
    and on: "\<And>z. zone_on d z = (if z \<in> set (zone_ids dev kind) then enable else zone_on (cd_domains dev ?s) z)"
    by blast
  define dev' where "dev' = dev\<lparr>cd_domains := (cd_domains dev)(?s := d)\<rparr>"
  have "controlled (running_flags flags') flags' dev'"
  proof (rule controlled_cong [OF assms(1)])
    show "zones_wf (cd_domains dev' s) \<and> dom_running (cd_domains dev' s) = running_flags flags' s" for s
      using assms(1) d(3,4) CTRL_STATS_FLAG_inj(3) [of s kind] by (auto simp: controlled_def dev'_def flags'_def put_flag_def)
    show "zone_on (cd_domains dev' (domain_of_zone k)) z = (CTRL_STATS_FLAG_ZONE k \<in> flags')" if z: "z \<in> set (zone_ids dev k)" for k z
    proof -
      have old: "zone_on (cd_domains dev (domain_of_zone k)) z = (CTRL_STATS_FLAG_ZONE k \<in> flags)"
        using assms(1) z by (simp add: controlled_def)
      have "z \<in> set (zone_ids dev kind) \<longleftrightarrow> k = kind" if "domain_of_zone k = ?s"
        using zone_of_one_kind [OF assms(1) z, of kind] z that by metis
      then show ?thesis using old on [of z]
        by (cases "domain_of_zone k = ?s") (auto simp: dev'_def flags'_def put_flag_def CTRL_STATS_FLAG_inj(2))
    qed
  qed (use d(2) in \<open>auto simp: dev'_def zone_ids_def\<close>)
  then show ?thesis using d(1) by (auto simp: switch_device_zones_def Let_def zone_ids_def dev'_def)
qed

subsection \<open>Requests that change the flags\<close>

definition agent_controlled :: "'x SmartnicConfigImpl \<Rightarrow> bool" where
  "agent_controlled s \<longleftrightarrow>
     (\<forall>dev \<in> set (cfg_devices s). controlled (running_flags (cfg_stats_flags s)) (cfg_stats_flags s) dev)"

lemma map_devices_all:
  assumes "\<And>dev. dev \<in> set devs \<Longrightarrow> \<exists>dev'. f dev = Inr dev' \<and> P dev'"
  shows "\<exists>devs'. map_devices f devs = Inr devs' \<and> (\<forall>dev' \<in> set devs'. P dev') \<and> length devs' = length devs"
  using assms
proof (induction devs)
  case (Cons dev devs)
  then obtain dev' devs' where "f dev = Inr dev'" "P dev'" "map_devices f devs = Inr devs'"
    "\<forall>dev' \<in> set devs'. P dev'" "length devs' = length devs" by fastforce
  then show ?case by auto
qed simp

definition known_flag :: "int \<Rightarrow> bool" where
  "known_flag flag \<longleftrightarrow> convert_server_control_stats_flag flag \<noteq> None"

definition put_flags :: "bool \<Rightarrow> int list \<Rightarrow> nat set \<Rightarrow> nat set" where
  "put_flags enable fs flags = (if enable then flags \<union> nat ` set fs else flags - nat ` set fs)"

lemma apply_flag_controlled:
  assumes "agent_controlled s"
  shows "\<exists>s'. apply_server_control_stats_flag enable flag s =
      Inr (if known_flag flag then CFG_EC_OK else EC_SERVER_INVALID_CONTROL_STATS_FLAG, s') \<and> agent_controlled s' \<and>
    cfg_stats_flags s' = (if known_flag flag then put_flag enable (nat flag) (cfg_stats_flags s) else cfg_stats_flags s) \<and>
    cfg_debug_flags s' = cfg_debug_flags s \<and> length (cfg_devices s') = length (cfg_devices s)"
proof (cases "convert_server_control_stats_flag flag")
  case None
  then show ?thesis using assms by (simp add: apply_server_control_stats_flag_def known_flag_def)
next
  case (Some what)
  define flags' where "flags' = put_flag enable (nat flag) (cfg_stats_flags s)"
  let ?switch = "case what of Inl sdom \<Rightarrow> (\<lambda>dev. Inr (switch_domain enable sdom dev)) | Inr kind \<Rightarrow> switch_device_zones enable kind"
  have "\<exists>dev'. ?switch dev = Inr dev' \<and> controlled (running_flags flags') flags' dev'" if "dev \<in> set (cfg_devices s)" for dev
    using assms that switch_domain_controlled [of "cfg_stats_flags s" dev enable]
      switch_device_zones_controlled [of "cfg_stats_flags s" dev _ enable, OF _ refl] convert_flag [OF Some]
    by (cases what) (auto simp: agent_controlled_def flags'_def control_flag_def)
  from map_devices_all [of _ ?switch, OF this] obtain devs where "map_devices ?switch (cfg_devices s) = Inr devs"
    "\<forall>dev \<in> set devs. controlled (running_flags flags') flags' dev" "length devs = length (cfg_devices s)" by blast
  then show ?thesis
    by (simp add: apply_server_control_stats_flag_def Some known_flag_def Let_def agent_controlled_def flags'_def put_flag_def)
qed

lemma apply_flags_controlled:
  assumes "agent_controlled s"
  shows "\<exists>s'. apply_stats_flags enable fs s =
      Inr (if list_all known_flag fs then CFG_EC_OK else EC_SERVER_INVALID_CONTROL_STATS_FLAG, s') \<and> agent_controlled s' \<and>
    cfg_stats_flags s' = put_flags enable (takeWhile known_flag fs) (cfg_stats_flags s) \<and>
    cfg_debug_flags s' = cfg_debug_flags s \<and> length (cfg_devices s') = length (cfg_devices s)"
  using assms
proof (induction fs arbitrary: s)
  case (Cons flag fs)
  obtain s1 where s1: "apply_server_control_stats_flag enable flag s =
      Inr (if known_flag flag then CFG_EC_OK else EC_SERVER_INVALID_CONTROL_STATS_FLAG, s1)" "agent_controlled s1"
    "cfg_stats_flags s1 = (if known_flag flag then put_flag enable (nat flag) (cfg_stats_flags s) else cfg_stats_flags s)"
    "cfg_debug_flags s1 = cfg_debug_flags s" "length (cfg_devices s1) = length (cfg_devices s)"
    using apply_flag_controlled [OF Cons.prems] by blast
  show ?case
  proof (cases "known_flag flag")
    case True
    obtain s2 where "apply_stats_flags enable fs s1 =
        Inr (if list_all known_flag fs then CFG_EC_OK else EC_SERVER_INVALID_CONTROL_STATS_FLAG, s2)" "agent_controlled s2"
      "cfg_stats_flags s2 = put_flags enable (takeWhile known_flag fs) (cfg_stats_flags s1)"
      "cfg_debug_flags s2 = cfg_debug_flags s1" "length (cfg_devices s2) = length (cfg_devices s1)"
      using Cons.IH [OF s1(2)] by blast
    then show ?thesis using s1 True by (auto simp: put_flags_def put_flag_def)
  qed (use s1 in \<open>auto simp: put_flags_def\<close>)
qed (simp add: put_flags_def)

text \<open>The debug flags of a request.\<close>

lemma change_debug_flags_prefix:
  "change_debug_flags enable fs flags =
     (if list_all CfgServerDebugFlag_IsValid fs then CFG_EC_OK else CFG_EC_SERVER_INVALID_DEBUG_FLAG,
      put_flags enable (takeWhile CfgServerDebugFlag_IsValid fs) flags)"
  by (induction fs arbitrary: flags) (auto simp: put_flags_def)

text \<open>The two lists of a configuration, those of a message that is not set being empty.\<close>

definition flag_lists :: "(int list \<times> int list) option \<Rightarrow> int list \<times> int list" where
  "flag_lists flags = (case flags of None \<Rightarrow> ([], []) | Some l \<Rightarrow> l)"

definition lists_ok :: "(int \<Rightarrow> bool) \<Rightarrow> int list \<times> int list \<Rightarrow> bool" where
  "lists_ok ok l \<longleftrightarrow> list_all ok (fst l) \<and> list_all ok (snd l)"

definition put_lists :: "(int \<Rightarrow> bool) \<Rightarrow> int list \<times> int list \<Rightarrow> nat set \<Rightarrow> nat set" where
  "put_lists ok l flags =
     (let flags1 = put_flags True (takeWhile ok (fst l)) flags in
      if list_all ok (fst l) then put_flags False (takeWhile ok (snd l)) flags1 else flags1)"

lemma write_debug_flags_lists:
  "write_debug_flags dbg s =
     (if lists_ok CfgServerDebugFlag_IsValid (flag_lists dbg) then CFG_EC_OK else CFG_EC_SERVER_INVALID_DEBUG_FLAG,
      s\<lparr>cfg_debug_flags := put_lists CfgServerDebugFlag_IsValid (flag_lists dbg) (cfg_debug_flags s)\<rparr>)"
  by (cases dbg) (auto simp: write_debug_flags_def lists_ok_def put_lists_def flag_lists_def change_debug_flags_prefix Let_def put_flags_def
      split: prod.splits)

lemma write_stats_flags_controlled:
  assumes "agent_controlled s"
  shows "\<exists>s'. write_stats_flags stats s =
      Inr (if lists_ok known_flag (flag_lists stats) then CFG_EC_OK else EC_SERVER_INVALID_CONTROL_STATS_FLAG, s') \<and> agent_controlled s' \<and>
    cfg_stats_flags s' = put_lists known_flag (flag_lists stats) (cfg_stats_flags s) \<and>
    cfg_debug_flags s' = cfg_debug_flags s \<and> length (cfg_devices s') = length (cfg_devices s)"
proof (cases stats)
  case None
  then show ?thesis using assms by (simp add: write_stats_flags_def flag_lists_def lists_ok_def put_lists_def put_flags_def)
next
  case (Some l)
  obtain enables disables where l: "l = (enables, disables)" by fastforce
  obtain s1 where s1: "apply_stats_flags True enables s =
      Inr (if list_all known_flag enables then CFG_EC_OK else EC_SERVER_INVALID_CONTROL_STATS_FLAG, s1)" "agent_controlled s1"
    "cfg_stats_flags s1 = put_flags True (takeWhile known_flag enables) (cfg_stats_flags s)"
    "cfg_debug_flags s1 = cfg_debug_flags s" "length (cfg_devices s1) = length (cfg_devices s)"
    using apply_flags_controlled [OF assms] by blast
  obtain s2 where s2: "apply_stats_flags False disables s1 =
      Inr (if list_all known_flag disables then CFG_EC_OK else EC_SERVER_INVALID_CONTROL_STATS_FLAG, s2)" "agent_controlled s2"
    "cfg_stats_flags s2 = put_flags False (takeWhile known_flag disables) (cfg_stats_flags s1)"
    "cfg_debug_flags s2 = cfg_debug_flags s1" "length (cfg_devices s2) = length (cfg_devices s1)"
    using apply_flags_controlled [OF s1(2)] by blast
  show ?thesis
    using s1 s2 by (simp add: Some l write_stats_flags_def flag_lists_def lists_ok_def put_lists_def)
qed

lemma server_config_agent_controlled:
  assumes "agent_controlled s"
  shows "\<exists>s' rs. cfg_set_server_config config s = Inr (s', rs) \<and> agent_controlled s'"
proof -
  let ?s1 = "s\<lparr>cfg_debug_flags := put_lists CfgServerDebugFlag_IsValid (flag_lists (csc_debug config)) (cfg_debug_flags s)\<rparr>"
  have "agent_controlled ?s1" using assms by (simp add: agent_controlled_def)
  from write_stats_flags_controlled [OF this, of "csc_control_stats config"] this show ?thesis
    by (fastforce simp: cfg_set_server_config_def write_debug_flags_lists Let_def)
qed

subsection \<open>Construction\<close>

text \<open>What the construction of a zone does to its domain.\<close>

definition adds_zone :: "nat \<Rightarrow> bool \<Rightarrow> 'h stats_domain \<Rightarrow> 'h stats_domain \<Rightarrow> bool" where
  "adds_zone z on d d' \<longleftrightarrow>
     z \<notin> set (dom_zones d) \<and> dom_zones d' = dom_zones d @ [z] \<and> dom_running d' = dom_running d \<and> (zones_wf d \<longrightarrow> zones_wf d') \<and>
     (\<forall>y. zone_on d' y = (if y = z then on else zone_on d y))"

lemma alloc_adds_zone:
  assumes "stats_zone_alloc (new_zone_address d) spec d h = Inr (d', h')"
  shows "adds_zone (new_zone_address d) True d d'"
proof -
  let ?z = "new_zone_address d"
  obtain bs where bs: "alloc_all stats_block_alloc (zspec_blocks spec) = Inr bs"
    using assms by (auto simp: stats_zone_alloc_def split: sum.splits)
  obtain bs1 h1 where at: "attach_blocks (dspec_name (dom_spec d)) (zspec_name spec) bs h = (bs1, h1)" by force
  obtain zone where zone: "dom_heap d' = (dom_heap d)(?z := Some zone)" "zone_attached zone" "zone_enabled zone"
    "zone_ref_count zone = 1" "dom_zones d' = dom_zones d @ [?z]" "dom_running d' = dom_running d"
    using assms by (auto simp: stats_zone_alloc_def bs stats_zone_attach_def at Let_def stats_zone_get_def heap_update_def)
  have "(1 :: 32 word) \<noteq> - 1" by simp
  then show ?thesis
    using zone new_zone_address_fresh [of d] by (auto simp: adds_zone_def zones_wf_def zone_on_def)
qed

lemma disable_adds_zone:
  assumes "adds_zone z True d d1" and "zones_wf d" and "stats_zone_disable z d1 = Inr d2"
  shows "adds_zone z False d d2"
proof -
  have "zones_wf d1" "set [z] \<subseteq> set (dom_zones d1)" using assms(1,2) by (auto simp: adds_zone_def)
  from switch_zones_on [OF this, of False] assms show ?thesis by (auto simp: adds_zone_def)
qed

lemma keep_stats_zone_Inr:
  assumes "adds_zone z True (cd_domains dev (domain_of_zone kind)) d" and "zones_wf (cd_domains dev (domain_of_zone kind))"
    and "keep_stats_zone flags kind name z d h dev = Inr dev'"
  obtains d' where "adds_zone z (CTRL_STATS_FLAG_ZONE kind \<in> flags) (cd_domains dev (domain_of_zone kind)) d'"
    "cd_domains dev' = (cd_domains dev)(domain_of_zone kind := d')"
    "cd_zones dev' = (cd_zones dev)(kind := cd_zones dev kind @ [\<lparr>ds_zone_name = name, ds_zone = z\<rparr>])"
  using assms disable_adds_zone [OF assms(1,2)] by (auto simp: keep_stats_zone_def split: sum.splits if_splits)

lemma keep_stats_zone_controlled:
  assumes inv: "controlled run flags dev" and new: "adds_zone z True (cd_domains dev (domain_of_zone kind)) d"
    and keep: "keep_stats_zone flags kind name z d h dev = Inr dev'"
  shows "controlled run flags dev'"
proof -
  let ?s = "domain_of_zone kind" and ?on = "CTRL_STATS_FLAG_ZONE kind \<in> flags"
  have wf: "zones_wf (cd_domains dev ?s)" using inv by (simp add: controlled_def)
  obtain d' where d': "adds_zone z ?on (cd_domains dev ?s) d'" "cd_domains dev' = (cd_domains dev)(?s := d')"
    "cd_zones dev' = (cd_zones dev)(kind := cd_zones dev kind @ [\<lparr>ds_zone_name = name, ds_zone = z\<rparr>])"
    using keep_stats_zone_Inr [OF new wf keep] .
  have ids: "set (zone_ids dev' k) = set (zone_ids dev k) \<union> (if k = kind then {z} else {})" for k
    using d'(3) by (auto simp: zone_ids_def)
  have zones: "set (dom_zones (cd_domains dev' s)) = set (dom_zones (cd_domains dev s)) \<union> (if s = ?s then {z} else {})" for s
    using d'(1,2) by (auto simp: adds_zone_def)
  have "z \<notin> set (zone_ids dev k)" if "domain_of_zone k = ?s" for k
    using inv d'(1) unfolding controlled_def adds_zone_def that [symmetric] by blast
  then have fresh: "k = kind" if "domain_of_zone k = ?s" "z \<in> set (zone_ids dev' k)" for k
    using that ids [of k] by (auto split: if_splits)
  have "zones_wf (cd_domains dev' s) \<and> dom_running (cd_domains dev' s) = run s" for s
    using inv d'(1,2) wf by (auto simp: controlled_def adds_zone_def)
  moreover have "y \<in> set (dom_zones (cd_domains dev' (domain_of_zone k))) \<and>
      zone_on (cd_domains dev' (domain_of_zone k)) y = (CTRL_STATS_FLAG_ZONE k \<in> flags)" if y: "y \<in> set (zone_ids dev' k)" for k y
  proof (cases "y = z \<and> domain_of_zone k = ?s")
    case True
    then have "k = kind" "y = z" using fresh [of k] y by auto
    then show ?thesis using d'(1,2) by (simp add: adds_zone_def)
  next
    case False
    then have "y \<in> set (zone_ids dev k)" using y ids [of k] by (auto split: if_splits)
    then have "y \<in> set (dom_zones (cd_domains dev (domain_of_zone k))) \<and>
        zone_on (cd_domains dev (domain_of_zone k)) y = (CTRL_STATS_FLAG_ZONE k \<in> flags)" using inv by (simp add: controlled_def)
    then show ?thesis using False d'(1,2) by (auto simp: adds_zone_def)
  qed
  moreover have "\<exists>!k. domain_of_zone k = s \<and> y \<in> set (zone_ids dev' k)" if y: "y \<in> set (dom_zones (cd_domains dev' s))" for s y
  proof (cases "y = z \<and> s = ?s")
    case True
    then show ?thesis using fresh ids [of kind] by auto
  next
    case False
    then have "y \<in> set (dom_zones (cd_domains dev s))" using y zones [of s] by (auto split: if_splits)
    then have "\<exists>!k. domain_of_zone k = s \<and> y \<in> set (zone_ids dev k)" using inv by (simp add: controlled_def)
    moreover have "domain_of_zone k = s \<Longrightarrow> y \<in> set (zone_ids dev' k) \<longleftrightarrow> y \<in> set (zone_ids dev k)" for k
      using False ids [of k] by auto
    ultimately show ?thesis by metis
  qed
  ultimately show ?thesis by (simp add: controlled_def)
qed

text \<open>A step of the construction keeps the control, and the identity and the sizes of the device; it adds zones.\<close>

definition zone_names :: "'x CfgDevice \<Rightarrow> DeviceStatsZone \<Rightarrow> string list" where
  "zone_names dev kind = map ds_zone_name (cd_zones dev kind)"

definition names_of :: "DeviceStatsZone \<Rightarrow> (DeviceStatsZone \<times> string) list \<Rightarrow> string list" where
  "names_of kind new = map snd (filter (\<lambda>n. fst n = kind) new)"

lemma names_of_append [simp]: "names_of kind (xs @ ys) = names_of kind xs @ names_of kind ys"
  by (simp add: names_of_def)

definition extends ::
  "(DeviceStatsDomain \<Rightarrow> bool) \<Rightarrow> nat set \<Rightarrow> (DeviceStatsZone \<times> string) list \<Rightarrow> 'x CfgDevice \<Rightarrow> 'x CfgDevice \<Rightarrow> bool" where
  "extends run flags new dev dev' \<longleftrightarrow>
     (controlled run flags dev \<longrightarrow> controlled run flags dev' \<and>
        cd_bus_id dev' = cd_bus_id dev \<and> cd_nhosts dev' = cd_nhosts dev \<and> cd_nports dev' = cd_nports dev \<and>
        (\<forall>kind. zone_names dev' kind = zone_names dev kind @ names_of kind new))"

lemma extends_refl [simp]: "extends run flags [] dev dev"
  by (simp add: extends_def names_of_def)

lemma extends_trans:
  "extends run flags new1 dev dev' \<Longrightarrow> extends run flags new2 dev' dev'' \<Longrightarrow> extends run flags (new1 @ new2) dev dev''"
  by (simp add: extends_def)

lemma extends_Cons:
  "extends run flags [n] dev dev' \<Longrightarrow> extends run flags ns dev' dev'' \<Longrightarrow> extends run flags (n # ns) dev dev''"
  using extends_trans [of run flags "[n]"] by simp

lemma steady_extends: "steady dev dev' \<Longrightarrow> extends run flags [] dev dev'"
  using controlled_steady [of run flags dev dev']
  by (auto simp: extends_def steady_def controlled_def zone_names_def names_of_def)

lemma steady_extends_trans: "steady dev dev' \<Longrightarrow> extends run flags new dev' dev'' \<Longrightarrow> extends run flags new dev dev''"
  using extends_trans [OF steady_extends] by fastforce

lemma keep_stats_zone_extends:
  assumes "adds_zone z True (cd_domains dev (domain_of_zone kind)) d" and "keep_stats_zone flags kind name z d h dev = Inr dev'"
  shows "extends run flags [(kind, name)] dev dev'"
  using keep_stats_zone_controlled [OF _ assms] assms(2)
  by (auto simp: extends_def keep_stats_zone_def zone_names_def names_of_def split: sum.splits if_splits)

lemma add_stats_zone_extends:
  "add_stats_zone flags kind spec dev = Inr dev' \<Longrightarrow> extends run flags [(kind, zspec_name spec)] dev dev'"
  by (auto simp: add_stats_zone_def Let_def split: sum.splits intro: keep_stats_zone_extends alloc_adds_zone)

lemma zspec_names:
  "zspec_name (qdma_stats_zone_spec be base name) = name"
  "zspec_name (cmac_stats_zone_spec be base name) = name"
  "zspec_name (switch_stats_zone_spec be name bar2) = name"
  "zspec_name (sysmon_stats_zone_spec l fp be base name b) = name"
  by (simp_all add: qdma_stats_zone_spec_def cmac_stats_zone_spec_def switch_stats_zone_spec_def sysmon_stats_zone_spec_def Let_def
      split: prod.splits)

definition zones_named :: "DeviceStatsZone \<Rightarrow> string \<Rightarrow> nat list \<Rightarrow> (DeviceStatsZone \<times> string) list" where
  "zones_named kind name ns = map (\<lambda>n. (kind, name @ dec n)) ns"

lemma init_hosts_extends: "init_hosts be flags hs dev = Inr dev' \<Longrightarrow> extends run flags (zones_named HOST_COUNTERS ''host'' hs) dev dev'"
proof (induction hs arbitrary: dev)
  case (Cons h hs)
  then show ?case
    by (auto simp: zones_named_def zspec_names split: sum.splits if_splits dest!: add_stats_zone_extends [where run = run] intro: extends_Cons)
qed (simp add: zones_named_def)

lemma init_ports_extends: "init_ports be flags ps dev = Inr dev' \<Longrightarrow> extends run flags (zones_named PORT_COUNTERS ''port'' ps) dev dev'"
proof (induction ps arbitrary: dev)
  case (Cons p ps)
  then show ?case
    by (auto simp: zones_named_def zspec_names split: sum.splits if_splits dest!: add_stats_zone_extends [where run = run] intro: extends_Cons)
qed (simp add: zones_named_def)

lemma init_sysmons_extends: "init_sysmons env flags ns dev = Inr dev' \<Longrightarrow> extends run flags (zones_named SYSMON_MONITORS ''sysmon'' ns) dev dev'"
proof (induction ns arbitrary: dev)
  case (Cons n ns)
  then show ?case
    by (auto simp: zones_named_def zspec_names Let_def split: sum.splits dest!: add_stats_zone_extends [where run = run]
        intro: extends_Cons [OF steady_extends_trans [OF steady_bar2(1)]])
qed (simp add: zones_named_def)

lemma init_modules_extends: "init_modules env flags ms dev = Inr dev' \<Longrightarrow> extends run flags (zones_named MODULE_MONITORS ''module'' ms) dev dev'"
proof (induction ms arbitrary: dev)
  case (Cons m ms)
  obtain d h dev1 where step: "cms_module_stats_zone_alloc (ce_cms env) (ce_cms_layout env) (ce_fp env) (new_zone_address (cd_domains dev MODULES))
        (be_offsetof (ce_bar env) ''esnet_smartnic_bar2'' ''cms'') m (''module'' @ dec m) (cd_domains dev MODULES) (cd_bar2 dev) = Inr (Some d, h)"
    "keep_stats_zone flags MODULE_MONITORS (''module'' @ dec m) (new_zone_address (cd_domains dev MODULES)) d h dev = Inr dev1"
    "init_modules env flags ms dev1 = Inr dev'"
    using Cons.prems by (auto simp: Let_def split: sum.splits option.splits)
  have "adds_zone (new_zone_address (cd_domains dev MODULES)) True (cd_domains dev (domain_of_zone MODULE_MONITORS)) d"
    using step(1) by (auto simp: cms_module_stats_zone_alloc_def domain_of_zone_def split: prod.splits if_splits sum.splits intro: alloc_adds_zone)
  from extends_Cons [OF keep_stats_zone_extends [OF this step(2)] Cons.IH [OF step(3)]] show ?case by (simp add: zones_named_def)
qed (simp add: zones_named_def)

lemma init_card_extends:
  assumes "init_card env flags dev = Inr dev'"
  shows "extends run flags [(CARD_MONITORS, ''card'')] dev dev'"
proof -
  obtain c where dev1: "snd (cms_reset (ce_cms env) (ce_cms_layout env) (dev_cms dev)) = c" by blast
  let ?d = "cd_domains (put_cms c dev) MONITORS"
  obtain d h where step: "cms_card_stats_zone_alloc (ce_cms env) (ce_cms_layout env) (ce_fp env) (ce_bar env) (new_zone_address ?d)
      (be_offsetof (ce_bar env) ''esnet_smartnic_bar2'' ''cms'') ''card'' ?d (cd_bar2 (put_cms c dev)) = Inr (Some d, h)"
    "keep_stats_zone flags CARD_MONITORS ''card'' (new_zone_address ?d) d h (put_cms c dev) = Inr dev'"
    using assms dev1 by (auto simp: init_card_def Let_def split: prod.splits sum.splits option.splits if_splits)
  have "adds_zone (new_zone_address ?d) True (cd_domains (put_cms c dev) (domain_of_zone CARD_MONITORS)) d"
    using step(1) by (auto simp: cms_card_stats_zone_alloc_def domain_of_zone_def split: prod.splits if_splits sum.splits intro: alloc_adds_zone)
  from steady_extends_trans [OF steady_bar2(3) keep_stats_zone_extends [OF this step(2)]] show ?thesis .
qed

lemma init_parts_extends:
  assumes "init_parts env flags dev = Inr dev'" and "cd_nhosts dev = 2" and "cd_nports dev = 2"
    and "controlled run flags dev"
  shows "extends run flags (zones_named SYSMON_MONITORS ''sysmon'' [0, 1, 2] @ [(CARD_MONITORS, ''card'')] @
    zones_named HOST_COUNTERS ''host'' [0, 1] @ zones_named MODULE_MONITORS ''module'' [0, 1] @
    zones_named PORT_COUNTERS ''port'' [0, 1] @ [(SWITCH_COUNTERS, ''switch'')]) dev dev'"
proof -
  let ?dev = "dev\<lparr>cd_bar2 := (cd_bar2 dev)\<lparr>sysmon0 := sysmon_master_reset (ce_sysmon_layout env) (sysmon0 (cd_bar2 dev))\<rparr>\<rparr>"
  obtain d0 d1 d2 d3 d4 where d: "init_sysmons env flags [0, 1, 2] ?dev = Inr d0" "init_card env flags d0 = Inr d1"
    "init_host (ce_bar env) flags d1 = Inr d2" "init_module env flags d2 = Inr d3" "init_port (ce_bar env) flags d3 = Inr d4"
    "init_switch (ce_bar env) flags d4 = Inr dev'"
    using assms(1) by (auto simp: init_parts_def cfg_init_device_def Let_def split: sum.splits)
  note e1 = extends_trans [OF steady_extends_trans [OF steady_bar2(1) init_sysmons_extends [OF d(1), of run]] init_card_extends [OF d(2)]]
  have two: "[0..<2] = [0, 1 :: nat]" by (simp add: upt_conv_Cons)
  have h: "init_hosts (ce_bar env) flags [0, 1] d1 = Inr d2"
    using d(3) e1 assms(2-4) by (simp add: init_host_def extends_def two)
  note e2 = extends_trans [OF e1 init_hosts_extends [OF h]]
  have m: "init_modules env flags [0, 1] d2 = Inr d3" using d(4) e2 assms(2-4) by (simp add: init_module_def extends_def two)
  note e3 = extends_trans [OF e2 init_modules_extends [OF m]]
  have p: "init_ports (ce_bar env) flags [0, 1] d3 = Inr d4" using d(5) e3 assms(2-4) by (simp add: init_port_def extends_def two)
  note e4 = extends_trans [OF e3 init_ports_extends [OF p]]
  show ?thesis
    using extends_trans [OF e4 add_stats_zone_extends [OF d(6) [unfolded init_switch_def]]] by (simp add: zspec_names)
qed

lemma start_domains_controlled:
  assumes "start_domains env flags sdoms dev = Inr dev'" and "controlled run flags dev"
  shows "controlled (\<lambda>sdom. run sdom \<or> sdom \<in> set sdoms \<and> domain_enabled flags sdom) flags dev' \<and>
    cd_bus_id dev' = cd_bus_id dev \<and> cd_nhosts dev' = cd_nhosts dev \<and> cd_nports dev' = cd_nports dev \<and> cd_zones dev' = cd_zones dev"
  using assms
proof (induction sdoms arbitrary: dev run)
  case (Cons sdom sdoms)
  show ?case
  proof (cases "domain_enabled flags sdom")
    case False
    have "(\<lambda>x. run x \<or> x \<in> set (sdom # sdoms) \<and> domain_enabled flags x) = (\<lambda>x. run x \<or> x \<in> set sdoms \<and> domain_enabled flags x)"
      using False by auto
    then show ?thesis using Cons.IH [OF _ Cons.prems(2)] Cons.prems(1) False by simp
  next
    case True
    then obtain d h u where step: "stats_domain_clear_metrics (ce_stats env) (None :: unit stats_clear_filter option) ()
        (cd_domains dev sdom) (cd_bar2 dev) = Some (Inr (d, h, u))"
      "start_domains env flags sdoms (dev\<lparr>cd_bar2 := h, cd_domains := (cd_domains dev)(sdom := stats_domain_start d)\<rparr>) = Inr dev'"
      using Cons.prems(1) by (auto split: sum.splits)
    define dev1 where "dev1 = dev\<lparr>cd_bar2 := h, cd_domains := (cd_domains dev)(sdom := d)\<rparr>"
    have st: "steady dev dev1" unfolding dev1_def by (rule steady_domain) (rule clear_same [OF _ step(1)])
    from controlled_steady [OF Cons.prems(2) st] have "controlled run flags dev1" .
    from switch_domain_run [OF this, of sdom True]
    have on: "controlled (run(sdom := True)) flags (switch_domain True sdom dev1)" .
    have "start_domains env flags sdoms (switch_domain True sdom dev1) = Inr dev'"
      using step(2) by (simp add: switch_domain_def dev1_def)
    from Cons.IH [OF this on]
    have "controlled (\<lambda>x. (run(sdom := True)) x \<or> x \<in> set sdoms \<and> domain_enabled flags x) flags dev' \<and>
      cd_bus_id dev' = cd_bus_id dev \<and> cd_nhosts dev' = cd_nhosts dev \<and> cd_nports dev' = cd_nports dev \<and> cd_zones dev' = cd_zones dev"
      by (simp add: switch_domain_def dev1_def)
    moreover have "(\<lambda>x. (run(sdom := True)) x \<or> x \<in> set sdoms \<and> domain_enabled flags x) =
        (\<lambda>x. run x \<or> x \<in> set (sdom # sdoms) \<and> domain_enabled flags x)" using True by auto
    ultimately show ?thesis by simp
  qed
qed simp

subsection \<open>The agent\<close>

text \<open>The zones of a card with two hosts and two ports.\<close>

definition card_zone_names :: "DeviceStatsZone \<Rightarrow> string list" where
  "card_zone_names kind = (case kind of CARD_MONITORS \<Rightarrow> [''card''] | SYSMON_MONITORS \<Rightarrow> [''sysmon0'', ''sysmon1'', ''sysmon2'']
     | HOST_COUNTERS \<Rightarrow> [''host0'', ''host1''] | PORT_COUNTERS \<Rightarrow> [''port0'', ''port1''] | SWITCH_COUNTERS \<Rightarrow> [''switch'']
     | MODULE_MONITORS \<Rightarrow> [''module0'', ''module1''])"

definition card_ok :: "'x CfgDevice \<Rightarrow> bool" where
  "card_ok dev \<longleftrightarrow> cd_nhosts dev = 2 \<and> cd_nports dev = 2 \<and> (\<forall>kind. zone_names dev kind = card_zone_names kind)"

definition cfg_agent_ok :: "string list \<Rightarrow> 'x SmartnicConfigImpl \<Rightarrow> bool" where
  "cfg_agent_ok ids s \<longleftrightarrow> agent_controlled s \<and> map cd_bus_id (cfg_devices s) = ids \<and> list_all card_ok (cfg_devices s)"

text \<open>Nothing but registers and statistics changes after the construction.\<close>

definition same_parts :: "'x CfgDevice \<Rightarrow> 'x CfgDevice \<Rightarrow> bool" where
  "same_parts dev dev' \<longleftrightarrow> cd_bus_id dev' = cd_bus_id dev \<and> cd_nhosts dev' = cd_nhosts dev \<and> cd_nports dev' = cd_nports dev \<and>
     cd_zones dev' = cd_zones dev"

lemma same_parts_refl [simp]: "same_parts dev dev" "list_all2 same_parts devs devs"
  by (simp_all add: same_parts_def list_all2_same)

lemma same_parts_trans: "list_all2 same_parts a b \<Longrightarrow> list_all2 same_parts b c \<Longrightarrow> list_all2 same_parts a c"
  using list_all2_trans [of same_parts same_parts same_parts a b c] by (simp add: same_parts_def)

lemma same_parts_ok:
  assumes "list_all2 same_parts devs devs'" and "map cd_bus_id devs = ids" and "list_all card_ok devs"
  shows "map cd_bus_id devs' = ids \<and> list_all card_ok devs'"
  using assms by (induction devs devs' arbitrary: ids rule: list_all2_induct) (auto simp: same_parts_def card_ok_def zone_names_def)

lemma map_devices_same_parts:
  assumes "\<And>dev dev'. f dev = Inr dev' \<Longrightarrow> same_parts dev dev'"
  shows "map_devices f devs = Inr devs' \<Longrightarrow> list_all2 same_parts devs devs'"
  by (induction devs arbitrary: devs') (auto split: sum.splits intro: assms)

lemma apply_flag_same_parts:
  assumes "apply_server_control_stats_flag enable flag s = Inr (err, s')"
  shows "list_all2 same_parts (cfg_devices s) (cfg_devices s')"
proof (cases "convert_server_control_stats_flag flag")
  case (Some what)
  let ?switch = "case what of Inl sdom \<Rightarrow> (\<lambda>dev. Inr (switch_domain enable sdom dev)) | Inr kind \<Rightarrow> switch_device_zones enable kind"
  have "?switch dev = Inr dev' \<Longrightarrow> same_parts dev dev'" for dev dev'
    by (cases what) (auto simp: switch_domain_def switch_device_zones_def Let_def same_parts_def split: sum.splits)
  moreover have "map_devices ?switch (cfg_devices s) = Inr (cfg_devices s')"
    using assms by (auto simp: apply_server_control_stats_flag_def Some Let_def)
  ultimately show ?thesis using map_devices_same_parts by blast
qed (use assms in \<open>simp add: apply_server_control_stats_flag_def\<close>)

lemma apply_flags_same_parts:
  "apply_stats_flags enable fs s = Inr (err, s') \<Longrightarrow> list_all2 same_parts (cfg_devices s) (cfg_devices s')"
  by (induction fs arbitrary: s)
     (auto split: sum.splits if_splits dest!: apply_flag_same_parts intro: same_parts_trans)

lemma set_server_config_same_parts:
  "cfg_set_server_config config s = Inr (s', rs) \<Longrightarrow> list_all2 same_parts (cfg_devices s) (cfg_devices s')"
  by (auto simp: cfg_set_server_config_def write_debug_flags_lists write_stats_flags_def Let_def
      split: if_splits option.splits prod.splits sum.splits dest!: apply_flags_same_parts intro: same_parts_trans)

lemma steady_controlled_parts: "controlled run flags dev \<Longrightarrow> steady dev dev' \<Longrightarrow> same_parts dev dev'"
  by (simp add: controlled_def steady_def same_parts_def)

lemma cfg_agent_ok_steady:
  assumes "cfg_agent_ok ids s" and "steady_agent s s'"
  shows "cfg_agent_ok ids s'"
proof -
  have st: "list_all2 steady (cfg_devices s) (cfg_devices s')" "cfg_stats_flags s' = cfg_stats_flags s"
    using assms(2) by (simp_all add: steady_agent_def)
  have con: "\<forall>dev \<in> set (cfg_devices s). controlled (running_flags (cfg_stats_flags s)) (cfg_stats_flags s) dev"
    using assms(1) by (simp add: cfg_agent_ok_def agent_controlled_def)
  have "list_all2 same_parts (cfg_devices s) (cfg_devices s')"
    using st(1) con by (auto simp: list_all2_conv_all_nth intro!: steady_controlled_parts)
  moreover have "agent_controlled s'"
    using st con by (auto simp: agent_controlled_def list_all2_conv_all_nth set_conv_nth) (metis controlled_steady)
  ultimately show ?thesis using same_parts_ok assms(1) by (auto simp: cfg_agent_ok_def)
qed

lemma cfg_agent_ok_request:
  assumes "cfg_agent_ok ids s" and "cfg_batch_request env req s = Inr (s', rs)"
  shows "cfg_agent_ok ids s'"
  using batch_request_steady [OF assms(2)]
proof
  assume "\<exists>config rs'. cfg_set_server_config config s = Inr (s', rs')"
  then obtain config rs' where set_config: "cfg_set_server_config config s = Inr (s', rs')" by blast
  have "agent_controlled s" using assms(1) by (simp add: cfg_agent_ok_def)
  from server_config_agent_controlled [OF this, of config] set_config have "agent_controlled s'" by auto
  then show ?thesis using same_parts_ok [OF set_server_config_same_parts [OF set_config]] assms(1) by (simp add: cfg_agent_ok_def)
qed (rule cfg_agent_ok_steady [OF assms(1)])

lemma cfg_agent_ok_batch: "CfgBatch env reqs s = Inr (s', rs) \<Longrightarrow> cfg_agent_ok ids s \<Longrightarrow> cfg_agent_ok ids s'"
proof (induction reqs arbitrary: s rs)
  case (Cons req reqs)
  then obtain s1 rs1 rs2 where "cfg_batch_request env req s = Inr (s1, rs1)" "CfgBatch env reqs s1 = Inr (s', rs2)"
    by (auto split: sum.splits)
  then show ?case using Cons.IH cfg_agent_ok_request [OF Cons.prems(2)] by blast
qed simp

lemma new_device_controlled: "controlled (\<lambda>_. False) flags (cfg_new_device b bar2)"
  by (simp add: controlled_def cfg_new_device_def zone_ids_def stats_domain_alloc_def zones_wf_def)

lemma dec_port_numbers: "dec 0 = ''0''" "dec (Suc 0) = ''1''" "dec 1 = ''1''" "dec 2 = ''2''"
  by (simp_all add: dec.simps char_of_def bit_0)

lemma start_device_ok:
  assumes "start_device se flags b = Inr dev"
  shows "controlled (running_flags flags) flags dev \<and> cd_bus_id dev = b \<and> card_ok dev"
proof -
  obtain bar2 dev1 where dev1: "init_parts (cse_agent se) flags (cfg_new_device b bar2) = Inr dev1"
    "start_domains (cse_agent se) flags NDOMAINS dev1 = Inr dev"
    using assms by (auto simp: start_device_def split: option.splits sum.splits)
  have new: "cd_nhosts (cfg_new_device b bar2) = 2" "cd_nports (cfg_new_device b bar2) = 2" "cd_bus_id (cfg_new_device b bar2) = b"
    "zone_names (cfg_new_device b bar2) kind = []" for kind by (simp_all add: cfg_new_device_def zone_names_def)
  note ext = init_parts_extends [OF dev1(1) new(1,2) new_device_controlled, unfolded extends_def, rule_format, OF new_device_controlled]
  have names: "zone_names dev1 kind = card_zone_names kind" for kind
    using ext new by (cases kind) (simp_all add: names_of_def zones_named_def card_zone_names_def dec_port_numbers)
  have run: "(\<lambda>sdom. False \<or> sdom \<in> set NDOMAINS \<and> domain_enabled flags sdom) = running_flags flags"
    using DeviceStatsDomain.exhaust by (auto simp: NDOMAINS_def domain_enabled_def fun_eq_iff)
  have "controlled (\<lambda>_. False) flags dev1" using ext by blast
  from start_domains_controlled [OF dev1(2) this, unfolded run] ext new names show ?thesis
    by (simp add: card_ok_def zone_names_def)
qed

lemma start_devices_ok:
  "start_devices se flags ids = Inr devs \<Longrightarrow>
     (\<forall>dev \<in> set devs. controlled (running_flags flags) flags dev) \<and> map cd_bus_id devs = ids \<and> list_all card_ok devs"
proof (induction ids arbitrary: devs)
  case (Cons b ids)
  then obtain dev devs1 where "start_device se flags b = Inr dev" "start_devices se flags ids = Inr devs1" "devs = dev # devs1"
    by (auto split: sum.splits)
  then show ?case using Cons.IH start_device_ok by fastforce
qed simp

lemma card_info_metrics_steady: "card_info_metrics env devs = Inr (devs', ms) \<Longrightarrow> list_all2 steady devs devs'"
proof (induction devs arbitrary: devs' ms)
  case (Cons dev devs)
  then obtain ci dev' devs1 ms1 where "read_card_info env dev = Inr (Some ci, dev')" "card_info_metrics env devs = Inr (devs1, ms1)"
    "devs' = dev' # devs1" by (auto split: sum.splits option.splits)
  then show ?case using Cons.IH by (auto simp: read_card_info_def split: option.splits)
qed simp

lemma init_server_steady:
  assumes "cfg_init_server env junk wall mclock s = Inr s'"
  shows "steady_agent s s'"
proof -
  obtain devs ms where "card_info_metrics env (cfg_devices s) = Inr (devs, ms)" "cfg_devices s' = devs"
    "cfg_stats_flags s' = cfg_stats_flags s"
    using assms by (auto simp: cfg_init_server_def cfg_init_server_stats_def Let_def split: option.splits sum.splits)
  then show ?thesis using card_info_metrics_steady [of env "cfg_devices s" devs ms] by (simp add: steady_agent_def)
qed

lemma new_agent_ok:
  fixes s :: "'x SmartnicConfigImpl"
  assumes "SmartnicConfigImpl_new se ids debug_flags stats_flags_disable = Inr s"
  shows "cfg_agent_ok ids s"
proof -
  obtain dflags sflags where flags: "cfg_init_server_debug debug_flags stats_flags_disable = (dflags, sflags)" by fastforce
  define s0 where "s0 devs = \<lparr>cfg_devices = devs, cfg_debug_flags = dflags, cfg_stats_flags = sflags, cfg_clock = cse_clock se,
    cfg_server_domain = stats_domain_alloc \<lparr>dspec_name = ''sn-cfg'', dspec_interval_ms = 1000\<rparr>, cfg_server_zone = None\<rparr>" for devs :: "'x CfgDevice list"
  obtain devs s1 where start: "start_devices se sflags ids = Inr devs"
    "cfg_init_server (cse_agent se) (cse_junk se) (cse_wall se) (cse_mono se) (s0 devs) = Inr s1"
    and "cfg_devices s = cfg_devices s1" "cfg_stats_flags s = cfg_stats_flags s1"
    using assms unfolding SmartnicConfigImpl_new_def flags by (auto simp: s0_def split: sum.splits)
  moreover have "cfg_agent_ok ids s1"
  proof (rule cfg_agent_ok_steady [OF _ init_server_steady [OF start(2)]])
    show "cfg_agent_ok ids (s0 devs)" using start_devices_ok [OF start(1)] by (simp add: cfg_agent_ok_def agent_controlled_def s0_def)
  qed
  ultimately show ?thesis by (simp add: cfg_agent_ok_def agent_controlled_def)
qed

end
