(* ===== verification/Cfg_Start_Props.thy ===== *)
theory Cfg_Start_Props
  imports Cfg_Control_Props P4_Agent_Props
begin

text \<open>
  Starting the configuration agent: the statistics of a card can always be constructed when its management
  subsystem responds, and what holds of a running agent.
\<close>

subsection \<open>Metrics that can be allocated\<close>

definition plain_metric :: "stats_metric_spec \<Rightarrow> bool" where
  "plain_metric m \<longleftrightarrow> \<not> STATS_METRIC_FLAG_TEST (mspec_flags m) ARRAY \<and> io_width (mspec_io m) < 31"

definition plain_zone :: "'h stats_zone_spec \<Rightarrow> bool" where
  "plain_zone spec \<longleftrightarrow> (\<forall>b \<in> set (zspec_blocks spec). \<forall>m \<in> set (bspec_metrics b). plain_metric m)"

lemma alloc_all_ok: "(\<And>s. s \<in> set ss \<Longrightarrow> \<exists>m. f s = Inr m) \<Longrightarrow> \<exists>ms. alloc_all f ss = Inr ms"
proof (induction ss)
  case (Cons s ss)
  then obtain m ms where "f s = Inr m" "alloc_all f ss = Inr ms" by (meson list.set_intros)
  then show ?case by simp
qed simp

lemma plain_metric_alloc: "plain_metric m \<Longrightarrow> \<exists>x. stats_metric_alloc m = Inr x"
  by (simp add: plain_metric_def stats_metric_alloc_def int_mask_def Let_def)

lemma plain_zone_alloc:
  assumes "plain_zone spec"
  shows "\<exists>d' h'. stats_zone_alloc z spec d h = Inr (d', h')"
proof -
  have "\<exists>x. stats_block_alloc b = Inr x" if "b \<in> set (zspec_blocks spec)" for b
  proof -
    have "\<exists>ms. alloc_all stats_metric_alloc (bspec_metrics b) = Inr ms"
      using assms that by (intro alloc_all_ok plain_metric_alloc) (auto simp: plain_zone_def)
    then show ?thesis by (auto simp: stats_block_alloc_def)
  qed
  from alloc_all_ok [of "zspec_blocks spec" stats_block_alloc, OF this]
  obtain bs where "alloc_all stats_block_alloc (zspec_blocks spec) = Inr bs" by blast
  then show ?thesis
    by (auto simp: stats_zone_alloc_def stats_zone_attach_def stats_zone_get_def Let_def heap_update_def split: prod.splits)
qed

lemmas plain_defs = plain_metric_def STATS_METRIC_FLAG_TEST_def STATS_METRIC_FLAG_MASK_def

text \<open>The lists of metrics are long: each is a map of one function.\<close>

lemma adc_metrics_plain: "cm \<in> set (concat (map (CMS_CARD_METRIC_ADC be) ps)) \<Longrightarrow> plain_metric (cm_spec cm)"
  by (auto simp: CMS_CARD_METRIC_ADC_def cms_metric_spec_def plain_defs)

lemma card_metric_plain:
  assumes "cm \<in> set (cms_card_metrics be)"
  shows "plain_metric (cm_spec cm)"
  using assms unfolding cms_card_metrics_def set_append
  by (elim UnE adc_metrics_plain) (simp add: CMS_CARD_METRIC_BIT_def cms_metric_spec_def plain_defs)

lemma sysmon_metrics_plain:
  "sm \<in> set (concat (map (SYSMON_METRIC_MIN_MAX be) l1)) \<Longrightarrow> plain_metric (sm_spec sm)"
  "sm \<in> set (map (SYSMON_METRIC be) l2) \<Longrightarrow> plain_metric (sm_spec sm)"
  "sm \<in> set (map (\<lambda>n. SYSMON_METRIC be (f n)) l3) \<Longrightarrow> plain_metric (sm_spec sm)"
  "sm \<in> set (map (SYSMON_METRIC_ALARM be) l4) \<Longrightarrow> plain_metric (sm_spec sm)"
  by (auto simp: SYSMON_METRIC_MIN_MAX_def SYSMON_METRIC_def SYSMON_METRIC_ALARM_def sysmon_metric_spec_def plain_defs
      split: prod.splits)

lemma sysmon_metric_plain: "sm \<in> set (sysmon_metrics be) \<Longrightarrow> plain_metric (sm_spec sm)"
  unfolding sysmon_metrics_def set_append by (elim UnE sysmon_metrics_plain)

lemma module_metrics_plain:
  "m \<in> set (map CMS_MODULE_METRIC_QSFP_GPIO l1) \<Longrightarrow> plain_metric m"
  "m \<in> set (map CMS_MODULE_METRIC_ALARM l2) \<Longrightarrow> plain_metric m"
  "m \<in> set (map CMS_MODULE_METRIC_MONITOR l3) \<Longrightarrow> plain_metric m"
  by (auto simp: CMS_MODULE_METRIC_QSFP_GPIO_def CMS_MODULE_METRIC_ALARM_def CMS_MODULE_METRIC_MONITOR_def module_metric_def plain_defs)

lemma module_metric_plain: "m \<in> set cms_module_metrics \<Longrightarrow> plain_metric m"
  unfolding cms_module_metrics_def set_append by (elim UnE module_metrics_plain)

lemma cmac_metrics_plain:
  "m \<in> set (map (\<lambda>name. CMAC_STATS_COUNTER be name []) l1) \<Longrightarrow> plain_metric m"
  "m \<in> set (map (\<lambda>(name, units). CMAC_STATS_COUNTER be name [f units]) l2) \<Longrightarrow> plain_metric m"
  by (auto simp: CMAC_STATS_COUNTER_def plain_defs)

lemma cmac_metric_plain: "m \<in> set (cmac_stats_metrics be) \<Longrightarrow> plain_metric m"
  unfolding cmac_stats_metrics_def set_append by (elim UnE cmac_metrics_plain)

lemma switch_blocks_plain: "m \<in> set (bspec_metrics (switch_stats_block be base info)) \<Longrightarrow> plain_metric m"
  by (auto simp: switch_stats_block_def switch_stats_metrics_def SWITCH_STATS_COUNTER_def Let_def plain_defs)

lemma zone_specs_plain:
  "plain_zone (qdma_stats_zone_spec be base name)"
  "plain_zone (cmac_stats_zone_spec be base name)"
  "plain_zone (switch_stats_zone_spec be name bar2)"
  "plain_zone (sysmon_stats_zone_spec l fp be base name b)"
  "plain_zone (cms_card_stats_zone_spec hw cl fp be base name profile)"
  "plain_zone (cms_module_stats_zone_spec hw cl fp base cage name)"
proof -
  show "plain_zone (qdma_stats_zone_spec be base name)"
    by (auto simp: plain_zone_def qdma_stats_zone_spec_def cmac_adapter_stats_metrics_def cmac_adapter_metric_def plain_defs)
  show "plain_zone (cmac_stats_zone_spec be base name)"
    by (simp add: plain_zone_def cmac_stats_zone_spec_def cmac_metric_plain)
  show "plain_zone (switch_stats_zone_spec be name bar2)"
    by (auto simp: plain_zone_def switch_stats_zone_spec_def Let_def switch_blocks_plain)
  show "plain_zone (sysmon_stats_zone_spec l fp be base name b)"
    using sysmon_metric_plain by (auto simp: plain_zone_def sysmon_stats_zone_spec_def Let_def plain_metric_def)
  show "plain_zone (cms_card_stats_zone_spec hw cl fp be base name profile)"
    using card_metric_plain by (auto simp: plain_zone_def cms_card_stats_zone_spec_def Let_def plain_metric_def)
  show "plain_zone (cms_module_stats_zone_spec hw cl fp base cage name)"
    by (simp add: plain_zone_def cms_module_stats_zone_spec_def Let_def module_metric_plain)
qed

subsection \<open>A card that responds\<close>

text \<open>The management subsystem always becomes ready.\<close>

definition cms_responds :: "'x cfg_env \<Rightarrow> bool" where
  "cms_responds env \<longleftrightarrow>
     (\<forall>c. fst (cms_reset (ce_cms env) (ce_cms_layout env) c) \<and> fst (cms_reg_map_is_ready (ce_cms env) (ce_cms_layout env) c))"

lemma reg_map_ready:
  assumes "cms_responds env"
  obtains h1 where "on_bar_rest (cms_reg_map_is_ready (ce_cms env) (ce_cms_layout env)) h = (True, h1)"
  using assms by (cases "cms_reg_map_is_ready (ce_cms env) (ce_cms_layout env) (bar_rest h)")
    (auto simp: cms_responds_def on_bar_rest_def dest!: spec [of _ "bar_rest h"])

lemma keep_stats_zone_returns:
  assumes "controlled run flags dev" and "adds_zone z True (cd_domains dev (domain_of_zone kind)) d"
  shows "\<exists>dev'. keep_stats_zone flags kind name z d h dev = Inr dev'"
proof -
  have "zones_wf d" "set [z] \<subseteq> set (dom_zones d)" using assms by (auto simp: adds_zone_def controlled_def)
  from switch_zones_on [OF this, of False] show ?thesis
    by (auto simp: keep_stats_zone_def split: sum.splits)
qed

lemma add_stats_zone_returns:
  assumes "controlled run flags dev" and "plain_zone spec"
  shows "\<exists>dev'. add_stats_zone flags kind spec dev = Inr dev' \<and> controlled run flags dev' \<and> cd_nhosts dev' = cd_nhosts dev \<and>
    cd_nports dev' = cd_nports dev"
proof -
  obtain d h where alloc: "stats_zone_alloc (new_zone_address (cd_domains dev (domain_of_zone kind))) spec
      (cd_domains dev (domain_of_zone kind)) (cd_bar2 dev) = Inr (d, h)" using plain_zone_alloc [OF assms(2)] by blast
  from keep_stats_zone_returns [OF assms(1) alloc_adds_zone [OF alloc]]
  obtain dev' where "add_stats_zone flags kind spec dev = Inr dev'" using alloc by (auto simp: add_stats_zone_def Let_def)
  moreover from add_stats_zone_extends [OF this, of run] assms(1) have "controlled run flags dev' \<and>
    cd_nhosts dev' = cd_nhosts dev \<and> cd_nports dev' = cd_nports dev" by (simp add: extends_def)
  ultimately show ?thesis by blast
qed

text \<open>A step of the construction that returns: it keeps what the next one needs.\<close>

definition returns :: "(DeviceStatsDomain \<Rightarrow> bool) \<Rightarrow> nat set \<Rightarrow> ('x CfgDevice \<Rightarrow> agent_stop + 'x CfgDevice) \<Rightarrow> bool" where
  "returns run flags f \<longleftrightarrow>
     (\<forall>dev. controlled run flags dev \<and> cd_nhosts dev = 2 \<and> cd_nports dev = 2 \<longrightarrow>
        (\<exists>dev'. f dev = Inr dev' \<and> controlled run flags dev' \<and> cd_nhosts dev' = 2 \<and> cd_nports dev' = 2))"

lemma returns_bind:
  fixes f g :: "'x CfgDevice \<Rightarrow> agent_stop + 'x CfgDevice"
  assumes "returns run flags f" and "returns run flags g"
  shows "returns run flags (\<lambda>dev. case f dev of Inl e \<Rightarrow> Inl e | Inr dev' \<Rightarrow> g dev')"
  unfolding returns_def
proof (intro allI impI)
  fix dev :: "'x CfgDevice"
  assume "controlled run flags dev \<and> cd_nhosts dev = 2 \<and> cd_nports dev = 2"
  then obtain dev1 where "f dev = Inr dev1" "controlled run flags dev1 \<and> cd_nhosts dev1 = 2 \<and> cd_nports dev1 = 2"
    using assms(1) unfolding returns_def by blast
  then show "\<exists>dev'. (case f dev of Inl e \<Rightarrow> Inl e | Inr dev1 \<Rightarrow> g dev1) = Inr dev' \<and> controlled run flags dev' \<and>
      cd_nhosts dev' = 2 \<and> cd_nports dev' = 2"
    using assms(2) unfolding returns_def by simp
qed

lemma returns_steady:
  assumes "returns run flags f" and "\<And>dev. steady dev (g dev)"
  shows "returns run flags (\<lambda>dev. f (g dev))"
proof -
  have "returns run flags (\<lambda>dev. Inr (g dev))"
    using steady_extends [OF assms(2), of run flags] by (simp add: returns_def extends_def)
  from returns_bind [OF this assms(1)] show ?thesis by simp
qed

lemma returns_add: "(\<And>dev. plain_zone (spec dev)) \<Longrightarrow> returns run flags (\<lambda>dev. add_stats_zone flags kind (spec dev) dev)"
  unfolding returns_def using add_stats_zone_returns by metis

lemma init_hosts_returns: "set hs \<subseteq> {0, 1} \<Longrightarrow> returns run flags (init_hosts be flags hs)"
proof (induction hs)
  case (Cons h hs)
  then have "h < 2" by auto
  with returns_bind [OF returns_add Cons.IH] Cons.prems show ?case by (simp add: zone_specs_plain)
qed (simp add: returns_def)

lemma init_ports_returns: "set ps \<subseteq> {0, 1} \<Longrightarrow> returns run flags (init_ports be flags ps)"
proof (induction ps)
  case (Cons p ps)
  then have "p < 2" by auto
  with returns_bind [OF returns_add Cons.IH] Cons.prems show ?case by (simp add: zone_specs_plain)
qed (simp add: returns_def)

lemma init_modules_returns:
  assumes "cms_responds env"
  shows "returns run flags (init_modules env flags ms)"
proof (induction ms)
  case (Cons m ms)
  let ?kind = MODULE_MONITORS and ?name = "''module'' @ dec m"
  have "\<exists>dev'. init_modules env flags (m # ms) dev = Inr dev' \<and> controlled run flags dev' \<and> cd_nhosts dev' = 2 \<and> cd_nports dev' = 2"
    if dev: "controlled run flags dev" "cd_nhosts dev = 2" "cd_nports dev = 2" for dev
  proof -
    let ?d = "cd_domains dev MODULES"
    obtain c where ready: "on_bar_rest (cms_reg_map_is_ready (ce_cms env) (ce_cms_layout env)) (cd_bar2 dev) = (True, c)"
      using reg_map_ready [OF assms] .
    obtain d h where alloc: "stats_zone_alloc (new_zone_address ?d) (cms_module_stats_zone_spec (ce_cms env) (ce_cms_layout env) (ce_fp env)
        (be_offsetof (ce_bar env) ''esnet_smartnic_bar2'' ''cms'') m ?name) ?d c = Inr (d, h)"
      using plain_zone_alloc [OF zone_specs_plain(6)] by blast
    have new: "adds_zone (new_zone_address ?d) True (cd_domains dev (domain_of_zone ?kind)) d"
      using alloc_adds_zone [OF alloc] by (simp add: domain_of_zone_def)
    obtain dev1 where keep: "keep_stats_zone flags ?kind ?name (new_zone_address ?d) d h dev = Inr dev1"
      using keep_stats_zone_returns [OF dev(1) new] by blast
    have "init_modules env flags (m # ms) dev = init_modules env flags ms dev1"
      using ready alloc keep by (simp add: Let_def cms_module_stats_zone_alloc_def)
    moreover have "controlled run flags dev1 \<and> cd_nhosts dev1 = 2 \<and> cd_nports dev1 = 2"
      using keep_stats_zone_extends [OF new keep, of run] dev by (simp add: extends_def)
    ultimately show ?thesis using Cons.IH by (simp add: returns_def)
  qed
  then show ?case unfolding returns_def by blast
qed (simp add: returns_def)

lemma init_sysmons_returns: "returns run flags (init_sysmons env flags ns)"
proof (induction ns)
  case (Cons n ns)
  let ?b = "\<lambda>dev. sysmon_sequencer_enable (ce_sysmon_layout env) (sysmon_channels n) 0 (sysmon_block_of n (cd_bar2 dev))"
  show ?case unfolding init_sysmons.simps Let_def
  proof (rule returns_bind [OF _ Cons.IH])
    show "returns run flags (\<lambda>dev. add_stats_zone flags SYSMON_MONITORS (sysmon_stats_zone_spec (ce_sysmon_layout env) (ce_fp env) (ce_bar env)
        (be_offsetof (ce_bar env) ''esnet_smartnic_bar2'' (''sysmon'' @ dec n)) (''sysmon'' @ dec n) (?b dev))
        (dev\<lparr>cd_bar2 := put_sysmon_block n (?b dev) (cd_bar2 dev)\<rparr>))"
      unfolding returns_def
    proof (intro allI impI)
      fix dev :: "'a CfgDevice"
      assume dev: "controlled run flags dev \<and> cd_nhosts dev = 2 \<and> cd_nports dev = 2"
      let ?dev = "dev\<lparr>cd_bar2 := put_sysmon_block n (?b dev) (cd_bar2 dev)\<rparr>"
      have "controlled run flags ?dev" by (rule controlled_steady [OF _ steady_bar2(1)]) (use dev in simp)
      from add_stats_zone_returns [OF this zone_specs_plain(4)] dev
      show "\<exists>dev'. add_stats_zone flags SYSMON_MONITORS (sysmon_stats_zone_spec (ce_sysmon_layout env) (ce_fp env) (ce_bar env)
          (be_offsetof (ce_bar env) ''esnet_smartnic_bar2'' (''sysmon'' @ dec n)) (''sysmon'' @ dec n) (?b dev)) ?dev = Inr dev' \<and>
          controlled run flags dev' \<and> cd_nhosts dev' = 2 \<and> cd_nports dev' = 2" by fastforce
    qed
  qed
qed (simp add: returns_def)

lemma init_card_returns:
  fixes env :: "'x cfg_env"
  assumes "cms_responds env"
  shows "returns run flags (init_card env flags)"
  unfolding returns_def
proof (intro allI impI)
  fix dev :: "'x CfgDevice"
  assume dev: "controlled run flags dev \<and> cd_nhosts dev = 2 \<and> cd_nports dev = 2"
  obtain c where reset: "cms_reset (ce_cms env) (ce_cms_layout env) (dev_cms dev) = (True, c)"
    using assms by (metis cms_responds_def eq_fst_iff)
  let ?dev = "put_cms c dev"
  let ?d = "cd_domains ?dev MONITORS"
  obtain h1 where ready: "on_bar_rest (cms_reg_map_is_ready (ce_cms env) (ce_cms_layout env)) (cd_bar2 ?dev) = (True, h1)"
    using reg_map_ready [OF assms] .
  obtain profile h2 where profile: "on_bar_rest (cms_profile_get (ce_cms env)) h1 = (profile, h2)" by fastforce
  obtain d h where alloc: "stats_zone_alloc (new_zone_address ?d) (cms_card_stats_zone_spec (ce_cms env) (ce_cms_layout env) (ce_fp env)
      (ce_bar env) (be_offsetof (ce_bar env) ''esnet_smartnic_bar2'' ''cms'') ''card'' profile) ?d h2 = Inr (d, h)"
    using plain_zone_alloc [OF zone_specs_plain(5)] by blast
  have new: "adds_zone (new_zone_address ?d) True (cd_domains ?dev (domain_of_zone CARD_MONITORS)) d"
    using alloc_adds_zone [OF alloc] by (simp add: domain_of_zone_def)
  have con: "controlled run flags ?dev" by (rule controlled_steady [OF _ steady_bar2(3)]) (use dev in simp)
  obtain dev' where keep: "keep_stats_zone flags CARD_MONITORS ''card'' (new_zone_address ?d) d h ?dev = Inr dev'"
    using keep_stats_zone_returns [OF con new] by blast
  have "init_card env flags dev = Inr dev'"
    by (simp only: init_card_def cms_card_stats_zone_alloc_def Let_def reset ready profile alloc keep prod.case sum.case option.case
        simp_thms if_True if_False)
  moreover have "controlled run flags dev' \<and> cd_nhosts dev' = 2 \<and> cd_nports dev' = 2"
    using keep_stats_zone_extends [OF new keep, of run, unfolded extends_def, rule_format, OF con] dev by (simp add: put_cms_def)
  ultimately show "\<exists>dev'. init_card env flags dev = Inr dev' \<and> controlled run flags dev' \<and> cd_nhosts dev' = 2 \<and> cd_nports dev' = 2"
    by blast
qed

lemma init_parts_returns:
  assumes "cms_responds env"
  shows "\<exists>dev'. init_parts env flags (cfg_new_device b bar2) = Inr dev'"
proof -
  let ?run = "\<lambda>_ :: DeviceStatsDomain. False" and ?dev = "cfg_new_device b bar2"
  have two: "[0..<2] = [0, 1 :: nat]" by (simp add: upt_conv_Cons)
  have new: "controlled ?run flags ?dev \<and> cd_nhosts ?dev = 2 \<and> cd_nports ?dev = 2"
    using new_device_controlled by (simp add: cfg_new_device_def)
  let ?dev1 = "?dev\<lparr>cd_bar2 := (cd_bar2 ?dev)\<lparr>sysmon0 := sysmon_master_reset (ce_sysmon_layout env) (sysmon0 (cd_bar2 ?dev))\<rparr>\<rparr>"
  have new1: "controlled ?run flags ?dev1 \<and> cd_nhosts ?dev1 = 2 \<and> cd_nports ?dev1 = 2"
    using new controlled_steady [OF _ steady_bar2(1), of ?run flags ?dev] by simp
  obtain d1 where d1: "init_sysmons env flags [0, 1, 2] ?dev1 = Inr d1"
    "controlled ?run flags d1 \<and> cd_nhosts d1 = 2 \<and> cd_nports d1 = 2"
    using init_sysmons_returns [unfolded returns_def, rule_format, OF new1] by blast
  obtain d2 where d2: "init_card env flags d1 = Inr d2" "controlled ?run flags d2 \<and> cd_nhosts d2 = 2 \<and> cd_nports d2 = 2"
    using init_card_returns [OF assms, unfolded returns_def, rule_format, OF d1(2)] by blast
  obtain d3 where d3: "init_host (ce_bar env) flags d2 = Inr d3" "controlled ?run flags d3 \<and> cd_nhosts d3 = 2 \<and> cd_nports d3 = 2"
    using init_hosts_returns [of "[0, 1]", unfolded returns_def, THEN spec, THEN mp, OF _ d2(2)] d2(2)
    by (auto simp: init_host_def two)
  obtain d4 where d4: "init_module env flags d3 = Inr d4" "controlled ?run flags d4 \<and> cd_nhosts d4 = 2 \<and> cd_nports d4 = 2"
    using init_modules_returns [OF assms, unfolded returns_def, rule_format, OF d3(2)] by (auto simp: init_module_def)
  obtain d5 where d5: "init_port (ce_bar env) flags d4 = Inr d5" "controlled ?run flags d5 \<and> cd_nhosts d5 = 2 \<and> cd_nports d5 = 2"
    using init_ports_returns [of "[0, 1]", unfolded returns_def, THEN spec, THEN mp, OF _ d4(2)] d4(2)
    by (auto simp: init_port_def two)
  obtain d6 where "init_switch (ce_bar env) flags d5 = Inr d6"
    using add_stats_zone_returns [OF conjunct1 [OF d5(2)] zone_specs_plain(3), of SWITCH_COUNTERS "ce_bar env" "''switch''" "cd_bar2 d5"]
    by (auto simp: init_switch_def)
  with d1(1) d2(1) d3(1) d4(1) d5(1) show ?thesis
    by (simp add: init_parts_def cfg_init_device_def Let_def)
qed

lemma no_domain_starts: "(\<And>sdom. \<not> domain_enabled flags sdom) \<Longrightarrow> start_domains env flags sdoms dev = Inr dev"
  by (induction sdoms) simp_all

text \<open>The statistics of the server are its own, and one of each card.\<close>

definition server_metric_good :: "stats_metric_spec \<Rightarrow> bool" where
  "server_metric_good m \<longleftrightarrow> spec_elements m = 1 \<and> plain_metric m"

lemma server_metric_good: "server_metric_good (server_metric name type datum labels)"
  by (auto simp: server_metric_good_def server_metric_def spec_elements_def plain_metric_def flag_test_bit STATS_METRIC_FLAG_MASK_def
      bit_push_bit_iff)

lemma card_info_metrics_good: "card_info_metrics env devs = Inr (devs', ms) \<Longrightarrow> \<forall>m \<in> set ms. server_metric_good m"
proof (induction devs arbitrary: devs' ms)
  case (Cons dev devs)
  then obtain m ms1 devs1 ci where "card_info_metrics env devs = Inr (devs1, ms1)" "ms = m # ms1" "card_info_metric dev ci = Inr m"
    by (auto split: sum.splits option.splits)
  then show ?case using Cons.IH server_metric_good by (auto simp: card_info_metric_def split: sum.splits)
qed simp

lemma cfg_server_specs_good:
  assumes "\<forall>m \<in> set ms. server_metric_good m"
  shows "\<forall>b \<in> set (zspec_blocks (cfg_server_zone_spec getenv junk ms)). spec_good b" "plain_zone (cfg_server_zone_spec getenv junk ms)"
  using assms server_metric_good
  by (auto simp: cfg_server_zone_spec_def server_block_def spec_good_def spec_readable_def plain_zone_def server_metric_good_def
      server_status_stats_read_metric_def server_info_stats_read_metric_def)

text \<open>The agent starts when the registers of every card can be mapped, its management subsystem responds and its description can be
  read, and the clock works; here with the collection of statistics disabled.\<close>

lemma new_agent_returns:
  assumes "cms_responds (cse_agent se)" and "\<And>b. \<exists>bar2. cse_map_bar2 se b = Some bar2"
    and "\<And>dev. \<exists>ci dev' m. read_card_info (cse_agent se) dev = Inr (Some ci, dev') \<and> card_info_metric dev ci = Inr m"
    and "cse_wall se = Some w" and "cse_mono se = Some t"
  shows "\<exists>s. SmartnicConfigImpl_new se ids debug_flags [''all''] = Inr s"
proof -
  have "cfg_init_server_debug debug_flags [''all''] = (named_flags cfg_debug_flag_label cfg_known_flags debug_flags, {})"
    by (simp add: cfg_init_server_debug_def)
  then obtain dflags where flags: "cfg_init_server_debug debug_flags [''all''] = (dflags, {})" by blast
  have start: "\<exists>dev. start_device se {} b = Inr dev" for b
  proof -
    obtain bar2 where "cse_map_bar2 se b = Some bar2" using assms(2) by blast
    moreover obtain dev where "init_parts (cse_agent se) {} (cfg_new_device b bar2) = Inr dev"
      using init_parts_returns [OF assms(1)] by blast
    ultimately show ?thesis by (simp add: start_device_def no_domain_starts domain_enabled_def)
  qed
  have "\<exists>devs. start_devices se {} ids = Inr devs"
  proof (induction ids)
    case (Cons b ids)
    then show ?case using start [of b] by auto
  qed simp
  then obtain devs where devs: "start_devices se {} ids = Inr devs" by blast
  have "\<exists>devs' ms. card_info_metrics (cse_agent se) ds = Inr (devs', ms)" for ds
  proof (induction ds)
    case (Cons d ds)
    then show ?case using assms(3) [of d] by fastforce
  qed simp
  then obtain devs' ms where ms: "card_info_metrics (cse_agent se) devs = Inr (devs', ms)" by blast
  have good: "\<forall>m \<in> set ms. server_metric_good m" using card_info_metrics_good [OF ms] .
  define dom :: "server_clock stats_domain" where "dom = stats_domain_alloc \<lparr>dspec_name = ''sn-cfg'', dspec_interval_ms = 1000\<rparr>"
  have dom: "domain_good dom" by (simp add: dom_def domain_good_def zones_wf_def stats_domain_alloc_def domain_zones_def)
  define clock where "clock = (cse_clock se)\<lparr>start_wall := w, start_mono := t\<rparr>"
  obtain d c where alloc: "stats_zone_alloc (new_zone_address dom) (cfg_server_zone_spec (ce_getenv (cse_agent se)) (cse_junk se) ms)
      dom clock = Inr (d, c)" using plain_zone_alloc [OF cfg_server_specs_good(2) [OF good]] by blast
  from zone_alloc_good [OF dom new_zone_address_fresh cfg_server_specs_good(1) [OF good] alloc] have "domain_good d" by blast
  from clear_domain_good [OF this, of "None :: unit stats_clear_filter option" "cse_server se" "()" c]
  obtain d' c' u where "stats_domain_clear_metrics (cse_server se) (None :: unit stats_clear_filter option) () d c = Some (Inr (d', c', u))"
    by auto
  with alloc show ?thesis
    unfolding SmartnicConfigImpl_new_def flags
    by (simp add: devs cfg_init_server_def assms(4,5) cfg_init_server_stats_def ms dom_def clock_def Let_def stats_result_def)
qed

text \<open>A card whose management subsystem is ready and describes it by three empty texts.\<close>

definition ready_cms :: "unit cms_hw" where
  "ready_cms =
     \<lparr>cms_rd = (\<lambda>r c. (if r = status_reg then 0x10000000 else if r = host_status2_reg then 1 else 0, c)), cms_wr = (\<lambda>_ _ c. c),
      cms_mem_rd = (\<lambda>a c. (if a = 0 then 12 else if a = 4 then 0x26000121 else if a = 8 then 0x01280001 else if a = 12 then 0x00012700 else 0, c)),
      cms_mem_wr = (\<lambda>_ _ c. c), cms_usleep = (\<lambda>_ c. c)\<rparr>"

definition example_cfg_start :: "unit cfg_start_env" where
  "example_cfg_start =
     \<lparr>cse_agent = sample_env_of ready_cms, cse_map_bar2 = (\<lambda>_. Some (cd_bar2 sample_device)),
      cse_server = \<lparr>env_double = id, env_mem = (\<lambda>_ _ _. 0), env_clock = (\<lambda>_. 0), env_domain = [], env_zone = []\<rparr>,
      cse_wall = Some \<lparr>tv_sec = 0, tv_nsec = 0\<rparr>, cse_mono = Some \<lparr>tv_sec = 0, tv_nsec = 0\<rparr>,
      cse_clock = \<lparr>start_wall = \<lparr>tv_sec = 0, tv_nsec = 0\<rparr>, start_mono = \<lparr>tv_sec = 0, tv_nsec = 0\<rparr>, now_mono = None\<rparr>, cse_junk = 0\<rparr>"

lemma poll_at_once: "cms_rd hw r c = (v, c) \<Longrightarrow> ok v \<Longrightarrow> cms_poll hw r ok MAX_ITER c = (True, c)"
  by (simp add: MAX_ITER_def numeral_eq_Suc)

lemma ready_cms_registers:
  "cms_rd ready_cms status_reg c = (0x10000000, c)" "cms_rd ready_cms host_status2_reg c = (1, c)"
  "cms_rd ready_cms control_reg c = (0, c)" "cms_rd ready_cms error_reg c = (0, c)" "cms_rd ready_cms host_msg_offset_reg c = (0, c)"
  by (simp_all add: ready_cms_def)

lemma ready_cms_polls:
  "cms_reg_map_is_ready ready_cms sample_cms_layout c = (True, c)"
  "cms_sc_is_ready ready_cms sample_cms_layout c = (True, c)"
  "cms_mailbox_is_ready ready_cms sample_cms_layout c = (True, c)"
  "cms_error_is_cleared ready_cms sample_cms_layout c = (True, c)"
proof -
  have "bf_get (lay_reg_map_ready sample_cms_layout) 1 \<noteq> 0" "bf_get (lay_sat_ctrl_mode sample_cms_layout) 0x10000000 = cms_sc_mode_NORMAL"
    "bf_get (lay_mailbox_msg_status sample_cms_layout) 0 = 0" "bf_get (lay_reset_error_reg sample_cms_layout) 0 = 0" by code_simp+
  then show "cms_reg_map_is_ready ready_cms sample_cms_layout c = (True, c)" "cms_sc_is_ready ready_cms sample_cms_layout c = (True, c)"
    "cms_mailbox_is_ready ready_cms sample_cms_layout c = (True, c)" "cms_error_is_cleared ready_cms sample_cms_layout c = (True, c)"
    by (simp_all add: cms_reg_map_is_ready_def cms_sc_is_ready_def cms_mailbox_is_ready_def cms_error_is_cleared_def
        poll_at_once [OF ready_cms_registers(1)] poll_at_once [OF ready_cms_registers(2)] poll_at_once [OF ready_cms_registers(3)])
qed

lemma ready_cms_responds: "cms_responds (sample_env_of ready_cms)"
  by (simp add: cms_responds_def sample_env_of_def cms_reset_def cms_is_ready_def ready_cms_polls)

lemma ready_cms_mailbox:
  "cms_mailbox_post ready_cms sample_cms_layout cms_mailbox_opcode_CARD_INFO_REQ [] c = (Some 0, c)"
proof -
  have "bf_get (lay_pkt_error sample_cms_layout) 0 = 0" "bf_get (lay_sat_ctrl_err sample_cms_layout) 0 = 0" by code_simp+
  moreover have "cms_wr ready_cms r w c = c" "cms_mem_wr ready_cms a w c = c" for r a w by (simp_all add: ready_cms_def)
  ultimately show ?thesis
    by (simp add: cms_mailbox_post_def MAX_ATTEMPTS_def numeral_eq_Suc ready_cms_polls cms_error_clear_def set_control_def cms_mailbox_get_def
        ready_cms_registers message_errors_def)
qed

text \<open>Its card has a serial number, a revision, a version and a name, all of them empty texts.\<close>

lemma ready_cms_card:
  obtains ci where "cms_card_info_read ready_cms sample_cms_layout (\<lambda>_ old. old) c = Some (Some ci, ())"
    and "ci_serial_number ci = Some 2" "ci_revision ci = Some 5" "ci_sc_version ci = Some 8" "ci_name ci = Some 11"
    and "ci_payload ci = [0x21, 1, 0, 0x26, 1, 0, 0x28, 1, 0, 0x27, 1, 0]"
proof -
  have "case cms_card_info_parse ready_cms (\<lambda>_ old. old) 0 () of (None, _) \<Rightarrow> False
    | (Some ci, _) \<Rightarrow> ci_serial_number ci = Some 2 \<and> ci_revision ci = Some 5 \<and> ci_sc_version ci = Some 8 \<and>
        ci_name ci = Some 11 \<and> ci_payload ci = [0x21, 1, 0, 0x26, 1, 0, 0x28, 1, 0, 0x27, 1, 0]" by code_simp
  then obtain ci where ci: "cms_card_info_parse ready_cms (\<lambda>_ old. old) 0 c = (Some ci, ())" "ci_serial_number ci = Some 2"
    "ci_revision ci = Some 5" "ci_sc_version ci = Some 8" "ci_name ci = Some 11"
    "ci_payload ci = [0x21, 1, 0, 0x26, 1, 0, 0x28, 1, 0, 0x27, 1, 0]"
    by (auto split: prod.splits option.splits)
  obtain profile where "cms_profile_get ready_cms () = (profile, ())" by (cases "cms_profile_get ready_cms ()") auto
  then show thesis using ci that [of "ci\<lparr>ci_profile := profile\<rparr>"] by (simp add: cms_card_info_read_def ready_cms_mailbox)
qed

lemma ready_cms_described:
  "\<exists>ci dev' m. read_card_info (sample_env_of ready_cms) dev = Inr (Some ci, dev') \<and> card_info_metric dev ci = Inr m"
proof -
  obtain ci where "cms_card_info_read ready_cms sample_cms_layout (\<lambda>_ old. old) (dev_cms dev) = Some (Some ci, ())"
    "ci_serial_number ci = Some 2" "ci_revision ci = Some 5" "ci_sc_version ci = Some 8"
    "ci_payload ci = [0x21, 1, 0, 0x26, 1, 0, 0x28, 1, 0, 0x27, 1, 0]"
    by (rule ready_cms_card)
  then show ?thesis
    by (auto simp: read_card_info_def sample_env_of_def card_info_metric_def card_text_def card_info_string_def)
qed

lemma example_starts:
  obtains s where "SmartnicConfigImpl_new example_cfg_start ids debug_flags [''all''] = Inr s"
  using new_agent_returns [of example_cfg_start _ _ ids debug_flags] ready_cms_responds ready_cms_described
  by (auto simp: example_cfg_start_def)

subsection \<open>Properties\<close>

text \<open>Property C19.  From a state in which the zones and domains of every card follow the flags, a request that changes
  the configuration of the server is always answered and leads to such a state again.  It reports an invalid debug flag first, then
  an invalid statistics flag, then success.  The debug flags are changed in any case, up to the first invalid one; the
  statistics flags, and with them the zones and domains of every card, only if all debug flags are valid, again up to the
  first invalid one, those to disable after those to enable.\<close>

theorem server_config_controls_collection:
  assumes "agent_controlled s"
  shows "\<exists>s' err. CfgSetServerConfig config s =
      Inr (s', [\<lparr>cscr_error_code = err, cscr_debug = None, cscr_control_stats = None\<rparr>]) \<and>
    agent_controlled s' \<and> length (cfg_devices s') = length (cfg_devices s) \<and>
    (let dbg = flag_lists (csc_debug config); stats = flag_lists (csc_control_stats config);
         dbg_ok = lists_ok CfgServerDebugFlag_IsValid dbg
     in err = (if \<not> dbg_ok then CFG_EC_SERVER_INVALID_DEBUG_FLAG
               else if \<not> lists_ok known_flag stats then EC_SERVER_INVALID_CONTROL_STATS_FLAG else CFG_EC_OK) \<and>
        cfg_debug_flags s' = put_lists CfgServerDebugFlag_IsValid dbg (cfg_debug_flags s) \<and>
        cfg_stats_flags s' = (if dbg_ok then put_lists known_flag stats (cfg_stats_flags s) else cfg_stats_flags s))"
proof -
  define s1 where "s1 = s\<lparr>cfg_debug_flags := put_lists CfgServerDebugFlag_IsValid (flag_lists (csc_debug config)) (cfg_debug_flags s)\<rparr>"
  have "agent_controlled s1" using assms by (simp add: agent_controlled_def s1_def)
  from write_stats_flags_controlled [OF this, of "csc_control_stats config"] show ?thesis
    using assms by (fastforce simp: CfgSetServerConfig_def cfg_set_server_config_def write_debug_flags_lists Let_def s1_def
      agent_controlled_def)
qed

theorem server_config_controls_collection_witness:
  "\<exists>s s'. SmartnicConfigImpl_new example_cfg_start [''0000:81:00.0'', ''0000:c1:00.0''] [] [''all''] = Inr s \<and>
     CfgSetServerConfig \<lparr>csc_debug = Some ([1], []), csc_control_stats = Some ([1, 30, 99, 2], [1])\<rparr> s =
       Inr (s', [\<lparr>cscr_error_code = EC_SERVER_INVALID_CONTROL_STATS_FLAG, cscr_debug = None, cscr_control_stats = None\<rparr>]) \<and>
     agent_controlled s' \<and> cfg_stats_flags s' = cfg_stats_flags s \<union> {1, 30}"
proof -
  obtain s where s: "SmartnicConfigImpl_new example_cfg_start [''0000:81:00.0'', ''0000:c1:00.0''] [] [''all''] = Inr s"
    by (rule example_starts)
  have "agent_controlled s" using new_agent_ok [OF s] by (simp add: cfg_agent_ok_def)
  from server_config_controls_collection [OF this, of "\<lparr>csc_debug = Some ([1], []), csc_control_stats = Some ([1, 30, 99, 2], [1])\<rparr>"] s
  show ?thesis
    by (fastforce simp: flag_lists_def lists_ok_def put_lists_def put_flags_def known_flag_def convert_server_control_stats_flag_def
        CfgServerDebugFlag_IsValid_def)
qed

text \<open>Property C6.  As long as the agent runs, whatever requests it has served, it has the cards it was started
  with, in that order, each with two hosts, two ports and its eleven zones of statistics by their names; a zone is
  enabled exactly if the flag of its kind is set, a domain runs exactly if its flag is set, and every zone of a domain is of one
  kind.  This holds for every behaviour of the management subsystems and of the registers that can be read.\<close>

theorem running_agent_controlled:
  assumes "SmartnicConfigImpl_new se ids debug_flags stats_flags_disable = Inr s"
    and "CfgBatch env reqs s = Inr (s', responses)"
  shows "agent_controlled s' \<and> map cd_bus_id (cfg_devices s') = ids \<and> list_all card_ok (cfg_devices s')"
  using cfg_agent_ok_batch [OF assms(2) new_agent_ok [OF assms(1)]] by (simp add: cfg_agent_ok_def)

theorem running_agent_controlled_witness:
  "\<exists>s s' responses. SmartnicConfigImpl_new example_cfg_start [''0000:81:00.0'', ''0000:c1:00.0''] [] [''all''] = Inr s \<and>
     CfgBatch (cse_agent example_cfg_start)
       [\<lparr>cbreq_op = CFG_BOP_SET, cbreq_item = Item_server_config \<lparr>csc_debug = None, csc_control_stats = Some ([1, 30], [])\<rparr>\<rparr>] s =
       Inr (s', responses) \<and>
     agent_controlled s' \<and> map cd_bus_id (cfg_devices s') = [''0000:81:00.0'', ''0000:c1:00.0''] \<and> list_all card_ok (cfg_devices s')"
proof -
  obtain s where s: "SmartnicConfigImpl_new example_cfg_start [''0000:81:00.0'', ''0000:c1:00.0''] [] [''all''] = Inr s"
    by (rule example_starts)
  have "agent_controlled s" using new_agent_ok [OF s] by (simp add: cfg_agent_ok_def)
  from server_config_agent_controlled [OF this, of "\<lparr>csc_debug = None, csc_control_stats = Some ([1, 30], [])\<rparr>"]
  obtain s1 rs1 where "CfgBatch (cse_agent example_cfg_start)
       [\<lparr>cbreq_op = CFG_BOP_SET, cbreq_item = Item_server_config \<lparr>csc_debug = None, csc_control_stats = Some ([1, 30], [])\<rparr>\<rparr>] s =
       Inr (s1, rs1)"
    by (auto simp: cfg_batch_request_def cfg_batch_set_server_config_def cfg_wrapped_def)
  with running_agent_controlled [OF s this] s show ?thesis
    by (intro exI [of _ s] exI [of _ s1] exI [of _ rs1]) simp
qed

end
