(* ===== verification/Cfg_Good.thy ===== *)
theory Cfg_Good
  imports Cfg_Start_Props
begin

text \<open>
  The cards of a running configuration agent are in order: besides their zones and flags (\<^verbatim>\<open>Cfg_Control_Props\<close>),
  every metric of theirs can be read, reported and cleared.  The construction of the agent establishes this.
\<close>

subsection \<open>Zones of a card\<close>

text \<open>The registers that metrics are read from without a callback can be read at once.\<close>

definition bar_sizes_ok :: "'x bar_env \<Rightarrow> bool" where
  "bar_sizes_ok be \<longleftrightarrow>
     (\<forall>m \<in> set (cmac_stats_metrics be) \<union> sm_spec ` set (sysmon_metrics be) \<union> cm_spec ` set (cms_card_metrics be).
        io_size (mspec_io m) \<in> {1, 2, 4, 8})"

definition zone_spec_good :: "'h stats_zone_spec \<Rightarrow> bool" where
  "zone_spec_good spec \<longleftrightarrow> (\<forall>b \<in> set (zspec_blocks spec). spec_good b)"

lemma plain_spec_good:
  assumes "plain_zone spec"
    and "\<And>b. b \<in> set (zspec_blocks spec) \<Longrightarrow> (case bspec_read_metric b of Some rd \<Rightarrow> \<forall>h m. length (rd h m 1) = 1
      | None \<Rightarrow> \<forall>m \<in> set (bspec_metrics b). io_size (mspec_io m) \<in> {1, 2, 4, 8})"
  shows "zone_spec_good spec"
  unfolding zone_spec_good_def spec_good_def spec_readable_def
proof (intro ballI)
  fix b m assume b: "b \<in> set (zspec_blocks spec)" and m: "m \<in> set (bspec_metrics b)"
  have "spec_elements m = 1" using assms(1) b m by (simp add: plain_zone_def plain_metric_def spec_elements_def)
  then show "spec_elements m < 2 ^ 30 \<and> (case bspec_read_metric b of
      Some rd \<Rightarrow> \<forall>h ls. length (rd h (m\<lparr>mspec_labels := ls\<rparr>) (spec_elements m)) = spec_elements m
    | None \<Rightarrow> io_size (mspec_io m) \<in> {1, 2, 4, 8})"
    using assms(2) [OF b] m by (auto split: option.splits)
qed

lemma callback_specs_good:
  "zone_spec_good (qdma_stats_zone_spec be base name)"
  "zone_spec_good (switch_stats_zone_spec be name bar2)"
  "zone_spec_good (cms_module_stats_zone_spec hw cl fp base cage name)"
proof -
  show "zone_spec_good (qdma_stats_zone_spec be base name)"
    by (rule plain_spec_good [OF zone_specs_plain(1)])
       (simp add: qdma_stats_zone_spec_def cmac_adapter_stats_read_metric_def Let_def)
  show "zone_spec_good (switch_stats_zone_spec be name bar2)"
    by (rule plain_spec_good [OF zone_specs_plain(3)])
       (auto simp: switch_stats_zone_spec_def switch_stats_block_def switch_stats_read_metric_def Let_def split: if_splits)
  show "zone_spec_good (cms_module_stats_zone_spec hw cl fp base cage name)"
    by (rule plain_spec_good [OF zone_specs_plain(6)])
       (simp add: cms_module_stats_zone_spec_def cms_module_stats_read_metric_def Let_def)
qed

lemma memory_specs_good:
  assumes "bar_sizes_ok be"
  shows "zone_spec_good (cmac_stats_zone_spec be base name)"
    and "zone_spec_good (sysmon_stats_zone_spec l fp be base name b)"
    and "zone_spec_good (cms_card_stats_zone_spec hw cl fp be base name profile)"
proof -
  note sizes = assms [unfolded bar_sizes_ok_def ball_Un ball_simps]
  show "zone_spec_good (cmac_stats_zone_spec be base name)"
    by (rule plain_spec_good [OF zone_specs_plain(2)]) (use sizes in \<open>simp add: cmac_stats_zone_spec_def\<close>)
  show "zone_spec_good (sysmon_stats_zone_spec l fp be base name b)"
    by (rule plain_spec_good [OF zone_specs_plain(4)]) (use sizes in \<open>auto simp: sysmon_stats_zone_spec_def Let_def\<close>)
  show "zone_spec_good (cms_card_stats_zone_spec hw cl fp be base name profile)"
    by (rule plain_spec_good [OF zone_specs_plain(5)]) (use sizes in \<open>auto simp: cms_card_stats_zone_spec_def Let_def\<close>)
qed

text \<open>The callbacks of the zones give each metric the values it has room for, whatever registers the others are read from.\<close>

lemma no_callback_reads_all: "bspec_read_metric b = None \<Longrightarrow> reads_all b"
  by (simp add: reads_all_def fills_def)

lemma good_zone_reads_all: "zone_spec_good spec \<Longrightarrow> list_all reads_all (zspec_blocks spec)"
  by (auto simp: zone_spec_good_def list_all_iff intro: spec_good_reads)

lemma cfg_zones_read_all:
  "list_all reads_all (zspec_blocks (qdma_stats_zone_spec be base name))"
  "list_all reads_all (zspec_blocks (switch_stats_zone_spec be name bar2))"
  "list_all reads_all (zspec_blocks (cms_module_stats_zone_spec hw cl fp base cage name))"
  "list_all reads_all (zspec_blocks (cmac_stats_zone_spec be base name))"
  "list_all reads_all (zspec_blocks (sysmon_stats_zone_spec l fp be base name b))"
  "list_all reads_all (zspec_blocks (cms_card_stats_zone_spec hw cl fp be base name profile))"
  by (simp_all add: good_zone_reads_all callback_specs_good)
     (simp_all add: no_callback_reads_all cmac_stats_zone_spec_def sysmon_stats_zone_spec_def cms_card_stats_zone_spec_def Let_def)

subsection \<open>Domains\<close>

definition domains_good :: "'x CfgDevice \<Rightarrow> bool" where
  "domains_good dev \<longleftrightarrow> (\<forall>sdom. domain_good (cd_domains dev sdom))"

text \<open>Whether a zone is enabled, and whether a domain runs, does not matter.\<close>

lemma domain_good_enable:
  assumes "domain_good d" and "stats_zone_enable z d = Inr d' \<or> stats_zone_disable z d = Inr d'"
  shows "domain_good d'"
proof -
  obtain zone e where "dom_heap d z = Some zone" "d' = heap_update z (Some (zone\<lparr>zone_enabled := e\<rparr>)) d"
    using assms(2) by (auto simp: stats_zone_enable_def stats_zone_disable_def map_zone_def split: option.splits if_splits)
  then show ?thesis
    using assms(1) by (auto simp: domain_good_def zones_wf_def domain_zones_def heap_update_def zone_good_def)
qed

lemma domain_good_switch: "domain_good d \<Longrightarrow> switch_zones enable zs d = Inr d' \<Longrightarrow> domain_good d'"
  by (induction zs arbitrary: d) (auto split: if_splits sum.splits dest: domain_good_enable)

lemma domain_good_run [simp]:
  "domain_good (stats_domain_start d) = domain_good d" "domain_good (stats_domain_stop d) = domain_good d"
  by (simp_all add: domain_good_def zones_wf_def domain_zones_def stats_domain_start_def stats_domain_stop_def)

lemma domains_good_put: "domains_good dev \<Longrightarrow> domain_good d \<Longrightarrow> domains_good (dev\<lparr>cd_bar2 := h, cd_domains := (cd_domains dev)(sdom := d)\<rparr>)"
  by (simp add: domains_good_def)

lemma keep_stats_zone_good:
  assumes "domains_good dev" and "domain_good d" and "keep_stats_zone flags kind name z d h dev = Inr dev'"
  shows "domains_good dev'"
  using assms by (auto simp: keep_stats_zone_def domains_good_def split: if_splits sum.splits intro: domain_good_enable)

lemma alloc_good:
  assumes "domains_good dev" and "zone_spec_good spec"
    and "stats_zone_alloc (new_zone_address (cd_domains dev sdom)) spec (cd_domains dev sdom) h = Inr (d, h')"
  shows "domain_good d"
  using zone_alloc_good [OF _ new_zone_address_fresh _ assms(3)] assms(1,2) by (simp add: domains_good_def zone_spec_good_def)

lemma add_stats_zone_good:
  assumes "domains_good dev" and "zone_spec_good spec" and "add_stats_zone flags kind spec dev = Inr dev'"
  shows "domains_good dev'"
  using assms(3) by (auto simp: add_stats_zone_def Let_def split: sum.splits intro: keep_stats_zone_good [OF assms(1) alloc_good [OF assms(1,2)]])

lemma domains_good_bar2 [simp]:
  "domains_good (dev\<lparr>cd_bar2 := h\<rparr>) = domains_good dev" "domains_good (map_regs f dev) = domains_good dev"
  "domains_good (put_cms c dev) = domains_good dev" "domains_good (put_port_cmac p m dev) = domains_good dev"
  by (simp_all add: domains_good_def map_regs_def put_cms_def put_port_cmac_def)

subsection \<open>Construction\<close>

lemma init_hosts_good: "domains_good dev \<Longrightarrow> init_hosts be flags hs dev = Inr dev' \<Longrightarrow> domains_good dev'"
  by (induction hs arbitrary: dev) (auto split: if_splits sum.splits dest: add_stats_zone_good [OF _ callback_specs_good(1)])

lemma init_ports_good:
  assumes "bar_sizes_ok be"
  shows "domains_good dev \<Longrightarrow> init_ports be flags ps dev = Inr dev' \<Longrightarrow> domains_good dev'"
  by (induction ps arbitrary: dev) (auto split: if_splits sum.splits dest: add_stats_zone_good [OF _ memory_specs_good(1) [OF assms]])

lemma init_sysmons_good:
  assumes "bar_sizes_ok (ce_bar env)"
  shows "domains_good dev \<Longrightarrow> init_sysmons env flags ns dev = Inr dev' \<Longrightarrow> domains_good dev'"
  by (induction ns arbitrary: dev)
     (auto simp: Let_def split: sum.splits dest!: add_stats_zone_good [OF _ memory_specs_good(2) [OF assms], rotated])

lemma init_modules_good: "domains_good dev \<Longrightarrow> init_modules env flags ms dev = Inr dev' \<Longrightarrow> domains_good dev'"
proof (induction ms arbitrary: dev)
  case (Cons m ms)
  let ?z = "new_zone_address (cd_domains dev MODULES)" and ?name = "''module'' @ dec m"
  obtain d h h1 dev1 where d: "stats_zone_alloc ?z (cms_module_stats_zone_spec (ce_cms env) (ce_cms_layout env) (ce_fp env)
        (be_offsetof (ce_bar env) ''esnet_smartnic_bar2'' ''cms'') m ?name) (cd_domains dev MODULES) h1 = Inr (d, h)"
    "keep_stats_zone flags MODULE_MONITORS ?name ?z d h dev = Inr dev1" "init_modules env flags ms dev1 = Inr dev'"
    using Cons.prems(2) by (auto simp: Let_def cms_module_stats_zone_alloc_def split: if_splits sum.splits prod.splits option.splits)
  from keep_stats_zone_good [OF Cons.prems(1) alloc_good [OF Cons.prems(1) callback_specs_good(3) d(1)] d(2)]
  show ?case using Cons.IH d(3) by blast
qed simp

lemma init_card_good:
  assumes "bar_sizes_ok (ce_bar env)" and "domains_good dev" and "init_card env flags dev = Inr dev'"
  shows "domains_good dev'"
proof -
  let ?spec = "cms_card_stats_zone_spec (ce_cms env) (ce_cms_layout env) (ce_fp env) (ce_bar env)
    (be_offsetof (ce_bar env) ''esnet_smartnic_bar2'' ''cms'') ''card''"
  obtain c d h h1 profile where d: "stats_zone_alloc (new_zone_address (cd_domains (put_cms c dev) MONITORS)) (?spec profile)
        (cd_domains (put_cms c dev) MONITORS) h1 = Inr (d, h)"
    "keep_stats_zone flags CARD_MONITORS ''card'' (new_zone_address (cd_domains (put_cms c dev) MONITORS)) d h (put_cms c dev) = Inr dev'"
    using assms(3)
    by (auto simp: init_card_def Let_def cms_card_stats_zone_alloc_def split: if_splits sum.splits prod.splits option.splits)
  have dev: "domains_good (put_cms c dev)" using assms(2) by simp
  from keep_stats_zone_good [OF dev alloc_good [OF dev memory_specs_good(3) [OF assms(1)] d(1)] d(2)] show ?thesis .
qed

lemma init_parts_good:
  assumes "bar_sizes_ok (ce_bar env)" and "domains_good dev" and "init_parts env flags dev = Inr dev'"
  shows "domains_good dev'"
proof -
  let ?dev = "dev\<lparr>cd_bar2 := (cd_bar2 dev)\<lparr>sysmon0 := sysmon_master_reset (ce_sysmon_layout env) (sysmon0 (cd_bar2 dev))\<rparr>\<rparr>"
  obtain d0 d1 d2 d3 d4 where d: "init_sysmons env flags [0, 1, 2] ?dev = Inr d0" "init_card env flags d0 = Inr d1"
    "init_host (ce_bar env) flags d1 = Inr d2" "init_module env flags d2 = Inr d3" "init_port (ce_bar env) flags d3 = Inr d4"
    "init_switch (ce_bar env) flags d4 = Inr dev'"
    using assms(3) by (auto simp: init_parts_def cfg_init_device_def Let_def split: sum.splits)
  have "domains_good ?dev" using assms(2) by simp
  from init_sysmons_good [OF assms(1) this d(1)] have "domains_good d0" .
  from init_card_good [OF assms(1) this d(2)] have "domains_good d1" .
  from init_hosts_good [OF this d(3) [unfolded init_host_def]] have "domains_good d2" .
  from init_modules_good [OF this d(4) [unfolded init_module_def]] have "domains_good d3" .
  from init_ports_good [OF assms(1) this d(5) [unfolded init_port_def]] have "domains_good d4" .
  from add_stats_zone_good [OF this callback_specs_good(2) d(6) [unfolded init_switch_def]] show ?thesis .
qed

lemma start_domains_good: "domains_good dev \<Longrightarrow> start_domains env flags sdoms dev = Inr dev' \<Longrightarrow> domains_good dev'"
proof (induction sdoms arbitrary: dev)
  case (Cons sdom sdoms)
  show ?case
  proof (cases "domain_enabled flags sdom")
    case True
    then obtain d h u where step: "stats_domain_clear_metrics (ce_stats env) (None :: unit stats_clear_filter option) ()
        (cd_domains dev sdom) (cd_bar2 dev) = Some (Inr (d, h, u))"
      "start_domains env flags sdoms (dev\<lparr>cd_bar2 := h, cd_domains := (cd_domains dev)(sdom := stats_domain_start d)\<rparr>) = Inr dev'"
      using Cons.prems(2) by (auto split: sum.splits)
    have "domain_good d"
      using clear_domain_good [of "cd_domains dev sdom" "None :: unit stats_clear_filter option" "ce_stats env" "()" "cd_bar2 dev"]
        Cons.prems(1) step(1) by (simp add: domains_good_def)
    then show ?thesis using Cons.IH [OF domains_good_put step(2)] Cons.prems(1) by simp
  qed (use Cons in simp)
qed simp

lemma start_device_good:
  assumes "bar_sizes_ok (ce_bar (cse_agent se))" and "start_device se flags b = Inr dev"
  shows "domains_good dev"
proof -
  obtain bar2 dev1 where dev1: "init_parts (cse_agent se) flags (cfg_new_device b bar2) = Inr dev1"
    "start_domains (cse_agent se) flags NDOMAINS dev1 = Inr dev"
    using assms(2) by (auto simp: start_device_def split: option.splits sum.splits)
  have "domains_good (cfg_new_device b bar2)"
    by (simp add: domains_good_def cfg_new_device_def domain_good_def zones_wf_def stats_domain_alloc_def domain_zones_def)
  from start_domains_good [OF init_parts_good [OF assms(1) this dev1(1)] dev1(2)] show ?thesis .
qed

lemma start_devices_good:
  assumes "bar_sizes_ok (ce_bar (cse_agent se))"
  shows "start_devices se flags ids = Inr devs \<Longrightarrow> \<forall>dev \<in> set devs. domains_good dev"
  by (induction ids arbitrary: devs) (auto split: sum.splits dest: start_device_good [OF assms])

lemma card_info_metrics_domains:
  "card_info_metrics env devs = Inr (devs', ms) \<Longrightarrow> \<forall>dev \<in> set devs. domains_good dev \<Longrightarrow> \<forall>dev \<in> set devs'. domains_good dev"
proof (induction devs arbitrary: devs' ms)
  case (Cons dev devs)
  then obtain ci dev' devs1 ms1 where "read_card_info env dev = Inr (Some ci, dev')" "card_info_metrics env devs = Inr (devs1, ms1)"
    "devs' = dev' # devs1" by (auto split: sum.splits option.splits)
  then show ?case using Cons.IH Cons.prems(2) by (auto simp: read_card_info_def split: option.splits)
qed simp

subsection \<open>The invariant\<close>

definition in_order :: "nat set \<Rightarrow> 'x CfgDevice \<Rightarrow> bool" where
  "in_order flags dev \<longleftrightarrow> controlled (running_flags flags) flags dev \<and> card_ok dev \<and> domains_good dev"

definition cfg_agent_good :: "'x SmartnicConfigImpl \<Rightarrow> bool" where
  "cfg_agent_good s \<longleftrightarrow> (\<forall>dev \<in> set (cfg_devices s). in_order (cfg_stats_flags s) dev)"

lemma cfg_agent_good_iff:
  "cfg_agent_good s \<longleftrightarrow> agent_controlled s \<and> list_all card_ok (cfg_devices s) \<and> (\<forall>dev \<in> set (cfg_devices s). domains_good dev)"
  by (auto simp: cfg_agent_good_def in_order_def agent_controlled_def list_all_iff)

lemma new_agent_good:
  fixes s :: "'x SmartnicConfigImpl"
  assumes "SmartnicConfigImpl_new se ids debug_flags stats_flags_disable = Inr s" and "bar_sizes_ok (ce_bar (cse_agent se))"
  shows "cfg_agent_good s \<and> length (cfg_devices s) = length ids"
proof -
  obtain dflags sflags where flags: "cfg_init_server_debug debug_flags stats_flags_disable = (dflags, sflags)" by fastforce
  obtain devs devs' ms where "start_devices se sflags ids = Inr devs" "card_info_metrics (cse_agent se) devs = Inr (devs', ms)"
    "cfg_devices s = devs'"
    using assms(1) unfolding SmartnicConfigImpl_new_def flags
    by (auto simp: cfg_init_server_def cfg_init_server_stats_def Let_def split: sum.splits option.splits)
  then have "\<forall>dev \<in> set (cfg_devices s). domains_good dev"
    using card_info_metrics_domains start_devices_good [OF assms(2)] by blast
  moreover have ok: "cfg_agent_ok ids s" using new_agent_ok [OF assms(1)] .
  moreover from ok have "length (cfg_devices s) = length ids" unfolding cfg_agent_ok_def by (metis length_map)
  ultimately show ?thesis by (simp add: cfg_agent_good_iff cfg_agent_ok_def)
qed

lemma in_order_steady:
  assumes "in_order flags dev" and "steady dev dev'" and "domains_good dev'"
  shows "in_order flags dev'"
  using assms steady_controlled_parts [of "running_flags flags" flags dev dev'] controlled_steady [of "running_flags flags" flags dev dev']
  by (auto simp: in_order_def same_parts_def card_ok_def zone_names_def)

lemma in_order_put_cms: "in_order flags dev \<Longrightarrow> in_order flags (put_cms c dev)"
  by (rule in_order_steady [OF _ steady_bar2(3)]) (simp_all add: in_order_def)

text \<open>Each kind of zones has as many as it has names, all in the domain of the kind.\<close>

lemma in_order_zone:
  assumes "in_order flags dev" and "i < length (card_zone_names kind)"
  obtains z where "zone_at kind i dev = Inr z" and "z \<in> set (dom_zones (cd_domains dev (domain_of_zone kind)))"
proof -
  have "length (cd_zones dev kind) = length (card_zone_names kind)"
    using assms(1) unfolding in_order_def card_ok_def zone_names_def by (metis length_map)
  then have i: "i < length (cd_zones dev kind)" using assms(2) by simp
  then have "ds_zone (cd_zones dev kind ! i) \<in> set (zone_ids dev kind)" by (simp add: zone_ids_def)
  then have "ds_zone (cd_zones dev kind ! i) \<in> set (dom_zones (cd_domains dev (domain_of_zone kind)))"
    using assms(1) unfolding in_order_def controlled_def by blast
  with i show thesis by (intro that) (simp_all add: zone_at_def)
qed

end
