(* ===== verification/Cfg_Serve_Props.thy ===== *)
theory Cfg_Serve_Props
  imports Cfg_Good Cfg_Module_Props
begin

text \<open>
  The configuration agent serves every stream of usable requests to its end.  \<open>served_handler\<close> is the contract of a handler for a
  device that always returns, with a bounded number of answers; the handlers of the agent are instances of it, and
  \<open>served_part_handler\<close> is the same for the hosts, ports and modules of a device.
\<close>

subsection \<open>Loops with a number of answers\<close>

definition range_count :: "int \<Rightarrow> nat \<Rightarrow> nat \<Rightarrow> nat" where
  "range_count req n k = (case id_range req n of None \<Rightarrow> 1 | Some is \<Rightarrow> length is * k)"

lemma for_each_id_counts:
  assumes "\<And>i s. i \<in> set is \<Longrightarrow> P s \<Longrightarrow> \<exists>s' rs. body i s = Inr (s', rs) \<and> P s' \<and> length rs \<in> {lo..hi}" and "P s"
  shows "\<exists>s' rs. for_each_id body is s = Inr (s', rs) \<and> P s' \<and> length rs \<in> {length is * lo..length is * hi}"
  using assms
proof (induction "is" arbitrary: s)
  case (Cons i "is")
  obtain s1 rs1 where 1: "body i s = Inr (s1, rs1)" "P s1" "length rs1 \<in> {lo..hi}" using Cons.prems by (metis list.set_intros(1))
  obtain s2 rs2 where 2: "for_each_id body is s1 = Inr (s2, rs2)" "P s2" "length rs2 \<in> {length is * lo..length is * hi}"
    using Cons.IH [OF _ 1(2)] Cons.prems(1) by (metis list.set_intros(2))
  show ?case using 1 2 by (auto intro: add_mono)
qed simp

lemma for_range_counts:
  assumes "\<And>i s. i < n \<Longrightarrow> P s \<Longrightarrow> \<exists>s' rs. body i s = Inr (s', rs) \<and> P s' \<and> length rs \<in> {lo..hi}" and "P s"
  shows "\<exists>s' rs. for_range req n invalid body s = Inr (s', rs) \<and> P s' \<and> length rs \<in> {range_count req n lo..range_count req n hi}"
proof (cases "id_range req n")
  case (Some "is")
  then have "\<And>i s. i \<in> set is \<Longrightarrow> P s \<Longrightarrow> \<exists>s' rs. body i s = Inr (s', rs) \<and> P s' \<and> length rs \<in> {lo..hi}"
    using assms(1) id_range_bound by blast
  from for_each_id_counts [OF this assms(2)] show ?thesis using Some by (simp add: for_range_def range_count_def)
qed (use assms(2) in \<open>simp add: for_range_def range_count_def\<close>)

definition cfg_served :: "('x SmartnicConfigImpl, 'r) rpc \<Rightarrow> 'x SmartnicConfigImpl \<Rightarrow> nat \<Rightarrow> nat \<Rightarrow> bool" where
  "cfg_served f s lo hi \<longleftrightarrow>
     (\<exists>s' rs. f s = Inr (s', rs) \<and> cfg_agent_good s' \<and> length (cfg_devices s') = length (cfg_devices s) \<and> length rs \<in> {lo..hi})"

locale served_handler = steady_handler body for body :: "nat \<Rightarrow> ('x CfgDevice, 'r) rpc" +
  fixes lo hi :: nat
  assumes body_served:
    "in_order flags dev \<Longrightarrow> \<exists>dev' rs. body i dev = Inr (dev', rs) \<and> domains_good dev' \<and> length rs \<in> {lo..hi}"
begin

lemma device_served:
  assumes "in_order flags dev"
  shows "\<exists>dev' rs. body i dev = Inr (dev', rs) \<and> in_order flags dev' \<and> length rs \<in> {lo..hi}"
proof -
  obtain dev' rs where 1: "body i dev = Inr (dev', rs)" "domains_good dev'" "length rs \<in> {lo..hi}"
    using body_served [OF assms] by blast
  from in_order_steady [OF assms body_steady [OF 1(1)] 1(2)] 1 show ?thesis by blast
qed

lemma agent_served:
  assumes "cfg_agent_good s"
  shows "cfg_served (for_cfg_devices req invalid body) s
    (range_count req (length (cfg_devices s)) lo) (range_count req (length (cfg_devices s)) hi)"
proof -
  let ?n = "length (cfg_devices s)"
  let ?P = "\<lambda>devs. length devs = ?n \<and> (\<forall>dev \<in> set devs. in_order (cfg_stats_flags s) dev)"
  have step: "\<exists>devs' rs. on_cfg_device body i devs = Inr (devs', rs) \<and> ?P devs' \<and> length rs \<in> {lo..hi}"
    if i: "i < ?n" and P: "?P devs" for i devs
  proof -
    have "devs ! i \<in> set devs" using i P by simp
    then obtain dev' rs where "body i (devs ! i) = Inr (dev', rs)" "in_order (cfg_stats_flags s) dev'" "length rs \<in> {lo..hi}"
      using device_served [of "cfg_stats_flags s" "devs ! i" i] P by blast
    then show ?thesis using P by (auto simp: on_cfg_device_def dest!: set_update_subset_insert [THEN subsetD])
  qed
  have start: "?P (cfg_devices s)" using assms by (simp add: cfg_agent_good_def)
  obtain devs rs where "for_range req ?n invalid (on_cfg_device body) (cfg_devices s) = Inr (devs, rs)" "?P devs"
    "length rs \<in> {range_count req ?n lo..range_count req ?n hi}"
    using for_range_counts [of ?n ?P "on_cfg_device body" lo hi, OF step start] by blast
  then show ?thesis by (simp add: cfg_served_def for_cfg_devices_def cfg_agent_good_def)
qed

end

text \<open>A card has two hosts, two ports and two cages for modules.\<close>

locale served_part_handler = steady_part_handler body for body :: "nat \<Rightarrow> nat \<Rightarrow> ('x CfgDevice, 'r) rpc" +
  fixes lo :: nat
  assumes part_served:
    "in_order flags dev \<Longrightarrow> m < 2 \<Longrightarrow> \<exists>dev' rs. body i m dev = Inr (dev', rs) \<and> domains_good dev' \<and> length rs \<in> {lo..1}"
begin

lemma parts_served:
  assumes "in_order flags dev" and "n = 2"
  shows "\<exists>dev' rs. for_range req n invalid (body i) dev = Inr (dev', rs) \<and> domains_good dev' \<and>
    length rs \<in> {range_count req 2 lo..range_count req 2 1}"
proof -
  have "\<exists>dev' rs. body i m d = Inr (dev', rs) \<and> in_order flags dev' \<and> length rs \<in> {lo..1}" if m: "m < 2" and d: "in_order flags d" for m d
  proof -
    obtain dev' rs where 1: "body i m d = Inr (dev', rs)" "domains_good dev'" "length rs \<in> {lo..1}"
      using part_served [OF d m] by blast
    from in_order_steady [OF d part_steady [OF 1(1)] 1(2)] 1 show ?thesis by blast
  qed
  from for_range_counts [of 2 "in_order flags" "body i" lo 1, OF this assms(1)] show ?thesis
    unfolding assms(2) in_order_def by blast
qed

end

lemma in_order_domains: "in_order flags dev \<Longrightarrow> domains_good dev"
  by (simp add: in_order_def)

lemma in_order_parts: "in_order flags dev \<Longrightarrow> cd_nhosts dev = 2 \<and> cd_nports dev = 2"
  by (simp add: in_order_def card_ok_def)

sublocale served_part_handler \<subseteq> served_hosts: served_handler "for_hosts req invalid body" "range_count req 2 lo" "range_count req 2 1"
  for req invalid
  by unfold_locales (unfold for_hosts_def, rule parts_served, assumption, simp add: in_order_parts)

sublocale served_part_handler \<subseteq> served_ports: served_handler "for_ports req invalid body" "range_count req 2 lo" "range_count req 2 1"
  for req invalid
  by unfold_locales (unfold for_ports_def, rule parts_served, assumption, simp add: in_order_parts)

sublocale served_part_handler \<subseteq> served_modules: served_handler "for_modules req invalid body" "range_count req 2 lo" "range_count req 2 1"
  for req invalid
  by unfold_locales (unfold for_modules_def, rule parts_served, assumption, simp add: in_order_parts)

context served_part_handler
begin

lemma modules_served:
  "in_order flags dev \<Longrightarrow> \<exists>dev' rs. for_modules req invalid body i dev = Inr (dev', rs) \<and> in_order flags dev' \<and>
     length rs \<in> {range_count req 2 lo..range_count req 2 1}"
  by (rule served_modules.device_served)

lemma hosts_agent_served:
  "cfg_agent_good s \<Longrightarrow> cfg_served (for_cfg_devices dev_id invalid_dev (for_hosts req invalid body)) s
     (range_count dev_id (length (cfg_devices s)) (range_count req 2 lo)) (range_count dev_id (length (cfg_devices s)) (range_count req 2 1))"
  by (rule served_hosts.agent_served)

lemma ports_agent_served:
  "cfg_agent_good s \<Longrightarrow> cfg_served (for_cfg_devices dev_id invalid_dev (for_ports req invalid body)) s
     (range_count dev_id (length (cfg_devices s)) (range_count req 2 lo)) (range_count dev_id (length (cfg_devices s)) (range_count req 2 1))"
  by (rule served_ports.agent_served)

end

subsection \<open>Requests for registers\<close>

lemma written_domains:
  "write_host_config env hconfig m dev = (err, dev') \<Longrightarrow> domains_good dev' = domains_good dev"
  "write_port_config env pconfig m dev = (err, dev') \<Longrightarrow> domains_good dev' = domains_good dev"
  by (auto simp: write_host_config_def write_port_config_def Let_def split: prod.splits if_splits option.splits)

lemma for_cmacs_domains: "for_cmacs f ps dev = (ok, dev') \<Longrightarrow> domains_good dev' = domains_good dev"
  by (induction ps arbitrary: dev) (auto split: option.splits)

lemma defaults_domains: "set_defaults_one_to_one env dev = (err, dev') \<Longrightarrow> domains_good dev' = domains_good dev"
  by (auto simp: set_defaults_one_to_one_def Let_def split: prod.splits if_splits dest!: for_cmacs_domains)

interpretation serve_get_host_config: served_part_handler "get_host_config_body env" 1 for env
  by unfold_locales (auto simp: get_host_config_body_def in_order_def split: prod.split)

interpretation serve_set_host_config: served_part_handler "set_host_config_body env config" 1 for env config
  by unfold_locales (auto simp: set_host_config_body_def in_order_def written_domains split: prod.split)

interpretation serve_get_port_config: served_part_handler "get_port_config_body env" 1 for env
  by unfold_locales (auto simp: get_port_config_body_def in_order_def split: prod.split)

interpretation serve_set_port_config: served_part_handler "set_port_config_body env config" 1 for env config
  by unfold_locales (auto simp: set_port_config_body_def in_order_def written_domains split: prod.split)

interpretation serve_port_status: served_part_handler "port_status_body env" 1 for env
  by unfold_locales (auto simp: port_status_body_def in_order_def split: prod.split option.split)

interpretation serve_get_switch_config: served_handler "get_switch_config_body env" 1 1 for env
  by unfold_locales (auto simp: get_switch_config_body_def in_order_def split: prod.split)

interpretation serve_set_switch_config: served_handler "set_switch_config_body env config" 1 1 for env config
  by unfold_locales (auto simp: set_switch_config_body_def in_order_def split: prod.split)

interpretation serve_defaults: served_handler "set_defaults_body env profile" 1 1 for env profile
  by unfold_locales (auto simp: set_defaults_body_def in_order_def defaults_domains split: prod.split DefaultsProfile.split)

lemma with_config_served:
  assumes "\<And>c. served_handler (body c) lo hi" and "cfg_agent_good s"
  shows "cfg_served (for_cfg_devices_with config req invalid missing body) s
    (if config = None then 1 else range_count req (length (cfg_devices s)) lo)
    (if config = None then 1 else range_count req (length (cfg_devices s)) hi)"
proof (cases "req > int (length (cfg_devices s)) - 1 \<or> config = None")
  case True
  then have "\<exists>r. for_cfg_devices_with config req invalid missing body s = Inr (s, [r])" by (auto simp: for_cfg_devices_with_def)
  then show ?thesis using True assms(2)
    by (auto simp: cfg_served_def range_count_def id_range_def)
next
  case False
  then obtain c where "config = Some c" by blast
  moreover have "cfg_served (for_cfg_devices req invalid (body c)) s (range_count req (length (cfg_devices s)) lo)
      (range_count req (length (cfg_devices s)) hi)" for c
    by (rule served_handler.agent_served [OF assms])
  ultimately show ?thesis using False by (simp add: cfg_served_def for_cfg_devices_with_def)
qed

subsection \<open>Requests for statistics\<close>

lemma zone_stats_served:
  assumes "filters_good (ce_regex env) filters" and "in_order flags dev" and "i < length (card_zone_names kind)"
  shows "\<exists>dev' ms. zone_stats env filters do_clear kind i dev = Inr (dev', ms) \<and> domains_good dev'"
proof -
  let ?d = "cd_domains dev (domain_of_zone kind)"
  obtain z where z: "zone_at kind i dev = Inr z" "z \<in> set (dom_zones ?d)" using in_order_zone [OF assms(2,3)] .
  have good: "domains_good dev" "domain_good ?d" using assms(2) by (simp_all add: in_order_def domains_good_def)
  obtain zone where zone: "dom_heap ?d z = Some zone" "zone_good zone" using good_zone [OF good(2) z(2)] by blast
  have "\<exists>ms. cfg_get_stats_zone env filters (domain_of_zone kind) z dev = Inr ms"
    using zone_reports [OF assms(1), of "zone_blocks zone"] zone
    by (simp add: cfg_get_stats_zone_def stats_zone_for_each_metric_def zone_good_def)
  moreover obtain c d h where "stats_zone_clear_metrics (ce_stats env) (clear_filter_of (ce_regex env) filters) None z ?d (cd_bar2 dev) =
      Inr (c, d, h)" "domain_good d"
    using clear_zone_good [OF good(2) z(2) filter_clears [OF assms(1)], of "ce_stats env" None "cd_bar2 dev"] by blast
  ultimately show ?thesis using z(1) good(1) by (cases do_clear) (auto simp: zone_stats_def cfg_clear_stats_zone_def domains_good_def)
qed

lemma domains_stats_served:
  assumes "filters_good (ce_regex env) filters"
  shows "domains_good dev \<Longrightarrow> \<exists>dev' ms'. domains_stats env filters do_clear doms ms dev = Inr (dev', ms') \<and> domains_good dev'"
proof (induction doms arbitrary: dev ms)
  case (Cons sdom doms)
  let ?d = "cd_domains dev sdom" and ?cb = "get_stats_for_each_metric (ce_regex env) filters"
  have good: "domain_good ?d" using Cons.prems by (simp add: domains_good_def)
  then have wf: "zones_wf ?d" and zones: "\<forall>z \<in> set (dom_zones ?d). \<exists>zone. dom_heap ?d z = Some zone \<and> zone_good zone"
    using good_zone [OF good] by (auto simp: domain_good_def)
  obtain d h c where "stats_domain_clear_metrics (ce_stats env) (clear_filter_of (ce_regex env) filters) None ?d (cd_bar2 dev) =
      Some (Inr (d, h, c))" "domain_good d"
    using clear_domain_good [OF good filter_clears [OF assms(1)], of "ce_stats env" None "cd_bar2 dev"] by blast
  then have "\<exists>dev1. cfg_clear_stats_domain env filters sdom dev = Inr dev1 \<and> domains_good dev1"
    using Cons.prems by (simp add: cfg_clear_stats_domain_def stats_result_def domains_good_def)
  moreover obtain rv ms1 where "stats_domain_for_each_metric ?cb ?d (cd_bar2 dev) ms = Some (Inr (?d, cd_bar2 dev, rv, ms1))"
    using domain_reports [OF assms zones, of "dspec_name (dom_spec ?d)" "cd_bar2 dev" 0 ms] by (auto simp: domain_loops_run(2) [OF wf])
  then have "\<exists>dev1 ms1. cfg_get_stats_domain env filters sdom ms dev = Inr (dev1, ms1) \<and> domains_good dev1"
    using Cons.prems by (simp add: cfg_get_stats_domain_def stats_result_def)
  ultimately obtain dev1 ms1 where "(if do_clear then map_sum id (\<lambda>dev'. (dev', ms)) (cfg_clear_stats_domain env filters sdom dev)
      else cfg_get_stats_domain env filters sdom ms dev) = Inr (dev1, ms1)" "domains_good dev1" by (cases do_clear) auto
  then show ?case using Cons.IH by simp
qed simp

text \<open>The handlers return if the filters of the request can be used.\<close>

lemma stats_handlers_served:
  assumes "filters_good (ce_regex env) filters"
  shows "served_part_handler (host_stats_body env filters do_clear) 1"
    and "served_part_handler (port_stats_body env filters do_clear) 1"
    and "served_handler (switch_stats_body env filters do_clear) 1 1"
    and "served_handler (cfg_stats_body env filters do_clear) 1 1"
proof -
  have names: "length (card_zone_names HOST_COUNTERS) = 2" "length (card_zone_names PORT_COUNTERS) = 2"
    "length (card_zone_names SWITCH_COUNTERS) = 1" by (simp_all add: card_zone_names_def)
  note zone = zone_stats_served [OF assms, where do_clear = do_clear]
  show "served_part_handler (host_stats_body env filters do_clear) 1"
    by unfold_locales (drule (1) zone [where kind = HOST_COUNTERS, unfolded names], auto simp: host_stats_body_def)
  show "served_part_handler (port_stats_body env filters do_clear) 1"
    by unfold_locales (drule (1) zone [where kind = PORT_COUNTERS, unfolded names], auto simp: port_stats_body_def)
  show "served_handler (switch_stats_body env filters do_clear) 1 1"
    by unfold_locales (drule zone [where kind = SWITCH_COUNTERS and i = 0], auto simp: switch_stats_body_def names)
  show "served_handler (cfg_stats_body env filters do_clear) 1 1"
    by unfold_locales (drule in_order_domains, drule domains_stats_served [OF assms, where do_clear = do_clear and doms = NDOMAINS and ms = "[]"],
        auto simp: cfg_stats_body_def)
qed

text \<open>Callbacks that only look at the first value of a metric.\<close>

definition reads_first :: "'a for_each_callback \<Rightarrow> bool" where
  "reads_first cb \<longleftrightarrow> (\<forall>spec a. fe_values spec \<noteq> [] \<longrightarrow> (\<exists>a'. cb spec a = Some (0, a')))"

lemma callbacks_read_first: "reads_first get_device_stats" "reads_first get_module_stats"
  by (auto simp: reads_first_def get_device_stats_def get_module_stats_def Let_def split: list.splits stats_metric_type.splits)

lemma block_for_each_first:
  assumes "reads_first cb" and "\<And>m. m \<in> set ms \<Longrightarrow> fe_values (mk m) \<noteq> []"
  shows "\<exists>a'. block_for_each mk cb ms a = Some (0, a')"
  using assms(2)
proof (induction ms arbitrary: a)
  case (Cons m ms)
  obtain a1 where "cb (mk m) a = Some (0, a1)" using assms(1) Cons.prems [of m] unfolding reads_first_def by auto
  then show ?case using Cons by simp
qed simp

lemma zone_for_each_first:
  assumes "reads_first cb"
  shows "\<forall>b \<in> set bs. block_good b \<Longrightarrow> \<exists>a'. zone_for_each dn zn cb bs a = Some (0, a')"
proof (induction bs arbitrary: a)
  case (Cons b bs)
  have "stats_metric_get_values m (length (met_elements m)) \<noteq> []" if "m \<in> set (blk_metrics b)" for m
    using Cons.prems that readable_shape by (fastforce simp: block_good_def metric_shape_def metric_get_values)
  then have "\<exists>a1. stats_block_for_each_metric dn zn cb b a = Some (0, a1)"
    unfolding stats_block_for_each_metric_def by (intro block_for_each_first [OF assms]) simp
  then show ?case using Cons by auto
qed simp

lemma for_each_served:
  assumes "reads_first cb" and "in_order flags dev" and "i < length (card_zone_names kind)"
  shows "\<exists>a'. cfg_for_each_metric cb kind i dev a = Inr a'"
proof -
  let ?d = "cd_domains dev (domain_of_zone kind)"
  obtain z where z: "zone_at kind i dev = Inr z" "z \<in> set (dom_zones ?d)" using in_order_zone [OF assms(2,3)] .
  have "domain_good ?d" using assms(2) by (simp add: in_order_def domains_good_def)
  then obtain zone where zone: "dom_heap ?d z = Some zone" "zone_good zone" using good_zone z(2) by blast
  obtain a' where "zone_for_each (dspec_name (dom_spec ?d)) (zone_name zone) cb (zone_blocks zone) a = Some (0, a')"
    using zone_for_each_first [OF assms(1) zone(2) [unfolded zone_good_def]] by blast
  then show ?thesis using z(1) zone(1) by (simp add: cfg_for_each_metric_def Let_def stats_zone_for_each_metric_def)
qed

lemma zones_status_served:
  assumes "in_order flags dev"
  shows "\<forall>n \<in> set ns. n < length (card_zone_names kind) \<Longrightarrow> \<exists>st'. zones_status kind ns dev st = Inr st'"
proof (induction ns arbitrary: st)
  case (Cons n ns)
  obtain st1 where "cfg_for_each_metric get_device_stats kind n dev st = Inr st1"
    using for_each_served [OF callbacks_read_first(1) assms] Cons.prems by fastforce
  then show ?case using Cons by simp
qed simp

interpretation serve_device_status: served_handler device_status_body 1 1
proof unfold_locales
  fix flags and dev :: "'x CfgDevice" and i
  assume order: "in_order flags dev"
  then have "length (cd_zones dev SYSMON_MONITORS) = length (card_zone_names SYSMON_MONITORS)"
    unfolding in_order_def card_ok_def zone_names_def by (metis length_map)
  then obtain st where 1: "zones_status SYSMON_MONITORS [0..<length (cd_zones dev SYSMON_MONITORS)] dev
      \<lparr>dst_alarms = [], dst_monitors = []\<rparr> = Inr st"
    using zones_status_served [OF order, of "[0..<length (cd_zones dev SYSMON_MONITORS)]" SYSMON_MONITORS] by fastforce
  obtain st' where "zones_status CARD_MONITORS [0] dev st = Inr st'"
    using zones_status_served [OF order, of "[0]" CARD_MONITORS] by (fastforce simp: card_zone_names_def)
  with 1 order show "\<exists>dev' rs. device_status_body i dev = Inr (dev', rs) \<and> domains_good dev' \<and> length rs \<in> {1..1}"
    by (simp add: device_status_body_def in_order_def)
qed

subsection \<open>Requests for modules\<close>

lemma on_present_served:
  assumes "in_order flags dev" and "\<And>d. in_order flags d \<Longrightarrow> \<exists>err x d'. act d = Inr (err, x, d') \<and> domains_good d'"
  shows "\<exists>dev' rs. on_present_module env is_range resp act m dev = Inr (dev', rs) \<and> domains_good dev' \<and>
    length rs \<in> {if is_range then 0 else 1..1}"
proof -
  obtain err c where check: "check_module_present (ce_cms env) (ce_cms_layout env) m (dev_cms dev) = (err, c)" by fastforce
  have order: "in_order flags (put_cms c dev)" using in_order_put_cms [OF assms(1)] .
  then obtain err' x d' where "act (put_cms c dev) = Inr (err', x, d')" "domains_good d'" using assms(2) by blast
  then show ?thesis using in_order_domains [OF order] by (simp add: on_present_module_def Let_def check)
qed

interpretation serve_get_gpio: served_part_handler "get_module_gpio_body env" 1 for env
  by unfold_locales (auto simp: get_module_gpio_body_def Let_def in_order_def split: prod.split)

interpretation serve_set_gpio: served_part_handler "set_module_gpio_body env gpio" 1 for env gpio
  by unfold_locales (auto simp: set_module_gpio_body_def in_order_def split: prod.split)

interpretation serve_module_info: served_part_handler "get_module_info_body env is_range" "if is_range then 0 else 1" for env is_range
  by unfold_locales
     (unfold get_module_info_body_def, erule on_present_served, auto simp: in_order_def split: prod.split option.split)

interpretation serve_module_status: served_part_handler "get_module_status_body env is_range" "if is_range then 0 else 1"
  for env :: "'x cfg_env" and is_range
proof unfold_locales
  fix flags and dev :: "'x CfgDevice" and m i
  assume order: "in_order flags dev" and m: "m < (2 :: nat)"
  show "\<exists>dev' rs. get_module_status_body env is_range i m dev = Inr (dev', rs) \<and> domains_good dev' \<and>
      length rs \<in> {if is_range then 0 else 1..1}"
    unfolding get_module_status_body_def
  proof (rule on_present_served [OF order])
    fix d :: "'x CfgDevice" assume d: "in_order flags d"
    have "m < length (card_zone_names MODULE_MONITORS)" using m by (simp add: card_zone_names_def)
    then obtain st where "cfg_for_each_metric get_module_stats MODULE_MONITORS m d \<lparr>mst_alarms = [], mst_monitors = []\<rparr> = Inr st"
      using for_each_served [OF callbacks_read_first(2) d] by blast
    then show "\<exists>err x d'. map_sum id (\<lambda>st. (CFG_EC_OK, Some st, d))
        (cfg_for_each_metric get_module_stats MODULE_MONITORS m d \<lparr>mst_alarms = [], mst_monitors = []\<rparr>) = Inr (err, x, d') \<and> domains_good d'"
      using in_order_domains [OF d] by auto
  qed
qed

subsection \<open>Requests for the memories of modules\<close>

lemma get_mem_act_served:
  assumes "get_mem_count mem = Inr count" and "domains_good dev"
  shows "\<exists>err x dev'. get_module_mem_act env (mm_offset mem) page count m dev = Inr (err, x, dev') \<and> domains_good dev'"
  using range_total [OF assms(1), of "ce_cms env" "ce_cms_layout env" m page "dev_cms dev"] assms(2)
  by (auto simp: get_module_mem_act_def split: prod.split option.split)

lemma get_mem_served:
  assumes "get_mem_count mem = Inr count"
  shows "served_part_handler (\<lambda>dev_id m. on_present_module env is_range (resp dev_id m)
    (get_module_mem_act env (mm_offset mem) page count m) m) (if is_range then 0 else 1)"
  by unfold_locales (erule on_present_served, rule get_mem_act_served [OF assms], rule in_order_domains)

interpretation serve_set_mem: served_part_handler
  "\<lambda>dev_id m. on_present_module env is_range (resp dev_id m) (set_module_mem_act env mem count m) m" "if is_range then 0 else 1"
  for env is_range resp mem count
  by unfold_locales (erule on_present_served, auto simp: set_module_mem_act_def in_order_def split: prod.split)

text \<open>The number of answers: a bad place ends the whole request, unless the module is not there.\<close>

definition mem_count :: "int \<Rightarrow> int \<Rightarrow> bool \<Rightarrow> nat \<Rightarrow> nat \<Rightarrow> nat" where
  "mem_count dev_id mod_id bad n k =
     (if dev_id \<ge> int n then 1
      else if bad \<and> mod_id < 2 then (if n = 0 then 0 else 1)
      else range_count dev_id n (range_count mod_id 2 k))"

lemma mem_devices_served:
  assumes "\<And>count. checked = Inr count \<Longrightarrow> served_part_handler (body count) lo"
  shows "\<forall>d \<in> set ds. d < length devs \<Longrightarrow> \<forall>dev \<in> set devs. in_order flags dev \<Longrightarrow>
    \<exists>devs' rs. mem_devices mod_id checked body ds devs = Inr (devs', rs) \<and> length devs' = length devs \<and>
      (\<forall>dev \<in> set devs'. in_order flags dev) \<and>
      length rs \<in> (if isl checked \<and> mod_id < 2 then {min 1 (length ds)}
                   else {length ds * range_count mod_id 2 lo..length ds * range_count mod_id 2 1})"
proof (induction ds arbitrary: devs)
  case (Cons d ds)
  have d: "in_order flags (devs ! d)" "d < length devs" using Cons.prems by simp_all
  then have ports: "cd_nports (devs ! d) = 2" by (simp add: in_order_parts)
  show ?case
  proof (cases "mod_id < 2")
    case False
    then have "range_count mod_id 2 k = 1" for k by (simp add: range_count_def id_range_def)
    then show ?thesis using Cons.IH [of devs] Cons.prems False ports by (auto simp: map_sum_Inr_iff)
  next
    case small: True
    show ?thesis
    proof (cases checked)
      case (Inr count)
      obtain dev' rs1 where 1: "for_modules mod_id (\<lambda>dev_id. mem_response dev_id 0 EC_INVALID_MODULE_ID None) (body count) d (devs ! d) =
          Inr (dev', rs1)" "in_order flags dev'" "length rs1 \<in> {range_count mod_id 2 lo..range_count mod_id 2 1}"
        using served_part_handler.modules_served [OF assms [OF Inr] d(1)] by blast
      have "\<forall>dev \<in> set (devs[d := dev']). in_order flags dev"
        using 1(2) Cons.prems(2) by (auto dest!: set_update_subset_insert [THEN subsetD])
      then obtain devs' rs2 where 2: "mem_devices mod_id checked body ds (devs[d := dev']) = Inr (devs', rs2)" "length devs' = length devs"
        "\<forall>dev \<in> set devs'. in_order flags dev"
        "length rs2 \<in> {length ds * range_count mod_id 2 lo..length ds * range_count mod_id 2 1}"
        using Cons.IH [of "devs[d := dev']"] Cons.prems(1) Inr by auto
      show ?thesis using 1(1,3) 2 small ports Inr by (auto intro: add_mono)
    qed (use small ports Cons.prems in simp)
  qed
qed simp

lemma module_mem_served:
  assumes "\<And>count. checked = Inr count \<Longrightarrow> served_part_handler (body count) lo" and "cfg_agent_good s"
  shows "cfg_served (module_mem_request req checked body) s
    (mem_count (mmreq_dev_id req) (mmreq_mod_id req) (isl checked) (length (cfg_devices s)) lo)
    (mem_count (mmreq_dev_id req) (mmreq_mod_id req) (isl checked) (length (cfg_devices s)) 1)"
proof -
  let ?n = "length (cfg_devices s)" and ?d = "mmreq_dev_id req" and ?m = "mmreq_mod_id req"
  define ds where "ds = (if ?d > - 1 then [nat ?d] else [0..<?n])"
  show ?thesis
  proof (cases "?d \<ge> int ?n")
    case True
    then show ?thesis using assms(2) by (simp add: module_mem_request_def cfg_served_def mem_count_def)
  next
    case False
    then have ds: "\<forall>d \<in> set ds. d < ?n" "range_count ?d ?n k = length ds * k" "length ds = 0 \<longleftrightarrow> ?n = 0" for k
      by (auto simp: ds_def range_count_def id_range_def)
    from mem_devices_served [of checked body, OF assms(1) ds(1)] assms(2) obtain devs' rs where
      1: "mem_devices ?m checked body ds (cfg_devices s) = Inr (devs', rs)" "length devs' = ?n"
      "\<forall>dev \<in> set devs'. in_order (cfg_stats_flags s) dev"
      "length rs \<in> (if isl checked \<and> ?m < 2 then {min 1 (length ds)}
         else {length ds * range_count ?m 2 lo..length ds * range_count ?m 2 1})"
      unfolding cfg_agent_good_def by blast
    have "module_mem_request req checked body s = Inr (s\<lparr>cfg_devices := devs'\<rparr>, rs)"
      using 1(1) False by (simp add: module_mem_request_def Let_def ds_def)
    then show ?thesis using 1(2-4) False ds(2,3)
      by (auto simp: cfg_served_def cfg_agent_good_def mem_count_def Suc_le_eq split: if_splits)
  qed
qed

subsection \<open>The description of a card\<close>

text \<open>The files of the PCI devices hold numbers, and the description of a card has the texts that are shown of it.\<close>

definition cfg_pci_ok :: "'x cfg_env \<Rightarrow> bool" where
  "cfg_pci_ok env \<longleftrightarrow> (\<forall>path text. ce_pci_file env path = Some text \<longrightarrow> stoi16 text \<noteq> None)"

definition card_texts_ok :: "cms_card_info \<Rightarrow> bool" where
  "card_texts_ok ci \<longleftrightarrow>
     (\<forall>p \<in> {ci_name ci, ci_serial_number ci, ci_revision ci, ci_sc_version ci}. \<exists>q t. p = Some q \<and> card_info_string ci q = Some t)"

definition cards_described :: "'x cfg_env \<Rightarrow> bool" where
  "cards_described env \<longleftrightarrow>
     (\<forall>c. \<exists>ci c'. cms_card_info_read (ce_cms env) (ce_cms_layout env) (ce_ether_aton env) c = Some (ci, c') \<and> pred_option card_texts_ok ci)"

lemma card_texts_described: "card_texts_ok ci \<Longrightarrow> \<exists>card. device_card_info ci = Inr card"
  by (auto simp: card_texts_ok_def device_card_info_def card_text_def)

lemma device_info_served:
  assumes "cfg_pci_ok env" and "cards_described env"
  shows "served_handler (cfg_device_info_body env) 1 1"
proof unfold_locales
  fix flags and dev :: "'a CfgDevice" and i
  assume order: "in_order flags dev"
  have pci: "\<exists>v. cfg_read_hex_pci_id env b f = Some v" for b f
    using assms(1) by (auto simp: cfg_read_hex_pci_id_def cfg_pci_ok_def split: option.split)
  obtain ci c' where "cms_card_info_read (ce_cms env) (ce_cms_layout env) (ce_ether_aton env) (dev_cms dev) = Some (ci, c')"
    "pred_option card_texts_ok ci" using assms(2) unfolding cards_described_def by blast
  then have "\<exists>err card. add_card_info env dev = Inr (err, card, put_cms c' dev)"
    using card_texts_described by (cases ci) (fastforce simp: add_card_info_def read_card_info_def)+
  moreover obtain v w where "cfg_read_hex_pci_id env (cd_bus_id dev) ''vendor'' = Some v"
    "cfg_read_hex_pci_id env (cd_bus_id dev) ''device'' = Some w" using pci by blast
  ultimately show "\<exists>dev' rs. cfg_device_info_body env i dev = Inr (dev', rs) \<and> domains_good dev' \<and> length rs \<in> {1..1}"
    using in_order_domains [OF order] by (auto simp: cfg_device_info_body_def Let_def)
qed

subsection \<open>Requests for the server\<close>

lemma map_devices_keep:
  assumes "\<And>dev dev'. P dev \<Longrightarrow> f dev = Inr dev' \<Longrightarrow> P dev'"
  shows "map_devices f devs = Inr devs' \<Longrightarrow> \<forall>dev \<in> set devs. P dev \<Longrightarrow> \<forall>dev \<in> set devs'. P dev"
  by (induction devs arbitrary: devs') (auto split: sum.splits intro: assms)

lemma switch_flag_domains:
  "domains_good dev \<Longrightarrow> domains_good (switch_domain enable sdom dev)"
  "domains_good dev \<Longrightarrow> switch_device_zones enable kind dev = Inr dev' \<Longrightarrow> domains_good dev'"
  using domain_good_switch [of "cd_domains dev (domain_of_zone kind)"]
  by (auto simp: switch_domain_def switch_device_zones_def Let_def domains_good_def split: sum.splits)

lemma apply_flag_domains:
  assumes "apply_server_control_stats_flag enable flag s = Inr (err, s')" and "\<forall>dev \<in> set (cfg_devices s). domains_good dev"
  shows "\<forall>dev \<in> set (cfg_devices s'). domains_good dev"
proof (cases "convert_server_control_stats_flag flag")
  case (Some what)
  let ?switch = "case what of Inl sdom \<Rightarrow> (\<lambda>dev. Inr (switch_domain enable sdom dev)) | Inr kind \<Rightarrow> switch_device_zones enable kind"
  have "domains_good dev \<Longrightarrow> ?switch dev = Inr dev' \<Longrightarrow> domains_good dev'" for dev dev'
    using switch_flag_domains by (cases what) auto
  moreover have "map_devices ?switch (cfg_devices s) = Inr (cfg_devices s')"
    using assms(1) by (auto simp: apply_server_control_stats_flag_def Some Let_def)
  ultimately show ?thesis using map_devices_keep [of domains_good ?switch] assms(2) by blast
qed (use assms in \<open>simp add: apply_server_control_stats_flag_def\<close>)

lemma apply_flags_domains:
  "apply_stats_flags enable fs s = Inr (err, s') \<Longrightarrow> \<forall>dev \<in> set (cfg_devices s). domains_good dev \<Longrightarrow>
   \<forall>dev \<in> set (cfg_devices s'). domains_good dev"
  by (induction fs arbitrary: s) (auto split: sum.splits if_splits dest: apply_flag_domains)

lemma set_config_domains:
  assumes "cfg_set_server_config config s = Inr (s', rs)" and "\<forall>dev \<in> set (cfg_devices s). domains_good dev"
  shows "\<forall>dev \<in> set (cfg_devices s'). domains_good dev"
  using assms
  by (auto simp: cfg_set_server_config_def write_debug_flags_lists write_stats_flags_def Let_def
      split: if_splits option.splits prod.splits sum.splits dest!: apply_flags_domains)

lemma set_config_served:
  assumes "cfg_agent_good s"
  shows "cfg_served (cfg_set_server_config config) s 1 1"
proof -
  have s: "agent_controlled s" "list_all card_ok (cfg_devices s)" "\<forall>dev \<in> set (cfg_devices s). domains_good dev"
    using assms by (simp_all add: cfg_agent_good_iff)
  from server_config_agent_controlled [OF s(1), of config] obtain s' rs where
    1: "cfg_set_server_config config s = Inr (s', rs)" "agent_controlled s'" by blast
  have parts: "list_all2 same_parts (cfg_devices s) (cfg_devices s')" using set_server_config_same_parts [OF 1(1)] .
  have "length rs = 1" using 1(1) by (auto simp: cfg_set_server_config_def Let_def split: if_splits prod.splits)
  then show ?thesis
    using 1 set_config_domains [OF 1(1) s(3)] same_parts_ok [OF parts refl s(2)] list_all2_lengthD [OF parts]
    by (simp add: cfg_served_def cfg_agent_good_iff)
qed

subsection \<open>A stream of requests\<close>

text \<open>Filters that can be used; the description of a card needs its files and texts.\<close>

definition cfg_request_ok :: "'x cfg_env \<Rightarrow> CfgBatchRequest \<Rightarrow> bool" where
  "cfg_request_ok env req \<longleftrightarrow>
     (case cbreq_item req of
        Item_device_info _ \<Rightarrow> cfg_pci_ok env \<and> cards_described env
      | Item_host_stats r \<Rightarrow> filters_good (ce_regex env) (hsrq_filters r)
      | Item_port_stats r \<Rightarrow> filters_good (ce_regex env) (psrq_filters r)
      | Item_switch_stats r \<Rightarrow> filters_good (ce_regex env) (swsreq_filters r)
      | Item_stats r \<Rightarrow> filters_good (ce_regex env) (csreq_filters r)
      | _ \<Rightarrow> True)"

text \<open>
  The number of answers to a request of an agent with \<open>n\<close> cards, each with two hosts, ports and modules.  A request
  for all modules may skip those that are absent: \<open>skip\<close> counts none of them.
\<close>

definition cfg_answers :: "nat \<Rightarrow> bool \<Rightarrow> CfgBatchRequest \<Rightarrow> nat" where
  "cfg_answers n skip req =
     (let op = cbreq_op req;
          devs = (\<lambda>d. range_count d n 1);
          parts = (\<lambda>d p. range_count d n (range_count p 2 1));
          least = (\<lambda>m. if skip \<and> m < 0 then 0 else 1);
          mods = (\<lambda>d m. range_count d n (range_count m 2 (least m)))
      in case cbreq_item req of
        Item_device_info d \<Rightarrow> (if op = CFG_BOP_GET then devs d else 1)
      | Item_device_status d \<Rightarrow> (if op = CFG_BOP_GET then devs d else 1)
      | Item_host_config r \<Rightarrow>
          (if op = CFG_BOP_GET \<or> op = CFG_BOP_SET \<and> hcreq_config r \<noteq> None then parts (hcreq_dev_id r) (hcreq_host_id r) else 1)
      | Item_host_stats r \<Rightarrow> (if op \<in> {CFG_BOP_GET, CFG_BOP_CLEAR} then parts (hsrq_dev_id r) (hsrq_host_id r) else 1)
      | Item_port_config r \<Rightarrow>
          (if op = CFG_BOP_GET \<or> op = CFG_BOP_SET \<and> pcreq_config r \<noteq> None then parts (pcreq_dev_id r) (pcreq_port_id r) else 1)
      | Item_port_status r \<Rightarrow> (if op = CFG_BOP_GET then parts (pstreq_dev_id r) (pstreq_port_id r) else 1)
      | Item_port_stats r \<Rightarrow> (if op \<in> {CFG_BOP_GET, CFG_BOP_CLEAR} then parts (psrq_dev_id r) (psrq_port_id r) else 1)
      | Item_switch_config r \<Rightarrow>
          (if op = CFG_BOP_GET \<or> op = CFG_BOP_SET \<and> swreq_config r \<noteq> None then devs (swreq_dev_id r) else 1)
      | Item_switch_stats r \<Rightarrow> (if op \<in> {CFG_BOP_GET, CFG_BOP_CLEAR} then devs (swsreq_dev_id r) else 1)
      | Item_defaults r \<Rightarrow> (if op = CFG_BOP_SET then devs (dsreq_dev_id r) else 1)
      | Item_stats r \<Rightarrow> (if op \<in> {CFG_BOP_GET, CFG_BOP_CLEAR} then devs (csreq_dev_id r) else 1)
      | Item_module_info r \<Rightarrow> (if op = CFG_BOP_GET then mods (mireq_dev_id r) (mireq_mod_id r) else 1)
      | Item_module_status r \<Rightarrow> (if op = CFG_BOP_GET then mods (mstreq_dev_id r) (mstreq_mod_id r) else 1)
      | Item_module_mem r \<Rightarrow>
          (let mem = (\<lambda>bad. mem_count (mmreq_dev_id r) (mmreq_mod_id r) bad n (least (mmreq_mod_id r))) in
           if op = CFG_BOP_GET then mem (isl (get_mem_count (mmreq_mem r)))
           else if op = CFG_BOP_SET then mem (isl (set_mem_count (mmreq_mem r))) else 1)
      | Item_module_gpio r \<Rightarrow> (if op \<in> {CFG_BOP_GET, CFG_BOP_SET} then parts (mgreq_dev_id r) (mgreq_mod_id r) else 1)
      | _ \<Rightarrow> 1)"

lemma served_cfg_wrapped: "cfg_served f s lo hi \<Longrightarrow> cfg_served (cfg_wrapped op item f) s lo hi"
  by (auto simp: cfg_served_def cfg_wrapped_def)

lemma served_cfg_server:
  assumes "cfg_agent_good s"
  shows "cfg_served cfg_get_server_status s 1 1" and "cfg_served cfg_get_server_config s 1 1" and "cfg_served (cfg_error_resp err op) s 1 1"
  using assms by (simp_all add: cfg_served_def cfg_get_server_status_def cfg_get_server_config_def cfg_error_resp_def)

lemma served_registers:
  fixes s :: "'x SmartnicConfigImpl"
  assumes "cfg_agent_good s"
  defines "n \<equiv> length (cfg_devices s)"
  shows "cfg_served (get_device_status d) s (range_count d n 1) (range_count d n 1)"
    and "cfg_served (get_host_config env h) s (range_count (hcreq_dev_id h) n (range_count (hcreq_host_id h) 2 1))
      (range_count (hcreq_dev_id h) n (range_count (hcreq_host_id h) 2 1))"
    and "cfg_served (get_port_config env p) s (range_count (pcreq_dev_id p) n (range_count (pcreq_port_id p) 2 1))
      (range_count (pcreq_dev_id p) n (range_count (pcreq_port_id p) 2 1))"
    and "cfg_served (get_port_status env q) s (range_count (pstreq_dev_id q) n (range_count (pstreq_port_id q) 2 1))
      (range_count (pstreq_dev_id q) n (range_count (pstreq_port_id q) 2 1))"
    and "cfg_served (get_switch_config env w) s (range_count (swreq_dev_id w) n 1) (range_count (swreq_dev_id w) n 1)"
    and "cfg_served (set_defaults env e) s (range_count (dsreq_dev_id e) n 1) (range_count (dsreq_dev_id e) n 1)"
  unfolding get_device_status_def get_host_config_def get_port_config_def get_port_status_def get_switch_config_def set_defaults_def
    n_def
  by (rule serve_device_status.agent_served serve_get_host_config.hosts_agent_served serve_get_port_config.ports_agent_served
      serve_port_status.ports_agent_served serve_get_switch_config.agent_served serve_defaults.agent_served, rule assms(1))+

lemma served_configs:
  fixes s :: "'x SmartnicConfigImpl"
  assumes "cfg_agent_good s"
  defines "n \<equiv> length (cfg_devices s)"
  shows "k = (if hcreq_config h = None then 1 else range_count (hcreq_dev_id h) n (range_count (hcreq_host_id h) 2 1)) \<Longrightarrow>
      cfg_served (set_host_config env h) s k k"
    and "k = (if pcreq_config p = None then 1 else range_count (pcreq_dev_id p) n (range_count (pcreq_port_id p) 2 1)) \<Longrightarrow>
      cfg_served (set_port_config env p) s k k"
    and "k = (if swreq_config w = None then 1 else range_count (swreq_dev_id w) n 1) \<Longrightarrow> cfg_served (set_switch_config env w) s k k"
  unfolding set_host_config_def set_port_config_def set_switch_config_def n_def
  by (hypsubst, rule with_config_served [OF _ assms(1)],
      rule serve_set_host_config.served_hosts.served_handler_axioms serve_set_port_config.served_ports.served_handler_axioms
        serve_set_switch_config.served_handler_axioms)+

lemma served_device_info:
  assumes "cfg_agent_good s" and "cfg_pci_ok env" and "cards_described env"
  shows "cfg_served (cfg_get_device_info env d) s (range_count d (length (cfg_devices s)) 1) (range_count d (length (cfg_devices s)) 1)"
  unfolding cfg_get_device_info_def by (rule served_handler.agent_served [OF device_info_served [OF assms(2,3)] assms(1)])

lemma served_stats:
  fixes s :: "'x SmartnicConfigImpl"
  assumes "cfg_agent_good s"
  defines "n \<equiv> length (cfg_devices s)"
  shows "filters_good (ce_regex env) (hsrq_filters h) \<Longrightarrow> cfg_served (get_or_clear_host_stats env h c) s
      (range_count (hsrq_dev_id h) n (range_count (hsrq_host_id h) 2 1)) (range_count (hsrq_dev_id h) n (range_count (hsrq_host_id h) 2 1))"
    and "filters_good (ce_regex env) (psrq_filters p) \<Longrightarrow> cfg_served (get_or_clear_port_stats env p c) s
      (range_count (psrq_dev_id p) n (range_count (psrq_port_id p) 2 1)) (range_count (psrq_dev_id p) n (range_count (psrq_port_id p) 2 1))"
    and "filters_good (ce_regex env) (swsreq_filters w) \<Longrightarrow> cfg_served (get_or_clear_switch_stats env w c) s
      (range_count (swsreq_dev_id w) n 1) (range_count (swsreq_dev_id w) n 1)"
    and "filters_good (ce_regex env) (csreq_filters a) \<Longrightarrow> cfg_served (cfg_get_or_clear_stats env a c) s
      (range_count (csreq_dev_id a) n 1) (range_count (csreq_dev_id a) n 1)"
  unfolding get_or_clear_host_stats_def get_or_clear_port_stats_def get_or_clear_switch_stats_def cfg_get_or_clear_stats_def n_def
  by (rule served_part_handler.hosts_agent_served [OF _ assms(1)] served_part_handler.ports_agent_served [OF _ assms(1)]
      served_handler.agent_served [OF _ assms(1)], erule stats_handlers_served)+

lemma served_modules:
  fixes s :: "'x SmartnicConfigImpl"
  assumes "cfg_agent_good s"
  defines "n \<equiv> length (cfg_devices s)"
  shows "k = (if mireq_mod_id i < 0 then 0 else 1) \<Longrightarrow> cfg_served (get_module_info env i) s (range_count (mireq_dev_id i) n (range_count (mireq_mod_id i) 2 k))
      (range_count (mireq_dev_id i) n (range_count (mireq_mod_id i) 2 1))"
    and "k = (if mstreq_mod_id t < 0 then 0 else 1) \<Longrightarrow> cfg_served (get_module_status env t) s
      (range_count (mstreq_dev_id t) n (range_count (mstreq_mod_id t) 2 k))
      (range_count (mstreq_dev_id t) n (range_count (mstreq_mod_id t) 2 1))"
    and "cfg_served (get_module_gpio env g) s (range_count (mgreq_dev_id g) n (range_count (mgreq_mod_id g) 2 1))
      (range_count (mgreq_dev_id g) n (range_count (mgreq_mod_id g) 2 1))"
    and "cfg_served (set_module_gpio env g) s (range_count (mgreq_dev_id g) n (range_count (mgreq_mod_id g) 2 1))
      (range_count (mgreq_dev_id g) n (range_count (mgreq_mod_id g) 2 1))"
    and "k = (if mmreq_mod_id q < 0 then 0 else 1) \<Longrightarrow> cfg_served (get_module_mem env q) s
      (mem_count (mmreq_dev_id q) (mmreq_mod_id q) (isl (get_mem_count (mmreq_mem q))) n k)
      (mem_count (mmreq_dev_id q) (mmreq_mod_id q) (isl (get_mem_count (mmreq_mem q))) n 1)"
    and "k = (if mmreq_mod_id q < 0 then 0 else 1) \<Longrightarrow> cfg_served (set_module_mem env q) s
      (mem_count (mmreq_dev_id q) (mmreq_mod_id q) (isl (set_mem_count (mmreq_mem q))) n k)
      (mem_count (mmreq_dev_id q) (mmreq_mod_id q) (isl (set_mem_count (mmreq_mem q))) n 1)"
  unfolding get_module_info_def get_module_status_def get_module_gpio_def set_module_gpio_def get_module_mem_def set_module_mem_def
    Let_def n_def
  by (hypsubst?, rule serve_module_info.served_modules.agent_served serve_module_status.served_modules.agent_served
      serve_get_gpio.served_modules.agent_served serve_set_gpio.served_modules.agent_served
      module_mem_served [OF _ assms(1)],
      (rule assms(1) serve_set_mem.served_part_handler_axioms | erule get_mem_served))+

lemma served_cfg_request:
  assumes "cfg_agent_good s" and "cfg_request_ok env req"
  shows "cfg_served (cfg_batch_request env req) s
    (cfg_answers (length (cfg_devices s)) True req) (cfg_answers (length (cfg_devices s)) False req)"
proof -
  note defs = cfg_batch_get_device_info_def cfg_batch_get_device_status_def cfg_batch_get_host_config_def
    cfg_batch_set_host_config_def cfg_batch_get_host_stats_def cfg_batch_clear_host_stats_def cfg_batch_get_port_config_def
    cfg_batch_set_port_config_def cfg_batch_get_port_status_def cfg_batch_get_port_stats_def cfg_batch_clear_port_stats_def
    cfg_batch_get_switch_config_def cfg_batch_set_switch_config_def cfg_batch_get_switch_stats_def
    cfg_batch_clear_switch_stats_def cfg_batch_set_defaults_def cfg_batch_get_stats_def cfg_batch_clear_stats_def
    cfg_batch_get_module_info_def cfg_batch_get_module_status_def cfg_batch_get_module_mem_def cfg_batch_set_module_mem_def
    cfg_batch_get_module_gpio_def cfg_batch_set_module_gpio_def cfg_batch_get_server_status_def
    cfg_batch_get_server_config_def cfg_batch_set_server_config_def
  note served = served_registers [OF assms(1)] served_device_info [OF assms(1)] served_configs [OF assms(1)] served_stats [OF assms(1)] served_modules [OF assms(1)]
    served_cfg_server [OF assms(1)] set_config_served [OF assms(1)]
  show ?thesis
    by (cases "cbreq_item req"; cases "cbreq_op req"; use assms(2) in
      \<open>simp add: cfg_batch_request_def cfg_answers_def cfg_request_ok_def defs served_cfg_wrapped served [unfolded One_nat_def]\<close>)
qed

text \<open>
  Property C5.  No stream of usable requests stops the configuration agent.  Once it has started, every batch of usable requests is
  served to its end, whatever cards, hosts, ports, modules, configurations, memories and flags the requests name, and whatever the
  registers hold and the management subsystems answer, and the agent is in order again.  The number of answers to a request is the
  number of cards and parts that it selects, or one for an error; for a request for all modules it is only bounded, by that number
  from above and by the number without any module from below, because absent modules may be skipped.  A request is usable if the
  regular expressions of its filters compile and the steps of their slices are below \<open>2 ^ 30\<close>, and a request for the description of a
  card only if the kernel's files of the cards can be read and no text of a card is missing: others can stop the agent.
  The registers of the metrics must have one of the widths that can be read.
\<close>
theorem running_agent_serves:
  assumes "SmartnicConfigImpl_new se ids debug_flags stats_flags_disable = Inr s"
    and "bar_sizes_ok (ce_bar (cse_agent se))"
    and "\<forall>req \<in> set reqs. cfg_request_ok env req"
  shows "\<exists>s' rs. CfgBatch env reqs s = Inr (s', rs) \<and> cfg_agent_good s' \<and> length (cfg_devices s') = length ids \<and>
    sum_list (map (cfg_answers (length ids) True) reqs) \<le> length rs \<and>
    length rs \<le> sum_list (map (cfg_answers (length ids) False) reqs)"
proof -
  define n where "n = length ids"
  have "cfg_agent_good s" "length (cfg_devices s) = n" using new_agent_good [OF assms(1,2)] by (simp_all add: n_def)
  then show ?thesis unfolding n_def [symmetric] using assms(3)
  proof (induction reqs arbitrary: s)
    case (Cons req reqs)
    have "cfg_served (cfg_batch_request env req) s (cfg_answers n True req) (cfg_answers n False req)"
      using served_cfg_request [OF Cons.prems(1), of env req] Cons.prems(2,3) by simp
    then obtain s1 rs1 where 1: "cfg_batch_request env req s = Inr (s1, rs1)" "cfg_agent_good s1" "length (cfg_devices s1) = n"
      "length rs1 \<in> {cfg_answers n True req..cfg_answers n False req}"
      using Cons.prems(2) unfolding cfg_served_def by blast
    then obtain s2 rs2 where 2: "CfgBatch env reqs s1 = Inr (s2, rs2)" "cfg_agent_good s2" "length (cfg_devices s2) = n"
      "sum_list (map (cfg_answers n True) reqs) \<le> length rs2" "length rs2 \<le> sum_list (map (cfg_answers n False) reqs)"
      using Cons.IH [of s1] Cons.prems(3) by auto
    then show ?case using 1 by (auto intro: add_mono)
  qed simp
qed

lemma uniform_sizes:
  fixes be :: "'x bar_env"
  assumes "\<And>blk reg. be_sizeof be blk reg = 4"
  shows "bar_sizes_ok be"
proof -
  have "io_size (mspec_io m) = 4" if "m \<in> set (cmac_stats_metrics be)" for m
    using that unfolding cmac_stats_metrics_def set_append
    by (elim UnE) (simp only: set_map, elim imageE, simp add: CMAC_STATS_COUNTER_def assms split: prod.splits)+
  moreover have "io_size (mspec_io (sm_spec sm)) = 4" if "sm \<in> set (sysmon_metrics be)" for sm
    using that unfolding sysmon_metrics_def set_append
    by (elim UnE) (simp only: set_map set_concat, elim UnionE imageE,
        auto simp: SYSMON_METRIC_MIN_MAX_def SYSMON_METRIC_def SYSMON_METRIC_ALARM_def sysmon_metric_spec_def assms split: prod.splits)+
  moreover have "io_size (mspec_io (cm_spec cm)) = 4" if "cm \<in> set (cms_card_metrics be)" for cm
    using that unfolding cms_card_metrics_def set_append
    by (elim UnE) (simp only: set_map set_concat, elim UnionE imageE,
        auto simp: CMS_CARD_METRIC_ADC_def CMS_CARD_METRIC_BIT_def cms_metric_spec_def assms split: prod.splits)
  ultimately show ?thesis by (auto simp: bar_sizes_ok_def)
qed

lemma example_described: "cfg_pci_ok (cse_agent example_cfg_start)" "cards_described (cse_agent example_cfg_start)"
proof -
  show "cfg_pci_ok (cse_agent example_cfg_start)" by (simp add: cfg_pci_ok_def example_cfg_start_def sample_env_of_def)
  have "\<exists>ci c'. cms_card_info_read ready_cms sample_cms_layout (\<lambda>_ old. old) c = Some (ci, c') \<and> pred_option card_texts_ok ci" for c
  proof -
    obtain ci where "cms_card_info_read ready_cms sample_cms_layout (\<lambda>_ old. old) c = Some (Some ci, ())"
      "ci_serial_number ci = Some 2" "ci_revision ci = Some 5" "ci_sc_version ci = Some 8" "ci_name ci = Some 11"
      "ci_payload ci = [0x21, 1, 0, 0x26, 1, 0, 0x28, 1, 0, 0x27, 1, 0]"
      by (rule ready_cms_card)
    then show ?thesis by (simp add: card_texts_ok_def card_info_string_def)
  qed
  then show "cards_described (cse_agent example_cfg_start)" by (simp add: cards_described_def example_cfg_start_def sample_env_of_def)
qed

theorem running_agent_serves_witness:
  "\<exists>s s' rs. SmartnicConfigImpl_new example_cfg_start [''0000:81:00.0'', ''0000:c1:00.0''] [] [''all''] = Inr s \<and>
     CfgBatch (cse_agent example_cfg_start)
       [\<lparr>cbreq_op = CFG_BOP_GET, cbreq_item = Item_device_info (- 1)\<rparr>,
        \<lparr>cbreq_op = CFG_BOP_GET, cbreq_item = Item_device_status (- 1)\<rparr>,
        \<lparr>cbreq_op = CFG_BOP_CLEAR, cbreq_item = Item_stats \<lparr>csreq_dev_id = 0, csreq_filters = non_zero_only\<rparr>\<rparr>,
        \<lparr>cbreq_op = CFG_BOP_GET, cbreq_item = Item_port_status \<lparr>pstreq_dev_id = 1, pstreq_port_id = - 1\<rparr>\<rparr>,
        \<lparr>cbreq_op = CFG_BOP_GET, cbreq_item = Item_module_mem \<lparr>mmreq_dev_id = 0, mmreq_mod_id = 1,
           mmreq_mem = \<lparr>mm_offset = 200, mm_page = 2, mm_count = 0, mm_data = []\<rparr>\<rparr>\<rparr>,
        \<lparr>cbreq_op = CFG_BOP_GET, cbreq_item = Item_NOT_SET\<rparr>] s = Inr (s', rs) \<and> cfg_agent_good s' \<and> length rs = 9"
proof -
  obtain s where s: "SmartnicConfigImpl_new example_cfg_start [''0000:81:00.0'', ''0000:c1:00.0''] [] [''all''] = Inr s"
    by (rule example_starts)
  let ?reqs = "[\<lparr>cbreq_op = CFG_BOP_GET, cbreq_item = Item_device_info (- 1)\<rparr>,
        \<lparr>cbreq_op = CFG_BOP_GET, cbreq_item = Item_device_status (- 1)\<rparr>,
    \<lparr>cbreq_op = CFG_BOP_CLEAR, cbreq_item = Item_stats \<lparr>csreq_dev_id = 0, csreq_filters = non_zero_only\<rparr>\<rparr>,
    \<lparr>cbreq_op = CFG_BOP_GET, cbreq_item = Item_port_status \<lparr>pstreq_dev_id = 1, pstreq_port_id = - 1\<rparr>\<rparr>,
    \<lparr>cbreq_op = CFG_BOP_GET, cbreq_item = Item_module_mem \<lparr>mmreq_dev_id = 0, mmreq_mod_id = 1,
       mmreq_mem = \<lparr>mm_offset = 200, mm_page = 2, mm_count = 0, mm_data = []\<rparr>\<rparr>\<rparr>,
    \<lparr>cbreq_op = CFG_BOP_GET, cbreq_item = Item_NOT_SET\<rparr>]"
  have sizes: "bar_sizes_ok (ce_bar (cse_agent example_cfg_start))"
    by (rule uniform_sizes) (simp add: example_cfg_start_def sample_env_of_def)
  have ok: "\<forall>req \<in> set ?reqs. cfg_request_ok (cse_agent example_cfg_start) req"
    by (simp add: cfg_request_ok_def demo_good(2) example_described)
  have count: "sum_list (map (cfg_answers (length [''0000:81:00.0'', ''0000:c1:00.0'']) skip) ?reqs) = 9" for skip
    by (simp add: cfg_answers_def range_count_def id_range_def mem_count_def get_mem_count_def check_mem_place_def UINT8_MAX_def)
  from running_agent_serves [OF s sizes ok, unfolded count] s show ?thesis by (meson le_antisym)
qed

end
