(* ===== verification/P4_Run.thy ===== *)
theory P4_Run
  imports P4_Agent
begin

text \<open>
  \<^verbatim>\<open>sn-p4/src/agent/agent.cpp\<close>: \<^verbatim>\<open>agent_server_run\<close>, from the arguments of the command line and the configuration file to the
  service that answers, with the credentials of its clients and of the connection.  All of it but the flags of the statistics
  is also the text of the other agent.
\<close>

subsection \<open>Arguments, files and JSON\<close>

record server_arguments =
  arg_bus_ids :: "string list"
  arg_address :: string
  arg_port :: nat
  arg_prometheus_port :: nat
  arg_tls_cert_chain :: string
  arg_tls_key :: string
  arg_auth_tokens :: "string list"
  arg_no_config_file :: bool
  arg_config_file :: string
  arg_debug_flags :: "string list"

definition p4_default_arguments :: server_arguments where
  "p4_default_arguments =
     \<lparr>arg_bus_ids = [], arg_address = ''[::]'', arg_port = 50050, arg_prometheus_port = 8000,
      arg_tls_cert_chain = '''', arg_tls_key = '''', arg_auth_tokens = [],
      arg_no_config_file = False, arg_config_file = ''sn-p4.json'', arg_debug_flags = []\<rparr>"

text \<open>
  The values of the JSON library: \<open>js_member\<close> is \<^verbatim>\<open>operator[]\<close> and \<open>js_as_string\<close> is \<^verbatim>\<open>asString\<close>, which throw on a value
  without members or without a text (\<open>None\<close>); \<open>js_items\<close> are the values of an array in its order.
\<close>

record 'j json_lib =
  js_null :: 'j
  js_is_null :: "'j \<Rightarrow> bool"
  js_is_object :: "'j \<Rightarrow> bool"
  js_is_array :: "'j \<Rightarrow> bool"
  js_items :: "'j \<Rightarrow> 'j list"
  js_member :: "'j \<Rightarrow> string \<Rightarrow> 'j option"
  js_as_string :: "'j \<Rightarrow> string option"

text \<open>
  The files: whether \<^verbatim>\<open>access\<close> finds a path, the bytes that come out of the opened file, up to its end or to an error of
  reading, and the parser with the result of reading the text to its end.
\<close>

record 'j server_files =
  sf_access :: "string \<Rightarrow> bool"
  sf_open :: "string \<Rightarrow> string option"
  sf_parse :: "string \<Rightarrow> 'j option"

definition and_then :: "'e + 'a \<Rightarrow> ('a \<Rightarrow> 'e + 'b) \<Rightarrow> 'e + 'b" where
  "and_then r f = (case r of Inl e \<Rightarrow> Inl e | Inr x \<Rightarrow> f x)"

lemma and_then_simps [simp]: "and_then (Inl e) f = Inl e" "and_then (Inr x) f = f x"
  by (simp_all add: and_then_def)

lemma and_then_Inr: "and_then r f = Inr y \<longleftrightarrow> (\<exists>x. r = Inr x \<and> f x = Inr y)"
  by (cases r) simp_all

text \<open>
  After the file is opened, the code asks the input stream whether reading failed.  The copy through \<^verbatim>\<open>rdbuf\<close> leaves the state of
  that stream alone and a failure would be seen on the other stream only, so that what could be read is the result.
\<close>

definition read_bin_file :: "'j server_files \<Rightarrow> string \<Rightarrow> agent_stop + string" where
  "read_bin_file files path = (case sf_open files path of None \<Rightarrow> Inl Stop_Exit | Some text \<Rightarrow> Inr text)"

definition load_config_file :: "'j server_files \<Rightarrow> string \<Rightarrow> agent_stop + 'j option" where
  "load_config_file files path =
     (if \<not> sf_access files path then Inr None
      else case sf_open files path of None \<Rightarrow> Inl Stop_Exit
      | Some text \<Rightarrow> (case sf_parse files text of None \<Rightarrow> Inl Stop_Exit | Some config \<Rightarrow> Inr (Some config)))"

subsection \<open>The configuration\<close>

definition js_get :: "'j json_lib \<Rightarrow> 'j \<Rightarrow> string \<Rightarrow> agent_stop + 'j" where
  "js_get js v key = (case js_member js v key of None \<Rightarrow> Inl Stop_Exception | Some x \<Rightarrow> Inr x)"

definition js_text :: "'j json_lib \<Rightarrow> 'j \<Rightarrow> agent_stop + string" where
  "js_text js v = (case js_as_string js v of None \<Rightarrow> Inl Stop_Exception | Some s \<Rightarrow> Inr s)"

fun js_texts :: "'j json_lib \<Rightarrow> 'j list \<Rightarrow> agent_stop + string list" where
  "js_texts js [] = Inr []"
| "js_texts js (v # vs) = and_then (js_text js v) (\<lambda>s. map_sum id ((#) s) (js_texts js vs))"

definition config_list :: "'j json_lib \<Rightarrow> 'j \<Rightarrow> agent_stop + config_value" where
  "config_list js v =
     (if js_is_null js v then Inr Config_null
      else if \<not> js_is_array js v then Inr Config_other
      else map_sum id Config_array (js_texts js (js_items js v)))"

definition server_config :: "'j json_lib \<Rightarrow> 'j server_files \<Rightarrow> 'a server_arguments_scheme \<Rightarrow> agent_stop + 'j" where
  "server_config js files args =
     and_then (if arg_no_config_file args then Inr None else load_config_file files (arg_config_file args))
       (\<lambda>loaded. case loaded of None \<Rightarrow> Inr (js_null js)
          | Some config \<Rightarrow> and_then (js_get js config ''server'')
              (\<lambda>config'. if \<not> js_is_object js config' then Inl Stop_Exit else Inr config'))"

text \<open>A value of the file is looked at only if the command line does not give one.\<close>

definition server_flags :: "'j json_lib \<Rightarrow> 'j \<Rightarrow> string \<Rightarrow> string list \<Rightarrow> agent_stop + string list" where
  "server_flags js section key arg_flags =
     (if arg_flags = []
      then and_then (js_get js section key) (\<lambda>v. and_then (config_list js v) (choose_debug_flags []))
      else choose_debug_flags arg_flags Config_null)"

definition server_auth_tokens :: "'j json_lib \<Rightarrow> 'j \<Rightarrow> string list \<Rightarrow> agent_stop + string list" where
  "server_auth_tokens js section arg_tokens =
     (if arg_tokens = []
      then and_then (js_get js section ''tokens'') (\<lambda>v. and_then (config_list js v) (choose_auth_tokens []))
      else choose_auth_tokens arg_tokens Config_null)"

definition server_tls_path :: "'j json_lib \<Rightarrow> 'j \<Rightarrow> string \<Rightarrow> string \<Rightarrow> agent_stop + string" where
  "server_tls_path js section key arg_path =
     (if arg_path = []
      then and_then (js_get js section key) (\<lambda>v. if js_is_null js v then Inl Stop_Exit else js_text js v)
      else Inr arg_path)"

subsection \<open>The server\<close>

record credentials =
  cred_private_key :: string
  cred_cert_chain :: string
  cred_tokens :: "string list"

definition server_credentials ::
  "'j json_lib \<Rightarrow> 'j server_files \<Rightarrow> 'a server_arguments_scheme \<Rightarrow> 'j \<Rightarrow> 'j \<Rightarrow> agent_stop + credentials" where
  "server_credentials js files args config_auth config_tls =
     and_then (server_auth_tokens js config_auth (arg_auth_tokens args)) (\<lambda>auth_tokens.
     and_then (server_tls_path js config_tls ''cert-chain'' (arg_tls_cert_chain args)) (\<lambda>tls_cert_chain.
     and_then (server_tls_path js config_tls ''key'' (arg_tls_key args)) (\<lambda>tls_key.
     and_then (read_bin_file files tls_key) (\<lambda>private_key.
     and_then (read_bin_file files tls_cert_chain) (\<lambda>cert_chain.
     Inr \<lparr>cred_private_key = private_key, cred_cert_chain = cert_chain, cred_tokens = AuthMetadataToken auth_tokens\<rparr>)))))"

text \<open>
  What the server of the library is given: the address, the credentials and the service.  The library says with \<open>build\<close> whether
  it can make a server that listens there with these credentials; \<^verbatim>\<open>BuildAndStart\<close> answers NULL otherwise, which the code does not
  look at before it asks the server for its health service.
\<close>

record 's running_server =
  run_address :: string
  run_credentials :: credentials
  run_service :: 's

type_synonym server_builder = "string \<Rightarrow> credentials \<Rightarrow> bool"

definition start_server :: "server_builder \<Rightarrow> string \<Rightarrow> credentials \<Rightarrow> 's \<Rightarrow> agent_stop + 's running_server" where
  "start_server build address cred service =
     (if build address cred then Inr \<lparr>run_address = address, run_credentials = cred, run_service = service\<rparr>
      else Inl Stop_Null_Pointer)"

lemma start_server_Inr:
  "start_server build address cred service = Inr srv \<longleftrightarrow>
     build address cred \<and> srv = \<lparr>run_address = address, run_credentials = cred, run_service = service\<rparr>"
  by (auto simp: start_server_def)

definition p4_agent_server_run ::
  "'j json_lib \<Rightarrow> 'j server_files \<Rightarrow> server_builder \<Rightarrow> 'd start_env \<Rightarrow> server_arguments \<Rightarrow>
   agent_stop + 'd SmartnicP4Impl running_server" where
  "p4_agent_server_run js files build se args =
     and_then (server_config js files args) (\<lambda>config.
     and_then (js_get js config ''auth'') (\<lambda>config_auth.
     and_then (js_get js config ''debug'') (\<lambda>config_debug.
     and_then (js_get js config ''tls'') (\<lambda>config_tls.
     and_then (server_flags js config_debug ''flags'' (arg_debug_flags args)) (\<lambda>debug_flags.
     and_then (server_credentials js files args config_auth config_tls) (\<lambda>cred.
     and_then (SmartnicP4Impl_new se (arg_bus_ids args) debug_flags)
       (start_server build (arg_address args @ '':'' @ dec (arg_port args)) cred)))))))"

end
