(* ===== verification/Cfg_Run.thy ===== *)
theory Cfg_Run
  imports Cfg_Agent P4_Run
begin

text \<open>
  \<^verbatim>\<open>sn-cfg/src/agent/agent.cpp\<close>: \<^verbatim>\<open>agent_server_run\<close> of the configuration agent, and which credentials the servers of both
  agents run with.
\<close>

record cfg_arguments = server_arguments +
  arg_stats_flags_disable :: "string list"

definition cfg_default_arguments :: cfg_arguments where
  "cfg_default_arguments =
     \<lparr>arg_bus_ids = [], arg_address = ''[::]'', arg_port = 50100, arg_prometheus_port = 8000,
      arg_tls_cert_chain = '''', arg_tls_key = '''', arg_auth_tokens = [],
      arg_no_config_file = False, arg_config_file = ''sn-cfg.json'', arg_debug_flags = [], arg_stats_flags_disable = []\<rparr>"

definition cfg_agent_server_run ::
  "'j json_lib \<Rightarrow> 'j server_files \<Rightarrow> server_builder \<Rightarrow> 'x cfg_start_env \<Rightarrow> cfg_arguments \<Rightarrow>
   agent_stop + 'x SmartnicConfigImpl running_server" where
  "cfg_agent_server_run js files build se args =
     and_then (server_config js files args) (\<lambda>config.
     and_then (js_get js config ''auth'') (\<lambda>config_auth.
     and_then (js_get js config ''debug'') (\<lambda>config_debug.
     and_then (js_get js config ''stats'') (\<lambda>config_stats.
     and_then (js_get js config ''tls'') (\<lambda>config_tls.
     and_then (server_flags js config_debug ''flags'' (arg_debug_flags args)) (\<lambda>debug_flags.
     and_then (server_flags js config_stats ''flags-disable'' (arg_stats_flags_disable args)) (\<lambda>stats_flags_disable.
     and_then (server_credentials js files args config_auth config_tls) (\<lambda>cred.
     and_then (SmartnicConfigImpl_new se (arg_bus_ids args) debug_flags stats_flags_disable)
       (start_server build (arg_address args @ '':'' @ dec (arg_port args)) cred)))))))))"

subsection \<open>The credentials of a running server\<close>

text \<open>
  What the manual of the JSON library says of null and of objects: they are not arrays, a member that is missing is null, and
  no access to a member fails.
\<close>

definition json_documented :: "'j json_lib \<Rightarrow> bool" where
  "json_documented js \<longleftrightarrow>
     (\<forall>k. js_member js (js_null js) k = Some (js_null js)) \<and> js_is_null js (js_null js) \<and>
     (\<forall>v k. js_is_object js v \<longrightarrow> js_member js v k \<noteq> None)"

lemma split_colons_not_Nil: "acc \<noteq> [] \<or> s \<noteq> [] \<Longrightarrow> split_colons acc s \<noteq> []"
  by (induction s arbitrary: acc) auto

lemma parse_env_list_not_Nil: "items \<noteq> [] \<Longrightarrow> parse_env_list items [] \<noteq> []"
  by (cases items) (auto simp: parse_env_list_def token_parts_def split_colons_not_Nil)

lemma choose_auth_tokens_not_Nil: "choose_auth_tokens arg_tokens config = Inr tokens \<Longrightarrow> tokens \<noteq> []"
  by (cases config) (auto simp: choose_auth_tokens_def parse_env_list_not_Nil split: if_splits)

lemma server_auth_tokens_not_Nil: "server_auth_tokens js section arg_tokens = Inr tokens \<Longrightarrow> tokens \<noteq> []"
  by (auto simp: server_auth_tokens_def and_then_Inr dest: choose_auth_tokens_not_Nil split: if_splits)

lemma server_tls_path_args: "server_tls_path js section key path = Inr p \<Longrightarrow> path \<noteq> [] \<Longrightarrow> p = path"
  by (simp add: server_tls_path_def)

lemma read_bin_file_iff: "read_bin_file files path = Inr text \<longleftrightarrow> sf_open files path = Some text"
  by (auto simp: read_bin_file_def split: option.splits)

text \<open>Credentials that come from the command line where it gives them, and at least one token.\<close>

definition credentials_from :: "'j server_files \<Rightarrow> 'a server_arguments_scheme \<Rightarrow> string list \<Rightarrow> credentials \<Rightarrow> bool" where
  "credentials_from files args tokens cred \<longleftrightarrow>
     tokens \<noteq> [] \<and> (arg_auth_tokens args \<noteq> [] \<longrightarrow> tokens = parse_env_list (arg_auth_tokens args) []) \<and>
     cred_tokens cred = AuthMetadataToken tokens \<and>
     (\<exists>key. (arg_tls_key args \<noteq> [] \<longrightarrow> key = arg_tls_key args) \<and> sf_open files key = Some (cred_private_key cred)) \<and>
     (\<exists>chain. (arg_tls_cert_chain args \<noteq> [] \<longrightarrow> chain = arg_tls_cert_chain args) \<and>
        sf_open files chain = Some (cred_cert_chain cred))"

lemma server_credentials_from:
  assumes "server_credentials js files args config_auth config_tls = Inr cred"
  shows "\<exists>tokens. credentials_from files args tokens cred"
proof -
  from assms obtain tokens chain key where 1: "server_auth_tokens js config_auth (arg_auth_tokens args) = Inr tokens"
    "server_tls_path js config_tls ''cert-chain'' (arg_tls_cert_chain args) = Inr chain"
    "server_tls_path js config_tls ''key'' (arg_tls_key args) = Inr key"
    "sf_open files key = Some (cred_private_key cred)" "sf_open files chain = Some (cred_cert_chain cred)"
    "cred_tokens cred = AuthMetadataToken tokens"
    by (auto simp: server_credentials_def and_then_Inr read_bin_file_iff)
  moreover have "arg_auth_tokens args \<noteq> [] \<Longrightarrow> tokens = parse_env_list (arg_auth_tokens args) []"
    using 1(1) by (simp add: server_auth_tokens_def choose_auth_tokens_def)
  ultimately show ?thesis
    using server_auth_tokens_not_Nil [OF 1(1)] server_tls_path_args [OF 1(2)] server_tls_path_args [OF 1(3)]
    unfolding credentials_from_def by blast
qed

lemma cfg_run_parts:
  assumes "cfg_agent_server_run js files build se args = Inr srv"
  obtains tokens debug_flags stats_flags_disable where "credentials_from files args tokens (run_credentials srv)"
    and "SmartnicConfigImpl_new se (arg_bus_ids args) debug_flags stats_flags_disable = Inr (run_service srv)"
proof -
  from assms obtain config_auth config_tls dflags sflags where
    "server_credentials js files args config_auth config_tls = Inr (run_credentials srv)"
    "SmartnicConfigImpl_new se (arg_bus_ids args) dflags sflags = Inr (run_service srv)"
    by (auto simp: cfg_agent_server_run_def and_then_Inr start_server_Inr)
  moreover from server_credentials_from [OF this(1)] obtain tokens where "credentials_from files args tokens (run_credentials srv)" ..
  ultimately show thesis using that by blast
qed

lemma p4_run_parts:
  assumes "p4_agent_server_run js files build se args = Inr srv"
  obtains tokens debug_flags where "credentials_from files args tokens (run_credentials srv)"
    and "SmartnicP4Impl_new se (arg_bus_ids args) debug_flags = Inr (run_service srv)"
proof -
  from assms obtain config_auth config_tls dflags where
    "server_credentials js files args config_auth config_tls = Inr (run_credentials srv)"
    "SmartnicP4Impl_new se (arg_bus_ids args) dflags = Inr (run_service srv)"
    by (auto simp: p4_agent_server_run_def and_then_Inr start_server_Inr)
  moreover from server_credentials_from [OF this(1)] obtain tokens where "credentials_from files args tokens (run_credentials srv)" ..
  ultimately show thesis using that by blast
qed

subsection \<open>The command line\<close>

text \<open>A configuration that is null, without a file, or an object has all of its sections.\<close>

lemma config_sections:
  assumes "json_documented js" and "server_config js files args = Inr config"
  obtains v where "js_get js config key = Inr v"
proof -
  have "config = js_null js \<or> js_is_object js config"
    using assms(2) by (auto simp: server_config_def and_then_Inr split: option.splits if_splits)
  then have "js_member js config key \<noteq> None" using assms(1) by (auto simp: json_documented_def)
  with that show thesis by (auto simp: js_get_def)
qed

definition command_line_complete :: "'a server_arguments_scheme \<Rightarrow> bool" where
  "command_line_complete args \<longleftrightarrow>
     arg_debug_flags args \<noteq> [] \<and> arg_auth_tokens args \<noteq> [] \<and> arg_tls_cert_chain args \<noteq> [] \<and> arg_tls_key args \<noteq> []"

lemma complete_credentials:
  assumes "command_line_complete args"
  shows "server_credentials js files args config_auth config_tls =
    and_then (read_bin_file files (arg_tls_key args)) (\<lambda>private_key.
    and_then (read_bin_file files (arg_tls_cert_chain args)) (\<lambda>cert_chain.
    Inr \<lparr>cred_private_key = private_key, cred_cert_chain = cert_chain,
         cred_tokens = AuthMetadataToken (parse_env_list (arg_auth_tokens args) [])\<rparr>))"
  using assms by (simp add: command_line_complete_def server_credentials_def server_auth_tokens_def choose_auth_tokens_def
      server_tls_path_def)

lemma complete_flags: "arg_flags \<noteq> [] \<Longrightarrow> server_flags js section key arg_flags = Inr (parse_env_list arg_flags [])"
  by (simp add: server_flags_def choose_debug_flags_def)

lemma admits_token:
  assumes "cred_tokens cred = AuthMetadataToken tokens" and "token \<in> set tokens"
  shows "Process (cred_tokens cred) [(''authorization'', ''Bearer '' @ token)] = Auth_OK"
  using assms by (auto simp: Process_def metadata_find_def AuthMetadataToken_def list_ex_iff)

end
