(* ===== verification/Cfg_Run_Props.thy ===== *)
theory Cfg_Run_Props
  imports Cfg_Run Cfg_Serve_Props
begin

text \<open>
  The servers of the agents run with the credentials that they are told: which calls they admit, and that no value of
  the configuration file has an effect on a server with a complete command line.
\<close>

lemma admits_iff:
  assumes "cred_tokens cred = AuthMetadataToken tokens"
  shows "Process (cred_tokens cred) md = Auth_OK \<longleftrightarrow>
    (\<exists>path. map_of md '':path'' = Some path \<and> prefix ''/grpc.health.v1.Health/'' path) \<or>
    (\<exists>token \<in> set tokens. map_of md ''authorization'' = Some (''Bearer '' @ token))"
  unfolding assms by (rule auth_admits_iff)

lemma credentials_admit:
  assumes "credentials_from files args tokens cred"
  shows "\<exists>tokens. tokens \<noteq> [] \<and> (arg_auth_tokens args \<noteq> [] \<longrightarrow> tokens = parse_env_list (arg_auth_tokens args) []) \<and>
    (\<forall>md. Process (cred_tokens cred) md = Auth_OK \<longleftrightarrow>
       (\<exists>path. map_of md '':path'' = Some path \<and> prefix ''/grpc.health.v1.Health/'' path) \<or>
       (\<exists>token \<in> set tokens. map_of md ''authorization'' = Some (''Bearer '' @ token)))"
proof -
  have "cred_tokens cred = AuthMetadataToken tokens" using assms by (simp add: credentials_from_def)
  from admits_iff [OF this] assms show ?thesis
    unfolding credentials_from_def by (intro exI [of _ tokens] conjI allI) blast+
qed

lemma credentials_files:
  assumes "credentials_from files args tokens cred"
  shows "\<exists>key chain. sf_open files key = Some (cred_private_key cred) \<and> sf_open files chain = Some (cred_cert_chain cred) \<and>
    (arg_tls_key args \<noteq> [] \<longrightarrow> key = arg_tls_key args) \<and> (arg_tls_cert_chain args \<noteq> [] \<longrightarrow> chain = arg_tls_cert_chain args)"
  using assms unfolding credentials_from_def by blast

text \<open>The server of the first agent has the same credentials.\<close>

lemma p4_server_admits:
  assumes "p4_agent_server_run js files build se args = Inr srv"
  shows "\<exists>tokens. tokens \<noteq> [] \<and> (arg_auth_tokens args \<noteq> [] \<longrightarrow> tokens = parse_env_list (arg_auth_tokens args) []) \<and>
    (\<forall>md. Process (cred_tokens (run_credentials srv)) md = Auth_OK \<longleftrightarrow>
       (\<exists>path. map_of md '':path'' = Some path \<and> prefix ''/grpc.health.v1.Health/'' path) \<or>
       (\<exists>token \<in> set tokens. map_of md ''authorization'' = Some (''Bearer '' @ token)))"
  using assms by (rule p4_run_parts) (rule credentials_admit)

lemma cfg_server_good:
  assumes "cfg_agent_server_run js files build se args = Inr srv" and "bar_sizes_ok (ce_bar (cse_agent se))"
  shows "cfg_agent_good (run_service srv)"
  using assms(1) by (rule cfg_run_parts) (use new_agent_good [OF _ assms(2)] in blast)

subsection \<open>Examples\<close>

datatype demo_json = J_null | J_text string | J_list "demo_json list" | J_object "(string \<times> demo_json) list"

definition demo_member :: "demo_json \<Rightarrow> string \<Rightarrow> demo_json option" where
  "demo_member v key =
     (case v of J_null \<Rightarrow> Some J_null
      | J_object ms \<Rightarrow> Some (case map_of ms key of None \<Rightarrow> J_null | Some x \<Rightarrow> x) | _ \<Rightarrow> None)"

definition demo_lib :: "demo_json json_lib" where
  "demo_lib =
     \<lparr>js_null = J_null, js_is_null = (\<lambda>v. v = J_null), js_is_object = (\<lambda>v. case v of J_object _ \<Rightarrow> True | _ \<Rightarrow> False),
      js_is_array = (\<lambda>v. case v of J_list _ \<Rightarrow> True | _ \<Rightarrow> False), js_items = (\<lambda>v. case v of J_list vs \<Rightarrow> vs | _ \<Rightarrow> []),
      js_member = demo_member, js_as_string = (\<lambda>v. case v of J_text t \<Rightarrow> Some t | J_null \<Rightarrow> Some [] | _ \<Rightarrow> None)\<rparr>"

definition demo_files :: "demo_json server_files" where
  "demo_files =
     \<lparr>sf_access = (\<lambda>path. path = ''sn-cfg.json''), sf_open = (\<lambda>path. Some (''text of '' @ path)),
      sf_parse = (\<lambda>_. Some (J_object [(''server'', J_object
        [(''tls'', J_object [(''cert-chain'', J_text ''chain.pem''), (''key'', J_text ''server.key'')]),
         (''auth'', J_object [(''tokens'', J_list [J_text ''abc'', J_text ''def''])]),
         (''stats'', J_object [(''flags-disable'', J_list [J_text ''all''])])])]))\<rparr>"

lemma demo_documented: "json_documented demo_lib"
  by (simp add: json_documented_def demo_lib_def demo_member_def split: demo_json.split)

text \<open>A library that can listen on the default port only.\<close>

definition demo_builder :: server_builder where
  "demo_builder address cred \<longleftrightarrow> address = ''[::]:50100''"

definition demo_arguments :: cfg_arguments where
  "demo_arguments = cfg_default_arguments\<lparr>arg_bus_ids := [''0000:81:00.0'', ''0000:c1:00.0'']\<rparr>"

definition full_arguments :: cfg_arguments where
  "full_arguments = demo_arguments\<lparr>arg_debug_flags := [''none''], arg_stats_flags_disable := [''all''],
     arg_auth_tokens := [''ghi:jkl''], arg_tls_key := ''own.key'', arg_tls_cert_chain := ''own.pem''\<rparr>"

lemmas demo_values = demo_lib_def demo_files_def demo_builder_def demo_member_def demo_arguments_def full_arguments_def cfg_default_arguments_def

text \<open>
  Property C20.  No server runs without authentication.  However it was configured, a server of the configuration agent that
  runs has at least one token, and it admits a call exactly if it is for the health service or bears one of its tokens; tokens on
  the command line or in the environment take the place of those of the file.  The key and the certificates of its
  connections were read from files, from those of the command line if it names any.
\<close>
theorem running_server_admits:
  assumes "cfg_agent_server_run js files build se args = Inr srv"
  shows "(\<exists>tokens. tokens \<noteq> [] \<and> (arg_auth_tokens args \<noteq> [] \<longrightarrow> tokens = parse_env_list (arg_auth_tokens args) []) \<and>
      (\<forall>md. Process (cred_tokens (run_credentials srv)) md = Auth_OK \<longleftrightarrow>
         (\<exists>path. map_of md '':path'' = Some path \<and> prefix ''/grpc.health.v1.Health/'' path) \<or>
         (\<exists>token \<in> set tokens. map_of md ''authorization'' = Some (''Bearer '' @ token)))) \<and>
    (\<exists>key chain. sf_open files key = Some (cred_private_key (run_credentials srv)) \<and>
      sf_open files chain = Some (cred_cert_chain (run_credentials srv)) \<and>
      (arg_tls_key args \<noteq> [] \<longrightarrow> key = arg_tls_key args) \<and>
      (arg_tls_cert_chain args \<noteq> [] \<longrightarrow> chain = arg_tls_cert_chain args))"
proof -
  from assms obtain tokens where "credentials_from files args tokens (run_credentials srv)" by (rule cfg_run_parts)
  from credentials_admit [OF this] credentials_files [OF this] show ?thesis by (rule conjI)
qed

theorem running_server_admits_witness:
  "\<exists>srv. cfg_agent_server_run demo_lib demo_files demo_builder example_cfg_start demo_arguments = Inr srv \<and>
     (\<exists>tokens. tokens \<noteq> [] \<and> (Process (cred_tokens (run_credentials srv)) [(''authorization'', ''Bearer abc'')] = Auth_OK \<longleftrightarrow>
        ''abc'' \<in> set tokens))"
proof -
  obtain s where s: "SmartnicConfigImpl_new example_cfg_start [''0000:81:00.0'', ''0000:c1:00.0''] [] [''all''] = Inr s"
    by (rule example_starts)
  then obtain srv where srv: "cfg_agent_server_run demo_lib demo_files demo_builder example_cfg_start demo_arguments = Inr srv"
    by (simp add: cfg_agent_server_run_def server_config_def load_config_file_def js_get_def server_flags_def config_list_def
        js_text_def server_credentials_def server_auth_tokens_def server_tls_path_def read_bin_file_def choose_debug_flags_def
        choose_auth_tokens_def start_server_def dec.simps char_of_def bit_0 bit_Suc demo_values)
  from running_server_admits [OF this] obtain tokens where "tokens \<noteq> []"
    "\<forall>md. Process (cred_tokens (run_credentials srv)) md = Auth_OK \<longleftrightarrow>
         (\<exists>path. map_of md '':path'' = Some path \<and> prefix ''/grpc.health.v1.Health/'' path) \<or>
         (\<exists>token \<in> set tokens. map_of md ''authorization'' = Some (''Bearer '' @ token))" by blast
  with srv show ?thesis by (intro exI [of _ srv] exI [of _ tokens]) auto
qed

text \<open>
  Property C32.  If the command line gives the flags, the tokens and the two files of the connection, and the JSON library treats null
  and objects as documented, no value of the configuration file has an effect: the server that runs has the values of the command line.  The program ends without serving exactly if
  the configuration file cannot be used (it cannot be opened or parsed, or has no section of the server), a file of the connection
  cannot be opened, the agent cannot be made, or the library cannot build a server with the address and the credentials, in which
  case it calls through a null pointer.
\<close>
theorem command_line_decides:
  assumes "json_documented js" and "command_line_complete args" and "arg_stats_flags_disable args \<noteq> []"
  shows "cfg_agent_server_run js files build se args =
    and_then (server_config js files args) (\<lambda>_.
    (case (sf_open files (arg_tls_key args), sf_open files (arg_tls_cert_chain args)) of
       (Some private_key, Some cert_chain) \<Rightarrow>
         (let address = arg_address args @ '':'' @ dec (arg_port args);
              cred = \<lparr>cred_private_key = private_key, cred_cert_chain = cert_chain,
                      cred_tokens = AuthMetadataToken (parse_env_list (arg_auth_tokens args) [])\<rparr>
          in and_then (SmartnicConfigImpl_new se (arg_bus_ids args) (parse_env_list (arg_debug_flags args) [])
                (parse_env_list (arg_stats_flags_disable args) []))
              (\<lambda>service. if build address cred
                 then Inr \<lparr>run_address = address, run_credentials = cred, run_service = service\<rparr>
                 else Inl Stop_Null_Pointer))
     | _ \<Rightarrow> Inl Stop_Exit))"
proof (cases "server_config js files args")
  case (Inr config)
  note sections = config_sections [OF assms(1) Inr]
  obtain auth debug stats tls where "js_get js config ''auth'' = Inr auth" "js_get js config ''debug'' = Inr debug"
    "js_get js config ''stats'' = Inr stats" "js_get js config ''tls'' = Inr tls"
    using sections [of "''auth''"] sections [of "''debug''"] sections [of "''stats''"] sections [of "''tls''"] by metis
  moreover have "arg_debug_flags args \<noteq> []" using assms(2) by (simp add: command_line_complete_def)
  ultimately show ?thesis
    by (simp add: cfg_agent_server_run_def Inr complete_credentials [OF assms(2)] complete_flags assms(3) read_bin_file_def
        start_server_def [abs_def] Let_def split: option.split)
qed (simp add: cfg_agent_server_run_def)

theorem command_line_decides_witness:
  "\<exists>srv. cfg_agent_server_run demo_lib demo_files demo_builder example_cfg_start full_arguments = Inr srv \<and>
     run_address srv = ''[::]:50100'' \<and> cred_tokens (run_credentials srv) = [''Bearer ghi'', ''Bearer jkl''] \<and>
     cred_private_key (run_credentials srv) = ''text of own.key''"
proof -
  obtain config where config: "server_config demo_lib demo_files full_arguments = Inr config"
    by (simp add: server_config_def load_config_file_def js_get_def demo_values)
  have complete: "command_line_complete full_arguments" "arg_stats_flags_disable full_arguments \<noteq> []"
    by (simp_all add: command_line_complete_def demo_values)
  obtain s where s: "SmartnicConfigImpl_new example_cfg_start [''0000:81:00.0'', ''0000:c1:00.0''] [''none''] [''all''] = Inr s"
    by (rule example_starts)
  from command_line_decides [OF demo_documented complete, of demo_files demo_builder example_cfg_start, unfolded config and_then_simps] s
  show ?thesis
    by (simp add: demo_values parse_env_list_def token_parts_def AuthMetadataToken_def dec.simps char_of_def bit_0 bit_Suc)
qed

end
