(* ===== verification/Snp4_Unit_Tests.thy ===== *)
theory Snp4_Unit_Tests
  imports Snp4_Rule_Props
begin

text \<open>
  \<^verbatim>\<open>libsnp4/src/snp4_table_ut.cpp\<close> and \<^verbatim>\<open>snp4_info_ut.c\<close>: the unit tests of the packing of rules, with the pipeline that stands
  in for the loader in them.  Each test packs a rule with one match for one of the tables and compares the status; all of them
  hold of the model, for every library that has the documented behaviour of GMP.
\<close>

subsection \<open>The pipeline of the tests\<close>

text \<open>Fields that the initialiser leaves out are zero.\<close>

definition mock_table ::
  "string \<Rightarrow> nat \<Rightarrow> snp4_info_match list \<Rightarrow> nat \<Rightarrow> nat \<Rightarrow> snp4_info_action list \<Rightarrow> bool \<Rightarrow> nat \<Rightarrow> snp4_info_table" where
  "mock_table name key_bits matches response_bits actionid_bits actions priority_required priority_bits =
     \<lparr>table_name = name, table_num_entries = 0, table_endian = ENDIAN_BIG, table_mode = MODE_BCAM, table_num_masks = 0,
      table_key_bits = key_bits, table_matches = matches, table_response_bits = response_bits,
      table_actionid_bits = actionid_bits, table_actions = actions, table_priority_required = priority_required,
      table_priority_bits = priority_bits\<rparr>"

definition a_nop :: snp4_info_action where
  "a_nop = \<lparr>action_name = ''a_nop'', action_param_bits = 0, action_params = []\<rparr>"

definition t_p128 :: snp4_info_table where
  "t_p128 = mock_table ''t_p128'' 128 [\<lparr>match_type = MATCH_TYPE_PREFIX, match_bits = 128\<rparr>] 64 2 [a_nop] True 8"

definition t_b17 :: snp4_info_table where
  "t_b17 = mock_table ''t_b17'' 17 [\<lparr>match_type = MATCH_TYPE_BITFIELD, match_bits = 17\<rparr>] 64 2 [a_nop] False 0"

definition t_c31 :: snp4_info_table where
  "t_c31 = mock_table ''t_c31'' 31 [\<lparr>match_type = MATCH_TYPE_CONSTANT, match_bits = 31\<rparr>] 64 2 [a_nop] False 0"

definition t_r16 :: snp4_info_table where
  "t_r16 = mock_table ''t_r16'' 16 [\<lparr>match_type = MATCH_TYPE_RANGE, match_bits = 16\<rparr>] 64 2 [a_nop] True 8"

definition t_t9 :: snp4_info_table where
  "t_t9 = mock_table ''t_t9'' 9 [\<lparr>match_type = MATCH_TYPE_TERNARY, match_bits = 9\<rparr>] 64 2 [a_nop] True 8"

definition t_u3 :: snp4_info_table where
  "t_u3 = mock_table ''t_u3'' 3 [\<lparr>match_type = MATCH_TYPE_UNUSED, match_bits = 3\<rparr>] 64 2 [a_nop] True 8"

definition t_multi :: snp4_info_table where
  "t_multi = mock_table ''t_multi'' 34
     [\<lparr>match_type = MATCH_TYPE_BITFIELD, match_bits = 3\<rparr>, \<lparr>match_type = MATCH_TYPE_CONSTANT, match_bits = 3\<rparr>,
      \<lparr>match_type = MATCH_TYPE_PREFIX, match_bits = 6\<rparr>, \<lparr>match_type = MATCH_TYPE_RANGE, match_bits = 13\<rparr>,
      \<lparr>match_type = MATCH_TYPE_TERNARY, match_bits = 7\<rparr>, \<lparr>match_type = MATCH_TYPE_UNUSED, match_bits = 2\<rparr>]
     61 0
     [a_nop,
      \<lparr>action_name = ''a_one'', action_param_bits = 24, action_params = [\<lparr>param_name = ''a'', param_bits = 24\<rparr>]\<rparr>,
      \<lparr>action_name = ''a_two'', action_param_bits = 52,
       action_params = [\<lparr>param_name = ''a'', param_bits = 13\<rparr>, \<lparr>param_name = ''b'', param_bits = 39\<rparr>]\<rparr>,
      \<lparr>action_name = ''a_three'', action_param_bits = 60,
       action_params = [\<lparr>param_name = ''a'', param_bits = 13\<rparr>, \<lparr>param_name = ''b'', param_bits = 39\<rparr>,
         \<lparr>param_name = ''c'', param_bits = 8\<rparr>]\<rparr>]
     True 3"

definition mock_pipeline :: snp4_info_pipeline where
  "mock_pipeline =
     \<lparr>pipeline_name = [], pipeline_tables = [t_p128, t_b17, t_c31, t_r16, t_t9, t_u3, t_multi], pipeline_counter_blocks = []\<rparr>"

subsection \<open>The tests\<close>

record unit_test =
  ut_name :: string
  ut_rule :: sn_rule
  ut_status :: snp4_status

text \<open>What the fixtures set up: an empty rule for the table and its only action, to which the test adds a match.\<close>

definition table_test :: "string \<Rightarrow> string \<times> sn_match \<times> snp4_status \<Rightarrow> unit_test" where
  "table_test table test =
     (let (name, m, status) = test in
      \<lparr>ut_name = name,
       ut_rule = \<lparr>rule_table_name = Some table, rule_matches = [m], rule_action_name = Some ''a_nop'', rule_params = [],
                  rule_priority = 0\<rparr>,
       ut_status = status\<rparr>)"

definition SNP4TablePrefixTest :: "unit_test list" where
  "SNP4TablePrefixTest = map (table_test ''t_p128'')
    [(''PackPrefixFieldAsKeyMask'', FORMAT_KEY_MASK 0x000aabbccddeeff00112233445566778 0xffffe000000000000000000000000000,
        SNP4_STATUS_OK),
     (''PackPrefixFieldAsPrefixMin'', FORMAT_PREFIX 0xaabbccddeeff00112233445566778 0, SNP4_STATUS_OK),
     (''PackPrefixFieldAsPrefixMax'', FORMAT_PREFIX 0xaabbccddeeff00112233445566778 128, SNP4_STATUS_OK),
     (''PackPrefixFieldAsPrefixMid'', FORMAT_PREFIX 0xaabbccddeeff00112233445566778 19, SNP4_STATUS_OK),
     (''PackPrefixFieldAsKeyMaskTooWide'', FORMAT_KEY_MASK 0x000aabbccddeeff00112233445566778 0x1ffffe000000000000000000000000000,
        SNP4_STATUS_MATCH_MASK_TOO_BIG),
     (''PackPrefixFieldAsKey'', FORMAT_KEY_ONLY 0xaabbccddeeff00112233445566778, SNP4_STATUS_OK),
     (''PackPrefixWithSparseMask'', FORMAT_KEY_MASK 0x000aabbccddeeff00112233445566778 0xffffe00000000000ffff000000000000,
        SNP4_STATUS_MATCH_INVALID_PREFIX_MASK),
     (''PackPrefixWithInvalidPrefixLen'', FORMAT_PREFIX 0xaabbccddeeff00112233445566778 999, SNP4_STATUS_MATCH_MASK_TOO_WIDE)]"

definition SNP4TableBitfieldTest :: "unit_test list" where
  "SNP4TableBitfieldTest = map (table_test ''t_b17'')
    [(''PackBitfieldFieldAsKeyMaskOnes'', FORMAT_KEY_MASK 0x0103e 0x1ffff, SNP4_STATUS_OK),
     (''PackBitfieldFieldAsKeyMaskZero'', FORMAT_KEY_MASK 0x0103e 0x00000, SNP4_STATUS_OK),
     (''PackBitfieldFieldAsKeyTooWide'', FORMAT_KEY_ONLY 0x3e0fe, SNP4_STATUS_MATCH_KEY_TOO_BIG),
     (''PackBitfieldFieldAsSparseKeyMask'', FORMAT_KEY_MASK 0x0103e 0x0ff00, SNP4_STATUS_MATCH_INVALID_BITFIELD_MASK),
     (''PackBitfieldFieldAsKey'', FORMAT_KEY_ONLY 0xee, SNP4_STATUS_OK),
     (''PackBitfieldFieldAsPrefixOnes'', FORMAT_PREFIX 0x1111 17, SNP4_STATUS_OK),
     (''PackBitfieldFieldAsPrefixZero'', FORMAT_PREFIX 0x1111 0, SNP4_STATUS_OK)]"

definition SNP4TableConstantTest :: "unit_test list" where
  "SNP4TableConstantTest = map (table_test ''t_c31'')
    [(''PackConstantFieldAsKey'', FORMAT_KEY_ONLY 0x7bcdef01, SNP4_STATUS_OK),
     (''PackConstantFieldAsSparseKeyMask'', FORMAT_KEY_MASK 0x7bcdef01 0x00ffff00, SNP4_STATUS_MATCH_INVALID_CONSTANT_MASK),
     (''PackConstantFieldAsKeyMaskZero'', FORMAT_KEY_MASK 0x7bcdef01 0x00000000, SNP4_STATUS_MATCH_INVALID_CONSTANT_MASK)]"

definition SNP4TableRangeTest :: "unit_test list" where
  "SNP4TableRangeTest = map (table_test ''t_r16'')
    [(''PackRangeFieldAsRange'', FORMAT_RANGE 0x1234 0x1239, SNP4_STATUS_OK),
     (''PackRangeFieldAsKeyMask'', FORMAT_KEY_MASK 0x1234 0x1239, SNP4_STATUS_OK),
     (''PackRangeFieldAsKey'', FORMAT_KEY_ONLY 0x1234, SNP4_STATUS_OK),
     (''PackRangeFieldAsRangeEqual'', FORMAT_RANGE 0x1234 0x1234, SNP4_STATUS_OK),
     (''PackRangeFieldAsRangeFlipped'', FORMAT_RANGE 0x1239 0x1234, SNP4_STATUS_MATCH_INVALID_RANGE_MASK),
     (''PackRangeFieldAsKeyMaskTooBig'', FORMAT_KEY_MASK 0x1234 0xf1239, SNP4_STATUS_MATCH_MASK_TOO_BIG)]"

definition SNP4TableTernaryTest :: "unit_test list" where
  "SNP4TableTernaryTest = map (table_test ''t_t9'')
    [(''PackTernaryFieldAsKeyMask'', FORMAT_KEY_MASK 0x030 0x101, SNP4_STATUS_OK)]"

definition SNP4TableUnusedTest :: "unit_test list" where
  "SNP4TableUnusedTest = map (table_test ''t_u3'')
    [(''PackUnusedFieldAsKey'', FORMAT_KEY_ONLY 0x2, SNP4_STATUS_OK),
     (''PackUnusedFieldUnused'', FORMAT_UNUSED, SNP4_STATUS_OK),
     (''PackUnusedFieldAsKeyMaskNonZero'', FORMAT_KEY_MASK 0x2 0x3, SNP4_STATUS_MATCH_INVALID_UNUSED_MASK)]"

definition unit_tests :: "unit_test list" where
  "unit_tests = SNP4TablePrefixTest @ SNP4TableBitfieldTest @ SNP4TableConstantTest @ SNP4TableRangeTest @
     SNP4TableTernaryTest @ SNP4TableUnusedTest"

text \<open>The pack is not initialised before the call.\<close>

definition passes :: "gmp \<Rightarrow> sn_pack \<Rightarrow> unit_test \<Rightarrow> bool" where
  "passes g p test \<longleftrightarrow>
     (\<exists>p'. snp4_rule_pack g (Some mock_pipeline) (Some (ut_rule test)) (Some p) = Inr (ut_status test, p'))"

subsection \<open>Packing a rule with one match\<close>

lemmas mock_tables = t_p128_def t_b17_def t_c31_def t_r16_def t_t9_def t_u3_def

lemma mock_tables_wf:
  "table_wf t_p128" "table_wf t_b17" "table_wf t_c31" "table_wf t_r16" "table_wf t_t9" "table_wf t_u3"
  by (simp_all add: table_wf_def mock_tables mock_table_def a_nop_def match_widths_def param_widths_def)

lemma single_match_status:
  assumes g: "gmp_documented g" and wf: "table_wf t"
    and t: "snp4_info_get_table_by_name (Some pl) (rule_table_name r) = Some t"
    and a: "snp4_info_get_action_by_name (Some t) (rule_action_name r) = Some a"
    and one: "table_matches t = [spec]" "rule_matches r = [m]" "rule_params r = []" "action_params a = []" "action_param_bits a = 0"
  shows "\<exists>p'. snp4_rule_pack g (Some pl) (Some r) (Some p) =
    Inr (case pack_partial_key_mask g spec m of Inl e \<Rightarrow> e | Inr _ \<Rightarrow> SNP4_STATUS_OK, p')"
proof (cases "pack_partial_key_mask g spec m")
  case (Inl e)
  then have "e \<noteq> SNP4_STATUS_OK" by auto
  with Inl show ?thesis by (simp add: snp4_rule_pack_def t a one snp4_rule_pack_matches_def match_spec_at_def)
next
  case (Inr km)
  then have "rule_fits g t a r" by (simp add: rule_fits_def one)
  then show ?thesis using rule_pack_outcome [OF g wf t a, of p] Inr by auto
qed

lemma table_test_passes:
  assumes "gmp_documented g" and "find (\<lambda>t. table_name t = table) (pipeline_tables mock_pipeline) = Some t" and "table_wf t"
    and "table_matches t = [spec]" and "table_actions t = [a_nop]"
    and "(case pack_partial_key_mask g spec m of Inl e \<Rightarrow> e | Inr _ \<Rightarrow> SNP4_STATUS_OK) = status"
  shows "passes g p (table_test table (name, m, status))"
  using single_match_status [OF assms(1,3), of mock_pipeline "ut_rule (table_test table (name, m, status))" a_nop spec m p] assms
  by (auto simp: passes_def table_test_def snp4_info_get_table_by_name_def snp4_info_get_action_by_name_def a_nop_def)

text \<open>A mask is followed by zeros up to its lowest one, and then by ones up to the next zero.\<close>

lemma scan_run:
  assumes "gmp_documented g" and "0 < n" and "\<And>i. i < s + Suc n \<Longrightarrow> bit x i \<longleftrightarrow> s \<le> i \<and> i < s + n"
  shows "mpz_scan1 g x 0 = s" and "mpz_scan0 g x s = s + n"
  using assms(2,3) by (auto intro!: gmp_scan1 [OF assms(1)] gmp_scan0 [OF assms(1)])

lemma prefix_mask_run:
  assumes "gmp_documented g" and "x = push_bit s (mask n) OR push_bit k y" and "k = s + Suc n" and "0 < n"
  shows "validate_mask g \<lparr>match_type = MATCH_TYPE_PREFIX, match_bits = b\<rparr> key x =
    (if s + n < b then SNP4_STATUS_MATCH_INVALID_PREFIX_MASK else SNP4_STATUS_OK)"
proof -
  have bits: "bit x i \<longleftrightarrow> s \<le> i \<and> i < s + n" if "i < s + Suc n" for i
    using that by (auto simp: assms(2,3) bit_simps bit_0)
  from scan_run [OF assms(1,4) this] have "mpz_scan1 g x 0 = s" "mpz_scan0 g x s = s + n" by simp_all
  moreover have "x \<noteq> 0" using bits [of s] assms(4) by auto
  ultimately show ?thesis by (simp add: validate_mask_def)
qed

lemma mock_lookup:
  "find (\<lambda>t. table_name t = ''t_p128'') (pipeline_tables mock_pipeline) = Some t_p128"
  "find (\<lambda>t. table_name t = ''t_b17'') (pipeline_tables mock_pipeline) = Some t_b17"
  "find (\<lambda>t. table_name t = ''t_c31'') (pipeline_tables mock_pipeline) = Some t_c31"
  "find (\<lambda>t. table_name t = ''t_r16'') (pipeline_tables mock_pipeline) = Some t_r16"
  "find (\<lambda>t. table_name t = ''t_t9'') (pipeline_tables mock_pipeline) = Some t_t9"
  "find (\<lambda>t. table_name t = ''t_u3'') (pipeline_tables mock_pipeline) = Some t_u3"
  by (simp_all add: mock_pipeline_def mock_tables mock_table_def)

lemma mock_fields:
  "table_matches t_p128 = [\<lparr>match_type = MATCH_TYPE_PREFIX, match_bits = 128\<rparr>]"
  "table_matches t_b17 = [\<lparr>match_type = MATCH_TYPE_BITFIELD, match_bits = 17\<rparr>]"
  "table_matches t_c31 = [\<lparr>match_type = MATCH_TYPE_CONSTANT, match_bits = 31\<rparr>]"
  "table_matches t_r16 = [\<lparr>match_type = MATCH_TYPE_RANGE, match_bits = 16\<rparr>]"
  "table_matches t_t9 = [\<lparr>match_type = MATCH_TYPE_TERNARY, match_bits = 9\<rparr>]"
  "table_matches t_u3 = [\<lparr>match_type = MATCH_TYPE_UNUSED, match_bits = 3\<rparr>]"
  "table_actions t_p128 = [a_nop]" "table_actions t_b17 = [a_nop]" "table_actions t_c31 = [a_nop]"
  "table_actions t_r16 = [a_nop]" "table_actions t_t9 = [a_nop]" "table_actions t_u3 = [a_nop]"
  by (simp_all add: mock_tables mock_table_def)

lemmas status_eval = pack_partial_key_mask_def expand_match_def default_mask_def Let_def gmp_size_gr

text \<open>The tests of a fixture, given what the field of its table makes of the matches.\<close>

lemma fixture_passes:
  assumes "gmp_documented g" and "find (\<lambda>t. table_name t = table) (pipeline_tables mock_pipeline) = Some t" and "table_wf t"
    and "table_matches t = [spec]" and "table_actions t = [a_nop]"
    and "list_all (\<lambda>(name, m, status). (case pack_partial_key_mask g spec m of Inl e \<Rightarrow> e | Inr _ \<Rightarrow> SNP4_STATUS_OK) = status) tests"
  shows "list_all (passes g p) (map (table_test table) tests)"
  using assms(6) table_test_passes [OF assms(1-5)] by (auto simp: list_all_iff)

lemma other_fixtures_pass:
  assumes "gmp_documented g"
  shows "list_all (passes g p) SNP4TableBitfieldTest" and "list_all (passes g p) SNP4TableConstantTest"
    and "list_all (passes g p) SNP4TableRangeTest" and "list_all (passes g p) SNP4TableTernaryTest"
    and "list_all (passes g p) SNP4TableUnusedTest"
  unfolding SNP4TableBitfieldTest_def SNP4TableConstantTest_def SNP4TableRangeTest_def SNP4TableTernaryTest_def
    SNP4TableUnusedTest_def
  by (rule fixture_passes [OF assms mock_lookup(2) mock_tables_wf(2)] fixture_passes [OF assms mock_lookup(3) mock_tables_wf(3)]
      fixture_passes [OF assms mock_lookup(4) mock_tables_wf(4)] fixture_passes [OF assms mock_lookup(5) mock_tables_wf(5)]
      fixture_passes [OF assms mock_lookup(6) mock_tables_wf(6)], rule mock_fields, rule mock_fields,
      simp add: status_eval assms validate_mask_def push_bit_eq_mult)+

lemma prefix_fixture_passes:
  assumes "gmp_documented g"
  shows "list_all (passes g p) SNP4TablePrefixTest"
proof -
  let ?spec = "\<lparr>match_type = MATCH_TYPE_PREFIX, match_bits = 128\<rparr>"
  note run = prefix_mask_run [OF assms, where b = 128]
  have masks: "0xffffe000000000000000000000000000 = push_bit 109 (mask 19) OR push_bit 129 (0 :: int)"
    "0x1ffffe000000000000000000000000000 = push_bit 109 (mask 20) OR push_bit 130 (0 :: int)"
    "0xffffe00000000000ffff000000000000 = push_bit 48 (mask 16) OR push_bit 65 (push_bit 44 (mask 19) :: int)"
    "340282366920938463463374607431768211455 = push_bit 0 (mask 128) OR push_bit 129 (0 :: int)"
    by (simp_all add: push_bit_eq_mult mask_eq_exp_minus_1)
  have valid: "validate_mask g ?spec key 0xffffe000000000000000000000000000 = SNP4_STATUS_OK"
    "validate_mask g ?spec key 0x1ffffe000000000000000000000000000 = SNP4_STATUS_OK"
    "validate_mask g ?spec key 0xffffe00000000000ffff000000000000 = SNP4_STATUS_MATCH_INVALID_PREFIX_MASK"
    "validate_mask g ?spec key 340282366920938463463374607431768211455 = SNP4_STATUS_OK" "validate_mask g ?spec key 0 = SNP4_STATUS_OK" for key
    using run [OF masks(1), of key] run [OF masks(2), of key] run [OF masks(3), of key] run [OF masks(4), of key]
    by simp_all (simp add: validate_mask_def)
  show ?thesis unfolding SNP4TablePrefixTest_def
    by (rule fixture_passes [OF assms mock_lookup(1) mock_tables_wf(1)], rule mock_fields, rule mock_fields)
       (simp add: status_eval assms valid push_bit_eq_mult)
qed

text \<open>
  Property C7.  The unit tests of the packing hold.  Every rule of the repository's tests is packed, or rejected, with the status
  that its test expects, whatever was in the pack before and for every library that behaves as the manual of GMP says.
\<close>
theorem unit_tests_pass:
  assumes "gmp_documented g"
  shows "list_all (passes g p) unit_tests"
  using prefix_fixture_passes [OF assms] other_fixtures_pass [OF assms] by (simp add: unit_tests_def)

theorem unit_tests_pass_witness:
  "list_all (passes gmp_ref snp4_pack_init) unit_tests \<and> length unit_tests = 28"
proof
  show "list_all (passes gmp_ref snp4_pack_init) unit_tests" by (rule unit_tests_pass [OF gmp_ref_documented])
  show "length unit_tests = 28"
    by (simp add: unit_tests_def SNP4TablePrefixTest_def SNP4TableBitfieldTest_def SNP4TableConstantTest_def
        SNP4TableRangeTest_def SNP4TableTernaryTest_def SNP4TableUnusedTest_def)
qed

end
