(* ===== verification/Card_Access.thy ===== *)
theory Card_Access
  imports Sn_Prelude
begin

text \<open>
  \<^verbatim>\<open>libopennic/src/pcie.c\<close>, \<^verbatim>\<open>libopennic/src/smartnic_probe.c\<close>, \<^verbatim>\<open>libsnp4/src/snp4_io.c\<close> and the first callbacks of
  \<^verbatim>\<open>libsnp4/src/snp4_api.c\<close>: the mapping of the memory of a card, the counters of a probe in it, and the accesses of the
  pipeline's driver to it.  The calls of the operating system and the
  registers are parameters.
\<close>

subsection \<open>Mapping\<close>

text \<open>A call that fails is \<open>None\<close> or \<open>False\<close>; \<open>'o\<close> is the state of the system and \<open>'b\<close> an address in the memory of the process.\<close>

record ('o, 'b) os_calls =
  os_open :: "string \<Rightarrow> bool \<Rightarrow> 'o \<Rightarrow> nat option \<times> 'o"    \<comment> \<open>path and whether \<open>O_CREAT\<close> is given\<close>
  os_ftruncate :: "nat \<Rightarrow> 'o \<Rightarrow> bool \<times> 'o"
  os_mmap :: "nat \<Rightarrow> 'o \<Rightarrow> 'b option \<times> 'o"
  os_munmap :: "'b \<Rightarrow> 'o \<Rightarrow> 'o"
  os_close :: "nat \<Rightarrow> 'o \<Rightarrow> 'o"

definition smartnic_map_bar2_by_fd :: "('o, 'b) os_calls \<Rightarrow> nat \<Rightarrow> 'o \<Rightarrow> 'b option \<times> 'o" where
  "smartnic_map_bar2_by_fd os fd s = os_mmap os fd s"

definition smartnic_map_bar2_by_path :: "('o, 'b) os_calls \<Rightarrow> string \<Rightarrow> bool \<Rightarrow> 'o \<Rightarrow> 'b option \<times> 'o" where
  "smartnic_map_bar2_by_path os path create s =
     (case os_open os path create s of
        (None, s1) \<Rightarrow> (None, s1)
      | (Some fd, s1) \<Rightarrow>
        (case (if create then os_ftruncate os fd s1 else (True, s1)) of
           (False, s2) \<Rightarrow> (None, s2)
         | (True, s2) \<Rightarrow>
           (case smartnic_map_bar2_by_fd os fd s2 of (bar2, s3) \<Rightarrow> (bar2, os_close os fd s3))))"

text \<open>\<^verbatim>\<open>snprintf\<close> into 80 bytes: at most 79 characters.\<close>

definition dev_resource_path :: "string \<Rightarrow> string" where
  "dev_resource_path addr = take 79 (''/sys/bus/pci/devices/'' @ addr @ ''/resource2'')"

definition smartnic_map_bar2_by_pciaddr :: "('o, 'b) os_calls \<Rightarrow> string \<Rightarrow> 'o \<Rightarrow> 'b option \<times> 'o" where
  "smartnic_map_bar2_by_pciaddr os addr s = smartnic_map_bar2_by_path os (dev_resource_path addr) False s"

definition smartnic_unmap_bar2 :: "('o, 'b) os_calls \<Rightarrow> 'b \<Rightarrow> 'o \<Rightarrow> 'o" where
  "smartnic_unmap_bar2 os bar2 s = os_munmap os bar2 s"

text \<open>The path is that of the card if its bus id has up to 48 characters, and PCI bus ids have 12.\<close>

lemma resource_path_whole:
  "length addr \<le> 48 \<Longrightarrow> dev_resource_path addr = ''/sys/bus/pci/devices/'' @ addr @ ''/resource2''"
  by (simp add: dev_resource_path_def)

lemma resource_path_inj: "length a \<le> 48 \<Longrightarrow> length b \<le> 48 \<Longrightarrow> dev_resource_path a = dev_resource_path b \<longleftrightarrow> a = b"
  by (simp add: resource_path_whole)

text \<open>What the manuals say of the descriptors of a process.\<close>

definition descriptors_documented :: "('o, 'b) os_calls \<Rightarrow> ('o \<Rightarrow> nat set) \<Rightarrow> bool" where
  "descriptors_documented os fds \<longleftrightarrow>
     (\<forall>path create s. case os_open os path create s of
        (None, s') \<Rightarrow> fds s' = fds s | (Some fd, s') \<Rightarrow> fd \<notin> fds s \<and> fds s' = insert fd (fds s)) \<and>
     (\<forall>fd s. fds (snd (os_ftruncate os fd s)) = fds s) \<and> (\<forall>fd s. fds (snd (os_mmap os fd s)) = fds s) \<and>
     (\<forall>fd s. fds (os_close os fd s) = fds s - {fd})"

text \<open>The mapping outlives its descriptor.  Only a file that cannot be made large enough leaves its descriptor open.\<close>

lemma map_by_path_descriptors:
  assumes "descriptors_documented os fds" and "smartnic_map_bar2_by_path os path create s = (bar2, s')"
  shows "fds s' = fds s \<or> create \<and> bar2 = None \<and> (\<exists>fd. fd \<notin> fds s \<and> fds s' = insert fd (fds s))"
proof (cases "os_open os path create s")
  case (Pair fd s1)
  have opened: "case fd of None \<Rightarrow> fds s1 = fds s | Some n \<Rightarrow> n \<notin> fds s \<and> fds s1 = insert n (fds s)"
    using assms(1) Pair unfolding descriptors_documented_def by (metis (no_types, lifting) case_prod_conv)
  have kept: "fds s2 = fds s1" if "(if create then os_ftruncate os n s1 else (True, s1)) = (ok, s2)" for n ok s2
    using assms(1) that unfolding descriptors_documented_def by (metis prod.inject snd_conv)
  have mapped: "fds s3 = fds s2" if "os_mmap os n s2 = (b, s3)" for n s2 b s3
    using assms(1) that unfolding descriptors_documented_def by (metis snd_conv)
  have closed: "fds (os_close os n s3) = fds s3 - {n}" for n s3
    using assms(1) unfolding descriptors_documented_def by blast
  show ?thesis
  proof (cases fd)
    case None
    then show ?thesis using opened Pair assms(2) by (simp add: smartnic_map_bar2_by_path_def)
  next
    case (Some n)
    obtain ok s2 where 2: "(if create then os_ftruncate os n s1 else (True, s1)) = (ok, s2)" by fastforce
    obtain b s3 where 3: "os_mmap os n s2 = (b, s3)" by fastforce
    show ?thesis
      using opened Some Pair 2 3 kept [OF 2] mapped [OF 3] closed [of n s3] assms(2)
      by (cases ok) (auto simp: smartnic_map_bar2_by_path_def smartnic_map_bar2_by_fd_def split: if_splits)
  qed
qed

subsection \<open>The counters of a probe\<close>

datatype probe_register = pkt_count_upper | pkt_count_lower | byte_count_upper | byte_count_lower

text \<open>The control word of a latch mode (on a write, or with the clock) and of clearing is generated by the build.\<close>

record 'p probe_hw =
  pr_control :: "bool \<Rightarrow> bool \<Rightarrow> 32 word"
  pr_write_control :: "32 word \<Rightarrow> 'p \<Rightarrow> 'p"
  pr_read :: "probe_register \<Rightarrow> 'p \<Rightarrow> 32 word \<times> 'p"

definition probe_read_pair :: "'p probe_hw \<Rightarrow> probe_register \<Rightarrow> probe_register \<Rightarrow> bool \<Rightarrow> 'p \<Rightarrow> 64 word option \<times> 'p" where
  "probe_read_pair hw upper lower wanted s =
     (if \<not> wanted then (None, s)
      else (case pr_read hw upper s of (u, s1) \<Rightarrow>
           (case pr_read hw lower s1 of (l, s2) \<Rightarrow> (Some (push_bit 32 (ucast u) OR ucast l), s2))))"

text \<open>\<open>None\<close> for a probe that is NULL; the flags say whether the pointers for the results are given.\<close>

definition smartnic_probe_read_counters ::
  "'p probe_hw \<Rightarrow> bool \<Rightarrow> bool \<Rightarrow> bool \<Rightarrow> 'p option \<Rightarrow> bool \<times> 64 word option \<times> 64 word option \<times> 'p option" where
  "smartnic_probe_read_counters hw packets bytes clear probe =
     (case probe of None \<Rightarrow> (False, None, None, None)
      | Some s \<Rightarrow>
        (let s1 = pr_write_control hw (pr_control hw True clear) s in
         case probe_read_pair hw pkt_count_upper pkt_count_lower packets s1 of (packet_count, s2) \<Rightarrow>
         (case probe_read_pair hw byte_count_upper byte_count_lower bytes s2 of (byte_count, s3) \<Rightarrow>
            (True, packet_count, byte_count, Some (pr_write_control hw (pr_control hw False False) s3)))))"

lemma combine_words: "unat (push_bit 32 (ucast (u :: 32 word)) OR ucast (l :: 32 word) :: 64 word) = unat u * 2 ^ 32 + unat l"
proof -
  have "push_bit 32 (ucast u) AND (ucast l :: 64 word) = 0"
    by (rule bit_word_eqI) (auto simp: bit_simps dest: bit_imp_le_length)
  then have "push_bit 32 (ucast u) OR ucast l = push_bit 32 (ucast u) + (ucast l :: 64 word)" by (simp add: disjunctive_add_eq_or)
  also have "\<dots> = word_of_nat (unat u * 2 ^ 32 + unat l)" by (simp add: push_bit_eq_mult)
  finally have "push_bit 32 (ucast u) OR (ucast l :: 64 word) = word_of_nat (unat u * 2 ^ 32 + unat l)" .
  moreover have "unat u * 2 ^ 32 + unat l < 2 ^ 64" using unsigned_less [of u, where ?'a = nat] unsigned_less [of l, where ?'a = nat] by simp
  moreover have "unat (word_of_nat n :: 64 word) = n" if "n < 2 ^ 64" for n using that by (simp add: unat_of_nat)
  ultimately show ?thesis by (simp only:)
qed

text \<open>The counts are read while they are latched, and a probe is left in the free-running mode.\<close>

lemma probe_counts:
  assumes "smartnic_probe_read_counters hw True False clear (Some s) = r"
  defines "s1 \<equiv> pr_write_control hw (pr_control hw True clear) s"
  shows "\<exists>n. fst (snd r) = Some n \<and>
    unat n = unat (fst (pr_read hw pkt_count_upper s1)) * 2 ^ 32 + unat (fst (pr_read hw pkt_count_lower (snd (pr_read hw pkt_count_upper s1))))"
  unfolding assms(1) [symmetric] s1_def
  by (simp add: smartnic_probe_read_counters_def probe_read_pair_def case_prod_beta Let_def combine_words)

subsection \<open>Accesses of the pipeline's driver\<close>

record 'm snp4_io =
  io_mem :: 'm
  snp4_io_reg_read_ctr :: "64 word"
  snp4_io_reg_write_ctr :: "64 word"

record 'm io_bus =
  bus_read :: "64 word \<Rightarrow> 'm \<Rightarrow> 32 word \<times> 'm"
  bus_write :: "64 word \<Rightarrow> 32 word \<Rightarrow> 'm \<Rightarrow> 'm"

definition snp4_io_reg_write :: "'m io_bus \<Rightarrow> 64 word \<Rightarrow> 64 word \<Rightarrow> 32 word \<Rightarrow> 'm snp4_io \<Rightarrow> bool \<times> 'm snp4_io" where
  "snp4_io_reg_write bus base_addr offset data s =
     (True, s\<lparr>io_mem := bus_write bus (base_addr + offset) data (io_mem s),
              snp4_io_reg_write_ctr := snp4_io_reg_write_ctr s + 1\<rparr>)"

definition snp4_io_reg_read :: "'m io_bus \<Rightarrow> 64 word \<Rightarrow> 64 word \<Rightarrow> 'm snp4_io \<Rightarrow> bool \<times> 32 word \<times> 'm snp4_io" where
  "snp4_io_reg_read bus base_addr offset s =
     (case bus_read bus (base_addr + offset) (io_mem s) of (data, m) \<Rightarrow>
        (True, data, s\<lparr>io_mem := m, snp4_io_reg_read_ctr := snp4_io_reg_read_ctr s + 1\<rparr>))"

lemma reg_write_read:
  assumes "\<And>a d m. fst (bus_read bus a (bus_write bus a d m)) = d"
  shows "fst (snd (snp4_io_reg_read bus b off (snd (snp4_io_reg_write bus b off data s)))) = data"
  using assms [of "b + off" data "io_mem s"] by (simp add: snp4_io_reg_read_def snp4_io_reg_write_def case_prod_beta)

text \<open>
  The callbacks that the driver is given.  The environment is NULL, without a user context, or has the base address of the
  pipeline; the pointer for the data of a read may be NULL.
\<close>

datatype xil_return = XIL_SUCCESS | XIL_ERR_NULL_PARAM | XIL_ERR_INTERNAL_ASSERTION

definition device_write ::
  "'m io_bus \<Rightarrow> 64 word option option \<Rightarrow> 64 word \<Rightarrow> 32 word \<Rightarrow> 'm snp4_io \<Rightarrow> xil_return \<times> 'm snp4_io" where
  "device_write bus env address data s =
     (case env of None \<Rightarrow> (XIL_ERR_NULL_PARAM, s)
      | Some None \<Rightarrow> (XIL_ERR_INTERNAL_ASSERTION, s)
      | Some (Some base_addr) \<Rightarrow> (XIL_SUCCESS, snd (snp4_io_reg_write bus base_addr address data s)))"

definition device_read ::
  "'m io_bus \<Rightarrow> 64 word option option \<Rightarrow> 64 word \<Rightarrow> bool \<Rightarrow> 'm snp4_io \<Rightarrow> xil_return \<times> 32 word option \<times> 'm snp4_io" where
  "device_read bus env address has_data s =
     (case env of None \<Rightarrow> (XIL_ERR_NULL_PARAM, None, s)
      | Some None \<Rightarrow> (XIL_ERR_INTERNAL_ASSERTION, None, s)
      | Some (Some base_addr) \<Rightarrow>
        (if \<not> has_data then (XIL_ERR_INTERNAL_ASSERTION, None, s)
         else case snp4_io_reg_read bus base_addr address s of (_, data, s') \<Rightarrow> (XIL_SUCCESS, Some data, s')))"

text \<open>A register of a memory that keeps what is written is read back, and both accesses are counted.\<close>

lemma device_write_read:
  assumes "\<And>a d m. fst (bus_read bus a (bus_write bus a d m)) = d" and "device_write bus env address data s = (XIL_SUCCESS, s')"
  shows "\<exists>s''. device_read bus env address True s' = (XIL_SUCCESS, Some data, s'') \<and>
    snp4_io_reg_write_ctr s'' = snp4_io_reg_write_ctr s + 1 \<and> snp4_io_reg_read_ctr s'' = snp4_io_reg_read_ctr s + 1"
proof -
  obtain base where env: "env = Some (Some base)" using assms(2) by (auto simp: device_write_def split: option.splits)
  then have "s' = snd (snp4_io_reg_write bus base address data s)" using assms(2) by (simp add: device_write_def)
  then show ?thesis using assms(1) [of "base + address" data "io_mem s"]
    by (simp add: env device_read_def snp4_io_reg_read_def snp4_io_reg_write_def case_prod_beta)
qed

end
