(* ===== verification/Spec2Isabelle.thy ===== *)
theory Spec2Isabelle
  imports Snp4_Rule_Props Snp4_Info_Props Snp4_Api_Props Stats_Filter_Props Opennic_Stats_Props
    P4_Table_Props P4_Stats_Props P4_Counters_Props P4_Agent_Props
    Cfg_Switch_Props Cfg_Port_Props Cfg_Module_Props Cfg_Start_Props Cfg_Serve_Props
    Cfg_Run_Props Snp4_Unit_Tests Card_Access
begin

text \<open>
  Verification library of the ESnet SmartNIC firmware.

  The firmware is two gRPC agents.  \<^verbatim>\<open>sn-p4/src/agent\<close> programs the P4 pipelines of network cards,
  \<^verbatim>\<open>sn-cfg/src/agent\<close> configures the cards themselves: their switch, hosts, ports and pluggable
  modules; both report statistics.  They rest on two C libraries: \<^verbatim>\<open>libsnp4\<close>, which describes a
  pipeline, packs table rules into the bytes of the hardware and calls the vendor's driver, and
  \<^verbatim>\<open>libopennic\<close>, with the registers of a card, the mailbox of its management subsystem, and the
  statistics engine that owns the metrics that the agents report.

  \<^bold>\<open>Theories and sources.\<close>
  \<^item> \<open>Sn_Prelude\<close>: C integer widths, big-endian byte strings, and the range of identifiers with the
    loop over it that all handlers of the agents share.
  \<^item> \<open>Gmp_Model\<close>: the GNU multiple precision library as a parameter (a record of functions), what its
    manual promises (\<open>gmp_documented\<close>), and a reference implementation that satisfies it.
  \<^item> \<open>Snp4_Info\<close>: \<^verbatim>\<open>snp4.h\<close>, \<^verbatim>\<open>snp4_info_hw.c\<close>, \<^verbatim>\<open>snp4_info_util.c\<close>.  The loaders that turn the
    driver's configuration into the description of a pipeline, one \<open>fun\<close> for each C loader; every
    limit of the arrays of the header is an error branch.
  \<^item> \<open>Snp4_Pack\<close>: \<^verbatim>\<open>snp4_table.c\<close>.  Rules, matches and packs; the arrays of a pack are heap pointers
    with a state (never allocated, live, freed), so that a second free or a write past the end is
    the value \<open>Inl\<close> of the type \<open>ub\<close> instead of a result.
  \<^item> \<open>Snp4_Api\<close>: \<^verbatim>\<open>snp4_api.c\<close>.  The handle of a pipeline and its operations on tables, counters and
    ECC counters; the driver is a record of state-passing functions (\<open>vitis_intf\<close>).
  \<^item> \<open>Stats_Types\<close>, \<open>Opennic_Stats\<close>: \<^verbatim>\<open>stats.h\<close>, \<^verbatim>\<open>stats.c\<close>.  Metrics, blocks, zones and domains.  A
    domain has a heap of zones (addresses to zones), because zones are freed by reference counts;
    callbacks of a block are functions on the state \<open>'h\<close> of the hardware.
  \<^item> \<open>Bit_Array\<close>, \<open>Stats_Filter\<close>: the first 720 lines of \<^verbatim>\<open>sn-p4/src/agent/stats.cpp\<close>.  The packed
    bit array, and the evaluation of metric filters on all elements of a metric at once; regular
    expressions are a parameter.
  \<^item> \<open>P4_Types\<close>, \<open>P4_Device\<close>, \<open>P4_Counters\<close>, \<open>P4_Table\<close>, \<open>P4_Stats\<close>, \<open>P4_Pipeline\<close>, \<open>P4_Server\<close>, \<open>P4_Batch\<close>,
    \<open>P4_Agent\<close>, \<open>P4_Run\<close>: the agent, one theory for each file under \<^verbatim>\<open>sn-p4/src/agent\<close> (\<open>P4_Counters\<close> also holds
    \<^verbatim>\<open>table-ecc.cpp\<close>, and \<open>P4_Run\<close> is \<^verbatim>\<open>agent_server_run\<close> of \<^verbatim>\<open>agent.cpp\<close>).  A handler is a function from the state of the agent to the state and the
    list of responses that it writes, or to a stop of the process (\<open>agent_stop\<close>: undefined behaviour
    of the memory, a stop of the statistics engine, an exception, an exit, a null pointer).

  \<^item> \<open>Opennic_Regs\<close>: the part of a card's BAR that the agents use, as a record of words.  The places of
    the bit fields, which the build generates, are parameters (\<open>bitfield\<close> and the layout records).
  \<^item> \<open>Card_Access\<close>: \<^verbatim>\<open>pcie.c\<close>, \<^verbatim>\<open>smartnic_probe.c\<close>, \<^verbatim>\<open>snp4_io.c\<close>.  The mapping of a card's memory, with the
    descriptors it opens and closes, the counters of a probe, and the accesses of the driver.
  \<^item> \<open>Opennic_Switch\<close>, \<open>Opennic_Switch_Stats\<close>, \<open>Opennic_Host\<close>, \<open>Opennic_Cmac\<close>: \<^verbatim>\<open>switch.c\<close>, \<^verbatim>\<open>qdma.c\<close>,
    \<^verbatim>\<open>flow_control.c\<close>, \<^verbatim>\<open>cmac.c\<close>.  Reading and writing selectors, queues, thresholds and MACs, and their
    statistics zones.
  \<^item> \<open>Opennic_Cms\<close>, \<open>Opennic_Cms_Card\<close>, \<open>Opennic_Cms_Module\<close>, \<open>Opennic_Cms_Stats\<close>: \<^verbatim>\<open>cms.c\<close>.  Resets and
    polling, the mailbox with its attempts, the description of a card, memories and signals of
    modules, monitors.  The subsystem is a record of functions on its own state (\<open>cms_hw\<close>).
  \<^item> \<open>Opennic_Sysmon\<close>, \<open>Opennic_Sff\<close>: \<^verbatim>\<open>sysmon.c\<close>; \<^verbatim>\<open>sff-8024.c\<close>, \<^verbatim>\<open>sff-8636.c\<close> and the pages of a module.
  \<^item> \<open>Cfg_Types\<close>, \<open>Cfg_Device\<close>, \<open>Cfg_Host\<close>, \<open>Cfg_Module\<close>, \<open>Cfg_Module_Info\<close>, \<open>Cfg_Port\<close>, \<open>Cfg_Switch\<close>,
    \<open>Cfg_Defaults\<close>, \<open>Cfg_Stats\<close>, \<open>Cfg_Server\<close>, \<open>Cfg_Batch\<close>, \<open>Cfg_Agent\<close>, \<open>Cfg_Run\<close>: the configuration agent, one theory
    for each file under \<^verbatim>\<open>sn-cfg/src/agent\<close>, with handlers of the same form as those of the first
    agent.  The text that the two agents have in common is modelled once, in the theories of the first.
    \<open>Cfg_Sample\<close> holds the cards and surroundings of the examples.

  \<^bold>\<open>How the parts are joined.\<close>  The contracts that several parts rely on are locales, each interpreted
  on the code's model in the theory that provides it: the bit array and the boolean structure of
  filters (\<open>Bit_Array\<close>, \<open>Stats_Filter\<close>), a traversal of a domain (\<open>Opennic_Stats_Props\<close>), and the
  handlers that answer once for each device, or for each pipeline of each device (\<open>P4_Types\<close>; the
  interpretations are in the theories of the handlers), and the handlers of the configuration agent that
  leave the collection of statistics alone (\<open>Cfg_Steady\<close>, with a sublocale for those of hosts, ports and modules).
  \<open>served_handler\<close> and \<open>served_part_handler\<close> (\<open>Cfg_Serve_Props\<close>) extend the latter by the promise to return with a bounded
  number of answers; every handler of that agent for a card or a part of it is an instance.

  \<^bold>\<open>What is shown.\<close>
  \<^item> Packing (\<open>Snp4_Pack_Props\<close>, \<open>Snp4_Rule_Props\<close>): which matches a field accepts and what their masks
    compare; packed keys, masks and parameters can be read back; packing succeeds exactly on the
    rules that fit, and is free of memory errors on consistent tables.  \<open>Snp4_Unit_Tests\<close> holds the
    repository's unit tests of packing (\<^verbatim>\<open>snp4_table_ut.cpp\<close>, \<^verbatim>\<open>snp4_info_ut.c\<close>), all of which hold of the model.  \<open>P4_Table_Props\<close> lifts this to
    the agent: a rule answered with OK has put the bytes it packs to into the driver.  What bytes denote is stated for numbers
    that are not negative; a negative number is accepted too, but its sign destroys the fields before it
    (\<open>negative_key_loses_fields\<close>).
  \<^item> Loading (\<open>Snp4_Info_Props\<close>): the format strings of the fields are parsed back, the loader accepts
    exactly the supported configurations and describes every table, action and counter block of them with its names,
    enumerations, widths and sizes.
  \<^item> Driver handles (\<open>Snp4_Api_Props\<close>): initialisation is all or nothing, release undoes it.
  \<^item> Filters (\<open>Stats_Filter_Props\<close>): the bit-parallel evaluation with its early exits equals the boolean
    meaning of a filter at every element.
  \<^item> Statistics (\<open>Opennic_Stats_Props\<close>, \<open>P4_Stats_Props\<close>, \<open>P4_Counters_Props\<close>): what counters hold after any
    history, that a domain reports exactly its values (in every state that its clients can reach, which the domains of the
    agent do: \<open>started_agent_reachable\<close>, \<open>clear_reachable\<close>), that traversals and releases end, what a
    request reports and what a clear resets, from the driver's counters on.
  \<^item> The agent (\<open>P4_Agent_Props\<close>, \<open>P4_Server\<close>, \<open>P4_Agent\<close>): an agent that starts satisfies an invariant
    under which every batch of usable requests is served to its end with the responses that it calls for; configuration,
    clocks, authentication.
    \<open>Cfg_Run_Props\<close>: the credentials that the servers of the agents run with, and when a server runs.
  \<^item> The configuration agent (\<open>Cfg_Switch_Props\<close>, \<open>Cfg_Port_Props\<close>, \<open>Cfg_Module_Props\<close> on
    \<open>Opennic_Cms_Props\<close>): a configuration of the switch or of a port that is set is the one read
    back, and so is what is written to the memory of a module, through the mailbox protocol; each with
    what stays unchanged.  Reading the memory of a module stays within its pages and the buffer.  \<open>Cfg_Steady\<close>, \<open>Cfg_Control_Props\<close> and \<open>Cfg_Start_Props\<close>: the agent starts with the zones
    of its cards enabled as its flags say, and they follow the flags through every sequence of requests.  \<open>Cfg_Good\<close> and \<open>Cfg_Serve_Props\<close>: the agent that has started is in order
    (its metrics can be read, by callback or from the registers), and every stream of usable requests is served to its end with
    as many answers as it selects cards and parts.
  Six of the properties state flaws of the code: a double free, a reference count that never reaches
  the release, a filter that does not end, an empty token that admits callers, a default that
  wraps around in the memory of a module, and an error that is answered as success.

  \<^bold>\<open>Bounds and fuel.\<close>  The traversal of a domain runs with as much fuel as it has zones plus one
  (\<open>zones_fuel\<close>), and ends within it when the zones are attached (\<open>zones_wf\<close>).  The loop over a slice is
  a partial function, as it need not end; for steps below \<open>2 ^ 30\<close> and metrics of fewer than \<open>2 ^ 30\<close>
  elements it does.  Counters are 64-bit words and wrap; sizes that C truncates to 16 or 32 bits
  are truncated (\<open>u16\<close>, \<open>u32\<close>).

  The loop that reads the pages of a module is a partial function; it reads at most two pages
  (\<open>range_parts\<close>).  The
  polling loops of the card management subsystem are those of the code, 20 readings, and a message is
  posted at most 5 times.

  \<^bold>\<open>Parameters and hypotheses.\<close>  GMP, the vendor's driver, regular expressions, the clock, the
  environment and the files of the kernel are arguments, and so are the layouts of the registers, the
  card management subsystem, \<^verbatim>\<open>ether_aton_r\<close> and the arithmetic of doubles (\<open>fp_ops\<close>).  The hypotheses
  are \<open>gmp_documented\<close>, \<open>driver_tracks\<close> and \<open>collects\<close> (what initialisation, release and bulk reads of the
  driver do), \<open>intf_good\<close> and \<open>pci_ok\<close>; \<open>layout_ok\<close>, \<open>cmac_layout_ok\<close> and \<open>cms_layout_ok\<close> (the bit fields of
  a register are disjoint and wide enough), \<open>block_ok\<close> and \<open>hash2qid_ok\<close> (the register arrays have their sizes),
  \<open>bar_sizes_ok\<close> (the registers of the metrics are 1, 2, 4 or 8 bytes wide), \<open>filters_good\<close> (the regular expressions of
  the filters compile and their slices advance), \<open>cfg_pci_ok\<close> and \<open>cards_described\<close> (the kernel's files of a card and its texts
  can be read, for requests of its description), and \<open>cms_serves\<close> (the subsystem does what its documentation says of a message;
  it is idealised in that a message is complete at the next read of the control register, while the code polls for it, and the
  bounds of reading a module need none of it).  \<open>json_documented\<close> is what the JSON library says of null and of objects.
  \<open>request_ok\<close> and \<open>cfg_request_ok\<close> say which requests are usable: their filters are, no request of the first
  agent switches on the dump of tables, and a request for the description of a card needs what it describes.  \<open>match_nonneg\<close>
  (and the same of parameters) says that the numbers of a rule are not negative.  \<open>reads_all\<close> asks of the read callback of a block
  one value for each element of each of its metrics; all zones of the agents satisfy it (\<open>p4_zones_read_all\<close>, \<open>cfg_zones_read_all\<close>).
  Whether the gRPC library can build a server with an address and credentials is the parameter \<open>server_builder\<close>.  Each is met by the
  concrete instance of a witness (\<open>gmp_ref\<close>, \<open>recording_intf\<close>, \<open>sample_layout\<close>, \<open>sim_hw\<close>, \<open>demo_lib\<close>).

  \<^bold>\<open>Not modelled.\<close>  Locks and the collecting thread (its round is the function that updates a block),
  the export to Prometheus, failures of memory allocation, delays and memory barriers, log output,
  the declaration of the command line (\<^verbatim>\<open>agent_server_add\<close>, a library parses it), what the gRPC server does once it is built,
  and \<^verbatim>\<open>snp4_print_target_config\<close>.
  Clients and their tests, the fields of module pages that no agent reads, the container stack and the Python tools are
  left out.
\<close>

end
